(* ===== verification/Js_Base.thy ===== *)
theory Js_Base
  imports Complex_Main
begin

text \<open>
  Shared vocabulary of the development: the parts of the JavaScript standard library that the
  TrueStub sources use, as HOL functions.

  Strings are HOL strings read as Latin-1 code units (a \<open>char\<close> is one code unit below 256), so
  lower-casing and white space follow ECMAScript on that range. Time values and durations are
  integers (milliseconds). Numbers that the sources parse or compare are the type \<open>jsnum\<close>:
  the three special values of a double and the finite ones as rationals, with the range limits of
  a double but without its rounding.
\<close>

named_theorems js_eval \<open>evaluation rules for closed terms of the model\<close>
named_theorems store_simps \<open>what a lookup returns after each store operation\<close>

section \<open>Strings\<close>

definition is_ws :: "char \<Rightarrow> bool" where
  "is_ws c = (let n = (of_char c :: nat) in n = 32 \<or> (9 \<le> n \<and> n \<le> 13) \<or> n = 160)"

definition lower_char :: "char \<Rightarrow> char" where
  "lower_char c = (let n = (of_char c :: nat) in
     if (65 \<le> n \<and> n \<le> 90) \<or> (192 \<le> n \<and> n \<le> 222 \<and> n \<noteq> 215) then char_of (n + 32) else c)"

text \<open>The alphabet of Stellar addresses.\<close>

definition base32_char :: "char \<Rightarrow> bool" where
  "base32_char c = (let n = (of_char c :: nat) in (65 \<le> n \<and> n \<le> 90) \<or> (50 \<le> n \<and> n \<le> 55))"

definition toLowerCase :: "string \<Rightarrow> string" where
  "toLowerCase s = map lower_char s"

text \<open>
  \<open>toUpperCase\<close> on Latin-1; \<open>ss\<close> replaces the sharp s, and the two letters whose capitals lie outside
  Latin-1 (micro sign, y with diaeresis) are left alone.
\<close>

definition upper_char :: "char \<Rightarrow> string" where
  "upper_char c = (let n = (of_char c :: nat) in
     if (97 \<le> n \<and> n \<le> 122) \<or> (224 \<le> n \<and> n \<le> 254 \<and> n \<noteq> 247) then [char_of (n - 32)]
     else if n = 223 then ''SS'' else [c])"

definition toUpperCase :: "string \<Rightarrow> string" where
  "toUpperCase s = concat (map upper_char s)"

definition trim_start :: "string \<Rightarrow> string" where
  "trim_start s = dropWhile is_ws s"

definition trim :: "string \<Rightarrow> string" where
  "trim s = rev (trim_start (rev (trim_start s)))"

definition startsWith :: "string \<Rightarrow> string \<Rightarrow> bool" where
  "startsWith s p = (take (length p) s = p)"

fun str_includes :: "string \<Rightarrow> string \<Rightarrow> bool" where
  "str_includes [] p = (p = [])"
| "str_includes (c # cs) p = (startsWith (c # cs) p \<or> str_includes cs p)"

text \<open>\<open>split_on c s\<close> is \<open>s.split(c)\<close> for a one-character separator; it never returns an empty list.\<close>

fun split_on :: "char \<Rightarrow> string \<Rightarrow> string list" where
  "split_on c [] = [[]]"
| "split_on c (x # xs) =
     (if x = c then [] # split_on c xs
      else (case split_on c xs of [] \<Rightarrow> [[x]] | w # ws \<Rightarrow> (x # w) # ws))"

fun join :: "string \<Rightarrow> string list \<Rightarrow> string" where
  "join sep [] = []"
| "join sep [x] = x"
| "join sep (x # y # zs) = x @ sep @ join sep (y # zs)"

text \<open>\<open>replace(/\s+/g, " ")\<close>: every run of white space becomes one blank.\<close>

function collapse :: "string \<Rightarrow> string" where
  "collapse [] = []"
| "collapse (c # cs) =
     (if is_ws c then CHR '' '' # collapse (dropWhile is_ws cs) else c # collapse cs)"
  by pat_completeness auto
termination
  by (relation "measure length") (auto simp: less_Suc_eq_le length_dropWhile_le)

text \<open>Truthiness of an optional string: \<open>undefined\<close> and the empty string are falsy.\<close>

definition truthy :: "string option \<Rightarrow> bool" where
  "truthy v = (case v of None \<Rightarrow> False | Some s \<Rightarrow> s \<noteq> [])"

fun coalesce :: "'a option \<Rightarrow> 'a option \<Rightarrow> 'a option" where
  "coalesce None y = y"
| "coalesce (Some x) y = Some x"

definition digit_char :: "nat \<Rightarrow> char" where
  "digit_char d = char_of (48 + d)"

fun show_nat :: "nat \<Rightarrow> string" where
  "show_nat n = (if n < 10 then [digit_char n] else show_nat (n div 10) @ [digit_char (n mod 10)])"

declare show_nat.simps [simp del]

definition show_int :: "int \<Rightarrow> string" where
  "show_int i = (if i < 0 then ''-'' @ show_nat (nat (- i)) else show_nat (nat i))"

lemma truthy_simps [simp]: "truthy None = False" "truthy (Some s) = (s \<noteq> [])"
  by (simp_all add: truthy_def)

lemma split_on_not_Nil [simp]: "split_on c s \<noteq> []"
  by (induction s) (auto split: list.splits)

lemma startsWith_Nil [simp]: "startsWith s []"
  by (simp add: startsWith_def)

lemma startsWith_iff: "startsWith s p \<longleftrightarrow> (\<exists>t. s = p @ t)"
  unfolding startsWith_def by (metis append_eq_conv_conj append_take_drop_id)

lemma includes_iff: "str_includes s p \<longleftrightarrow> (\<exists>u v. s = u @ p @ v)"
proof (induction s)
  case Nil
  then show ?case by auto
next
  case (Cons c cs)
  have "(\<exists>u v. c # cs = u @ p @ v) \<longleftrightarrow>
      (\<exists>v. c # cs = p @ v) \<or> (\<exists>u v. cs = u @ p @ v)"
    by (auto simp: Cons_eq_append_conv)
  with Cons show ?case by (simp add: startsWith_iff)
qed

lemma lower_char_idem [simp]: "lower_char (lower_char c) = lower_char c"
proof -
  have "(of_char c :: nat) < 256" by simp
  then show ?thesis by (auto simp: lower_char_def Let_def)
qed

lemma toLowerCase_idem [simp]: "toLowerCase (toLowerCase s) = toLowerCase s"
  by (simp add: toLowerCase_def)

lemma toLowerCase_Nil_iff [simp]: "toLowerCase s = [] \<longleftrightarrow> s = []"
  by (simp add: toLowerCase_def)

lemma dropWhile_hd: "dropWhile P xs = [] \<or> \<not> P (hd (dropWhile P xs))"
  by (induction xs) auto

lemma trim_start_idem [simp]: "trim_start (trim_start s) = trim_start s"
  by (metis dropWhile_hd dropWhile_eq_self_iff trim_start_def)

lemma trim_start_eq_self: "s = [] \<or> \<not> is_ws (hd s) \<Longrightarrow> trim_start s = s"
  by (cases s) (auto simp: trim_start_def)

lemma trim_start_rev_prefix: "\<exists>t. s = rev (trim_start (rev s)) @ t"
proof -
  have "rev s = takeWhile is_ws (rev s) @ trim_start (rev s)"
    by (simp add: trim_start_def)
  then have "s = rev (trim_start (rev s)) @ rev (takeWhile is_ws (rev s))"
    by (metis rev_append rev_rev_ident)
  then show ?thesis by blast
qed

lemma trim_idem [simp]: "trim (trim s) = trim s"
proof -
  let ?a = "trim_start s" and ?t = "rev (trim_start (rev (trim_start s)))"
  obtain r where r: "?a = ?t @ r" using trim_start_rev_prefix by blast
  have "?t = [] \<or> \<not> is_ws (hd ?t)"
    using dropWhile_hd [of is_ws s] r
    by (metis (no_types) append_is_Nil_conv hd_append2 trim_start_def)
  then have "trim_start ?t = ?t" by (rule trim_start_eq_self)
  then show ?thesis by (simp add: trim_def)
qed

section \<open>Numbers\<close>

datatype jsnum = NaN | PosInf | NegInf | Fin rat

definition isFinite :: "jsnum \<Rightarrow> bool" where
  "isFinite x = (case x of Fin _ \<Rightarrow> True | _ \<Rightarrow> False)"

text \<open>Every comparison with \<open>NaN\<close> is false, as in IEEE arithmetic.\<close>

fun js_le :: "jsnum \<Rightarrow> jsnum \<Rightarrow> bool" where
  "js_le NaN y = False"
| "js_le x NaN = False"
| "js_le NegInf y = True"
| "js_le x PosInf = True"
| "js_le (Fin a) (Fin b) = (a \<le> b)"
| "js_le x y = False"

definition js_lt :: "jsnum \<Rightarrow> jsnum \<Rightarrow> bool" where
  "js_lt x y = (x \<noteq> y \<and> js_le x y)"

definition js_round :: "rat \<Rightarrow> int" where
  "js_round x = \<lfloor>x + 1 / 2\<rfloor>"

text \<open>
  \<open>to_double\<close> applies the range of a double: a value that rounds past the largest finite double
  is an infinity, one that rounds to zero is zero. The rounding of the values between is not
  modelled.
\<close>

definition to_double :: "rat \<Rightarrow> jsnum" where
  "to_double r =
     (if 2 ^ 1024 - 2 ^ 970 \<le> r then PosInf
      else if r \<le> - (2 ^ 1024 - 2 ^ 970) then NegInf
      else if \<bar>r\<bar> * 2 ^ 1075 \<le> 1 then Fin 0
      else Fin r)"

definition is_digit :: "char \<Rightarrow> bool" where
  "is_digit c = (let n = (of_char c :: nat) in 48 \<le> n \<and> n \<le> 57)"

definition digit_val :: "char \<Rightarrow> nat" where
  "digit_val c = (of_char c :: nat) - 48"

fun digits_val :: "nat \<Rightarrow> string \<Rightarrow> nat" where
  "digits_val acc [] = acc"
| "digits_val acc (c # cs) = digits_val (10 * acc + digit_val c) cs"

text \<open>Splits a maximal run of decimal digits off the front.\<close>

definition span_digits :: "string \<Rightarrow> string \<times> string" where
  "span_digits s = (takeWhile is_digit s, dropWhile is_digit s)"

text \<open>An exponent part: empty, or \<open>e\<close> or \<open>E\<close>, an optional sign and at least one digit.\<close>

definition parse_exp :: "string \<Rightarrow> int option" where
  "parse_exp s = (case s of [] \<Rightarrow> Some 0
     | c # r \<Rightarrow>
         if c = CHR ''e'' \<or> c = CHR ''E'' then
           (let (sgn, ds) = (case r of
                CHR ''-'' # q \<Rightarrow> (-1, q) | CHR ''+'' # q \<Rightarrow> (1, q) | _ \<Rightarrow> (1, r))
            in if ds \<noteq> [] \<and> list_all is_digit ds then Some (sgn * int (digits_val 0 ds)) else None)
         else None)"

definition pow10 :: "int \<Rightarrow> rat" where
  "pow10 e = (if 0 \<le> e then 10 ^ nat e else 1 / 10 ^ nat (- e))"

text \<open>An unsigned decimal literal: digits, an optional fraction, an optional exponent.\<close>

definition parse_decimal :: "string \<Rightarrow> rat option" where
  "parse_decimal s =
     (let (ip, r) = span_digits s;
          (fp, r2) = (case r of CHR ''.'' # q \<Rightarrow> span_digits q | _ \<Rightarrow> ([], r))
      in if ip = [] \<and> fp = [] then None
         else (case parse_exp r2 of None \<Rightarrow> None
               | Some e \<Rightarrow> Some (of_nat (digits_val 0 (ip @ fp)) * pow10 (e - int (length fp)))))"

definition neg_num :: "jsnum \<Rightarrow> jsnum" where
  "neg_num x = (case x of NaN \<Rightarrow> NaN | PosInf \<Rightarrow> NegInf | NegInf \<Rightarrow> PosInf | Fin r \<Rightarrow> Fin (- r))"

definition unsigned_number :: "string \<Rightarrow> jsnum" where
  "unsigned_number s =
     (if s = ''Infinity'' then PosInf
      else (case parse_decimal s of None \<Rightarrow> NaN | Some r \<Rightarrow> to_double r))"

text \<open>A hexadecimal, octal or binary literal, which has no sign: \<open>0x\<close>, \<open>0o\<close> or \<open>0b\<close> and at least one digit.\<close>

definition radix_of :: "char \<Rightarrow> nat option" where
  "radix_of c = (if c \<in> {CHR ''x'', CHR ''X''} then Some 16 else if c \<in> {CHR ''o'', CHR ''O''} then Some 8
     else if c \<in> {CHR ''b'', CHR ''B''} then Some 2 else None)"

definition radix_digit :: "char \<Rightarrow> nat option" where
  "radix_digit c = (let n = (of_char c :: nat) in
     if 48 \<le> n \<and> n \<le> 57 then Some (n - 48) else if 97 \<le> n \<and> n \<le> 102 then Some (n - 87)
     else if 65 \<le> n \<and> n \<le> 70 then Some (n - 55) else None)"

definition radix_literal :: "string \<Rightarrow> nat option" where
  "radix_literal s = (case s of
       z # c # ds \<Rightarrow>
         (if z \<noteq> CHR ''0'' \<or> ds = [] then None
          else (case radix_of c of None \<Rightarrow> None
            | Some b \<Rightarrow>
                if list_all (\<lambda>d. case radix_digit d of None \<Rightarrow> False | Some v \<Rightarrow> v < b) ds
                then Some (foldl (\<lambda>n d. n * b + the (radix_digit d)) 0 ds) else None))
     | _ \<Rightarrow> None)"

text \<open>
  \<open>Number(s)\<close> for a string: surrounding white space is dropped, the empty string is 0, a sign is
  optional in front of a decimal literal or \<open>Infinity\<close>.
\<close>

definition js_Number :: "string \<Rightarrow> jsnum" where
  "js_Number s0 = (case trim s0 of
       [] \<Rightarrow> Fin 0
     | CHR ''-'' # r \<Rightarrow> neg_num (unsigned_number r)
     | CHR ''+'' # r \<Rightarrow> unsigned_number r
     | s \<Rightarrow> (case radix_literal s of Some n \<Rightarrow> to_double (of_nat n) | None \<Rightarrow> unsigned_number s))"

lemma radix_literal_digits: "list_all is_digit s \<Longrightarrow> radix_literal s = None"
  by (auto simp: radix_literal_def radix_of_def is_digit_def split: list.splits)

lemmas radix_defs = radix_literal_def radix_of_def radix_digit_def

lemmas js_string_defs = toLowerCase_def lower_char_def trim_def trim_start_def is_ws_def
  startsWith_def

lemma set_trim: "set (trim s) \<subseteq> set s"
  by (auto simp: trim_def trim_start_def dest!: set_dropWhileD)

lemma to_double_normal:
  assumes "\<bar>r\<bar> \<le> 10 ^ 300" and "1 / 10 ^ 300 \<le> \<bar>r\<bar>"
  shows "to_double r = Fin r"
proof -
  have a: "(10 :: rat) ^ 300 < 2 ^ 1024 - 2 ^ 970" by simp
  have b: "(10 :: rat) ^ 300 < 2 ^ 1075" by simp
  have "1 < 2 ^ 1075 / (10 :: rat) ^ 300" using b by simp
  also have "\<dots> \<le> \<bar>r\<bar> * 2 ^ 1075"
    using mult_right_mono [OF assms(2), of "2 ^ 1075"] by simp
  finally have "\<not> \<bar>r\<bar> * 2 ^ 1075 \<le> 1" by linarith
  moreover have "r < 2 ^ 1024 - 2 ^ 970" "- (2 ^ 1024 - 2 ^ 970) < r"
    using a assms(1) abs_le_iff [of r "10 ^ 300"] by linarith+
  ultimately show ?thesis by (simp only: to_double_def not_le [symmetric] if_False)
qed

text \<open>A claim under a condition.\<close>

lemma if_thenI: "(c \<Longrightarrow> p) \<Longrightarrow> if c then p else True"
  by simp

section \<open>Stable sorting by a comparison function\<close>

text \<open>
  \<open>Array.prototype.sort\<close> is stable: elements the comparison calls equal keep their order. The
  argument is the test \<open>cmp a b \<le> 0\<close>.
\<close>

fun js_insort :: "('a \<Rightarrow> 'a \<Rightarrow> bool) \<Rightarrow> 'a \<Rightarrow> 'a list \<Rightarrow> 'a list" where
  "js_insort le x [] = [x]"
| "js_insort le x (y # ys) = (if le x y then x # y # ys else y # js_insort le x ys)"

fun js_sort :: "('a \<Rightarrow> 'a \<Rightarrow> bool) \<Rightarrow> 'a list \<Rightarrow> 'a list" where
  "js_sort le [] = []"
| "js_sort le (x # xs) = js_insort le x (js_sort le xs)"

lemma set_js_insort [simp]: "set (js_insort le x xs) = insert x (set xs)"
  by (induction xs) auto

lemma set_js_sort [simp]: "set (js_sort le xs) = set xs"
  by (induction xs) auto

lemma length_js_insort [simp]: "length (js_insort le x xs) = Suc (length xs)"
  by (induction xs) auto

lemma length_js_sort [simp]: "length (js_sort le xs) = length xs"
  by (induction xs) auto

lemma distinct_js_insort [simp]: "distinct (js_insort le x xs) = (x \<notin> set xs \<and> distinct xs)"
  by (induction xs) auto

lemma distinct_js_sort [simp]: "distinct (js_sort le xs) = distinct xs"
  by (induction xs) auto

lemma sorted_wrt_js_insort:
  assumes "\<And>a b. le a b \<or> le b a" and "\<And>a b c. le a b \<Longrightarrow> le b c \<Longrightarrow> le a c"
    and "sorted_wrt le xs"
  shows "sorted_wrt le (js_insort le x xs)"
  using assms(3)
proof (induction xs)
  case Nil
  then show ?case by simp
next
  case (Cons y ys)
  then show ?case using assms(1) [of x y] assms(2) by (auto intro: assms(2))
qed

lemma sorted_wrt_js_sort:
  assumes "\<And>a b. le a b \<or> le b a" and "\<And>a b c. le a b \<Longrightarrow> le b c \<Longrightarrow> le a c"
  shows "sorted_wrt le (js_sort le xs)"
  by (induction xs) (simp_all add: sorted_wrt_js_insort [of le, OF assms])

text \<open>Sorting a list that is already ordered keeps it: the stability the listing operations rely on.\<close>

lemma js_sort_sorted: "sorted_wrt le xs \<Longrightarrow> js_sort le xs = xs"
proof (induction xs)
  case (Cons x xs)
  then show ?case by (cases xs) auto
qed simp

lemma js_sort_sorted_key:
  "sorted (map f xs) \<Longrightarrow> js_sort (\<lambda>a b. f a \<le> f b) xs = xs"
  by (rule js_sort_sorted) (simp add: sorted_wrt_map)

end
