(* ===== verification/Js_Map.thy ===== *)
theory Js_Map
  imports Js_Base "HOL-Library.AList"
begin

text \<open>
  The JavaScript \<open>Map\<close> behind every in-memory store of the program, and the interfaces the
  services ask of a store. A \<open>Map\<close> iterates in insertion order, and setting an existing key keeps
  its position, so the model is an association list with \<open>AList.update\<close> and \<open>AList.delete\<close>.
\<close>

type_synonym ('k, 'v) jmap = "('k \<times> 'v) list"

definition jm_get :: "('k, 'v) jmap \<Rightarrow> 'k \<Rightarrow> 'v option" where
  "jm_get m k = map_of m k"

definition jm_has :: "('k, 'v) jmap \<Rightarrow> 'k \<Rightarrow> bool" where
  "jm_has m k = (jm_get m k \<noteq> None)"

definition jm_set :: "('k, 'v) jmap \<Rightarrow> 'k \<Rightarrow> 'v \<Rightarrow> ('k, 'v) jmap" where
  "jm_set m k v = AList.update k v m"

definition jm_delete :: "('k, 'v) jmap \<Rightarrow> 'k \<Rightarrow> ('k, 'v) jmap" where
  "jm_delete m k = AList.delete k m"

definition jm_values :: "('k, 'v) jmap \<Rightarrow> 'v list" where
  "jm_values m = map snd m"

definition jm_wf :: "('k, 'v) jmap \<Rightarrow> bool" where
  "jm_wf m = distinct (map fst m)"

text \<open>Every record is stored under its own identifier.\<close>

definition jm_keyed :: "('v \<Rightarrow> 'k) \<Rightarrow> ('k, 'v) jmap \<Rightarrow> bool" where
  "jm_keyed f m = (jm_wf m \<and> (\<forall>(k, v) \<in> set m. f v = k))"

lemma jm_get_Nil [simp]: "jm_get [] k = None"
  by (simp add: jm_get_def)

lemma jm_get_set [simp, store_simps]:
  "jm_get (jm_set m k v) k' = (if k' = k then Some v else jm_get m k')"
  by (simp add: jm_get_def jm_set_def update_conv)

lemma jm_get_delete [simp, store_simps]:
  "jm_get (jm_delete m k) k' = (if k' = k then None else jm_get m k')"
  by (simp add: jm_get_def jm_delete_def delete_conv)

lemma jm_set_Nil [simp]: "jm_set [] k v = [(k, v)]"
  by (simp add: jm_set_def)

lemma jm_set_Cons [simp]:
  "jm_set ((k', w) # m) k v = (if k' = k then (k, v) # m else (k', w) # jm_set m k v)"
  by (simp add: jm_set_def)

lemma jm_get_Cons [simp]: "jm_get ((k', w) # m) k = (if k' = k then Some w else jm_get m k)"
  by (simp add: jm_get_def)

lemma jm_delete_Nil [simp]: "jm_delete [] k = []"
  by (simp add: jm_delete_def)

lemma jm_delete_Cons [simp]:
  "jm_delete ((k', w) # m) k = (if k' = k then jm_delete m k else (k', w) # jm_delete m k)"
  by (simp add: jm_delete_def)

lemma jm_has_set [simp]: "jm_has (jm_set m k v) k' = (k' = k \<or> jm_has m k')"
  by (simp add: jm_has_def)

lemma jm_wf_Nil [simp]: "jm_wf []"
  by (simp add: jm_wf_def)

lemma jm_wf_set [intro, simp]: "jm_wf m \<Longrightarrow> jm_wf (jm_set m k v)"
  by (simp add: jm_wf_def jm_set_def distinct_update)

lemma jm_wf_delete [intro, simp]: "jm_wf m \<Longrightarrow> jm_wf (jm_delete m k)"
  by (simp add: jm_wf_def jm_delete_def distinct_delete)

lemma jm_get_iff_mem: "jm_wf m \<Longrightarrow> jm_get m k = Some v \<longleftrightarrow> (k, v) \<in> set m"
  by (simp add: jm_get_def jm_wf_def)

lemma jm_get_mem: "jm_get m k = Some v \<Longrightarrow> (k, v) \<in> set m"
  by (simp add: jm_get_def map_of_SomeD)

lemma jm_get_values: "jm_get m k = Some v \<Longrightarrow> v \<in> set (jm_values m)"
  by (force simp: jm_values_def dest: jm_get_mem)

lemma jm_set_append: "jm_get m k = None \<Longrightarrow> jm_set m k v = m @ [(k, v)]"
  by (induction m) (auto split: if_splits)

lemma jm_values_append: "jm_get m k = None \<Longrightarrow> jm_values (jm_set m k v) = jm_values m @ [v]"
  by (simp add: jm_set_append jm_values_def)

lemma jm_keyed_Nil [simp]: "jm_keyed f []"
  by (simp add: jm_keyed_def)

lemma jm_keyed_get: "jm_keyed f m \<Longrightarrow> jm_get m k = Some v \<Longrightarrow> f v = k"
  by (auto simp: jm_keyed_def dest: jm_get_mem)

lemma set_jm_set: "set (jm_set m k v) \<subseteq> insert (k, v) (set m)"
  by (induction m) (auto split: if_splits)

lemma jm_keyed_set [intro]: "jm_keyed f m \<Longrightarrow> f v = k \<Longrightarrow> jm_keyed f (jm_set m k v)"
  using set_jm_set [of m k v] by (fastforce simp: jm_keyed_def)

lemma set_jm_delete: "set (jm_delete m k) \<subseteq> set m"
  by (induction m) (auto split: if_splits)

lemma jm_keyed_delete [intro]: "jm_keyed f m \<Longrightarrow> jm_keyed f (jm_delete m k)"
  using set_jm_delete [of m k] by (fastforce simp: jm_keyed_def)

lemma jm_keyed_wf: "jm_keyed f m \<Longrightarrow> jm_wf m"
  by (simp add: jm_keyed_def)

lemma jm_values_iff: "jm_keyed f m \<Longrightarrow> v \<in> set (jm_values m) \<longleftrightarrow> jm_get m (f v) = Some v"
  by (force simp: jm_keyed_def jm_values_def jm_get_iff_mem)

lemma jm_keyed_distinct_values:
  assumes "jm_keyed f m"
  shows "distinct (jm_values m)"
proof -
  have "map f (jm_values m) = map fst m"
    using assms by (auto simp: jm_keyed_def jm_values_def)
  then show ?thesis
    using assms by (metis distinct_map jm_keyed_def jm_wf_def)
qed

lemma jm_length_set: "length (jm_set m k v) = (if jm_has m k then length m else Suc (length m))"
  by (induction m) (auto simp: jm_has_def split: if_splits)

text \<open>Grouping: the keys in the order they are first met, and a map read off by its keys.\<close>

definition first_seen :: "'a list \<Rightarrow> 'a list" where
  "first_seen xs = rev (remdups (rev xs))"

lemma first_seen_simps [simp]:
  "first_seen [] = []"
  "first_seen (xs @ [x]) = (if x \<in> set xs then first_seen xs else first_seen xs @ [x])"
  "set (first_seen xs) = set xs" "distinct (first_seen xs)"
  by (simp_all add: first_seen_def)

lemma map_fst_jm_set: "jm_has m k \<Longrightarrow> map fst (jm_set m k v) = map fst m"
  by (induction m) (auto simp: jm_has_def split: if_splits)

lemma jm_values_keys:
  assumes "jm_wf m" and "\<And>k. k \<in> set (map fst m) \<Longrightarrow> jm_get m k = Some (f k)"
  shows "jm_values m = map f (map fst m)"
proof -
  have "v = f k" if "(k, v) \<in> set m" for k v
  proof -
    have "k \<in> set (map fst m)" using that by force
    from assms(2) [OF this] show ?thesis using that jm_get_iff_mem [OF assms(1), of k v] by simp
  qed
  then show ?thesis by (auto simp: jm_values_def)
qed

section \<open>Store interfaces\<close>

text \<open>What a client of a store relies on: reading back what was written, and nothing else moving.\<close>

locale key_store =
  fixes get :: "'s \<Rightarrow> 'k \<Rightarrow> 'v option"
    and put :: "'s \<Rightarrow> 'k \<Rightarrow> 'v \<Rightarrow> 's"
  assumes get_put: "get (put s k v) k' = (if k' = k then Some v else get s k')"
begin

lemma overwrite: "get (put (put s k v) k w) k' = get (put s k w) k'"
  by (simp add: get_put)

lemma frame: "k' \<noteq> k \<Longrightarrow> get (put s k v) k' = get s k'"
  by (simp add: get_put)

lemma commute: "k \<noteq> l \<Longrightarrow> get (put (put s k v) l w) j = get (put (put s l w) k v) j"
  by (simp add: get_put)

end

text \<open>
  A store with an atomic insert-if-absent, the unique constraint the refund and transfer services
  rest on. \<open>attempts\<close> runs a sequence of inserts and records which ones won.
\<close>

fun attempts :: "('s \<Rightarrow> 'k \<Rightarrow> 'v \<Rightarrow> 's option) \<Rightarrow> 's \<Rightarrow> ('k \<times> 'v) list \<Rightarrow> bool list \<times> 's" where
  "attempts ins s [] = ([], s)"
| "attempts ins s ((k, v) # r) =
     (case ins s k v of
        None \<Rightarrow> (let (bs, t) = attempts ins s r in (False # bs, t))
      | Some s' \<Rightarrow> (let (bs, t) = attempts ins s' r in (True # bs, t)))"

locale insert_store = key_store +
  fixes ins :: "'a \<Rightarrow> 'b \<Rightarrow> 'c \<Rightarrow> 'a option"
  assumes ins_new: "get s k = None \<Longrightarrow> ins s k v = Some (put s k v)"
    and ins_dup: "get s k = Some w \<Longrightarrow> ins s k v = None"
begin

lemma ins_iff: "(ins s k v \<noteq> None) = (get s k = None)"
  by (cases "get s k") (simp_all add: ins_new ins_dup)

lemma ins_frame: "ins s k v = Some t \<Longrightarrow> get t = (get s)(k \<mapsto> v)"
  by (cases "get s k") (auto simp: ins_new ins_dup get_put fun_eq_iff)

lemma taken_stays: "get s k = Some w \<Longrightarrow> attempts ins s r = (bs, t) \<Longrightarrow> get t k = Some w"
proof (induction r arbitrary: s bs)
  case (Cons a r)
  obtain k' v where a: "a = (k', v)" by (cases a)
  show ?case
  proof (cases "ins s k' v")
    case None
    with Cons a show ?thesis by (auto split: prod.splits)
  next
    case (Some s')
    then have "get s' k = Some w"
      using Cons.prems(1) ins_frame [OF Some] ins_dup [of s k' w v] by (auto split: if_splits)
    then show ?thesis using Cons.IH Cons.prems(2) a Some by (auto split: prod.splits)
  qed
qed simp

lemma taken_all_fail:
  "get s k = Some w \<Longrightarrow> set (map fst r) \<subseteq> {k} \<Longrightarrow>
   attempts ins s r = (replicate (length r) False, s)"
  by (induction r) (auto simp: ins_dup)

text \<open>Among any number of inserts for one free key exactly the first wins.\<close>

lemma one_winner:
  assumes "get s k = None" and "set (map fst r) \<subseteq> {k}"
  shows "attempts ins s ((k, v) # r) = (True # replicate (length r) False, put s k v)"
  using assms taken_all_fail [of "put s k v" k v r] by (simp add: ins_new get_put)

end

locale erase_store = key_store +
  fixes del :: "'a \<Rightarrow> 'b \<Rightarrow> 'a"
  assumes get_del: "get (del s k) k' = (if k' = k then None else get s k')"
begin

lemma remove_recreate: "get (put (del s k) k v) k' = get (put s k v) k'"
  by (simp add: get_put get_del)

lemma remove_frame: "k' \<noteq> k \<Longrightarrow> get (del s k) k' = get s k'"
  by (simp add: get_del)

end

interpretation js_map: erase_store jm_get jm_set jm_delete
  by unfold_locales simp_all

end
