(* ===== verification/App_Error.thy ===== *)
theory App_Error
  imports Js_Map
begin

text \<open>
  \<open>middleware/errorHandler.ts\<close> and \<open>middleware/auth.ts\<close> of the backend: the typed application
  error every service throws, the JSON values that handlers receive unparsed, the last middleware
  that turns a thrown value into a response, and the authentication guards of the routes.
\<close>

section \<open>Errors and replies\<close>

datatype app_error = AppError (statusCode: nat) (err_code: string) (err_message: string)

text \<open>A JSON value as \<open>express.json()\<close> hands it over; an absent property is \<open>None\<close>.\<close>

datatype json = JNull | JBool bool | JNum jsnum | JStr string | JArr "json list"
  | JObj "(string \<times> json) list"

text \<open>
  What a \<open>throw\<close> can carry: an application error, any other \<open>Error\<close> (with its message, its stack,
  whether it is a \<open>SyntaxError\<close> and whether it has a \<open>body\<close> property), or a value that is no \<open>Error\<close>.
\<close>

datatype thrown =
    ThrownApp app_error
  | ThrownError (t_message: string) (t_stack: "string option") (t_syntax: bool) (t_has_body: bool)
  | ThrownValue json

type_synonym 'a outcome = "app_error + 'a"

datatype 'b reply = Reply (r_status: nat) (r_body: 'b)

section \<open>The error handler\<close>

datatype log_level = LogWarn | LogError

record error_body =
  eb_code :: string
  eb_message :: string
  eb_stack :: "string option"

record handled =
  hd_reply :: "error_body reply"
  hd_log :: log_level
  hd_captured :: bool

definition isAppError :: "thrown \<Rightarrow> bool" where
  "isAppError err = (case err of ThrownApp _ \<Rightarrow> True | _ \<Rightarrow> False)"

definition isCorsError :: "thrown \<Rightarrow> bool" where
  "isCorsError err = (case err of
       ThrownApp e \<Rightarrow> startsWith (err_message e) ''CORS:''
     | ThrownError m _ _ _ \<Rightarrow> startsWith m ''CORS:''
     | ThrownValue _ \<Rightarrow> False)"

definition errorHandler :: "string \<Rightarrow> thrown \<Rightarrow> handled" where
  "errorHandler node_env err =
     (case err of
        ThrownApp e \<Rightarrow>
          \<lparr>hd_reply = Reply (statusCode e)
             \<lparr>eb_code = err_code e, eb_message = err_message e, eb_stack = None\<rparr>,
           hd_log = LogWarn, hd_captured = False\<rparr>
      | _ \<Rightarrow>
          if isCorsError err then
            \<lparr>hd_reply = Reply 403
               \<lparr>eb_code = ''CORS_FORBIDDEN'', eb_message = ''Cross-origin request blocked.'',
                eb_stack = None\<rparr>,
             hd_log = LogWarn, hd_captured = False\<rparr>
          else if (case err of ThrownError _ _ syn body \<Rightarrow> syn \<and> body | _ \<Rightarrow> False) then
            \<lparr>hd_reply = Reply 400
               \<lparr>eb_code = ''INVALID_JSON'', eb_message = ''Request body contains invalid JSON.'',
                eb_stack = None\<rparr>,
             hd_log = LogWarn, hd_captured = False\<rparr>
          else
            \<lparr>hd_reply = Reply 500
               \<lparr>eb_code = ''INTERNAL_SERVER_ERROR'',
                eb_message = ''An unexpected error occurred. Please try again later.'',
                eb_stack = (case err of
                    ThrownError _ stk _ _ \<Rightarrow> if node_env = ''development'' then stk else None
                  | _ \<Rightarrow> None)\<rparr>,
             hd_log = LogError, hd_captured = True\<rparr>)"

text \<open>
  Nothing of an unexpected error reaches the client. Outside development the reply to an
  error that is not an application error is one of three fixed bodies, whatever the error says,
  and the event is captured for the operators exactly when the reply is the 500.
\<close>

theorem errorHandler_no_leak:
  assumes "\<not> isAppError err" and "env \<noteq> ''development''"
  shows "hd_reply (errorHandler env err) \<in>
      {Reply 403 \<lparr>eb_code = ''CORS_FORBIDDEN'', eb_message = ''Cross-origin request blocked.'',
          eb_stack = None\<rparr>,
       Reply 400 \<lparr>eb_code = ''INVALID_JSON'', eb_message = ''Request body contains invalid JSON.'',
          eb_stack = None\<rparr>,
       Reply 500 \<lparr>eb_code = ''INTERNAL_SERVER_ERROR'',
          eb_message = ''An unexpected error occurred. Please try again later.'', eb_stack = None\<rparr>}
    \<and> (hd_captured (errorHandler env err) = (r_status (hd_reply (errorHandler env err)) = 500))"
  using assms by (cases err) (auto simp: errorHandler_def isAppError_def)

theorem errorHandler_no_leak_witness:
  "r_body (hd_reply (errorHandler ''production''
      (ThrownError ''secret dsn'' (Some ''at db.ts:1'') False False))) =
     \<lparr>eb_code = ''INTERNAL_SERVER_ERROR'',
      eb_message = ''An unexpected error occurred. Please try again later.'', eb_stack = None\<rparr>"
proof -
  let ?e = "ThrownError ''secret dsn'' (Some ''at db.ts:1'') False False"
  have "\<not> isAppError ?e" "''production'' \<noteq> ''development''" by (simp_all add: isAppError_def)
  from errorHandler_no_leak [OF this] show ?thesis
    by (simp add: errorHandler_def isCorsError_def startsWith_def)
qed

section \<open>Authentication guards\<close>

text \<open>
  The decoded Firebase token: the uid, the optional email, and the two places a role claim can be.
  \<open>verifyIdToken\<close> is the Firebase Admin SDK, a parameter: \<open>None\<close> is a rejected promise.
\<close>

record token =
  tk_uid :: string
  tk_email :: "string option"
  tk_role :: "json option"
  tk_hasura_role :: "json option"

datatype auth_body = AuthError string

type_synonym verifier = "string \<Rightarrow> token option"

definition authenticate :: "verifier \<Rightarrow> string option \<Rightarrow> auth_body reply + token" where
  "authenticate verify header = (case header of
       None \<Rightarrow> Inl (Reply 401 (AuthError ''Authorization header is required''))
     | Some h \<Rightarrow>
         if \<not> startsWith h ''Bearer '' then
           Inl (Reply 401 (AuthError ''Authorization header is required''))
         else (case verify (drop 7 h) of
             None \<Rightarrow> Inl (Reply 401 (AuthError ''Invalid or expired token''))
           | Some t \<Rightarrow> Inr t))"

definition requireAuth :: "verifier \<Rightarrow> string option \<Rightarrow> auth_body reply + token" where
  "requireAuth verify header = authenticate verify header"

text \<open>\<open>user.role ?? claims role\<close>: \<open>null\<close> counts as absent.\<close>

definition token_role :: "token \<Rightarrow> json option" where
  "token_role t = (case tk_role t of
       None \<Rightarrow> tk_hasura_role t | Some JNull \<Rightarrow> tk_hasura_role t | Some r \<Rightarrow> Some r)"

definition requireAdmin :: "verifier \<Rightarrow> string option \<Rightarrow> auth_body reply + token" where
  "requireAdmin verify header = (case authenticate verify header of
       Inl r \<Rightarrow> Inl r
     | Inr t \<Rightarrow>
         if token_role t \<noteq> Some (JStr ''admin'')
         then Inl (Reply 403 (AuthError ''Administrator access is required''))
         else Inr t)"

definition READ_METHODS :: "string set" where
  "READ_METHODS = {''GET'', ''HEAD'', ''OPTIONS''}"

text \<open>Reads pass without a user, so the guard's success carries an optional token.\<close>

definition requireAuthForWrites ::
  "verifier \<Rightarrow> string \<Rightarrow> string option \<Rightarrow> auth_body reply + token option" where
  "requireAuthForWrites verify meth header =
     (if meth \<in> READ_METHODS then Inr None
      else (case requireAuth verify header of Inl r \<Rightarrow> Inl r | Inr t \<Rightarrow> Inr (Some t)))"

lemma authenticate_Inr:
  "authenticate verify header = Inr t \<longleftrightarrow>
     (\<exists>tok. header = Some (''Bearer '' @ tok) \<and> verify tok = Some t)"
  by (auto simp: authenticate_def startsWith_iff split: option.splits if_splits)

lemma authenticate_Inl_401: "authenticate verify header = Inl r \<Longrightarrow> r_status r = 401"
  by (auto simp: authenticate_def split: option.splits if_splits)

text \<open>
  The administrator guard lets a request through exactly when its header is a bearer token
  that Firebase verifies and whose role claim (the top-level one if it is set, else the Hasura one)
  is the string admin; any other request ends in a 401 or, with a valid token, in a 403.
\<close>

theorem requireAdmin_exact:
  "(requireAdmin verify header = Inr t \<longleftrightarrow>
     (\<exists>tok. header = Some (''Bearer '' @ tok) \<and> verify tok = Some t \<and>
        token_role t = Some (JStr ''admin'')))
   \<and> (case requireAdmin verify header of
        Inl r \<Rightarrow> r_status r = (if \<exists>tok u. header = Some (''Bearer '' @ tok) \<and> verify tok = Some u
                              then 403 else 401)
      | Inr u \<Rightarrow> token_role u = Some (JStr ''admin''))"
proof (cases "authenticate verify header")
  case (Inl r)
  then have "\<not> (\<exists>tok u. header = Some (''Bearer '' @ tok) \<and> verify tok = Some u)"
    using authenticate_Inr [of verify header] by (metis Inl_Inr_False)
  then show ?thesis using Inl authenticate_Inl_401 [OF Inl] by (auto simp: requireAdmin_def)
next
  case (Inr u)
  then have "\<exists>tok. header = Some (''Bearer '' @ tok) \<and> verify tok = Some u"
    by (simp add: authenticate_Inr)
  then show ?thesis using Inr by (auto simp: requireAdmin_def)
qed

end
