(* ===== verification/Contracts.thy ===== *)
theory Contracts
  imports Js_Map
begin

text \<open>
  Interfaces shared by several components: a life cycle with final states (disputes, transfers)
  and a paged query with a \<open>hasMore\<close> flag (changelog, dispute history), each with the facts a
  client derives from it once.
\<close>

section \<open>Life cycles with final states\<close>

text \<open>
  \<open>run_skip\<close> feeds a list of events to a machine that leaves its state alone when it rejects one,
  as a service that throws does; \<open>accepted\<close> counts the events it took.
\<close>

fun run_skip :: "('s \<Rightarrow> 'e \<Rightarrow> 's option) \<Rightarrow> 's \<Rightarrow> 'e list \<Rightarrow> 's" where
  "run_skip nxt s [] = s"
| "run_skip nxt s (e # es) = run_skip nxt (case nxt s e of None \<Rightarrow> s | Some t \<Rightarrow> t) es"

fun accepted :: "('s \<Rightarrow> 'e \<Rightarrow> 's option) \<Rightarrow> 's \<Rightarrow> 'e list \<Rightarrow> nat" where
  "accepted nxt s [] = 0"
| "accepted nxt s (e # es) =
     (case nxt s e of None \<Rightarrow> accepted nxt s es | Some t \<Rightarrow> Suc (accepted nxt t es))"

locale life_cycle =
  fixes nxt :: "'s \<Rightarrow> 'e \<Rightarrow> 's option"
    and final :: "'s \<Rightarrow> bool"
    and rank :: "'s \<Rightarrow> nat"
  assumes final_stuck: "final s \<Longrightarrow> nxt s e = None"
    and rank_decreases: "nxt s e = Some t \<Longrightarrow> rank t < rank s"
begin

lemma final_forever: "final s \<Longrightarrow> run_skip nxt s es = s"
  by (induction es) (simp_all add: final_stuck)

lemma final_after:
  assumes "final (run_skip nxt s es)"
  shows "run_skip nxt s (es @ fs) = run_skip nxt s es"
  using assms
proof (induction es arbitrary: s)
  case Nil
  then show ?case by (simp add: final_forever)
next
  case (Cons e es)
  then show ?case by (auto split: option.splits)
qed

lemma accepted_bound: "accepted nxt s es \<le> rank s"
proof (induction es arbitrary: s)
  case (Cons e es)
  show ?case
  proof (cases "nxt s e")
    case (Some t)
    with Cons.IH [of t] rank_decreases [OF Some] show ?thesis by simp
  qed (simp add: Cons.IH)
qed simp

lemma no_return: "nxt s e = Some t \<Longrightarrow> run_skip nxt t es \<noteq> s"
proof -
  have mono: "rank (run_skip nxt u fs) \<le> rank u" for u fs
  proof (induction fs arbitrary: u)
    case (Cons f fs)
    then show ?case
      by (cases "nxt u f") (auto dest!: rank_decreases intro: le_trans [OF Cons.IH])
  qed simp
  assume "nxt s e = Some t"
  with mono [of t es] rank_decreases show ?thesis by fastforce
qed

end

section \<open>Paged queries\<close>

definition page :: "'e list \<Rightarrow> nat \<Rightarrow> nat \<Rightarrow> 'e list" where
  "page xs off lmt = take lmt (drop off xs)"

text \<open>
  The client of a paged query: ask for \<open>lmt\<close> items at \<open>off\<close>, go on behind them while the answer
  says that there is more. The fuel bounds the number of requests.
\<close>

fun read_pages :: "nat \<Rightarrow> (nat \<Rightarrow> nat \<Rightarrow> 'e list \<times> bool) \<Rightarrow> nat \<Rightarrow> nat \<Rightarrow> 'e list option" where
  "read_pages 0 q off lmt = None"
| "read_pages (Suc n) q off lmt =
     (let (es, more) = q off lmt
      in if more then map_option (\<lambda>r. es @ r) (read_pages n q (off + length es) lmt) else Some es)"

lemma page_length: "length (page xs off lmt) = min lmt (length xs - off)"
  by (simp add: page_def)

lemma page_bound: "length (page xs off lmt) \<le> lmt"
  by (simp add: page_def)

lemma page_append: "page xs off lmt @ drop (off + length (page xs off lmt)) xs = drop off xs"
proof (cases "lmt \<le> length xs - off")
  case True
  then show ?thesis
    by (simp add: page_def min_def) (metis add.commute append_take_drop_id drop_drop)
next
  case False
  then show ?thesis by (simp add: page_def min_def)
qed

locale paged_query =
  fixes query :: "nat \<Rightarrow> nat \<Rightarrow> 'e list \<times> bool"
    and items :: "'e list"
    and max_limit :: nat
  assumes query_page: "1 \<le> lmt \<Longrightarrow> lmt \<le> max_limit \<Longrightarrow>
     query off lmt = (page items off lmt,
       off + length (page items off lmt) < length items)"
begin

lemma read_from:
  assumes "1 \<le> lmt" and "lmt \<le> max_limit"
  shows "length items - off < n \<Longrightarrow> read_pages n query off lmt = Some (drop off items)"
proof (induction n arbitrary: off)
  case (Suc n)
  let ?p = "page items off lmt"
  have q: "query off lmt = (?p, off + length ?p < length items)"
    using assms by (rule query_page)
  show ?case
  proof (cases "off + length ?p < length items")
    case True
    then have "0 < length ?p" using assms(1) by (simp add: page_length)
    with True Suc.prems have "length items - (off + length ?p) < n" by linarith
    then have "read_pages n query (off + length ?p) lmt = Some (drop (off + length ?p) items)"
      by (rule Suc.IH)
    with q True show ?thesis by (simp add: page_append)
  next
    case False
    have "drop (off + length ?p) items = []" using False by simp
    with page_append [of items off lmt] have "?p = drop off items" by simp
    with q False show ?thesis by simp
  qed
qed simp

text \<open>Following \<open>hasMore\<close> from the start terminates and yields every item once, in order.\<close>

lemma read_all:
  "1 \<le> lmt \<Longrightarrow> lmt \<le> max_limit \<Longrightarrow> length items < n \<Longrightarrow> read_pages n query 0 lmt = Some items"
  using read_from [of lmt 0 n] by simp

end

end
