(* ===== verification/Changelog_Service.thy ===== *)
theory Changelog_Service
  imports App_Error Contracts
begin

text \<open>
  \<open>services/changelog-taxonomy.ts\<close> and \<open>services/changelog.service.ts\<close>: the write-once audit log.
  A service is its store and the calls it made to its listeners; a listener that throws is
  indistinguishable from one that returns, because \<open>emit\<close> catches. The clock and the ambient
  request id (\<open>getRequestId()\<close>) are arguments of each call. Time stamps are the time values of the
  ISO strings the service seals.
\<close>

section \<open>Entry types\<close>

datatype entry_type = DISPUTE_RAISED | DISPUTE_ESCALATED | DISPUTE_RESOLVED | DISPUTE_WITHDRAWN
  | DISPUTE_SLA_BREACH | REFUND_SUBMITTED | REFUND_COMPLETED | TRANSFER_COMPLETED | ACCOUNT_DELETED

fun CHANGELOG_ENTRY_TYPES :: "entry_type \<Rightarrow> string" where
  "CHANGELOG_ENTRY_TYPES DISPUTE_RAISED = ''dispute.raised''"
| "CHANGELOG_ENTRY_TYPES DISPUTE_ESCALATED = ''dispute.escalated''"
| "CHANGELOG_ENTRY_TYPES DISPUTE_RESOLVED = ''dispute.resolved''"
| "CHANGELOG_ENTRY_TYPES DISPUTE_WITHDRAWN = ''dispute.withdrawn''"
| "CHANGELOG_ENTRY_TYPES DISPUTE_SLA_BREACH = ''dispute.sla_breach''"
| "CHANGELOG_ENTRY_TYPES REFUND_SUBMITTED = ''refund.submitted''"
| "CHANGELOG_ENTRY_TYPES REFUND_COMPLETED = ''refund.completed''"
| "CHANGELOG_ENTRY_TYPES TRANSFER_COMPLETED = ''transfer.completed''"
| "CHANGELOG_ENTRY_TYPES ACCOUNT_DELETED = ''account.deleted''"

definition all_entry_types :: "entry_type list" where
  "all_entry_types = [DISPUTE_RAISED, DISPUTE_ESCALATED, DISPUTE_RESOLVED, DISPUTE_WITHDRAWN,
     DISPUTE_SLA_BREACH, REFUND_SUBMITTED, REFUND_COMPLETED, TRANSFER_COMPLETED, ACCOUNT_DELETED]"

definition ENTRY_TYPE_VALUES :: "string list" where
  "ENTRY_TYPE_VALUES = map CHANGELOG_ENTRY_TYPES all_entry_types"

definition isChangelogEntryType :: "string \<Rightarrow> bool" where
  "isChangelogEntryType a = (a \<in> set ENTRY_TYPE_VALUES)"

text \<open>The three actions \<open>recordMoneyMovement\<close> takes.\<close>

datatype changelog_action = ActRefundSubmitted | ActRefundCompleted | ActTransferCompleted

fun CHANGELOG_ACTIONS :: "changelog_action \<Rightarrow> string" where
  "CHANGELOG_ACTIONS ActRefundSubmitted = CHANGELOG_ENTRY_TYPES REFUND_SUBMITTED"
| "CHANGELOG_ACTIONS ActRefundCompleted = CHANGELOG_ENTRY_TYPES REFUND_COMPLETED"
| "CHANGELOG_ACTIONS ActTransferCompleted = CHANGELOG_ENTRY_TYPES TRANSFER_COMPLETED"

lemma CHANGELOG_ENTRY_TYPES_inj: "CHANGELOG_ENTRY_TYPES a = CHANGELOG_ENTRY_TYPES b \<longleftrightarrow> a = b"
  by (cases a; cases b) simp_all

lemma isChangelogEntryType_iff: "isChangelogEntryType a \<longleftrightarrow> (\<exists>t. a = CHANGELOG_ENTRY_TYPES t)"
proof -
  have "t \<in> set all_entry_types" for t by (cases t) (simp_all add: all_entry_types_def)
  then show ?thesis by (auto simp: isChangelogEntryType_def ENTRY_TYPE_VALUES_def)
qed

section \<open>Data\<close>

type_synonym metadata = "(string \<times> json) list"

record changelog_entry =
  ce_entryId :: string
  ce_action :: string
  ce_actorId :: string
  ce_resourceId :: string
  ce_timestamp :: int
  ce_metadata :: "metadata option"
  ce_requestId :: "string option"

datatype change_kind = ENTRY_APPENDED | ENTRY_REMOVED

record change_event =
  ev_type :: change_kind
  ev_entry :: changelog_entry
  ev_occurredAt :: int
  ev_requestId :: "string option"

record append_payload =
  ap_entryId :: string
  ap_action :: string
  ap_actorId :: string
  ap_resourceId :: string
  ap_metadata :: "metadata option"
  ap_requestId :: "string option"

record changelog =
  cl_store :: "(string, changelog_entry) jmap"
  cl_listeners :: nat
  cl_calls :: "(nat \<times> change_event) list"

definition new_changelog :: changelog where
  "new_changelog = \<lparr>cl_store = [], cl_listeners = 0, cl_calls = []\<rparr>"

text \<open>\<open>JSON.parse(JSON.stringify(m))\<close>: a deep copy in which \<open>NaN\<close> and the infinities become \<open>null\<close>.\<close>

fun json_copy :: "json \<Rightarrow> json" where
  "json_copy (JNum x) = (if isFinite x then JNum x else JNull)"
| "json_copy (JArr xs) = JArr (map json_copy xs)"
| "json_copy (JObj ps) = JObj (map (\<lambda>(k, v). (k, json_copy v)) ps)"
| "json_copy j = j"

definition copy_metadata :: "metadata option \<Rightarrow> metadata option" where
  "copy_metadata m = map_option (map (\<lambda>(k, v). (k, json_copy v))) m"

section \<open>The in-memory store\<close>

definition listByResource :: "(string, changelog_entry) jmap \<Rightarrow> string \<Rightarrow> changelog_entry list" where
  "listByResource m r =
     js_sort (\<lambda>a b. ce_timestamp a \<le> ce_timestamp b)
       (filter (\<lambda>e. ce_resourceId e = r) (jm_values m))"

section \<open>The service\<close>

definition onEvent :: "changelog \<Rightarrow> changelog" where
  "onEvent s = s\<lparr>cl_listeners := Suc (cl_listeners s)\<rparr>"

definition emit :: "change_event \<Rightarrow> changelog \<Rightarrow> changelog" where
  "emit ev s = s\<lparr>cl_calls := cl_calls s @ map (\<lambda>i. (i, ev)) [0..<cl_listeners s]\<rparr>"

definition appendEntry ::
  "string option \<Rightarrow> int \<Rightarrow> append_payload \<Rightarrow> changelog \<Rightarrow> changelog_entry outcome \<times> changelog" where
  "appendEntry amb now p s =
     (let requestId = coalesce (ap_requestId p) amb in
      if ap_entryId p = [] \<or> ap_action p = [] \<or> ap_actorId p = [] \<or> ap_resourceId p = [] then
        (Inl (AppError 400 ''CHANGELOG_INVALID_PAYLOAD''
           ''entryId, action, actorId, and resourceId are required''), s)
      else if jm_has (cl_store s) (ap_entryId p) then
        (Inl (AppError 409 ''CHANGELOG_DUPLICATE_ENTRY''
           (''Changelog entry '' @ ap_entryId p @
            '' already exists. Entries are write-once; remove and recreate to correct.'')), s)
      else
        (let entry = \<lparr>ce_entryId = ap_entryId p, ce_action = ap_action p, ce_actorId = ap_actorId p,
                      ce_resourceId = ap_resourceId p, ce_timestamp = now,
                      ce_metadata = copy_metadata (ap_metadata p), ce_requestId = requestId\<rparr>;
             s' = s\<lparr>cl_store := jm_set (cl_store s) (ap_entryId p) entry\<rparr>
         in (Inr entry,
             emit \<lparr>ev_type = ENTRY_APPENDED, ev_entry = entry, ev_occurredAt = now,
                   ev_requestId = requestId\<rparr> s')))"

definition recordMoneyMovement ::
  "string option \<Rightarrow> int \<Rightarrow> changelog_action \<Rightarrow> string \<Rightarrow> string \<Rightarrow> metadata option \<Rightarrow> string option \<Rightarrow>
   changelog \<Rightarrow> changelog_entry outcome \<times> changelog" where
  "recordMoneyMovement amb now act actorId resourceId md req s =
     (let action = CHANGELOG_ACTIONS act;
          entryId = action @ '':'' @ resourceId;
          requestId = coalesce req amb
      in case jm_get (cl_store s) entryId of
           Some existing \<Rightarrow> (Inr existing, s)
         | None \<Rightarrow> appendEntry amb now
             \<lparr>ap_entryId = entryId, ap_action = action, ap_actorId = actorId,
              ap_resourceId = resourceId, ap_metadata = md, ap_requestId = requestId\<rparr> s)"

definition updateEntry :: "string \<Rightarrow> changelog_entry \<Rightarrow> changelog \<Rightarrow> changelog_entry outcome \<times> changelog" where
  "updateEntry entryId updates s =
     (Inl (AppError 409 ''CHANGELOG_UPDATE_FORBIDDEN''
        ''Changelog entries are write-once and cannot be updated. To correct an entry: call removeEntry then appendEntry.''), s)"

definition removeEntry ::
  "string option \<Rightarrow> int \<Rightarrow> string \<Rightarrow> changelog \<Rightarrow> changelog_entry outcome \<times> changelog" where
  "removeEntry amb now entryId s =
     (if entryId = [] then
        (Inl (AppError 400 ''CHANGELOG_INVALID_PAYLOAD'' ''entryId is required''), s)
      else case jm_get (cl_store s) entryId of
          None \<Rightarrow> (Inl (AppError 404 ''CHANGELOG_ENTRY_NOT_FOUND''
                     (''Changelog entry '' @ entryId @ '' not found'')), s)
        | Some entry \<Rightarrow>
            (Inr entry,
             emit \<lparr>ev_type = ENTRY_REMOVED, ev_entry = entry, ev_occurredAt = now,
                   ev_requestId = coalesce (ce_requestId entry) amb\<rparr>
               (s\<lparr>cl_store := jm_delete (cl_store s) entryId\<rparr>)))"

definition getEntry :: "string \<Rightarrow> changelog \<Rightarrow> changelog_entry option" where
  "getEntry entryId s = jm_get (cl_store s) entryId"

section \<open>Paging\<close>

definition DEFAULT_CHANGELOG_PAGE_SIZE :: nat where
  "DEFAULT_CHANGELOG_PAGE_SIZE = 50"

definition MAX_CHANGELOG_PAGE_SIZE :: nat where
  "MAX_CHANGELOG_PAGE_SIZE = 200"

definition normalizeLimit :: "jsnum option \<Rightarrow> nat" where
  "normalizeLimit l = (case l of
       Some (Fin r) \<Rightarrow>
         (let floored = \<lfloor>r\<rfloor> in
          if floored < 1 then DEFAULT_CHANGELOG_PAGE_SIZE
          else min (nat floored) MAX_CHANGELOG_PAGE_SIZE)
     | _ \<Rightarrow> DEFAULT_CHANGELOG_PAGE_SIZE)"

definition normalizeOffset :: "jsnum option \<Rightarrow> nat" where
  "normalizeOffset o' = (case o' of
       Some (Fin r) \<Rightarrow> (let floored = \<lfloor>r\<rfloor> in if floored < 0 then 0 else nat floored)
     | _ \<Rightarrow> 0)"

text \<open>The options object: \<open>None\<close> is the empty object, \<open>Some\<close> an object with the two properties.\<close>

definition listEntries ::
  "string \<Rightarrow> (jsnum option \<times> jsnum option) option \<Rightarrow> changelog \<Rightarrow> changelog_entry list" where
  "listEntries resourceId opts s =
     (let all = listByResource (cl_store s) resourceId in
      case opts of None \<Rightarrow> all
      | Some (l, off) \<Rightarrow> page all (normalizeOffset off) (normalizeLimit l))"

record changelog_page =
  cp_entries :: "changelog_entry list"
  cp_total :: nat
  cp_limit :: nat
  cp_offset :: nat
  cp_hasMore :: bool

definition listEntriesPaginated ::
  "string \<Rightarrow> jsnum option \<Rightarrow> jsnum option \<Rightarrow> changelog \<Rightarrow> changelog_page" where
  "listEntriesPaginated resourceId l off s =
     (let lmt = normalizeLimit l; offset = normalizeOffset off;
          all = listByResource (cl_store s) resourceId;
          entries = page all offset lmt
      in \<lparr>cp_entries = entries, cp_total = length all, cp_limit = lmt, cp_offset = offset,
          cp_hasMore = offset + length entries < length all\<rparr>)"

end
