(* ===== verification/Changelog_Properties.thy ===== *)
theory Changelog_Properties
  imports Changelog_Service
begin

text \<open>
  What the changelog promises: entries are written once and never change while they exist, every
  mutation reaches every listener so the event log determines the store, money movements are
  recorded once, and the paged listing is complete.
\<close>

section \<open>Runs of the service\<close>

datatype cl_op =
    OpAppend "string option" int append_payload
  | OpMoney "string option" int changelog_action string string "metadata option" "string option"
  | OpUpdate string changelog_entry
  | OpRemove "string option" int string
  | OpListen

fun cl_step :: "changelog \<Rightarrow> cl_op \<Rightarrow> changelog" where
  "cl_step s (OpAppend amb now p) = snd (appendEntry amb now p s)"
| "cl_step s (OpMoney amb now act a r md q) = snd (recordMoneyMovement amb now act a r md q s)"
| "cl_step s (OpUpdate i u) = snd (updateEntry i u s)"
| "cl_step s (OpRemove amb now i) = snd (removeEntry amb now i s)"
| "cl_step s OpListen = onEvent s"

definition cl_run :: "changelog \<Rightarrow> cl_op list \<Rightarrow> changelog" where
  "cl_run = foldl cl_step"

definition is_removal :: "string \<Rightarrow> cl_op \<Rightarrow> bool" where
  "is_removal i x = (case x of OpRemove _ _ j \<Rightarrow> j = i | _ \<Rightarrow> False)"

definition cl_inv :: "changelog \<Rightarrow> bool" where
  "cl_inv s = jm_keyed ce_entryId (cl_store s)"

lemma emit_simps [simp]:
  "cl_store (emit ev s) = cl_store s" "cl_listeners (emit ev s) = cl_listeners s"
  "cl_calls (emit ev s) = cl_calls s @ map (\<lambda>i. (i, ev)) [0..<cl_listeners s]"
  by (simp_all add: emit_def)

text \<open>The two outcomes of an append, as the rest of the development uses them.\<close>

definition valid_payload :: "append_payload \<Rightarrow> bool" where
  "valid_payload p = (ap_entryId p \<noteq> [] \<and> ap_action p \<noteq> [] \<and> ap_actorId p \<noteq> [] \<and> ap_resourceId p \<noteq> [])"

definition sealed_entry :: "string option \<Rightarrow> int \<Rightarrow> append_payload \<Rightarrow> changelog_entry" where
  "sealed_entry amb now p =
     \<lparr>ce_entryId = ap_entryId p, ce_action = ap_action p, ce_actorId = ap_actorId p,
      ce_resourceId = ap_resourceId p, ce_timestamp = now,
      ce_metadata = copy_metadata (ap_metadata p), ce_requestId = coalesce (ap_requestId p) amb\<rparr>"

definition append_event :: "string option \<Rightarrow> int \<Rightarrow> append_payload \<Rightarrow> change_event" where
  "append_event amb now p =
     \<lparr>ev_type = ENTRY_APPENDED, ev_entry = sealed_entry amb now p, ev_occurredAt = now,
      ev_requestId = coalesce (ap_requestId p) amb\<rparr>"

lemma appendEntry_ok:
  "valid_payload p \<Longrightarrow> jm_get (cl_store s) (ap_entryId p) = None \<Longrightarrow>
   appendEntry amb now p s =
     (Inr (sealed_entry amb now p),
      emit (append_event amb now p)
        (s\<lparr>cl_store := jm_set (cl_store s) (ap_entryId p) (sealed_entry amb now p)\<rparr>))"
  by (simp add: appendEntry_def valid_payload_def sealed_entry_def append_event_def jm_has_def Let_def)

lemma appendEntry_fail:
  "\<not> valid_payload p \<or> jm_get (cl_store s) (ap_entryId p) \<noteq> None \<Longrightarrow>
   snd (appendEntry amb now p s) = s \<and> (\<exists>e. fst (appendEntry amb now p s) = Inl e)"
  by (auto simp: appendEntry_def valid_payload_def jm_has_def Let_def)

lemma appendEntry_cases:
  obtains (ok) "valid_payload p" "jm_get (cl_store s) (ap_entryId p) = None"
    "appendEntry amb now p s = (Inr (sealed_entry amb now p),
      emit (append_event amb now p)
        (s\<lparr>cl_store := jm_set (cl_store s) (ap_entryId p) (sealed_entry amb now p)\<rparr>))"
  | (fail) e where "appendEntry amb now p s = (Inl e, s)"
  using appendEntry_ok [of p s amb now] appendEntry_fail [of p s amb now]
  by (metis prod.collapse)

lemma removeEntry_cases:
  obtains (ok) e where "jm_get (cl_store s) i = Some e"
    "removeEntry amb now i s = (Inr e,
       emit \<lparr>ev_type = ENTRY_REMOVED, ev_entry = e, ev_occurredAt = now,
             ev_requestId = coalesce (ce_requestId e) amb\<rparr>
         (s\<lparr>cl_store := jm_delete (cl_store s) i\<rparr>))"
  | (fail) x where "removeEntry amb now i s = (Inl x, s)"
  by (cases "i = []"; cases "jm_get (cl_store s) i") (auto simp: removeEntry_def)

lemma sealed_entry_id [simp]: "ce_entryId (sealed_entry amb now p) = ap_entryId p"
  by (simp add: sealed_entry_def)

lemma recordMoneyMovement_eq:
  "recordMoneyMovement amb now act a r md q s =
     (let p = \<lparr>ap_entryId = CHANGELOG_ACTIONS act @ '':'' @ r, ap_action = CHANGELOG_ACTIONS act,
               ap_actorId = a, ap_resourceId = r, ap_metadata = md, ap_requestId = coalesce q amb\<rparr>
      in case jm_get (cl_store s) (CHANGELOG_ACTIONS act @ '':'' @ r) of
           Some e \<Rightarrow> (Inr e, s) | None \<Rightarrow> appendEntry amb now p s)"
  by (simp add: recordMoneyMovement_def Let_def)

text \<open>Every operation is one of three kinds of step on the store.\<close>

lemma cl_step_cases:
  obtains (same) "cl_step s x = s \<or> cl_step s x = onEvent s"
  | (append) e req where "jm_get (cl_store s) (ce_entryId e) = None"
      "cl_step s x = emit \<lparr>ev_type = ENTRY_APPENDED, ev_entry = e, ev_occurredAt = ce_timestamp e,
           ev_requestId = req\<rparr> (s\<lparr>cl_store := jm_set (cl_store s) (ce_entryId e) e\<rparr>)"
  | (remove) i e t req where "jm_get (cl_store s) i = Some e" "is_removal i x"
      "cl_step s x = emit \<lparr>ev_type = ENTRY_REMOVED, ev_entry = e, ev_occurredAt = t,
           ev_requestId = req\<rparr> (s\<lparr>cl_store := jm_delete (cl_store s) i\<rparr>)"
proof (cases x)
  case (OpAppend amb now p)
  show ?thesis
  proof (cases rule: appendEntry_cases [of p s amb now])
    case ok
    then show ?thesis using append [of "sealed_entry amb now p" "coalesce (ap_requestId p) amb"] OpAppend
      by (simp add: append_event_def) (simp add: sealed_entry_def)
  next
    case (fail e)
    then show ?thesis using same OpAppend by simp
  qed
next
  case (OpMoney amb now act a r md q)
  let ?p = "\<lparr>ap_entryId = CHANGELOG_ACTIONS act @ '':'' @ r, ap_action = CHANGELOG_ACTIONS act,
               ap_actorId = a, ap_resourceId = r, ap_metadata = md, ap_requestId = coalesce q amb\<rparr>"
  show ?thesis
  proof (cases "jm_get (cl_store s) (CHANGELOG_ACTIONS act @ '':'' @ r)")
    case (Some e)
    then show ?thesis using same OpMoney by (simp add: recordMoneyMovement_eq)
  next
    case None
    then have st: "cl_step s x = snd (appendEntry amb now ?p s)"
      using OpMoney by (simp add: recordMoneyMovement_eq)
    show ?thesis
    proof (cases rule: appendEntry_cases [of ?p s amb now])
      case ok
      then show ?thesis using append [of "sealed_entry amb now ?p" "coalesce (ap_requestId ?p) amb"] st
        by (simp add: append_event_def) (simp add: sealed_entry_def)
    next
      case (fail e)
      then show ?thesis using same st by simp
    qed
  qed
next
  case (OpRemove amb now i)
  show ?thesis
  proof (cases rule: removeEntry_cases [of s i amb now])
    case (ok e)
    then show ?thesis using remove [of i e now "coalesce (ce_requestId e) amb"] OpRemove
      by (simp add: is_removal_def)
  next
    case (fail y)
    then show ?thesis using same OpRemove by simp
  qed
qed (use same in \<open>simp_all add: updateEntry_def\<close>)

lemma onEvent_simps [simp]:
  "cl_store (onEvent s) = cl_store s" "cl_calls (onEvent s) = cl_calls s"
  "cl_listeners (onEvent s) = Suc (cl_listeners s)"
  by (simp_all add: onEvent_def)

lemma cl_inv_step: "cl_inv s \<Longrightarrow> cl_inv (cl_step s x)"
  by (cases rule: cl_step_cases [of s x]) (auto simp: cl_inv_def)

lemma cl_inv_run: "cl_inv s \<Longrightarrow> cl_inv (cl_run s xs)"
  by (induction xs arbitrary: s) (simp_all add: cl_run_def cl_inv_step)

lemma cl_inv_new [simp]: "cl_inv new_changelog"
  by (simp add: cl_inv_def new_changelog_def)

section \<open>Write-once\<close>

lemma cl_step_keeps:
  "jm_get (cl_store s) i = Some e \<Longrightarrow> \<not> is_removal i x \<Longrightarrow> jm_get (cl_store (cl_step s x)) i = Some e"
  by (cases rule: cl_step_cases [of s x]) auto

text \<open>
  C14: Write-once. Through any sequence of calls of the service (appends, money movements, update
  attempts, removals, listener registrations) that contains no removal of a given entry id, the
  entry stored under that id stays exactly what it was: no call overwrites or edits it.
\<close>

theorem changelog_write_once:
  assumes "jm_get (cl_store s) i = Some e" and "list_all (\<lambda>x. \<not> is_removal i x) xs"
  shows "getEntry i (cl_run s xs) = Some e"
  using assms unfolding getEntry_def
  by (induction xs arbitrary: s) (simp_all add: cl_run_def cl_step_keeps)

definition sample_payload :: append_payload where
  "sample_payload = \<lparr>ap_entryId = ''e1'', ap_action = ''dispute.raised'', ap_actorId = ''u1'',
     ap_resourceId = ''d1'', ap_metadata = None, ap_requestId = None\<rparr>"

theorem changelog_write_once_witness:
  "getEntry ''e1'' (cl_run (cl_run new_changelog [OpAppend None 5 sample_payload])
      [OpAppend None 9 (sample_payload\<lparr>ap_actorId := ''mallory''\<rparr>), OpRemove None 9 ''e2''])
   = Some (sealed_entry None 5 sample_payload)"
proof -
  have "jm_get (cl_store (cl_run new_changelog [OpAppend None 5 sample_payload])) ''e1''
      = Some (sealed_entry None 5 sample_payload)"
    by (simp add: cl_run_def appendEntry_def sample_payload_def sealed_entry_def new_changelog_def
        jm_has_def emit_def Let_def)
  then show ?thesis by (rule changelog_write_once) (simp add: is_removal_def)
qed

section \<open>The event log determines the store\<close>

text \<open>What an audit-log forwarder rebuilds from the events it received.\<close>

definition replay_event :: "(string \<rightharpoonup> changelog_entry) \<Rightarrow> change_event \<Rightarrow> (string \<rightharpoonup> changelog_entry)" where
  "replay_event m ev = (case ev_type ev of
       ENTRY_APPENDED \<Rightarrow> m(ce_entryId (ev_entry ev) \<mapsto> ev_entry ev)
     | ENTRY_REMOVED \<Rightarrow> m(ce_entryId (ev_entry ev) := None))"

definition received :: "nat \<Rightarrow> changelog \<Rightarrow> change_event list" where
  "received i s = map snd (filter (\<lambda>c. fst c = i) (cl_calls s))"

definition in_step :: "nat \<Rightarrow> changelog \<Rightarrow> bool" where
  "in_step i s = (i < cl_listeners s \<and>
     foldl replay_event Map.empty (received i s) = jm_get (cl_store s))"

lemma filter_calls: "map snd (filter (\<lambda>c. fst c = i) (map (\<lambda>j. (j, ev)) [0..<n])) = (if i < n then [ev] else [])"
  by (induction n) auto

lemma received_emit:
  "received i (emit ev s) = received i s @ (if i < cl_listeners s then [ev] else [])"
  by (simp add: received_def filter_calls del: map_map filter_map)

lemma received_store [simp]: "received i (s\<lparr>cl_store := m\<rparr>) = received i s"
  by (simp add: received_def)

lemma received_onEvent [simp]: "received i (onEvent s) = received i s"
  by (simp add: received_def)

lemma in_step_step:
  assumes inv: "cl_inv s" and i: "in_step i s"
  shows "in_step i (cl_step s x)"
proof (cases rule: cl_step_cases [of s x])
  case same
  then show ?thesis using i by (auto simp: in_step_def)
next
  case (append e req)
  then show ?thesis using i by (auto simp: in_step_def received_emit replay_event_def fun_eq_iff)
next
  case (remove j e t req)
  have "ce_entryId e = j" using inv jm_keyed_get [OF _ remove(1)] by (simp add: cl_inv_def)
  with remove i show ?thesis
    by (auto simp: in_step_def received_emit replay_event_def fun_eq_iff)
qed

lemma in_step_run: "cl_inv s \<Longrightarrow> in_step i s \<Longrightarrow> in_step i (cl_run s xs)"
  by (induction xs arbitrary: s) (simp_all add: cl_run_def in_step_step cl_inv_step)

text \<open>
  C13: The audit trail is complete. For a listener registered before the first mutation, replaying
  the events it received (an append binds the entry's id, a removal unbinds it) yields exactly the
  store's contents after any sequence of calls, so no mutation of the changelog escapes the event
  log and no event is emitted without its mutation.
\<close>

theorem changelog_replay_refines:
  "foldl replay_event Map.empty (received 0 (cl_run (onEvent new_changelog) xs)) i
     = getEntry i (cl_run (onEvent new_changelog) xs)"
proof -
  have "in_step 0 (onEvent new_changelog)"
    by (simp add: in_step_def received_def new_changelog_def fun_eq_iff onEvent_def jm_get_def)
  then have "in_step 0 (cl_run (onEvent new_changelog) xs)"
    by (intro in_step_run) (simp_all add: cl_inv_def new_changelog_def)
  then show ?thesis by (simp add: in_step_def getEntry_def)
qed

section \<open>Money movements\<close>

text \<open>
  Recording a money movement is idempotent. After one successful call, a repeated call for the
  same action and resource, with any actor, metadata, request id and clock, returns the entry of
  the first call and changes nothing: no second audit line and no event.
\<close>

theorem recordMoneyMovement_idempotent:
  assumes "recordMoneyMovement amb now act a r md q s = (Inr e, t)"
  shows "recordMoneyMovement amb' now' act a' r md' q' t = (Inr e, t)
    \<and> getEntry (CHANGELOG_ACTIONS act @ '':'' @ r) t = Some e"
proof (cases "jm_get (cl_store s) (CHANGELOG_ACTIONS act @ '':'' @ r)")
  case (Some e')
  with assms show ?thesis by (simp add: recordMoneyMovement_eq getEntry_def)
next
  case None
  let ?p = "\<lparr>ap_entryId = CHANGELOG_ACTIONS act @ '':'' @ r, ap_action = CHANGELOG_ACTIONS act,
               ap_actorId = a, ap_resourceId = r, ap_metadata = md, ap_requestId = coalesce q amb\<rparr>"
  from None assms have "appendEntry amb now ?p s = (Inr e, t)" by (simp add: recordMoneyMovement_eq)
  then have "jm_get (cl_store t) (CHANGELOG_ACTIONS act @ '':'' @ r) = Some e"
    by (cases rule: appendEntry_cases [of ?p s amb now]) auto
  then show ?thesis by (simp add: recordMoneyMovement_eq getEntry_def)
qed

theorem recordMoneyMovement_idempotent_witness:
  "let (r, t) = recordMoneyMovement None 1 ActRefundCompleted ''u1'' ''r1'' None None new_changelog
   in recordMoneyMovement (Some ''q'') 7 ActRefundCompleted ''u2'' ''r1'' None None t = (r, t)"
proof -
  obtain r t where rt: "recordMoneyMovement None 1 ActRefundCompleted ''u1'' ''r1'' None None new_changelog = (r, t)"
    by force
  then obtain e where "r = Inr e"
    by (auto simp: recordMoneyMovement_def appendEntry_def new_changelog_def jm_has_def Let_def)
  with rt recordMoneyMovement_idempotent [of None 1 ActRefundCompleted "''u1''" "''r1''" None None new_changelog e t
      "Some ''q''" 7 "''u2''" None None] show ?thesis by simp
qed

section \<open>Listing\<close>

lemma listByResource_sorted: "sorted (map ce_timestamp (listByResource m r))"
  using sorted_wrt_js_sort [of "\<lambda>a b. ce_timestamp a \<le> ce_timestamp b"]
  by (fastforce simp: listByResource_def sorted_map)

lemma set_listByResource:
  "jm_keyed ce_entryId m \<Longrightarrow>
   e \<in> set (listByResource m r) \<longleftrightarrow> jm_get m (ce_entryId e) = Some e \<and> ce_resourceId e = r"
  by (auto simp: listByResource_def jm_values_iff)

lemma distinct_listByResource: "jm_keyed ce_entryId m \<Longrightarrow> distinct (listByResource m r)"
  by (simp add: listByResource_def jm_keyed_distinct_values)

lemma normalizeLimit_bounds: "1 \<le> normalizeLimit l \<and> normalizeLimit l \<le> MAX_CHANGELOG_PAGE_SIZE"
  by (auto simp: normalizeLimit_def MAX_CHANGELOG_PAGE_SIZE_def DEFAULT_CHANGELOG_PAGE_SIZE_def
      Let_def Suc_le_eq split: option.splits jsnum.splits)

lemma normalizeLimit_of_nat:
  "1 \<le> n \<Longrightarrow> n \<le> MAX_CHANGELOG_PAGE_SIZE \<Longrightarrow> normalizeLimit (Some (Fin (of_nat n))) = n"
  by (simp add: normalizeLimit_def Let_def)

lemma normalizeOffset_of_nat: "normalizeOffset (Some (Fin (of_nat n))) = n"
  by (simp add: normalizeOffset_def Let_def)

text \<open>The query a client of the paged listing sends: an offset and a limit, both whole numbers.\<close>

definition changelog_query :: "changelog \<Rightarrow> string \<Rightarrow> nat \<Rightarrow> nat \<Rightarrow> changelog_entry list \<times> bool" where
  "changelog_query s r off l =
     (let p = listEntriesPaginated r (Some (Fin (of_nat l))) (Some (Fin (of_nat off))) s
      in (cp_entries p, cp_hasMore p))"

interpretation changelog_paging:
  paged_query "changelog_query s r" "listByResource (cl_store s) r" MAX_CHANGELOG_PAGE_SIZE
  by unfold_locales
    (simp add: changelog_query_def listEntriesPaginated_def normalizeLimit_of_nat
      normalizeOffset_of_nat Let_def)

text \<open>
  The paged listing is complete and bounded. A client that asks for the pages of a resource
  with any page size from 1 to the cap, continuing while \<open>hasMore\<close> is set, stops after at most one
  request more than there are entries and has then read every stored entry of that resource
  exactly once, in chronological order.
\<close>

theorem changelog_pages_complete:
  assumes "cl_inv s" and "1 \<le> l" and "l \<le> MAX_CHANGELOG_PAGE_SIZE"
  shows "\<exists>es. read_pages (Suc (length (listByResource (cl_store s) r))) (changelog_query s r) 0 l = Some es
    \<and> distinct es \<and> sorted (map ce_timestamp es)
    \<and> (\<forall>e. e \<in> set es \<longleftrightarrow> getEntry (ce_entryId e) s = Some e \<and> ce_resourceId e = r)"
proof (intro exI conjI)
  show "read_pages (Suc (length (listByResource (cl_store s) r))) (changelog_query s r) 0 l
      = Some (listByResource (cl_store s) r)"
    by (rule changelog_paging.read_all [OF assms(2,3)]) simp
qed (use assms(1) in \<open>simp_all add: listByResource_sorted cl_inv_def getEntry_def
    set_listByResource distinct_listByResource\<close>)

theorem changelog_pages_complete_witness:
  "\<exists>es. read_pages (Suc (length (listByResource (cl_store
      (cl_run new_changelog [OpAppend None 5 sample_payload])) ''d1'')))
      (changelog_query (cl_run new_changelog [OpAppend None 5 sample_payload]) ''d1'') 0 1 = Some es
    \<and> distinct es"
  using changelog_pages_complete [of "cl_run new_changelog [OpAppend None 5 sample_payload]" 1 "''d1''"]
  by (auto simp: cl_inv_run MAX_CHANGELOG_PAGE_SIZE_def)

end
