(* ===== verification/Js_Date.thy ===== *)
theory Js_Date
  imports Js_Base
begin

text \<open>
  Dates. A \<open>Date\<close> is its time value in milliseconds since 1970-01-01T00:00Z. A string that a record
  keeps as a time stamp is \<open>Iso t\<close> when it is the ISO string of the time value \<open>t\<close>, and
  \<open>NotIso s\<close> when it is a string that \<open>new Date\<close> cannot parse (its time value is \<open>NaN\<close>).
\<close>

datatype iso = Iso int | NotIso string

fun date_ms :: "iso \<Rightarrow> int option" where
  "date_ms (Iso t) = Some t"
| "date_ms (NotIso s) = None"

definition iso_truthy :: "iso option \<Rightarrow> bool" where
  "iso_truthy v = (v \<noteq> None \<and> v \<noteq> Some (NotIso []))"

definition MS_PER_DAY :: int where
  "MS_PER_DAY = 24 * 60 * 60 * 1000"

definition MS_PER_HOUR :: int where
  "MS_PER_HOUR = 60 * 60 * 1000"

text \<open>
  The proleptic Gregorian date of a day number: year, month, day. The day number is shifted to the
  era that starts on 0000-03-01, so the leap day is the last day of a year.
\<close>

definition civil :: "int \<Rightarrow> int \<times> int \<times> int" where
  "civil day =
     (let z = day + 719468;
          era = z div 146097;
          doe = z - era * 146097;
          yoe = (doe - doe div 1460 + doe div 36524 - doe div 146096) div 365;
          doy = doe - (365 * yoe + yoe div 4 - yoe div 100);
          mp = (5 * doy + 2) div 153;
          d = doy - (153 * mp + 2) div 5 + 1;
          m = (if mp < 10 then mp + 3 else mp - 9)
      in (yoe + era * 400 + (if m \<le> 2 then 1 else 0), m, d))"

definition pad :: "nat \<Rightarrow> string \<Rightarrow> string" where
  "pad n s = replicate (n - length s) (CHR ''0'') @ s"

definition show_year :: "int \<Rightarrow> string" where
  "show_year y =
     (if 0 \<le> y \<and> y \<le> 9999 then pad 4 (show_int y)
      else (if y < 0 then ''-'' else ''+'') @ pad 6 (show_int \<bar>y\<bar>))"

text \<open>The UTC calendar day of a time value, the text of \<open>toISOString().slice(0, 10)\<close> for the years 0 to 9999.\<close>

definition utc_day :: "int \<Rightarrow> string" where
  "utc_day t = (let (y, m, d) = civil (t div MS_PER_DAY) in
     show_year y @ ''-'' @ pad 2 (show_int m) @ ''-'' @ pad 2 (show_int d))"

definition toISOString :: "int \<Rightarrow> string" where
  "toISOString t =
     (let r = t mod MS_PER_DAY in
      utc_day t @ ''T'' @ pad 2 (show_int (r div MS_PER_HOUR)) @ '':'' @
      pad 2 (show_int (r div 60000 mod 60)) @ '':'' @ pad 2 (show_int (r div 1000 mod 60)) @ ''.'' @
      pad 3 (show_int (r mod 1000)) @ ''Z'')"

text \<open>\<open>iso_text\<close> is the string a record holds.\<close>

definition iso_text :: "iso \<Rightarrow> string" where
  "iso_text v = (case v of Iso t \<Rightarrow> toISOString t | NotIso s \<Rightarrow> s)"

lemma show_nat_nonempty [simp]: "show_nat n \<noteq> []"
  by (subst show_nat.simps) simp

text \<open>
  The order \<open>localeCompare\<close> puts on time stamps is the collation of the host; what the program
  relies on is that it is a total preorder under which two ISO strings compare as their times.
\<close>

definition iso_collation :: "(iso \<Rightarrow> iso \<Rightarrow> int) \<Rightarrow> bool" where
  "iso_collation collate =
     ((\<forall>a b. collate a b \<le> 0 \<or> collate b a \<le> 0) \<and>
      (\<forall>a b c. collate a b \<le> 0 \<longrightarrow> collate b c \<le> 0 \<longrightarrow> collate a c \<le> 0) \<and>
      (\<forall>s t. collate (Iso s) (Iso t) \<le> 0 \<longleftrightarrow> s \<le> t))"

fun sample_collate :: "iso \<Rightarrow> iso \<Rightarrow> int" where
  "sample_collate (Iso s) (Iso t) = s - t"
| "sample_collate (Iso s) (NotIso t) = - 1"
| "sample_collate (NotIso s) (Iso t) = 1"
| "sample_collate (NotIso s) (NotIso t) = 0"

lemma sample_collate_ok: "iso_collation sample_collate"
proof -
  have t: "sample_collate a b \<le> 0 \<or> sample_collate b a \<le> 0" for a b by (cases a; cases b) auto
  have tr: "sample_collate a b \<le> 0 \<Longrightarrow> sample_collate b c \<le> 0 \<Longrightarrow> sample_collate a c \<le> 0" for a b c
    by (cases a; cases b; cases c) auto
  show ?thesis unfolding iso_collation_def using t tr by auto
qed

end
