(* ===== verification/Dispute_Service.thy ===== *)
theory Dispute_Service
  imports Changelog_Properties Js_Date
begin

text \<open>
  \<open>services/dispute.service.ts\<close>: the dispute state machine, its store, the operations of
  \<open>DisputeService\<close>, the escalation SLA, the metrics and the paged history. The clock, the ambient
  request id and the host's string collation are arguments.
\<close>

section \<open>The state machine\<close>

datatype dispute_state = OPEN | ESCALATED | RESOLVED | WITHDRAWN

datatype dispute_event = Escalate | Resolve | Withdraw

fun DISPUTE_TRANSITIONS :: "dispute_state \<Rightarrow> (dispute_event \<times> dispute_state) list" where
  "DISPUTE_TRANSITIONS OPEN = [(Escalate, ESCALATED), (Resolve, RESOLVED), (Withdraw, WITHDRAWN)]"
| "DISPUTE_TRANSITIONS ESCALATED = [(Resolve, RESOLVED), (Withdraw, WITHDRAWN)]"
| "DISPUTE_TRANSITIONS RESOLVED = []"
| "DISPUTE_TRANSITIONS WITHDRAWN = []"

definition FINAL_STATES :: "dispute_state list" where
  "FINAL_STATES = [RESOLVED, WITHDRAWN]"

definition resolveTransition :: "dispute_state \<Rightarrow> dispute_event \<Rightarrow> dispute_state option" where
  "resolveTransition from event = map_of (DISPUTE_TRANSITIONS from) event"

fun state_name :: "dispute_state \<Rightarrow> string" where
  "state_name OPEN = ''OPEN''"
| "state_name ESCALATED = ''ESCALATED''"
| "state_name RESOLVED = ''RESOLVED''"
| "state_name WITHDRAWN = ''WITHDRAWN''"

fun event_name :: "dispute_event \<Rightarrow> string" where
  "event_name Escalate = ''escalate''"
| "event_name Resolve = ''resolve''"
| "event_name Withdraw = ''withdraw''"

text \<open>\<open>DISPUTE_EVENT_ENTRY_TYPES\<close> of \<open>changelog-taxonomy.ts\<close>.\<close>

fun DISPUTE_EVENT_ENTRY_TYPES :: "dispute_event \<Rightarrow> string" where
  "DISPUTE_EVENT_ENTRY_TYPES Escalate = CHANGELOG_ENTRY_TYPES DISPUTE_ESCALATED"
| "DISPUTE_EVENT_ENTRY_TYPES Resolve = CHANGELOG_ENTRY_TYPES DISPUTE_RESOLVED"
| "DISPUTE_EVENT_ENTRY_TYPES Withdraw = CHANGELOG_ENTRY_TYPES DISPUTE_WITHDRAWN"

section \<open>Data\<close>

record dispute =
  dp_disputeId :: string
  dp_escrowId :: string
  dp_raisedBy :: string
  dp_reason :: string
  dp_state :: dispute_state
  dp_openedAt :: iso
  dp_updatedAt :: iso
  dp_escalatedAt :: "iso option"
  dp_resolvedAt :: "iso option"
  dp_resolution :: "string option"

record dispute_service =
  ds_store :: "(string, dispute) jmap"
  ds_listAll :: bool
  ds_changelog :: changelog

record open_payload =
  op_disputeId :: string
  op_escrowId :: string
  op_raisedBy :: string
  op_reason :: string

section \<open>Opening and moving a dispute\<close>

definition openDispute :: "int \<Rightarrow> open_payload \<Rightarrow> dispute_service \<Rightarrow> dispute outcome \<times> dispute_service" where
  "openDispute now p s =
     (if op_disputeId p = [] \<or> op_escrowId p = [] \<or> op_raisedBy p = [] \<or> op_reason p = [] then
        (Inl (AppError 400 ''DISPUTE_INVALID_PAYLOAD''
           ''disputeId, escrowId, raisedBy, and reason are required''), s)
      else case jm_get (ds_store s) (op_disputeId p) of
          Some existing \<Rightarrow>
            (Inl (AppError 409 ''DISPUTE_ALREADY_EXISTS''
               (''Dispute '' @ op_disputeId p @ '' already exists with state: '' @
                state_name (dp_state existing))), s)
        | None \<Rightarrow>
            (let dispute = \<lparr>dp_disputeId = op_disputeId p, dp_escrowId = op_escrowId p,
                   dp_raisedBy = op_raisedBy p, dp_reason = op_reason p, dp_state = OPEN,
                   dp_openedAt = Iso now, dp_updatedAt = Iso now, dp_escalatedAt = None,
                   dp_resolvedAt = None, dp_resolution = None\<rparr>
             in (Inr dispute, s\<lparr>ds_store := jm_set (ds_store s) (op_disputeId p) dispute\<rparr>)))"

text \<open>
  The updated record: the spread of the old one with the new state and \<open>updatedAt\<close>, the SLA anchor
  on entering ESCALATED, and the resolution fields on entering RESOLVED.
\<close>

definition moved :: "int \<Rightarrow> string option \<Rightarrow> dispute_state \<Rightarrow> dispute \<Rightarrow> dispute" where
  "moved now resolution nextState d =
     (let u = d\<lparr>dp_state := nextState, dp_updatedAt := Iso now\<rparr>;
          u2 = (if nextState = ESCALATED then u\<lparr>dp_escalatedAt := Some (Iso now)\<rparr> else u)
      in if nextState = RESOLVED then
           (let u3 = u2\<lparr>dp_resolvedAt := Some (Iso now)\<rparr>
            in if truthy resolution then u3\<lparr>dp_resolution := resolution\<rparr> else u3)
         else u2)"

definition audit_payload ::
  "string \<Rightarrow> string option \<Rightarrow> int \<Rightarrow> string \<Rightarrow> string option \<Rightarrow> dispute_state \<Rightarrow> dispute \<Rightarrow> append_payload" where
  "audit_payload entryType requestId now disputeId resolution nextState d =
     \<lparr>ap_entryId = entryType @ '':'' @ disputeId @ '':'' @ toISOString now,
      ap_action = entryType, ap_actorId = dp_raisedBy d, ap_resourceId = disputeId,
      ap_metadata = Some ([(''escrowId'', JStr (dp_escrowId d)),
          (''fromState'', JStr (state_name (dp_state d))), (''toState'', JStr (state_name nextState))]
        @ (if truthy requestId then [(''requestId'', JStr (the requestId))] else [])
        @ (if truthy resolution then [(''resolution'', JStr (the resolution))] else [])),
      ap_requestId = None\<rparr>"

text \<open>
  \<open>transition\<close>. The lookup of the entry type sits in the \<open>try\<close> block. \<open>bound\<close> is what the
  identifier \<open>DISPUTE_EVENT_ENTRY_TYPES\<close> denotes in the module: \<open>None\<close> when no declaration or import
  binds it, so its evaluation raises a \<open>ReferenceError\<close> that the empty \<open>catch\<close> swallows. The file
  imports nothing from the taxonomy, so \<open>None\<close> is the module as it stands and
  \<open>Some DISPUTE_EVENT_ENTRY_TYPES\<close> the module with the import. The dispute is stored under
  \<open>disputeId\<close>, which is also the audit entry's resource.
\<close>

definition transition ::
  "(dispute_event \<Rightarrow> string) option \<Rightarrow> string option \<Rightarrow> int \<Rightarrow> string \<Rightarrow> dispute_event \<Rightarrow> string option \<Rightarrow>
   dispute_service \<Rightarrow> dispute outcome \<times> dispute_service" where
  "transition bound requestId now disputeId event resolution s =
     (if disputeId = [] then
        (Inl (AppError 400 ''DISPUTE_INVALID_PAYLOAD'' ''disputeId is required''), s)
      else case jm_get (ds_store s) disputeId of
          None \<Rightarrow> (Inl (AppError 404 ''DISPUTE_NOT_FOUND''
                     (''Dispute '' @ disputeId @ '' not found'')), s)
        | Some dispute \<Rightarrow>
            if dp_state dispute \<in> set FINAL_STATES then
              (Inl (AppError 409 ''DISPUTE_ALREADY_FINAL''
                 (''Dispute '' @ disputeId @ '' is in final state '' @ state_name (dp_state dispute) @
                  '' and cannot be transitioned'')), s)
            else (case resolveTransition (dp_state dispute) event of
                None \<Rightarrow>
                  (Inl (AppError 422 ''DISPUTE_INVALID_TRANSITION''
                     (''Invalid transition: '' @ state_name (dp_state dispute) @ '' --['' @
                      event_name event @ '']--> (no valid target). Valid events from '' @
                      state_name (dp_state dispute) @ '': '' @
                      (let events = join '', '' (map (event_name \<circ> fst) (DISPUTE_TRANSITIONS (dp_state dispute)))
                       in if events = [] then ''(none)'' else events))), s)
              | Some nextState \<Rightarrow>
                  (let updated = moved now resolution nextState dispute;
                       s' = s\<lparr>ds_store := jm_set (ds_store s) disputeId updated\<rparr>
                   in (Inr updated,
                       (case bound of
                          None \<Rightarrow> s'
                        | Some types \<Rightarrow>
                            s'\<lparr>ds_changelog := snd (appendEntry requestId now
                                (audit_payload (types event) requestId now disputeId resolution nextState dispute)
                                (ds_changelog s'))\<rparr>)))))"

definition getDispute :: "string \<Rightarrow> dispute_service \<Rightarrow> dispute option" where
  "getDispute disputeId s = jm_get (ds_store s) disputeId"

definition listDisputesByEscrow :: "string \<Rightarrow> dispute_service \<Rightarrow> dispute list" where
  "listDisputesByEscrow escrowId s = filter (\<lambda>d. dp_escrowId d = escrowId) (jm_values (ds_store s))"

text \<open>\<open>this.store.listAll ? ... : this.collectAll()\<close>: the fallback returns the empty list.\<close>

definition all_disputes :: "dispute_service \<Rightarrow> dispute list" where
  "all_disputes s = (if ds_listAll s then jm_values (ds_store s) else [])"

definition listDisputesByState :: "dispute_state \<Rightarrow> dispute_service \<Rightarrow> dispute list" where
  "listDisputesByState st s = filter (\<lambda>d. dp_state d = st) (all_disputes s)"

section \<open>The escalation SLA\<close>

definition ESCALATED_SLA_DAYS :: int where
  "ESCALATED_SLA_DAYS = 30"

definition escalatedAgeDays :: "dispute \<Rightarrow> int \<Rightarrow> int option" where
  "escalatedAgeDays d now =
     (if dp_state d \<noteq> ESCALATED \<or> \<not> iso_truthy (dp_escalatedAt d) then None
      else (case date_ms (the (dp_escalatedAt d)) of
          None \<Rightarrow> None
        | Some escalatedMs \<Rightarrow> Some ((now - escalatedMs) div MS_PER_DAY)))"

definition isEscalatedOverdue :: "dispute \<Rightarrow> int \<Rightarrow> int \<Rightarrow> bool" where
  "isEscalatedOverdue d now slaDays =
     (case escalatedAgeDays d now of None \<Rightarrow> False | Some age \<Rightarrow> age \<ge> slaDays)"

datatype severity = Warning | Critical

record sla_alert =
  al_disputeId :: string
  al_escrowId :: string
  al_escalatedAt :: "iso option"
  al_daysEscalated :: int
  al_slaDays :: int
  al_severity :: severity
  al_message :: string

definition listOverdueEscalated :: "int \<Rightarrow> int \<Rightarrow> dispute_service \<Rightarrow> dispute list" where
  "listOverdueEscalated now slaDays s =
     filter (\<lambda>d. isEscalatedOverdue d now slaDays) (all_disputes s)"

definition sla_alert_of :: "int \<Rightarrow> int \<Rightarrow> dispute \<Rightarrow> sla_alert" where
  "sla_alert_of now slaDays d =
     (let days = (case escalatedAgeDays d now of None \<Rightarrow> slaDays | Some a \<Rightarrow> a) in
      \<lparr>al_disputeId = dp_disputeId d, al_escrowId = dp_escrowId d,
       al_escalatedAt = dp_escalatedAt d, al_daysEscalated = days, al_slaDays = slaDays,
       al_severity = (if days \<ge> slaDays * 2 then Critical else Warning),
       al_message = ''Dispute '' @ dp_disputeId d @ '' (escrow '' @ dp_escrowId d @
         '') has been ESCALATED for '' @ show_int days @ '' days, exceeding the '' @
         show_int slaDays @ ''-day SLA. Manual arbitrator intervention required.''\<rparr>)"

definition checkEscalatedSla :: "int \<Rightarrow> int \<Rightarrow> dispute_service \<Rightarrow> dispute list \<times> sla_alert list" where
  "checkEscalatedSla now slaDays s =
     (let overdue = listOverdueEscalated now slaDays s in (overdue, map (sla_alert_of now slaDays) overdue))"

section \<open>History and metrics\<close>

definition DEFAULT_DISPUTE_PAGE_SIZE :: nat where
  "DEFAULT_DISPUTE_PAGE_SIZE = 10"

definition MAX_DISPUTE_PAGE_SIZE :: nat where
  "MAX_DISPUTE_PAGE_SIZE = 50"

definition dispute_limit :: "jsnum option \<Rightarrow> nat" where
  "dispute_limit l = (case l of
       None \<Rightarrow> DEFAULT_DISPUTE_PAGE_SIZE
     | Some (Fin r) \<Rightarrow> (if \<lfloor>r\<rfloor> \<ge> 1 then min (nat \<lfloor>r\<rfloor>) MAX_DISPUTE_PAGE_SIZE
                        else DEFAULT_DISPUTE_PAGE_SIZE)
     | Some _ \<Rightarrow> DEFAULT_DISPUTE_PAGE_SIZE)"

definition dispute_offset :: "jsnum option \<Rightarrow> nat" where
  "dispute_offset o' = (case o' of
       Some (Fin r) \<Rightarrow> (if \<lfloor>r\<rfloor> > 0 then nat \<lfloor>r\<rfloor> else 0) | _ \<Rightarrow> 0)"

record dispute_page =
  dg_disputes :: "dispute list"
  dg_total :: nat
  dg_limit :: nat
  dg_offset :: nat
  dg_hasMore :: bool

definition user_history :: "(iso \<Rightarrow> iso \<Rightarrow> int) \<Rightarrow> string \<Rightarrow> dispute_service \<Rightarrow> dispute list" where
  "user_history collate userId s =
     js_sort (\<lambda>a b. collate (dp_openedAt b) (dp_openedAt a) \<le> 0)
       (filter (\<lambda>d. dp_raisedBy d = userId) (all_disputes s))"

definition listDisputesByUserPaginated ::
  "(iso \<Rightarrow> iso \<Rightarrow> int) \<Rightarrow> string \<Rightarrow> jsnum option \<Rightarrow> jsnum option \<Rightarrow> dispute_service \<Rightarrow> dispute_page" where
  "listDisputesByUserPaginated collate userId l off s =
     (let mine = user_history collate userId s;
          lmt = dispute_limit l;
          offset = dispute_offset off;
          disputes = page mine offset lmt
      in \<lparr>dg_disputes = disputes, dg_total = length mine, dg_limit = lmt, dg_offset = offset,
          dg_hasMore = offset + length disputes < length mine\<rparr>)"

record dispute_metrics =
  dm_total :: nat
  dm_byState :: "dispute_state \<Rightarrow> nat"
  dm_active :: nat
  dm_closed :: nat
  dm_escalatedCount :: nat
  dm_escalationRate :: rat
  dm_resolutionRate :: rat
  dm_avgResolutionHours :: "rat option"
  dm_overdueEscalated :: nat

definition in_range :: "int option \<Rightarrow> int option \<Rightarrow> dispute \<Rightarrow> bool" where
  "in_range from to d = (case date_ms (dp_openedAt d) of
       None \<Rightarrow> False
     | Some opened \<Rightarrow>
         (case from of None \<Rightarrow> True | Some f \<Rightarrow> opened \<ge> f) \<and>
         (case to of None \<Rightarrow> True | Some t \<Rightarrow> opened \<le> t))"

definition closedAt :: "dispute \<Rightarrow> iso" where
  "closedAt d =
     (if dp_state d = RESOLVED then
        (case dp_resolvedAt d of None \<Rightarrow> dp_updatedAt d | Some r \<Rightarrow> r)
      else dp_updatedAt d)"

text \<open>The hours one dispute contributes; \<open>None\<close> when it is not final, a date is invalid, or they are negative.\<close>

definition resolution_hours :: "dispute \<Rightarrow> rat option" where
  "resolution_hours d =
     (if dp_state d \<in> set FINAL_STATES then
        (case (date_ms (closedAt d), date_ms (dp_openedAt d)) of
           (Some c, Some o') \<Rightarrow>
             (let hours = of_int (c - o') / of_int MS_PER_HOUR in if hours \<ge> 0 then Some hours else None)
         | _ \<Rightarrow> None)
      else None)"

record metrics_loop =
  ml_byState :: "dispute_state \<Rightarrow> nat"
  ml_escalated :: nat
  ml_hours :: "rat list"

definition metrics_step :: "metrics_loop \<Rightarrow> dispute \<Rightarrow> metrics_loop" where
  "metrics_step a d =
     (let b = a\<lparr>ml_byState := (ml_byState a)(dp_state d := ml_byState a (dp_state d) + 1),
               ml_escalated := (if iso_truthy (dp_escalatedAt d) then ml_escalated a + 1
                                else ml_escalated a)\<rparr>
      in case resolution_hours d of None \<Rightarrow> b | Some h \<Rightarrow> b\<lparr>ml_hours := ml_hours a @ [h]\<rparr>)"

definition getMetrics :: "int \<Rightarrow> int option \<Rightarrow> int option \<Rightarrow> dispute_service \<Rightarrow> dispute_metrics" where
  "getMetrics now from to s =
     (let inRange = filter (in_range from to) (all_disputes s);
          a = foldl metrics_step \<lparr>ml_byState = (\<lambda>_. 0), ml_escalated = 0, ml_hours = []\<rparr> inRange;
          n = length inRange;
          byState = ml_byState a;
          avg = (if ml_hours a = [] then None
                 else Some (sum_list (ml_hours a) / of_nat (length (ml_hours a))))
      in \<lparr>dm_total = n, dm_byState = byState,
          dm_active = byState OPEN + byState ESCALATED,
          dm_closed = byState RESOLVED + byState WITHDRAWN,
          dm_escalatedCount = ml_escalated a,
          dm_escalationRate = (if n > 0 then of_nat (ml_escalated a) / of_nat n else 0),
          dm_resolutionRate = (if n > 0 then of_nat (byState RESOLVED) / of_nat n else 0),
          dm_avgResolutionHours = map_option (\<lambda>x. of_int (js_round (x * 10)) / 10) avg,
          dm_overdueEscalated =
            length (filter (\<lambda>d. isEscalatedOverdue d now ESCALATED_SLA_DAYS) inRange)\<rparr>)"

definition new_dispute_service :: dispute_service where
  "new_dispute_service = \<lparr>ds_store = [], ds_listAll = True, ds_changelog = new_changelog\<rparr>"

end
