(* ===== verification/Dispute_Properties.thy ===== *)
theory Dispute_Properties
  imports Dispute_Service
begin

text \<open>
  What the dispute service promises: it implements the documented transition table, its records
  are consistent and frozen once final, the audit entries, the metrics, the history and the SLA.
\<close>

section \<open>The documented machine\<close>

text \<open>The five rows of the transition table in the file's header comment.\<close>

inductive doc_transition :: "dispute_state \<Rightarrow> dispute_event \<Rightarrow> dispute_state \<Rightarrow> bool" where
  elevated: "doc_transition OPEN Escalate ESCALATED"
| resolved_directly: "doc_transition OPEN Resolve RESOLVED"
| withdrawn: "doc_transition OPEN Withdraw WITHDRAWN"
| resolved_after_esc: "doc_transition ESCALATED Resolve RESOLVED"
| withdrawn_after_esc: "doc_transition ESCALATED Withdraw WITHDRAWN"

inductive_simps doc_transition_simps:
  "doc_transition OPEN e t" "doc_transition ESCALATED e t" "doc_transition RESOLVED e t"
  "doc_transition WITHDRAWN e t"

lemma resolveTransition_doc: "resolveTransition st e = Some t \<longleftrightarrow> doc_transition st e t"
  by (cases st; cases e) (auto simp: resolveTransition_def doc_transition_simps)

lemma FINAL_STATES_iff [simp]: "st \<in> set FINAL_STATES \<longleftrightarrow> st = RESOLVED \<or> st = WITHDRAWN"
  by (simp add: FINAL_STATES_def)

lemma final_no_move: "st = RESOLVED \<or> st = WITHDRAWN \<Longrightarrow> resolveTransition st e = None"
  by (auto simp: resolveTransition_def)

fun dispute_rank :: "dispute_state \<Rightarrow> nat" where
  "dispute_rank OPEN = 2" | "dispute_rank ESCALATED = 1" | "dispute_rank RESOLVED = 0"
| "dispute_rank WITHDRAWN = 0"

lemma resolveTransition_rank: "resolveTransition st e = Some t \<Longrightarrow> dispute_rank t < dispute_rank st"
  by (cases st; cases e) (auto simp: resolveTransition_def)

interpretation dispute_life:
  life_cycle resolveTransition "\<lambda>st. st \<in> set FINAL_STATES" dispute_rank
  by unfold_locales (auto simp: final_no_move dest: resolveTransition_rank)

text \<open>The two outcomes of a transition.\<close>

definition audited ::
  "(dispute_event \<Rightarrow> string) option \<Rightarrow> string option \<Rightarrow> int \<Rightarrow> string \<Rightarrow> dispute_event \<Rightarrow> string option \<Rightarrow>
   dispute_state \<Rightarrow> dispute \<Rightarrow> changelog \<Rightarrow> changelog" where
  "audited bound q now i ev res st d c = (case bound of None \<Rightarrow> c
     | Some types \<Rightarrow> snd (appendEntry q now (audit_payload (types ev) q now i res st d) c))"

definition refusal :: "string \<Rightarrow> dispute_event \<Rightarrow> dispute_service \<Rightarrow> nat" where
  "refusal i ev s = (if i = [] then 400 else case jm_get (ds_store s) i of None \<Rightarrow> 404
     | Some d \<Rightarrow> if dp_state d \<in> set FINAL_STATES then 409 else 422)"

lemma transition_cases:
  obtains (ok) d st where "i \<noteq> []" "jm_get (ds_store s) i = Some d"
    "resolveTransition (dp_state d) ev = Some st"
    "transition bound q now i ev res s = (Inr (moved now res st d),
       s\<lparr>ds_store := jm_set (ds_store s) i (moved now res st d),
         ds_changelog := audited bound q now i ev res st d (ds_changelog s)\<rparr>)"
  | (fail) c m where "transition bound q now i ev res s = (Inl (AppError (refusal i ev s) c m), s)"
    "i = [] \<or> jm_get (ds_store s) i = None \<or>
      (\<exists>d. jm_get (ds_store s) i = Some d \<and> resolveTransition (dp_state d) ev = None)"
proof (cases "i = []")
  case True
  then show ?thesis using fail by (simp add: transition_def refusal_def)
next
  case False
  show ?thesis
  proof (cases "jm_get (ds_store s) i")
    case None
    with False show ?thesis using fail by (simp add: transition_def refusal_def)
  next
    case (Some d)
    show ?thesis
    proof (cases "resolveTransition (dp_state d) ev")
      case None
      with False Some show ?thesis using fail
        by (cases "dp_state d \<in> set FINAL_STATES")
          (simp_all only: transition_def refusal_def, simp_all)
    next
      case (Some st)
      with False \<open>jm_get (ds_store s) i = Some d\<close> have "dp_state d \<notin> set FINAL_STATES"
        using final_no_move by fastforce
      with False \<open>jm_get (ds_store s) i = Some d\<close> Some show ?thesis using ok [of d st]
        by (cases bound) (simp_all add: transition_def audited_def Let_def)
    qed
  qed
qed

lemma moved_simps [simp]:
  "dp_state (moved now res st d) = st" "dp_disputeId (moved now res st d) = dp_disputeId d"
  "dp_escrowId (moved now res st d) = dp_escrowId d" "dp_raisedBy (moved now res st d) = dp_raisedBy d"
  "dp_reason (moved now res st d) = dp_reason d" "dp_openedAt (moved now res st d) = dp_openedAt d"
  "dp_updatedAt (moved now res st d) = Iso now"
  "dp_escalatedAt (moved now res st d) = (if st = ESCALATED then Some (Iso now) else dp_escalatedAt d)"
  "dp_resolvedAt (moved now res st d) = (if st = RESOLVED then Some (Iso now) else dp_resolvedAt d)"
  "dp_resolution (moved now res st d) =
     (if st = RESOLVED \<and> truthy res then res else dp_resolution d)"
  by (simp_all add: moved_def Let_def)

text \<open>The abstract service: which disputes exist and in which state.\<close>

definition states_of :: "dispute_service \<Rightarrow> string \<rightharpoonup> dispute_state" where
  "states_of s i = map_option dp_state (getDispute i s)"

text \<open>
  C5: A transition does what the documented table says and nothing else. On a dispute whose state
  has a row for the event it succeeds, returns the stored record, and changes exactly the state of
  that dispute to the row's target; in every other case the service is left as it was and the error
  has status 400 for an empty id, 404 for an unknown dispute, 409 for a final one, and 422 otherwise.
  This holds whether or not the audit lookup works.
\<close>

theorem transition_refines_table:
  "(case transition bound q now i ev res s of
      (Inr d, t) \<Rightarrow> i \<noteq> [] \<and> getDispute i t = Some d \<and>
         (\<exists>st. states_of s i = Some st \<and> doc_transition st ev (dp_state d)) \<and>
         states_of t = (states_of s)(i \<mapsto> dp_state d)
    | (Inl e, t) \<Rightarrow> t = s \<and>
         \<not> (i \<noteq> [] \<and> (\<exists>st st'. states_of s i = Some st \<and> doc_transition st ev st')) \<and>
         statusCode e = (if i = [] then 400 else case states_of s i of None \<Rightarrow> 404
            | Some st \<Rightarrow> if st = RESOLVED \<or> st = WITHDRAWN then 409 else 422))"
proof (cases rule: transition_cases [of i s ev bound q now res])
  case (ok d st)
  then show ?thesis
    by (auto simp: states_of_def getDispute_def fun_eq_iff resolveTransition_doc)
next
  case (fail c m)
  then show ?thesis
    by (auto simp: states_of_def getDispute_def refusal_def simp flip: resolveTransition_doc
        split: option.splits)
qed

section \<open>Runs\<close>

datatype ds_op =
    DsOpen open_payload
  | DsMove "string option" string dispute_event "string option"

fun ds_step :: "(dispute_event \<Rightarrow> string) option \<Rightarrow> int \<Rightarrow> ds_op \<Rightarrow> dispute_service \<Rightarrow> dispute outcome \<times> dispute_service" where
  "ds_step bound now (DsOpen p) s = openDispute now p s"
| "ds_step bound now (DsMove q i ev res) s = transition bound q now i ev res s"

definition ds_run ::
  "(dispute_event \<Rightarrow> string) option \<Rightarrow> (int \<times> ds_op) list \<Rightarrow> dispute_service \<Rightarrow> dispute_service" where
  "ds_run bound ops s = foldl (\<lambda>t (now, x). snd (ds_step bound now x t)) s ops"

lemma ds_run_simps [simp]:
  "ds_run bound [] s = s"
  "ds_run bound ((now, x) # ops) s = ds_run bound ops (snd (ds_step bound now x s))"
  by (simp_all add: ds_run_def)

definition opened :: "int \<Rightarrow> open_payload \<Rightarrow> dispute" where
  "opened now p = \<lparr>dp_disputeId = op_disputeId p, dp_escrowId = op_escrowId p,
     dp_raisedBy = op_raisedBy p, dp_reason = op_reason p, dp_state = OPEN,
     dp_openedAt = Iso now, dp_updatedAt = Iso now, dp_escalatedAt = None,
     dp_resolvedAt = None, dp_resolution = None\<rparr>"

lemma opened_simps [simp]:
  "dp_disputeId (opened now p) = op_disputeId p" "dp_state (opened now p) = OPEN"
  "dp_openedAt (opened now p) = Iso now" "dp_updatedAt (opened now p) = Iso now"
  "dp_escalatedAt (opened now p) = None" "dp_resolvedAt (opened now p) = None"
  "dp_resolution (opened now p) = None" "dp_raisedBy (opened now p) = op_raisedBy p"
  "dp_escrowId (opened now p) = op_escrowId p" "dp_reason (opened now p) = op_reason p"
  by (simp_all add: opened_def)

lemma openDispute_cases:
  obtains (ok) "op_disputeId p \<noteq> []" "op_escrowId p \<noteq> []" "op_raisedBy p \<noteq> []" "op_reason p \<noteq> []"
    "jm_get (ds_store s) (op_disputeId p) = None"
    "openDispute now p s = (Inr (opened now p),
       s\<lparr>ds_store := jm_set (ds_store s) (op_disputeId p) (opened now p)\<rparr>)"
  | (fail) e where "openDispute now p s = (Inl e, s)"
proof (cases "op_disputeId p = [] \<or> op_escrowId p = [] \<or> op_raisedBy p = [] \<or> op_reason p = []")
  case True
  then show ?thesis by (intro fail) (simp add: openDispute_def)
next
  case False
  then show ?thesis using ok fail
    by (cases "jm_get (ds_store s) (op_disputeId p)") (simp_all add: openDispute_def opened_def Let_def)
qed

text \<open>Every step leaves the service alone, adds one open dispute, or moves one along the table.\<close>

lemma ds_step_cases:
  obtains (same) e where "ds_step bound now x s = (Inl e, s)"
  | (open_new) p where "x = DsOpen p"
      "op_disputeId p \<noteq> []" "op_escrowId p \<noteq> []" "op_raisedBy p \<noteq> []" "op_reason p \<noteq> []"
      "jm_get (ds_store s) (op_disputeId p) = None"
      "ds_step bound now x s = (Inr (opened now p),
         s\<lparr>ds_store := jm_set (ds_store s) (op_disputeId p) (opened now p)\<rparr>)"
  | (move) q i ev res d st where "x = DsMove q i ev res" "jm_get (ds_store s) i = Some d"
      "resolveTransition (dp_state d) ev = Some st"
      "ds_step bound now x s = (Inr (moved now res st d),
         s\<lparr>ds_store := jm_set (ds_store s) i (moved now res st d),
           ds_changelog := audited bound q now i ev res st d (ds_changelog s)\<rparr>)"
proof (cases x)
  case (DsOpen p)
  then show ?thesis using that by (cases rule: openDispute_cases [of p s now]) auto
next
  case (DsMove q i ev res)
  then show ?thesis using that by (cases rule: transition_cases [of i s ev bound q now res]) auto
qed

section \<open>The record invariant\<close>

text \<open>What holds of a stored dispute at time \<open>now\<close>: the time stamps and the resolution fit its state.\<close>

definition dispute_ok :: "int \<Rightarrow> dispute \<Rightarrow> bool" where
  "dispute_ok now d =
     (dp_disputeId d \<noteq> [] \<and> dp_escrowId d \<noteq> [] \<and> dp_raisedBy d \<noteq> [] \<and> dp_reason d \<noteq> [] \<and>
      (\<exists>op up. dp_openedAt d = Iso op \<and> dp_updatedAt d = Iso up \<and> op \<le> up \<and> up \<le> now \<and>
         (case dp_escalatedAt d of None \<Rightarrow> dp_state d \<noteq> ESCALATED
          | Some e \<Rightarrow> \<exists>et. e = Iso et \<and> op \<le> et \<and> et \<le> up \<and> dp_state d \<noteq> OPEN \<and>
              (dp_state d = ESCALATED \<longrightarrow> et = up)) \<and>
         (dp_state d = OPEN \<longrightarrow> op = up) \<and>
         dp_resolvedAt d = (if dp_state d = RESOLVED then Some (Iso up) else None)) \<and>
      (dp_resolution d \<noteq> None \<longrightarrow> dp_state d = RESOLVED \<and> truthy (dp_resolution d)))"

definition ds_inv :: "int \<Rightarrow> dispute_service \<Rightarrow> bool" where
  "ds_inv now s = (jm_keyed dp_disputeId (ds_store s) \<and>
     (\<forall>i d. jm_get (ds_store s) i = Some d \<longrightarrow> dispute_ok now d))"

lemma dispute_ok_mono: "dispute_ok t d \<Longrightarrow> t \<le> now \<Longrightarrow> dispute_ok now d"
  unfolding dispute_ok_def by force

lemma dispute_ok_opened:
  "op_disputeId p \<noteq> [] \<Longrightarrow> op_escrowId p \<noteq> [] \<Longrightarrow> op_raisedBy p \<noteq> [] \<Longrightarrow> op_reason p \<noteq> [] \<Longrightarrow>
   dispute_ok now (opened now p)"
  by (simp add: dispute_ok_def)

lemma dispute_ok_moved:
  assumes "dispute_ok t d" and "t \<le> now" and "resolveTransition (dp_state d) ev = Some st"
  shows "dispute_ok now (moved now res st d)"
  using assms(3) unfolding resolveTransition_doc
proof cases
qed (use assms(1,2) in \<open>auto simp: dispute_ok_def split: option.splits\<close>)

lemma ds_inv_step:
  assumes inv: "ds_inv t s" and le: "t \<le> now"
  shows "ds_inv now (snd (ds_step bound now x s))"
proof (cases rule: ds_step_cases [of bound now x s])
  case same
  then show ?thesis using inv le by (auto simp: ds_inv_def intro: dispute_ok_mono)
next
  case (open_new p)
  then show ?thesis using inv le dispute_ok_opened [of p now]
    by (auto simp: ds_inv_def intro: dispute_ok_mono)
next
  case (move q i ev res d st)
  then have ok: "dispute_ok now (moved now res st d)"
    using inv le by (intro dispute_ok_moved) (auto simp: ds_inv_def)
  have "dp_disputeId d = i" using inv move(2) by (auto simp: ds_inv_def dest: jm_keyed_get)
  then show ?thesis using inv le ok move
    by (auto simp: ds_inv_def intro: dispute_ok_mono)
qed

lemma ds_inv_run:
  "ds_inv t s \<Longrightarrow> sorted (t # map fst ops) \<Longrightarrow> ds_inv (last (t # map fst ops)) (ds_run bound ops s)"
proof (induction ops arbitrary: t s)
  case (Cons a ops)
  obtain now x where a: "a = (now, x)" by (cases a)
  from Cons.prems a have "ds_inv now (snd (ds_step bound now x s))" by (auto intro: ds_inv_step)
  from Cons.IH [OF this] Cons.prems a show ?case by auto
qed simp

lemma ds_inv_new [simp]: "ds_inv t new_dispute_service"
  by (simp add: ds_inv_def new_dispute_service_def)

text \<open>
  C7: Every record a client can read is consistent. After any sequence of openings and transitions
  under a clock that does not run backwards, a stored dispute carries its own id and no empty
  field, its times satisfy opened <= escalated <= updated <= the last call's time, an escalated
  dispute has its SLA anchor and it is the time of its last update, a resolution time is present
  exactly for a resolved dispute, and a resolution text, when present, is not empty and belongs to
  a resolved dispute.
\<close>

theorem dispute_records_consistent:
  assumes "sorted (t0 # map fst ops)"
    and "getDispute i (ds_run bound ops new_dispute_service) = Some d"
  shows "dp_disputeId d = i \<and> dispute_ok (last (t0 # map fst ops)) d"
  using ds_inv_run [OF ds_inv_new assms(1), of bound] assms(2)
  by (auto simp: ds_inv_def getDispute_def dest: jm_keyed_get)

definition sample_open :: open_payload where
  "sample_open = \<lparr>op_disputeId = ''d1'', op_escrowId = ''e1'', op_raisedBy = ''u1'', op_reason = ''late''\<rparr>"

theorem dispute_records_consistent_witness:
  "dispute_ok 9 \<lparr>dp_disputeId = ''d1'', dp_escrowId = ''e1'', dp_raisedBy = ''u1'', dp_reason = ''late'',
     dp_state = RESOLVED, dp_openedAt = Iso 3, dp_updatedAt = Iso 9, dp_escalatedAt = Some (Iso 5),
     dp_resolvedAt = Some (Iso 9), dp_resolution = Some ''refund''\<rparr>"
proof -
  let ?ops = "[(3, DsOpen sample_open), (5, DsMove None ''d1'' Escalate None),
    (9, DsMove None ''d1'' Resolve (Some ''refund''))]"
  have "getDispute ''d1'' (ds_run None ?ops new_dispute_service) = Some
    \<lparr>dp_disputeId = ''d1'', dp_escrowId = ''e1'', dp_raisedBy = ''u1'', dp_reason = ''late'',
     dp_state = RESOLVED, dp_openedAt = Iso 3, dp_updatedAt = Iso 9, dp_escalatedAt = Some (Iso 5),
     dp_resolvedAt = Some (Iso 9), dp_resolution = Some ''refund''\<rparr>"
    by (simp add: getDispute_def new_dispute_service_def openDispute_def sample_open_def transition_def
        resolveTransition_def moved_def truthy_def Let_def)
  from dispute_records_consistent [OF _ this, of 0] show ?thesis by simp
qed

section \<open>Finality\<close>

fun moves_of :: "string \<Rightarrow> (int \<times> ds_op) list \<Rightarrow> dispute_event list" where
  "moves_of i [] = []"
| "moves_of i ((now, DsMove q j ev res) # ops) = (if j = i then [ev] else []) @ moves_of i ops"
| "moves_of i ((now, DsOpen p) # ops) = moves_of i ops"

text \<open>How many of the calls for dispute \<open>i\<close> succeeded in moving it.\<close>

fun moved_count :: "(dispute_event \<Rightarrow> string) option \<Rightarrow> string \<Rightarrow> (int \<times> ds_op) list \<Rightarrow> dispute_service \<Rightarrow> nat" where
  "moved_count bound i [] s = 0"
| "moved_count bound i ((now, x) # ops) s =
     (case x of DsMove q j ev res \<Rightarrow> if j = i \<and> \<not> isl (fst (ds_step bound now x s)) then 1 else 0
      | DsOpen p \<Rightarrow> 0) + moved_count bound i ops (snd (ds_step bound now x s))"

text \<open>A stored dispute runs exactly the state machine of the table on the events sent to it.\<close>

lemma ds_run_machine:
  assumes "jm_get (ds_store s) i = Some d" and "i \<noteq> []"
  shows "states_of (ds_run bound ops s) i = Some (run_skip resolveTransition (dp_state d) (moves_of i ops))
    \<and> moved_count bound i ops s = accepted resolveTransition (dp_state d) (moves_of i ops)"
  using assms(1)
proof (induction ops arbitrary: s d)
  case Nil
  then show ?case by (simp add: states_of_def getDispute_def)
next
  case (Cons a ops)
  obtain now x where a: "a = (now, x)" by (cases a)
  show ?case
  proof (cases x)
    case (DsOpen p)
    with Cons.prems have "jm_get (ds_store (snd (openDispute now p s))) i = Some d"
      by (cases rule: openDispute_cases [of p s now]) auto
    with Cons.IH a DsOpen show ?thesis by simp
  next
    case (DsMove q j ev res)
    let ?t = "snd (transition bound q now j ev res s)"
    show ?thesis
    proof (cases "j = i")
      case False
      then have "jm_get (ds_store ?t) i = Some d"
        using Cons.prems by (cases rule: transition_cases [of j s ev bound q now res]) auto
      with Cons.IH [of ?t d] False a DsMove show ?thesis by simp
    next
      case True
      show ?thesis
      proof (cases rule: transition_cases [of j s ev bound q now res])
        case (ok d' st)
        then have "jm_get (ds_store ?t) i = Some (moved now res st d)" "d' = d"
          using True Cons.prems by auto
        with Cons.IH [of ?t "moved now res st d"] True a DsMove ok show ?thesis by simp
      next
        case (fail c m)
        then have "resolveTransition (dp_state d) ev = None" "?t = s"
          using True Cons.prems assms(2) by auto
        with Cons.IH [of s d] Cons.prems True a DsMove fail show ?thesis by simp
      qed
    qed
  qed
qed

lemma final_step_frozen:
  assumes "jm_get (ds_store s) i = Some d" and "dp_state d \<in> set FINAL_STATES"
  shows "jm_get (ds_store (snd (ds_step bound now x s))) i = Some d"
proof (cases rule: ds_step_cases [of bound now x s])
  case (move q j ev res d' st)
  then have "j \<noteq> i" using assms final_no_move by fastforce
  with move assms show ?thesis by simp
qed (use assms in auto)

lemma final_run_frozen:
  "jm_get (ds_store s) i = Some d \<Longrightarrow> dp_state d \<in> set FINAL_STATES \<Longrightarrow>
   jm_get (ds_store (ds_run bound ops s)) i = Some d"
proof (induction ops arbitrary: s)
  case (Cons a ops)
  then show ?case by (cases a) (simp only: ds_run_simps, blast intro: final_step_frozen Cons.IH)
qed simp

text \<open>
  Final states are final, and every dispute settles after at most two moves. Once a stored
  dispute is resolved or withdrawn, its whole record stays what it is under any further calls; and
  over any run at most two transitions of one dispute succeed, one if it is already escalated.
\<close>

theorem dispute_final_and_bounded:
  assumes "getDispute i s = Some d" and "i \<noteq> []"
  shows "(dp_state d \<in> set FINAL_STATES \<longrightarrow> getDispute i (ds_run bound ops s) = Some d)
    \<and> moved_count bound i ops s \<le> dispute_rank (dp_state d) \<and> dispute_rank (dp_state d) \<le> 2"
  using assms final_run_frozen [of s i d bound ops] ds_run_machine [of s i d bound ops]
    dispute_life.accepted_bound [of "dp_state d" "moves_of i ops"]
  by (cases "dp_state d") (simp_all add: getDispute_def)

lemma sample_opened:
  "ds_run b [(3, DsOpen sample_open)] new_dispute_service
     = new_dispute_service\<lparr>ds_store := [(''d1'', opened 3 sample_open)]\<rparr>"
  by (simp add: openDispute_def sample_open_def new_dispute_service_def opened_def Let_def)

theorem dispute_final_and_bounded_witness:
  "moved_count None ''d1'' [(4, DsMove None ''d1'' Withdraw None), (5, DsMove None ''d1'' Resolve None)]
     (ds_run None [(3, DsOpen sample_open)] new_dispute_service) \<le> 2"
proof -
  have "getDispute ''d1'' (ds_run None [(3, DsOpen sample_open)] new_dispute_service)
      = Some (opened 3 sample_open)"
    by (simp only: sample_opened) (simp add: getDispute_def)
  from dispute_final_and_bounded [OF this, of None
      "[(4, DsMove None ''d1'' Withdraw None), (5, DsMove None ''d1'' Resolve None)]"]
  show ?thesis by (simp del: moved_count.simps ds_run_simps)
qed

section \<open>The audit trail\<close>

lemma event_entry_types:
  "isChangelogEntryType (DISPUTE_EVENT_ENTRY_TYPES ev)" "DISPUTE_EVENT_ENTRY_TYPES ev \<noteq> []"
  by (cases ev; simp add: isChangelogEntryType_def ENTRY_TYPE_VALUES_def all_entry_types_def)+

text \<open>
  With the taxonomy bound, every move is audited. When a transition succeeds and its entry id is
  not taken, the changelog afterwards holds a sealed entry under \<open>type:disputeId:time\<close> whose action is
  the event's entry type, whose actor is the raiser, and whose metadata records the move; the
  entry cannot fail validation. The transition's result does not depend on the changelog.
\<close>

theorem transition_audited:
  assumes "transition (Some DISPUTE_EVENT_ENTRY_TYPES) q now i ev res s = (Inr d, t)"
    and "getDispute i s = Some d0" and "dp_raisedBy d0 \<noteq> []"
    and "getEntry (DISPUTE_EVENT_ENTRY_TYPES ev @ '':'' @ i @ '':'' @ toISOString now) (ds_changelog s) = None"
  shows "\<exists>e. getEntry (DISPUTE_EVENT_ENTRY_TYPES ev @ '':'' @ i @ '':'' @ toISOString now) (ds_changelog t) = Some e
      \<and> ce_action e = DISPUTE_EVENT_ENTRY_TYPES ev \<and> isChangelogEntryType (ce_action e)
      \<and> ce_resourceId e = i \<and> ce_actorId e = dp_raisedBy d0 \<and> ce_timestamp e = now
      \<and> ce_requestId e = q
      \<and> map_of (the (ce_metadata e)) ''fromState'' = Some (JStr (state_name (dp_state d0)))
      \<and> map_of (the (ce_metadata e)) ''toState'' = Some (JStr (state_name (dp_state d)))
    \<and> fst (transition None q now i ev res s) = Inr d \<and> ds_store (snd (transition None q now i ev res s)) = ds_store t"
proof (cases rule: transition_cases [of i s ev "Some DISPUTE_EVENT_ENTRY_TYPES" q now res])
  case (ok d' st)
  let ?p = "audit_payload (DISPUTE_EVENT_ENTRY_TYPES ev) q now i res st d0"
  have d: "d' = d0" using ok(2) assms(2) by (simp add: getDispute_def)
  note ty = event_entry_types [of ev]
  have v: "valid_payload ?p" using ty(2) ok(1) assms(3) by (simp add: valid_payload_def audit_payload_def)
  have "jm_get (cl_store (ds_changelog s)) (ap_entryId ?p) = None"
    using assms(4) by (simp add: audit_payload_def getEntry_def)
  from appendEntry_ok [OF v this, of q now] have
    c: "cl_store (ds_changelog t) = jm_set (cl_store (ds_changelog s)) (ap_entryId ?p) (sealed_entry q now ?p)"
    using assms(1) ok(4) d by (auto simp: audited_def)
  have nb: "transition None q now i ev res s = (Inr (moved now res st d0),
      s\<lparr>ds_store := jm_set (ds_store s) i (moved now res st d0)\<rparr>)"
    using ok d by (cases rule: transition_cases [of i s ev None q now res]) (auto simp: audited_def)
  have res: "d = moved now res st d0" "ds_store t = jm_set (ds_store s) i d"
    using assms(1) ok(4) d by auto
  have "getEntry (ap_entryId ?p) (ds_changelog t) = Some (sealed_entry q now ?p)"
    by (simp add: getEntry_def c)
  moreover have "ap_entryId ?p = DISPUTE_EVENT_ENTRY_TYPES ev @ '':'' @ i @ '':'' @ toISOString now"
    by (simp add: audit_payload_def)
  ultimately show ?thesis using nb ty(1) res
    by (simp add: sealed_entry_def audit_payload_def copy_metadata_def)
qed (use assms(1) in simp)

theorem transition_audited_witness:
  "\<exists>e. getEntry (''dispute.escalated:d1:'' @ toISOString 4) (ds_changelog (snd
      (transition (Some DISPUTE_EVENT_ENTRY_TYPES) (Some ''req'') 4 ''d1'' Escalate None
        (new_dispute_service\<lparr>ds_store := [(''d1'', opened 3 sample_open)]\<rparr>)))) = Some e
     \<and> ce_requestId e = Some ''req''"
proof -
  let ?s = "new_dispute_service\<lparr>ds_store := [(''d1'', opened 3 sample_open)]\<rparr>"
  obtain t where t: "transition (Some DISPUTE_EVENT_ENTRY_TYPES) (Some ''req'') 4 ''d1'' Escalate None ?s
      = (Inr (moved 4 None ESCALATED (opened 3 sample_open)), t)"
    by (simp add: transition_def resolveTransition_def Let_def)
  have "getDispute ''d1'' ?s = Some (opened 3 sample_open)" by (simp add: getDispute_def)
  from transition_audited [OF t this] show ?thesis using t
    by (auto simp: sample_open_def getEntry_def new_dispute_service_def new_changelog_def)
qed

text \<open>
  As the module stands, nothing is audited: the entry-type table is not bound in the file, so
  through any run of openings and transitions the changelog stays exactly as it was.
\<close>

theorem dispute_audit_dead: "ds_changelog (ds_run None ops s) = ds_changelog s"
proof (induction ops arbitrary: s)
  case (Cons a ops)
  obtain now x where a: "a = (now, x)" by (cases a)
  have "ds_changelog (snd (ds_step None now x s)) = ds_changelog s"
    by (cases rule: ds_step_cases [of None now x s]) (auto simp: audited_def)
  with Cons.IH a show ?case by simp
qed simp

end
