(* ===== verification/Dispute_Reports.thy ===== *)
theory Dispute_Reports
  imports Dispute_Properties
begin

text \<open>
  The read side of the dispute service: the metrics, the paged history of a user and the
  escalation SLA with its alerts.
\<close>

section \<open>Metrics\<close>

lemma metrics_loop_inv:
  "let a = foldl metrics_step a0 ds in
     ml_byState a st = ml_byState a0 st + length (filter (\<lambda>d. dp_state d = st) ds)
   \<and> ml_escalated a = ml_escalated a0 + length (filter (\<lambda>d. iso_truthy (dp_escalatedAt d)) ds)
   \<and> ml_hours a = ml_hours a0 @ map the (filter (\<lambda>h. h \<noteq> None) (map resolution_hours ds))"
proof (induction ds arbitrary: a0)
  case (Cons d ds)
  show ?case using Cons [of "metrics_step a0 d"]
    by (cases "resolution_hours d") (auto simp: metrics_step_def Let_def)
qed simp

definition count_in :: "(dispute \<Rightarrow> bool) \<Rightarrow> dispute list \<Rightarrow> nat" where
  "count_in P ds = length (filter P ds)"

lemma count_in_le: "count_in P ds \<le> length ds"
  by (simp add: count_in_def)

lemma count_by_state:
  "count_in (\<lambda>d. dp_state d = OPEN) ds + count_in (\<lambda>d. dp_state d = ESCALATED) ds
   + (count_in (\<lambda>d. dp_state d = RESOLVED) ds + count_in (\<lambda>d. dp_state d = WITHDRAWN) ds) = length ds"
proof (induction ds)
  case (Cons d ds)
  then show ?case by (cases "dp_state d") (simp_all add: count_in_def)
qed (simp add: count_in_def)

lemma getMetrics_fields:
  fixes now lo hi s
  defines "R \<equiv> filter (in_range lo hi) (all_disputes s)"
  shows "dm_total (getMetrics now lo hi s) = length R"
    and "dm_byState (getMetrics now lo hi s) st = count_in (\<lambda>d. dp_state d = st) R"
    and "dm_active (getMetrics now lo hi s)
       = count_in (\<lambda>d. dp_state d = OPEN) R + count_in (\<lambda>d. dp_state d = ESCALATED) R"
    and "dm_closed (getMetrics now lo hi s)
       = count_in (\<lambda>d. dp_state d = RESOLVED) R + count_in (\<lambda>d. dp_state d = WITHDRAWN) R"
    and "dm_escalatedCount (getMetrics now lo hi s) = count_in (\<lambda>d. iso_truthy (dp_escalatedAt d)) R"
    and "dm_escalationRate (getMetrics now lo hi s) = (if length R > 0
       then of_nat (count_in (\<lambda>d. iso_truthy (dp_escalatedAt d)) R) / of_nat (length R) else 0)"
    and "dm_resolutionRate (getMetrics now lo hi s) = (if length R > 0
       then of_nat (count_in (\<lambda>d. dp_state d = RESOLVED) R) / of_nat (length R) else 0)"
    and "dm_overdueEscalated (getMetrics now lo hi s)
       = count_in (\<lambda>d. isEscalatedOverdue d now ESCALATED_SLA_DAYS) R"
  using metrics_loop_inv [of "\<lparr>ml_byState = (\<lambda>_. 0), ml_escalated = 0, ml_hours = []\<rparr>" R]
  by (simp_all add: getMetrics_def Let_def R_def count_in_def)

lemma overdue_is_escalated: "isEscalatedOverdue d now sla \<Longrightarrow> dp_state d = ESCALATED"
  by (auto simp: isEscalatedOverdue_def escalatedAgeDays_def split: if_splits option.splits)

lemma unit_ratio: "k \<le> n \<Longrightarrow> 0 < n \<Longrightarrow> (of_nat k / of_nat n :: rat) \<in> {0..1}"
  by simp

lemma count_mono: "(\<And>d. d \<in> set ds \<Longrightarrow> P d \<Longrightarrow> Q d) \<Longrightarrow> count_in P ds \<le> count_in Q ds"
  by (induction ds) (auto simp: count_in_def)

text \<open>
  The metrics of a range add up. The state counts sum to the total, active and closed partition
  it, both rates are between 0 and 1, the overdue disputes are among the escalated ones, and a
  dispute that is escalated now counts as escalated at some point on records that satisfy the
  service's invariant.
\<close>

theorem metrics_consistent:
  fixes now lo hi s
  defines "m \<equiv> getMetrics now lo hi s"
  shows "dm_byState m OPEN + dm_byState m ESCALATED + dm_byState m RESOLVED + dm_byState m WITHDRAWN = dm_total m
    \<and> dm_active m + dm_closed m = dm_total m
    \<and> dm_escalationRate m \<in> {0..1} \<and> dm_resolutionRate m \<in> {0..1}
    \<and> dm_escalatedCount m \<le> dm_total m \<and> dm_overdueEscalated m \<le> dm_byState m ESCALATED
    \<and> (ds_inv t s \<and> ds_listAll s \<longrightarrow> dm_byState m ESCALATED \<le> dm_escalatedCount m)"
proof -
  let ?R = "filter (in_range lo hi) (all_disputes s)"
  note f = getMetrics_fields [of now lo hi s, folded m_def]
  have 1: "dm_active m + dm_closed m = dm_total m"
    using count_by_state [of ?R] by (simp only: f)
  have 2: "dm_byState m OPEN + dm_byState m ESCALATED + dm_byState m RESOLVED + dm_byState m WITHDRAWN = dm_total m"
    using count_by_state [of ?R] by (simp only: f)
  have 3: "dm_escalationRate m \<in> {0..1}" "dm_resolutionRate m \<in> {0..1}"
    unfolding f(6,7) using unit_ratio [OF count_in_le [of _ ?R]] by (cases "?R = []"; simp)+
  have 4: "dm_overdueEscalated m \<le> dm_byState m ESCALATED"
    unfolding f by (rule count_mono) (simp add: overdue_is_escalated)
  have 5: "dm_byState m ESCALATED \<le> dm_escalatedCount m" if inv: "ds_inv t s \<and> ds_listAll s"
    unfolding f
  proof (rule count_mono)
    fix d assume "d \<in> set ?R" and e: "dp_state d = ESCALATED"
    then have "jm_get (ds_store s) (dp_disputeId d) = Some d"
      using inv by (auto simp: all_disputes_def ds_inv_def jm_values_iff)
    then have "dispute_ok t d" using inv by (auto simp: ds_inv_def)
    with e show "iso_truthy (dp_escalatedAt d)"
      by (auto simp: dispute_ok_def iso_truthy_def split: option.splits)
  qed
  show ?thesis using 1 2 3 4 5 count_in_le by (simp add: f(1,5))
qed

theorem metrics_consistent_witness:
  "dm_byState (getMetrics 9 None None (ds_run None [(3, DsOpen sample_open)] new_dispute_service)) ESCALATED
     \<le> dm_escalatedCount (getMetrics 9 None None (ds_run None [(3, DsOpen sample_open)] new_dispute_service))"
proof -
  have "ds_inv 3 (ds_run None [(3, DsOpen sample_open)] new_dispute_service)"
    using ds_inv_run [OF ds_inv_new, of 0 "[(3, DsOpen sample_open)]" None] by simp
  moreover have "ds_listAll (ds_run None [(3, DsOpen sample_open)] new_dispute_service)"
    by (simp only: sample_opened) (simp add: new_dispute_service_def)
  ultimately show ?thesis using metrics_consistent [where t = 3] by blast
qed

section \<open>The history of a user\<close>

lemma dispute_limit_of_nat:
  "1 \<le> n \<Longrightarrow> n \<le> MAX_DISPUTE_PAGE_SIZE \<Longrightarrow> dispute_limit (Some (Fin (of_nat n))) = n"
  by (simp add: dispute_limit_def)

lemma dispute_offset_of_nat: "dispute_offset (Some (Fin (of_nat n))) = n"
  by (simp add: dispute_offset_def)

definition history_query ::
  "(iso \<Rightarrow> iso \<Rightarrow> int) \<Rightarrow> string \<Rightarrow> dispute_service \<Rightarrow> nat \<Rightarrow> nat \<Rightarrow> dispute list \<times> bool" where
  "history_query collate u s off l =
     (let p = listDisputesByUserPaginated collate u (Some (Fin (of_nat l))) (Some (Fin (of_nat off))) s
      in (dg_disputes p, dg_hasMore p))"

interpretation dispute_paging:
  paged_query "history_query collate u s" "user_history collate u s" MAX_DISPUTE_PAGE_SIZE
  by unfold_locales
    (simp add: history_query_def listDisputesByUserPaginated_def dispute_limit_of_nat
      dispute_offset_of_nat Let_def)

lemma user_history_set:
  "ds_inv t s \<Longrightarrow> ds_listAll s \<Longrightarrow>
   d \<in> set (user_history collate u s) \<longleftrightarrow> getDispute (dp_disputeId d) s = Some d \<and> dp_raisedBy d = u"
  by (auto simp: user_history_def all_disputes_def ds_inv_def jm_values_iff getDispute_def)

lemma user_history_newest_first:
  assumes inv: "ds_inv t s" and la: "ds_listAll s" and c: "iso_collation collate"
  shows "sorted_wrt (\<lambda>a b. the (date_ms (dp_openedAt b)) \<le> the (date_ms (dp_openedAt a)))
     (user_history collate u s)"
proof -
  let ?le = "\<lambda>a b. collate (dp_openedAt b) (dp_openedAt a) \<le> 0"
  have "sorted_wrt ?le (user_history collate u s)"
    unfolding user_history_def using c
    by (intro sorted_wrt_js_sort) (auto simp: iso_collation_def)
  moreover have "?le a b \<longrightarrow> the (date_ms (dp_openedAt b)) \<le> the (date_ms (dp_openedAt a))"
    if "a \<in> set (user_history collate u s)" "b \<in> set (user_history collate u s)" for a b
  proof -
    have "dispute_ok t a" "dispute_ok t b"
      using that inv la by (auto simp: user_history_set [OF inv la] ds_inv_def getDispute_def)
    then obtain x y where "dp_openedAt a = Iso x" "dp_openedAt b = Iso y"
      by (auto simp: dispute_ok_def)
    with c show ?thesis by (simp add: iso_collation_def)
  qed
  ultimately show ?thesis by (metis (no_types, lifting) sorted_wrt_mono_rel)
qed

text \<open>
  A user's dispute history is complete and newest first. A client that pages through it with
  any page size up to the cap, following \<open>hasMore\<close>, terminates and has read every dispute the user
  raised exactly once and none of another user, in descending order of the opening time, for any
  host collation that orders ISO time stamps chronologically.
\<close>

theorem dispute_history_complete:
  assumes "ds_inv t s" and "ds_listAll s" and "iso_collation collate"
    and "1 \<le> l" and "l \<le> MAX_DISPUTE_PAGE_SIZE"
  shows "\<exists>ds. read_pages (Suc (length (all_disputes s))) (history_query collate u s) 0 l = Some ds
    \<and> distinct ds
    \<and> sorted_wrt (\<lambda>a b. the (date_ms (dp_openedAt b)) \<le> the (date_ms (dp_openedAt a))) ds
    \<and> (\<forall>d. d \<in> set ds \<longleftrightarrow> getDispute (dp_disputeId d) s = Some d \<and> dp_raisedBy d = u)"
proof (intro exI conjI)
  have "length (user_history collate u s) \<le> length (all_disputes s)"
    by (simp add: user_history_def)
  then show "read_pages (Suc (length (all_disputes s))) (history_query collate u s) 0 l
      = Some (user_history collate u s)"
    using assms(4,5) by (intro dispute_paging.read_all) simp_all
  show "distinct (user_history collate u s)"
    using assms(1,2) jm_keyed_distinct_values [of dp_disputeId "ds_store s"]
    by (simp add: user_history_def all_disputes_def ds_inv_def)
  show "sorted_wrt (\<lambda>a b. the (date_ms (dp_openedAt b)) \<le> the (date_ms (dp_openedAt a)))
      (user_history collate u s)"
    using assms by (intro user_history_newest_first)
qed (simp add: user_history_set [OF assms(1,2)])

theorem dispute_history_complete_witness:
  "\<exists>ds. read_pages (Suc (length (all_disputes (ds_run None [(3, DsOpen sample_open)] new_dispute_service))))
     (history_query sample_collate ''u1'' (ds_run None [(3, DsOpen sample_open)] new_dispute_service)) 0 1
       = Some ds \<and> distinct ds"
proof -
  have "ds_inv 3 (ds_run None [(3, DsOpen sample_open)] new_dispute_service)"
    using ds_inv_run [OF ds_inv_new, of 0 "[(3, DsOpen sample_open)]" None] by simp
  moreover have "ds_listAll (ds_run None [(3, DsOpen sample_open)] new_dispute_service)"
    by (simp only: sample_opened) (simp add: new_dispute_service_def)
  ultimately show ?thesis
    using dispute_history_complete [OF _ _ sample_collate_ok, of 3 _ 1 "''u1''"]
    by (fastforce simp: MAX_DISPUTE_PAGE_SIZE_def simp del: ds_run_simps read_pages.simps)
qed

section \<open>The escalation SLA\<close>

lemma MS_PER_DAY_pos [simp]: "0 < MS_PER_DAY"
  by (simp add: MS_PER_DAY_def)

lemma le_div_iff_int:
  fixes a b k :: int
  assumes "0 < b"
  shows "k \<le> a div b \<longleftrightarrow> k * b \<le> a"
proof
  assume "k \<le> a div b"
  then have "k * b \<le> (a div b) * b" using assms by (simp add: mult_right_mono)
  also have "\<dots> \<le> a" using assms by (metis div_mult_mod_eq le_add_same_cancel1 pos_mod_sign)
  finally show "k * b \<le> a" .
next
  assume "k * b \<le> a"
  then have "(k * b) div b \<le> a div b" using assms by (rule zdiv_mono1)
  then show "k \<le> a div b" using assms by simp
qed

lemma dispute_ok_escalated:
  "dispute_ok t d \<Longrightarrow> dp_state d = ESCALATED \<Longrightarrow> \<exists>e. dp_escalatedAt d = Some (Iso e)"
  by (cases "dp_escalatedAt d") (auto simp: dispute_ok_def)

lemma overdue_iff_elapsed:
  "dp_state d = ESCALATED \<Longrightarrow> dp_escalatedAt d = Some (Iso e) \<Longrightarrow>
   isEscalatedOverdue d now sla \<longleftrightarrow> now - e \<ge> sla * MS_PER_DAY"
  by (simp add: isEscalatedOverdue_def escalatedAgeDays_def iso_truthy_def le_div_iff_int)

text \<open>
  The SLA check misses no breach and raises no false alarm. On records that satisfy the
  invariant there is one alert per escalated dispute whose time in that state is at least the SLA,
  and no other; an alert is critical exactly when twice the SLA has passed, and its day count is
  the number of whole days since the escalation.
\<close>

theorem sla_alerts_exact:
  assumes "ds_inv t s" and "ds_listAll s"
  shows "(\<forall>i. i \<in> al_disputeId ` set (snd (checkEscalatedSla now sla s)) \<longleftrightarrow>
       (\<exists>d e. getDispute i s = Some d \<and> dp_state d = ESCALATED \<and> dp_escalatedAt d = Some (Iso e) \<and>
          now - e \<ge> sla * MS_PER_DAY))
    \<and> distinct (map al_disputeId (snd (checkEscalatedSla now sla s)))
    \<and> (\<forall>a \<in> set (snd (checkEscalatedSla now sla s)). \<exists>e. al_escalatedAt a = Some (Iso e)
        \<and> (al_severity a = Critical \<longleftrightarrow> now - e \<ge> 2 * sla * MS_PER_DAY)
        \<and> al_daysEscalated a = (now - e) div MS_PER_DAY)"
proof -
  have mem: "d \<in> set (listOverdueEscalated now sla s) \<longleftrightarrow>
      getDispute (dp_disputeId d) s = Some d \<and> isEscalatedOverdue d now sla" for d
    using assms by (auto simp: listOverdueEscalated_def all_disputes_def ds_inv_def jm_values_iff getDispute_def)
  have anchored: "\<exists>e. dp_escalatedAt d = Some (Iso e)" if "getDispute i s = Some d" "dp_state d = ESCALATED" for i d
    using that assms(1) by (auto simp: ds_inv_def getDispute_def intro: dispute_ok_escalated)
  have key: "dp_disputeId d = i" if "getDispute i s = Some d" for i d
    using that assms(1) by (auto simp: ds_inv_def getDispute_def dest: jm_keyed_get)
  have ids: "map al_disputeId (snd (checkEscalatedSla now sla s))
      = map dp_disputeId (listOverdueEscalated now sla s)"
    by (simp add: checkEscalatedSla_def sla_alert_of_def Let_def)
  have A: "i \<in> al_disputeId ` set (snd (checkEscalatedSla now sla s)) \<longleftrightarrow>
       (\<exists>d e. getDispute i s = Some d \<and> dp_state d = ESCALATED \<and> dp_escalatedAt d = Some (Iso e) \<and>
          now - e \<ge> sla * MS_PER_DAY)" for i
  proof -
    have "i \<in> al_disputeId ` set (snd (checkEscalatedSla now sla s))
        \<longleftrightarrow> (\<exists>d \<in> set (listOverdueEscalated now sla s). dp_disputeId d = i)"
      using ids by (metis (no_types, lifting) image_iff list.set_map)
    also have "\<dots> \<longleftrightarrow> (\<exists>d. getDispute i s = Some d \<and> isEscalatedOverdue d now sla)"
      using mem key by blast
    also have "\<dots> \<longleftrightarrow> (\<exists>d e. getDispute i s = Some d \<and> dp_state d = ESCALATED \<and>
        dp_escalatedAt d = Some (Iso e) \<and> now - e \<ge> sla * MS_PER_DAY)"
    proof
      assume "\<exists>d. getDispute i s = Some d \<and> isEscalatedOverdue d now sla"
      then obtain d where d: "getDispute i s = Some d" "isEscalatedOverdue d now sla" by blast
      then obtain e where "dp_escalatedAt d = Some (Iso e)" "dp_state d = ESCALATED"
        using anchored overdue_is_escalated by blast
      with d overdue_iff_elapsed show "\<exists>d e. getDispute i s = Some d \<and> dp_state d = ESCALATED \<and>
        dp_escalatedAt d = Some (Iso e) \<and> now - e \<ge> sla * MS_PER_DAY" by blast
    qed (use overdue_iff_elapsed in blast)
    finally show ?thesis .
  qed
  have B: "distinct (map dp_disputeId (listOverdueEscalated now sla s))"
  proof -
    have "distinct (map dp_disputeId (jm_values (ds_store s)))"
    proof -
      have "map dp_disputeId (jm_values (ds_store s)) = map fst (ds_store s)"
        using assms(1) by (auto simp: ds_inv_def jm_keyed_def jm_values_def)
      then show ?thesis using assms(1) by (simp add: ds_inv_def jm_keyed_def jm_wf_def)
    qed
    then show ?thesis using assms(2)
      by (simp add: listOverdueEscalated_def all_disputes_def distinct_map_filter)
  qed
  have C: "\<exists>e. al_escalatedAt a = Some (Iso e)
        \<and> (al_severity a = Critical \<longleftrightarrow> now - e \<ge> 2 * sla * MS_PER_DAY)
        \<and> al_daysEscalated a = (now - e) div MS_PER_DAY"
    if "a \<in> set (snd (checkEscalatedSla now sla s))" for a
  proof -
    from that obtain d where d: "d \<in> set (listOverdueEscalated now sla s)" "a = sla_alert_of now sla d"
      by (auto simp: checkEscalatedSla_def Let_def)
    then have st: "dp_state d = ESCALATED" by (auto simp: mem overdue_is_escalated)
    then obtain e where e: "dp_escalatedAt d = Some (Iso e)" using d(1) anchored by (auto simp: mem)
    have "(now - e) div MS_PER_DAY \<ge> sla * 2 \<longleftrightarrow> now - e \<ge> sla * 2 * MS_PER_DAY"
      by (simp add: le_div_iff_int)
    then show ?thesis using d(2) st e
      by (simp add: sla_alert_of_def escalatedAgeDays_def iso_truthy_def Let_def mult.commute mult.left_commute)
  qed
  show ?thesis using A B C ids by simp
qed

definition sample_escalated :: dispute_service where
  "sample_escalated = ds_run None [(0, DsOpen sample_open), (5, DsMove None ''d1'' Escalate None)]
     new_dispute_service"

theorem sla_alerts_exact_witness:
  "''d1'' \<in> al_disputeId ` set (snd (checkEscalatedSla (5 + 30 * MS_PER_DAY) 30 sample_escalated))
   \<and> ''d1'' \<notin> al_disputeId ` set (snd (checkEscalatedSla (4 + 30 * MS_PER_DAY) 30 sample_escalated))"
proof -
  have st: "ds_store sample_escalated = [(''d1'', moved 5 None ESCALATED (opened 0 sample_open))]"
    "ds_listAll sample_escalated"
    by (simp_all add: sample_escalated_def openDispute_def sample_open_def new_dispute_service_def
        opened_def transition_def resolveTransition_def Let_def)
  have "ds_inv 5 sample_escalated"
    using ds_inv_run [OF ds_inv_new, of 0 "[(0, DsOpen sample_open), (5, DsMove None ''d1'' Escalate None)]" None]
    by (simp add: sample_escalated_def del: ds_run_simps)
  note f = sla_alerts_exact [OF this st(2), THEN conjunct1, THEN spec, of "''d1''"]
  show ?thesis unfolding f by (simp add: getDispute_def st)
qed

end
