(* ===== verification/Http_Input.thy ===== *)
theory Http_Input
  imports App_Error
begin

text \<open>
  Reading request data: properties of JSON values, truthiness, and the zod field schemas the routers
  use (non-empty strings, coerced query numbers).
\<close>

fun json_prop :: "json \<Rightarrow> string \<Rightarrow> json option" where
  "json_prop (JObj ps) k = map_of ps k"
| "json_prop j k = None"

text \<open>\<open>?.\<close> and \<open>??\<close>: \<open>null\<close> and \<open>undefined\<close> are nullish.\<close>

fun nullish :: "json option \<Rightarrow> json option" where
  "nullish (Some JNull) = None"
| "nullish v = v"

definition opt_prop :: "json option \<Rightarrow> string \<Rightarrow> json option" where
  "opt_prop j k = (case nullish j of None \<Rightarrow> None | Some v \<Rightarrow> json_prop v k)"

fun js_truthy :: "json option \<Rightarrow> bool" where
  "js_truthy None = False"
| "js_truthy (Some JNull) = False"
| "js_truthy (Some (JBool b)) = b"
| "js_truthy (Some (JNum x)) = (x \<noteq> NaN \<and> x \<noteq> Fin 0)"
| "js_truthy (Some (JStr s)) = (s \<noteq> [])"
| "js_truthy (Some j) = True"

text \<open>\<open>z.string().min(1)\<close> and \<open>z.string().optional()\<close>: \<open>None\<close> rejects.\<close>

fun required_string :: "json option \<Rightarrow> string option" where
  "required_string (Some (JStr (c # cs))) = Some (c # cs)"
| "required_string v = None"

fun optional_string :: "json option \<Rightarrow> string option option" where
  "optional_string None = Some None"
| "optional_string (Some (JStr s)) = Some (Some s)"
| "optional_string v = None"

text \<open>\<open>z.string()\<close>.\<close>

definition string_field :: "json option \<Rightarrow> string option" where
  "string_field v = (case v of Some (JStr s) \<Rightarrow> Some s | _ \<Rightarrow> None)"

text \<open>
  \<open>z.coerce.number().int()\<close> with a range condition, optional: a missing parameter is no number, a
  present one must be the text of a whole number in the range.
\<close>

definition query_int :: "(rat \<Rightarrow> bool) \<Rightarrow> string option \<Rightarrow> jsnum option option" where
  "query_int valid q = (case q of None \<Rightarrow> Some None
     | Some s \<Rightarrow> (case js_Number s of
           Fin r \<Rightarrow> if r = of_int \<lfloor>r\<rfloor> \<and> valid r then Some (Some (Fin r)) else None
         | _ \<Rightarrow> None))"

lemma required_string_Some: "required_string v = Some s \<longleftrightarrow> v = Some (JStr s) \<and> s \<noteq> []"
  by (cases v rule: required_string.cases) auto

end
