(* ===== verification/Dispute_Routes.thy ===== *)
theory Dispute_Routes
  imports Dispute_Reports Http_Input
begin

text \<open>
  \<open>routes/disputes.ts\<close>. The router works on the dispute service, which owns a changelog of its own,
  and on the shared changelog service, which receives the SLA alerts. Each handler runs behind
  \<open>requireAuth\<close>; the options object with the request id that the handlers pass is not a parameter of
  the service and has no effect.
\<close>

record dispute_api =
  da_service :: dispute_service
  da_changelog :: changelog

datatype dispute_body =
    DispOne dispute
  | DispMany "dispute list"
  | DispHistory dispute_page
  | DispBreaches "(dispute \<times> int) list"
  | DispMetrics dispute_metrics
  | DispError string string

definition ESCALATED_SLA_MS :: int where
  "ESCALATED_SLA_MS = 30 * 24 * 60 * 60 * 1000"

fun handleAppError :: "dispute outcome \<Rightarrow> dispute_body reply" where
  "handleAppError (Inl e) = Reply (statusCode e) (DispError (err_code e) (err_message e))"
| "handleAppError (Inr d) = Reply 200 (DispOne d)"

definition escalatedSlaBreach :: "dispute \<Rightarrow> int \<Rightarrow> int option" where
  "escalatedSlaBreach d now =
     (if dp_state d \<noteq> ESCALATED \<or> \<not> iso_truthy (dp_escalatedAt d) then None
      else (case date_ms (the (dp_escalatedAt d)) of
          None \<Rightarrow> None
        | Some escalatedAt \<Rightarrow>
            (let elapsedMs = now - escalatedAt in if elapsedMs > ESCALATED_SLA_MS then Some elapsedMs else None)))"

definition sla_alert_payload :: "dispute \<Rightarrow> int \<Rightarrow> string option \<Rightarrow> append_payload" where
  "sla_alert_payload d elapsedMs requestId =
     \<lparr>ap_entryId = CHANGELOG_ENTRY_TYPES DISPUTE_SLA_BREACH @ '':'' @ dp_disputeId d,
      ap_action = CHANGELOG_ENTRY_TYPES DISPUTE_SLA_BREACH, ap_actorId = ''system'',
      ap_resourceId = dp_disputeId d,
      ap_metadata = Some [(''escrowId'', JStr (dp_escrowId d)), (''state'', JStr ''ESCALATED''),
        (''escalatedAt'', case dp_escalatedAt d of None \<Rightarrow> JNull | Some t \<Rightarrow> JStr (iso_text t)),
        (''elapsedMs'', JNum (Fin (of_int elapsedMs))), (''slaMs'', JNum (Fin (of_int ESCALATED_SLA_MS))),
        (''policy'', JStr ''manual_intervention''),
        (''requestId'', case requestId of None \<Rightarrow> JNull | Some q \<Rightarrow> JStr q)],
      ap_requestId = None\<rparr>"

definition recordSlaBreachAlert ::
  "string option \<Rightarrow> int \<Rightarrow> dispute \<Rightarrow> int \<Rightarrow> changelog \<Rightarrow> changelog" where
  "recordSlaBreachAlert requestId now d elapsedMs c =
     snd (appendEntry requestId now (sla_alert_payload d elapsedMs requestId) c)"

definition open_route :: "int \<Rightarrow> json \<Rightarrow> dispute_api \<Rightarrow> dispute_body reply \<times> dispute_api" where
  "open_route now body s =
     (case (required_string (json_prop body ''disputeId''), required_string (json_prop body ''escrowId''),
            required_string (json_prop body ''raisedBy''), required_string (json_prop body ''reason'')) of
        (Some i, Some e, Some u, Some why) \<Rightarrow>
          (case openDispute now \<lparr>op_disputeId = i, op_escrowId = e, op_raisedBy = u, op_reason = why\<rparr> (da_service s) of
             (Inl err, t) \<Rightarrow> (handleAppError (Inl err), s\<lparr>da_service := t\<rparr>)
           | (Inr d, t) \<Rightarrow> (Reply 201 (DispOne d), s\<lparr>da_service := t\<rparr>))
      | _ \<Rightarrow> (Reply 400 (DispError ''DISPUTE_INVALID_PAYLOAD'' ''Invalid dispute payload''), s))"

definition escrow_disputes_route :: "string \<Rightarrow> dispute_api \<Rightarrow> dispute_body reply" where
  "escrow_disputes_route escrowId s = Reply 200 (DispMany (listDisputesByEscrow escrowId (da_service s)))"

definition mine_route ::
  "(iso \<Rightarrow> iso \<Rightarrow> int) \<Rightarrow> token option \<Rightarrow> string option \<Rightarrow> string option \<Rightarrow> dispute_api \<Rightarrow> dispute_body reply" where
  "mine_route collate user l off s = (case user of
       None \<Rightarrow> Reply 401 (DispError ''DISPUTE_UNAUTHENTICATED'' ''Authentication required'')
     | Some u \<Rightarrow>
         if tk_uid u = [] then Reply 401 (DispError ''DISPUTE_UNAUTHENTICATED'' ''Authentication required'')
         else (case (query_int (\<lambda>r. 0 < r \<and> r \<le> of_nat MAX_DISPUTE_PAGE_SIZE) l, query_int (\<lambda>r. 0 \<le> r) off) of
             (Some lmt, Some offset) \<Rightarrow>
               Reply 200 (DispHistory (listDisputesByUserPaginated collate (tk_uid u) lmt offset (da_service s)))
           | _ \<Rightarrow> Reply 400 (DispError ''DISPUTE_INVALID_PAGINATION''
                 (''limit must be between 1 and '' @ show_nat MAX_DISPUTE_PAGE_SIZE @ '', offset must be >= 0''))))"

fun record_alerts :: "string option \<Rightarrow> int \<Rightarrow> (dispute \<times> int) list \<Rightarrow> changelog \<Rightarrow> changelog" where
  "record_alerts q now [] c = c"
| "record_alerts q now ((d, ms) # bs) c = record_alerts q now bs (recordSlaBreachAlert q now d ms c)"

definition breaches_at :: "int \<Rightarrow> dispute_service \<Rightarrow> (dispute \<times> int) list" where
  "breaches_at now s = concat (map (\<lambda>d. case escalatedSlaBreach d now of None \<Rightarrow> [] | Some ms \<Rightarrow> [(d, ms)])
     (listDisputesByState ESCALATED s))"

definition breaches_route :: "string option \<Rightarrow> int \<Rightarrow> dispute_api \<Rightarrow> dispute_body reply \<times> dispute_api" where
  "breaches_route requestId now s =
     (let breaches = breaches_at now (da_service s)
      in (Reply 200 (DispBreaches breaches),
          s\<lparr>da_changelog := record_alerts requestId now breaches (da_changelog s)\<rparr>))"

text \<open>\<open>parse_date\<close> is \<open>z.coerce.date()\<close> on a query string.\<close>

definition metrics_route ::
  "(string \<Rightarrow> int option) \<Rightarrow> int \<Rightarrow> string option \<Rightarrow> string option \<Rightarrow> dispute_api \<Rightarrow> dispute_body reply" where
  "metrics_route parse_date now from to s =
     (let bad = (\<lambda>q. case q of None \<Rightarrow> False | Some v \<Rightarrow> parse_date v = None);
          bound = (\<lambda>q. case q of None \<Rightarrow> None | Some v \<Rightarrow> parse_date v)
      in if bad from \<or> bad to then Reply 400 (DispError ''DISPUTE_INVALID_PAYLOAD'' ''from/to must be valid dates'')
         else Reply 200 (DispMetrics (getMetrics now (bound from) (bound to) (da_service s))))"

definition get_dispute_route :: "string \<Rightarrow> dispute_api \<Rightarrow> dispute_body reply" where
  "get_dispute_route disputeId s = (case getDispute disputeId (da_service s) of
       None \<Rightarrow> Reply 404 (DispError ''DISPUTE_NOT_FOUND'' (''Dispute not found: '' @ disputeId))
     | Some d \<Rightarrow> Reply 200 (DispOne d))"

text \<open>\<open>escalate\<close>, \<open>resolve\<close> and \<open>withdraw\<close>; \<open>bound\<close> and the request id as for \<open>transition\<close>.\<close>

definition move_route ::
  "(dispute_event \<Rightarrow> string) option \<Rightarrow> string option \<Rightarrow> int \<Rightarrow> string \<Rightarrow> dispute_event \<Rightarrow> string option \<Rightarrow>
   dispute_api \<Rightarrow> dispute_body reply \<times> dispute_api" where
  "move_route bound q now disputeId ev resolution s =
     (let (r, t) = transition bound q now disputeId ev resolution (da_service s)
      in (handleAppError r, s\<lparr>da_service := t\<rparr>))"

section \<open>SLA breaches over HTTP\<close>

lemma appendEntry_keeps:
  "jm_get (cl_store c) k = Some e \<Longrightarrow> jm_get (cl_store (snd (appendEntry q now p c))) k = Some e"
  by (cases rule: appendEntry_cases [of p c q now]) auto

lemma record_alerts_keeps:
  "jm_get (cl_store c) k = Some e \<Longrightarrow> jm_get (cl_store (record_alerts q now bs c)) k = Some e"
  by (induction q now bs c rule: record_alerts.induct) (simp_all add: recordSlaBreachAlert_def appendEntry_keeps)

abbreviation breach_entry :: "string \<Rightarrow> string" where
  "breach_entry i \<equiv> ''dispute.sla_breach:'' @ i"

lemma recordSlaBreachAlert_records:
  assumes "dp_disputeId d \<noteq> []"
  shows "jm_get (cl_store (recordSlaBreachAlert q now d ms c)) (breach_entry (dp_disputeId d)) \<noteq> None"
proof -
  have v: "valid_payload (sla_alert_payload d ms q)" using assms by (simp add: valid_payload_def sla_alert_payload_def)
  have i: "ap_entryId (sla_alert_payload d ms q) = breach_entry (dp_disputeId d)" by (simp add: sla_alert_payload_def)
  show ?thesis
  proof (cases "jm_get (cl_store c) (breach_entry (dp_disputeId d))")
    case None
    with appendEntry_ok [OF v, of c q now] i show ?thesis by (simp add: recordSlaBreachAlert_def)
  next
    case (Some e)
    from appendEntry_keeps [OF this] show ?thesis by (simp add: recordSlaBreachAlert_def)
  qed
qed

lemma record_alerts_records:
  "(d, ms) \<in> set bs \<Longrightarrow> dp_disputeId d \<noteq> [] \<Longrightarrow>
   jm_get (cl_store (record_alerts q now bs c)) (breach_entry (dp_disputeId d)) \<noteq> None"
proof (induction bs arbitrary: c)
  case (Cons b bs)
  obtain d' ms' where b: "b = (d', ms')" by (cases b)
  show ?case
  proof (cases "(d, ms) = (d', ms')")
    case True
    obtain e where "jm_get (cl_store (recordSlaBreachAlert q now d ms c)) (breach_entry (dp_disputeId d)) = Some e"
      using recordSlaBreachAlert_records [OF Cons.prems(2)] by blast
    from record_alerts_keeps [OF this] True b show ?thesis by simp
  next
    case False
    with Cons b show ?thesis by auto
  qed
qed simp

lemma escalatedSlaBreach_iff:
  "dp_state d = ESCALATED \<Longrightarrow> dp_escalatedAt d = Some (Iso e) \<Longrightarrow>
   escalatedSlaBreach d now = Some ms \<longleftrightarrow> ms = now - e \<and> now - e > ESCALATED_SLA_MS"
  by (auto simp: escalatedSlaBreach_def iso_truthy_def Let_def)

lemma breaches_at_iff:
  assumes "ds_inv t s" and "ds_listAll s"
  shows "(d, ms) \<in> set (breaches_at now s) \<longleftrightarrow>
     getDispute (dp_disputeId d) s = Some d \<and> dp_state d = ESCALATED \<and>
     (\<exists>e. dp_escalatedAt d = Some (Iso e) \<and> ms = now - e \<and> now - e > ESCALATED_SLA_MS)"
proof -
  have m: "d \<in> set (listDisputesByState ESCALATED s) \<longleftrightarrow>
      getDispute (dp_disputeId d) s = Some d \<and> dp_state d = ESCALATED"
    using assms by (auto simp: listDisputesByState_def all_disputes_def ds_inv_def jm_values_iff getDispute_def)
  have a: "(d, ms) \<in> set (breaches_at now s) \<longleftrightarrow>
      d \<in> set (listDisputesByState ESCALATED s) \<and> escalatedSlaBreach d now = Some ms"
    by (auto simp: breaches_at_def split: option.splits)
  show ?thesis
  proof (cases "getDispute (dp_disputeId d) s = Some d \<and> dp_state d = ESCALATED")
    case True
    then obtain e where "dp_escalatedAt d = Some (Iso e)"
      using assms(1) dispute_ok_escalated [of t d] by (auto simp: ds_inv_def getDispute_def)
    with True show ?thesis using escalatedSlaBreach_iff [of d e now ms] by (auto simp: a m)
  qed (auto simp: a m)
qed

text \<open>
  Reading the breaches reports and records each one, once. On records that satisfy the invariant
  the route lists exactly the escalated disputes whose time in that state exceeds 30 days, with that
  time; afterwards the shared changelog holds an alert for each of them, and every entry it held
  before, the alerts of earlier reads included, is what it was. A listed dispute is overdue for the
  service too; the two disagree only in the one millisecond at which exactly 30 days have passed.
\<close>

theorem sla_breaches_recorded:
  assumes "ds_inv t (da_service s)" and "ds_listAll (da_service s)"
    and "breaches_route q now s = (Reply 200 (DispBreaches bs), s')"
  shows "(\<forall>d ms. (d, ms) \<in> set bs \<longleftrightarrow>
       getDispute (dp_disputeId d) (da_service s) = Some d \<and> dp_state d = ESCALATED \<and>
       (\<exists>e. dp_escalatedAt d = Some (Iso e) \<and> ms = now - e \<and> now - e > ESCALATED_SLA_MS))
    \<and> (\<forall>(d, ms) \<in> set bs. getEntry (breach_entry (dp_disputeId d)) (da_changelog s') \<noteq> None
         \<and> isEscalatedOverdue d now ESCALATED_SLA_DAYS)
    \<and> (\<forall>k e. getEntry k (da_changelog s) = Some e \<longrightarrow> getEntry k (da_changelog s') = Some e)
    \<and> da_service s' = da_service s"
proof -
  have bs: "bs = breaches_at now (da_service s)"
    and s': "s' = s\<lparr>da_changelog := record_alerts q now bs (da_changelog s)\<rparr>"
    using assms(3) by (auto simp: breaches_route_def Let_def)
  note iff = breaches_at_iff [OF assms(1,2), of _ _ now, folded bs]
  have "getEntry (breach_entry (dp_disputeId d)) (da_changelog s') \<noteq> None
      \<and> isEscalatedOverdue d now ESCALATED_SLA_DAYS" if m: "(d, ms) \<in> set bs" for d ms
  proof -
    obtain e where d: "getDispute (dp_disputeId d) (da_service s) = Some d" "dp_state d = ESCALATED"
      "dp_escalatedAt d = Some (Iso e)" "now - e > ESCALATED_SLA_MS"
      using m iff by blast
    then have "dp_disputeId d \<noteq> []" using assms(1) by (auto simp: ds_inv_def getDispute_def dispute_ok_def)
    from record_alerts_records [OF m this] d overdue_iff_elapsed [OF d(2,3), of now ESCALATED_SLA_DAYS]
    show ?thesis
      by (simp add: s' getEntry_def ESCALATED_SLA_DAYS_def ESCALATED_SLA_MS_def MS_PER_DAY_def)
  qed
  then show ?thesis using iff by (auto simp: s' getEntry_def record_alerts_keeps)
qed

theorem sla_breaches_recorded_witness:
  "\<exists>bs s'. breaches_route None (6 + 30 * MS_PER_DAY)
      \<lparr>da_service = sample_escalated, da_changelog = new_changelog\<rparr> = (Reply 200 (DispBreaches bs), s')
    \<and> length bs = 1 \<and> getEntry ''dispute.sla_breach:d1'' (da_changelog s') \<noteq> None"
proof -
  let ?s = "\<lparr>da_service = sample_escalated, da_changelog = new_changelog\<rparr>"
  have st: "ds_store sample_escalated = [(''d1'', moved 5 None ESCALATED (opened 0 sample_open))]"
    "ds_listAll sample_escalated"
    by (simp_all add: sample_escalated_def openDispute_def sample_open_def new_dispute_service_def
        opened_def transition_def resolveTransition_def Let_def)
  have inv: "ds_inv 5 (da_service ?s)"
    using ds_inv_run [OF ds_inv_new, of 0 "[(0, DsOpen sample_open), (5, DsMove None ''d1'' Escalate None)]" None]
    by (simp add: sample_escalated_def del: ds_run_simps)
  obtain bs s' where r: "breaches_route None (6 + 30 * MS_PER_DAY) ?s = (Reply 200 (DispBreaches bs), s')"
    by (simp add: breaches_route_def Let_def)
  have bs: "bs = [(moved 5 None ESCALATED (opened 0 sample_open), 1 + 30 * MS_PER_DAY)]"
    using r by (auto simp: breaches_route_def Let_def breaches_at_def listDisputesByState_def all_disputes_def st
        jm_values_def escalatedSlaBreach_def iso_truthy_def ESCALATED_SLA_MS_def MS_PER_DAY_def)
  from sla_breaches_recorded [OF inv _ r] st(2)
  have "getEntry (breach_entry ''d1'') (da_changelog s') \<noteq> None" by (simp add: bs) (simp add: sample_open_def)
  with r bs show ?thesis by auto
qed

end
