(* ===== verification/Trustless_Work.thy ===== *)
theory Trustless_Work
  imports App_Error
begin

text \<open>
  \<open>lib/network-guard.ts\<close> and \<open>lib/trustless-work.ts\<close>: the guard that keeps non-production
  processes off mainnet, and the client that resolves a dispute on chain. The URL parser, the HTTP
  transport and the Stellar SDK are parameters. A transport answers each request from the history
  of the requests sent before it, and the history is the state of the client's operations.
\<close>

section \<open>The mainnet guard\<close>

record network_guard_config =
  ng_nodeEnv :: "string option"
  ng_stellarNetwork :: "string option"
  ng_trustlessWorkApiUrl :: "string option"
  ng_ci :: "string option"

definition TRUSTLESS_WORK_MAINNET_HOSTS :: "string list" where
  "TRUSTLESS_WORK_MAINNET_HOSTS = [''api.trustlesswork.com'']"

definition isTruthyFlag :: "string option \<Rightarrow> bool" where
  "isTruthyFlag v = (case v of None \<Rightarrow> False | Some s \<Rightarrow>
     s \<noteq> [] \<and> toLowerCase (trim s) \<notin> set [''0'', ''false'', ''no'', ''off''])"

text \<open>\<open>hostname u\<close> is \<open>new URL(u).hostname\<close>, \<open>None\<close> when the constructor throws.\<close>

definition mainnetSignals :: "(string \<Rightarrow> string option) \<Rightarrow> network_guard_config \<Rightarrow> string list" where
  "mainnetSignals hostname config =
     (if ng_stellarNetwork config = Some ''mainnet'' then [''STELLAR_NETWORK=mainnet''] else [])
     @ (if truthy (ng_trustlessWorkApiUrl config) then
          (case hostname (the (ng_trustlessWorkApiUrl config)) of
             None \<Rightarrow> []
           | Some h \<Rightarrow>
               (let host = toLowerCase h in
                if host \<in> set TRUSTLESS_WORK_MAINNET_HOSTS
                then [''TRUSTLESS_WORK_API_URL points at '' @ host] else []))
        else [])"

definition isProductionEnvironment :: "network_guard_config \<Rightarrow> bool" where
  "isProductionEnvironment config =
     (ng_nodeEnv config = Some ''production'' \<and> \<not> isTruthyFlag (ng_ci config))"

definition assertMainnetSubmissionAllowed ::
  "(string \<Rightarrow> string option) \<Rightarrow> network_guard_config \<Rightarrow> string list + unit" where
  "assertMainnetSubmissionAllowed hostname config =
     (let reasons = mainnetSignals hostname config in
      if reasons = [] \<or> isProductionEnvironment config then Inr ()
      else
        (let envLabel =
           (if isTruthyFlag (ng_ci config) then ''CI='' @ the (ng_ci config)
            else ''NODE_ENV='' @ (case ng_nodeEnv config of None \<Rightarrow> ''unset'' | Some e \<Rightarrow> e))
         in Inl (envLabel # reasons)))"

text \<open>Whether the configuration points at mainnet, by either signal.\<close>

definition targets_mainnet :: "(string \<Rightarrow> string option) \<Rightarrow> network_guard_config \<Rightarrow> bool" where
  "targets_mainnet hostname config =
     (ng_stellarNetwork config = Some ''mainnet'' \<or>
      (\<exists>u h. ng_trustlessWorkApiUrl config = Some u \<and> u \<noteq> [] \<and> hostname u = Some h \<and>
         toLowerCase h = ''api.trustlesswork.com''))"

lemma mainnetSignals_Nil: "mainnetSignals hostname config = [] \<longleftrightarrow> \<not> targets_mainnet hostname config"
  by (cases "ng_trustlessWorkApiUrl config")
    (auto simp: mainnetSignals_def targets_mainnet_def TRUSTLESS_WORK_MAINNET_HOSTS_def Let_def
      split: option.splits)

lemma guard_blocks_iff:
  "isl (assertMainnetSubmissionAllowed hostname config) \<longleftrightarrow>
     targets_mainnet hostname config \<and> \<not> isProductionEnvironment config"
  by (auto simp: assertMainnetSubmissionAllowed_def mainnetSignals_Nil Let_def)

section \<open>The client\<close>

datatype escrow_type = SingleRelease | MultiRelease

fun escrow_type_name :: "escrow_type \<Rightarrow> string" where
  "escrow_type_name SingleRelease = ''single-release''"
| "escrow_type_name MultiRelease = ''multi-release''"

type_synonym distribution = "string \<times> jsnum"

record resolve_input =
  ri_contractId :: string
  ri_escrowType :: escrow_type
  ri_distributions :: "distribution list"
  ri_asset :: "string option"
  ri_milestoneIndex :: "string option"
  ri_requestId :: "string option"

record submitted_tx =
  tx_txHash :: string
  tx_status :: string
  tx_message :: string

text \<open>What the client's calls throw; the last case is an error of the transport or the SDK.\<close>

datatype tw_error =
    TwNotConfigured
  | TwError (tw_text: string) (tw_statusCode: "nat option") (tw_requestId: "string option")
  | MainnetSubmissionBlocked (tw_reasons: "string list")
  | TwRuntime (tw_runtime: string)

definition tw_message :: "tw_error \<Rightarrow> string" where
  "tw_message e = (case e of
       TwNotConfigured \<Rightarrow> ''TRUSTLESS_WORK_API_KEY and TRUSTLESS_WORK_DISPUTE_RESOLVER_SECRET must be configured to execute refunds''
     | TwError m st req \<Rightarrow> (if truthy req then m @ '' [requestId='' @ the req @ '']'' else m)
     | MainnetSubmissionBlocked rs \<Rightarrow>
         ''Refusing to submit a mainnet transaction outside production ('' @ join ''; '' rs @
         ''). Set STELLAR_NETWORK=testnet and point TRUSTLESS_WORK_API_URL at https://dev.api.trustlesswork.com for non-production environments.''
     | TwRuntime m \<Rightarrow> m)"

datatype http_method = GET | POST

datatype tw_body =
    ResolveBody (rb_contractId: string) (rb_disputeResolver: string)
      (rb_distributions: "distribution list") (rb_asset: "string option")
      (rb_milestoneIndex: "string option option")
  | SendBody (sb_signedXdr: string)
  | NoBody

record http_request =
  rq_method :: http_method
  rq_url :: string
  rq_apiKey :: string
  rq_requestId :: "string option"
  rq_body :: tw_body

text \<open>
  A response with the fields the client reads from the JSON body, each absent when the body lacks
  it or is not JSON (\<open>catch(() => ({}))\<close>). \<open>HttpFailed\<close> is a rejected \<open>fetch\<close>.
\<close>

record response_body =
  bd_message :: "string option"
  bd_unsignedTransaction :: "string option"
  bd_status :: "string option"
  bd_escrow_status :: "string option"

datatype http_response =
    HttpFailed string
  | HttpReply (hr_ok: bool) (hr_status: nat) (hr_statusText: string) (hr_body: response_body)

type_synonym transport = "http_request list \<Rightarrow> http_request \<Rightarrow> http_response"

text \<open>
  The SDK: the public key of a secret, and the hash and signed XDR of an unsigned XDR under a
  network passphrase and a secret; \<open>Inl\<close> is the message of the error it throws.
\<close>

record stellar_sdk =
  sdk_public :: "string \<Rightarrow> string + string"
  sdk_sign :: "string \<Rightarrow> string \<Rightarrow> string \<Rightarrow> string + string \<times> string"

record tw_env =
  te_apiUrl :: string
  te_apiKey :: "string option"
  te_secret :: "string option"
  te_mainnet :: bool

record tw_config =
  tc_apiUrl :: string
  tc_apiKey :: string
  tc_secret :: string
  tc_publicKey :: string
  tc_passphrase :: string

definition strip_slashes :: "string \<Rightarrow> string" where
  "strip_slashes u = rev (dropWhile (\<lambda>c. c = CHR ''/'') (rev u))"

definition requireTrustlessWorkConfig ::
  "stellar_sdk \<Rightarrow> string \<times> string \<Rightarrow> tw_env \<Rightarrow> tw_error + tw_config" where
  "requireTrustlessWorkConfig sdk networks env =
     (if \<not> truthy (te_apiKey env) \<or> \<not> truthy (te_secret env) then Inl TwNotConfigured
      else (case sdk_public sdk (the (te_secret env)) of
          Inl m \<Rightarrow> Inl (TwRuntime m)
        | Inr pub \<Rightarrow> Inr \<lparr>tc_apiUrl = strip_slashes (te_apiUrl env), tc_apiKey = the (te_apiKey env),
            tc_secret = the (te_secret env), tc_publicKey = pub,
            tc_passphrase = (if te_mainnet env then fst networks else snd networks)\<rparr>))"

definition tw_send ::
  "transport \<Rightarrow> http_method \<Rightarrow> string \<Rightarrow> string \<Rightarrow> string \<Rightarrow> tw_body \<Rightarrow> string option \<Rightarrow>
   http_request list \<Rightarrow> (tw_error + response_body) \<times> http_request list" where
  "tw_send fetch meth apiUrl apiKey path body requestId sent =
     (let rq = \<lparr>rq_method = meth, rq_url = apiUrl @ path, rq_apiKey = apiKey,
                rq_requestId = (if truthy requestId then requestId else None), rq_body = body\<rparr>
      in ((case fetch sent rq of
             HttpFailed m \<Rightarrow> Inl (TwRuntime m)
           | HttpReply ok st txt json \<Rightarrow>
               if \<not> ok then
                 Inl (TwError (''Trustless Work '' @ path @ '' failed: '' @
                     (case bd_message json of None \<Rightarrow> txt | Some m \<Rightarrow> m)) (Some st) requestId)
               else Inr json),
          sent @ [rq]))"

definition resolve_path :: "escrow_type \<Rightarrow> string" where
  "resolve_path t = ''/escrow/'' @ escrow_type_name t @ ''/'' @
     (if t = SingleRelease then ''resolve-dispute'' else ''resolve-milestone-dispute'')"

definition resolveDispute ::
  "stellar_sdk \<Rightarrow> string \<times> string \<Rightarrow> transport \<Rightarrow> tw_env \<Rightarrow> string option \<Rightarrow> resolve_input \<Rightarrow>
   http_request list \<Rightarrow> (tw_error + submitted_tx) \<times> http_request list" where
  "resolveDispute sdk networks fetch env amb inp sent =
     (case requireTrustlessWorkConfig sdk networks env of
        Inl e \<Rightarrow> (Inl e, sent)
      | Inr c \<Rightarrow>
          (let correlationId = coalesce (ri_requestId inp) amb;
               path = resolve_path (ri_escrowType inp);
               payload = ResolveBody (ri_contractId inp) (tc_publicKey c) (ri_distributions inp)
                 (ri_asset inp)
                 (if ri_escrowType inp = MultiRelease then Some (ri_milestoneIndex inp) else None)
           in case tw_send fetch POST (tc_apiUrl c) (tc_apiKey c) path payload correlationId sent of
                (Inl e, sent1) \<Rightarrow> (Inl e, sent1)
              | (Inr json, sent1) \<Rightarrow>
                  if \<not> truthy (bd_unsignedTransaction json) then
                    (Inl (TwError (''Trustless Work '' @ path @ '' returned no unsignedTransaction'')
                       None correlationId), sent1)
                  else (case sdk_sign sdk (the (bd_unsignedTransaction json)) (tc_passphrase c) (tc_secret c) of
                      Inl m \<Rightarrow> (Inl (TwRuntime m), sent1)
                    | Inr (txHash, signedXdr) \<Rightarrow>
                        (case tw_send fetch POST (tc_apiUrl c) (tc_apiKey c) ''/helper/send-transaction''
                                (SendBody signedXdr) correlationId sent1 of
                           (Inl e, sent2) \<Rightarrow> (Inl e, sent2)
                         | (Inr result, sent2) \<Rightarrow>
                             if bd_status result \<noteq> Some ''SUCCESS'' then
                               (Inl (TwError (''Stellar transaction '' @ txHash @ '' was not accepted: '' @
                                  (case coalesce (bd_message result) (bd_status result) of
                                     None \<Rightarrow> ''unknown status'' | Some m \<Rightarrow> m)) None correlationId), sent2)
                             else (Inr \<lparr>tx_txHash = txHash, tx_status = the (bd_status result),
                                tx_message = (case bd_message result of None \<Rightarrow> [] | Some m \<Rightarrow> m)\<rparr>, sent2)))))"

text \<open>\<open>encodeURIComponent\<close> is the \<open>enc\<close> argument.\<close>

definition getEscrow ::
  "stellar_sdk \<Rightarrow> string \<times> string \<Rightarrow> transport \<Rightarrow> (string \<Rightarrow> string) \<Rightarrow> tw_env \<Rightarrow> string option \<Rightarrow>
   string \<Rightarrow> string option \<Rightarrow> http_request list \<Rightarrow> (tw_error + string \<times> string) \<times> http_request list" where
  "getEscrow sdk networks fetch enc env amb contractId requestId sent =
     (case requireTrustlessWorkConfig sdk networks env of
        Inl e \<Rightarrow> (Inl e, sent)
      | Inr c \<Rightarrow>
          (let correlationId = coalesce requestId amb in
           case tw_send fetch GET (tc_apiUrl c) (tc_apiKey c) (''/escrow/'' @ enc contractId) NoBody
                  correlationId sent of
             (Inl e, sent1) \<Rightarrow> (Inl e, sent1)
           | (Inr json, sent1) \<Rightarrow>
               (let status = coalesce (bd_status json) (bd_escrow_status json) in
                if \<not> truthy status then
                  (Inl (TwError (''Trustless Work /escrow/'' @ contractId @ '' returned no status'')
                     None correlationId), sent1)
                else (Inr (contractId, the status), sent1))))"

section \<open>Retry budget and amounts\<close>

definition MAX_REFUND_ATTEMPTS :: int where "MAX_REFUND_ATTEMPTS = 5"
definition REFUND_RETRY_BASE_BACKOFF_MS :: int where "REFUND_RETRY_BASE_BACKOFF_MS = 1000"
definition MAX_REFUND_BACKOFF_MS :: int where "MAX_REFUND_BACKOFF_MS = 30000"

definition refundRetryBackoffMs :: "int \<Rightarrow> int" where
  "refundRetryBackoffMs attempt =
     (if attempt \<le> 1 then 0
      else min (REFUND_RETRY_BASE_BACKOFF_MS * 2 ^ nat (attempt - 2)) MAX_REFUND_BACKOFF_MS)"

definition isRefundRetryExhausted :: "int \<Rightarrow> bool" where
  "isRefundRetryExhausted made = (made \<ge> MAX_REFUND_ATTEMPTS)"

text \<open>\<open>False\<close> is a thrown \<open>RefundAmountMismatchError\<close>.\<close>

definition assertRefundAmountMatchesDisputedBalance :: "jsnum \<Rightarrow> jsnum \<Rightarrow> bool" where
  "assertRefundAmountMatchesDisputedBalance requested balance =
     (case (requested, balance) of
        (Fin a, Fin b) \<Rightarrow> \<not> \<bar>a - b\<bar> > 1 / 10 ^ 7
      | _ \<Rightarrow> False)"

section \<open>What the client guarantees\<close>

lemma tw_send_Inr:
  "tw_send fetch meth url key path body q sent = (Inr json, t) \<Longrightarrow>
   \<exists>rq st txt. t = sent @ [rq] \<and> rq_body rq = body \<and> fetch sent rq = HttpReply True st txt json"
  by (auto simp: tw_send_def Let_def split: http_response.splits if_splits intro!: exI)

lemma truthyE: "truthy v \<Longrightarrow> (\<And>s. v = Some s \<Longrightarrow> s \<noteq> [] \<Longrightarrow> P) \<Longrightarrow> P"
  by (cases v) auto

text \<open>A successful call passed through every stage of the pipeline.\<close>

lemma resolveDispute_InrE:
  assumes "resolveDispute sdk networks fetch env amb inp sent = (Inr r, t)"
  obtains c json1 sent1 xdr signed json2 meth1 meth2 u1 u2 q where
    "requireTrustlessWorkConfig sdk networks env = Inr c"
    "tw_send fetch meth1 (tc_apiUrl c) (tc_apiKey c) u1
       (ResolveBody (ri_contractId inp) (tc_publicKey c) (ri_distributions inp) (ri_asset inp)
         (if ri_escrowType inp = MultiRelease then Some (ri_milestoneIndex inp) else None)) q sent
       = (Inr json1, sent1)"
    "bd_unsignedTransaction json1 = Some xdr"
    "sdk_sign sdk xdr (tc_passphrase c) (tc_secret c) = Inr (tx_txHash r, signed)"
    "tw_send fetch meth2 (tc_apiUrl c) (tc_apiKey c) u2 (SendBody signed) q sent1 = (Inr json2, t)"
    "bd_status json2 = Some ''SUCCESS''"
  using assms unfolding resolveDispute_def Let_def
  by (auto split: sum.splits prod.splits if_splits elim!: truthyE simp del: coalesce.simps)

lemma resolveDispute_unconfigured:
  "\<not> truthy (te_apiKey env) \<or> \<not> truthy (te_secret env) \<Longrightarrow>
   resolveDispute sdk networks fetch env amb inp sent = (Inl TwNotConfigured, sent)"
  by (simp add: resolveDispute_def requireTrustlessWorkConfig_def)

lemma resolveDispute_trace:
  assumes "resolveDispute sdk networks fetch env amb inp sent = (Inr r, sent')"
  shows "\<exists>rq1 rq2 b1 b2 st1 st2 x1 x2 xdr signed.
      sent' = sent @ [rq1, rq2]
    \<and> rb_contractId (rq_body rq1) = ri_contractId inp
    \<and> rb_distributions (rq_body rq1) = ri_distributions inp
    \<and> fetch sent rq1 = HttpReply True st1 x1 b1 \<and> bd_unsignedTransaction b1 = Some xdr
    \<and> sdk_sign sdk xdr (if te_mainnet env then fst networks else snd networks) (the (te_secret env))
        = Inr (tx_txHash r, signed)
    \<and> rq_body rq2 = SendBody signed
    \<and> fetch (sent @ [rq1]) rq2 = HttpReply True st2 x2 b2 \<and> bd_status b2 = Some ''SUCCESS''
    \<and> truthy (te_apiKey env) \<and> truthy (te_secret env)"
using assms
proof (rule resolveDispute_InrE)
  fix c json1 sent1 xdr signed json2 meth1 meth2 u1 u2 q
  assume c: "requireTrustlessWorkConfig sdk networks env = Inr c"
    and s1: "tw_send fetch meth1 (tc_apiUrl c) (tc_apiKey c) u1
       (ResolveBody (ri_contractId inp) (tc_publicKey c) (ri_distributions inp) (ri_asset inp)
         (if ri_escrowType inp = MultiRelease then Some (ri_milestoneIndex inp) else None)) q sent
       = (Inr json1, sent1)"
    and x: "bd_unsignedTransaction json1 = Some xdr"
    and sg: "sdk_sign sdk xdr (tc_passphrase c) (tc_secret c) = Inr (tx_txHash r, signed)"
    and s2: "tw_send fetch meth2 (tc_apiUrl c) (tc_apiKey c) u2 (SendBody signed) q sent1 = (Inr json2, sent')"
    and ok: "bd_status json2 = Some ''SUCCESS''"
  have cfg: "tc_secret c = the (te_secret env)" "truthy (te_apiKey env)" "truthy (te_secret env)"
    "tc_passphrase c = (if te_mainnet env then fst networks else snd networks)"
    using c by (auto simp: requireTrustlessWorkConfig_def split: if_splits sum.splits)
  from tw_send_Inr [OF s1] obtain rq1 st1 t1 where 1: "sent1 = sent @ [rq1]"
    "rb_contractId (rq_body rq1) = ri_contractId inp"
    "rb_distributions (rq_body rq1) = ri_distributions inp" "fetch sent rq1 = HttpReply True st1 t1 json1"
    by auto
  from tw_send_Inr [OF s2] obtain rq2 st2 t2 where 2: "sent' = sent1 @ [rq2]"
    "rq_body rq2 = SendBody signed" "fetch sent1 rq2 = HttpReply True st2 t2 json2"
    by auto
  show ?thesis using 1 2 x sg ok cfg by fastforce
qed

text \<open>
  A dispute resolution is reported as done only after the network accepted it. If the client
  returns a transaction hash, then exactly two requests were sent: the first asked Trustless Work to
  resolve this contract with exactly the caller's distributions, the second submitted the
  transaction of that hash, signed with the configured secret for the configured network, and its
  reply carried the status SUCCESS. With no key or secret nothing is sent at all.
\<close>

theorem resolveDispute_sound:
  assumes "resolveDispute sdk networks fetch env amb inp sent = (Inr r, sent')"
  shows "\<exists>rq1 rq2 b1 b2 st1 st2 x1 x2 xdr signed.
      sent' = sent @ [rq1, rq2]
    \<and> rb_contractId (rq_body rq1) = ri_contractId inp
    \<and> rb_distributions (rq_body rq1) = ri_distributions inp
    \<and> fetch sent rq1 = HttpReply True st1 x1 b1 \<and> bd_unsignedTransaction b1 = Some xdr
    \<and> sdk_sign sdk xdr (if te_mainnet env then fst networks else snd networks) (the (te_secret env))
        = Inr (tx_txHash r, signed)
    \<and> rq_body rq2 = SendBody signed
    \<and> fetch (sent @ [rq1]) rq2 = HttpReply True st2 x2 b2 \<and> bd_status b2 = Some ''SUCCESS''
    \<and> truthy (te_apiKey env) \<and> truthy (te_secret env)"
  using assms by (rule resolveDispute_trace)

definition sample_sdk :: stellar_sdk where
  "sample_sdk = \<lparr>sdk_public = (\<lambda>s. Inr (''G'' @ s)), sdk_sign = (\<lambda>x p s. Inr (x @ p, x @ s))\<rparr>"

definition sample_body :: response_body where
  "sample_body = \<lparr>bd_message = None, bd_unsignedTransaction = None, bd_status = None, bd_escrow_status = None\<rparr>"

definition sample_transport :: transport where
  "sample_transport sent rq = (case rq_body rq of
       SendBody x \<Rightarrow> HttpReply True 200 ''OK'' (sample_body\<lparr>bd_status := Some ''SUCCESS''\<rparr>)
     | _ \<Rightarrow> HttpReply True 200 ''OK'' (sample_body\<lparr>bd_unsignedTransaction := Some ''AAAA''\<rparr>))"

definition sample_tw_env :: tw_env where
  "sample_tw_env = \<lparr>te_apiUrl = ''https://dev.api.trustlesswork.com'', te_apiKey = Some ''k'',
     te_secret = Some ''S'', te_mainnet = False\<rparr>"

definition sample_input :: resolve_input where
  "sample_input = \<lparr>ri_contractId = ''C1'', ri_escrowType = SingleRelease,
     ri_distributions = [(''G1'', Fin 5)], ri_asset = None, ri_milestoneIndex = None, ri_requestId = None\<rparr>"

lemmas sample_tw_defs = sample_sdk_def sample_body_def sample_transport_def sample_tw_env_def sample_input_def

theorem resolveDispute_sound_witness:
  "\<exists>rq1 rq2. snd (resolveDispute sample_sdk (''P'', ''T'') sample_transport sample_tw_env None sample_input [])
     = [rq1, rq2] \<and> rb_distributions (rq_body rq1) = [(''G1'', Fin 5)]"
proof -
  obtain r t where rt: "resolveDispute sample_sdk (''P'', ''T'') sample_transport sample_tw_env None sample_input []
      = (Inr r, t)"
    by (simp add: resolveDispute_def requireTrustlessWorkConfig_def tw_send_def sample_tw_defs Let_def)
  from resolveDispute_sound [OF this] show ?thesis using rt by (auto simp: sample_input_def)
qed

end
