(* ===== verification/Refund_Service.thy ===== *)
theory Refund_Service
  imports Trustless_Work Js_Date
begin

text \<open>
  \<open>services/refund.service.ts\<close>: the idempotent claim of a refund and its execution on chain. The
  executor is a parameter of the service, as in the code; \<open>TrustlessWorkRefundExecutor\<close> is one. The
  state is the store and the executor's own world.
\<close>

section \<open>Data\<close>

datatype amount = AmtNum jsnum | AmtStr string

fun amount_Number :: "amount option \<Rightarrow> jsnum" where
  "amount_Number None = NaN"
| "amount_Number (Some (AmtNum x)) = x"
| "amount_Number (Some (AmtStr s)) = js_Number s"

datatype refund_status = Claimed | Pending | Submitted | Failed

record claimed_refund =
  cr_refundId :: string
  cr_escrowId :: string
  cr_claimedAt :: iso
  cr_amount :: "amount option"
  cr_currency :: "string option"
  cr_claimedBy :: "string option"
  cr_status :: "refund_status option"
  cr_refundTo :: "string option"
  cr_escrowType :: "escrow_type option"
  cr_milestoneIndex :: "string option"
  cr_txHash :: "string option"
  cr_failureReason :: "string option"

record refund_payload =
  rp_refundId :: string
  rp_escrowId :: string
  rp_amount :: "amount option"
  rp_currency :: "string option"
  rp_claimedBy :: "string option"
  rp_refundTo :: "string option"
  rp_escrowType :: "escrow_type option"
  rp_milestoneIndex :: "string option"

section \<open>The in-memory store\<close>

type_synonym refund_store = "(string, claimed_refund) jmap"

definition insertIfAbsent :: "refund_store \<Rightarrow> string \<Rightarrow> claimed_refund \<Rightarrow> refund_store option" where
  "insertIfAbsent store refundId rcd =
     (if jm_has store refundId then None else Some (jm_set store refundId rcd))"

text \<open>\<open>new Date(claimedAt) < cutoff\<close>: false for an unparsable date.\<close>

definition claimed_before :: "int \<Rightarrow> claimed_refund \<Rightarrow> bool" where
  "claimed_before cutoff rcd = (case date_ms (cr_claimedAt rcd) of None \<Rightarrow> False | Some t \<Rightarrow> t < cutoff)"

fun cleanup_loop :: "int \<Rightarrow> (string \<times> claimed_refund) list \<Rightarrow> refund_store \<Rightarrow> nat \<Rightarrow> nat \<times> refund_store" where
  "cleanup_loop cutoff [] store removed = (removed, store)"
| "cleanup_loop cutoff ((i, rcd) # rest) store removed =
     (if claimed_before cutoff rcd then cleanup_loop cutoff rest (jm_delete store i) (removed + 1)
      else cleanup_loop cutoff rest store removed)"

definition cleanupBefore :: "int \<Rightarrow> refund_store \<Rightarrow> nat \<times> refund_store" where
  "cleanupBefore cutoff store = cleanup_loop cutoff store store 0"

definition cleanup :: "int \<Rightarrow> int \<Rightarrow> refund_store \<Rightarrow> nat \<times> refund_store" where
  "cleanup now retentionDays store = cleanupBefore (now - retentionDays * 24 * 60 * 60 * 1000) store"

interpretation refund_store: insert_store jm_get jm_set insertIfAbsent
  by unfold_locales (simp_all add: insertIfAbsent_def jm_has_def)

section \<open>The on-chain executor\<close>

type_synonym 'w executor = "claimed_refund \<Rightarrow> 'w \<Rightarrow> (tw_error + string) \<times> 'w"

text \<open>
  \<open>TrustlessWorkRefundExecutor.execute\<close>: the guard on the process environment, then the dispute
  resolution with the whole amount to one address. It passes neither an asset nor a request id.
\<close>

definition trustless_executor ::
  "(string \<Rightarrow> string option) \<Rightarrow> network_guard_config \<Rightarrow> stellar_sdk \<Rightarrow> string \<times> string \<Rightarrow> transport \<Rightarrow>
   tw_env \<Rightarrow> string option \<Rightarrow> http_request list executor" where
  "trustless_executor hostname guardConfig sdk networks fetch env amb claim sent =
     (case assertMainnetSubmissionAllowed hostname guardConfig of
        Inl reasons \<Rightarrow> (Inl (MainnetSubmissionBlocked reasons), sent)
      | Inr _ \<Rightarrow>
          (case resolveDispute sdk networks fetch env amb
                  \<lparr>ri_contractId = cr_escrowId claim,
                   ri_escrowType = (case cr_escrowType claim of None \<Rightarrow> SingleRelease | Some t \<Rightarrow> t),
                   ri_distributions = [(the (cr_refundTo claim), amount_Number (cr_amount claim))],
                   ri_asset = None, ri_milestoneIndex = cr_milestoneIndex claim,
                   ri_requestId = None\<rparr> sent of
             (Inl e, sent') \<Rightarrow> (Inl e, sent')
           | (Inr r, sent') \<Rightarrow> (Inr (tx_txHash r), sent')))"

section \<open>The service\<close>

text \<open>The regular expression \<open>^[GC][A-Z2-7]{55}$\<close>.\<close>

definition STELLAR_ADDRESS :: "string \<Rightarrow> bool" where
  "STELLAR_ADDRESS s = (case s of [] \<Rightarrow> False
     | c # r \<Rightarrow> (c = CHR ''G'' \<or> c = CHR ''C'') \<and> length r = 55 \<and> list_all base32_char r)"

definition assertExecutable :: "refund_payload \<Rightarrow> app_error + unit" where
  "assertExecutable p =
     (let amount = amount_Number (rp_amount p) in
      if \<not> truthy (rp_refundTo p) \<or> \<not> STELLAR_ADDRESS (the (rp_refundTo p)) then
        Inl (AppError 400 ''REFUND_INVALID_PAYLOAD'' ''refundTo must be a Stellar address'')
      else if rp_amount p = None \<or> \<not> isFinite amount \<or> js_le amount (Fin 0) then
        Inl (AppError 400 ''REFUND_INVALID_PAYLOAD'' ''amount must be a positive number'')
      else if rp_escrowType p = Some MultiRelease \<and> \<not> truthy (rp_milestoneIndex p) then
        Inl (AppError 400 ''REFUND_INVALID_PAYLOAD'' ''milestoneIndex is required for multi-release escrows'')
      else Inr ())"

definition alreadyClaimed :: "string \<Rightarrow> refund_store \<Rightarrow> app_error \<times> refund_store" where
  "alreadyClaimed refundId store =
     (let existing = jm_get store refundId;
          store' = (case existing of
              Some e \<Rightarrow> (if cr_status e = Some Failed then jm_set store refundId e else store)
            | None \<Rightarrow> store)
      in (AppError 409 ''REFUND_ALREADY_CLAIMED''
            (''Refund '' @ refundId @ '' was already claimed at '' @
             (case existing of None \<Rightarrow> ''an earlier time'' | Some e \<Rightarrow> iso_text (cr_claimedAt e))),
          store'))"

definition base_record :: "int \<Rightarrow> refund_payload \<Rightarrow> claimed_refund" where
  "base_record now p =
     \<lparr>cr_refundId = rp_refundId p, cr_escrowId = rp_escrowId p, cr_claimedAt = Iso now,
      cr_amount = rp_amount p, cr_currency = rp_currency p, cr_claimedBy = rp_claimedBy p,
      cr_status = None, cr_refundTo = None, cr_escrowType = None, cr_milestoneIndex = None,
      cr_txHash = None, cr_failureReason = None\<rparr>"

definition pending_record :: "int \<Rightarrow> refund_payload \<Rightarrow> claimed_refund" where
  "pending_record now p = (base_record now p)
     \<lparr>cr_status := Some Pending, cr_refundTo := rp_refundTo p,
      cr_escrowType := Some (case rp_escrowType p of None \<Rightarrow> SingleRelease | Some t \<Rightarrow> t),
      cr_milestoneIndex := rp_milestoneIndex p\<rparr>"

text \<open>The error a failed execution ends in.\<close>

definition execution_error :: "string \<Rightarrow> tw_error \<Rightarrow> app_error" where
  "execution_error refundId err =
     (if err = TwNotConfigured then
        AppError 503 ''REFUND_EXECUTION_UNAVAILABLE'' ''On-chain refunds are not configured''
      else AppError 502 ''REFUND_EXECUTION_FAILED''
        (''Refund '' @ refundId @ '' could not be executed: '' @ tw_message err))"

definition claimRefund ::
  "'w executor option \<Rightarrow> int \<Rightarrow> refund_payload \<Rightarrow> refund_store \<times> 'w \<Rightarrow>
   claimed_refund outcome \<times> (refund_store \<times> 'w)" where
  "claimRefund executor now p s =
     (let (store, w) = s; refundId = rp_refundId p in
      if refundId = [] \<or> rp_escrowId p = [] then
        (Inl (AppError 400 ''REFUND_INVALID_PAYLOAD'' ''refundId and escrowId are required''), s)
      else case executor of
          None \<Rightarrow>
            (let rcd = (base_record now p)\<lparr>cr_status := Some Claimed\<rparr> in
             case insertIfAbsent store refundId rcd of
               None \<Rightarrow> (let (e, store') = alreadyClaimed refundId store in (Inl e, (store', w)))
             | Some store' \<Rightarrow> (Inr rcd, (store', w)))
        | Some execute \<Rightarrow>
            (case assertExecutable p of
               Inl e \<Rightarrow> (Inl e, s)
             | Inr _ \<Rightarrow>
                 (let rcd = pending_record now p in
                  case insertIfAbsent store refundId rcd of
                    None \<Rightarrow> (let (e, store') = alreadyClaimed refundId store in (Inl e, (store', w)))
                  | Some store' \<Rightarrow>
                      (case execute rcd w of
                         (Inr txHash, w') \<Rightarrow>
                           (let submitted = rcd\<lparr>cr_status := Some Submitted, cr_txHash := Some txHash\<rparr>
                            in (Inr submitted, (jm_set store' refundId submitted, w')))
                       | (Inl err, w') \<Rightarrow>
                           (Inl (execution_error refundId err),
                            (jm_set store' refundId
                               (rcd\<lparr>cr_status := Some Failed, cr_failureReason := Some (tw_message err)\<rparr>), w'))))))"

definition getClaimStatus :: "string \<Rightarrow> refund_store \<Rightarrow> claimed_refund option" where
  "getClaimStatus refundId store = jm_get store refundId"

end
