(* ===== verification/Refund_Properties.thy ===== *)
theory Refund_Properties
  imports Refund_Service "HOL-Library.Multiset"
begin

text \<open>
  What the refund service promises: the outcome of a claim on every branch, that a refund id is
  executed at most once whatever the interleaving of concurrent claims, the mainnet guard, and the
  retention sweep.
\<close>

section \<open>One claim\<close>

definition claim_valid :: "refund_payload \<Rightarrow> bool" where
  "claim_valid p = (rp_refundId p \<noteq> [] \<and> rp_escrowId p \<noteq> [] \<and> assertExecutable p = Inr ())"

lemma claimRefund_invalid:
  "\<not> claim_valid p \<Longrightarrow> \<exists>e. claimRefund (Some execute) now p s = (Inl e, s) \<and> statusCode e = 400"
  by (cases s) (auto simp: claimRefund_def claim_valid_def assertExecutable_def Let_def)

lemma claimRefund_new:
  "claim_valid p \<Longrightarrow> jm_get store (rp_refundId p) = None \<Longrightarrow>
   claimRefund (Some execute) now p (store, w) =
     (case execute (pending_record now p) w of
        (Inr h, w') \<Rightarrow>
          (Inr ((pending_record now p)\<lparr>cr_status := Some Submitted, cr_txHash := Some h\<rparr>),
           (jm_set (jm_set store (rp_refundId p) (pending_record now p)) (rp_refundId p)
              ((pending_record now p)\<lparr>cr_status := Some Submitted, cr_txHash := Some h\<rparr>), w'))
      | (Inl err, w') \<Rightarrow>
          (Inl (execution_error (rp_refundId p) err),
           (jm_set (jm_set store (rp_refundId p) (pending_record now p)) (rp_refundId p)
              ((pending_record now p)\<lparr>cr_status := Some Failed,
                 cr_failureReason := Some (tw_message err)\<rparr>), w')))"
  by (simp add: claimRefund_def claim_valid_def insertIfAbsent_def jm_has_def Let_def
      split: prod.splits sum.splits)

lemma jm_set_same: "jm_get m k = Some v \<Longrightarrow> jm_set m k v = m"
  by (induction m) (auto split: if_splits)

lemma alreadyClaimed_store: "snd (alreadyClaimed i store) = store"
  by (auto simp: alreadyClaimed_def Let_def jm_set_same split: option.splits)

lemma claimRefund_dup:
  "claim_valid p \<Longrightarrow> jm_get store (rp_refundId p) = Some r \<Longrightarrow>
   claimRefund (Some execute) now p (store, w) =
     (Inl (fst (alreadyClaimed (rp_refundId p) store)), (store, w))"
  using alreadyClaimed_store [of "rp_refundId p" store]
  by (cases "alreadyClaimed (rp_refundId p) store")
    (simp add: claimRefund_def claim_valid_def insertIfAbsent_def jm_has_def Let_def)

text \<open>
  C3: A claim succeeds exactly when its refund was executed by this very call. With an executor the
  claim returns a record if and only if the payload is valid, the refund id is free and the executor
  returned a transaction hash on the pending record; the record is then the one stored under the id,
  it is submitted and carries that hash. If the executor failed, the failure is stored with its
  reason and the status is 503 for a missing configuration and 502 otherwise; an invalid payload is
  a 400 and a taken id a 409, and these two leave store and outside world untouched.
\<close>

theorem claimRefund_outcome:
  "(case claimRefund (Some execute) now p (store, w) of
      (Inr r, store', w') \<Rightarrow> claim_valid p \<and> getClaimStatus (rp_refundId p) store = None \<and>
        (\<exists>h. execute (pending_record now p) w = (Inr h, w') \<and> cr_txHash r = Some h) \<and>
        cr_status r = Some Submitted \<and>
        jm_get store' = (jm_get store)(rp_refundId p \<mapsto> r)
    | (Inl e, store', w') \<Rightarrow>
        (statusCode e = 400 \<and> \<not> claim_valid p \<and> store' = store \<and> w' = w) \<or>
        (statusCode e = 409 \<and> getClaimStatus (rp_refundId p) store \<noteq> None \<and> store' = store \<and> w' = w) \<or>
        (getClaimStatus (rp_refundId p) store = None \<and>
         (\<exists>err. execute (pending_record now p) w = (Inl err, w') \<and>
            statusCode e = (if err = TwNotConfigured then 503 else 502) \<and>
            (\<exists>r. jm_get store' = (jm_get store)(rp_refundId p \<mapsto> r) \<and> cr_status r = Some Failed \<and>
                 cr_failureReason r = Some (tw_message err)))))"
proof (cases "claim_valid p")
  case False
  then show ?thesis using claimRefund_invalid [OF False, of execute now "(store, w)"] by auto
next
  case True
  show ?thesis
  proof (cases "jm_get store (rp_refundId p)")
    case (Some r)
    then show ?thesis
      by (simp add: claimRefund_dup [OF True Some] getClaimStatus_def alreadyClaimed_def Let_def)
  next
    case None
    obtain res w' where ex: "execute (pending_record now p) w = (res, w')" by force
    show ?thesis using claimRefund_new [OF True None, of execute now w] ex None True
      by (cases res) (auto simp: getClaimStatus_def execution_error_def fun_eq_iff)
  qed
qed

text \<open>A claim whose id is on record does not reach the executor and changes nothing.\<close>

lemma claim_on_record_refused:
  assumes "jm_get store (rp_refundId p) = Some r"
  shows "\<exists>e. claimRefund (Some execute) now p (store, w) = (Inl e, (store, w))
    \<and> statusCode e = (if claim_valid p then 409 else 400)"
proof (cases "claim_valid p")
  case True
  with assms show ?thesis by (simp add: claimRefund_dup alreadyClaimed_def Let_def)
next
  case False
  with claimRefund_invalid [OF False, of execute now "(store, w)"] show ?thesis by auto
qed

definition sample_address :: string where
  "sample_address = CHR ''G'' # replicate 55 (CHR ''A'')"

definition sample_claim :: refund_payload where
  "sample_claim = \<lparr>rp_refundId = ''r1'', rp_escrowId = ''C1'', rp_amount = Some (AmtNum (Fin 5)),
     rp_currency = None, rp_claimedBy = Some ''u1'', rp_refundTo = Some sample_address,
     rp_escrowType = None, rp_milestoneIndex = None\<rparr>"

lemma sample_claim_valid [simp]: "claim_valid sample_claim"
proof -
  have "length sample_address = 56" "sample_address \<noteq> []" "STELLAR_ADDRESS sample_address"
    by (simp_all add: sample_address_def STELLAR_ADDRESS_def base32_char_def list_all_iff)
  then show ?thesis
    by (simp add: claim_valid_def sample_claim_def assertExecutable_def isFinite_def)
qed

lemma sample_claim_id: "rp_refundId sample_claim = ''r1''"
  by (simp add: sample_claim_def)

definition sample_failed :: claimed_refund where
  "sample_failed = (pending_record 3 sample_claim)
     \<lparr>cr_status := Some Failed, cr_failureReason := Some ''timeout''\<rparr>"

section \<open>Concurrent claims\<close>

text \<open>
  A process serves many claims at once: a handler runs without interruption between two awaits.
  \<open>Start\<close> covers the validation and \<open>insertIfAbsent\<close>; \<open>Won\<close> is a handler whose insert succeeded and
  that has yet to call the executor; \<open>Executing\<close> waits for it; \<open>Lost\<close> and \<open>LostRead\<close> are the two
  awaits of \<open>alreadyClaimed\<close>. The executor's answers are arbitrary, and so is the clock.
\<close>

datatype pc =
    Start
  | Won claimed_refund
  | Executing claimed_refund
  | Lost
  | LostRead "claimed_refund option"
  | Done "claimed_refund outcome"

record refund_system =
  rs_store :: refund_store
  rs_executed :: "string list"
  rs_handlers :: "(refund_payload \<times> pc) multiset"

definition settled :: "claimed_refund \<Rightarrow> tw_error + string \<Rightarrow> claimed_refund \<times> claimed_refund outcome" where
  "settled rcd res = (case res of
       Inr h \<Rightarrow> (let s = rcd\<lparr>cr_status := Some Submitted, cr_txHash := Some h\<rparr> in (s, Inr s))
     | Inl err \<Rightarrow> (rcd\<lparr>cr_status := Some Failed, cr_failureReason := Some (tw_message err)\<rparr>,
         Inl (execution_error (cr_refundId rcd) err)))"

inductive refund_step :: "refund_system \<Rightarrow> refund_system \<Rightarrow> bool" where
  arrive: "refund_step s (s\<lparr>rs_handlers := add_mset (p, Start) (rs_handlers s)\<rparr>)"
| reject: "rs_handlers s = add_mset (p, Start) T \<Longrightarrow> \<not> claim_valid p \<Longrightarrow> statusCode e = 400 \<Longrightarrow>
    refund_step s (s\<lparr>rs_handlers := add_mset (p, Done (Inl e)) T\<rparr>)"
| win: "rs_handlers s = add_mset (p, Start) T \<Longrightarrow> claim_valid p \<Longrightarrow>
    insertIfAbsent (rs_store s) (rp_refundId p) (pending_record now p) = Some store \<Longrightarrow>
    refund_step s (s\<lparr>rs_store := store, rs_handlers := add_mset (p, Won (pending_record now p)) T\<rparr>)"
| lose: "rs_handlers s = add_mset (p, Start) T \<Longrightarrow> claim_valid p \<Longrightarrow>
    insertIfAbsent (rs_store s) (rp_refundId p) (pending_record now p) = None \<Longrightarrow>
    refund_step s (s\<lparr>rs_handlers := add_mset (p, Lost) T\<rparr>)"
| call: "rs_handlers s = add_mset (p, Won r) T \<Longrightarrow>
    refund_step s (s\<lparr>rs_executed := rp_refundId p # rs_executed s,
                     rs_handlers := add_mset (p, Executing r) T\<rparr>)"
| settle: "rs_handlers s = add_mset (p, Executing r) T \<Longrightarrow>
    refund_step s (s\<lparr>rs_store := jm_set (rs_store s) (rp_refundId p) (fst (settled r res)),
                     rs_handlers := add_mset (p, Done (snd (settled r res))) T\<rparr>)"
| read: "rs_handlers s = add_mset (p, Lost) T \<Longrightarrow>
    refund_step s (s\<lparr>rs_handlers := add_mset (p, LostRead (jm_get (rs_store s) (rp_refundId p))) T\<rparr>)"
| answer: "rs_handlers s = add_mset (p, LostRead x) T \<Longrightarrow> statusCode e = 409 \<Longrightarrow>
    store = (case x of Some r \<Rightarrow> if cr_status r = Some Failed
                  then jm_set (rs_store s) (rp_refundId p) r else rs_store s
             | None \<Rightarrow> rs_store s) \<Longrightarrow>
    refund_step s (s\<lparr>rs_store := store, rs_handlers := add_mset (p, Done (Inl e)) T\<rparr>)"

definition refund_init :: refund_system where
  "refund_init = \<lparr>rs_store = [], rs_executed = [], rs_handlers = {#}\<rparr>"

definition refund_reachable :: "refund_system \<Rightarrow> bool" where
  "refund_reachable s = refund_step\<^sup>*\<^sup>* refund_init s"

definition handlers_in :: "(pc \<Rightarrow> bool) \<Rightarrow> string \<Rightarrow> (refund_payload \<times> pc) multiset \<Rightarrow> nat" where
  "handlers_in P i T = size (filter_mset (\<lambda>(p, c). rp_refundId p = i \<and> P c) T)"

fun is_won :: "pc \<Rightarrow> bool" where
  "is_won (Won r) = True" | "is_won c = False"

fun is_winner :: "pc \<Rightarrow> bool" where
  "is_winner (Won r) = True" | "is_winner (Executing r) = True"
| "is_winner (Done (Inr r)) = True" | "is_winner c = False"

fun is_executing :: "pc \<Rightarrow> bool" where
  "is_executing (Executing r) = True" | "is_executing c = False"

lemma handlers_in_add [simp]:
  "handlers_in P i (add_mset (p, c) T) = (if rp_refundId p = i \<and> P c then 1 else 0) + handlers_in P i T"
  by (simp add: handlers_in_def)

lemma handlers_in_empty [simp]: "handlers_in P i {#} = 0"
  by (simp add: handlers_in_def)

lemma handlers_in_mem: "(p, c) \<in># T \<Longrightarrow> P c \<Longrightarrow> 0 < handlers_in P (rp_refundId p) T"
  by (force simp: handlers_in_def nonempty_has_size [symmetric] filter_mset_eq_mempty_iff)

text \<open>What a handler knows of the store at its current await.\<close>

fun pc_ok :: "refund_store \<Rightarrow> string list \<Rightarrow> string \<Rightarrow> pc \<Rightarrow> bool" where
  "pc_ok store ex i (Won r) = (jm_get store i = Some r \<and> cr_status r = Some Pending)"
| "pc_ok store ex i (Executing r) = (jm_get store i = Some r \<and> cr_status r = Some Pending \<and> i \<in> set ex)"
| "pc_ok store ex i (LostRead (Some r)) = (cr_status r = Some Failed \<longrightarrow> jm_get store i = Some r)"
| "pc_ok store ex i (Done (Inr r)) = (jm_get store i = Some r \<and> cr_status r = Some Submitted)"
| "pc_ok store ex i c = True"

definition id_ok :: "refund_store \<Rightarrow> string list \<Rightarrow> (refund_payload \<times> pc) multiset \<Rightarrow> string \<Rightarrow> bool" where
  "id_ok store ex T i =
     (handlers_in is_winner i T \<le> 1 \<and> count_list ex i + handlers_in is_won i T \<le> 1 \<and>
      (jm_get store i = None \<longrightarrow> handlers_in is_winner i T = 0 \<and> count_list ex i = 0 \<and> handlers_in is_won i T = 0) \<and>
      (\<forall>r. jm_get store i = Some r \<longrightarrow> cr_status r = Some Submitted \<longrightarrow> i \<in> set ex))"

definition refund_inv :: "refund_system \<Rightarrow> bool" where
  "refund_inv s = ((\<forall>i. id_ok (rs_store s) (rs_executed s) (rs_handlers s) i) \<and>
     (\<forall>p c. (p, c) \<in># rs_handlers s \<longrightarrow> pc_ok (rs_store s) (rs_executed s) (rp_refundId p) c))"

lemma refund_invD:
  "refund_inv s \<Longrightarrow> id_ok (rs_store s) (rs_executed s) (rs_handlers s) i"
  "refund_inv s \<Longrightarrow> (p, c) \<in># rs_handlers s \<Longrightarrow> pc_ok (rs_store s) (rs_executed s) (rp_refundId p) c"
  by (simp_all add: refund_inv_def)

lemma refund_invI:
  "(\<And>i. id_ok (rs_store s) (rs_executed s) (rs_handlers s) i) \<Longrightarrow>
   (\<And>p c. (p, c) \<in># rs_handlers s \<Longrightarrow> pc_ok (rs_store s) (rs_executed s) (rp_refundId p) c) \<Longrightarrow>
   refund_inv s"
  by (simp add: refund_inv_def)

lemma pc_ok_frame:
  "pc_ok store ex i c \<Longrightarrow> jm_get store' i = jm_get store i \<Longrightarrow> set ex \<subseteq> set ex' \<Longrightarrow> pc_ok store' ex' i c"
  by (induction store ex i c rule: pc_ok.induct) auto

lemma pc_ok_fresh:
  "pc_ok store ex i c \<Longrightarrow> jm_get store i = None \<Longrightarrow> \<not> is_winner c \<Longrightarrow> pc_ok store' ex i c"
  by (induction store ex i c rule: pc_ok.induct) auto

lemma insertIfAbsent_iff:
  "insertIfAbsent m i r = Some m' \<longleftrightarrow> jm_get m i = None \<and> m' = jm_set m i r"
  by (auto simp: insertIfAbsent_def jm_has_def)

lemma pending_status [simp]: "cr_status (pending_record now p) = Some Pending"
  by (simp add: pending_record_def)

text \<open>A step of one handler that leaves store and execution log alone.\<close>

lemma refund_inv_local:
  assumes inv: "refund_inv s" and h: "rs_handlers s = add_mset (p, c) T"
    and d: "pc_ok (rs_store s) (rs_executed s) (rp_refundId p) d"
    and w: "is_winner c = is_winner d" "is_won c = is_won d"
  shows "refund_inv (s\<lparr>rs_handlers := add_mset (p, d) T\<rparr>)"
proof (rule refund_invI)
  fix i
  show "id_ok (rs_store (s\<lparr>rs_handlers := add_mset (p, d) T\<rparr>)) (rs_executed (s\<lparr>rs_handlers := add_mset (p, d) T\<rparr>))
     (rs_handlers (s\<lparr>rs_handlers := add_mset (p, d) T\<rparr>)) i"
    using refund_invD(1) [OF inv, of i] h w by (simp add: id_ok_def)
next
  fix q e
  assume "(q, e) \<in># rs_handlers (s\<lparr>rs_handlers := add_mset (p, d) T\<rparr>)"
  then show "pc_ok (rs_store (s\<lparr>rs_handlers := add_mset (p, d) T\<rparr>))
     (rs_executed (s\<lparr>rs_handlers := add_mset (p, d) T\<rparr>)) (rp_refundId q) e"
    using refund_invD(2) [OF inv, of q e] h d by auto
qed

lemma refund_inv_win:
  assumes inv: "refund_inv s" and h: "rs_handlers s = add_mset (p, Start) T"
    and ins: "insertIfAbsent (rs_store s) (rp_refundId p) (pending_record now p) = Some store"
  shows "refund_inv (s\<lparr>rs_store := store, rs_handlers := add_mset (p, Won (pending_record now p)) T\<rparr>)"
    (is "refund_inv ?t")
proof (rule refund_invI)
  let ?i = "rp_refundId p"
  have st: "jm_get (rs_store s) ?i = None" "store = jm_set (rs_store s) ?i (pending_record now p)"
    using ins by (simp_all add: insertIfAbsent_iff)
  have zero: "handlers_in is_winner ?i T = 0" "count_list (rs_executed s) ?i = 0" "handlers_in is_won ?i T = 0"
    using refund_invD(1) [OF inv, of ?i] st(1) h by (simp_all add: id_ok_def)
  show "id_ok (rs_store ?t) (rs_executed ?t) (rs_handlers ?t) i" for i
    using refund_invD(1) [OF inv, of i] h st zero by (cases "i = ?i") (simp_all add: id_ok_def)
  fix q c assume m: "(q, c) \<in># rs_handlers ?t"
  show "pc_ok (rs_store ?t) (rs_executed ?t) (rp_refundId q) c"
  proof (cases "(q, c) = (p, Won (pending_record now p))")
    case False
    with m have m': "(q, c) \<in># T" by auto
    then have ok: "pc_ok (rs_store s) (rs_executed s) (rp_refundId q) c"
      using refund_invD(2) [OF inv, of q c] h by simp
    show ?thesis
    proof (cases "rp_refundId q = ?i")
      case True
      then have "\<not> is_winner c" using handlers_in_mem [OF m', of is_winner] zero(1) by auto
      from pc_ok_fresh [OF ok _ this] True st(1) show ?thesis by simp
    next
      case False
      with pc_ok_frame [OF ok, of store "rs_executed s"] st(2) show ?thesis by simp
    qed
  qed (simp add: st)
qed

lemma pc_ok_settle:
  "pc_ok store ex i c \<Longrightarrow> \<not> is_winner c \<Longrightarrow> jm_get store i = Some r \<Longrightarrow> cr_status r = Some Pending \<Longrightarrow>
   pc_ok store' ex i c"
  by (induction store ex i c rule: pc_ok.induct) auto

lemma settled_ok:
  "pc_ok (jm_set m i (fst (settled r res))) ex i (Done (snd (settled r res)))"
  by (cases res) (simp_all add: settled_def Let_def)

lemma refund_inv_settle:
  assumes inv: "refund_inv s" and h: "rs_handlers s = add_mset (p, Executing r) T"
  shows "refund_inv (s\<lparr>rs_store := jm_set (rs_store s) (rp_refundId p) (fst (settled r res)),
     rs_handlers := add_mset (p, Done (snd (settled r res))) T\<rparr>)" (is "refund_inv ?t")
proof (rule refund_invI)
  let ?i = "rp_refundId p" and ?d = "Done (snd (settled r res))"
  have p: "jm_get (rs_store s) ?i = Some r" "cr_status r = Some Pending" "?i \<in> set (rs_executed s)"
    using refund_invD(2) [OF inv, of p "Executing r"] h by simp_all
  have zero: "handlers_in is_winner ?i T = 0"
    using refund_invD(1) [OF inv, of ?i] h by (simp add: id_ok_def)
  have nw: "\<not> is_won ?d" by (cases "snd (settled r res)") simp_all
  show "id_ok (rs_store ?t) (rs_executed ?t) (rs_handlers ?t) i" for i
    using refund_invD(1) [OF inv, of i] h p zero nw by (cases "i = ?i") (auto simp: id_ok_def)
  fix q c assume m: "(q, c) \<in># rs_handlers ?t"
  show "pc_ok (rs_store ?t) (rs_executed ?t) (rp_refundId q) c"
  proof (cases "(q, c) = (p, ?d)")
    case True
    then show ?thesis using settled_ok by simp
  next
    case False
    with m have m': "(q, c) \<in># T" by auto
    then have ok: "pc_ok (rs_store s) (rs_executed s) (rp_refundId q) c"
      using refund_invD(2) [OF inv, of q c] h by simp
    show ?thesis
    proof (cases "rp_refundId q = ?i")
      case True
      then have "\<not> is_winner c" using handlers_in_mem [OF m', of is_winner] zero by auto
      from pc_ok_settle [OF ok this] True p show ?thesis by simp
    next
      case False
      with pc_ok_frame [OF ok, of "rs_store ?t" "rs_executed s"] show ?thesis by simp
    qed
  qed
qed

lemma refund_inv_call:
  assumes inv: "refund_inv s" and h: "rs_handlers s = add_mset (p, Won r) T"
  shows "refund_inv (s\<lparr>rs_executed := rp_refundId p # rs_executed s,
     rs_handlers := add_mset (p, Executing r) T\<rparr>)" (is "refund_inv ?t")
proof (rule refund_invI)
  show "id_ok (rs_store ?t) (rs_executed ?t) (rs_handlers ?t) i" for i
    using refund_invD(1) [OF inv, of i] refund_invD(2) [OF inv, of p "Won r"] h
    by (auto simp: id_ok_def)
  fix q c assume m: "(q, c) \<in># rs_handlers ?t"
  show "pc_ok (rs_store ?t) (rs_executed ?t) (rp_refundId q) c"
  proof (cases "(q, c) = (p, Executing r)")
    case True
    then show ?thesis using refund_invD(2) [OF inv, of p "Won r"] h by simp
  next
    case False
    with m h have "pc_ok (rs_store s) (rs_executed s) (rp_refundId q) c"
      using refund_invD(2) [OF inv, of q c] by auto
    then show ?thesis by (rule pc_ok_frame) auto
  qed
qed

lemma refund_inv_step: "refund_step s t \<Longrightarrow> refund_inv s \<Longrightarrow> refund_inv t"
proof (induction rule: refund_step.induct)
  case (arrive s p)
  then show ?case by (auto simp: refund_inv_def id_ok_def)
next
  case (reject s p T e)
  then show ?case by (intro refund_inv_local) auto
next
  case (lose s p T now)
  then show ?case by (intro refund_inv_local) auto
next
  case (read s p T)
  then show ?case by (intro refund_inv_local [of s p Lost]) (cases "jm_get (rs_store s) (rp_refundId p)"; simp)+
next
  case (answer s p x T e store)
  have "pc_ok (rs_store s) (rs_executed s) (rp_refundId p) (LostRead x)"
    using answer refund_invD(2) [of s p "LostRead x"] by simp
  then have "store = rs_store s" using answer(3) by (auto simp: jm_set_same split: option.splits)
  then show ?case using answer refund_inv_local [of s p "LostRead x" T "Done (Inl e)"] by simp
qed (auto intro: refund_inv_win refund_inv_settle refund_inv_call)

lemma refund_reachable_inv: "refund_reachable s \<Longrightarrow> refund_inv s"
  unfolding refund_reachable_def
proof (induction rule: rtranclp_induct)
  case base
  show ?case by (simp add: refund_inv_def id_ok_def refund_init_def)
qed (rule refund_inv_step)

text \<open>
  C1: Concurrent claims move the money of a refund at most once. In every state the service can reach
  under any interleaving of any number of claim handlers, with any executor answers, the executor was
  called at most once per refund id, at most one claim for that id has returned a record, and a claim
  recorded as submitted belongs to an id for which the executor was called.
\<close>

theorem refund_executes_at_most_once:
  assumes "refund_reachable s"
  shows "count_list (rs_executed s) i \<le> 1
    \<and> handlers_in (\<lambda>c. \<exists>r. c = Done (Inr r)) i (rs_handlers s) \<le> 1
    \<and> (\<forall>r. getClaimStatus i (rs_store s) = Some r \<longrightarrow> cr_status r = Some Submitted \<longrightarrow>
         count_list (rs_executed s) i = 1)"
proof -
  have ok: "id_ok (rs_store s) (rs_executed s) (rs_handlers s) i"
    using refund_invD(1) [OF refund_reachable_inv [OF assms]] .
  have "handlers_in (\<lambda>c. \<exists>r. c = Done (Inr r)) i T \<le> handlers_in is_winner i T" for T
    by (induction T) (auto split: if_splits)
  moreover have "i \<in> set (rs_executed s) \<Longrightarrow> 1 \<le> count_list (rs_executed s) i"
    by (metis count_list_0_iff less_one not_le)
  ultimately show ?thesis using ok unfolding id_ok_def getClaimStatus_def
    by (meson le_antisym le_trans add_leD1)
qed

text \<open>A handler that runs alone takes the steps of the system that \<open>claimRefund\<close> composes.\<close>

lemma claimRefund_steps:
  assumes "rs_handlers s = add_mset (p, Start) T"
    and "claimRefund (Some execute) now p (rs_store s, w) = (r, (store', w'))"
  shows "\<exists>t. refund_step\<^sup>*\<^sup>* s t \<and> rs_store t = store' \<and> rs_handlers t = add_mset (p, Done r) T
    \<and> (rs_executed t = rs_executed s \<or> rs_executed t = rp_refundId p # rs_executed s)"
proof (cases "claim_valid p")
  case False
  with claimRefund_invalid [OF False, of execute now "(rs_store s, w)"] assms(2)
  obtain e where e: "r = Inl e" "statusCode e = 400" "store' = rs_store s" by auto
  then show ?thesis using refund_step.reject [OF assms(1) False e(2)]
    by (intro exI [of _ "s\<lparr>rs_handlers := add_mset (p, Done (Inl e)) T\<rparr>"]) auto
next
  case True
  show ?thesis
  proof (cases "jm_get (rs_store s) (rp_refundId p)")
    case (Some x)
    define e where "e = fst (alreadyClaimed (rp_refundId p) (rs_store s))"
    let ?e = e
    have "statusCode ?e = 409" by (simp add: e_def alreadyClaimed_def Let_def)
    then have r: "r = Inl ?e" "store' = rs_store s" "statusCode ?e = 409"
      using assms(2) by (auto simp: claimRefund_dup [OF True Some] e_def)
    let ?t1 = "s\<lparr>rs_handlers := add_mset (p, Lost) T\<rparr>"
    let ?t2 = "s\<lparr>rs_handlers := add_mset (p, LostRead (Some x)) T\<rparr>"
    let ?t3 = "s\<lparr>rs_handlers := add_mset (p, Done (Inl ?e)) T\<rparr>"
    have "refund_step s ?t1"
      using refund_step.lose [OF assms(1) True] Some by (simp add: insertIfAbsent_def jm_has_def)
    moreover have "refund_step ?t1 ?t2"
      using refund_step.read [of ?t1 p T] Some by simp
    moreover have "refund_step ?t2 ?t3"
    proof -
      have st: "rs_store s = (case Some x of Some r \<Rightarrow> if cr_status r = Some Failed
          then jm_set (rs_store ?t2) (rp_refundId p) r else rs_store ?t2 | None \<Rightarrow> rs_store ?t2)"
        using Some by (simp add: jm_set_same)
      have "?t2\<lparr>rs_store := rs_store s, rs_handlers := add_mset (p, Done (Inl e)) T\<rparr> = ?t3"
        by (cases s) simp
      with refund_step.answer [of ?t2 p "Some x" T e, OF _ r(3) st] show ?thesis by simp
    qed
    ultimately have "refund_step\<^sup>*\<^sup>* s ?t3" by (meson converse_rtranclp_into_rtranclp rtranclp.rtrancl_refl)
    then show ?thesis using r by (intro exI [of _ ?t3]) simp
  next
    case None
    obtain res w2 where ex: "execute (pending_record now p) w = (res, w2)" by force
    let ?rec = "pending_record now p" and ?m = "jm_set (rs_store s) (rp_refundId p) (pending_record now p)"
    let ?t1 = "s\<lparr>rs_store := ?m, rs_handlers := add_mset (p, Won ?rec) T\<rparr>"
    let ?t2 = "?t1\<lparr>rs_executed := rp_refundId p # rs_executed s, rs_handlers := add_mset (p, Executing ?rec) T\<rparr>"
    let ?t3 = "?t2\<lparr>rs_store := jm_set ?m (rp_refundId p) (fst (settled ?rec res)),
      rs_handlers := add_mset (p, Done (snd (settled ?rec res))) T\<rparr>"
    have id: "cr_refundId ?rec = rp_refundId p" by (simp add: pending_record_def base_record_def)
    have "r = snd (settled ?rec res) \<and> store' = jm_set ?m (rp_refundId p) (fst (settled ?rec res))"
      using assms(2) ex id by (cases res) (auto simp: claimRefund_new [OF True None] settled_def Let_def)
    moreover have "refund_step s ?t1"
      using refund_step.win [OF assms(1) True] None by (simp add: insertIfAbsent_iff)
    moreover have "refund_step ?t1 ?t2" using refund_step.call [of ?t1 p ?rec T] by simp
    moreover have "refund_step ?t2 ?t3" using refund_step.settle [of ?t2 p ?rec T res] by simp
    ultimately show ?thesis
      by (intro exI [of _ ?t3]) (auto intro: converse_rtranclp_into_rtranclp)
  qed
qed

theorem refund_executes_at_most_once_witness:
  "\<exists>s. refund_reachable s \<and> rs_executed s = [''r1''] \<and> count_list (rs_executed s) ''r1'' \<le> 1"
proof -
  let ?s = "refund_init\<lparr>rs_handlers := {#(sample_claim, Start)#}\<rparr>"
  have "refund_step refund_init ?s"
    using refund_step.arrive [of refund_init sample_claim] by (simp add: refund_init_def)
  moreover have "refund_step ?s (?s\<lparr>rs_store := [(''r1'', pending_record 3 sample_claim)],
      rs_handlers := {#(sample_claim, Won (pending_record 3 sample_claim))#}\<rparr>)" (is "refund_step _ ?t")
    using refund_step.win [of ?s sample_claim "{#}" 3] sample_claim_id
    by (simp add: insertIfAbsent_def refund_init_def jm_has_def)
  moreover have "refund_step ?t (?t\<lparr>rs_executed := [''r1''],
      rs_handlers := {#(sample_claim, Executing (pending_record 3 sample_claim))#}\<rparr>)" (is "refund_step _ ?u")
    using refund_step.call [of ?t sample_claim "pending_record 3 sample_claim" "{#}"] sample_claim_id
    by (simp add: refund_init_def)
  ultimately have "refund_reachable ?u"
    unfolding refund_reachable_def by (meson converse_rtranclp_into_rtranclp rtranclp.rtrancl_refl)
  with refund_executes_at_most_once [OF this, of "''r1''"] show ?thesis
    by (intro exI [of _ ?u]) simp
qed

end
