(* ===== verification/Refund_Safety.thy ===== *)
theory Refund_Safety
  imports Refund_Properties
begin

text \<open>
  Where the money of a refund can go: the on-chain executor behind the claim, the mainnet guard in
  front of it, the retention sweep and the retry budget.
\<close>

section \<open>What a paid refund paid\<close>

lemma js_le_Fin [simp]: "js_le (Fin a) (Fin b) = (a \<le> b)"
  by simp

lemma assertExecutable_ok:
  "assertExecutable p = Inr () \<longleftrightarrow>
     (\<exists>a. rp_refundTo p = Some a \<and> STELLAR_ADDRESS a)
   \<and> (\<exists>r. rp_amount p \<noteq> None \<and> amount_Number (rp_amount p) = Fin r \<and> 0 < r)
   \<and> (rp_escrowType p = Some MultiRelease \<longrightarrow> truthy (rp_milestoneIndex p))"
proof -
  have "STELLAR_ADDRESS a \<Longrightarrow> a \<noteq> []" for a by (auto simp: STELLAR_ADDRESS_def)
  then show ?thesis
    by (cases "rp_refundTo p"; cases "amount_Number (rp_amount p)")
      (auto simp: assertExecutable_def Let_def isFinite_def not_le)
qed

lemma trustless_executor_Inr:
  assumes "trustless_executor hostname g sdk networks fetch env amb claim sent = (Inr h, sent')"
  shows "assertMainnetSubmissionAllowed hostname g = Inr () \<and>
    (\<exists>r inp. resolveDispute sdk networks fetch env amb inp sent = (Inr r, sent') \<and> tx_txHash r = h
      \<and> ri_contractId inp = cr_escrowId claim
      \<and> ri_distributions inp = [(the (cr_refundTo claim), amount_Number (cr_amount claim))])"
  using assms by (force simp: trustless_executor_def split: sum.splits prod.splits)

text \<open>
  C2: A paid refund paid the claim and nothing else. If a claim returns a record, the service sent
  exactly two requests: one that resolves the dispute of the claim's escrow with a single
  distribution, the claim's amount, a positive finite number, to the claim's address, a
  well-formed Stellar address; and one that submitted the signed transaction, which the network
  accepted. The process was then allowed to submit: in production, or not pointed at mainnet.
\<close>

theorem refund_pays_the_claim:
  assumes "claimRefund (Some (trustless_executor hostname g sdk networks fetch env amb)) now p (store, sent)
     = (Inr r, (store', sent'))"
  shows "\<exists>rq1 rq2 to a b st txt.
      sent' = sent @ [rq1, rq2]
    \<and> rb_contractId (rq_body rq1) = rp_escrowId p
    \<and> rb_distributions (rq_body rq1) = [(to, Fin a)]
    \<and> rp_refundTo p = Some to \<and> STELLAR_ADDRESS to \<and> 0 < a \<and> amount_Number (rp_amount p) = Fin a
    \<and> fetch (sent @ [rq1]) rq2 = HttpReply True st txt b \<and> bd_status b = Some ''SUCCESS''
    \<and> (isProductionEnvironment g \<or> \<not> targets_mainnet hostname g)"
proof -
  let ?ex = "trustless_executor hostname g sdk networks fetch env amb"
  have v: "claim_valid p"
    using claimRefund_invalid [of p ?ex now "(store, sent)"] assms by fastforce
  have n: "jm_get store (rp_refundId p) = None"
    using claimRefund_dup [OF v, of store _ ?ex now sent] assms
    by (cases "jm_get store (rp_refundId p)") auto
  from assms obtain h where ex: "?ex (pending_record now p) sent = (Inr h, sent')"
    by (auto simp: claimRefund_new [OF v n] split: prod.splits sum.splits)
  obtain d inp where d: "resolveDispute sdk networks fetch env amb inp sent = (Inr d, sent')"
    "ri_contractId inp = rp_escrowId p"
    "ri_distributions inp = [(the (rp_refundTo p), amount_Number (rp_amount p))]"
    using trustless_executor_Inr [OF ex] by (auto simp: pending_record_def base_record_def)
  have g: "isProductionEnvironment g \<or> \<not> targets_mainnet hostname g"
    using trustless_executor_Inr [OF ex] guard_blocks_iff [of hostname g] by auto
  obtain to a where p: "rp_refundTo p = Some to" "STELLAR_ADDRESS to" "amount_Number (rp_amount p) = Fin a" "0 < a"
    using v by (auto simp: claim_valid_def assertExecutable_ok)
  from resolveDispute_trace [OF d(1)] show ?thesis using d(2,3) p g by fastforce
qed

definition sample_guard :: network_guard_config where
  "sample_guard = \<lparr>ng_nodeEnv = Some ''test'', ng_stellarNetwork = Some ''testnet'',
     ng_trustlessWorkApiUrl = None, ng_ci = None\<rparr>"

lemma sample_refund:
  "\<exists>r m s. claimRefund (Some (trustless_executor (\<lambda>u. None) sample_guard sample_sdk (''P'', ''T'')
      sample_transport sample_tw_env None)) 3 sample_claim ([], []) = (Inr r, (m, s))"
proof -
  let ?ex = "trustless_executor (\<lambda>u. None) sample_guard sample_sdk (''P'', ''T'')
      sample_transport sample_tw_env None"
  have "\<exists>h s. ?ex c [] = (Inr h, s)" for c
    by (simp add: trustless_executor_def assertMainnetSubmissionAllowed_def mainnetSignals_def
        sample_guard_def resolveDispute_def requireTrustlessWorkConfig_def tw_send_def sample_tw_defs Let_def)
  then obtain h s where "?ex (pending_record 3 sample_claim) [] = (Inr h, s)" by blast
  then show ?thesis by (simp add: claimRefund_new)
qed

theorem refund_pays_the_claim_witness:
  "\<exists>rq1 rq2. snd (snd (claimRefund (Some (trustless_executor (\<lambda>u. None) sample_guard sample_sdk (''P'', ''T'')
      sample_transport sample_tw_env None)) 3 sample_claim ([], []))) = [rq1, rq2]
    \<and> rb_distributions (rq_body rq1) = [(sample_address, Fin 5)]"
proof -
  obtain r m s where c: "claimRefund (Some (trustless_executor (\<lambda>u. None) sample_guard sample_sdk (''P'', ''T'')
      sample_transport sample_tw_env None)) 3 sample_claim ([], []) = (Inr r, (m, s))"
    using sample_refund by blast
  from refund_pays_the_claim [OF c] show ?thesis unfolding c by (auto simp: sample_claim_def)
qed

section \<open>The mainnet guard\<close>

text \<open>
  C19: No non-production process submits on mainnet. When the environment is not production (another
  NODE_ENV, or a CI runner) and either signal points at mainnet, a claim sends no request whatever
  and returns no record; a new valid claim is stored as failed, and its error is the 502 of a failed
  execution, not the 503 REFUND_MAINNET_SUBMISSION_BLOCKED that the route documents.
\<close>

theorem mainnet_guard_blocks:
  assumes "targets_mainnet hostname g" and "\<not> isProductionEnvironment g"
  shows "\<exists>e store'. claimRefund (Some (trustless_executor hostname g sdk networks fetch env amb)) now p (store, sent)
      = (Inl e, (store', sent))
    \<and> (claim_valid p \<and> getClaimStatus (rp_refundId p) store = None \<longrightarrow>
        statusCode e = 502 \<and> err_code e = ''REFUND_EXECUTION_FAILED'' \<and>
        (\<exists>r. getClaimStatus (rp_refundId p) store' = Some r \<and> cr_status r = Some Failed))"
proof -
  let ?ex = "trustless_executor hostname g sdk networks fetch env amb"
  have ex: "\<exists>rs. ?ex c w = (Inl (MainnetSubmissionBlocked rs), w)" for c w
    using guard_blocks_iff [of hostname g] assms
    by (cases "assertMainnetSubmissionAllowed hostname g") (auto simp: trustless_executor_def)
  show ?thesis
  proof (cases "claim_valid p")
    case False
    then show ?thesis using claimRefund_invalid [OF False, of ?ex now "(store, sent)"] by auto
  next
    case True
    show ?thesis
    proof (cases "jm_get store (rp_refundId p)")
      case (Some r)
      then show ?thesis using claimRefund_dup [OF True Some, of ?ex now sent] by (simp add: getClaimStatus_def)
    next
      case None
      obtain rs where "?ex (pending_record now p) sent = (Inl (MainnetSubmissionBlocked rs), sent)"
        using ex by blast
      then show ?thesis using claimRefund_new [OF True None, of ?ex now sent]
        by (simp add: getClaimStatus_def execution_error_def)
    qed
  qed
qed

theorem mainnet_guard_blocks_witness:
  "snd (snd (claimRefund (Some (trustless_executor (\<lambda>u. Some ''API.trustlesswork.com'')
      (sample_guard\<lparr>ng_nodeEnv := Some ''production'', ng_ci := Some ''true'',
        ng_trustlessWorkApiUrl := Some ''https://API.trustlesswork.com''\<rparr>)
      sample_sdk (''P'', ''T'') sample_transport sample_tw_env None)) 3 sample_claim ([], []))) = []"
proof -
  let ?g = "sample_guard\<lparr>ng_nodeEnv := Some ''production'', ng_ci := Some ''true'',
        ng_trustlessWorkApiUrl := Some ''https://API.trustlesswork.com''\<rparr>"
  have "targets_mainnet (\<lambda>u. Some ''API.trustlesswork.com'') ?g"
    by (simp add: targets_mainnet_def sample_guard_def) code_simp
  moreover have "\<not> isProductionEnvironment ?g"
    by (simp add: isProductionEnvironment_def) code_simp
  ultimately show ?thesis
    using mainnet_guard_blocks [of "\<lambda>u. Some ''API.trustlesswork.com''" ?g sample_sdk "(''P'', ''T'')"
        sample_transport sample_tw_env None 3 sample_claim "[]" "[]"] by auto
qed

section \<open>Retention\<close>

lemma cleanup_loop_eq:
  assumes "distinct (map fst rest)"
  shows "jm_get (snd (cleanup_loop cutoff rest store n)) i =
      (case map_of rest i of Some r \<Rightarrow> if claimed_before cutoff r then None else jm_get store i
       | None \<Rightarrow> jm_get store i)
    \<and> fst (cleanup_loop cutoff rest store n) = n + length (filter (\<lambda>x. claimed_before cutoff (snd x)) rest)"
  using assms
proof (induction rest arbitrary: store n)
  case (Cons a rest)
  obtain j r where a: "a = (j, r)" by (cases a)
  have j: "map_of rest j = None" using Cons.prems a by (simp add: map_of_eq_None_iff)
  show ?case using Cons.IH [of "jm_delete store j" "n + 1"] Cons.IH [of store n] Cons.prems a j
    by (auto split: option.splits)
qed simp

text \<open>
  The retention sweep evicts exactly the expired claims. After \<open>cleanup\<close> a refund id is bound
  iff it was bound before and its claim is not older than the retention period, to the same record;
  the number returned is the number of claims removed. So a claim within the period still blocks a
  second execution.
\<close>

theorem cleanup_exact:
  assumes "jm_wf store"
  shows "getClaimStatus i (snd (cleanup now days store)) =
      (case getClaimStatus i store of None \<Rightarrow> None
       | Some r \<Rightarrow> if (\<exists>t. cr_claimedAt r = Iso t \<and> t < now - days * MS_PER_DAY) then None else Some r)
    \<and> fst (cleanup now days store)
      = length (filter (\<lambda>r. \<exists>t. cr_claimedAt r = Iso t \<and> t < now - days * MS_PER_DAY) (jm_values store))"
proof -
  have cb: "claimed_before c r \<longleftrightarrow> (\<exists>t. cr_claimedAt r = Iso t \<and> t < c)" for c r
    by (cases "cr_claimedAt r") (simp_all add: claimed_before_def)
  have eq: "cleanup now days store = cleanup_loop (now - days * MS_PER_DAY) store store 0"
    by (simp add: cleanup_def cleanupBefore_def MS_PER_DAY_def mult.commute)
  have d: "distinct (map fst store)" using assms by (simp add: jm_wf_def)
  have v: "length (filter P (jm_values store)) = length (filter (\<lambda>x. P (snd x)) store)" for P
    by (induction store) (simp_all add: jm_values_def)
  show ?thesis
    unfolding eq v getClaimStatus_def using cleanup_loop_eq [OF d, of "now - days * MS_PER_DAY" store 0 i]
    by (cases "jm_get store i") (simp_all add: cb flip: jm_get_def)
qed

theorem cleanup_exact_witness:
  "getClaimStatus ''r1'' (snd (cleanup (3 + 91 * MS_PER_DAY) 90 [(''r1'', sample_failed)])) = None
   \<and> getClaimStatus ''r1'' (snd (cleanup (3 + 89 * MS_PER_DAY) 90 [(''r1'', sample_failed)])) = Some sample_failed"
proof -
  have w: "jm_wf [(''r1'', sample_failed)]" by (simp add: jm_wf_def)
  have t: "cr_claimedAt sample_failed = Iso 3"
    by (simp add: sample_failed_def pending_record_def base_record_def)
  show ?thesis
    using cleanup_exact [OF w, of "''r1''" "3 + 91 * MS_PER_DAY" 90]
      cleanup_exact [OF w, of "''r1''" "3 + 89 * MS_PER_DAY" 90]
    by (simp add: getClaimStatus_def t MS_PER_DAY_def)
qed

section \<open>A claim on record is not executed again\<close>

text \<open>
  A history of one service process: claims, each with the executor, the clock and the payload of its
  moment, and retention sweeps, each with its clock and its retention period. \<open>watched\<close> keeps, beside
  the executor's own world, the refund ids it was called with.
\<close>

datatype 'w refund_call =
    ClaimCall "'w executor" int refund_payload
  | SweepCall int int

definition watched :: "'w executor \<Rightarrow> (string list \<times> 'w) executor" where
  "watched execute rcd lw =
     (case execute rcd (snd lw) of (res, w') \<Rightarrow> (res, (fst lw @ [cr_refundId rcd], w')))"

fun serve_call :: "'w refund_call \<Rightarrow> refund_store \<times> string list \<times> 'w \<Rightarrow> refund_store \<times> string list \<times> 'w" where
  "serve_call (ClaimCall execute now p) s = snd (claimRefund (Some (watched execute)) now p s)"
| "serve_call (SweepCall now days) s = (snd (cleanup now days (fst s)), snd s)"

definition refund_calls :: "'w refund_call list \<Rightarrow> refund_store \<times> string list \<times> 'w \<Rightarrow> refund_store \<times> string list \<times> 'w" where
  "refund_calls cs s = foldl (\<lambda>s c. serve_call c s) s cs"

text \<open>The call is a sweep for which the record is past its retention.\<close>

fun evicts :: "claimed_refund \<Rightarrow> 'w refund_call \<Rightarrow> bool" where
  "evicts r (ClaimCall execute now p) = False"
| "evicts r (SweepCall now days) = (\<exists>t. cr_claimedAt r = Iso t \<and> t < now - days * MS_PER_DAY)"

lemma cleanup_loop_wf: "jm_wf store \<Longrightarrow> jm_wf (snd (cleanup_loop cutoff rest store n))"
  by (induction cutoff rest store n rule: cleanup_loop.induct) auto

lemma cleanup_wf: "jm_wf store \<Longrightarrow> jm_wf (snd (cleanup now days store))"
  by (simp add: cleanup_def cleanupBefore_def cleanup_loop_wf)

lemma watched_claim:
  assumes "claim_valid p" and "jm_get store (rp_refundId p) = None"
  shows "\<exists>r' w'. serve_call (ClaimCall execute now p) (store, paid, w)
    = (jm_set (jm_set store (rp_refundId p) (pending_record now p)) (rp_refundId p) r',
       (paid @ [rp_refundId p], w')) \<and> cr_claimedAt r' = Iso now"
proof -
  have i: "cr_refundId (pending_record now p) = rp_refundId p" "cr_claimedAt (pending_record now p) = Iso now"
    by (simp_all add: pending_record_def base_record_def)
  obtain res w' where ex: "execute (pending_record now p) w = (res, w')" by force
  show ?thesis
    by (cases res) (auto simp: claimRefund_new [OF assms] watched_def ex i)
qed

text \<open>One call that does not evict the record of an id keeps it and does not execute the id.\<close>

lemma serve_call_keeps:
  assumes "jm_wf store" and "jm_get store i = Some r" and "\<not> evicts r c"
    and "serve_call c (store, paid, w) = (store', paid', w')"
  shows "jm_wf store' \<and> jm_get store' i = Some r \<and> (\<exists>new. paid' = paid @ new \<and> i \<notin> set new)"
proof (cases c)
  case (SweepCall now days)
  then show ?thesis using assms cleanup_exact [OF assms(1), of i now days]
    by (auto simp: getClaimStatus_def dest: cleanup_wf [of store now days])
next
  case (ClaimCall execute now p)
  consider (dup) r' where "jm_get store (rp_refundId p) = Some r'" | (bad) "\<not> claim_valid p"
    | (fresh) "claim_valid p" "jm_get store (rp_refundId p) = None" by (cases "jm_get store (rp_refundId p)") auto
  then show ?thesis
  proof cases
    case dup
    then show ?thesis using assms ClaimCall claim_on_record_refused [OF dup, of "watched execute" now "(paid, w)"] by auto
  next
    case bad
    then show ?thesis using assms ClaimCall claimRefund_invalid [OF bad, of "watched execute" now "(store, paid, w)"] by auto
  next
    case fresh
    then show ?thesis using assms ClaimCall watched_claim [OF fresh, of execute now paid w] by auto
  qed
qed

lemma refund_calls_keep:
  assumes "jm_wf store" and "jm_get store i = Some r" and "list_all (\<lambda>c. \<not> evicts r c) cs"
    and "refund_calls cs (store, paid, w) = (store', paid', w')"
  shows "jm_wf store' \<and> jm_get store' i = Some r \<and> (\<exists>new. paid' = paid @ new \<and> i \<notin> set new)"
  using assms
proof (induction cs arbitrary: store paid w)
  case (Cons c cs)
  obtain s1 l1 w1 where c: "serve_call c (store, paid, w) = (s1, l1, w1)" by (metis prod_cases3)
  with Cons.prems have k: "jm_wf s1 \<and> jm_get s1 i = Some r \<and> (\<exists>new. l1 = paid @ new \<and> i \<notin> set new)"
    by (intro serve_call_keeps) auto
  have "refund_calls cs (s1, l1, w1) = (store', paid', w')" using Cons.prems c by (simp add: refund_calls_def)
  with Cons.IH [of s1 l1 w1] k Cons.prems(3) show ?case by fastforce
qed (simp add: refund_calls_def)

text \<open>
  C4: A refund is not executed again while its claim is on record, a failed claim included. Take any
  well-formed store that holds a record for a refund id, and any history of claims, for this id or
  others, with any payloads, executors and clocks, and of retention sweeps, none of which finds that
  record past its retention. After the history the record is the same, the executor was never called
  for the id, and one more claim for the id calls it neither: it changes nothing and ends in a 409, or
  in a 400 if its payload is invalid. The protection ends with the record: the first sweep that finds
  it past its retention frees the id, and the next valid claim for it does execute the refund again.
\<close>

theorem claimed_never_reexecuted:
  fixes cs :: "'w refund_call list"
  assumes "jm_wf store" and "getClaimStatus i store = Some r" and "list_all (\<lambda>c. \<not> evicts r c) cs"
    and "refund_calls cs (store, paid, w) = (store', paid', w')" and "rp_refundId p = i"
  shows "getClaimStatus i store' = Some r
    \<and> (\<exists>new. paid' = paid @ new \<and> i \<notin> set new)
    \<and> (\<exists>e. claimRefund (Some (watched execute)) now p (store', paid', w') = (Inl e, (store', paid', w'))
         \<and> statusCode e = (if claim_valid p then 409 else 400))
    \<and> (if evicts r (SweepCall later days :: 'w refund_call) \<and> claim_valid p then
         getClaimStatus i (snd (cleanup later days store')) = None
         \<and> fst (snd (refund_calls [SweepCall later days, ClaimCall execute now p] (store', paid', w'))) = paid' @ [i]
       else True)"
proof -
  have k: "jm_wf store' \<and> jm_get store' i = Some r \<and> (\<exists>new. paid' = paid @ new \<and> i \<notin> set new)"
    using refund_calls_keep [OF assms(1) _ assms(3,4)] assms(2) by (simp add: getClaimStatus_def)
  have one: "\<exists>e. claimRefund (Some (watched execute)) now p (store', paid', w') = (Inl e, (store', paid', w'))
      \<and> statusCode e = (if claim_valid p then 409 else 400)"
    using k assms(5) claim_on_record_refused [of store' p r "watched execute" now "(paid', w')"] by blast
  have two: "getClaimStatus i (snd (cleanup later days store')) = None
      \<and> fst (snd (refund_calls [SweepCall later days, ClaimCall execute now p] (store', paid', w'))) = paid' @ [i]"
    if e: "evicts r (SweepCall later days :: 'w refund_call)" and v: "claim_valid p"
  proof -
    have n: "jm_get (snd (cleanup later days store')) (rp_refundId p) = None"
      using k e cleanup_exact [of store' i later days] assms(5) by (simp add: getClaimStatus_def)
    obtain r' w2 where "serve_call (ClaimCall execute now p) (snd (cleanup later days store'), paid', w')
      = (jm_set (jm_set (snd (cleanup later days store')) (rp_refundId p) (pending_record now p)) (rp_refundId p) r',
         (paid' @ [rp_refundId p], w2))" 
      using watched_claim [OF v n, of execute now paid' w'] by fast
    then show ?thesis using n assms(5) by (simp add: getClaimStatus_def refund_calls_def del: serve_call.simps(1))
  qed
  show ?thesis using k one two by (simp add: getClaimStatus_def)
qed

theorem claimed_never_reexecuted_witness:
  "\<exists>s. refund_calls [ClaimCall (\<lambda>c n. (Inr ''hash'', Suc n)) 9 sample_claim, SweepCall (3 + 89 * MS_PER_DAY) 90]
        ([(''r1'', sample_failed)], [], 0) = s
     \<and> getClaimStatus ''r1'' (fst s) = Some sample_failed \<and> fst (snd s) = []
     \<and> fst (snd (refund_calls [SweepCall (3 + 91 * MS_PER_DAY) 90, ClaimCall (\<lambda>c n. (Inr ''hash'', Suc n)) 9 sample_claim] s))
         = [''r1'']"
proof -
  let ?c = "ClaimCall (\<lambda>c n. (Inr ''hash'', Suc n)) 9 sample_claim :: nat refund_call"
  let ?cs = "[?c, SweepCall (3 + 89 * MS_PER_DAY) 90]"
  have t: "cr_claimedAt sample_failed = Iso 3"
    by (simp add: sample_failed_def pending_record_def base_record_def)
  have d: "claimRefund (Some ex) 9 sample_claim ([(''r1'', sample_failed)], lw)
      = (Inl (fst (alreadyClaimed ''r1'' [(''r1'', sample_failed)])), ([(''r1'', sample_failed)], lw))"
    for ex and lw :: "string list \<times> nat"
    by (simp add: claimRefund_dup sample_claim_id)
  have e: "refund_calls ?cs ([(''r1'', sample_failed)], [], 0) = ([(''r1'', sample_failed)], [], 0)"
    by (simp add: refund_calls_def d cleanup_def cleanupBefore_def claimed_before_def t MS_PER_DAY_def)
  show ?thesis
    using claimed_never_reexecuted [OF _ _ _ e, where p = sample_claim and i = "''r1''" and r = sample_failed
        and execute = "\<lambda>c n. (Inr ''hash'', Suc n)" and now = 9 and later = "3 + 91 * MS_PER_DAY" and days = 90]
    unfolding e by (simp add: getClaimStatus_def sample_claim_id t MS_PER_DAY_def jm_wf_def)
qed

section \<open>The retry budget\<close>

lemma backoff_step: "2 \<le> n \<Longrightarrow> refundRetryBackoffMs (n + 1) = min (2 * refundRetryBackoffMs n) MAX_REFUND_BACKOFF_MS"
proof -
  assume "2 \<le> n"
  then have "nat (n - 1) = Suc (nat (n - 2))" by linarith
  then show ?thesis using \<open>2 \<le> n\<close>
    by (simp add: refundRetryBackoffMs_def REFUND_RETRY_BASE_BACKOFF_MS_def MAX_REFUND_BACKOFF_MS_def min_def)
qed

text \<open>
  The backoff of refund retries doubles up to its cap: the first attempt does not wait, the second
  waits one second, each later one waits twice as long as the one before but never more than thirty
  seconds, and every delay lies between zero and the cap.
\<close>

theorem refund_backoff_shape:
  "refundRetryBackoffMs 1 = 0 \<and> refundRetryBackoffMs 2 = 1000
   \<and> (if 2 \<le> n then refundRetryBackoffMs (n + 1) = min (2 * refundRetryBackoffMs n) 30000 else True)
   \<and> 0 \<le> refundRetryBackoffMs n \<and> refundRetryBackoffMs n \<le> 30000"
  using backoff_step [of n]
  by (auto simp: refundRetryBackoffMs_def REFUND_RETRY_BASE_BACKOFF_MS_def MAX_REFUND_BACKOFF_MS_def)

end
