(* ===== verification/Refund_Routes.thy ===== *)
theory Refund_Routes
  imports Refund_Safety Changelog_Service Http_Input
begin

text \<open>
  \<open>routes/refunds.ts\<close>: the claim and status endpoints over the refund service, and the end-to-end
  dispute-to-refund run with its injected dependencies. An error handed to \<open>next\<close> is answered by the
  global error handler.
\<close>

section \<open>The claim endpoint\<close>

datatype refund_body =
    RbClaim claimed_refund
  | RbExisting string string "claimed_refund option"
  | RbError string string

text \<open>The optional fields of \<open>claimSchema\<close>; \<open>None\<close> rejects.\<close>

fun optional_amount :: "json option \<Rightarrow> amount option option" where
  "optional_amount None = Some None"
| "optional_amount (Some (JStr s)) = Some (Some (AmtStr s))"
| "optional_amount (Some (JNum x)) = (if x = NaN then None else Some (Some (AmtNum x)))"
| "optional_amount v = None"

definition optional_escrow_type :: "json option \<Rightarrow> escrow_type option option" where
  "optional_escrow_type v = (case v of
       None \<Rightarrow> Some None
     | Some (JStr s) \<Rightarrow> (if s = ''single-release'' then Some (Some SingleRelease)
                        else if s = ''multi-release'' then Some (Some MultiRelease) else None)
     | _ \<Rightarrow> None)"

definition stellar_string :: "json option \<Rightarrow> string option" where
  "stellar_string v = (case v of Some (JStr s) \<Rightarrow> if STELLAR_ADDRESS s then Some s else None | _ \<Rightarrow> None)"

text \<open>\<open>claimSchema.safeParse\<close>, with the caller's id added: unknown fields, a claimant in particular, are dropped.\<close>

definition claimSchema :: "json \<Rightarrow> (string \<Rightarrow> refund_payload) option" where
  "claimSchema body =
     (case (required_string (json_prop body ''refundId''), required_string (json_prop body ''escrowId''),
            optional_amount (json_prop body ''amount''), optional_string (json_prop body ''currency''),
            stellar_string (json_prop body ''refundTo''), optional_escrow_type (json_prop body ''escrowType''),
            optional_string (json_prop body ''milestoneIndex'')) of
        (Some i, Some e, Some a, Some c, Some t, Some y, Some m) \<Rightarrow>
          Some (\<lambda>claimedBy. \<lparr>rp_refundId = i, rp_escrowId = e, rp_amount = a, rp_currency = c,
                  rp_claimedBy = Some claimedBy, rp_refundTo = Some t, rp_escrowType = y,
                  rp_milestoneIndex = m\<rparr>)
      | _ \<Rightarrow> None)"

text \<open>\<open>next(err)\<close>: the error goes to the global handler.\<close>

definition forward_error :: "string \<Rightarrow> thrown \<Rightarrow> refund_body reply" where
  "forward_error node_env err = (case hd_reply (errorHandler node_env err) of
       Reply st b \<Rightarrow> Reply st (RbError (eb_code b) (eb_message b)))"

definition refund_caller :: "token option \<Rightarrow> string option" where
  "refund_caller user = (case user of None \<Rightarrow> None | Some u \<Rightarrow> Some (tk_uid u))"

definition claim_route ::
  "'w executor option \<Rightarrow> string \<Rightarrow> int \<Rightarrow> token option \<Rightarrow> json \<Rightarrow> refund_store \<times> 'w \<Rightarrow>
   refund_body reply \<times> (refund_store \<times> 'w)" where
  "claim_route executor node_env now user body s =
     (case claimSchema body of
        None \<Rightarrow> (Reply 400 (RbError ''REFUND_INVALID_PAYLOAD'' ''Invalid refund claim payload''), s)
      | Some payload \<Rightarrow>
          if \<not> truthy (refund_caller user) then
            (Reply 401 (RbError ''REFUND_UNAUTHENTICATED'' ''Authentication required to claim a refund''), s)
          else
            (let p = payload (the (refund_caller user)) in
             case claimRefund executor now p s of
               (Inr rcd, s') \<Rightarrow> (Reply 201 (RbClaim rcd), s')
             | (Inl err, s') \<Rightarrow>
                 if err_code err = ''REFUND_ALREADY_CLAIMED'' then
                   (Reply 409 (RbExisting (err_code err) (err_message err)
                      (getClaimStatus (rp_refundId p) (fst s'))), s')
                 else (forward_error node_env (ThrownApp err), s')))"

definition claim_status_route :: "string \<Rightarrow> refund_store \<Rightarrow> refund_body reply" where
  "claim_status_route refundId store =
     (if refundId = [] then Reply 400 (RbError ''REFUND_INVALID_PAYLOAD'' ''refundId param is required'')
      else case getClaimStatus refundId store of
          None \<Rightarrow> Reply 404 (RbError ''REFUND_NOT_FOUND'' (''No claim found for refundId: '' @ refundId))
        | Some rcd \<Rightarrow> Reply 200 (RbClaim rcd))"

section \<open>The end-to-end run\<close>

text \<open>The dependencies act on a world of their own and can reject.\<close>

type_synonym ('w, 'a) dep = "'w \<Rightarrow> (thrown + 'a) \<times> 'w"

record e2e_refund =
  er_refundId :: string
  er_status :: string
  er_txHash :: "string option"

record 'w e2e_deps =
  raiseDispute :: "string \<Rightarrow> string \<Rightarrow> string \<Rightarrow> ('w, string \<times> string) dep"
  escalateDispute :: "string \<Rightarrow> string \<Rightarrow> ('w, string \<times> string) dep"
  resolveDisputeDep :: "string \<Rightarrow> string \<Rightarrow> ('w, string \<times> string \<times> string) dep"
  claimRefundDep :: "string \<Rightarrow> string \<Rightarrow> string \<Rightarrow> amount \<Rightarrow> string option \<Rightarrow> ('w, e2e_refund) dep"
  getEscrowStatus :: "string \<Rightarrow> ('w, string) dep"
  getChangelog :: "string \<Rightarrow> ('w, (string \<times> string option) list) dep"

record e2e_input =
  ei_escrowId :: string
  ei_buyer :: string
  ei_seller :: string
  ei_amount :: amount
  ei_reason :: "string option"

record e2e_result =
  ee_disputeId :: string
  ee_refundId :: string
  ee_escrowStatus :: string
  ee_refund :: e2e_refund
  ee_changelog :: "(string \<times> string option) list"

definition then_dep :: "('w, 'a) dep \<Rightarrow> ('a \<Rightarrow> ('w, 'b) dep) \<Rightarrow> ('w, 'b) dep" where
  "then_dep m f w = (case m w of (Inl e, w') \<Rightarrow> (Inl e, w') | (Inr a, w') \<Rightarrow> f a w')"

text \<open>\<open>if (...) throw new Error(message)\<close>; the stack of the error is a parameter of nothing here.\<close>

definition e2e_check :: "bool \<Rightarrow> string \<Rightarrow> ('w, unit) dep" where
  "e2e_check ok msg w = (if ok then (Inr (), w) else (Inl (ThrownError msg None False False), w))"

definition e2e_expected :: "string list" where
  "e2e_expected = [''dispute.raised'', ''dispute.escalated'', ''dispute.resolved'', ''refund.claimed'']"

fun e2e_actions :: "string list \<Rightarrow> string list \<Rightarrow> ('w, unit) dep" where
  "e2e_actions [] actions w = (Inr (), w)"
| "e2e_actions (x # xs) actions w =
     then_dep (e2e_check (x \<in> set actions) (''E2E: changelog is missing \"'' @ x @ ''\" entry''))
       (\<lambda>_. e2e_actions xs actions) w"

definition e2e_status :: "string \<Rightarrow> string \<Rightarrow> string \<Rightarrow> ('w, unit) dep" where
  "e2e_status what expected got =
     e2e_check (got = expected)
       (''E2E: expected '' @ what @ '' status \"'' @ expected @ ''\", got \"'' @ got @ ''\"'')"

definition runDisputeToRefundE2E :: "'w e2e_deps \<Rightarrow> e2e_input \<Rightarrow> ('w, e2e_result) dep" where
  "runDisputeToRefundE2E deps inp =
     (let escrowId = ei_escrowId inp; buyer = ei_buyer inp;
          reason = (case ei_reason inp of None \<Rightarrow> ''Item not as described'' | Some r \<Rightarrow> r)
      in then_dep (raiseDispute deps escrowId buyer reason) (\<lambda>raised.
         then_dep (e2e_check (fst raised \<noteq> []) ''E2E: dispute was not created'') (\<lambda>_.
         then_dep (e2e_status ''dispute'' ''open'' (snd raised)) (\<lambda>_.
         then_dep (escalateDispute deps (fst raised) buyer) (\<lambda>escalated.
         then_dep (e2e_status ''dispute'' ''escalated'' (snd escalated)) (\<lambda>_.
         then_dep (resolveDisputeDep deps (fst raised) (ei_seller inp)) (\<lambda>resolved.
         then_dep (e2e_status ''dispute'' ''resolved'' (fst (snd resolved))) (\<lambda>_.
         let refundId = ''refund-'' @ fst raised in
         then_dep (claimRefundDep deps refundId escrowId buyer (ei_amount inp) (Some buyer)) (\<lambda>refund.
         then_dep (e2e_status ''refund'' ''submitted'' (er_status refund)) (\<lambda>_.
         then_dep (e2e_check (truthy (er_txHash refund)) ''E2E: refund was submitted without a transaction hash'') (\<lambda>_.
         then_dep (getEscrowStatus deps escrowId) (\<lambda>escrowStatus.
         then_dep (e2e_status ''escrow'' ''refunded'' escrowStatus) (\<lambda>_.
         then_dep (getChangelog deps escrowId) (\<lambda>changelog.
         then_dep (e2e_actions e2e_expected (map fst changelog)) (\<lambda>_ w.
           (Inr \<lparr>ee_disputeId = fst raised, ee_refundId = refundId, ee_escrowStatus = escrowStatus,
                 ee_refund = refund, ee_changelog = changelog\<rparr>, w))))))))))))))))"

text \<open>The HTTP entry point: the dependencies from \<open>app.locals\<close>, the input from the query.\<close>

definition e2e_route ::
  "'w e2e_deps option \<Rightarrow> string \<Rightarrow> (string \<Rightarrow> string option) \<Rightarrow> 'w \<Rightarrow> (refund_body reply + e2e_result) \<times> 'w" where
  "e2e_route deps node_env query w = (case deps of
       None \<Rightarrow> (Inl (Reply 503 (RbError ''E2E_DEPS_UNAVAILABLE''
           ''E2E dependencies are not configured on app.locals.e2eDeps'')), w)
     | Some d \<Rightarrow>
         if \<not> truthy (query ''escrowId'') \<or> \<not> truthy (query ''buyer'') \<or> \<not> truthy (query ''seller'') \<or>
            \<not> truthy (query ''amount'') then
           (Inl (Reply 400 (RbError ''REFUND_INVALID_PAYLOAD''
              ''escrowId, buyer, seller and amount query params are required'')), w)
         else
           (case runDisputeToRefundE2E d \<lparr>ei_escrowId = the (query ''escrowId''), ei_buyer = the (query ''buyer''),
                   ei_seller = the (query ''seller''), ei_amount = AmtStr (the (query ''amount'')),
                   ei_reason = None\<rparr> w of
              (Inl e, w') \<Rightarrow> (Inl (forward_error node_env e), w')
            | (Inr r, w') \<Rightarrow> (Inr r, w')))"

section \<open>Idempotence over HTTP\<close>

lemma claim_valid_claimedBy [simp]: "claim_valid (p\<lparr>rp_claimedBy := c\<rparr>) = claim_valid p"
  by (simp add: claim_valid_def assertExecutable_def cong: if_cong)

lemma claimSchema_claimedBy: "claimSchema body = Some f \<Longrightarrow> f u = (f v)\<lparr>rp_claimedBy := Some u\<rparr>"
  by (auto simp: claimSchema_def split: option.splits)

lemma claimSchema_payload:
  assumes "claimSchema body = Some f"
  shows "rp_claimedBy (f u) = Some u" and "rp_refundId (f u) = rp_refundId (f v)"
    and "claim_valid (f u) = claim_valid (f v)" and "rp_refundId (f u) \<noteq> []"
proof -
  show "rp_claimedBy (f u) = Some u" "rp_refundId (f u) = rp_refundId (f v)"
    "claim_valid (f u) = claim_valid (f v)"
    unfolding claimSchema_claimedBy [OF assms, of u v] by simp_all
  show "rp_refundId (f u) \<noteq> []"
    using assms by (auto simp: claimSchema_def required_string_Some split: option.splits)
qed

lemma claimRefund_status:
  assumes "claimRefund (Some execute) now p (store, w) = (Inr r, (store', w'))"
  shows "claim_valid p \<and> cr_claimedBy r = rp_claimedBy p \<and> cr_refundId r = rp_refundId p \<and>
    cr_status r = Some Submitted \<and> jm_get store' (rp_refundId p) = Some r"
proof -
  have v: "claim_valid p" using claimRefund_invalid [of p execute now "(store, w)"] assms by fastforce
  have n: "jm_get store (rp_refundId p) = None"
    using claimRefund_dup [OF v, of store _ execute now w] assms by (cases "jm_get store (rp_refundId p)") auto
  from assms v show ?thesis unfolding claimRefund_new [OF v n]
    by (auto simp: pending_record_def base_record_def split: prod.splits sum.splits)
qed

lemma claimRefund_error_status:
  assumes "claimRefund (Some execute) now p (store, w) = (Inl e, s')"
  shows "statusCode e \<in> {400, 409, 502, 503}"
proof (cases "claim_valid p")
  case False
  then show ?thesis using claimRefund_invalid [OF False, of execute now "(store, w)"] assms by auto
next
  case True
  then show ?thesis using assms
    by (cases "jm_get store (rp_refundId p)")
      (auto simp: claimRefund_dup claimRefund_new alreadyClaimed_def execution_error_def Let_def
        split: prod.splits sum.splits if_splits)
qed

text \<open>
  C18: Claiming over HTTP is idempotent. Once a claim was answered 201, its record carries the verified
  caller's id, whatever the body says, and is what the status endpoint returns; posting the same
  body again, by whoever and at whatever time, is answered 409 with that first record, runs nothing on
  chain and changes nothing.
\<close>

theorem claim_route_idempotent:
  assumes "claim_route (Some execute) node_env now (Some u) body (store, w) = (Reply 201 b, (store', w'))"
    and "tk_uid v \<noteq> []"
  shows "\<exists>r m. b = RbClaim r \<and> cr_claimedBy r = Some (tk_uid u) \<and> cr_status r = Some Submitted
    \<and> claim_status_route (cr_refundId r) store' = Reply 200 (RbClaim r)
    \<and> claim_route (Some execute') node_env' later (Some v) body (store', w2)
        = (Reply 409 (RbExisting ''REFUND_ALREADY_CLAIMED'' m (Some r)), (store', w2))"
proof -
  obtain f where f: "claimSchema body = Some f" and u: "tk_uid u \<noteq> []"
    using assms(1) by (auto simp: claim_route_def refund_caller_def truthy_def split: option.splits if_splits)
  obtain res s' where rs: "claimRefund (Some execute) now (f (tk_uid u)) (store, w) = (res, s')"
    using prod.exhaust by blast
  obtain r where c: "claimRefund (Some execute) now (f (tk_uid u)) (store, w) = (Inr r, (store', w'))" and b: "b = RbClaim r"
  proof (cases res)
    case (Inr r)
    then show ?thesis using that rs assms(1) f u
      by (auto simp: claim_route_def refund_caller_def truthy_def)
  next
    case (Inl e)
    then have "statusCode e \<noteq> 201" using claimRefund_error_status rs by fastforce
    then show ?thesis using rs Inl assms(1) f u
      by (auto simp: claim_route_def refund_caller_def truthy_def forward_error_def errorHandler_def Let_def
          split: if_splits)
  qed
  have k: "claim_valid (f (tk_uid u))" "cr_claimedBy r = Some (tk_uid u)" "cr_refundId r = rp_refundId (f (tk_uid u))"
    "cr_status r = Some Submitted" "jm_get store' (rp_refundId (f (tk_uid u))) = Some r"
    using claimRefund_status [OF c] claimSchema_payload(1) [OF f] by auto
  have k2: "claim_valid (f (tk_uid v))" "jm_get store' (rp_refundId (f (tk_uid v))) = Some r"
    using k claimSchema_payload(2,3) [OF f, of "tk_uid u" "tk_uid v"] by simp_all
  show ?thesis
    using k b f assms(2) claimRefund_dup [OF k2, where execute = execute' and now = later and w = w2]
      claimSchema_payload(4) [OF f, of "tk_uid v"]
    by (auto simp: claim_route_def claim_status_route_def getClaimStatus_def refund_caller_def truthy_def
        alreadyClaimed_def Let_def claimSchema_payload(2) [OF f, of "tk_uid v" "tk_uid u"])
qed

definition sample_claim_body :: json where
  "sample_claim_body = JObj [(''refundId'', JStr ''r1''), (''escrowId'', JStr ''C1''), (''amount'', JNum (Fin 5)),
     (''refundTo'', JStr sample_address), (''claimedBy'', JStr ''mallory'')]"

definition sample_user :: token where
  "sample_user = \<lparr>tk_uid = ''u1'', tk_email = None, tk_role = None, tk_hasura_role = None\<rparr>"

lemma sample_claimSchema: "\<exists>f. claimSchema sample_claim_body = Some f \<and> f ''u1'' = sample_claim"
proof -
  have "STELLAR_ADDRESS sample_address"
    by (simp add: sample_address_def STELLAR_ADDRESS_def base32_char_def list_all_iff)
  then show ?thesis
    by (simp add: claimSchema_def sample_claim_body_def sample_claim_def stellar_string_def optional_escrow_type_def)
qed

theorem claim_route_idempotent_witness:
  "\<exists>m r s. claim_route (Some (\<lambda>c n. (Inr ''h2'', Suc n))) ''test'' 9 (Some sample_user) sample_claim_body (s, 1::nat)
    = (Reply 409 (RbExisting ''REFUND_ALREADY_CLAIMED'' m (Some r)), (s, 1))"
proof -
  let ?ex = "\<lambda>c n::nat. (Inr ''h1'', Suc n)"
  obtain f where f: "claimSchema sample_claim_body = Some f" "f ''u1'' = sample_claim"
    using sample_claimSchema by blast
  have "\<exists>b s w. claim_route (Some ?ex) ''test'' 3 (Some sample_user) sample_claim_body ([], 0) = (Reply 201 b, (s, w))"
    using f by (simp add: claim_route_def refund_caller_def truthy_def sample_user_def claimRefund_new)
  then obtain b s w where c: "claim_route (Some ?ex) ''test'' 3 (Some sample_user) sample_claim_body ([], 0) = (Reply 201 b, (s, w))"
    by blast
  have "tk_uid sample_user \<noteq> []" by (simp add: sample_user_def)
  from claim_route_idempotent [OF c this, of "\<lambda>c n. (Inr ''h2'', Suc n)" "''test''" 9 "1::nat"] show ?thesis
    by auto
qed

section \<open>What the end-to-end run asks for\<close>

lemma then_dep_Inr:
  "then_dep m f w = (Inr b, w') \<longleftrightarrow> (\<exists>a v. m w = (Inr a, v) \<and> f a v = (Inr b, w'))"
  by (auto simp: then_dep_def split: prod.splits sum.splits)

lemma then_dep_cong:
  "(\<And>a v. m w = (Inr a, v) \<Longrightarrow> f a v = g a v) \<Longrightarrow> then_dep m f w = then_dep m g w"
  by (auto simp: then_dep_def split: prod.splits sum.splits)

lemma e2e_check_Inr [simp]: "e2e_check ok msg w = (Inr u, w') \<longleftrightarrow> ok \<and> w' = w"
  by (auto simp: e2e_check_def)

lemma e2e_status_Inr [simp]: "e2e_status what ex got w = (Inr u, w') \<longleftrightarrow> got = ex \<and> w' = w"
  by (auto simp: e2e_status_def)

lemma e2e_actions_Inr [simp]: "e2e_actions xs acts w = (Inr u, w') \<longleftrightarrow> set xs \<subseteq> set acts \<and> w' = w"
  by (induction xs arbitrary: w) (auto simp: then_dep_Inr)

lemma deps_update:
  "raiseDispute (deps\<lparr>claimRefundDep := c\<rparr>) = raiseDispute deps"
  "escalateDispute (deps\<lparr>claimRefundDep := c\<rparr>) = escalateDispute deps"
  "resolveDisputeDep (deps\<lparr>claimRefundDep := c\<rparr>) = resolveDisputeDep deps"
  "getEscrowStatus (deps\<lparr>claimRefundDep := c\<rparr>) = getEscrowStatus deps"
  "getChangelog (deps\<lparr>claimRefundDep := c\<rparr>) = getChangelog deps"
  "claimRefundDep (deps\<lparr>claimRefundDep := c\<rparr>) = c"
  by simp_all

text \<open>
  The end-to-end run refunds only a dispute that was raised, escalated and resolved. If the
  claim dependency has any influence on the run, that is, if replacing it changes the outcome or the
  final world, then the dispute was created and reported open, its escalation was reported escalated
  and its resolution resolved, in that order.
\<close>

theorem e2e_refund_gated:
  assumes "runDisputeToRefundE2E (deps\<lparr>claimRefundDep := c1\<rparr>) inp w
    \<noteq> runDisputeToRefundE2E (deps\<lparr>claimRefundDep := c2\<rparr>) inp w"
  shows "\<exists>reason d w1 x w2 y st w3.
      raiseDispute deps (ei_escrowId inp) (ei_buyer inp) reason w = (Inr (d, ''open''), w1) \<and> d \<noteq> []
    \<and> escalateDispute deps d (ei_buyer inp) w1 = (Inr (x, ''escalated''), w2)
    \<and> resolveDisputeDep deps d (ei_seller inp) w2 = (Inr (y, ''resolved'', st), w3)"
proof (rule ccontr)
  assume no: "\<not> ?thesis"
  have "runDisputeToRefundE2E (deps\<lparr>claimRefundDep := c1\<rparr>) inp w
      = runDisputeToRefundE2E (deps\<lparr>claimRefundDep := c2\<rparr>) inp w"
    unfolding runDisputeToRefundE2E_def Let_def
    apply (simp only: deps_update)
    apply (rule then_dep_cong)+
    using no by fastforce
  then show False using assms by simp
qed

definition sample_deps :: "(string \<times> string option) list \<Rightarrow> nat e2e_deps" where
  "sample_deps entries = \<lparr>raiseDispute = (\<lambda>e b r n. (Inr (''d1'', ''open''), n)),
     escalateDispute = (\<lambda>d b n. (Inr (d, ''escalated''), n)),
     resolveDisputeDep = (\<lambda>d s n. (Inr (d, ''resolved'', ''refunded''), n)),
     claimRefundDep = (\<lambda>i e t a c n. (Inr \<lparr>er_refundId = i, er_status = ''submitted'', er_txHash = Some ''h''\<rparr>, n + 1)),
     getEscrowStatus = (\<lambda>e n. (Inr ''refunded'', n)), getChangelog = (\<lambda>e n. (Inr entries, n))\<rparr>"

definition sample_e2e :: e2e_input where
  "sample_e2e = \<lparr>ei_escrowId = ''C1'', ei_buyer = ''GB'', ei_seller = ''GS'', ei_amount = AmtStr ''5'', ei_reason = None\<rparr>"

theorem e2e_refund_gated_witness:
  "\<exists>reason x w2 y st w3 d w1. raiseDispute (sample_deps []) ''C1'' ''GB'' reason 0 = (Inr (d, ''open''), w1)
    \<and> escalateDispute (sample_deps []) d ''GB'' w1 = (Inr (x, ''escalated''), w2)
    \<and> resolveDisputeDep (sample_deps []) d ''GS'' w2 = (Inr (y, ''resolved'', st), w3)"
proof -
  let ?c = "\<lambda>k i e t a c n. (Inl (ThrownError ''down'' None False False), n + k)"
  have "runDisputeToRefundE2E (sample_deps []\<lparr>claimRefundDep := ?c 1\<rparr>) sample_e2e 0
      \<noteq> runDisputeToRefundE2E (sample_deps []\<lparr>claimRefundDep := ?c 2\<rparr>) sample_e2e 0"
    by (simp add: runDisputeToRefundE2E_def sample_deps_def sample_e2e_def then_dep_def e2e_check_def e2e_status_def)
  from e2e_refund_gated [OF this] show ?thesis by (simp add: sample_e2e_def) blast
qed

text \<open>
  Against the changelog of this repository the end-to-end run cannot pass. Whatever the other
  dependencies do, if every entry the changelog dependency returns has a type of the taxonomy, the run
  never returns a result: it asks for a \<open>refund.claimed\<close> entry, which is no type of the taxonomy.
\<close>

theorem e2e_never_passes:
  assumes "\<And>v cs v'. getChangelog deps (ei_escrowId inp) v = (Inr cs, v') \<Longrightarrow>
      \<forall>c\<in>set cs. isChangelogEntryType (fst c)"
  shows "\<nexists>r w'. runDisputeToRefundE2E deps inp w = (Inr r, w')"
proof
  assume "\<exists>r w'. runDisputeToRefundE2E deps inp w = (Inr r, w')"
  then obtain v cs v' where "getChangelog deps (ei_escrowId inp) v = (Inr cs, v')" "set e2e_expected \<subseteq> fst ` set cs"
    by (auto simp: runDisputeToRefundE2E_def Let_def then_dep_Inr)
  moreover have "\<not> isChangelogEntryType ''refund.claimed''" by code_simp
  ultimately show False using assms [of v cs v'] by (force simp: e2e_expected_def)
qed

theorem e2e_never_passes_witness:
  "\<nexists>r w'. runDisputeToRefundE2E (sample_deps [(''dispute.raised'', None), (''refund.submitted'', Some ''u1'')])
     sample_e2e 0 = (Inr r, w')"
proof (rule e2e_never_passes)
  fix v cs v'
  assume "getChangelog (sample_deps [(''dispute.raised'', None), (''refund.submitted'', Some ''u1'')])
      (ei_escrowId sample_e2e) v = (Inr cs, v')"
  then have "cs = [(''dispute.raised'', None), (''refund.submitted'', Some ''u1'')]"
    by (simp add: sample_deps_def)
  moreover have "isChangelogEntryType ''dispute.raised''" "isChangelogEntryType ''refund.submitted''"
    by code_simp+
  ultimately show "\<forall>c\<in>set cs. isChangelogEntryType (fst c)" by simp
qed

end
