(* ===== verification/Ownership_Transfer.thy ===== *)
theory Ownership_Transfer
  imports App_Error Js_Date Contracts
begin

text \<open>
  \<open>services/ownership-transfer.service.ts\<close>: the two-phase transfer of a ticket. First the service
  operations as one call executes them, then the lock and the handlers that interleave at their
  awaits.
\<close>

section \<open>Data and store\<close>

datatype transfer_state = PENDING | ACCEPTED | CANCELLED

fun transfer_state_name :: "transfer_state \<Rightarrow> string" where
  "transfer_state_name PENDING = ''PENDING''"
| "transfer_state_name ACCEPTED = ''ACCEPTED''"
| "transfer_state_name CANCELLED = ''CANCELLED''"

record ownership_transfer =
  tr_transferId :: string
  tr_escrowId :: string
  tr_fromOwner :: string
  tr_toOwner :: string
  tr_state :: transfer_state
  tr_initiatedAt :: iso
  tr_finalizedAt :: "iso option"

type_synonym ownership_store = "(string, ownership_transfer) jmap"

record initiate_payload =
  ip_transferId :: string
  ip_escrowId :: string
  ip_fromOwner :: string
  ip_toOwner :: string

definition insert_transfer ::
  "ownership_store \<Rightarrow> string \<Rightarrow> ownership_transfer \<Rightarrow> app_error + ownership_store" where
  "insert_transfer store transferId rcd =
     (if jm_has store transferId then
        Inl (AppError 409 ''TRANSFER_CONFLICT''
          (''Transfer '' @ transferId @ '' already exists with state: '' @
           transfer_state_name (tr_state (the (jm_get store transferId)))))
      else Inr (jm_set store transferId rcd))"

definition try_insert :: "ownership_store \<Rightarrow> string \<Rightarrow> ownership_transfer \<Rightarrow> ownership_store option" where
  "try_insert store i r = (case insert_transfer store i r of Inl _ \<Rightarrow> None | Inr s \<Rightarrow> Some s)"

interpretation transfer_store: insert_store jm_get jm_set try_insert
  by unfold_locales (simp_all add: try_insert_def insert_transfer_def jm_has_def)

section \<open>The operations\<close>

definition pending_transfer :: "int \<Rightarrow> initiate_payload \<Rightarrow> ownership_transfer" where
  "pending_transfer now p =
     \<lparr>tr_transferId = ip_transferId p, tr_escrowId = ip_escrowId p, tr_fromOwner = ip_fromOwner p,
      tr_toOwner = ip_toOwner p, tr_state = PENDING, tr_initiatedAt = Iso now, tr_finalizedAt = None\<rparr>"

text \<open>\<open>initiateTransfer\<close> before and inside the lock.\<close>

definition initiate_check :: "initiate_payload \<Rightarrow> app_error + unit" where
  "initiate_check p =
     (if ip_transferId p = [] \<or> ip_escrowId p = [] \<or> ip_fromOwner p = [] \<or> ip_toOwner p = [] then
        Inl (AppError 400 ''TRANSFER_INVALID_PAYLOAD''
          ''transferId, escrowId, fromOwner, and toOwner are required'')
      else Inr ())"

definition initiateTransfer ::
  "int \<Rightarrow> initiate_payload \<Rightarrow> ownership_store \<Rightarrow> ownership_transfer outcome \<times> ownership_store" where
  "initiateTransfer now p store =
     (case initiate_check p of
        Inl e \<Rightarrow> (Inl e, store)
      | Inr _ \<Rightarrow>
          (let rcd = pending_transfer now p in
           case insert_transfer store (ip_transferId p) rcd of
             Inl e \<Rightarrow> (Inl e, store)
           | Inr store' \<Rightarrow> (Inr rcd, store')))"

text \<open>\<open>finalize\<close>: the argument check, then the read, the guard and the write inside the lock.\<close>

definition finalize_check :: "string \<Rightarrow> app_error + unit" where
  "finalize_check transferId =
     (if transferId = [] then Inl (AppError 400 ''TRANSFER_INVALID_PAYLOAD'' ''transferId is required'')
      else Inr ())"

definition finalize_guard ::
  "int \<Rightarrow> string \<Rightarrow> transfer_state \<Rightarrow> ownership_transfer option \<Rightarrow> ownership_transfer outcome" where
  "finalize_guard now transferId nextState transfer = (case transfer of
       None \<Rightarrow> Inl (AppError 404 ''TRANSFER_NOT_FOUND'' (''Transfer '' @ transferId @ '' not found''))
     | Some t \<Rightarrow>
         if tr_state t \<noteq> PENDING then
           Inl (AppError 409 ''TRANSFER_ALREADY_FINALIZED''
             (''Transfer '' @ transferId @ '' is already in state '' @ transfer_state_name (tr_state t) @
              '' and cannot be '' @ toLowerCase (transfer_state_name nextState)))
         else Inr (t\<lparr>tr_state := nextState, tr_finalizedAt := Some (Iso now)\<rparr>))"

definition finalize ::
  "int \<Rightarrow> string \<Rightarrow> transfer_state \<Rightarrow> ownership_store \<Rightarrow> ownership_transfer outcome \<times> ownership_store" where
  "finalize now transferId nextState store =
     (case finalize_check transferId of
        Inl e \<Rightarrow> (Inl e, store)
      | Inr _ \<Rightarrow>
          (case finalize_guard now transferId nextState (jm_get store transferId) of
             Inl e \<Rightarrow> (Inl e, store)
           | Inr updated \<Rightarrow> (Inr updated, jm_set store transferId updated)))"

definition acceptTransfer ::
  "int \<Rightarrow> string \<Rightarrow> ownership_store \<Rightarrow> ownership_transfer outcome \<times> ownership_store" where
  "acceptTransfer now transferId store = finalize now transferId ACCEPTED store"

definition cancelTransfer ::
  "int \<Rightarrow> string \<Rightarrow> ownership_store \<Rightarrow> ownership_transfer outcome \<times> ownership_store" where
  "cancelTransfer now transferId store = finalize now transferId CANCELLED store"

definition getTransfer :: "string \<Rightarrow> ownership_store \<Rightarrow> ownership_transfer option" where
  "getTransfer transferId store = jm_get store transferId"

section \<open>The lock\<close>

text \<open>
  \<open>Lock\<close>: the flag and the queue of waiters, which are threads here. \<open>acquire\<close> says whether the
  caller got the lock at once; \<open>release\<close> hands it to the first waiter, if any.
\<close>

record lock =
  lk_locked :: bool
  lk_queue :: "nat list"

definition new_lock :: lock where
  "new_lock = \<lparr>lk_locked = False, lk_queue = []\<rparr>"

definition lock_acquire :: "nat \<Rightarrow> lock \<Rightarrow> bool \<times> lock" where
  "lock_acquire t l =
     (if \<not> lk_locked l then (True, l\<lparr>lk_locked := True\<rparr>)
      else (False, l\<lparr>lk_queue := lk_queue l @ [t]\<rparr>))"

definition lock_release :: "lock \<Rightarrow> nat option \<times> lock" where
  "lock_release l = (case lk_queue l of
       [] \<Rightarrow> (None, l\<lparr>lk_locked := False\<rparr>)
     | t # q \<Rightarrow> (Some t, l\<lparr>lk_queue := q\<rparr>))"

definition getLock :: "(string, lock) jmap \<Rightarrow> string \<Rightarrow> lock" where
  "getLock locks transferId = (case jm_get locks transferId of None \<Rightarrow> new_lock | Some l \<Rightarrow> l)"

lemma getLock_set [simp]:
  "getLock (jm_set locks i l) j = (if j = i then l else getLock locks j)"
  by (simp add: getLock_def)

section \<open>Interleaved handlers\<close>

datatype transfer_call =
    Initiate initiate_payload
  | Finalize string transfer_state

fun call_id :: "transfer_call \<Rightarrow> string" where
  "call_id (Initiate p) = ip_transferId p"
| "call_id (Finalize i st) = i"

fun call_check :: "transfer_call \<Rightarrow> app_error + unit" where
  "call_check (Initiate p) = initiate_check p"
| "call_check (Finalize i st) = finalize_check i"

text \<open>
  A handler's position between two awaits: not started, queued for the lock, holding it, holding it
  with the record it read, leaving with its result (before \<open>finally\<close> releases), done.
\<close>

datatype tpc =
    TStart
  | TWaiting
  | THolding
  | TRead "ownership_transfer option"
  | TLeaving "ownership_transfer outcome"
  | TDone "ownership_transfer outcome"

fun in_section :: "tpc \<Rightarrow> bool" where
  "in_section THolding = True"
| "in_section (TRead x) = True"
| "in_section (TLeaving r) = True"
| "in_section c = False"

record transfer_system =
  ts_store :: ownership_store
  ts_locks :: "(string, lock) jmap"
  ts_threads :: "nat \<rightharpoonup> transfer_call \<times> tpc"

definition goes_to :: "transfer_system \<Rightarrow> nat \<Rightarrow> transfer_call \<Rightarrow> tpc \<Rightarrow> transfer_system" where
  "goes_to s t c pc = s\<lparr>ts_threads := (ts_threads s)(t \<mapsto> (c, pc))\<rparr>"

text \<open>
  The waiter that receives the lock resumes holding it. A call of \<open>finalize\<close> never asks for PENDING: its two callers
  pass ACCEPTED and CANCELLED.
\<close>

definition wake :: "nat option \<Rightarrow> transfer_system \<Rightarrow> transfer_system" where
  "wake w s = (case w of None \<Rightarrow> s
     | Some u \<Rightarrow> (case ts_threads s u of None \<Rightarrow> s | Some (c, pc) \<Rightarrow> goes_to s u c THolding))"

inductive transfer_step :: "transfer_system \<Rightarrow> transfer_system \<Rightarrow> bool" where
  arrives: "ts_threads s t = None \<Longrightarrow> (\<forall>i. c \<noteq> Finalize i PENDING) \<Longrightarrow>
    transfer_step s (goes_to s t c TStart)"
| refused: "ts_threads s t = Some (c, TStart) \<Longrightarrow> call_check c = Inl e \<Longrightarrow>
    transfer_step s (goes_to s t c (TDone (Inl e)))"
| acquires: "ts_threads s t = Some (c, TStart) \<Longrightarrow> call_check c = Inr u \<Longrightarrow>
    lock_acquire t (getLock (ts_locks s) (call_id c)) = (got, l) \<Longrightarrow>
    transfer_step s (goes_to (s\<lparr>ts_locks := jm_set (ts_locks s) (call_id c) l\<rparr>) t c
      (if got then THolding else TWaiting))"
| inserts: "ts_threads s t = Some (Initiate p, THolding) \<Longrightarrow>
    initiateTransfer now p (ts_store s) = (r, store) \<Longrightarrow>
    transfer_step s (goes_to (s\<lparr>ts_store := store\<rparr>) t (Initiate p) (TLeaving r))"
| reads: "ts_threads s t = Some (Finalize i st, THolding) \<Longrightarrow>
    transfer_step s (goes_to s t (Finalize i st) (TRead (jm_get (ts_store s) i)))"
| rejects: "ts_threads s t = Some (Finalize i st, TRead x) \<Longrightarrow> finalize_guard now i st x = Inl e \<Longrightarrow>
    transfer_step s (goes_to s t (Finalize i st) (TLeaving (Inl e)))"
| writes: "ts_threads s t = Some (Finalize i st, TRead x) \<Longrightarrow> finalize_guard now i st x = Inr r \<Longrightarrow>
    transfer_step s (goes_to (s\<lparr>ts_store := jm_set (ts_store s) i r\<rparr>) t (Finalize i st) (TLeaving (Inr r)))"
| releases: "ts_threads s t = Some (c, TLeaving r) \<Longrightarrow>
    lock_release (getLock (ts_locks s) (call_id c)) = (w, l) \<Longrightarrow>
    transfer_step s (wake w (goes_to (s\<lparr>ts_locks := jm_set (ts_locks s) (call_id c) l\<rparr>) t c (TDone r)))"

definition transfer_init :: transfer_system where
  "transfer_init = \<lparr>ts_store = [], ts_locks = [], ts_threads = Map.empty\<rparr>"

definition transfer_reachable :: "transfer_system \<Rightarrow> bool" where
  "transfer_reachable s = transfer_step\<^sup>*\<^sup>* transfer_init s"

end
