(* ===== verification/Ownership_Properties.thy ===== *)
theory Ownership_Properties
  imports Ownership_Transfer
begin

text \<open>
  What the transfer service promises: the outcome of each operation, final transfers stay final, the
  lock is a fair mutual exclusion, and interleaved calls finalise a transfer at most once.
\<close>

section \<open>One call\<close>

definition transfer_next :: "transfer_state \<Rightarrow> transfer_state \<Rightarrow> transfer_state option" where
  "transfer_next st nxt = (if st = PENDING \<and> nxt \<noteq> PENDING then Some nxt else None)"

interpretation transfer_life:
  life_cycle transfer_next "\<lambda>st. st \<noteq> PENDING" "\<lambda>st. if st = PENDING then 1 else 0"
  by unfold_locales (auto simp: transfer_next_def split: if_splits)

lemma finalize_cases:
  obtains (ok) t where "i \<noteq> []" "jm_get store i = Some t" "tr_state t = PENDING"
    "finalize now i st store = (Inr (t\<lparr>tr_state := st, tr_finalizedAt := Some (Iso now)\<rparr>),
       jm_set store i (t\<lparr>tr_state := st, tr_finalizedAt := Some (Iso now)\<rparr>))"
  | (fail) e where "finalize now i st store = (Inl e, store)"
      "i = [] \<or> (\<forall>t. jm_get store i = Some t \<longrightarrow> tr_state t \<noteq> PENDING)"
      "statusCode e = (if i = [] then 400 else if jm_get store i = None then 404 else 409)"
proof (cases "i = []")
  case True
  then show ?thesis using fail by (simp add: finalize_def finalize_check_def)
next
  case False
  then show ?thesis using ok fail
    by (cases "jm_get store i"; cases "\<exists>t. jm_get store i = Some t \<and> tr_state t = PENDING")
      (auto simp: finalize_def finalize_check_def finalize_guard_def)
qed

lemma initiateTransfer_cases:
  obtains (ok) "initiate_check p = Inr ()" "jm_get store (ip_transferId p) = None"
    "initiateTransfer now p store =
       (Inr (pending_transfer now p), jm_set store (ip_transferId p) (pending_transfer now p))"
  | (fail) e where "initiateTransfer now p store = (Inl e, store)"
      "statusCode e = (if initiate_check p = Inr () then 409 else 400)"
      "initiate_check p \<noteq> Inr () \<or> jm_get store (ip_transferId p) \<noteq> None"
proof (cases "initiate_check p")
  case (Inl e)
  then show ?thesis using fail by (auto simp: initiateTransfer_def initiate_check_def split: if_splits)
next
  case (Inr u)
  then show ?thesis using ok fail
    by (cases "jm_get store (ip_transferId p)")
      (auto simp: initiateTransfer_def insert_transfer_def jm_has_def Let_def)
qed

text \<open>
  A transfer is finalised exactly when it is pending. Accepting or cancelling succeeds iff the id
  is not empty and its record is pending; the stored record is then the old one with the new state
  and the call's time, and every other record is untouched. Otherwise nothing changes and the status
  is 400, 404 or 409 for an empty id, an unknown transfer and a final one.
\<close>

theorem finalize_exact:
  "(case finalize now i st store of
      (Inr r, store') \<Rightarrow> i \<noteq> [] \<and>
         (\<exists>t. getTransfer i store = Some t \<and> tr_state t = PENDING \<and>
            r = t\<lparr>tr_state := st, tr_finalizedAt := Some (Iso now)\<rparr>) \<and>
         jm_get store' = (jm_get store)(i \<mapsto> r)
    | (Inl e, store') \<Rightarrow> store' = store \<and>
         \<not> (i \<noteq> [] \<and> (\<exists>t. getTransfer i store = Some t \<and> tr_state t = PENDING)) \<and>
         statusCode e = (if i = [] then 400 else if getTransfer i store = None then 404 else 409))"
  by (cases rule: finalize_cases [of i store now st]) (auto simp: getTransfer_def fun_eq_iff)

section \<open>The lock\<close>

definition lock_ok :: "lock \<Rightarrow> (nat \<Rightarrow> bool) \<Rightarrow> (nat \<Rightarrow> bool) \<Rightarrow> bool" where
  "lock_ok l H W =
     (distinct (lk_queue l) \<and> (\<forall>u. u \<in> set (lk_queue l) \<longleftrightarrow> W u) \<and>
      (\<not> lk_locked l \<longrightarrow> lk_queue l = []) \<and> (lk_locked l \<longleftrightarrow> (\<exists>u. H u)) \<and>
      (\<forall>u v. H u \<longrightarrow> H v \<longrightarrow> u = v))"

lemma lock_ok_acquire:
  "lock_ok l H W \<Longrightarrow> lock_acquire t l = (got, l') \<Longrightarrow> \<not> H t \<Longrightarrow> \<not> W t \<Longrightarrow>
   lock_ok l' (if got then H(t := True) else H) (if got then W else W(t := True))"
  by (auto simp: lock_ok_def lock_acquire_def split: if_splits)

lemma lock_ok_release_None:
  "lock_ok l H W \<Longrightarrow> lock_release l = (None, l') \<Longrightarrow> H t \<Longrightarrow> lock_ok l' (H(t := False)) W"
  by (auto simp: lock_ok_def lock_release_def split: list.splits)

lemma lock_ok_release_Some:
  "lock_ok l H W \<Longrightarrow> lock_release l = (Some u, l') \<Longrightarrow> H t \<Longrightarrow>
   W u \<and> lock_ok l' (H(t := False, u := True)) (W(u := False))"
  by (fastforce simp: lock_ok_def lock_release_def split: list.splits)

definition holds :: "(nat \<rightharpoonup> transfer_call \<times> tpc) \<Rightarrow> string \<Rightarrow> nat \<Rightarrow> bool" where
  "holds th i u = (\<exists>c pc. th u = Some (c, pc) \<and> in_section pc \<and> call_id c = i)"

definition waits :: "(nat \<rightharpoonup> transfer_call \<times> tpc) \<Rightarrow> string \<Rightarrow> nat \<Rightarrow> bool" where
  "waits th i u = (\<exists>c. th u = Some (c, TWaiting) \<and> call_id c = i)"

lemma holds_upd: "holds (th(t \<mapsto> (c, pc))) i = (holds th i)(t := in_section pc \<and> call_id c = i)"
  by (auto simp: holds_def fun_eq_iff)

lemma waits_upd: "waits (th(t \<mapsto> (c, pc))) i = (waits th i)(t := pc = TWaiting \<and> call_id c = i)"
  by (auto simp: waits_def fun_eq_iff)

definition locks_ok :: "transfer_system \<Rightarrow> bool" where
  "locks_ok s = (\<forall>i. lock_ok (getLock (ts_locks s) i) (holds (ts_threads s) i) (waits (ts_threads s) i))"

lemma goes_to_simps [simp]:
  "ts_store (goes_to s t c pc) = ts_store s" "ts_locks (goes_to s t c pc) = ts_locks s"
  "ts_threads (goes_to s t c pc) = (ts_threads s)(t \<mapsto> (c, pc))"
  by (simp_all add: goes_to_def)

lemma wake_simps [simp]: "ts_store (wake w s) = ts_store s" "ts_locks (wake w s) = ts_locks s"
  by (auto simp: wake_def split: option.splits)

text \<open>A step inside or outside the section, with the lock untouched.\<close>

lemma locks_ok_local:
  assumes "locks_ok s" and "ts_threads s t = None \<or> (\<exists>pc. ts_threads s t = Some (c, pc) \<and>
      in_section pc = in_section pc' \<and> pc \<noteq> TWaiting)"
    and "ts_threads s t = None \<longrightarrow> \<not> in_section pc'" and "pc' \<noteq> TWaiting"
  shows "locks_ok (goes_to (s\<lparr>ts_store := m\<rparr>) t c pc')"
proof -
  have "(holds (ts_threads s) i)(t := in_section pc' \<and> call_id c = i) = holds (ts_threads s) i" for i
    using assms(2,3) by (auto simp: holds_def fun_eq_iff)
  moreover have "(waits (ts_threads s) i)(t := pc' = TWaiting \<and> call_id c = i) = waits (ts_threads s) i" for i
    using assms(2,4) by (auto simp: waits_def fun_eq_iff)
  ultimately show ?thesis using assms(1) by (simp add: locks_ok_def holds_upd waits_upd)
qed

lemma locks_ok_acquires:
  assumes inv: "locks_ok s" and t: "ts_threads s t = Some (c, TStart)"
    and l: "lock_acquire t (getLock (ts_locks s) (call_id c)) = (got, l)"
  shows "locks_ok (goes_to (s\<lparr>ts_locks := jm_set (ts_locks s) (call_id c) l\<rparr>) t c
      (if got then THolding else TWaiting))"
proof -
  have nh: "\<not> holds (ts_threads s) i t" "\<not> waits (ts_threads s) i t" for i
    using t by (auto simp: holds_def waits_def)
  have "lock_ok (getLock (ts_locks s) i) (holds (ts_threads s) i) (waits (ts_threads s) i)" for i
    using inv by (simp add: locks_ok_def)
  from lock_ok_acquire [OF this l nh] this nh show ?thesis
    by (cases got) (auto simp: locks_ok_def holds_upd waits_upd fun_upd_idem)
qed

lemma locks_ok_releases:
  assumes inv: "locks_ok s" and t: "ts_threads s t = Some (c, TLeaving r)"
    and l: "lock_release (getLock (ts_locks s) (call_id c)) = (w, l)"
  shows "locks_ok (wake w (goes_to (s\<lparr>ts_locks := jm_set (ts_locks s) (call_id c) l\<rparr>) t c (TDone r)))"
proof -
  let ?H = "holds (ts_threads s)" and ?W = "waits (ts_threads s)"
  have ok: "lock_ok (getLock (ts_locks s) i) (?H i) (?W i)" for i
    using inv by (simp add: locks_ok_def)
  have h: "?H (call_id c) t" "\<And>i. \<not> ?W i t" "\<And>i. i \<noteq> call_id c \<Longrightarrow> \<not> ?H i t"
    using t by (auto simp: holds_def waits_def)
  show ?thesis
  proof (cases w)
    case None
    from lock_ok_release_None [OF ok l [unfolded None] h(1)] None ok h show ?thesis
      by (auto simp: locks_ok_def wake_def holds_upd waits_upd fun_upd_idem)
  next
    case (Some u)
    from lock_ok_release_Some [OF ok l [unfolded Some] h(1)]
    have u: "?W (call_id c) u" and l': "lock_ok l ((?H (call_id c))(t := False, u := True)) ((?W (call_id c))(u := False))"
      by auto
    then obtain d where d: "ts_threads s u = Some (d, TWaiting)" "call_id d = call_id c"
      by (auto simp: waits_def)
    have ut: "u \<noteq> t" using d t by auto
    have o: "\<not> ?H i u" "i \<noteq> call_id c \<Longrightarrow> \<not> ?W i u" for i
      using d by (auto simp: holds_def waits_def)
    have "lock_ok (getLock (jm_set (ts_locks s) (call_id c) l) i)
        ((?H i)(t := False, u := call_id d = i)) ((?W i)(t := False, u := False))" for i
    proof (cases "i = call_id c")
      case True
      have "(?W (call_id c))(t := False) = ?W (call_id c)" using h(2) by (simp add: fun_upd_idem)
      with True l' d(2) show ?thesis by simp
    next
      case False
      then have "(?H i)(t := False, u := False) = ?H i" "(?W i)(t := False, u := False) = ?W i"
        using h o by (auto simp: fun_eq_iff)
      with False ok [of i] d(2) show ?thesis by auto
    qed
    with Some d ut show ?thesis
      by (simp add: locks_ok_def wake_def holds_upd waits_upd)
  qed
qed

lemma locks_ok_step: "transfer_step s s' \<Longrightarrow> locks_ok s \<Longrightarrow> locks_ok s'"
proof (induction rule: transfer_step.induct)
  case (arrives s t c)
  then show ?case using locks_ok_local [of s t c TStart "ts_store s"] by simp
next
  case (refused s t c e)
  then show ?case using locks_ok_local [of s t c "TDone (Inl e)" "ts_store s"] by simp
next
  case (acquires s t c u got l)
  then show ?case by (intro locks_ok_acquires)
next
  case (inserts s t p now r store)
  then show ?case by (intro locks_ok_local) auto
next
  case (reads s t i st)
  then show ?case using locks_ok_local [of s t "Finalize i st" "TRead (jm_get (ts_store s) i)" "ts_store s"] by simp
next
  case (rejects s t i st x now e)
  then show ?case using locks_ok_local [of s t "Finalize i st" "TLeaving (Inl e)" "ts_store s"] by simp
next
  case (writes s t i st x now r)
  then show ?case by (intro locks_ok_local) auto
next
  case (releases s t c r w l)
  then show ?case by (intro locks_ok_releases)
qed

section \<open>The records under interleaving\<close>

definition succeeded :: "tpc \<Rightarrow> ownership_transfer \<Rightarrow> bool" where
  "succeeded pc r = (pc = TLeaving (Inr r) \<or> pc = TDone (Inr r))"

fun thread_ok :: "ownership_store \<Rightarrow> transfer_call \<Rightarrow> tpc \<Rightarrow> bool" where
  "thread_ok m (Finalize i st) pc = (st \<noteq> PENDING \<and> (\<forall>x. pc = TRead x \<longrightarrow> jm_get m i = x) \<and>
     (\<forall>r. succeeded pc r \<longrightarrow> jm_get m i = Some r \<and> tr_state r = st))"
| "thread_ok m (Initiate p) pc = (\<forall>x. pc \<noteq> TRead x)"

definition finalised_by :: "transfer_system \<Rightarrow> string \<Rightarrow> nat \<Rightarrow> bool" where
  "finalised_by s i u = (\<exists>st pc r. ts_threads s u = Some (Finalize i st, pc) \<and> succeeded pc r)"

definition data_ok :: "transfer_system \<Rightarrow> bool" where
  "data_ok s = ((\<forall>u c pc. ts_threads s u = Some (c, pc) \<longrightarrow> thread_ok (ts_store s) c pc) \<and>
     (\<forall>i u v. finalised_by s i u \<longrightarrow> finalised_by s i v \<longrightarrow> u = v))"

lemma data_okD:
  "data_ok s \<Longrightarrow> ts_threads s u = Some (c, pc) \<Longrightarrow> thread_ok (ts_store s) c pc"
  "data_ok s \<Longrightarrow> finalised_by s i u \<Longrightarrow> finalised_by s i v \<Longrightarrow> u = v"
  unfolding data_ok_def by blast+

lemma data_okI:
  "(\<And>u c pc. ts_threads s u = Some (c, pc) \<Longrightarrow> thread_ok (ts_store s) c pc) \<Longrightarrow>
   (\<And>i u v. finalised_by s i u \<Longrightarrow> finalised_by s i v \<Longrightarrow> u = v) \<Longrightarrow> data_ok s"
  unfolding data_ok_def by blast

text \<open>Whether a position other than a success is consistent does not depend on the one before.\<close>

lemma thread_ok_plain:
  "thread_ok m c pc \<Longrightarrow> \<forall>x. pc' \<noteq> TRead x \<Longrightarrow> \<forall>r. \<not> succeeded pc' r \<Longrightarrow> thread_ok m c pc'"
  by (cases c) auto

lemma not_succeeded [simp]:
  "\<not> succeeded TStart r" "\<not> succeeded TWaiting r" "\<not> succeeded THolding r" "\<not> succeeded (TRead x) r"
  "\<not> succeeded (TLeaving (Inl e)) r" "\<not> succeeded (TDone (Inl e)) r"
  "succeeded (TDone o') r = succeeded (TLeaving o') r"
  by (auto simp: succeeded_def)

lemma data_ok_local:
  assumes "data_ok s" and "thread_ok (ts_store s) c pc" and "\<And>r. \<not> succeeded pc r \<or> (\<exists>p. c = Initiate p)"
  shows "data_ok (goes_to s t c pc)"
  using assms unfolding data_ok_def finalised_by_def
  by (auto split: if_splits)

lemma data_ok_frame:
  assumes "data_ok s" and "ts_store s' = ts_store s" and "ts_threads s' = ts_threads s"
  shows "data_ok s'"
  using assms by (simp add: data_ok_def finalised_by_def)

lemma holder_unique:
  "locks_ok s \<Longrightarrow> ts_threads s t = Some (c, p) \<Longrightarrow> ts_threads s u = Some (d, q) \<Longrightarrow>
   in_section p \<Longrightarrow> in_section q \<Longrightarrow> call_id c = call_id d \<Longrightarrow> t = u"
  unfolding locks_ok_def lock_ok_def holds_def by metis

lemma thread_ok_other:
  assumes "thread_ok m c pc" and "call_id c = i \<longrightarrow> (\<forall>x. pc \<noteq> TRead x) \<and> (\<forall>r. \<not> succeeded pc r \<or> (\<exists>p. c = Initiate p))"
    and "\<And>j. j \<noteq> i \<Longrightarrow> jm_get m' j = jm_get m j"
  shows "thread_ok m' c pc"
proof (cases c)
  case (Finalize j st)
  then show ?thesis using assms by (cases "j = i") auto
qed (use assms in simp)

lemma thread_ok_success: "thread_ok m (Finalize i st) pc \<Longrightarrow> succeeded pc r \<Longrightarrow> jm_get m i = Some r \<and> tr_state r = st \<and> st \<noteq> PENDING"
  by simp

lemma data_ok_writes:
  assumes inv: "data_ok s" "locks_ok s" and t: "ts_threads s t = Some (Finalize i st, TRead x)"
    and g: "finalize_guard now i st x = Inr r"
  shows "data_ok (goes_to (s\<lparr>ts_store := jm_set (ts_store s) i r\<rparr>) t (Finalize i st) (TLeaving (Inr r)))"
    (is "data_ok ?s'")
proof -
  obtain t0 where x: "x = Some t0" "tr_state t0 = PENDING" "tr_state r = st"
    using g by (auto simp: finalize_guard_def split: option.splits if_splits)
  have cur: "jm_get (ts_store s) i = x" "st \<noteq> PENDING"
    using data_okD(1) [OF inv(1) t] by simp_all
  have nofin: "\<not> finalised_by s i u" for u
    using data_okD(1) [OF inv(1)] cur(1) x unfolding finalised_by_def by fastforce
  have others: "thread_ok (jm_set (ts_store s) i r) c pc" if u: "u \<noteq> t" "ts_threads s u = Some (c, pc)" for u c pc
  proof (rule thread_ok_other)
    show "thread_ok (ts_store s) c pc" using data_okD(1) [OF inv(1) u(2)] .
    show "call_id c = i \<longrightarrow> (\<forall>x. pc \<noteq> TRead x) \<and> (\<forall>r. \<not> succeeded pc r \<or> (\<exists>p. c = Initiate p))"
      using holder_unique [OF inv(2) t u(2)] u nofin [of u]
      by (cases c) (auto simp: finalised_by_def)
  qed simp
  have "finalised_by ?s' j u \<Longrightarrow> (j = i \<and> u = t) \<or> (j \<noteq> i \<and> finalised_by s j u)" for j u
    using nofin [of u] by (auto simp: finalised_by_def split: if_splits)
  then have "finalised_by ?s' j u \<Longrightarrow> finalised_by ?s' j v \<Longrightarrow> u = v" for j u v
    using data_okD(2) [OF inv(1)] by blast
  moreover have "thread_ok (ts_store ?s') c pc" if "ts_threads ?s' u = Some (c, pc)" for u c pc
    using that others x cur(2) by (cases "u = t") (auto simp: succeeded_def)
  ultimately show ?thesis by (intro data_okI)
qed

lemma data_ok_inserts:
  assumes inv: "data_ok s" "locks_ok s" and t: "ts_threads s t = Some (Initiate p, THolding)"
    and ins: "initiateTransfer now p (ts_store s) = (r, store)"
  shows "data_ok (goes_to (s\<lparr>ts_store := store\<rparr>) t (Initiate p) (TLeaving r))"
proof (cases rule: initiateTransfer_cases [of p "ts_store s" now])
  case (fail e)
  then have "store = ts_store s" using ins by simp
  then show ?thesis using inv(1) data_ok_local [of s "Initiate p" "TLeaving r" t] by simp
next
  case ok
  have st: "store = jm_set (ts_store s) (ip_transferId p) (pending_transfer now p)" using ok ins by simp
  have others: "thread_ok store c pc" if u: "u \<noteq> t" "ts_threads s u = Some (c, pc)" for u c pc
  proof (rule thread_ok_other)
    show ok': "thread_ok (ts_store s) c pc" using data_okD(1) [OF inv(1) u(2)] .
    show "call_id c = ip_transferId p \<longrightarrow> (\<forall>x. pc \<noteq> TRead x) \<and> (\<forall>r. \<not> succeeded pc r \<or> (\<exists>p. c = Initiate p))"
      using holder_unique [OF inv(2) t u(2)] u ok(2) ok'
      by (cases c) auto
  qed (simp add: st)
  let ?s' = "goes_to (s\<lparr>ts_store := store\<rparr>) t (Initiate p) (TLeaving r)"
  have fin: "finalised_by ?s' j u \<Longrightarrow> finalised_by s j u" for j u
    by (auto simp: finalised_by_def split: if_splits)
  show ?thesis
  proof (rule data_okI)
    fix u c pc assume "ts_threads ?s' u = Some (c, pc)"
    then show "thread_ok (ts_store ?s') c pc" using others by (auto split: if_splits)
  next
    fix i u v assume "finalised_by ?s' i u" "finalised_by ?s' i v"
    then show "u = v" using fin data_okD(2) [OF inv(1)] by blast
  qed
qed

lemma data_ok_wake: "data_ok s \<Longrightarrow> data_ok (wake w s)"
proof (cases w)
  case (Some u)
  assume inv: "data_ok s"
  then show ?thesis
  proof (cases "ts_threads s u")
    case (Some cp)
    then obtain c pc where "ts_threads s u = Some (c, pc)" by (cases cp) auto
    then have "thread_ok (ts_store s) c THolding"
      using data_okD(1) [OF inv] thread_ok_plain by fastforce
    then show ?thesis using data_ok_local [OF inv, of c THolding u] \<open>w = Some u\<close> \<open>ts_threads s u = Some (c, pc)\<close>
      by (simp add: wake_def succeeded_def)
  qed (simp add: wake_def Some)
qed (simp add: wake_def)

text \<open>A handler moves on without touching the store and without having finalised anything.\<close>

lemma data_ok_plain:
  assumes "data_ok s" and "ts_threads s t = Some (c, pc)"
    and "\<forall>x. pc' \<noteq> TRead x" and "\<forall>r. \<not> succeeded pc' r"
  shows "data_ok (goes_to s t c pc')"
  using assms(4) thread_ok_plain [OF data_okD(1) [OF assms(1,2)] assms(3,4)]
  by (intro data_ok_local [OF assms(1)]) auto

lemma data_ok_done:
  assumes inv: "data_ok s" and t: "ts_threads s t = Some (c, TLeaving r)"
  shows "data_ok (goes_to s t c (TDone r))"
proof (rule data_okI)
  fix u d pc assume "ts_threads (goes_to s t c (TDone r)) u = Some (d, pc)"
  then show "thread_ok (ts_store (goes_to s t c (TDone r))) d pc"
    using data_okD(1) [OF inv t] data_okD(1) [OF inv, of u d pc] by (cases c) (auto split: if_splits)
next
  fix i u v
  assume "finalised_by (goes_to s t c (TDone r)) i u" "finalised_by (goes_to s t c (TDone r)) i v"
  moreover have "finalised_by (goes_to s t c (TDone r)) i u \<Longrightarrow> finalised_by s i u" for u
    using t by (auto simp: finalised_by_def split: if_splits)
  ultimately show "u = v" using data_okD(2) [OF inv] by blast
qed

lemma data_ok_step: "transfer_step s s' \<Longrightarrow> data_ok s \<Longrightarrow> locks_ok s \<Longrightarrow> data_ok s'"
proof (induction rule: transfer_step.induct)
  case (arrives s t c)
  then show ?case by (intro data_ok_local) (cases c; auto)+
next
  case (refused s t c e)
  then show ?case by (intro data_ok_plain) auto
next
  case (acquires s t c u got l)
  have "data_ok (goes_to s t c (if got then THolding else TWaiting))"
    using acquires by (intro data_ok_plain) auto
  then show ?case by (rule data_ok_frame) simp_all
next
  case (reads s t i st)
  then show ?case using data_okD(1) [of s t "Finalize i st" THolding] by (intro data_ok_local) auto
next
  case (rejects s t i st x now e)
  then show ?case by (intro data_ok_plain) auto
next
  case (releases s t c r w l)
  have "data_ok (goes_to s t c (TDone r))" using releases by (intro data_ok_done)
  then have "data_ok (goes_to (s\<lparr>ts_locks := jm_set (ts_locks s) (call_id c) l\<rparr>) t c (TDone r))"
    by (rule data_ok_frame) simp_all
  then show ?case by (rule data_ok_wake)
qed (auto intro: data_ok_writes data_ok_inserts)

lemma reachable_ok: "transfer_reachable s \<Longrightarrow> locks_ok s \<and> data_ok s"
  unfolding transfer_reachable_def
proof (induction rule: rtranclp_induct)
  case base
  show ?case by (simp add: locks_ok_def lock_ok_def transfer_init_def getLock_def new_lock_def holds_def
      waits_def data_ok_def finalised_by_def)
next
  case (step s t)
  then show ?case using locks_ok_step data_ok_step by blast
qed

section \<open>What the interleaved service guarantees\<close>

text \<open>
  C9: The per-transfer lock is a mutual exclusion that loses nobody. In every reachable state at most
  one handler of a transfer is between acquiring and releasing its lock, the lock's queue holds
  exactly the waiting handlers of that transfer, each once, and whenever a handler waits another one
  is inside and will wake the head of the queue.
\<close>

theorem transfer_lock_mutex:
  assumes "transfer_reachable s"
  shows "(holds (ts_threads s) i u \<and> holds (ts_threads s) i v \<longrightarrow> u = v)
    \<and> distinct (lk_queue (getLock (ts_locks s) i))
    \<and> (u \<in> set (lk_queue (getLock (ts_locks s) i)) \<longleftrightarrow> waits (ts_threads s) i u)
    \<and> (waits (ts_threads s) i u \<longrightarrow> (\<exists>w. holds (ts_threads s) i w))"
  using reachable_ok [OF assms] unfolding locks_ok_def lock_ok_def by (metis empty_iff list.set(1))

definition accept_call :: transfer_call where "accept_call = Finalize ''t1'' ACCEPTED"
definition cancel_call :: transfer_call where "cancel_call = Finalize ''t1'' CANCELLED"

text \<open>Two handlers finalise the same transfer at once: the second one queues behind the first.\<close>

definition sample_race :: transfer_system where
  "sample_race = \<lparr>ts_store = [], ts_locks = [(''t1'', \<lparr>lk_locked = True, lk_queue = [1]\<rparr>)],
     ts_threads = [0 \<mapsto> (accept_call, THolding), 1 \<mapsto> (cancel_call, TWaiting)]\<rparr>"

lemma sample_race_reachable: "transfer_reachable sample_race"
proof -
  let ?s1 = "goes_to transfer_init 0 accept_call TStart"
  let ?s2 = "goes_to (?s1\<lparr>ts_locks := [(''t1'', \<lparr>lk_locked = True, lk_queue = []\<rparr>)]\<rparr>) 0 accept_call THolding"
  let ?s3 = "goes_to ?s2 1 cancel_call TStart"
  have "transfer_step transfer_init ?s1"
    by (rule transfer_step.arrives) (simp_all add: transfer_init_def accept_call_def)
  moreover have "transfer_step ?s1 ?s2"
    using transfer_step.acquires [of ?s1 0 accept_call "()" True "\<lparr>lk_locked = True, lk_queue = []\<rparr>"]
    by (simp add: accept_call_def transfer_init_def finalize_check_def lock_acquire_def getLock_def new_lock_def)
  moreover have "transfer_step ?s2 ?s3"
    by (rule transfer_step.arrives) (simp_all add: transfer_init_def cancel_call_def)
  moreover have "transfer_step ?s3 (goes_to (?s3\<lparr>ts_locks := [(''t1'', \<lparr>lk_locked = True, lk_queue = [1]\<rparr>)]\<rparr>)
      1 cancel_call TWaiting)"
    using transfer_step.acquires [of ?s3 1 cancel_call "()" False "\<lparr>lk_locked = True, lk_queue = [1]\<rparr>"]
    by (simp add: cancel_call_def transfer_init_def finalize_check_def lock_acquire_def getLock_def)
  moreover have "goes_to (?s3\<lparr>ts_locks := [(''t1'', \<lparr>lk_locked = True, lk_queue = [1]\<rparr>)]\<rparr>) 1 cancel_call TWaiting
      = sample_race"
    by (simp add: goes_to_def transfer_init_def sample_race_def)
  ultimately show ?thesis unfolding transfer_reachable_def
    by (metis (no_types, lifting) rtranclp.rtrancl_into_rtrancl rtranclp.rtrancl_refl)
qed

theorem transfer_lock_mutex_witness:
  "\<exists>w. holds (ts_threads sample_race) ''t1'' w"
proof -
  have "waits (ts_threads sample_race) ''t1'' 1"
    by (simp add: waits_def sample_race_def cancel_call_def)
  then show ?thesis using transfer_lock_mutex [OF sample_race_reachable, of "''t1''" 1] by blast
qed

text \<open>
  C8: Interleaved calls finalise a transfer at most once. In every reachable state at most one handler
  has succeeded in accepting or cancelling a given transfer, whatever the number of concurrent calls;
  the stored record is the one that handler returns, in the state it asked for; and a handler that
  has read a record and not yet decided holds the current one, so no update is lost.
\<close>

theorem transfer_finalised_once:
  assumes "transfer_reachable s"
  shows "(finalised_by s i u \<and> finalised_by s i v \<longrightarrow> u = v)
    \<and> (ts_threads s u = Some (Finalize i st, TDone (Inr r)) \<longrightarrow>
         getTransfer i (ts_store s) = Some r \<and> tr_state r = st \<and> st \<noteq> PENDING)
    \<and> (ts_threads s u = Some (Finalize i st, TRead x) \<longrightarrow> getTransfer i (ts_store s) = x)"
proof -
  have ok: "data_ok s" using reachable_ok [OF assms] by simp
  show ?thesis
    using data_okD(2) [OF ok] data_okD(1) [OF ok, of u "Finalize i st"]
    by (auto simp: getTransfer_def succeeded_def)
qed

theorem transfer_finalised_once_witness:
  "\<not> (finalised_by sample_race ''t1'' 0 \<and> finalised_by sample_race ''t1'' 1)"
  using transfer_finalised_once [OF sample_race_reachable, of "''t1''" 0 1] by auto

lemma steps_away:
  "transfer_step s s' \<Longrightarrow> ts_threads s u = Some (d, p) \<Longrightarrow> ts_threads s' u \<noteq> Some (d, p) \<Longrightarrow>
   \<exists>s'. transfer_step s s' \<and> ts_threads s' u \<noteq> ts_threads s u"
  by auto

lemma section_steps:
  assumes "transfer_reachable s" and u: "ts_threads s u = Some (d, p)" "in_section p"
  shows "\<exists>s'. transfer_step s s' \<and> ts_threads s' u \<noteq> ts_threads s u"
proof (cases p)
  case THolding
  show ?thesis
  proof (cases d)
    case (Initiate q)
    obtain r store where r: "initiateTransfer 0 q (ts_store s) = (r, store)" by force
    have "ts_threads s u = Some (Initiate q, THolding)" using u(1) Initiate THolding by simp
    from steps_away [OF transfer_step.inserts [OF this r] this] show ?thesis by simp
  next
    case (Finalize i st)
    have "ts_threads s u = Some (Finalize i st, THolding)" using u(1) Finalize THolding by simp
    from steps_away [OF transfer_step.reads [OF this] this] show ?thesis by simp
  qed
next
  case (TRead x)
  have "thread_ok (ts_store s) d (TRead x)"
    using reachable_ok [OF assms(1)] data_okD(1) u(1) TRead by blast
  then obtain i st where d: "d = Finalize i st" by (cases d) auto
  have here: "ts_threads s u = Some (Finalize i st, TRead x)" using u(1) d TRead by simp
  show ?thesis
  proof (cases "finalize_guard 0 i st x")
    case (Inl e)
    from steps_away [OF transfer_step.rejects [OF here Inl] here] show ?thesis by simp
  next
    case (Inr r)
    from steps_away [OF transfer_step.writes [OF here Inr] here] show ?thesis by simp
  qed
next
  case (TLeaving r)
  obtain w l where wl: "lock_release (getLock (ts_locks s) (call_id d)) = (w, l)" by force
  have here: "ts_threads s u = Some (d, TLeaving r)" using u(1) TLeaving by simp
  let ?s = "wake w (goes_to (s\<lparr>ts_locks := jm_set (ts_locks s) (call_id d) l\<rparr>) u d (TDone r))"
  have "ts_threads ?s u = Some (d, TDone r) \<or> ts_threads ?s u = Some (d, THolding)"
    by (auto simp: wake_def split: option.splits)
  then show ?thesis using steps_away [OF transfer_step.releases [OF here wl] here] by auto
qed (use u in auto)

lemma start_steps:
  assumes "ts_threads s t = Some (c, TStart)"
  shows "\<exists>s'. transfer_step s s' \<and> ts_threads s' t \<noteq> ts_threads s t"
proof (cases "call_check c")
  case (Inl e)
  from steps_away [OF transfer_step.refused [OF assms Inl] assms] show ?thesis by simp
next
  case (Inr x)
  obtain got l where gl: "lock_acquire t (getLock (ts_locks s) (call_id c)) = (got, l)" by force
  from steps_away [OF transfer_step.acquires [OF assms Inr gl] assms] show ?thesis by simp
qed

text \<open>
  C10: No deadlock. In every reachable state in which some handler has not finished, some existing
  handler can take a step: a waiting one is never left behind a lock that nobody holds.
\<close>

theorem transfer_no_deadlock:
  assumes "transfer_reachable s" and "ts_threads s t = Some (c, pc)" and "\<forall>r. pc \<noteq> TDone r"
  shows "\<exists>s' u c' pc'. transfer_step s s' \<and> ts_threads s u = Some (c', pc') \<and> (\<forall>r. pc' \<noteq> TDone r)
     \<and> ts_threads s' u \<noteq> ts_threads s u"
proof -
  have holder: ?thesis if "ts_threads s u = Some (d, p)" "in_section p" for u d p
  proof -
    have "\<forall>r. p \<noteq> TDone r" using that(2) by auto
    with section_steps [OF assms(1) that] that(1) show ?thesis by blast
  qed
  show ?thesis
  proof (cases pc)
    case TStart
    then show ?thesis using start_steps assms(2,3) by blast
  next
    case TWaiting
    then have "\<exists>w. holds (ts_threads s) (call_id c) w"
      using reachable_ok [OF assms(1)] assms(2) unfolding locks_ok_def lock_ok_def waits_def
      by (metis empty_iff list.set(1))
    then show ?thesis using holder by (auto simp: holds_def)
  next
    case (TDone r)
    then show ?thesis using assms(3) by simp
  qed (use holder [OF assms(2)] in simp_all)
qed

theorem transfer_no_deadlock_witness:
  "\<exists>s' u c' pc'. transfer_step sample_race s' \<and> ts_threads sample_race u = Some (c', pc')
     \<and> ts_threads s' u \<noteq> ts_threads sample_race u"
proof -
  have t: "ts_threads sample_race 1 = Some (cancel_call, TWaiting)" by (simp add: sample_race_def)
  have "\<forall>r. TWaiting \<noteq> TDone r" by simp
  from transfer_no_deadlock [OF sample_race_reachable t this] show ?thesis by blast
qed

end
