(* ===== verification/Transfer_Routes.thy ===== *)
theory Transfer_Routes
  imports Ownership_Properties Http_Input
begin

text \<open>
  \<open>routes/transfers.ts\<close>: the HTTP surface of the ownership transfers. The handlers read the verified
  user; accept and cancel pass the user's id to a service method that has no such parameter, so it is
  dropped there.
\<close>

datatype transfer_body =
    TbTransfer ownership_transfer
  | TbError string string

definition transfer_error :: "app_error \<Rightarrow> transfer_body reply" where
  "transfer_error e = Reply (statusCode e) (TbError (err_code e) (err_message e))"

definition verified_user :: "token option \<Rightarrow> string option" where
  "verified_user user = (case user of None \<Rightarrow> None | Some u \<Rightarrow> if tk_uid u = [] then None else Some (tk_uid u))"

definition unauthenticated :: "transfer_body reply" where
  "unauthenticated = Reply 401 (TbError ''TRANSFER_UNAUTHENTICATED'' ''Authentication required'')"

definition initiate_route ::
  "int \<Rightarrow> token option \<Rightarrow> json \<Rightarrow> ownership_store \<Rightarrow> transfer_body reply \<times> ownership_store" where
  "initiate_route now user body s = (case verified_user user of
       None \<Rightarrow> (unauthenticated, s)
     | Some fromOwner \<Rightarrow>
         (case (required_string (json_prop body ''transferId''), required_string (json_prop body ''escrowId''),
                required_string (json_prop body ''toOwner'')) of
            (Some i, Some e, Some t) \<Rightarrow>
              (case initiateTransfer now \<lparr>ip_transferId = i, ip_escrowId = e, ip_fromOwner = fromOwner,
                      ip_toOwner = t\<rparr> s of
                 (Inl err, s') \<Rightarrow> (transfer_error err, s')
               | (Inr tr, s') \<Rightarrow> (Reply 201 (TbTransfer tr), s'))
          | _ \<Rightarrow> (Reply 400 (TbError ''TRANSFER_INVALID_PAYLOAD'' ''Invalid initiate transfer payload''), s)))"

definition accept_route ::
  "int \<Rightarrow> token option \<Rightarrow> string \<Rightarrow> ownership_store \<Rightarrow> transfer_body reply \<times> ownership_store" where
  "accept_route now user transferId s = (case verified_user user of
       None \<Rightarrow> (unauthenticated, s)
     | Some actorId \<Rightarrow>
         (case acceptTransfer now transferId s of
            (Inl err, s') \<Rightarrow> (transfer_error err, s')
          | (Inr tr, s') \<Rightarrow> (Reply 200 (TbTransfer tr), s')))"

definition cancel_route ::
  "int \<Rightarrow> token option \<Rightarrow> string \<Rightarrow> ownership_store \<Rightarrow> transfer_body reply \<times> ownership_store" where
  "cancel_route now user transferId s = (case verified_user user of
       None \<Rightarrow> (unauthenticated, s)
     | Some actorId \<Rightarrow>
         (case cancelTransfer now transferId s of
            (Inl err, s') \<Rightarrow> (transfer_error err, s')
          | (Inr tr, s') \<Rightarrow> (Reply 200 (TbTransfer tr), s')))"

definition get_transfer_route :: "string \<Rightarrow> ownership_store \<Rightarrow> transfer_body reply" where
  "get_transfer_route transferId s = (case getTransfer transferId s of
       None \<Rightarrow> Reply 404 (TbError ''TRANSFER_NOT_FOUND'' (''Transfer not found: '' @ transferId))
     | Some t \<Rightarrow> Reply 200 (TbTransfer t))"

text \<open>
  Anyone who is signed in can finalise anyone's transfer. For a pending transfer, the accept
  route succeeds for every authenticated caller, with the same reply and the same effect whoever it
  is, so neither the recipient's consent nor the owner's identity is checked; the cancel route
  likewise. Only an unauthenticated request is refused, and it changes nothing.
\<close>

theorem any_user_finalises:
  assumes "getTransfer i s = Some t" and "tr_state t = PENDING" and "i \<noteq> []" and "tk_uid u \<noteq> []"
  shows "(\<exists>r. accept_route now (Some u) i s = (Reply 200 (TbTransfer r), jm_set s i r) \<and>
            tr_state r = ACCEPTED \<and> tr_toOwner r = tr_toOwner t \<and>
            (\<forall>v. tk_uid v \<noteq> [] \<longrightarrow> accept_route now (Some v) i s = accept_route now (Some u) i s))
    \<and> (\<exists>r. cancel_route now (Some u) i s = (Reply 200 (TbTransfer r), jm_set s i r) \<and> tr_state r = CANCELLED)
    \<and> accept_route now None i s = (unauthenticated, s)"
  using assms
  by (simp add: accept_route_def cancel_route_def acceptTransfer_def cancelTransfer_def finalize_def
      finalize_check_def finalize_guard_def getTransfer_def verified_user_def)

definition sample_initiate :: initiate_payload where
  "sample_initiate = \<lparr>ip_transferId = ''t1'', ip_escrowId = ''e1'', ip_fromOwner = ''alice'', ip_toOwner = ''bob''\<rparr>"

theorem any_user_finalises_witness:
  "\<exists>r s'. accept_route 9 (Some \<lparr>tk_uid = ''mallory'', tk_email = None, tk_role = None, tk_hasura_role = None\<rparr>) ''t1''
     [(''t1'', pending_transfer 3 sample_initiate)] = (Reply 200 (TbTransfer r), s') \<and> tr_state r = ACCEPTED"
proof -
  have "getTransfer ''t1'' [(''t1'', pending_transfer 3 sample_initiate)] = Some (pending_transfer 3 sample_initiate)"
    by (simp add: getTransfer_def)
  from any_user_finalises [OF this, of "\<lparr>tk_uid = ''mallory'', tk_email = None, tk_role = None, tk_hasura_role = None\<rparr>" 9]
  show ?thesis by (auto simp: pending_transfer_def)
qed

end
