(* ===== verification/Changelog_Routes.thy ===== *)
theory Changelog_Routes
  imports Changelog_Properties Http_Input
begin

text \<open>
  \<open>routes/changelog.ts\<close>: the HTTP surface of the shared changelog. The router is mounted behind
  \<open>requireAuth\<close>; the user is the verified token, if there is one.
\<close>

datatype changelog_body =
    CbEntry changelog_entry
  | CbRemoved changelog_entry
  | CbPage changelog_page
  | CbError string string

definition DEFAULT_PAGE_SIZE :: nat where "DEFAULT_PAGE_SIZE = 50"
definition MAX_PAGE_SIZE :: nat where "MAX_PAGE_SIZE = 100"

fun metadata_field :: "json option \<Rightarrow> metadata option option" where
  "metadata_field None = Some None"
| "metadata_field (Some (JObj ps)) = Some (Some ps)"
| "metadata_field v = None"

text \<open>
  \<open>appendSchema\<close>. The refinement of \<open>action\<close> runs on every string, also when another field is
  invalid, so an unknown type is reported as such whatever else is wrong.
\<close>

definition unknown_type :: "json \<Rightarrow> bool" where
  "unknown_type body = (case json_prop body ''action'' of
       Some (JStr a) \<Rightarrow> \<not> isChangelogEntryType a | _ \<Rightarrow> False)"

definition changelog_error :: "app_error \<Rightarrow> changelog_body reply" where
  "changelog_error e = Reply (statusCode e) (CbError (err_code e) (err_message e))"

definition append_route ::
  "string option \<Rightarrow> int \<Rightarrow> token option \<Rightarrow> json \<Rightarrow> changelog \<Rightarrow> changelog_body reply \<times> changelog" where
  "append_route amb now user body s =
     (if unknown_type body then
        (Reply 400 (CbError ''CHANGELOG_UNKNOWN_ENTRY_TYPE''
           (''Unknown changelog entry type. Allowed: '' @ join '', '' ENTRY_TYPE_VALUES)), s)
      else case (required_string (json_prop body ''entryId''), required_string (json_prop body ''action''),
                 required_string (json_prop body ''resourceId''), metadata_field (json_prop body ''metadata'')) of
          (Some entryId, Some action, Some resourceId, Some md) \<Rightarrow>
            (case user of
               None \<Rightarrow> (Reply 401 (CbError ''CHANGELOG_UNAUTHENTICATED'' ''Authentication required''), s)
             | Some u \<Rightarrow>
                 if tk_uid u = [] then
                   (Reply 401 (CbError ''CHANGELOG_UNAUTHENTICATED'' ''Authentication required''), s)
                 else
                   (case appendEntry amb now \<lparr>ap_entryId = entryId, ap_action = action, ap_actorId = tk_uid u,
                           ap_resourceId = resourceId, ap_metadata = md, ap_requestId = None\<rparr> s of
                      (Inl e, s') \<Rightarrow> (changelog_error e, s')
                    | (Inr entry, s') \<Rightarrow> (Reply 201 (CbEntry entry), s')))
        | _ \<Rightarrow> (Reply 400 (CbError ''CHANGELOG_INVALID_PAYLOAD'' ''Invalid changelog entry payload''), s))"

definition list_route :: "string \<Rightarrow> string option \<Rightarrow> string option \<Rightarrow> changelog \<Rightarrow> changelog_body reply" where
  "list_route resourceId l off s =
     (case (query_int (\<lambda>r. 0 < r \<and> r \<le> of_nat MAX_PAGE_SIZE) l, query_int (\<lambda>r. 0 \<le> r) off) of
        (Some lmt0, Some offset0) \<Rightarrow>
          (let lmt = (case lmt0 of None \<Rightarrow> Fin (of_nat DEFAULT_PAGE_SIZE) | Some x \<Rightarrow> x);
               offset = (case offset0 of None \<Rightarrow> Fin 0 | Some x \<Rightarrow> x);
               entries = listEntries resourceId (Some (Some lmt, Some offset)) s;
               total = length (listEntries resourceId None s)
           in Reply 200 (CbPage \<lparr>cp_entries = entries, cp_total = total,
                cp_limit = (case lmt of Fin r \<Rightarrow> nat \<lfloor>r\<rfloor> | _ \<Rightarrow> 0),
                cp_offset = (case offset of Fin r \<Rightarrow> nat \<lfloor>r\<rfloor> | _ \<Rightarrow> 0),
                cp_hasMore = (case offset of Fin r \<Rightarrow> nat \<lfloor>r\<rfloor> | _ \<Rightarrow> 0) + length entries < total\<rparr>))
      | _ \<Rightarrow> Reply 400 (CbError ''CHANGELOG_INVALID_PAGINATION''
            (''Invalid pagination parameters. limit must be between 1 and '' @ show_nat MAX_PAGE_SIZE @
             '', offset must be >= 0.'')))"

definition entry_route :: "string \<Rightarrow> changelog \<Rightarrow> changelog_body reply" where
  "entry_route entryId s = (case getEntry entryId s of
       None \<Rightarrow> Reply 404 (CbError ''CHANGELOG_ENTRY_NOT_FOUND'' (''Entry not found: '' @ entryId))
     | Some e \<Rightarrow> Reply 200 (CbEntry e))"

definition remove_route :: "string option \<Rightarrow> int \<Rightarrow> string \<Rightarrow> changelog \<Rightarrow> changelog_body reply \<times> changelog" where
  "remove_route amb now entryId s = (case removeEntry amb now entryId s of
       (Inl e, s') \<Rightarrow> (changelog_error e, s')
     | (Inr entry, s') \<Rightarrow> (Reply 200 (CbRemoved entry), s'))"

text \<open>PUT and PATCH.\<close>

definition update_route :: "string \<Rightarrow> json \<Rightarrow> changelog \<Rightarrow> changelog_body reply \<times> changelog" where
  "update_route entryId body s =
     (Reply 409 (CbError ''CHANGELOG_UPDATE_FORBIDDEN''
        ''Changelog entries are write-once and cannot be updated. To correct an entry: DELETE it then POST a new one.''), s)"

text \<open>
  An audit entry made over HTTP cannot be forged. When the append route creates an entry, the
  request was authenticated, the entry's actor is the verified caller's id whatever the body says,
  its action is one of the taxonomy's types, its time is the server's clock, and it is stored; any
  other outcome leaves the log as it was.
\<close>

theorem append_route_authentic:
  "(case append_route amb now user body s of
      (Reply st b, s') \<Rightarrow>
        (if st = 201 then
           (\<exists>u e. user = Some u \<and> b = CbEntry e \<and> ce_actorId e = tk_uid u \<and> tk_uid u \<noteq> [] \<and>
              isChangelogEntryType (ce_action e) \<and> ce_timestamp e = now \<and>
              json_prop body ''entryId'' = Some (JStr (ce_entryId e)) \<and>
              getEntry (ce_entryId e) s = None \<and> getEntry (ce_entryId e) s' = Some e)
         else s' = s))"
proof (cases "unknown_type body")
  case True
  then show ?thesis by (simp add: append_route_def)
next
  case False
  show ?thesis
  proof (cases "\<exists>i a r m u. required_string (json_prop body ''entryId'') = Some i \<and>
      required_string (json_prop body ''action'') = Some a \<and> required_string (json_prop body ''resourceId'') = Some r \<and>
      metadata_field (json_prop body ''metadata'') = Some m \<and> user = Some u \<and> tk_uid u \<noteq> []")
    case False
    then show ?thesis using \<open>\<not> unknown_type body\<close>
      by (auto simp: append_route_def split: option.splits)
  next
    case True
    then obtain i a r m u where f: "required_string (json_prop body ''entryId'') = Some i"
      "required_string (json_prop body ''action'') = Some a" "required_string (json_prop body ''resourceId'') = Some r"
      "metadata_field (json_prop body ''metadata'') = Some m" "user = Some u" "tk_uid u \<noteq> []" by blast
    let ?p = "\<lparr>ap_entryId = i, ap_action = a, ap_actorId = tk_uid u, ap_resourceId = r, ap_metadata = m, ap_requestId = None\<rparr>"
    have ty: "isChangelogEntryType a" using False f(2) by (auto simp: unknown_type_def required_string_Some)
    show ?thesis
    proof (cases rule: appendEntry_cases [of ?p s amb now])
      case ok
      have "append_route amb now user body s =
          (Reply 201 (CbEntry (sealed_entry amb now ?p)), snd (appendEntry amb now ?p s))"
        using ok f False by (simp add: append_route_def)
      with ok f ty False show ?thesis
        by (auto simp: getEntry_def sealed_entry_def required_string_Some)
    next
      case (fail e)
      then have "statusCode e \<noteq> 201" by (auto simp: appendEntry_def Let_def split: if_splits)
      with fail f False show ?thesis by (simp add: append_route_def changelog_error_def)
    qed
  qed
qed

lemma list_route_page:
  assumes "list_route resourceId l off s = Reply 200 (CbPage p)"
  shows "cp_entries p = page (listByResource (cl_store s) resourceId) (cp_offset p) (cp_limit p)
    \<and> 1 \<le> cp_limit p \<and> cp_limit p \<le> MAX_PAGE_SIZE \<and> cp_total p = length (listByResource (cl_store s) resourceId)
    \<and> (cp_hasMore p \<longleftrightarrow> cp_offset p + length (cp_entries p) < cp_total p)"
proof -
  have q: "\<exists>r. x = Fin r \<and> P r" if "query_int P v = Some (Some x)" for P v x
    using that unfolding query_int_def by (force split: option.splits jsnum.splits if_splits)
  obtain l0 o0 where lo: "query_int (\<lambda>r. 0 < r \<and> r \<le> of_nat MAX_PAGE_SIZE) l = Some l0"
    "query_int (\<lambda>r. 0 \<le> r) off = Some o0"
    using assms by (auto simp: list_route_def split: option.splits)
  have whole: "\<exists>k::int. r = of_int k" if "query_int P v = Some (Some (Fin r))" for P v r
    using that by (auto simp: query_int_def split: option.splits jsnum.splits if_splits)
  obtain k :: nat where k: "(case l0 of None \<Rightarrow> Fin (of_nat DEFAULT_PAGE_SIZE) | Some x \<Rightarrow> x) = Fin (of_nat k)"
    "1 \<le> k" "k \<le> MAX_PAGE_SIZE"
  proof (cases l0)
    case None
    then show ?thesis using that [of DEFAULT_PAGE_SIZE] by (simp add: DEFAULT_PAGE_SIZE_def MAX_PAGE_SIZE_def)
  next
    case (Some x)
    then obtain r where r: "x = Fin r" "0 < r" "r \<le> of_nat MAX_PAGE_SIZE"
      using q [OF lo(1) [unfolded Some]] by auto
    then obtain z :: int where z: "r = of_int z" using whole [OF lo(1) [unfolded Some r(1)]] by auto
    then have "0 < z" "z \<le> 100" using r by (simp_all add: MAX_PAGE_SIZE_def)
    then show ?thesis using that [of "nat z"] r z Some by (simp add: MAX_PAGE_SIZE_def)
  qed
  obtain j :: nat where j: "(case o0 of None \<Rightarrow> Fin 0 | Some x \<Rightarrow> x) = Fin (of_nat j)"
  proof (cases o0)
    case None
    then show ?thesis using that [of 0] by simp
  next
    case (Some x)
    then obtain r where r: "x = Fin r" "0 \<le> r" using q [OF lo(2) [unfolded Some]] by auto
    then obtain z :: int where z: "r = of_int z" using whole [OF lo(2) [unfolded Some r(1)]] by auto
    then show ?thesis using that [of "nat z"] r Some by simp
  qed
  have "k \<le> MAX_CHANGELOG_PAGE_SIZE" using k(3) by (simp add: MAX_PAGE_SIZE_def MAX_CHANGELOG_PAGE_SIZE_def)
  then show ?thesis using assms lo k j
    by (auto simp: list_route_def Let_def listEntries_def normalizeLimit_of_nat normalizeOffset_of_nat)
qed

end
