(* ===== verification/Env_Config.thy ===== *)
theory Env_Config
  imports Js_Map
begin

text \<open>
  \<open>config/env.ts\<close>: the validated environment. zod's per-field parsers (URL, e-mail, enumeration,
  number, regular expression) are the parameter \<open>parse\<close>, which yields the parsed value or rejects
  it; the schema's keys, which of them are optional or defaulted, the treatment of empty strings and
  zod's removal of unknown keys are modelled.
\<close>

datatype field_kind = Required | Optional | Default string

definition envSchema :: "(string \<times> field_kind) list" where
  "envSchema = [(''PORT'', Default ''4000''), (''NODE_ENV'', Default ''development''),
     (''FIREBASE_ADMIN_PROJECT_ID'', Required), (''FIREBASE_ADMIN_CLIENT_EMAIL'', Required),
     (''FIREBASE_ADMIN_PRIVATE_KEY'', Required), (''TRUSTLESS_WORK_WEBHOOK_SECRET'', Optional),
     (''FIREBASE_PROJECT_ID'', Optional), (''FIREBASE_CLIENT_EMAIL'', Optional),
     (''FIREBASE_PRIVATE_KEY'', Optional), (''LOG_LEVEL'', Default ''info''),
     (''CORS_ORIGINS'', Default ''http://localhost:3000''), (''RATE_LIMIT_WINDOW_MS'', Default ''900000''),
     (''RATE_LIMIT_MAX'', Default ''100''), (''EMAIL_PROVIDER'', Optional), (''SENDGRID_API_KEY'', Optional),
     (''NOTIFICATION_FROM_EMAIL'', Default ''noreply@truestub.local''), (''HASURA_GRAPHQL_URL'', Optional),
     (''HASURA_GRAPHQL_ADMIN_SECRET'', Optional), (''DATABASE_URL'', Optional), (''PG_POOL_MAX'', Default ''10''),
     (''PG_IDLE_TIMEOUT_MS'', Default ''30000''), (''PG_CONNECTION_TIMEOUT_MS'', Default ''5000''),
     (''PG_QUERY_TIMEOUT_MS'', Default ''30000''),
     (''TRUSTLESS_WORK_API_URL'', Default ''https://dev.api.trustlesswork.com''),
     (''TRUSTLESS_WORK_API_KEY'', Optional), (''TRUSTLESS_WORK_DISPUTE_RESOLVER_SECRET'', Optional),
     (''STELLAR_NETWORK'', Default ''testnet''), (''FRONTEND_TRUSTLESS_NETWORK'', Optional),
     (''SENTRY_DSN'', Optional), (''CRITICAL_ALERT_WEBHOOK_URL'', Optional)]"

type_synonym env = "(string \<times> string) list"

definition env_get :: "env \<Rightarrow> string \<Rightarrow> string option" where
  "env_get e k = map_of e k"

text \<open>Empty and blank strings count as unset.\<close>

definition non_empty :: "env \<Rightarrow> env" where
  "non_empty raw = filter (\<lambda>(k, v). trim v \<noteq> []) raw"

fun parse_field :: "(string \<Rightarrow> string \<Rightarrow> string option) \<Rightarrow> env \<Rightarrow> string \<times> field_kind \<Rightarrow> env option" where
  "parse_field parse raw (k, kind) = (case env_get raw k of
       Some v \<Rightarrow> map_option (\<lambda>w. [(k, w)]) (parse k v)
     | None \<Rightarrow> (case kind of Required \<Rightarrow> None | Optional \<Rightarrow> Some [] | Default d \<Rightarrow> Some [(k, d)]))"

fun parse_fields :: "(string \<Rightarrow> string \<Rightarrow> string option) \<Rightarrow> env \<Rightarrow> (string \<times> field_kind) list \<Rightarrow> env option" where
  "parse_fields parse raw [] = Some []"
| "parse_fields parse raw (f # fs) =
     (case (parse_field parse raw f, parse_fields parse raw fs) of
        (Some xs, Some ys) \<Rightarrow> Some (xs @ ys) | _ \<Rightarrow> None)"

text \<open>\<open>None\<close> is the error thrown at start-up.\<close>

definition validateEnv :: "(string \<Rightarrow> string \<Rightarrow> string option) \<Rightarrow> env \<Rightarrow> env option" where
  "validateEnv parse raw = parse_fields parse (non_empty raw) envSchema"

lemma parse_field_keys: "parse_field parse raw f = Some xs \<Longrightarrow> fst ` set xs \<subseteq> {fst f}"
  by (cases f) (auto split: option.splits field_kind.splits)

lemma parse_fields_keys: "parse_fields parse raw fs = Some e \<Longrightarrow> fst ` set e \<subseteq> fst ` set fs"
proof (induction fs arbitrary: e)
  case (Cons f fs)
  then obtain xs ys where "parse_field parse raw f = Some xs" "parse_fields parse raw fs = Some ys" "e = xs @ ys"
    by (auto split: option.splits)
  with Cons.IH [of ys] parse_field_keys [of parse raw f xs] show ?case by auto
qed simp

lemma parse_fields_required:
  "parse_fields parse raw fs = Some e \<Longrightarrow> (k, Required) \<in> set fs \<Longrightarrow> env_get raw k \<noteq> None"
  by (induction fs arbitrary: e) (auto split: option.splits)

text \<open>A validated environment has only the schema's keys.\<close>

lemma validateEnv_keys: "validateEnv parse raw = Some e \<Longrightarrow> env_get e k \<noteq> None \<Longrightarrow> k \<in> fst ` set envSchema"
  unfolding validateEnv_def env_get_def using parse_fields_keys
  by (metis map_of_eq_None_iff subsetD)

lemma validateEnv_required:
  assumes "validateEnv parse raw = Some e" and "(k, Required) \<in> set envSchema"
  shows "\<exists>v. (k, v) \<in> set raw \<and> trim v \<noteq> []"
proof -
  have "env_get (non_empty raw) k \<noteq> None"
    using assms parse_fields_required unfolding validateEnv_def by blast
  then obtain v where "map_of (non_empty raw) k = Some v" by (auto simp: env_get_def)
  then have "(k, v) \<in> set (non_empty raw)" by (rule map_of_SomeD)
  then show ?thesis by (auto simp: non_empty_def)
qed

end
