(* ===== verification/Hasura_Service.thy ===== *)
theory Hasura_Service
  imports Http_Input Env_Config
begin

text \<open>
  \<open>lib/hasura.ts\<close> and \<open>services/hasura.service.ts\<close>: the GraphQL transport and the domain operations
  on top of it. The remote server is a parameter: it answers a request and moves its own state.
\<close>

section \<open>The transport\<close>

text \<open>The GraphQL documents of the services and routes with their variables; a variable is a JSON value or absent.\<close>

datatype hasura_doc =
    UpdateEscrowStatus (ue_contractId: string) (ue_status: "json option")
  | GetEscrowById string
  | InsertNotification string string string string
  | GetRefundRetryCount string
  | IncrementRefundRetryCount string int
  | RecentEscrowStatuses int
  | LockingEscrowForListing string "string list"
  | AnonymizeUser (au_email: string) (au_deletedAt: string)
  | InsertReview string string rat "string option"
  | SyncUser string "string option" "string option"
  | ReplaceRecoveryCodes string "string list"
  | UseRecoveryCode string string string
  | AnalyticsEscrows json nat nat

record hasura_post =
  hp_url :: string
  hp_adminSecret :: string
  hp_requestId :: "string option"
  hp_doc :: hasura_doc

text \<open>A reply: whether the status is 2xx, its text, the GraphQL errors and the data. \<open>Unreachable\<close> is a
  rejected \<open>fetch\<close> or a body that is no JSON.\<close>

datatype hasura_reply =
    Unreachable string
  | HasuraReply (hr_2xx: bool) (hr_text: string) (hr_errors: "string list option") (hr_data: "json option")

type_synonym 'w hasura = "hasura_post \<Rightarrow> 'w \<Rightarrow> hasura_reply \<times> 'w"

definition requireHasuraConfig :: "env \<Rightarrow> string + string \<times> string" where
  "requireHasuraConfig env =
     (let url = env_get env ''HASURA_GRAPHQL_URL''; adminSecret = env_get env ''HASURA_ADMIN_SECRET'' in
      if \<not> truthy url \<or> \<not> truthy adminSecret then
        Inl ''HASURA_GRAPHQL_URL and HASURA_GRAPHQL_ADMIN_SECRET must be configured for Hasura requests''
      else Inr (the url, the adminSecret))"

definition hasura_request ::
  "'w hasura \<Rightarrow> env \<Rightarrow> string option \<Rightarrow> hasura_doc \<Rightarrow> string option \<Rightarrow> 'w \<Rightarrow> (string + json) \<times> 'w" where
  "hasura_request server env amb doc requestId0 w =
     (case requireHasuraConfig env of
        Inl e \<Rightarrow> (Inl e, w)
      | Inr (url, adminSecret) \<Rightarrow>
          (let requestId = coalesce requestId0 amb;
               context = (if truthy requestId then '' (requestId='' @ the requestId @ '')'' else [])
           in case server \<lparr>hp_url = url, hp_adminSecret = adminSecret,
                  hp_requestId = (if truthy requestId then requestId else None), hp_doc = doc\<rparr> w of
                (Unreachable m, w') \<Rightarrow> (Inl m, w')
              | (HasuraReply ok txt errs dat, w') \<Rightarrow>
                  if \<not> ok \<or> (errs \<noteq> None \<and> errs \<noteq> Some []) then
                    (Inl (''Hasura request failed'' @ context @ '': '' @
                       (case errs of None \<Rightarrow> txt | Some es \<Rightarrow> join ''; '' es)), w')
                  else (case dat of
                      None \<Rightarrow> (Inl (''Hasura request returned no data'' @ context), w')
                    | Some d \<Rightarrow> (Inr d, w'))))"

section \<open>Reading replies\<close>

definition js_or_zero :: "json option \<Rightarrow> json" where
  "js_or_zero v = (case nullish v of None \<Rightarrow> JNum (Fin 0) | Some j \<Rightarrow> j)"

fun head_item :: "json option \<Rightarrow> json option" where
  "head_item (Some (JArr (x # xs))) = Some x"
| "head_item v = None"

section \<open>The domain operations\<close>

definition unknown_id :: "string option \<Rightarrow> string" where
  "unknown_id amb = (case amb of None \<Rightarrow> ''unknown'' | Some q \<Rightarrow> q)"

definition updateEscrowStatus ::
  "'w hasura \<Rightarrow> env \<Rightarrow> string option \<Rightarrow> string \<Rightarrow> json option \<Rightarrow> 'w \<Rightarrow> (string + json) \<times> 'w" where
  "updateEscrowStatus server env amb contractId status w =
     (case hasura_request server env amb (UpdateEscrowStatus contractId status) amb w of
        (Inl _, w') \<Rightarrow>
          (Inl (''Failed to update escrow status in Hasura (requestId='' @ unknown_id amb @ '')''), w')
      | (Inr d, w') \<Rightarrow>
          (Inr (js_or_zero (opt_prop (json_prop d ''update_escrow_transactions'') ''affected_rows'')), w'))"

datatype escrow_error = EscrowPlain string | EscrowApp app_error

definition getEscrowById ::
  "'w hasura \<Rightarrow> env \<Rightarrow> string option \<Rightarrow> string \<Rightarrow> string option \<Rightarrow> 'w \<Rightarrow> (escrow_error + json) \<times> 'w" where
  "getEscrowById server env amb i userId w =
     (case hasura_request server env amb (GetEscrowById i) amb w of
        (Inl _, w') \<Rightarrow>
          (Inl (EscrowPlain (''Failed to fetch escrow from Hasura (requestId='' @ unknown_id amb @ '')'')), w')
      | (Inr d, w') \<Rightarrow>
          (case nullish (json_prop d ''escrow_transactions_by_pk'') of
             None \<Rightarrow> (Inl (EscrowApp (AppError 404 ''ESCROW_NOT_FOUND'' (''Escrow '' @ i @ '' not found''))), w')
           | Some escrow \<Rightarrow>
               if truthy userId \<and> json_prop escrow ''buyer_id'' \<noteq> Some (JStr (the userId)) \<and>
                  json_prop escrow ''seller_id'' \<noteq> Some (JStr (the userId)) then
                 (Inl (EscrowApp (AppError 403 ''ESCROW_FORBIDDEN''
                    ''You are not authorized to view this escrow'')), w')
               else (Inr escrow, w')))"

definition insertNotification ::
  "'w hasura \<Rightarrow> env \<Rightarrow> string option \<Rightarrow> string \<Rightarrow> string \<Rightarrow> string \<Rightarrow> string \<Rightarrow> 'w \<Rightarrow> bool \<times> 'w" where
  "insertNotification server env amb userId typ title msg w =
     (case hasura_request server env amb (InsertNotification userId typ title msg) amb w of
        (Inl _, w') \<Rightarrow> (False, w')
      | (Inr d, w') \<Rightarrow> (js_truthy (opt_prop (json_prop d ''insert_notifications_one'') ''id''), w'))"

definition getRefundRetryCount ::
  "'w hasura \<Rightarrow> env \<Rightarrow> string option \<Rightarrow> string \<Rightarrow> 'w \<Rightarrow> (string + json option) \<times> 'w" where
  "getRefundRetryCount server env amb refundId w =
     (case hasura_request server env amb (GetRefundRetryCount refundId) amb w of
        (Inl _, w') \<Rightarrow>
          (Inl (''Failed to read refund retry count from Hasura (requestId='' @ unknown_id amb @ '')''), w')
      | (Inr d, w') \<Rightarrow>
          (let refund = head_item (nullish (json_prop d ''refunds'')) in
           if \<not> js_truthy refund then (Inr None, w')
           else (Inr (Some (js_or_zero (json_prop (the refund) ''retry_count''))), w')))"

definition incrementRefundRetryCount ::
  "'w hasura \<Rightarrow> env \<Rightarrow> string option \<Rightarrow> string \<Rightarrow> int \<Rightarrow> 'w \<Rightarrow> (string + json) \<times> 'w" where
  "incrementRefundRetryCount server env amb refundId maxRetries w =
     (case hasura_request server env amb (IncrementRefundRetryCount refundId maxRetries) amb w of
        (Inl _, w') \<Rightarrow>
          (Inl (''Failed to increment refund retry count in Hasura (requestId='' @ unknown_id amb @ '')''), w')
      | (Inr d, w') \<Rightarrow>
          (Inr (js_or_zero (opt_prop (json_prop d ''update_refunds'') ''affected_rows'')), w'))"

definition LOCKED_ESCROW_STATUSES :: "string list" where
  "LOCKED_ESCROW_STATUSES = [''pending'', ''funded'', ''in_progress'', ''in-progress'', ''active'',
     ''released'', ''completed'', ''complete'']"

definition fetchRecentEscrowStatuses ::
  "'w hasura \<Rightarrow> env \<Rightarrow> string option \<Rightarrow> int \<Rightarrow> string option \<Rightarrow> 'w \<Rightarrow> (string + json) \<times> 'w" where
  "fetchRecentEscrowStatuses server env amb lmt requestId w =
     (case hasura_request server env amb (RecentEscrowStatuses lmt) (coalesce requestId amb) w of
        (Inl e, w') \<Rightarrow> (Inl e, w')
      | (Inr d, w') \<Rightarrow>
          (Inr (case nullish (json_prop d ''escrow_transactions'') of None \<Rightarrow> JArr [] | Some r \<Rightarrow> r), w'))"

definition findLockingEscrowForListing ::
  "'w hasura \<Rightarrow> env \<Rightarrow> string option \<Rightarrow> string \<Rightarrow> string option \<Rightarrow> 'w \<Rightarrow> (string + json option) \<times> 'w" where
  "findLockingEscrowForListing server env amb listingId requestId w =
     (case hasura_request server env amb (LockingEscrowForListing listingId LOCKED_ESCROW_STATUSES)
             (coalesce requestId amb) w of
        (Inl e, w') \<Rightarrow> (Inl e, w')
      | (Inr d, w') \<Rightarrow> (Inr (nullish (head_item (nullish (json_prop d ''escrow_transactions'')))), w'))"

text \<open>
  The transport asks the validated environment for \<open>HASURA_ADMIN_SECRET\<close>, a key the schema does not
  have, so no validated environment satisfies it.
\<close>

lemma hasura_never_configured:
  assumes "validateEnv parse raw = Some env"
  shows "\<exists>e. requireHasuraConfig env = Inl e"
proof -
  have "''HASURA_ADMIN_SECRET'' \<notin> fst ` set envSchema" by (simp add: envSchema_def)
  with validateEnv_keys [OF assms] have "env_get env ''HASURA_ADMIN_SECRET'' = None" by blast
  then show ?thesis by (simp add: requireHasuraConfig_def Let_def)
qed

lemma hasura_request_unconfigured:
  "requireHasuraConfig env = Inl e \<Longrightarrow> hasura_request server env amb doc q w = (Inl e, w)"
  by (simp add: hasura_request_def)

text \<open>
  As configured, nothing reaches Hasura. Whatever the process environment, once it has passed the
  start-up validation every request of the service fails before anything is sent, because the
  transport reads the admin secret under a name that the validated environment never has.
\<close>

lemma hasura_unreachable:
  assumes "validateEnv parse raw = Some env"
  shows "\<exists>e. hasura_request server env amb doc q w = (Inl e, w)"
  using hasura_never_configured [OF assms] by (auto simp: hasura_request_unconfigured)

definition sample_raw_env :: env where
  "sample_raw_env = [(''FIREBASE_ADMIN_PROJECT_ID'', ''p''), (''FIREBASE_ADMIN_CLIENT_EMAIL'', ''a@b.co''),
     (''FIREBASE_ADMIN_PRIVATE_KEY'', ''k''), (''HASURA_GRAPHQL_URL'', ''http://hasura/v1/graphql''),
     (''HASURA_GRAPHQL_ADMIN_SECRET'', ''secret''), (''HASURA_ADMIN_SECRET'', ''secret''),
     (''TRUSTLESS_WORK_WEBHOOK_SECRET'', ''whsec'')]"

lemma sample_env_valid: "\<exists>env. validateEnv (\<lambda>k v. Some v) sample_raw_env = Some env"
proof -
  have "parse_fields (\<lambda>k v. Some v) raw fs \<noteq> None" if "\<forall>k. (k, Required) \<in> set fs \<longrightarrow> env_get raw k \<noteq> None" for raw fs
    using that by (induction fs) (auto split: option.splits field_kind.splits)
  moreover have "non_empty sample_raw_env = sample_raw_env"
    unfolding non_empty_def sample_raw_env_def by code_simp
  ultimately show ?thesis
    unfolding validateEnv_def by (simp add: envSchema_def sample_raw_env_def env_get_def)
qed

end
