(* ===== verification/Notification_Service.thy ===== *)
theory Notification_Service
  imports Hasura_Service
begin

text \<open>
  \<open>services/notification.service.ts\<close>: deduplicated delivery of a notification with retries, backoff
  and a dead-letter record. The repository and \<open>Math.random\<close> are parameters; the trace records what
  the service did with them.
\<close>

section \<open>Data\<close>

record notification =
  nt_eventId :: "string option"
  nt_type :: string

text \<open>
  A thrown value: the properties \<open>status\<close>, \<open>statusCode\<close> and \<open>response.status\<close> of an object (absent
  for a value that is no object), and the message or the value's text.
\<close>

record delivery_error =
  de_status :: "json option"
  de_statusCode :: "json option"
  de_response_status :: "json option"
  de_message :: string

definition MAX_DELIVERY_ATTEMPTS :: nat where "MAX_DELIVERY_ATTEMPTS = 5"
definition BASE_BACKOFF_MS :: int where "BASE_BACKOFF_MS = 200"
definition MAX_BACKOFF_MS :: int where "MAX_BACKOFF_MS = 10000"

definition FINANCIAL_STATUS_TYPES :: "string set" where
  "FINANCIAL_STATUS_TYPES = {''escrow_funded'', ''escrow_released'', ''escrow_disputed''}"

record dead_letter =
  dl_notification :: notification
  dl_reason :: string
  dl_attempts :: nat
  dl_isFinancial :: bool

section \<open>Errors and backoff\<close>

definition extractStatusCode :: "delivery_error \<Rightarrow> jsnum option" where
  "extractStatusCode e =
     (case coalesce (nullish (de_status e)) (coalesce (nullish (de_statusCode e)) (de_response_status e)) of
        Some (JNum n) \<Rightarrow> Some n | _ \<Rightarrow> None)"

record classification =
  dc_transient :: bool
  dc_reason :: string

text \<open>\<open>show_num\<close> is the text of a number in a template string.\<close>

definition classifyError :: "(jsnum \<Rightarrow> string) \<Rightarrow> delivery_error \<Rightarrow> classification" where
  "classifyError show_num e =
     (case extractStatusCode e of
        Some n \<Rightarrow>
          (if js_le (Fin 500) n then \<lparr>dc_transient = True, dc_reason = ''provider responded '' @ show_num n\<rparr>
           else if js_le (Fin 400) n then \<lparr>dc_transient = False, dc_reason = ''provider responded '' @ show_num n\<rparr>
           else \<lparr>dc_transient = True, dc_reason = de_message e\<rparr>)
      | None \<Rightarrow> \<lparr>dc_transient = True, dc_reason = de_message e\<rparr>)"

definition computeBackoffDelay :: "rat \<Rightarrow> nat \<Rightarrow> int" where
  "computeBackoffDelay rnd attempt =
     js_round (of_int (min (BASE_BACKOFF_MS * 2 ^ (attempt - 1)) MAX_BACKOFF_MS) + rnd * of_int BASE_BACKOFF_MS)"

section \<open>The service\<close>

text \<open>The repository: its state and its answers; an error is a rejected promise.\<close>

record 'w repository =
  re_exists :: "string \<Rightarrow> 'w \<Rightarrow> (delivery_error + bool) \<times> 'w"
  re_create :: "notification \<Rightarrow> 'w \<Rightarrow> delivery_error option \<times> 'w"
  re_deliver :: "notification \<Rightarrow> 'w \<Rightarrow> delivery_error option \<times> 'w"
  re_createDeadLetter :: "dead_letter \<Rightarrow> 'w \<Rightarrow> delivery_error option \<times> 'w"

datatype notify_event =
    Delivered
  | AttemptFailed delivery_error
  | Slept int
  | DeadLettered dead_letter
  | DeadLetterLost dead_letter
  | Captured delivery_error

definition handleDeliveryFailure ::
  "'w repository \<Rightarrow> notification \<Rightarrow> delivery_error \<Rightarrow> 'w \<Rightarrow> notify_event list \<times> 'w" where
  "handleDeliveryFailure repo n err w =
     (let d = \<lparr>dl_notification = n, dl_reason = de_message err, dl_attempts = MAX_DELIVERY_ATTEMPTS,
               dl_isFinancial = (nt_type n \<in> FINANCIAL_STATUS_TYPES)\<rparr>
      in case re_createDeadLetter repo d w of
           (None, w') \<Rightarrow> ([DeadLettered d, Captured err], w')
         | (Some _, w') \<Rightarrow> ([DeadLetterLost d, Captured err], w'))"

function dispatch_loop ::
  "'w repository \<Rightarrow> (jsnum \<Rightarrow> string) \<Rightarrow> (nat \<Rightarrow> rat) \<Rightarrow> notification \<Rightarrow> nat \<Rightarrow> 'w \<Rightarrow> notify_event list \<times> 'w" where
  "dispatch_loop repo show_num rnd n attempt w =
     (case re_deliver repo n w of
        (None, w1) \<Rightarrow> ([Delivered], w1)
      | (Some err, w1) \<Rightarrow>
          if \<not> dc_transient (classifyError show_num err) \<or> attempt \<ge> MAX_DELIVERY_ATTEMPTS then
            (let (evs, w2) = handleDeliveryFailure repo n err w1 in (AttemptFailed err # evs, w2))
          else
            (let (evs, w2) = dispatch_loop repo show_num rnd n (attempt + 1) w1
             in (AttemptFailed err # Slept (computeBackoffDelay (rnd attempt) attempt) # evs, w2)))"
  by pat_completeness auto
termination
  by (relation "measure (\<lambda>(repo, show_num, rnd, n, attempt, w). MAX_DELIVERY_ATTEMPTS - attempt)") auto

declare dispatch_loop.simps [simp del]

definition dispatchWithRetry ::
  "'w repository \<Rightarrow> (jsnum \<Rightarrow> string) \<Rightarrow> (nat \<Rightarrow> rat) \<Rightarrow> notification \<Rightarrow> 'w \<Rightarrow> notify_event list \<times> 'w" where
  "dispatchWithRetry repo show_num rnd n w = dispatch_loop repo show_num rnd n 1 w"

text \<open>\<open>Inr\<close> is a normal return, with the events of the delivery if it was not a duplicate.\<close>

definition sendNotification ::
  "'w repository \<Rightarrow> (jsnum \<Rightarrow> string) \<Rightarrow> (nat \<Rightarrow> rat) \<Rightarrow> notification \<Rightarrow> 'w \<Rightarrow>
   (delivery_error + notify_event list option) \<times> 'w" where
  "sendNotification repo show_num rnd n w =
     (let proceed = (\<lambda>w1. case re_create repo n w1 of
            (Some err, w2) \<Rightarrow> (Inl err, w2)
          | (None, w2) \<Rightarrow> (let (evs, w3) = dispatchWithRetry repo show_num rnd n w2 in (Inr (Some evs), w3)))
      in if truthy (nt_eventId n) then
           (case re_exists repo (the (nt_eventId n)) w of
              (Inl err, w1) \<Rightarrow> (Inl err, w1)
            | (Inr alreadyProcessed, w1) \<Rightarrow> if alreadyProcessed then (Inr None, w1) else proceed w1)
         else proceed w)"

section \<open>Delivery is bounded and never silent\<close>

definition attempts_in :: "notify_event list \<Rightarrow> nat" where
  "attempts_in evs = length (filter (\<lambda>e. case e of AttemptFailed _ \<Rightarrow> True | Delivered \<Rightarrow> True | _ \<Rightarrow> False) evs)"

definition sleeps_in :: "notify_event list \<Rightarrow> int list" where
  "sleeps_in evs = concat (map (\<lambda>e. case e of Slept d \<Rightarrow> [d] | _ \<Rightarrow> []) evs)"

lemma trace_simps [simp]:
  "attempts_in [] = 0" "attempts_in (Delivered # es) = Suc (attempts_in es)"
  "attempts_in (AttemptFailed e # es) = Suc (attempts_in es)" "attempts_in (Slept d # es) = attempts_in es"
  "attempts_in (DeadLettered l # es) = attempts_in es" "attempts_in (DeadLetterLost l # es) = attempts_in es"
  "attempts_in (Captured e # es) = attempts_in es"
  "sleeps_in [] = []" "sleeps_in (Delivered # es) = sleeps_in es"
  "sleeps_in (AttemptFailed e # es) = sleeps_in es" "sleeps_in (Slept d # es) = d # sleeps_in es"
  "sleeps_in (DeadLettered l # es) = sleeps_in es" "sleeps_in (DeadLetterLost l # es) = sleeps_in es"
  "sleeps_in (Captured e # es) = sleeps_in es"
  by (simp_all add: attempts_in_def sleeps_in_def)

text \<open>
  How a trace ends: delivered, or given up, where the dead letter was stored or, as the repository refused
  it, lost; the world \<open>w'\<close> is then the one the repository left. \<open>left\<close> is how many attempts there could be.
\<close>

definition given_up :: "notification \<Rightarrow> delivery_error \<Rightarrow> dead_letter" where
  "given_up n err = \<lparr>dl_notification = n, dl_reason = de_message err, dl_attempts = MAX_DELIVERY_ATTEMPTS,
     dl_isFinancial = (nt_type n \<in> FINANCIAL_STATUS_TYPES)\<rparr>"

definition trace_end ::
  "'w repository \<Rightarrow> (jsnum \<Rightarrow> string) \<Rightarrow> notification \<Rightarrow> nat \<Rightarrow> notify_event list \<Rightarrow> 'w \<Rightarrow> bool" where
  "trace_end repo show_num n left evs w' \<longleftrightarrow>
     (\<exists>pre. evs = pre @ [Delivered] \<and> Delivered \<notin> set pre)
   \<or> (\<exists>pre err d w1 failed. evs = pre @ [AttemptFailed err, d, Captured err] \<and> Delivered \<notin> set pre
        \<and> re_createDeadLetter repo (given_up n err) w1 = (failed, w')
        \<and> d = (if failed = None then DeadLettered (given_up n err) else DeadLetterLost (given_up n err))
        \<and> (attempts_in evs = left \<or> \<not> dc_transient (classifyError show_num err)))"

lemma trace_end_Cons:
  assumes "trace_end repo show_num n k evs w'" and "e \<noteq> Delivered" and "e' \<noteq> Delivered"
    and "attempts_in (e # e' # evs) = Suc (attempts_in evs)"
  shows "trace_end repo show_num n (Suc k) (e # e' # evs) w'"
  using assms(1)
proof (elim trace_end_def [THEN iffD1, THEN disjE] exE conjE)
  fix pre assume "evs = pre @ [Delivered]" "Delivered \<notin> set pre"
  then have "e # e' # evs = (e # e' # pre) @ [Delivered] \<and> Delivered \<notin> set (e # e' # pre)" using assms(2,3) by auto
  then show ?thesis unfolding trace_end_def by blast
next
  fix pre err d w1 failed
  assume d: "evs = pre @ [AttemptFailed err, d, Captured err]" "Delivered \<notin> set pre"
    "re_createDeadLetter repo (given_up n err) w1 = (failed, w')"
    "d = (if failed = None then DeadLettered (given_up n err) else DeadLetterLost (given_up n err))"
    "attempts_in evs = k \<or> \<not> dc_transient (classifyError show_num err)"
  then have "e # e' # evs = (e # e' # pre) @ [AttemptFailed err, d, Captured err] \<and> Delivered \<notin> set (e # e' # pre)"
    using assms(2,3) by auto
  moreover have "attempts_in (e # e' # evs) = Suc k \<or> \<not> dc_transient (classifyError show_num err)"
    using d(5) assms(4) by auto
  ultimately show ?thesis using d(3,4) unfolding trace_end_def by blast
qed

lemma failure_end:
  assumes "handleDeliveryFailure repo n err w = (evs, w')" and "k = 1 \<or> \<not> dc_transient (classifyError show_num err)"
  shows "trace_end repo show_num n k (AttemptFailed err # evs) w' \<and> attempts_in evs = 0 \<and> sleeps_in evs = []"
proof -
  obtain failed where f: "re_createDeadLetter repo (given_up n err) w = (failed, w')"
    and evs: "evs = [if failed = None then DeadLettered (given_up n err) else DeadLetterLost (given_up n err), Captured err]"
    using assms(1) unfolding handleDeliveryFailure_def Let_def given_up_def [symmetric]
    by (auto split: prod.splits option.splits)
  have a: "attempts_in evs = 0" "sleeps_in evs = []" by (simp_all add: evs)
  have "AttemptFailed err # evs = [] @ [AttemptFailed err,
      if failed = None then DeadLettered (given_up n err) else DeadLetterLost (given_up n err), Captured err]"
    by (simp add: evs)
  moreover have "attempts_in (AttemptFailed err # evs) = k \<or> \<not> dc_transient (classifyError show_num err)"
    using assms(2) a by auto
  ultimately have "trace_end repo show_num n k (AttemptFailed err # evs) w'"
    unfolding trace_end_def using f by fastforce
  then show ?thesis using a by simp
qed

lemma delay_bounds:
  assumes "0 \<le> r" and "r < 1"
  shows "BASE_BACKOFF_MS \<le> computeBackoffDelay r a" and "computeBackoffDelay r a \<le> MAX_BACKOFF_MS + BASE_BACKOFF_MS"
proof -
  define e where "e = min (BASE_BACKOFF_MS * 2 ^ (a - 1)) MAX_BACKOFF_MS"
  have e: "BASE_BACKOFF_MS \<le> e" "e \<le> MAX_BACKOFF_MS"
    by (simp_all add: e_def BASE_BACKOFF_MS_def MAX_BACKOFF_MS_def)
  have r: "0 \<le> r * 200" "r * 200 < 200" using assms by simp_all
  have c: "computeBackoffDelay r a = \<lfloor>of_int e + r * 200 + 1 / 2\<rfloor>"
    by (simp add: computeBackoffDelay_def js_round_def e_def BASE_BACKOFF_MS_def)
  have "e \<le> \<lfloor>of_int e + r * 200 + 1 / 2\<rfloor>" using r(1) by (simp add: le_floor_iff)
  moreover have "\<lfloor>of_int e + r * 200 + 1 / 2\<rfloor> \<le> e + 200"
    using r(2) by (simp add: floor_le_iff)
  ultimately have "e \<le> computeBackoffDelay r a" "computeBackoffDelay r a \<le> e + BASE_BACKOFF_MS"
    by (simp_all only: c BASE_BACKOFF_MS_def)
  with e show "BASE_BACKOFF_MS \<le> computeBackoffDelay r a"
    "computeBackoffDelay r a \<le> MAX_BACKOFF_MS + BASE_BACKOFF_MS" by linarith+
qed

lemma dispatch_loop_bounds:
  assumes "dispatch_loop repo show_num rnd n a w = (evs, w')" and "a \<le> MAX_DELIVERY_ATTEMPTS"
    and "\<And>k. 0 \<le> rnd k \<and> rnd k < 1"
  shows "trace_end repo show_num n (Suc (MAX_DELIVERY_ATTEMPTS - a)) evs w'
    \<and> attempts_in evs \<le> Suc (MAX_DELIVERY_ATTEMPTS - a)
    \<and> (\<forall>d \<in> set (sleeps_in evs). BASE_BACKOFF_MS \<le> d \<and> d \<le> MAX_BACKOFF_MS + BASE_BACKOFF_MS)"
  using assms
proof (induction repo show_num rnd n a w arbitrary: evs w' rule: dispatch_loop.induct)
  case (1 repo show_num rnd n a w)
  obtain r w1 where d: "re_deliver repo n w = (r, w1)" by force
  show ?case
  proof (cases r)
    case None
    then have "evs = [] @ [Delivered]" using 1(2) d by (subst (asm) dispatch_loop.simps) simp
    then show ?thesis unfolding trace_end_def by auto
  next
    case (Some err)
    show ?thesis
    proof (cases "\<not> dc_transient (classifyError show_num err) \<or> MAX_DELIVERY_ATTEMPTS \<le> a")
      case True
      obtain es w2 where h: "handleDeliveryFailure repo n err w1 = (es, w2)" by force
      have ev: "evs = AttemptFailed err # es" "w' = w2"
        using 1(2) d Some True h by (subst (asm) dispatch_loop.simps, simp)+
      have "Suc (MAX_DELIVERY_ATTEMPTS - a) = 1 \<or> \<not> dc_transient (classifyError show_num err)" using True by auto
      from failure_end [OF h this] ev show ?thesis by simp
    next
      case False
      obtain es w2 where l: "dispatch_loop repo show_num rnd n (a + 1) w1 = (es, w2)" by force
      have ev: "evs = AttemptFailed err # Slept (computeBackoffDelay (rnd a) a) # es" "w' = w2"
        using 1(2) d Some False l by (subst (asm) dispatch_loop.simps, simp)+
      have "a + 1 \<le> MAX_DELIVERY_ATTEMPTS" using False by simp
      note IH = "1.IH" [OF d [symmetric] Some False l this 1(4)]
      have k: "Suc (MAX_DELIVERY_ATTEMPTS - (a + 1)) = MAX_DELIVERY_ATTEMPTS - a" using False by linarith
      have "trace_end repo show_num n (Suc (MAX_DELIVERY_ATTEMPTS - a)) evs w'"
        unfolding ev using IH k by (intro trace_end_Cons) simp_all
      then show ?thesis using IH delay_bounds [of "rnd a" a] 1(4) [of a] ev(1) k by auto
    qed
  qed
qed

text \<open>
  C40: Every call of \<open>sendNotification\<close> ends in one of five ways. It throws before any delivery, because the
  check for a duplicate or the creation of the record failed; it returns at once for an event that was
  recorded before; or it delivers with at most five attempts and waits of 200 ms to 10.2 s between them.
  Then the notification was delivered by the last attempt and no earlier one; or it was given up, after an
  error that is permanent or after the fifth attempt: a dead letter of this notification, flagged as
  financial exactly for the financial types, was stored, or the repository refused it and the dead letter is
  lost; in both cases the last error was captured. In the last way the notification is neither delivered nor
  dead-lettered: the captured error is all that is left of it.
\<close>

theorem notification_end_exact:
  assumes "\<And>k. 0 \<le> rnd k \<and> rnd k < 1"
  shows "case sendNotification repo show_num rnd n w of
      (Inl err, w') \<Rightarrow> truthy (nt_eventId n) \<and> re_exists repo (the (nt_eventId n)) w = (Inl err, w')
        \<or> (\<exists>w1. re_create repo n w1 = (Some err, w')
             \<and> (if truthy (nt_eventId n) then re_exists repo (the (nt_eventId n)) w = (Inr False, w1) else w1 = w))
    | (Inr None, w') \<Rightarrow> truthy (nt_eventId n) \<and> re_exists repo (the (nt_eventId n)) w = (Inr True, w')
    | (Inr (Some evs), w') \<Rightarrow> attempts_in evs \<le> 5 \<and> (\<forall>d \<in> set (sleeps_in evs). 200 \<le> d \<and> d \<le> 10200)
        \<and> ((\<exists>pre. evs = pre @ [Delivered] \<and> Delivered \<notin> set pre)
         \<or> (\<exists>pre err d w1 failed. evs = pre @ [AttemptFailed err, d, Captured err] \<and> Delivered \<notin> set pre
              \<and> re_createDeadLetter repo (given_up n err) w1 = (failed, w')
              \<and> d = (if failed = None then DeadLettered (given_up n err) else DeadLetterLost (given_up n err))
              \<and> (attempts_in evs = 5 \<or> \<not> dc_transient (classifyError show_num err))))"
proof -
  have loop: "attempts_in evs \<le> 5 \<and> (\<forall>d \<in> set (sleeps_in evs). 200 \<le> d \<and> d \<le> 10200) \<and> trace_end repo show_num n 5 evs w2"
    if "dispatchWithRetry repo show_num rnd n w1 = (evs, w2)" for w1 evs w2
    using dispatch_loop_bounds [OF that [unfolded dispatchWithRetry_def] _ assms]
    by (simp add: MAX_DELIVERY_ATTEMPTS_def BASE_BACKOFF_MS_def MAX_BACKOFF_MS_def)
  show ?thesis
    unfolding trace_end_def [of repo show_num n 5, symmetric] sendNotification_def Let_def
    using loop by (auto split: prod.splits sum.splits option.splits)
qed

text \<open>A repository whose provider is down for as long as its counter is positive.\<close>

definition flaky_error :: delivery_error where
  "flaky_error = \<lparr>de_status = Some (JNum (Fin 503)), de_statusCode = None, de_response_status = None,
     de_message = ''down''\<rparr>"

definition flaky_repository :: "nat repository" where
  "flaky_repository = \<lparr>re_exists = (\<lambda>i k. (Inr False, k)), re_create = (\<lambda>n k. (None, k)),
     re_deliver = (\<lambda>n k. if k = 0 then (None, 0) else (Some flaky_error, k - 1)),
     re_createDeadLetter = (\<lambda>d k. (None, k))\<rparr>"

definition sample_notification :: notification where
  "sample_notification = \<lparr>nt_eventId = Some ''ev1'', nt_type = ''escrow_released''\<rparr>"

theorem notification_end_exact_witness:
  "\<exists>evs w. sendNotification flaky_repository (\<lambda>x. ''503'') (\<lambda>k. 0) sample_notification 9 = (Inr (Some evs), w)
     \<and> attempts_in evs \<le> 5 \<and> (last evs = Delivered \<or> (\<exists>err. last evs = Captured err))"
proof -
  obtain evs w where s: "sendNotification flaky_repository (\<lambda>x. ''503'') (\<lambda>k. 0) sample_notification 9
      = (Inr (Some evs), w)"
    by (cases "dispatchWithRetry flaky_repository (\<lambda>x. ''503'') (\<lambda>k. 0) sample_notification 9")
      (simp add: sendNotification_def flaky_repository_def sample_notification_def Let_def)
  show ?thesis
    using notification_end_exact [where rnd = "\<lambda>k. 0" and repo = flaky_repository and show_num = "\<lambda>x. ''503''"
        and n = sample_notification and w = 9] s by auto
qed

end
