(* ===== verification/Webhook.thy ===== *)
theory Webhook
  imports Notification_Service
begin

text \<open>
  \<open>routes/webhooks.ts\<close>: the signed escrow-status webhook, the only writer of the stored escrow
  status. HMAC-SHA256, the Hasura server and the notification call are parameters. The handler is
  split at its two awaits: admission, the status write, and the rest.
\<close>

section \<open>Status names\<close>

definition STATUS_MAP :: "(string \<times> string) list" where
  "STATUS_MAP = [(''created'', ''pending''), (''funded'', ''funded''), (''active'', ''funded''),
     (''completed'', ''completed''), (''released'', ''released''), (''disputed'', ''disputed''),
     (''resolved'', ''resolved''), (''cancelled'', ''cancelled''), (''expired'', ''expired''),
     (''refunded'', ''refunded''), (''pending'', ''pending''), (''in_progress'', ''funded''),
     (''in_review'', ''disputed''), (''failed'', ''cancelled'')]"

text \<open>
  \<open>STATUS_MAP[key]\<close> on a plain object also finds what it inherits from \<open>Object.prototype\<close>. Of the
  inherited names two are in lower case, \<open>constructor\<close> and \<open>__proto__\<close>; both values are truthy, and
  as a GraphQL variable the first is dropped (a function) and the second becomes an empty object.
\<close>

datatype mapped = Mapped string | InheritedConstructor | InheritedProto

definition status_lookup :: "string \<Rightarrow> mapped option" where
  "status_lookup k = (case map_of STATUS_MAP k of
       Some s \<Rightarrow> Some (Mapped s)
     | None \<Rightarrow> (if k = ''constructor'' then Some InheritedConstructor
                else if k = ''__proto__'' then Some InheritedProto else None))"

fun status_variable :: "mapped \<Rightarrow> json option" where
  "status_variable (Mapped s) = Some (JStr s)"
| "status_variable InheritedConstructor = None"
| "status_variable InheritedProto = Some (JObj [])"

section \<open>The cache of processed events\<close>

definition PROCESSED_EVENT_TTL_MS :: int where "PROCESSED_EVENT_TTL_MS = 24 * 60 * 60 * 1000"
definition PROCESSED_EVENT_MAX :: nat where "PROCESSED_EVENT_MAX = 10000"

type_synonym processed = "(string, int) jmap"

fun prune_expired :: "int \<Rightarrow> (string \<times> int) list \<Rightarrow> processed \<Rightarrow> processed" where
  "prune_expired now [] m = m"
| "prune_expired now ((i, seenAt) # r) m =
     prune_expired now r (if now - seenAt > PROCESSED_EVENT_TTL_MS then jm_delete m i else m)"

lemma length_delete_less: "length (jm_delete m k) \<le> length m"
  by (induction m) auto

function drop_oldest :: "processed \<Rightarrow> processed" where
  "drop_oldest m =
     (if length m > PROCESSED_EVENT_MAX then
        (case m of [] \<Rightarrow> m | (oldest, _) # _ \<Rightarrow> drop_oldest (jm_delete m oldest))
      else m)"
  by pat_completeness auto
termination
  by (relation "measure length") (auto simp: le_imp_less_Suc length_delete_less)

declare drop_oldest.simps [simp del]

definition pruneProcessedEvents :: "int \<Rightarrow> processed \<Rightarrow> processed" where
  "pruneProcessedEvents now m = drop_oldest (prune_expired now m m)"

section \<open>Requests\<close>

datatype header = HStr string | HArr "string list"

record webhook_request =
  wr_tw_signature :: "header option"
  wr_webhook_signature :: "header option"
  wr_signature :: "header option"
  wr_rawBody :: "string option"
  wr_body :: "json option"

text \<open>HMAC-SHA256 in hexadecimal: key, then message.\<close>

type_synonym hmac = "string \<Rightarrow> string \<Rightarrow> string"

definition header_truthy :: "header option \<Rightarrow> bool" where
  "header_truthy h = (h \<noteq> None \<and> h \<noteq> Some (HStr []))"

definition getSignatureHeader :: "webhook_request \<Rightarrow> string option" where
  "getSignatureHeader req =
     (let sig = (if header_truthy (wr_tw_signature req) then wr_tw_signature req
                 else if header_truthy (wr_webhook_signature req) then wr_webhook_signature req
                 else wr_signature req)
      in case sig of
           Some (HStr s) \<Rightarrow> Some s
         | Some (HArr (s # ss)) \<Rightarrow> Some s
         | _ \<Rightarrow> None)"

definition normalizeSignature :: "string \<Rightarrow> string" where
  "normalizeSignature sig = (if startsWith sig ''sha256='' then drop 7 sig else sig)"

text \<open>\<open>timingSafeEqual\<close> on two buffers of one length is equality.\<close>

definition verifySignature :: "hmac \<Rightarrow> string \<Rightarrow> string \<Rightarrow> string \<Rightarrow> bool" where
  "verifySignature hmac rawBody signature secret =
     (let expected = hmac secret rawBody; actual = normalizeSignature signature in
      if length expected \<noteq> length actual then False else expected = actual)"

definition getEventId :: "hmac \<Rightarrow> json \<Rightarrow> string \<Rightarrow> string" where
  "getEventId hmac body rawBody =
     (let explicit = coalesce (nullish (json_prop body ''eventId''))
            (coalesce (nullish (json_prop body ''event_id''))
              (coalesce (nullish (json_prop body ''id''))
                (coalesce (nullish (json_prop body ''deliveryId'')) (json_prop body ''delivery_id''))))
      in case explicit of
           Some (JStr (c # cs)) \<Rightarrow> c # cs
         | _ \<Rightarrow> hmac ''webhook-dedup'' rawBody)"

section \<open>The handler\<close>

record status_note =
  sn_escrowId :: string
  sn_contractId :: string
  sn_status :: mapped
  sn_body :: json

datatype webhook_reply_body =
    WhError string
  | WhDuplicate string mapped
  | WhSynced string string mapped json "json option"

text \<open>What admission hands to the rest: the contract, the engagement, the status and the event id.\<close>

record webhook_job =
  wj_contractId :: string
  wj_engagementId :: string
  wj_status :: mapped
  wj_eventId :: string
  wj_body :: json

definition webhook_admit ::
  "hmac \<Rightarrow> env \<Rightarrow> int \<Rightarrow> webhook_request \<Rightarrow> processed \<Rightarrow> (webhook_reply_body reply + webhook_job) \<times> processed" where
  "webhook_admit hmac env now req processed =
     (let secret = env_get env ''TRUSTLESS_WORK_WEBHOOK_SECRET'' in
      if \<not> truthy secret then (Inl (Reply 500 (WhError ''Webhook secret is not configured'')), processed)
      else if \<not> truthy (getSignatureHeader req) then
        (Inl (Reply 401 (WhError ''Missing webhook signature header'')), processed)
      else (case wr_rawBody req of
          None \<Rightarrow> (Inl (Reply 400 (WhError ''Expected a JSON request body'')), processed)
        | Some raw \<Rightarrow>
            if \<not> verifySignature hmac raw (the (getSignatureHeader req)) (the secret) then
              (Inl (Reply 401 (WhError ''Invalid webhook signature'')), processed)
            else
              (let body = (if js_truthy (wr_body req) then the (wr_body req) else JObj []) in
               case (required_string (json_prop body ''contractId''), required_string (json_prop body ''status'')) of
                 (Some contractId, Some status) \<Rightarrow>
                   (case status_lookup (toLowerCase status) of
                      None \<Rightarrow> (Inl (Reply 400 (WhError (''Unknown status: '' @ status))), processed)
                    | Some normalizedStatus \<Rightarrow>
                        (let pruned = pruneProcessedEvents now processed;
                             eventId = getEventId hmac body raw
                         in if jm_has pruned eventId then
                              (Inl (Reply 200 (WhDuplicate contractId normalizedStatus)), pruned)
                            else
                              (Inr \<lparr>wj_contractId = contractId,
                                 wj_engagementId = (case required_string (json_prop body ''engagementId'') of
                                     None \<Rightarrow> contractId | Some e \<Rightarrow> e),
                                 wj_status = normalizedStatus, wj_eventId = eventId, wj_body = body\<rparr>, pruned)))
               | _ \<Rightarrow> (Inl (Reply 400 (WhError ''Missing contractId or status'')), processed))))"

text \<open>
  \<open>notify\<close> is \<open>NotificationService.notifyEscrowStatusChange\<close>. The class in the repository has no such
  member, so in the module as it stands it is \<open>None\<close>: the call throws and the \<open>catch\<close> takes it.
\<close>

type_synonym 'w notifier = "(status_note \<Rightarrow> 'w \<Rightarrow> (string + json) \<times> 'w) option"

definition webhook_notify :: "'w notifier \<Rightarrow> webhook_job \<Rightarrow> 'w \<Rightarrow> json option \<times> 'w" where
  "webhook_notify notify j w = (case notify of
       None \<Rightarrow> (None, w)
     | Some f \<Rightarrow>
         (case f \<lparr>sn_escrowId = wj_engagementId j, sn_contractId = wj_contractId j,
                   sn_status = wj_status j, sn_body = wj_body j\<rparr> w of
            (Inl _, w') \<Rightarrow> (None, w')
          | (Inr r, w') \<Rightarrow> (Some r, w')))"

text \<open>The continuation after the Hasura write settles: \<open>now\<close> is the time taken before it.\<close>

definition webhook_finish ::
  "'w notifier \<Rightarrow> int \<Rightarrow> webhook_job \<Rightarrow> string + json \<Rightarrow> processed \<times> 'w \<Rightarrow>
   webhook_reply_body reply \<times> (processed \<times> 'w)" where
  "webhook_finish notify now j written s =
     (let (processed, w) = s in
      case written of
        Inl _ \<Rightarrow> (Reply 500 (WhError ''Failed to sync escrow status''), s)
      | Inr rowsUpdated \<Rightarrow>
          (let (notifications, w') = webhook_notify notify j w
           in (Reply 200 (WhSynced (wj_contractId j) (wj_engagementId j) (wj_status j) rowsUpdated notifications),
               (jm_set processed (wj_eventId j) now, w'))))"

definition escrow_status_webhook ::
  "hmac \<Rightarrow> 'w hasura \<Rightarrow> env \<Rightarrow> string option \<Rightarrow> 'w notifier \<Rightarrow> int \<Rightarrow> webhook_request \<Rightarrow> processed \<times> 'w \<Rightarrow>
   webhook_reply_body reply \<times> (processed \<times> 'w)" where
  "escrow_status_webhook hmac server env amb notify now req s =
     (case webhook_admit hmac env now req (fst s) of
        (Inl r, processed) \<Rightarrow> (r, (processed, snd s))
      | (Inr j, processed) \<Rightarrow>
          (let (written, w) = updateEscrowStatus server env amb (wj_contractId j) (status_variable (wj_status j)) (snd s)
           in webhook_finish notify now j written (processed, w)))"

end
