(* ===== verification/Webhook_Properties.thy ===== *)
theory Webhook_Properties
  imports Webhook
begin

text \<open>
  What the webhook promises: nothing happens without a valid signature, a replayed delivery is
  acknowledged without effects while its event is cached, and what the code does not achieve:
  deduplication of concurrent deliveries, and reaching Hasura at all with the validated environment.
\<close>

section \<open>The cache\<close>

lemma jm_delete_filter: "jm_delete m i = filter (\<lambda>x. fst x \<noteq> i) m"
  by (induction m) auto

lemma prune_expired_filter:
  "prune_expired now r m =
     filter (\<lambda>x. \<not> (\<exists>t. (fst x, t) \<in> set r \<and> now - t > PROCESSED_EVENT_TTL_MS)) m"
proof (induction r arbitrary: m)
  case (Cons a r)
  obtain i t where a: "a = (i, t)" by (cases a)
  show ?case unfolding a prune_expired.simps Cons.IH
    by (auto simp: jm_delete_filter intro!: filter_cong)
qed simp

lemma drop_oldest_drop: "jm_wf m \<Longrightarrow> drop_oldest m = drop (length m - PROCESSED_EVENT_MAX) m"
proof (induction m rule: drop_oldest.induct)
  case (1 m)
  show ?case
  proof (cases "length m > PROCESSED_EVENT_MAX")
    case True
    then obtain k v r where m: "m = (k, v) # r" by (cases m) auto
    have wf: "jm_wf r" "k \<notin> fst ` set r" using 1(2) m by (auto simp: jm_wf_def)
    then have d: "jm_delete m k = r" using m by (auto simp: jm_delete_filter filter_id_conv)
    have "drop_oldest m = drop_oldest r" using True m d by (subst drop_oldest.simps) simp
    also have "\<dots> = drop (length r - PROCESSED_EVENT_MAX) r"
      using 1(1) [OF True m refl] d wf(1) by simp
    also have "\<dots> = drop (length m - PROCESSED_EVENT_MAX) m"
      using True m by (simp add: Suc_diff_le)
    finally show ?thesis .
  qed (subst drop_oldest.simps, simp)
qed

definition fresh :: "int \<Rightarrow> string \<times> int \<Rightarrow> bool" where
  "fresh now x = (\<not> now - snd x > PROCESSED_EVENT_TTL_MS)"

lemma prune_eq:
  assumes "jm_wf m"
  shows "pruneProcessedEvents now m =
     drop (length (filter (fresh now) m) - PROCESSED_EVENT_MAX) (filter (fresh now) m)"
proof -
  have "prune_expired now m m = filter (fresh now) m"
    unfolding prune_expired_filter
  proof (rule filter_cong [OF refl])
    fix x assume x: "x \<in> set m"
    have "(fst x, t) \<in> set m \<longleftrightarrow> t = snd x" for t
      using assms x jm_get_iff_mem [OF assms] by (metis option.inject prod.collapse)
    then show "(\<not> (\<exists>t. (fst x, t) \<in> set m \<and> now - t > PROCESSED_EVENT_TTL_MS)) = fresh now x"
      by (simp add: fresh_def)
  qed
  moreover have "jm_wf (filter (fresh now) m)"
    using assms by (simp add: jm_wf_def distinct_map_filter)
  ultimately show ?thesis by (simp add: pruneProcessedEvents_def drop_oldest_drop)
qed

lemma jm_wf_drop: "jm_wf m \<Longrightarrow> jm_wf (drop n m)"
  by (simp add: jm_wf_def drop_map [symmetric])

lemma prune_wf: "jm_wf m \<Longrightarrow> jm_wf (pruneProcessedEvents now m)"
  by (simp add: prune_eq jm_wf_drop) (simp add: jm_wf_def jm_wf_drop distinct_map_filter drop_map [symmetric])

lemma prune_bound: "jm_wf m \<Longrightarrow> length (pruneProcessedEvents now m) \<le> PROCESSED_EVENT_MAX"
  by (simp add: prune_eq)

lemma prune_idem: "jm_wf m \<Longrightarrow> pruneProcessedEvents now (pruneProcessedEvents now m) = pruneProcessedEvents now m"
proof -
  assume wf: "jm_wf m"
  have "filter (fresh now) (pruneProcessedEvents now m) = pruneProcessedEvents now m"
    using in_set_dropD by (fastforce simp: prune_eq [OF wf] filter_id_conv)
  with prune_eq [OF prune_wf [OF wf], of now now] prune_bound [OF wf, of now] show ?thesis by simp
qed

text \<open>An event seen at \<open>t\<close> with at most \<open>n\<close> younger entries behind it.\<close>

definition cached :: "string \<Rightarrow> int \<Rightarrow> nat \<Rightarrow> processed \<Rightarrow> bool" where
  "cached e t n m = (jm_wf m \<and> (\<exists>xs ys. m = xs @ (e, t) # ys \<and> length ys \<le> n))"

lemma cached_has: "cached e t n m \<Longrightarrow> jm_has m e"
  unfolding cached_def jm_has_def jm_get_def by (metis in_set_conv_decomp map_of_eq_None_iff image_eqI fst_conv)

lemma cached_mono: "cached e t n m \<Longrightarrow> n \<le> k \<Longrightarrow> cached e t k m"
  unfolding cached_def using le_trans by blast

lemma cached_prune:
  assumes "cached e t n m" and "now \<le> t + PROCESSED_EVENT_TTL_MS" and "n < PROCESSED_EVENT_MAX"
  shows "cached e t n (pruneProcessedEvents now m)"
proof -
  obtain xs ys where m: "m = xs @ (e, t) # ys" "length ys \<le> n" and wf: "jm_wf m"
    using assms(1) by (auto simp: cached_def)
  let ?xs = "filter (fresh now) xs" and ?ys = "filter (fresh now) ys"
  have f: "filter (fresh now) m = ?xs @ (e, t) # ?ys" using m(1) assms(2) by (simp add: fresh_def)
  have l: "length ?ys \<le> n" using m(2) length_filter_le le_trans by blast
  let ?k = "length (?xs @ (e, t) # ?ys) - PROCESSED_EVENT_MAX"
  have "?k \<le> length ?xs" using l assms(3) by simp
  then have "pruneProcessedEvents now m = drop ?k ?xs @ (e, t) # ?ys"
    by (simp add: prune_eq [OF wf] f)
  with l prune_wf [OF wf] show ?thesis unfolding cached_def by metis
qed

lemma cached_set:
  assumes "cached e t n m" and "jm_get m i = None"
  shows "cached e t (Suc n) (jm_set m i u)"
proof -
  obtain xs ys where m: "m = xs @ (e, t) # ys" "length ys \<le> n" "jm_wf m"
    using assms(1) by (auto simp: cached_def)
  then have "jm_set m i u = xs @ (e, t) # (ys @ [(i, u)])" using assms(2) by (simp add: jm_set_append)
  moreover have "length (ys @ [(i, u)]) \<le> Suc n" using m(2) by simp
  ultimately show ?thesis using jm_wf_set [OF m(3), of i u] unfolding cached_def by blast
qed

section \<open>Admission\<close>

definition admits :: "hmac \<Rightarrow> env \<Rightarrow> webhook_request \<Rightarrow> webhook_job \<Rightarrow> bool" where
  "admits hmac env req j = (\<exists>now m. fst (webhook_admit hmac env now req m) = Inr j)"

lemma webhook_admit_cases:
  obtains (refuse) r where "\<And>now m. webhook_admit hmac env now req m = (Inl r, m)" "r_status r \<noteq> 200"
  | (process) j where "\<And>now m. webhook_admit hmac env now req m =
      (if jm_has (pruneProcessedEvents now m) (wj_eventId j)
       then Inl (Reply 200 (WhDuplicate (wj_contractId j) (wj_status j))) else Inr j,
       pruneProcessedEvents now m)"
    "\<exists>secret sig raw. env_get env ''TRUSTLESS_WORK_WEBHOOK_SECRET'' = Some secret \<and>
       getSignatureHeader req = Some sig \<and> wr_rawBody req = Some raw \<and>
       normalizeSignature sig = hmac secret raw"
proof (cases "truthy (env_get env ''TRUSTLESS_WORK_WEBHOOK_SECRET'') \<and> truthy (getSignatureHeader req)")
  case False
  then show ?thesis
    by (intro refuse [of "if truthy (env_get env ''TRUSTLESS_WORK_WEBHOOK_SECRET'')
        then Reply 401 (WhError ''Missing webhook signature header'')
        else Reply 500 (WhError ''Webhook secret is not configured'')"])
      (auto simp: webhook_admit_def)
next
  case True
  then obtain secret sig where s: "env_get env ''TRUSTLESS_WORK_WEBHOOK_SECRET'' = Some secret" "secret \<noteq> []"
    "getSignatureHeader req = Some sig" "sig \<noteq> []"
    by (cases "env_get env ''TRUSTLESS_WORK_WEBHOOK_SECRET''"; cases "getSignatureHeader req") auto
  show ?thesis
  proof (cases "\<exists>raw. wr_rawBody req = Some raw \<and> verifySignature hmac raw sig secret")
    case False
    then show ?thesis using s
      by (intro refuse [of "if wr_rawBody req = None then Reply 400 (WhError ''Expected a JSON request body'')
          else Reply 401 (WhError ''Invalid webhook signature'')"])
        (auto simp: webhook_admit_def split: option.splits)
  next
    case True
    then obtain raw where raw: "wr_rawBody req = Some raw" "verifySignature hmac raw sig secret" by blast
    let ?body = "if js_truthy (wr_body req) then the (wr_body req) else JObj []"
    have sg: "normalizeSignature sig = hmac secret raw"
      using raw(2) by (auto simp: verifySignature_def Let_def split: if_splits)
    show ?thesis
    proof (cases "\<exists>c st n. required_string (json_prop ?body ''contractId'') = Some c \<and>
        required_string (json_prop ?body ''status'') = Some st \<and> status_lookup (toLowerCase st) = Some n")
      case True
      then obtain c st n where b: "required_string (json_prop ?body ''contractId'') = Some c"
        "required_string (json_prop ?body ''status'') = Some st" "status_lookup (toLowerCase st) = Some n" by blast
      show ?thesis
        by (rule process [of "\<lparr>wj_contractId = c,
             wj_engagementId = (case required_string (json_prop ?body ''engagementId'') of
                 None \<Rightarrow> c | Some e \<Rightarrow> e),
             wj_status = n, wj_eventId = getEventId hmac ?body raw, wj_body = ?body\<rparr>"])
          (use s raw b sg in \<open>auto simp: webhook_admit_def Let_def simp del: required_string.simps\<close>)
    next
      case False
      show ?thesis
      proof (cases "required_string (json_prop ?body ''contractId'')")
        case None
        with s raw show ?thesis
          by (intro refuse [of "Reply 400 (WhError ''Missing contractId or status'')"])
            (auto simp: webhook_admit_def Let_def simp del: required_string.simps)
      next
        case (Some c)
        note c = this
        show ?thesis
        proof (cases "required_string (json_prop ?body ''status'')")
          case None
          with s raw c show ?thesis
            by (intro refuse [of "Reply 400 (WhError ''Missing contractId or status'')"])
              (auto simp: webhook_admit_def Let_def simp del: required_string.simps)
        next
          case (Some st)
          with False c have "status_lookup (toLowerCase st) = None" by auto
          with s raw c Some show ?thesis
            by (intro refuse [of "Reply 400 (WhError (''Unknown status: '' @ st))"])
              (auto simp: webhook_admit_def Let_def simp del: required_string.simps)
        qed
      qed
    qed
  qed
qed

section \<open>What a delivery does\<close>

text \<open>
  C11: Nothing happens without a valid signature. If a delivery is answered with success, changes the
  outside world (a status write, a notification) or touches the cache of processed events, then
  the secret is configured and the request carries a signature that equals the HMAC of its raw body
  under that secret.
\<close>

theorem webhook_authentic:
  assumes "escrow_status_webhook hmac server env amb notify now req s = (r, s')"
    and "r_status r = 200 \<or> s' \<noteq> s"
  shows "\<exists>secret sig raw. env_get env ''TRUSTLESS_WORK_WEBHOOK_SECRET'' = Some secret \<and>
     getSignatureHeader req = Some sig \<and> wr_rawBody req = Some raw \<and>
     normalizeSignature sig = hmac secret raw"
proof (cases rule: webhook_admit_cases [of hmac env req])
  case (refuse q)
  then have "r = q" "s' = s" using assms(1) by (simp_all add: escrow_status_webhook_def)
  with refuse(2) assms(2) show ?thesis by simp
qed blast

definition webhook_run ::
  "hmac \<Rightarrow> 'w hasura \<Rightarrow> env \<Rightarrow> string option \<Rightarrow> 'w notifier \<Rightarrow> (int \<times> webhook_request) list \<Rightarrow> processed \<times> 'w \<Rightarrow>
   processed \<times> 'w" where
  "webhook_run hmac server env amb notify ds s =
     foldl (\<lambda>u (now, req). snd (escrow_status_webhook hmac server env amb notify now req u)) s ds"

lemma webhook_finish_cached:
  assumes "cached e t n p" and "jm_get p (wj_eventId j) = None"
  shows "cached e t (Suc n) (fst (snd (webhook_finish notify now j written (p, w))))"
proof (cases written)
  case (Inl x)
  with assms(1) show ?thesis by (simp add: webhook_finish_def cached_mono [where k = "Suc n"])
next
  case (Inr x)
  with cached_set [OF assms] show ?thesis by (simp add: webhook_finish_def split: prod.splits)
qed

lemma webhook_step_cached:
  assumes "cached e t n (fst s)" and "now \<le> t + PROCESSED_EVENT_TTL_MS" and "n < PROCESSED_EVENT_MAX"
  shows "cached e t (Suc n) (fst (snd (escrow_status_webhook hmac server env amb notify now req s)))"
proof (cases rule: webhook_admit_cases [of hmac env req])
  case (refuse r)
  with assms(1) show ?thesis by (simp add: escrow_status_webhook_def cached_mono [where k = "Suc n"])
next
  case (process j)
  let ?p = "pruneProcessedEvents now (fst s)"
  have c: "cached e t n ?p" using assms by (rule cached_prune)
  show ?thesis
  proof (cases "jm_has ?p (wj_eventId j)")
    case True
    with process c show ?thesis by (simp add: escrow_status_webhook_def cached_mono [where k = "Suc n"])
  next
    case False
    then have "jm_get ?p (wj_eventId j) = None" by (simp add: jm_has_def)
    note f = webhook_finish_cached [OF c this]
    show ?thesis using False process f
      by (cases "updateEscrowStatus server env amb (wj_contractId j) (status_variable (wj_status j)) (snd s)")
        (simp add: escrow_status_webhook_def f)
  qed
qed

lemma webhook_run_cached:
  "cached e t n (fst s) \<Longrightarrow> n + length ds \<le> PROCESSED_EVENT_MAX \<Longrightarrow>
   \<forall>(u, r) \<in> set ds. u \<le> t + PROCESSED_EVENT_TTL_MS \<Longrightarrow>
   cached e t (n + length ds) (fst (webhook_run hmac server env amb notify ds s))"
proof (induction ds arbitrary: s n)
  case (Cons d ds)
  obtain u r where d: "d = (u, r)" by (cases d)
  let ?s = "snd (escrow_status_webhook hmac server env amb notify u r s)"
  have "cached e t (Suc n) (fst ?s)" using Cons.prems d by (intro webhook_step_cached) auto
  from Cons.IH [OF this] Cons.prems d show ?case by (simp add: webhook_run_def)
qed (simp add: webhook_run_def)

lemma processed_replayed:
  assumes "jm_wf (fst s)"
    and "escrow_status_webhook hmac server env amb notify t0 req s = (Reply 200 (WhSynced c g st n ns), s1)"
    and "length ds < PROCESSED_EVENT_MAX" and "\<forall>(u, r) \<in> set ds. u \<le> t0 + PROCESSED_EVENT_TTL_MS"
    and "t \<le> t0 + PROCESSED_EVENT_TTL_MS"
  shows "\<exists>p. escrow_status_webhook hmac server env amb notify t req (webhook_run hmac server env amb notify ds s1)
     = (Reply 200 (WhDuplicate c st), (p, snd (webhook_run hmac server env amb notify ds s1)))"
proof (cases rule: webhook_admit_cases [of hmac env req])
  case (refuse r)
  with assms(2) show ?thesis by (simp add: escrow_status_webhook_def)
next
  case (process j)
  let ?p = "pruneProcessedEvents t0 (fst s)"
  have new: "\<not> jm_has ?p (wj_eventId j)"
    using assms(2) process by (auto simp: escrow_status_webhook_def)
  obtain w w2 where fin: "webhook_finish notify t0 j w (?p, w2) = (Reply 200 (WhSynced c g st n ns), s1)"
    using assms(2) process new by (auto simp: escrow_status_webhook_def split: prod.splits)
  then have j: "wj_contractId j = c" "wj_status j = st" "fst s1 = jm_set ?p (wj_eventId j) t0"
    by (auto simp: webhook_finish_def split: sum.splits prod.splits)
  have "jm_wf (fst s1)" using prune_wf [OF assms(1)] j(3) by simp
  moreover have "fst s1 = ?p @ [(wj_eventId j, t0)]" using new j(3) by (simp add: jm_has_def jm_set_append)
  ultimately have "cached (wj_eventId j) t0 0 (fst s1)" unfolding cached_def by auto
  from webhook_run_cached [OF this, of ds] assms(3,4)
  have "cached (wj_eventId j) t0 (length ds) (fst (webhook_run hmac server env amb notify ds s1))" by simp
  from cached_has [OF cached_prune [OF this assms(5,3)]] process j show ?thesis
    by (simp add: escrow_status_webhook_def)
qed

text \<open>
  C12: A replayed delivery has no effect. After a delivery was processed, the same request delivered
  again within 24 hours of it is acknowledged as a duplicate, with no status write and no
  notification, provided fewer than 10,000 other deliveries (of any kind, each handled to its end)
  came in between.
\<close>

theorem webhook_replay_ignored:
  assumes "jm_wf (fst s)"
    and "escrow_status_webhook hmac server env amb notify t0 req s = (Reply 200 (WhSynced c g st n ns), s1)"
    and "length ds < PROCESSED_EVENT_MAX" and "\<forall>(u, r) \<in> set ds. u \<le> t0 + PROCESSED_EVENT_TTL_MS"
    and "t \<le> t0 + PROCESSED_EVENT_TTL_MS"
  shows "\<exists>p. escrow_status_webhook hmac server env amb notify t req (webhook_run hmac server env amb notify ds s1)
     = (Reply 200 (WhDuplicate c st), (p, snd (webhook_run hmac server env amb notify ds s1)))"
  by (rule processed_replayed [OF assms])

text \<open>A signed delivery and a server that accepts it.\<close>

definition sample_hmac :: hmac where "sample_hmac key msg = key @ msg"

definition sample_delivery :: webhook_request where
  "sample_delivery = \<lparr>wr_tw_signature = Some (HStr ''sha256=whsecBODY''), wr_webhook_signature = None,
     wr_signature = None, wr_rawBody = Some ''BODY'',
     wr_body = Some (JObj [(''contractId'', JStr ''C1''), (''status'', JStr ''released''), (''id'', JStr ''ev1'')])\<rparr>"

definition sample_webhook_env :: env where
  "sample_webhook_env = [(''TRUSTLESS_WORK_WEBHOOK_SECRET'', ''whsec''), (''HASURA_GRAPHQL_URL'', ''u''),
     (''HASURA_ADMIN_SECRET'', ''s'')]"

definition sample_hasura :: "nat hasura" where
  "sample_hasura p k = (HasuraReply True ''OK'' None
     (Some (JObj [(''update_escrow_transactions'', JObj [(''affected_rows'', JNum (Fin 1))])])), Suc k)"

definition sample_notifier :: "nat notifier" where
  "sample_notifier = Some (\<lambda>n k. (Inr JNull, k + 100))"

lemma sample_admit:
  "webhook_admit sample_hmac sample_webhook_env now sample_delivery m =
     (if jm_has (pruneProcessedEvents now m) ''ev1''
      then Inl (Reply 200 (WhDuplicate ''C1'' (Mapped ''released'')))
      else Inr \<lparr>wj_contractId = ''C1'', wj_engagementId = ''C1'', wj_status = Mapped ''released'',
          wj_eventId = ''ev1'', wj_body = the (wr_body sample_delivery)\<rparr>,
      pruneProcessedEvents now m)"
proof -
  have "toLowerCase ''released'' = ''released''" by code_simp
  moreover have "normalizeSignature ''sha256=whsecBODY'' = ''whsecBODY''" by code_simp
  moreover have "sample_hmac ''whsec'' ''BODY'' = ''whsecBODY''" by (simp add: sample_hmac_def)
  moreover have "env_get sample_webhook_env ''TRUSTLESS_WORK_WEBHOOK_SECRET'' = Some ''whsec''"
    by (simp add: env_get_def sample_webhook_env_def)
  moreover have "getSignatureHeader sample_delivery = Some ''sha256=whsecBODY''"
    by (simp add: getSignatureHeader_def sample_delivery_def header_truthy_def)
  moreover have "status_lookup ''released'' = Some (Mapped ''released'')"
    by (simp add: status_lookup_def STATUS_MAP_def)
  ultimately show ?thesis
    by (simp add: webhook_admit_def verifySignature_def sample_delivery_def getEventId_def Let_def)
qed

lemma sample_update:
  "updateEscrowStatus sample_hasura sample_webhook_env None c v k = (Inr (JNum (Fin 1)), Suc k)"
  by (simp add: updateEscrowStatus_def hasura_request_def requireHasuraConfig_def env_get_def
      sample_webhook_env_def sample_hasura_def opt_prop_def js_or_zero_def Let_def)

lemma sample_first:
  "escrow_status_webhook sample_hmac sample_hasura sample_webhook_env None sample_notifier 5 sample_delivery ([], 0)
     = (Reply 200 (WhSynced ''C1'' ''C1'' (Mapped ''released'') (JNum (Fin 1)) (Some JNull)), ([(''ev1'', 5)], 101))"
proof -
  have "pruneProcessedEvents 5 [] = []" by (simp add: prune_eq)
  then show ?thesis
    by (simp add: escrow_status_webhook_def sample_admit sample_update jm_has_def webhook_finish_def
        webhook_notify_def sample_notifier_def)
qed

theorem webhook_replay_ignored_witness:
  "\<exists>p. escrow_status_webhook sample_hmac sample_hasura sample_webhook_env None sample_notifier 9 sample_delivery
     ([(''ev1'', 5)], 101) = (Reply 200 (WhDuplicate ''C1'' (Mapped ''released'')), (p, 101))"
proof -
  have "jm_wf (fst ([], 0 :: nat))" by simp
  from webhook_replay_ignored [OF this sample_first, of "[]" 9]
  show ?thesis by (simp add: webhook_run_def PROCESSED_EVENT_MAX_def PROCESSED_EVENT_TTL_MS_def)
qed

theorem webhook_authentic_witness:
  "\<exists>secret sig raw. env_get sample_webhook_env ''TRUSTLESS_WORK_WEBHOOK_SECRET'' = Some secret \<and>
     getSignatureHeader sample_delivery = Some sig \<and> wr_rawBody sample_delivery = Some raw \<and>
     normalizeSignature sig = sample_hmac secret raw"
  using webhook_authentic [OF sample_first] by simp

section \<open>What the webhook does not achieve\<close>

text \<open>
  Concurrent deliveries of one event are not deduplicated. The cache is checked at admission and
  written only after the Hasura write, an await later: a second copy of a request that arrives in
  between is admitted as well, with the same event id, and when the writes succeed both copies
  complete and both call the notification service, so the recipient is notified twice.
\<close>

theorem webhook_concurrent_duplicate:
  assumes "jm_wf m" and "webhook_admit hmac env now req m = (Inr j, m1)"
  shows "webhook_admit hmac env now req m1 = (Inr j, m1)
    \<and> (let (r1, s1) = webhook_finish notify now j (Inr rows) (m1, w);
           (r2, s2) = webhook_finish notify now j (Inr rows) s1
       in r_status r1 = 200 \<and> r_status r2 = 200
          \<and> snd s2 = snd (webhook_notify notify j (snd (webhook_notify notify j w))))"
proof -
  have "webhook_admit hmac env now req m1 = (Inr j, m1)"
  proof (cases rule: webhook_admit_cases [of hmac env req])
    case (refuse r)
    with assms(2) show ?thesis by simp
  next
    case (process k)
    then have "m1 = pruneProcessedEvents now m" "k = j" "\<not> jm_has m1 (wj_eventId j)"
      using assms(2) by (auto split: if_splits)
    with process prune_idem [OF assms(1)] show ?thesis by simp
  qed
  then show ?thesis by (simp add: webhook_finish_def split: prod.splits)
qed

theorem webhook_concurrent_duplicate_witness:
  "\<exists>j m1. webhook_admit sample_hmac sample_webhook_env 5 sample_delivery [] = (Inr j, m1)
    \<and> webhook_admit sample_hmac sample_webhook_env 5 sample_delivery m1 = (Inr j, m1)
    \<and> (let (r1, s1) = webhook_finish sample_notifier 5 j (Inr JNull) (m1, 0);
           (r2, s2) = webhook_finish sample_notifier 5 j (Inr JNull) s1 in snd s2 = 200)"
proof -
  have wf: "jm_wf ([] :: processed)" by simp
  obtain j m1 where a: "webhook_admit sample_hmac sample_webhook_env 5 sample_delivery [] = (Inr j, m1)"
    by (simp add: sample_admit prune_eq jm_has_def)
  from webhook_concurrent_duplicate [OF wf a, of sample_notifier JNull 0] a show ?thesis
    by (intro exI [of _ j] exI [of _ m1]) (auto simp: webhook_notify_def sample_notifier_def Let_def split: prod.splits)
qed

text \<open>
  As configured, the webhook never syncs a status. With any environment that passes the start-up
  validation no delivery is ever answered with a sync: whatever it is, nothing is sent to Hasura, no
  notification goes out, and an admitted delivery ends in a 500 that asks for a retry.
\<close>

theorem webhook_never_syncs:
  assumes "validateEnv parse raw = Some env"
  shows "snd (snd (escrow_status_webhook hmac server env amb notify now req s)) = snd s
    \<and> (case fst (webhook_admit hmac env now req (fst s)) of
         Inr j \<Rightarrow> fst (escrow_status_webhook hmac server env amb notify now req s)
                    = Reply 500 (WhError ''Failed to sync escrow status'')
       | Inl r \<Rightarrow> fst (escrow_status_webhook hmac server env amb notify now req s) = r)"
proof -
  obtain e where "requireHasuraConfig env = Inl e" using hasura_never_configured [OF assms] by blast
  then have u: "updateEscrowStatus server env amb c v w =
      (Inl (''Failed to update escrow status in Hasura (requestId='' @ unknown_id amb @ '')''), w)" for c v w
    by (simp add: updateEscrowStatus_def hasura_request_unconfigured)
  show ?thesis
    by (cases "webhook_admit hmac env now req (fst s)"; cases "fst (webhook_admit hmac env now req (fst s))")
      (simp_all add: escrow_status_webhook_def webhook_finish_def u)
qed

theorem webhook_never_syncs_witness:
  "\<exists>env. validateEnv (\<lambda>k v. Some v) sample_raw_env = Some env \<and>
     snd (snd (escrow_status_webhook sample_hmac sample_hasura env None sample_notifier 5 sample_delivery ([], 7))) = 7"
proof -
  obtain env where env: "validateEnv (\<lambda>k v. Some v) sample_raw_env = Some env" using sample_env_valid by blast
  from webhook_never_syncs [OF env] env show ?thesis by (metis snd_conv)
qed

end
