(* ===== verification/Listing_Fraud.thy ===== *)
theory Listing_Fraud
  imports Js_Base
begin

text \<open>
  \<open>services/listing-fraud.service.ts\<close>: the fingerprint of a ticket listing and the three-tier risk
  assessment of a candidate against existing listings.
\<close>

record listing =
  li_id :: "string option"
  li_eventName :: string
  li_eventDate :: "string option"
  li_section :: "string option"
  li_row :: "string option"
  li_seat :: "string option"
  li_sellerId :: string
  li_status :: "string option"

text \<open>The reasons carry a dash outside the character set of the model, so they are constructors.\<close>

datatype risk_reason = SameSeat | SameSection | SameEvent

datatype risk_level = Low | Medium | High

record risk_match =
  rm_id :: "string option"
  rm_fingerprint :: string
  rm_reason :: risk_reason
  rm_confidence :: rat

record risk_result =
  rr_fingerprint :: string
  rr_duplicate :: bool
  rr_riskLevel :: risk_level
  rr_warning :: "risk_reason option"
  rr_matches :: "risk_match list"

definition ACTIVE_STATUSES :: "string set" where
  "ACTIVE_STATUSES = {''active'', ''pending'', ''reserved''}"

definition normalize :: "string option \<Rightarrow> string" where
  "normalize v = collapse (toLowerCase (trim (case v of None \<Rightarrow> [] | Some s \<Rightarrow> s)))"

definition seat_char :: "char \<Rightarrow> bool" where
  "seat_char c = (let n = (of_char c :: nat) in (97 \<le> n \<and> n \<le> 122) \<or> (48 \<le> n \<and> n \<le> 57) \<or> n = 45)"

definition normalizeSeat :: "string option \<Rightarrow> string" where
  "normalizeSeat v = filter seat_char (normalize v)"

definition fingerprint_parts :: "listing \<Rightarrow> string list" where
  "fingerprint_parts l =
     [normalize (Some (li_eventName l)), normalize (li_eventDate l), normalizeSeat (li_section l),
      normalizeSeat (li_row l), normalizeSeat (li_seat l), normalize (Some (li_sellerId l))]"

definition ticketListingFingerprint :: "listing \<Rightarrow> string" where
  "ticketListingFingerprint l = join ''|'' (fingerprint_parts l)"

definition isActiveListing :: "listing \<Rightarrow> bool" where
  "isActiveListing l =
     ((let s = normalize (li_status l) in if s = [] then ''active'' else s) \<in> ACTIVE_STATUSES)"

definition match_of :: "risk_reason \<Rightarrow> rat \<Rightarrow> listing \<Rightarrow> risk_match" where
  "match_of why conf l = \<lparr>rm_id = li_id l, rm_fingerprint = ticketListingFingerprint l,
     rm_reason = why, rm_confidence = conf\<rparr>"

definition same_event_seller :: "listing \<Rightarrow> listing \<Rightarrow> bool" where
  "same_event_seller c l =
     (normalize (Some (li_eventName l)) = normalize (Some (li_eventName c)) \<and>
      normalize (Some (li_sellerId l)) = normalize (Some (li_sellerId c)))"

definition same_section :: "listing \<Rightarrow> listing \<Rightarrow> bool" where
  "same_section c l =
     (normalizeSeat (li_section l) \<noteq> [] \<and> normalizeSeat (li_section l) = normalizeSeat (li_section c))"

definition actives :: "listing \<Rightarrow> listing list \<Rightarrow> listing list" where
  "actives c ls = filter isActiveListing (filter (\<lambda>l. li_id l \<noteq> li_id c) ls)"

definition assessListingRisk :: "listing \<Rightarrow> listing list \<Rightarrow> risk_result" where
  "assessListingRisk candidate existing =
     (let fp = ticketListingFingerprint candidate;
          acts = actives candidate existing;
          exact = filter (\<lambda>l. ticketListingFingerprint l = fp) acts
      in if exact \<noteq> [] then
           \<lparr>rr_fingerprint = fp, rr_duplicate = True, rr_riskLevel = High, rr_warning = Some SameSeat,
            rr_matches = map (match_of SameSeat (95 / 100)) exact\<rparr>
         else
           (let sectionMatches = filter (\<lambda>l. same_event_seller candidate l \<and> same_section candidate l) acts
            in if sectionMatches \<noteq> [] then
                 \<lparr>rr_fingerprint = fp, rr_duplicate = False, rr_riskLevel = Medium,
                  rr_warning = Some SameSection, rr_matches = map (match_of SameSection (6 / 10)) sectionMatches\<rparr>
               else
                 (let soft = filter (same_event_seller candidate) acts
                  in if soft \<noteq> [] then
                       \<lparr>rr_fingerprint = fp, rr_duplicate = False, rr_riskLevel = Low,
                        rr_warning = Some SameEvent, rr_matches = map (match_of SameEvent (2 / 10)) soft\<rparr>
                     else
                       \<lparr>rr_fingerprint = fp, rr_duplicate = False, rr_riskLevel = Low,
                        rr_warning = None, rr_matches = []\<rparr>)))"

section \<open>The fingerprint identifies the ticket\<close>

lemma split_on_append_sep: "c \<notin> set w \<Longrightarrow> split_on c (w @ c # r) = w # split_on c r"
  by (induction w) auto

lemma split_on_plain: "c \<notin> set w \<Longrightarrow> split_on c w = [w]"
  by (induction w) auto

lemma split_join:
  "ws \<noteq> [] \<Longrightarrow> (\<And>w. w \<in> set ws \<Longrightarrow> c \<notin> set w) \<Longrightarrow> split_on c (join [c] ws) = ws"
proof (induction ws rule: induct_list012)
  case (3 x y zs)
  then have "split_on c (join [c] (x # y # zs)) = x # split_on c (join [c] (y # zs))"
    by (simp add: split_on_append_sep)
  with 3 show ?case by simp
qed (simp_all add: split_on_plain)

lemma normalizeSeat_chars: "c \<in> set (normalizeSeat v) \<Longrightarrow> seat_char c"
  by (simp add: normalizeSeat_def)

lemma no_bar_seat: "CHR ''|'' \<notin> set (normalizeSeat v)"
proof
  assume "CHR ''|'' \<in> set (normalizeSeat v)"
  then have "seat_char (CHR ''|'')" by (rule normalizeSeat_chars)
  moreover have "\<not> seat_char (CHR ''|'')" by code_simp
  ultimately show False by simp
qed

definition bar_free :: "listing \<Rightarrow> bool" where
  "bar_free l = (CHR ''|'' \<notin> set (normalize (Some (li_eventName l))) \<and>
     CHR ''|'' \<notin> set (normalize (li_eventDate l)) \<and> CHR ''|'' \<notin> set (normalize (Some (li_sellerId l))))"

lemma fingerprint_parts_bar_free: "bar_free l \<Longrightarrow> w \<in> set (fingerprint_parts l) \<Longrightarrow> CHR ''|'' \<notin> set w"
  by (auto simp: fingerprint_parts_def bar_free_def no_bar_seat)

lemma fingerprint_inj:
  assumes "bar_free k" and "bar_free l"
  shows "ticketListingFingerprint k = ticketListingFingerprint l \<longleftrightarrow> fingerprint_parts k = fingerprint_parts l"
proof
  assume eq: "ticketListingFingerprint k = ticketListingFingerprint l"
  have s: "split_on (CHR ''|'') (ticketListingFingerprint m) = fingerprint_parts m" if "bar_free m" for m
    unfolding ticketListingFingerprint_def
    using fingerprint_parts_bar_free [OF that] by (intro split_join) (auto simp: fingerprint_parts_def)
  from s [OF assms(1)] s [OF assms(2)] eq show "fingerprint_parts k = fingerprint_parts l" by simp
qed (simp add: ticketListingFingerprint_def)

lemma duplicate_iff:
  "rr_duplicate (assessListingRisk c ls) \<longleftrightarrow>
     (\<exists>l \<in> set (actives c ls). ticketListingFingerprint l = ticketListingFingerprint c)"
  by (auto simp: assessListingRisk_def Let_def filter_empty_conv)

text \<open>
  A candidate is reported as a duplicate exactly when an active listing with another id is for the
  same ticket: the same event, date, section, row, seat and seller after normalisation. This rests
  on the fingerprint telling different tickets apart, which holds for listings whose event name,
  date and seller contain no vertical bar; the risk is then high and every match names such a
  listing.
\<close>

theorem duplicate_exact:
  assumes "bar_free c" and "\<And>l. l \<in> set ls \<Longrightarrow> bar_free l"
  shows "(rr_duplicate (assessListingRisk c ls) \<longleftrightarrow>
       (\<exists>l \<in> set ls. li_id l \<noteq> li_id c \<and> isActiveListing l \<and> fingerprint_parts l = fingerprint_parts c))
    \<and> (rr_duplicate (assessListingRisk c ls) \<longleftrightarrow> rr_riskLevel (assessListingRisk c ls) = High)"
proof -
  have "rr_duplicate (assessListingRisk c ls) \<longleftrightarrow>
      (\<exists>l \<in> set ls. li_id l \<noteq> li_id c \<and> isActiveListing l \<and> fingerprint_parts l = fingerprint_parts c)"
    using fingerprint_inj [OF assms(2) assms(1)] by (auto simp: duplicate_iff actives_def)
  then show ?thesis by (auto simp: assessListingRisk_def Let_def)
qed

definition sample_listing :: listing where
  "sample_listing = \<lparr>li_id = Some ''l1'', li_eventName = ''Rock  Fest'', li_eventDate = None,
     li_section = Some ''A'', li_row = Some ''1'', li_seat = Some ''7'', li_sellerId = ''u1'', li_status = None\<rparr>"

theorem duplicate_exact_witness:
  "rr_duplicate (assessListingRisk (sample_listing\<lparr>li_id := Some ''l2'', li_eventName := '' rock fest''\<rparr>)
     [sample_listing])"
proof -
  let ?c = "sample_listing\<lparr>li_id := Some ''l2'', li_eventName := '' rock fest''\<rparr>"
  have "bar_free ?c" "bar_free sample_listing" "fingerprint_parts sample_listing = fingerprint_parts ?c"
    "isActiveListing sample_listing" "li_id sample_listing \<noteq> li_id ?c"
    unfolding sample_listing_def ACTIVE_STATUSES_def isActiveListing_def by code_simp+
  with duplicate_exact [of ?c "[sample_listing]"] show ?thesis by auto
qed

end
