(* ===== verification/Account_Routes.thy ===== *)
theory Account_Routes
  imports Changelog_Properties Hasura_Service Js_Date
begin

text \<open>
  \<open>routes/users.ts\<close>, \<open>routes/sync-user.ts\<close> and \<open>routes/recovery-codes.ts\<close>: account deletion, reviews,
  the synchronisation of the signed-in user and the recovery codes of the second factor. Firebase, the
  Hasura server, SHA-256 and the random bytes are parameters; Hasura and Firebase act on one outside
  world, so the order of the calls is visible.
\<close>

datatype account_body =
    AbError string
  | AbDeleted
  | AbReview "json option"
  | AbUser "json option"
  | AbCodes "string list"
  | AbRedeemed

definition signed_in :: "verifier \<Rightarrow> string option \<Rightarrow> account_body reply + token" where
  "signed_in verify header = (case authenticate verify header of
       Inl (Reply st (AuthError m)) \<Rightarrow> Inl (Reply st (AbError m))
     | Inr u \<Rightarrow> Inr u)"

section \<open>Account deletion\<close>

definition account_entry_id :: "string \<Rightarrow> string" where
  "account_entry_id uid = CHANGELOG_ENTRY_TYPES ACCOUNT_DELETED @ '':'' @ uid"

definition account_entry :: "string \<Rightarrow> append_payload" where
  "account_entry uid = \<lparr>ap_entryId = account_entry_id uid, ap_action = CHANGELOG_ENTRY_TYPES ACCOUNT_DELETED,
     ap_actorId = uid, ap_resourceId = uid, ap_metadata = Some [(''reason'', JStr ''user_request'')],
     ap_requestId = None\<rparr>"

text \<open>
  The two calls of the changelog the deletion makes. Each may throw, whatever stands behind it: a
  store that is down, or the write-once guard. The port of the service itself is \<open>service_port\<close>.
\<close>

record 'c changelog_port =
  cp_getEntry :: "string \<Rightarrow> 'c \<Rightarrow> string + changelog_entry option"
  cp_appendEntry :: "append_payload \<Rightarrow> 'c \<Rightarrow> (string + changelog_entry) \<times> 'c"

definition service_port :: "string option \<Rightarrow> int \<Rightarrow> changelog changelog_port" where
  "service_port amb now = \<lparr>cp_getEntry = (\<lambda>i s. Inr (getEntry i s)),
     cp_appendEntry = (\<lambda>p s. case appendEntry amb now p s of
        (Inl e, s') \<Rightarrow> (Inl (err_message e), s') | (Inr x, s') \<Rightarrow> (Inr x, s'))\<rparr>"

text \<open>The body of the \<open>try\<close>: the error that its \<open>catch\<close> logs, if there is one.\<close>

definition audit_deletion :: "'c changelog_port \<Rightarrow> string \<Rightarrow> 'c \<Rightarrow> string option \<times> 'c" where
  "audit_deletion port uid s =
     (case cp_getEntry port (account_entry_id uid) s of
        Inl e \<Rightarrow> (Some e, s)
      | Inr (Some _) \<Rightarrow> (None, s)
      | Inr None \<Rightarrow>
          (case cp_appendEntry port (account_entry uid) s of
             (Inl e, s') \<Rightarrow> (Some e, s')
           | (Inr _, s') \<Rightarrow> (None, s')))"

text \<open>The two failures the route swallows: it logs them for manual follow-up and goes on.\<close>

datatype account_log = AuditMissing string string | SignInLeft string string

definition delete_me_route ::
  "verifier \<Rightarrow> 'w hasura \<Rightarrow> (string \<Rightarrow> 'w \<Rightarrow> (string + unit) \<times> 'w) \<Rightarrow> 'c changelog_port \<Rightarrow> env \<Rightarrow>
   string option \<Rightarrow> int \<Rightarrow> string option \<Rightarrow> 'c \<times> 'w \<Rightarrow> account_body reply \<times> ('c \<times> 'w) \<times> account_log list" where
  "delete_me_route verify server deleteUser port env amb now header s =
     (let (clog, w) = s in
      case signed_in verify header of
        Inl r \<Rightarrow> (r, s, [])
      | Inr u \<Rightarrow>
          if \<not> truthy (tk_email u) then (Reply 400 (AbError ''Firebase account has no email''), s, [])
          else
            (case hasura_request server env amb (AnonymizeUser (the (tk_email u)) (toISOString now)) None w of
               (Inl _, w1) \<Rightarrow> (Reply 502 (AbError ''Failed to remove user data''), (clog, w1), [])
             | (Inr _, w1) \<Rightarrow>
                 (let (audit, clog') = audit_deletion port (tk_uid u) clog;
                      (del, w2) = deleteUser (tk_uid u) w1
                  in (Reply 200 AbDeleted, (clog', w2),
                      (case audit of Some e \<Rightarrow> [AuditMissing (tk_uid u) e] | None \<Rightarrow> []) @
                      (case del of Inl e \<Rightarrow> [SignInLeft (tk_uid u) e] | Inr _ \<Rightarrow> [])))))"

section \<open>Reviews and synchronisation\<close>

text \<open>\<open>z.number().int().min(1).max(5)\<close>.\<close>

definition rating_field :: "json option \<Rightarrow> rat option" where
  "rating_field v = (case v of
       Some (JNum (Fin r)) \<Rightarrow> if r = of_int \<lfloor>r\<rfloor> \<and> 1 \<le> r \<and> r \<le> 5 then Some r else None
     | _ \<Rightarrow> None)"

definition create_review_route ::
  "verifier \<Rightarrow> 'w hasura \<Rightarrow> env \<Rightarrow> string option \<Rightarrow> string option \<Rightarrow> json \<Rightarrow> 'w \<Rightarrow> account_body reply \<times> 'w" where
  "create_review_route verify server env amb header body w =
     (case signed_in verify header of
        Inl r \<Rightarrow> (r, w)
      | Inr u \<Rightarrow>
          (case (string_field (json_prop body ''revieweeId''), rating_field (json_prop body ''rating''),
                 optional_string (json_prop body ''comment'')) of
             (Some revieweeId, Some rating, Some remark) \<Rightarrow>
               if revieweeId = tk_uid u then (Reply 400 (AbError ''You cannot review yourself''), w)
               else
                 (case hasura_request server env amb (InsertReview (tk_uid u) revieweeId rating remark) None w of
                    (Inl _, w') \<Rightarrow> (Reply 502 (AbError ''Failed to persist review''), w')
                  | (Inr d, w') \<Rightarrow> (Reply 201 (AbReview (opt_prop (json_prop d ''insert_reviews_one'') ''id'')), w'))
           | _ \<Rightarrow> (Reply 400 (AbError ''Invalid review payload''), w)))"

definition sync_user_route ::
  "verifier \<Rightarrow> 'w hasura \<Rightarrow> env \<Rightarrow> string option \<Rightarrow> string option \<Rightarrow> json option \<Rightarrow> 'w \<Rightarrow> account_body reply \<times> 'w" where
  "sync_user_route verify server env amb header body w =
     (case signed_in verify header of
        Inl r \<Rightarrow> (r, w)
      | Inr u \<Rightarrow>
          if \<not> truthy (tk_email u) then (Reply 400 (AbError ''Firebase account has no email''), w)
          else
            (case hasura_request server env amb
                 (SyncUser (the (tk_email u)) (string_field (opt_prop body ''first_name''))
                    (string_field (opt_prop body ''last_name''))) None w of
               (Inl _, w') \<Rightarrow> (Reply 502 (AbError ''Failed to sync user''), w')
             | (Inr d, w') \<Rightarrow> (Reply 200 (AbUser (json_prop d ''insert_users_one'')), w')))"

text \<open>\<open>verifyRequestUser\<close>: the uid and the email of a verified caller, or nothing.\<close>

definition verifyRequestUser :: "verifier \<Rightarrow> string option \<Rightarrow> (string \<times> string option) option" where
  "verifyRequestUser verify header = (case authenticate verify header of
       Inl _ \<Rightarrow> None | Inr u \<Rightarrow> Some (tk_uid u, tk_email u))"

section \<open>Recovery codes\<close>

definition CODE_COUNT :: nat where "CODE_COUNT = 10"

text \<open>\<open>hex\<close> is the hexadecimal text of five random bytes, ten digits.\<close>

definition generateCode :: "string \<Rightarrow> string" where
  "generateCode hex = take 5 hex @ ''-'' @ drop 5 hex"

definition code_char :: "char \<Rightarrow> bool" where
  "code_char c = (let n = (of_char c :: nat) in (97 \<le> n \<and> n \<le> 122) \<or> (48 \<le> n \<and> n \<le> 57))"

definition normalize_code :: "string \<Rightarrow> string" where
  "normalize_code code = filter code_char (toLowerCase (trim code))"

definition hashCode :: "(string \<Rightarrow> string) \<Rightarrow> string \<Rightarrow> string" where
  "hashCode sha256 code = sha256 (normalize_code code)"

definition new_codes_route ::
  "verifier \<Rightarrow> (string \<Rightarrow> string) \<Rightarrow> (nat \<Rightarrow> string) \<Rightarrow> 'w hasura \<Rightarrow> env \<Rightarrow> string option \<Rightarrow> string option \<Rightarrow> 'w \<Rightarrow>
   account_body reply \<times> 'w" where
  "new_codes_route verify sha256 random_hex server env amb header w =
     (case signed_in verify header of
        Inl r \<Rightarrow> (r, w)
      | Inr u \<Rightarrow>
          (let codes = map (\<lambda>i. generateCode (random_hex i)) [0..<CODE_COUNT] in
           case hasura_request server env amb (ReplaceRecoveryCodes (tk_uid u) (map (hashCode sha256) codes)) None w of
             (Inl _, w') \<Rightarrow> (Reply 502 (AbError ''Failed to generate recovery codes''), w')
           | (Inr _, w') \<Rightarrow> (Reply 201 (AbCodes codes), w')))"

text \<open>\<open>getUserByEmail\<close> and the removal of the second factor may reject: \<open>None\<close> and \<open>False\<close>.\<close>

definition redeem_route ::
  "(string \<Rightarrow> bool) \<Rightarrow> (string \<Rightarrow> string) \<Rightarrow> (string \<Rightarrow> 'w \<Rightarrow> string option \<times> 'w) \<Rightarrow> (string \<Rightarrow> 'w \<Rightarrow> bool \<times> 'w) \<Rightarrow>
   'w hasura \<Rightarrow> env \<Rightarrow> string option \<Rightarrow> int \<Rightarrow> json \<Rightarrow> 'w \<Rightarrow> account_body reply \<times> 'w" where
  "redeem_route is_email sha256 getUserByEmail removeFactors server env amb now body w =
     (case (string_field (json_prop body ''email''), string_field (json_prop body ''code'')) of
        (Some email, Some code) \<Rightarrow>
          if \<not> is_email email \<or> length code < 1 \<or> length code > 64 then (Reply 400 (AbError ''Invalid request''), w)
          else
            (case getUserByEmail email w of
               (None, w1) \<Rightarrow> (Reply 400 (AbError ''Invalid recovery code''), w1)
             | (Some uid, w1) \<Rightarrow>
                 (case hasura_request server env amb
                      (UseRecoveryCode uid (hashCode sha256 code) (toISOString now)) None w1 of
                    (Inl _, w2) \<Rightarrow> (Reply 502 (AbError ''Failed to redeem recovery code''), w2)
                  | (Inr d, w2) \<Rightarrow>
                      if \<not> js_truthy (opt_prop (json_prop d ''update_mfa_recovery_codes'') ''affected_rows'') then
                        (Reply 400 (AbError ''Invalid recovery code''), w2)
                      else
                        (case removeFactors uid w2 of
                           (False, w3) \<Rightarrow> (Reply 502 (AbError ''Failed to redeem recovery code''), w3)
                         | (True, w3) \<Rightarrow> (Reply 200 AbRedeemed, w3))))
      | _ \<Rightarrow> (Reply 400 (AbError ''Invalid request''), w))"

section \<open>What a deletion guarantees\<close>

lemma service_audit:
  "audit_deletion (service_port amb now) uid s =
     (if uid = [] \<and> getEntry (account_entry_id uid) s = None
      then (Some ''entryId, action, actorId, and resourceId are required'', s)
      else (None, case getEntry (account_entry_id uid) s of Some _ \<Rightarrow> s
                  | None \<Rightarrow> snd (appendEntry amb now (account_entry uid) s)))"
proof (cases "getEntry (account_entry_id uid) s")
  case (Some e)
  then show ?thesis by (simp add: audit_deletion_def service_port_def)
next
  case None
  show ?thesis
  proof (cases "uid = []")
    case True
    then show ?thesis using None
      by (simp add: audit_deletion_def service_port_def appendEntry_def account_entry_def Let_def)
  next
    case False
    then have "valid_payload (account_entry uid)"
      by (simp add: valid_payload_def account_entry_def account_entry_id_def)
    then show ?thesis using None False appendEntry_ok [of "account_entry uid" s amb now]
      by (auto simp: audit_deletion_def service_port_def getEntry_def account_entry_def split: prod.splits sum.splits)
  qed
qed

lemma service_audit_entry:
  assumes "uid \<noteq> []"
  shows "getEntry (account_entry_id uid) (snd (audit_deletion (service_port amb now) uid s))
      = (case getEntry (account_entry_id uid) s of Some e \<Rightarrow> Some e
         | None \<Rightarrow> Some (sealed_entry amb now (account_entry uid)))"
proof -
  let ?p = "account_entry uid"
  have v: "valid_payload ?p" using assms by (simp add: valid_payload_def account_entry_def account_entry_id_def)
  have i: "ap_entryId ?p = account_entry_id uid" by (simp add: account_entry_def)
  show ?thesis using appendEntry_ok [OF v, of s amb now] i assms
    by (auto simp: service_audit getEntry_def split: option.splits)
qed

text \<open>The four ends of the route.\<close>

lemma delete_me_cases:
  obtains (refused) st m where "delete_me_route verify server deleteUser port env amb now header (clog, w)
        = (Reply st (AbError m), (clog, w), [])" and "st = 400 \<or> st = 401"
      and "\<nexists>tok u m. header = Some (''Bearer '' @ tok) \<and> verify tok = Some u \<and> tk_email u = Some m \<and> m \<noteq> []"
  | (unchanged) tok u m e w1 where "header = Some (''Bearer '' @ tok)" and "verify tok = Some u"
      and "tk_email u = Some m" and "m \<noteq> []"
      and "hasura_request server env amb (AnonymizeUser m (toISOString now)) None w = (Inl e, w1)"
      and "delete_me_route verify server deleteUser port env amb now header (clog, w)
        = (Reply 502 (AbError ''Failed to remove user data''), (clog, w1), [])"
  | (removed) tok u m d w1 where "header = Some (''Bearer '' @ tok)" and "verify tok = Some u"
      and "tk_email u = Some m" and "m \<noteq> []"
      and "hasura_request server env amb (AnonymizeUser m (toISOString now)) None w = (Inr d, w1)"
      and "delete_me_route verify server deleteUser port env amb now header (clog, w)
        = (Reply 200 AbDeleted,
           (snd (audit_deletion port (tk_uid u) clog), snd (deleteUser (tk_uid u) w1)),
           (case fst (audit_deletion port (tk_uid u) clog) of Some e \<Rightarrow> [AuditMissing (tk_uid u) e] | None \<Rightarrow> []) @
           (case fst (deleteUser (tk_uid u) w1) of Inl e \<Rightarrow> [SignInLeft (tk_uid u) e] | Inr _ \<Rightarrow> []))"
proof (cases "authenticate verify header")
  case (Inl r)
  then have "r_status r = 401" by (rule authenticate_Inl_401)
  moreover obtain st m where "r = Reply st (AuthError m)" by (metis auth_body.exhaust reply.exhaust)
  moreover have "\<nexists>tok u. header = Some (''Bearer '' @ tok) \<and> verify tok = Some u"
    using Inl authenticate_Inr [of verify header] by fastforce
  ultimately show thesis using Inl by (intro refused) (auto simp: delete_me_route_def signed_in_def)
next
  case (Inr u)
  then obtain tok where t: "header = Some (''Bearer '' @ tok)" "verify tok = Some u"
    by (auto simp: authenticate_Inr)
  show thesis
  proof (cases "truthy (tk_email u)")
    case False
    then show thesis using Inr t
      by (intro refused [of 400 "''Firebase account has no email''"]) (auto simp: delete_me_route_def signed_in_def)
  next
    case True
    then obtain m where m: "tk_email u = Some m" "m \<noteq> []" by (auto simp: truthy_def split: option.splits)
    obtain res w1 where h: "hasura_request server env amb (AnonymizeUser m (toISOString now)) None w = (res, w1)"
      by force
    show thesis
    proof (cases res)
      case (Inl e)
      then show thesis using Inr True m h t by (intro unchanged) (auto simp: delete_me_route_def signed_in_def)
    next
      case (Inr d)
      then show thesis using \<open>authenticate verify header = Inr u\<close> True m h t
        by (intro removed) (auto simp: delete_me_route_def signed_in_def split: prod.splits)
    qed
  qed
qed

text \<open>
  C17: Deleting an account never removes the sign-in before the personal data, and never loses the audit
  line silently. The route answers 200 exactly when the caller is a verified user with an e-mail
  address and Hasura confirmed the anonymisation of the row of that address. Only then, and after it,
  the Firebase account of that caller and of nobody else is asked to be deleted, and the changelog is
  asked for the entry under the caller's id: an entry of an earlier attempt is kept, a missing one is
  appended. If the changelog throws, or the deletion of the sign-in does, the route still answers 200
  and logs the uid. On the changelog service itself the line is there afterwards,
  with the uid and the reason and no e-mail address, for every uid but the empty one, which the service
  refuses. On any other status Firebase is not called and the changelog is untouched, so the request
  can be repeated.
\<close>

theorem account_deletion_safe:
  "(case delete_me_route verify server deleteUser port env amb now header (clog, w) of
      (Reply st b, (clog', w'), lg) \<Rightarrow>
      if st = 200 then
        (\<exists>tok u m d w1 del. header = Some (''Bearer '' @ tok) \<and> verify tok = Some u \<and> tk_email u = Some m \<and> m \<noteq> []
          \<and> hasura_request server env amb (AnonymizeUser m (toISOString now)) None w = (Inr d, w1)
          \<and> deleteUser (tk_uid u) w1 = (del, w')
          \<and> (\<exists>e. SignInLeft (tk_uid u) e \<in> set lg) = (\<exists>e. del = Inl e)
          \<and> (case cp_getEntry port (account_entry_id (tk_uid u)) clog of
                Inl e \<Rightarrow> clog' = clog \<and> AuditMissing (tk_uid u) e \<in> set lg
              | Inr (Some x) \<Rightarrow> clog' = clog \<and> (\<forall>a e. AuditMissing a e \<notin> set lg)
              | Inr None \<Rightarrow> (\<exists>r. cp_appendEntry port (account_entry (tk_uid u)) clog = (r, clog')
                  \<and> (case r of Inl e \<Rightarrow> AuditMissing (tk_uid u) e \<in> set lg
                     | Inr x \<Rightarrow> \<forall>a e. AuditMissing a e \<notin> set lg))))
      else clog' = clog \<and> lg = []
        \<and> (\<nexists>tok u m d w1. header = Some (''Bearer '' @ tok) \<and> verify tok = Some u \<and> tk_email u = Some m \<and> m \<noteq> []
            \<and> hasura_request server env amb (AnonymizeUser m (toISOString now)) None w = (Inr d, w1))
        \<and> (w' = w \<or> (\<exists>m e. hasura_request server env amb (AnonymizeUser m (toISOString now)) None w = (Inl e, w'))))
   \<and> (case delete_me_route verify server deleteUser (service_port amb now) env amb now header (store, w) of
      (Reply st b, (store', w'), lg) \<Rightarrow>
      if st = 200 then
        (\<exists>tok u. header = Some (''Bearer '' @ tok) \<and> verify tok = Some u
          \<and> (\<exists>e. AuditMissing (tk_uid u) e \<in> set lg)
              = (tk_uid u = [] \<and> getEntry (account_entry_id []) store = None)
          \<and> (if tk_uid u = [] then True else
               getEntry (account_entry_id (tk_uid u)) store' =
                 (case getEntry (account_entry_id (tk_uid u)) store of
                    Some e \<Rightarrow> Some e
                  | None \<Rightarrow> Some \<lparr>ce_entryId = account_entry_id (tk_uid u), ce_action = ''account.deleted'',
                      ce_actorId = tk_uid u, ce_resourceId = tk_uid u, ce_timestamp = now,
                      ce_metadata = Some [(''reason'', JStr ''user_request'')], ce_requestId = amb\<rparr>)))
      else store' = store)"
  (is "?any \<and> ?service")
proof
  show ?any
  proof (cases rule: delete_me_cases [of verify server deleteUser port env amb now header clog w])
    case (refused st m)
    then show ?thesis by auto
  next
    case (unchanged tok u m e w1)
    then show ?thesis by auto
  next
    case (removed tok u m d w1)
    obtain del w' where d: "deleteUser (tk_uid u) w1 = (del, w')" by force
    obtain r c where c: "cp_appendEntry port (account_entry (tk_uid u)) clog = (r, c)" by force
    show ?thesis
      unfolding removed(6) using removed(1-5) d c
      by (cases "cp_getEntry port (account_entry_id (tk_uid u)) clog"; cases del; cases r;
          auto simp: audit_deletion_def split: option.splits)
  qed
  show ?service
  proof (cases rule: delete_me_cases [of verify server deleteUser "service_port amb now" env amb now header store w])
    case (removed tok u m d w1)
    let ?a = "audit_deletion (service_port amb now) (tk_uid u) store"
    have f: "(fst ?a \<noteq> None) = (tk_uid u = [] \<and> getEntry (account_entry_id []) store = None)"
      by (cases "tk_uid u") (simp_all add: service_audit)
    have g: "(\<exists>e. AuditMissing (tk_uid u) e \<in> set
          ((case fst ?a of Some e \<Rightarrow> [AuditMissing (tk_uid u) e] | None \<Rightarrow> []) @
           (case fst (deleteUser (tk_uid u) w1) of Inl e \<Rightarrow> [SignInLeft (tk_uid u) e] | Inr _ \<Rightarrow> []))) = (fst ?a \<noteq> None)"
      by (cases "fst ?a"; cases "fst (deleteUser (tk_uid u) w1)") auto
    have h: "if tk_uid u = [] then True else getEntry (account_entry_id (tk_uid u)) (snd ?a) =
        (case getEntry (account_entry_id (tk_uid u)) store of Some e \<Rightarrow> Some e
         | None \<Rightarrow> Some (sealed_entry amb now (account_entry (tk_uid u))))"
      using service_audit_entry [of "tk_uid u" amb now store] by simp
    show ?thesis unfolding removed(6) using g h removed(1,2) f
      by (simp add: sealed_entry_def account_entry_def copy_metadata_def cong: option.case_cong)
  qed auto
qed

lemma delete_me_unconfigured:
  assumes "validateEnv parse raw = Some env"
  shows "r_status (fst (delete_me_route verify server deleteUser port env amb now header s)) \<noteq> 200"
proof -
  obtain e where "requireHasuraConfig env = Inl e" using hasura_never_configured [OF assms] by blast
  then show ?thesis
    by (auto simp: delete_me_route_def hasura_request_unconfigured signed_in_def authenticate_def
        split: prod.splits option.splits if_splits)
qed

end
