(* ===== verification/Client_Dispute.thy ===== *)
theory Client_Dispute
  imports Dispute_Properties
begin

text \<open>
  \<open>lib/dispute/dispute-state-machine.ts\<close> of the frontend: the client-side dispute machine, keyed by
  contract, with its own table. It is related to the backend's table at the end. Names that the
  backend's service also has carry the prefix \<open>client\<close>.
\<close>

datatype client_state = CsNone | CsOpen | CsEscalated | CsResolved | CsRefunded | CsReleased | CsWithdrawn

datatype client_action = CaOpen | CaEscalate | CaResolve | CaWithdraw

datatype resolve_outcome = BuyerWins | SellerWins | Split

definition TERMINAL_DISPUTE_STATES :: "client_state list" where
  "TERMINAL_DISPUTE_STATES = [CsResolved, CsRefunded, CsReleased, CsWithdrawn]"

record client_dispute =
  cd_contractId :: string
  cd_state :: client_state
  cd_openedAt :: "int option"
  cd_resolvedAt :: "int option"
  cd_openedBy :: string
  cd_resolvedBy :: "string option"
  cd_reason :: "string option"
  cd_outcome :: "resolve_outcome option"
  cd_txHashOpen :: "string option"
  cd_txHashResolve :: "string option"
  cd_escalationNote :: "string option"

datatype client_error =
    InvalidDisputeTransitionError string client_state client_action
  | DisputeNotFoundError string

fun resolveOutcomeToState :: "resolve_outcome option \<Rightarrow> client_state" where
  "resolveOutcomeToState (Some BuyerWins) = CsRefunded"
| "resolveOutcomeToState (Some SellerWins) = CsReleased"
| "resolveOutcomeToState v = CsResolved"

text \<open>A row maps an action to the target as a function of the outcome; constant except for \<open>resolve\<close>.\<close>

fun CLIENT_DISPUTE_TRANSITIONS ::
  "client_state \<Rightarrow> (client_action \<times> (resolve_outcome option \<Rightarrow> client_state)) list option" where
  "CLIENT_DISPUTE_TRANSITIONS CsNone = Some [(CaOpen, \<lambda>_. CsOpen)]"
| "CLIENT_DISPUTE_TRANSITIONS CsOpen =
     Some [(CaEscalate, \<lambda>_. CsEscalated), (CaResolve, resolveOutcomeToState), (CaWithdraw, \<lambda>_. CsWithdrawn)]"
| "CLIENT_DISPUTE_TRANSITIONS CsEscalated = Some [(CaResolve, resolveOutcomeToState)]"
| "CLIENT_DISPUTE_TRANSITIONS s = None"

definition isValidDisputeTransition :: "client_state \<Rightarrow> client_action \<Rightarrow> bool" where
  "isValidDisputeTransition state action =
     (if state \<in> set TERMINAL_DISPUTE_STATES then False
      else (case CLIENT_DISPUTE_TRANSITIONS state of
          None \<Rightarrow> False | Some row \<Rightarrow> action \<in> set (map fst row)))"

type_synonym client_store = "(string, client_dispute) jmap"

definition getDisputeState :: "string \<Rightarrow> client_store \<Rightarrow> client_state" where
  "getDisputeState c s = (case jm_get s c of None \<Rightarrow> CsNone | Some r \<Rightarrow> cd_state r)"

definition getDisputeRecord :: "string \<Rightarrow> client_store \<Rightarrow> client_dispute option" where
  "getDisputeRecord c s = jm_get s c"

definition assertTransition :: "string \<Rightarrow> client_action \<Rightarrow> client_store \<Rightarrow> client_error + unit" where
  "assertTransition c a s =
     (if \<not> isValidDisputeTransition (getDisputeState c s) a then
        Inl (InvalidDisputeTransitionError c (getDisputeState c s) a)
      else Inr ())"

definition requireRecord :: "string \<Rightarrow> client_store \<Rightarrow> client_error + client_dispute" where
  "requireRecord c s = (case jm_get s c of None \<Rightarrow> Inl (DisputeNotFoundError c) | Some r \<Rightarrow> Inr r)"

definition client_openDispute ::
  "int \<Rightarrow> string \<Rightarrow> string \<Rightarrow> string option \<Rightarrow> string option \<Rightarrow> client_store \<Rightarrow>
   (client_error + client_dispute) \<times> client_store" where
  "client_openDispute now c openedBy reason txHash s =
     (case assertTransition c CaOpen s of
        Inl e \<Rightarrow> (Inl e, s)
      | Inr _ \<Rightarrow>
          (let rcd = \<lparr>cd_contractId = c, cd_state = CsOpen, cd_openedAt = Some now, cd_resolvedAt = None,
                 cd_openedBy = openedBy, cd_resolvedBy = None, cd_reason = reason, cd_outcome = None,
                 cd_txHashOpen = txHash, cd_txHashResolve = None, cd_escalationNote = None\<rparr>
           in (Inr rcd, jm_set s c rcd)))"

text \<open>The other three operations: the guard, the record, the update.\<close>

definition client_move ::
  "string \<Rightarrow> client_action \<Rightarrow> (client_dispute \<Rightarrow> client_dispute) \<Rightarrow> client_store \<Rightarrow>
   (client_error + client_dispute) \<times> client_store" where
  "client_move c a upd s =
     (case assertTransition c a s of
        Inl e \<Rightarrow> (Inl e, s)
      | Inr _ \<Rightarrow>
          (case requireRecord c s of
             Inl e \<Rightarrow> (Inl e, s)
           | Inr rcd \<Rightarrow> (Inr (upd rcd), jm_set s c (upd rcd))))"

definition client_escalateDispute ::
  "string \<Rightarrow> string option \<Rightarrow> client_store \<Rightarrow> (client_error + client_dispute) \<times> client_store" where
  "client_escalateDispute c note =
     client_move c CaEscalate (\<lambda>r. r\<lparr>cd_state := CsEscalated, cd_escalationNote := note\<rparr>)"

definition client_resolveDispute ::
  "int \<Rightarrow> string \<Rightarrow> string \<Rightarrow> resolve_outcome option \<Rightarrow> string option \<Rightarrow> client_store \<Rightarrow>
   (client_error + client_dispute) \<times> client_store" where
  "client_resolveDispute now c resolvedBy outcome txHash =
     client_move c CaResolve (\<lambda>r. r\<lparr>cd_state := resolveOutcomeToState outcome, cd_resolvedAt := Some now,
       cd_resolvedBy := Some resolvedBy, cd_outcome := outcome, cd_txHashResolve := txHash\<rparr>)"

definition client_withdrawDispute ::
  "int \<Rightarrow> string \<Rightarrow> string \<Rightarrow> client_store \<Rightarrow> (client_error + client_dispute) \<times> client_store" where
  "client_withdrawDispute now c withdrawnBy =
     client_move c CaWithdraw (\<lambda>r. r\<lparr>cd_state := CsWithdrawn, cd_resolvedAt := Some now,
       cd_resolvedBy := Some withdrawnBy\<rparr>)"

definition registerDisputeRecord :: "client_dispute \<Rightarrow> client_store \<Rightarrow> client_store" where
  "registerDisputeRecord r s = jm_set s (cd_contractId r) r"

definition clearAllDisputes :: "client_store \<Rightarrow> client_store" where
  "clearAllDisputes s = []"

section \<open>Runs\<close>

datatype client_op =
    CoOpen int string "string option" "string option"
  | CoEscalate "string option"
  | CoResolve int string "resolve_outcome option" "string option"
  | CoWithdraw int string

fun client_apply :: "string \<Rightarrow> client_op \<Rightarrow> client_store \<Rightarrow> (client_error + client_dispute) \<times> client_store" where
  "client_apply c (CoOpen now u why tx) s = client_openDispute now c u why tx s"
| "client_apply c (CoEscalate note) s = client_escalateDispute c note s"
| "client_apply c (CoResolve now u out tx) s = client_resolveDispute now c u out tx s"
| "client_apply c (CoWithdraw now u) s = client_withdrawDispute now c u s"

fun client_run :: "(string \<times> client_op) list \<Rightarrow> client_store \<Rightarrow> client_store" where
  "client_run [] s = s"
| "client_run ((c, x) # xs) s = client_run xs (snd (client_apply c x s))"

text \<open>The backend's state and event for a client state and action; opening creates the record there.\<close>

fun backend_state :: "client_state \<Rightarrow> dispute_state option" where
  "backend_state CsNone = None"
| "backend_state CsOpen = Some OPEN"
| "backend_state CsEscalated = Some ESCALATED"
| "backend_state CsWithdrawn = Some WITHDRAWN"
| "backend_state s = Some RESOLVED"

fun backend_event :: "client_op \<Rightarrow> dispute_event option" where
  "backend_event (CoOpen _ _ _ _) = None"
| "backend_event (CoEscalate _) = Some Escalate"
| "backend_event (CoResolve _ _ _ _) = Some Resolve"
| "backend_event (CoWithdraw _ _) = Some Withdraw"

definition client_ok :: "client_dispute \<Rightarrow> bool" where
  "client_ok r =
     (cd_state r \<noteq> CsNone \<and> cd_openedAt r \<noteq> None \<and>
      (cd_state r \<in> set TERMINAL_DISPUTE_STATES \<longleftrightarrow> cd_resolvedAt r \<noteq> None) \<and>
      (cd_resolvedAt r \<noteq> None \<longleftrightarrow> cd_resolvedBy r \<noteq> None) \<and>
      (cd_state r \<in> {CsResolved, CsRefunded, CsReleased} \<longrightarrow> cd_state r = resolveOutcomeToState (cd_outcome r)) \<and>
      (cd_outcome r \<noteq> None \<longrightarrow> cd_state r \<in> {CsResolved, CsRefunded, CsReleased}))"

definition client_inv :: "client_store \<Rightarrow> bool" where
  "client_inv s = (\<forall>c r. jm_get s c = Some r \<longrightarrow> cd_contractId r = c \<and> client_ok r)"

lemmas client_op_defs = client_openDispute_def client_escalateDispute_def client_resolveDispute_def
  client_withdrawDispute_def client_move_def assertTransition_def requireRecord_def getDisputeState_def

lemma valid_moves [simp]:
  "isValidDisputeTransition st CaOpen = (st = CsNone)"
  "isValidDisputeTransition st CaEscalate = (st = CsOpen)"
  "isValidDisputeTransition st CaResolve = (st = CsOpen \<or> st = CsEscalated)"
  "isValidDisputeTransition st CaWithdraw = (st = CsOpen)"
  by (cases st; simp add: isValidDisputeTransition_def TERMINAL_DISPUTE_STATES_def)+

lemma outcome_terminal [simp]:
  "resolveOutcomeToState out \<in> {CsResolved, CsRefunded, CsReleased}"
  by (cases out rule: resolveOutcomeToState.cases) auto

lemma client_move_Inr:
  assumes "client_move c a upd s = (Inr r, t)"
  obtains q where "jm_get s c = Some q" "isValidDisputeTransition (cd_state q) a" "r = upd q" "t = jm_set s c r"
proof (cases "jm_get s c")
  case None
  then show ?thesis using assms
    by (auto simp: client_move_def requireRecord_def split: sum.splits)
next
  case (Some q)
  then show ?thesis using assms that
    by (auto simp: client_move_def assertTransition_def requireRecord_def getDisputeState_def split: if_splits)
qed

lemma client_apply_ok:
  assumes inv: "client_inv s" and ok: "client_apply c x s = (Inr r, t)"
  shows "t = jm_set s c r \<and> cd_contractId r = c \<and> client_ok r"
proof -
  have got: "cd_contractId q = c \<and> client_ok q" if "jm_get s c = Some q" for q
    using inv that by (auto simp: client_inv_def)
  show ?thesis
  proof (cases x)
    case (CoOpen now u why tx)
    then show ?thesis using ok
      by (auto simp: client_openDispute_def assertTransition_def client_ok_def TERMINAL_DISPUTE_STATES_def
          Let_def split: if_splits)
  next
    case (CoEscalate nt)
    with ok obtain q where q: "jm_get s c = Some q" "isValidDisputeTransition (cd_state q) CaEscalate"
      "r = q\<lparr>cd_state := CsEscalated, cd_escalationNote := nt\<rparr>" "t = jm_set s c r"
      by (auto simp: client_escalateDispute_def elim!: client_move_Inr)
    from got [OF q(1)] q show ?thesis
      by (auto simp: client_ok_def TERMINAL_DISPUTE_STATES_def)
  next
    case (CoResolve now u out tx)
    with ok obtain q where q: "jm_get s c = Some q" "isValidDisputeTransition (cd_state q) CaResolve"
      "r = q\<lparr>cd_state := resolveOutcomeToState out, cd_resolvedAt := Some now,
        cd_resolvedBy := Some u, cd_outcome := out, cd_txHashResolve := tx\<rparr>" "t = jm_set s c r"
      by (auto simp: client_resolveDispute_def elim!: client_move_Inr)
    from got [OF q(1)] q show ?thesis
      by (cases out rule: resolveOutcomeToState.cases) (auto simp: client_ok_def TERMINAL_DISPUTE_STATES_def)
  next
    case (CoWithdraw now u)
    with ok obtain q where q: "jm_get s c = Some q" "isValidDisputeTransition (cd_state q) CaWithdraw"
      "r = q\<lparr>cd_state := CsWithdrawn, cd_resolvedAt := Some now, cd_resolvedBy := Some u\<rparr>" "t = jm_set s c r"
      by (auto simp: client_withdrawDispute_def elim!: client_move_Inr)
    from got [OF q(1)] q show ?thesis
      by (auto simp: client_ok_def TERMINAL_DISPUTE_STATES_def)
  qed
qed

lemma client_apply_fail: "client_apply c x s = (Inl e, t) \<Longrightarrow> t = s"
  by (cases x)
    (auto simp: client_openDispute_def client_escalateDispute_def client_resolveDispute_def
      client_withdrawDispute_def client_move_def Let_def split: sum.splits)

lemma client_apply_inv: "client_inv s \<Longrightarrow> client_inv (snd (client_apply c x s))"
proof -
  assume inv: "client_inv s"
  obtain res t where r: "client_apply c x s = (res, t)" using prod.exhaust by blast
  show ?thesis
  proof (cases res)
    case (Inl e)
    then show ?thesis using r inv client_apply_fail by fastforce
  next
    case (Inr q)
    then show ?thesis using r inv client_apply_ok [OF inv, of c x q t] by (auto simp: client_inv_def)
  qed
qed

lemma client_run_inv: "client_inv s \<Longrightarrow> client_inv (client_run xs s)"
  by (induction xs s rule: client_run.induct) (auto intro: client_apply_inv)

section \<open>Client and server machines\<close>

lemma resolveTransition_simps [simp]:
  "resolveTransition OPEN Escalate = Some ESCALATED" "resolveTransition OPEN Resolve = Some RESOLVED"
  "resolveTransition OPEN Withdraw = Some WITHDRAWN" "resolveTransition ESCALATED Escalate = None"
  "resolveTransition ESCALATED Resolve = Some RESOLVED" "resolveTransition ESCALATED Withdraw = Some WITHDRAWN"
  "resolveTransition RESOLVED ev = None" "resolveTransition WITHDRAWN ev = None"
  by (simp_all add: resolveTransition_def)

text \<open>A move of the client succeeds exactly on a state whose row has the action.\<close>

lemma client_apply_move:
  assumes "backend_event x \<noteq> None" and "getDisputeState c s \<noteq> CsNone"
  shows "client_apply c x s =
    (case x of
       CoOpen now u why tx \<Rightarrow> client_openDispute now c u why tx s
     | CoEscalate n \<Rightarrow> client_escalateDispute c n s
     | CoResolve now u out tx \<Rightarrow> client_resolveDispute now c u out tx s
     | CoWithdraw now u \<Rightarrow> client_withdrawDispute now c u s)"
    and "\<exists>q. jm_get s c = Some q \<and> cd_state q = getDisputeState c s"
  using assms by (cases x; auto simp: getDisputeState_def split: option.splits)+

lemma backend_resolved [simp]: "backend_state (resolveOutcomeToState out) = Some RESOLVED"
  by (cases out rule: resolveOutcomeToState.cases) simp_all

text \<open>
  C6: The client's dispute machine and the backend's agree, but for one move. For a contract with a
  dispute, whatever the client lets through the backend lets through too, into the corresponding
  state (the three outcomes of a resolution are all RESOLVED there); what the client refuses the
  backend refuses as well, except for the withdrawal of an escalated dispute, which the backend's
  table allows and the client rejects.
\<close>

theorem client_backend_agree:
  assumes "client_apply c x s = (res, t)" and "backend_state (getDisputeState c s) = Some st"
    and "backend_event x = Some ev"
  shows "(case res of
        Inr r \<Rightarrow> resolveTransition st ev = backend_state (getDisputeState c t) \<and> cd_state r = getDisputeState c t
      | Inl e \<Rightarrow> t = s)
    \<and> (isl res \<longleftrightarrow> resolveTransition st ev = None \<or> (st = ESCALATED \<and> ev = Withdraw))"
proof -
  have "getDisputeState c s \<noteq> CsNone" using assms(2) by auto
  then obtain q where q: "jm_get s c = Some q" "cd_state q = getDisputeState c s"
    using client_apply_move(2) [of x c s] assms(3) by auto
  then have st: "backend_state (cd_state q) = Some st" using assms(2) by simp
  show ?thesis
    using assms(1,3) q(1) st
    by (cases x; cases "cd_state q")
      (auto simp: client_op_defs TERMINAL_DISPUTE_STATES_def)
qed

theorem client_backend_agree_witness:
  "resolveTransition ESCALATED Withdraw = Some WITHDRAWN
   \<and> isl (fst (client_apply ''C1'' (CoWithdraw 9 ''GB'')
        (client_run [(''C1'', CoOpen 3 ''GB'' None None), (''C1'', CoEscalate None)] [])))"
proof -
  let ?s = "client_run [(''C1'', CoOpen 3 ''GB'' None None), (''C1'', CoEscalate None)] []"
  obtain res t where r: "client_apply ''C1'' (CoWithdraw 9 ''GB'') ?s = (res, t)" using prod.exhaust by blast
  have "backend_state (getDisputeState ''C1'' ?s) = Some ESCALATED"
    by (simp add: client_op_defs Let_def)
  from client_backend_agree [OF r this] show ?thesis unfolding r by simp
qed

end
