(* ===== verification/Client_Escrow.thy ===== *)
theory Client_Escrow
  imports App_Error Contracts
begin

text \<open>
  The frontend's session stores \<open>lib/refund/refund-idempotency.ts\<close> and
  \<open>lib/transfer/atomic-transfer.ts\<close>. Each is a module-level map keyed by the contract. Dates
  are times in milliseconds; names that the backend's services also have carry the prefix \<open>client\<close>.
\<close>

section \<open>Refund claims\<close>

record refund_claim =
  rc_contractId :: string
  rc_claimedAt :: int
  rc_claimedBy :: string
  rc_txHash :: "string option"

datatype client_refund_error =
    RefundAlreadyClaimedError string int
  | NoRefundClaim string

type_synonym claim_store = "(string, refund_claim) jmap"

definition isRefundAlreadyClaimed :: "string \<Rightarrow> claim_store \<Rightarrow> bool" where
  "isRefundAlreadyClaimed c s = jm_has s c"

definition getRefundClaimRecord :: "string \<Rightarrow> claim_store \<Rightarrow> refund_claim option" where
  "getRefundClaimRecord c s = jm_get s c"

definition markRefundClaimed ::
  "int \<Rightarrow> string \<Rightarrow> string \<Rightarrow> bool \<Rightarrow> string option \<Rightarrow> claim_store \<Rightarrow>
   (client_refund_error + refund_claim) \<times> claim_store" where
  "markRefundClaimed now c claimedBy allowReset txHash s =
     (let existing = jm_get s c in
      if existing \<noteq> None \<and> \<not> allowReset then
        (Inl (RefundAlreadyClaimedError c (rc_claimedAt (the existing))), s)
      else
        (let rcd = \<lparr>rc_contractId = c,
               rc_claimedAt = (case existing of None \<Rightarrow> now | Some e \<Rightarrow> rc_claimedAt e),
               rc_claimedBy = claimedBy,
               rc_txHash = coalesce txHash (case existing of None \<Rightarrow> None | Some e \<Rightarrow> rc_txHash e)\<rparr>
         in (Inr rcd, jm_set s c rcd)))"

definition client_claimRefund ::
  "int \<Rightarrow> string \<Rightarrow> string \<Rightarrow> claim_store \<Rightarrow> (client_refund_error + refund_claim) \<times> claim_store" where
  "client_claimRefund now c claimedBy s = (case jm_get s c of
       Some e \<Rightarrow> (Inl (RefundAlreadyClaimedError c (rc_claimedAt e)), s)
     | None \<Rightarrow>
         (let rcd = \<lparr>rc_contractId = c, rc_claimedAt = now, rc_claimedBy = claimedBy, rc_txHash = None\<rparr>
          in (Inr rcd, jm_set s c rcd)))"

definition updateRefundTxHash ::
  "string \<Rightarrow> string \<Rightarrow> claim_store \<Rightarrow> (client_refund_error + unit) \<times> claim_store" where
  "updateRefundTxHash c txHash s = (case jm_get s c of
       None \<Rightarrow> (Inl (NoRefundClaim c), s)
     | Some r \<Rightarrow> (Inr (), jm_set s c (r\<lparr>rc_txHash := Some txHash\<rparr>)))"

definition clearRefundClaim :: "string \<Rightarrow> claim_store \<Rightarrow> bool \<times> claim_store" where
  "clearRefundClaim c s = (jm_has s c, jm_delete s c)"

definition clearAllRefundClaims :: "claim_store \<Rightarrow> claim_store" where
  "clearAllRefundClaims s = []"

definition getAllRefundClaimRecords :: "claim_store \<Rightarrow> refund_claim list" where
  "getAllRefundClaimRecords s = jm_values s"

section \<open>Refund confirmations\<close>

record refund_details =
  rd_amount :: string
  rd_asset :: string
  rd_destination :: string

record refund_confirmation =
  rf_contractId :: string
  rf_details :: refund_details
  rf_confirmedAt :: int
  rf_confirmedBy :: string

type_synonym confirmation_store = "(string, refund_confirmation) jmap"

definition confirmRefundDetails ::
  "int \<Rightarrow> string \<Rightarrow> refund_details \<Rightarrow> string \<Rightarrow> confirmation_store \<Rightarrow> refund_confirmation \<times> confirmation_store" where
  "confirmRefundDetails now c details confirmedBy s =
     (let rcd = \<lparr>rf_contractId = c, rf_details = details, rf_confirmedAt = now, rf_confirmedBy = confirmedBy\<rparr>
      in (rcd, jm_set s c rcd))"

definition getRefundConfirmation :: "string \<Rightarrow> confirmation_store \<Rightarrow> refund_confirmation option" where
  "getRefundConfirmation c s = jm_get s c"

text \<open>\<open>Inl c\<close> is \<open>RefundConfirmationRequiredError\<close>.\<close>

definition assertRefundConfirmed :: "string \<Rightarrow> confirmation_store \<Rightarrow> string + refund_confirmation" where
  "assertRefundConfirmed c s = (case jm_get s c of None \<Rightarrow> Inl c | Some r \<Rightarrow> Inr r)"

definition clearRefundConfirmation :: "string \<Rightarrow> confirmation_store \<Rightarrow> bool \<times> confirmation_store" where
  "clearRefundConfirmation c s = (jm_has s c, jm_delete s c)"

definition clearAllRefundConfirmations :: "confirmation_store \<Rightarrow> confirmation_store" where
  "clearAllRefundConfirmations s = []"

section \<open>Ownership transfers\<close>

datatype client_transfer_state = CtIdle | CtPending | CtCompleted | CtCancelled

record client_transfer =
  ct_contractId :: string
  ct_fromAddress :: string
  ct_toAddress :: string
  ct_state :: client_transfer_state
  ct_initiatedAt :: int
  ct_resolvedAt :: "int option"
  ct_txHashInitiate :: "string option"
  ct_txHashResolve :: "string option"

datatype client_transfer_error =
    TransferConflictError string client_transfer_state string
  | ConcurrentTransferError string

type_synonym transfer_records = "(string, client_transfer) jmap"

definition getTransferRecord :: "string \<Rightarrow> transfer_records \<Rightarrow> client_transfer option" where
  "getTransferRecord c s = jm_get s c"

definition getTransferState :: "string \<Rightarrow> transfer_records \<Rightarrow> client_transfer_state" where
  "getTransferState c s = (case jm_get s c of None \<Rightarrow> CtIdle | Some r \<Rightarrow> ct_state r)"

definition requireTransferRecord :: "string \<Rightarrow> transfer_records \<Rightarrow> client_transfer_error + client_transfer" where
  "requireTransferRecord c s = (case jm_get s c of
       None \<Rightarrow> Inl (TransferConflictError c CtIdle ''resolve'') | Some r \<Rightarrow> Inr r)"

definition client_initiateTransfer ::
  "int \<Rightarrow> string \<Rightarrow> string \<Rightarrow> string \<Rightarrow> string option \<Rightarrow> transfer_records \<Rightarrow>
   (client_transfer_error + client_transfer) \<times> transfer_records" where
  "client_initiateTransfer now c fromAddress toAddress txHash s =
     (let existing = jm_get s c in
      if map_option ct_state existing = Some CtPending then (Inl (ConcurrentTransferError c), s)
      else if map_option ct_state existing \<in> {Some CtCompleted, Some CtCancelled} then
        (Inl (TransferConflictError c (ct_state (the existing)) ''initiate''), s)
      else
        (let rcd = \<lparr>ct_contractId = c, ct_fromAddress = fromAddress, ct_toAddress = toAddress,
               ct_state = CtPending, ct_initiatedAt = now, ct_resolvedAt = None,
               ct_txHashInitiate = txHash, ct_txHashResolve = None\<rparr>
         in (Inr rcd, jm_set s c rcd)))"

text \<open>\<open>acceptTransfer\<close> and \<open>cancelTransfer\<close> differ in the target state and the action named in the error.\<close>

definition settleTransfer ::
  "client_transfer_state \<Rightarrow> string \<Rightarrow> int \<Rightarrow> string \<Rightarrow> string option \<Rightarrow> transfer_records \<Rightarrow>
   (client_transfer_error + client_transfer) \<times> transfer_records" where
  "settleTransfer target action now c txHash s =
     (case requireTransferRecord c s of
        Inl e \<Rightarrow> (Inl e, s)
      | Inr r \<Rightarrow>
          if ct_state r \<noteq> CtPending then (Inl (TransferConflictError c (ct_state r) action), s)
          else
            (let updated = r\<lparr>ct_state := target, ct_resolvedAt := Some now, ct_txHashResolve := txHash\<rparr>
             in (Inr updated, jm_set s c updated)))"

definition client_acceptTransfer ::
  "int \<Rightarrow> string \<Rightarrow> string option \<Rightarrow> transfer_records \<Rightarrow>
   (client_transfer_error + client_transfer) \<times> transfer_records" where
  "client_acceptTransfer = settleTransfer CtCompleted ''accept''"

definition client_cancelTransfer ::
  "int \<Rightarrow> string \<Rightarrow> string option \<Rightarrow> transfer_records \<Rightarrow>
   (client_transfer_error + client_transfer) \<times> transfer_records" where
  "client_cancelTransfer = settleTransfer CtCancelled ''cancel''"

definition registerTransfer :: "client_transfer \<Rightarrow> transfer_records \<Rightarrow> transfer_records" where
  "registerTransfer r s = jm_set s (ct_contractId r) r"

definition resetTransfer :: "string \<Rightarrow> transfer_records \<Rightarrow> bool \<times> transfer_records" where
  "resetTransfer c s = (jm_has s c, jm_delete s c)"

definition clearAllTransfers :: "transfer_records \<Rightarrow> transfer_records" where
  "clearAllTransfers s = []"

section \<open>Runs of a session\<close>

datatype claim_op =
    ClMark int string string bool "string option"
  | ClClaim int string string
  | ClTxHash string string
  | ClClear string

fun claim_apply :: "claim_op \<Rightarrow> claim_store \<Rightarrow> claim_store" where
  "claim_apply (ClMark now c who allowReset tx) s = snd (markRefundClaimed now c who allowReset tx s)"
| "claim_apply (ClClaim now c who) s = snd (client_claimRefund now c who s)"
| "claim_apply (ClTxHash c tx) s = snd (updateRefundTxHash c tx s)"
| "claim_apply (ClClear c) s = snd (clearRefundClaim c s)"

fun claim_run :: "claim_op list \<Rightarrow> claim_store \<Rightarrow> claim_store" where
  "claim_run [] s = s"
| "claim_run (x # xs) s = claim_run xs (claim_apply x s)"

text \<open>The claims that succeed for a contract, among the operations of a run.\<close>

fun successful_claims :: "string \<Rightarrow> claim_op list \<Rightarrow> claim_store \<Rightarrow> nat" where
  "successful_claims c [] s = 0"
| "successful_claims c (x # xs) s =
     (case x of
        ClClaim now d who \<Rightarrow> if d = c \<and> \<not> isl (fst (client_claimRefund now d who s)) then 1 else 0
      | ClMark now d who allowReset tx \<Rightarrow>
          if d = c \<and> \<not> allowReset \<and> \<not> isl (fst (markRefundClaimed now d who allowReset tx s)) then 1 else 0
      | _ \<Rightarrow> 0) + successful_claims c xs (claim_apply x s)"

fun clears :: "string \<Rightarrow> claim_op list \<Rightarrow> nat" where
  "clears c [] = 0"
| "clears c (x # xs) = (if x = ClClear c then 1 else 0) + clears c xs"

lemma claim_apply_claimedAt:
  "jm_get s c = Some r \<Longrightarrow> x \<noteq> ClClear c \<Longrightarrow>
   \<exists>r'. jm_get (claim_apply x s) c = Some r' \<and> rc_claimedAt r' = rc_claimedAt r"
  by (cases x)
    (auto simp: markRefundClaimed_def client_claimRefund_def updateRefundTxHash_def clearRefundClaim_def Let_def
      split: option.splits)

lemma claimed_no_success:
  assumes "jm_get s c = Some r"
  shows "client_claimRefund now c who s = (Inl (RefundAlreadyClaimedError c (rc_claimedAt r)), s)"
    and "markRefundClaimed now c who False tx s = (Inl (RefundAlreadyClaimedError c (rc_claimedAt r)), s)"
  using assms by (simp_all add: client_claimRefund_def markRefundClaimed_def)

text \<open>
  Within a session a refund is claimed at most once per reset. In any run of claims, forced or
  unforced marks, hash updates and clearings, the claims (and unforced marks) that succeed for a
  contract are at most one more than the clearings of it, and none more when the contract was claimed
  at the start; without a clearing the time of the first claim is kept, whatever a forced mark
  overwrites, and every later claim is refused with that time.
\<close>

theorem client_claim_sticky:
  "successful_claims c xs s \<le> clears c xs + (if jm_has s c then 0 else 1)
   \<and> (if clears c xs = 0 then
        (case jm_get s c of
           None \<Rightarrow> True
         | Some r \<Rightarrow> fst (client_claimRefund now c who (claim_run xs s))
             = Inl (RefundAlreadyClaimedError c (rc_claimedAt r)))
      else True)"
proof (induction xs arbitrary: s)
  case Nil
  then show ?case by (auto simp: claimed_no_success split: option.splits)
next
  case (Cons x xs)
  let ?t = "claim_apply x s"
  let ?now = "case x of
        ClClaim now d who \<Rightarrow> if d = c \<and> \<not> isl (fst (client_claimRefund now d who s)) then 1 else 0
      | ClMark now d who allowReset tx \<Rightarrow>
          if d = c \<and> \<not> allowReset \<and> \<not> isl (fst (markRefundClaimed now d who allowReset tx s)) then 1 else 0
      | _ \<Rightarrow> (0 :: nat)"
  have one: "?now + (if jm_has ?t c then 0 else 1)
      \<le> (if x = ClClear c then 1 else 0) + (if jm_has s c then 0 else (1 :: nat))"
    by (cases x; cases "jm_get s c")
      (auto simp: markRefundClaimed_def client_claimRefund_def updateRefundTxHash_def clearRefundClaim_def Let_def
        jm_has_def split: option.splits)
  have keep: "\<exists>r'. jm_get ?t c = Some r' \<and> rc_claimedAt r' = rc_claimedAt r"
    if "jm_get s c = Some r" "x \<noteq> ClClear c" for r
    using claim_apply_claimedAt that by blast
  show ?case
  proof
    show "successful_claims c (x # xs) s \<le> clears c (x # xs) + (if jm_has s c then 0 else 1)"
      using one Cons [of ?t] by simp
    show "if clears c (x # xs) = 0 then
        (case jm_get s c of None \<Rightarrow> True
         | Some r \<Rightarrow> fst (client_claimRefund now c who (claim_run (x # xs) s))
             = Inl (RefundAlreadyClaimedError c (rc_claimedAt r)))
      else True"
      using Cons [of ?t] keep by (auto split: option.splits if_splits)
  qed
qed

section \<open>Transfers as a life cycle\<close>

datatype transfer_event = TeInitiate int string string "string option" | TeAccept int "string option" | TeCancel int "string option"

text \<open>The record of one contract as a function of the event; \<open>None\<close> is a refusal.\<close>

definition transfer_next :: "client_transfer option \<Rightarrow> transfer_event \<Rightarrow> client_transfer option option" where
  "transfer_next cur ev =
     (let s = (case cur of None \<Rightarrow> [] | Some r \<Rightarrow> [(ct_contractId r, r)]); c = (case cur of None \<Rightarrow> [] | Some r \<Rightarrow> ct_contractId r);
          (res, t) = (case ev of
            TeInitiate now a b tx \<Rightarrow> client_initiateTransfer now c a b tx s
          | TeAccept now tx \<Rightarrow> client_acceptTransfer now c tx s
          | TeCancel now tx \<Rightarrow> client_cancelTransfer now c tx s)
      in case res of Inl _ \<Rightarrow> None | Inr r \<Rightarrow> Some (Some r))"

definition transfer_settled :: "client_transfer option \<Rightarrow> bool" where
  "transfer_settled cur = (map_option ct_state cur \<in> {Some CtCompleted, Some CtCancelled})"

fun transfer_rank :: "client_transfer option \<Rightarrow> nat" where
  "transfer_rank None = 2"
| "transfer_rank (Some r) = (case ct_state r of CtIdle \<Rightarrow> 2 | CtPending \<Rightarrow> 1 | _ \<Rightarrow> 0)"

interpretation client_cycle: life_cycle transfer_next transfer_settled transfer_rank
proof
  fix cur ev
  show "transfer_settled cur \<Longrightarrow> transfer_next cur ev = None"
    by (cases cur; cases ev)
      (auto simp: transfer_settled_def transfer_next_def client_initiateTransfer_def client_acceptTransfer_def
        client_cancelTransfer_def settleTransfer_def requireTransferRecord_def Let_def)
next
  fix cur ev nw
  show "transfer_next cur ev = Some nw \<Longrightarrow> transfer_rank nw < transfer_rank cur"
    by (cases cur; cases ev)
      (auto simp: transfer_next_def client_initiateTransfer_def client_acceptTransfer_def
        client_cancelTransfer_def settleTransfer_def requireTransferRecord_def Let_def
        split: if_splits client_transfer_state.splits)
qed

text \<open>Without a reset, a contract takes at most an initiation and one settlement, and then nothing.\<close>

lemma client_transfer_bounded:
  "accepted transfer_next None evs \<le> 2"
  "transfer_settled cur \<Longrightarrow> run_skip transfer_next cur evs = cur"
  using client_cycle.accepted_bound [of None evs] client_cycle.final_forever by simp_all

end
