(* ===== verification/Edge_Middleware.thy ===== *)
theory Edge_Middleware
  imports Js_Map
begin

text \<open>
  \<open>lib/rate-limit.ts\<close> and \<open>middleware.ts\<close> of the frontend: the fixed-window rate limiter of the
  authentication proxy routes and the guard of the dashboard pages. Header and cookie lookups are the
  arguments of the definitions; a response is a value.
\<close>

section \<open>The rate limiter\<close>

record rate_rule =
  ru_limit :: nat
  ru_windowMs :: int

record rate_result =
  rs_allowed :: bool
  rs_remaining :: nat
  rs_retryAfter :: int

definition AUTH_ROUTE_RULES :: "(string \<times> rate_rule) list" where
  "AUTH_ROUTE_RULES =
     [(''/api/auth/forgot-password'', \<lparr>ru_limit = 5, ru_windowMs = 60000\<rparr>),
      (''/api/auth/reset-password'', \<lparr>ru_limit = 5, ru_windowMs = 60000\<rparr>),
      (''/api/auth/validate-reset-token'', \<lparr>ru_limit = 10, ru_windowMs = 60000\<rparr>),
      (''/api/auth/sync-user'', \<lparr>ru_limit = 20, ru_windowMs = 60000\<rparr>)]"

definition DEFAULT_AUTH_RULE :: rate_rule where
  "DEFAULT_AUTH_RULE = \<lparr>ru_limit = 10, ru_windowMs = 60000\<rparr>"

definition MAX_TRACKED_KEYS :: nat where "MAX_TRACKED_KEYS = 10000"

record hit =
  ht_count :: nat
  ht_resetAt :: int

type_synonym hits = "(string, hit) jmap"

definition strip_slash :: "string \<Rightarrow> string" where
  "strip_slash s = (if s \<noteq> [] \<and> last s = CHR ''/'' then butlast s else s)"

definition getRuleForPath :: "string \<Rightarrow> rate_rule" where
  "getRuleForPath pathname = (case map_of AUTH_ROUTE_RULES (strip_slash pathname) of
       None \<Rightarrow> DEFAULT_AUTH_RULE | Some r \<Rightarrow> r)"

definition getClientIp :: "(string \<Rightarrow> string option) \<Rightarrow> string" where
  "getClientIp headers =
     (let forwarded = map_option (\<lambda>v. trim (hd (split_on (CHR '','') v))) (headers ''x-forwarded-for'') in
      if truthy forwarded then the forwarded
      else if truthy (headers ''x-real-ip'') then the (headers ''x-real-ip'')
      else ''unknown'')"

definition prune :: "int \<Rightarrow> hits \<Rightarrow> hits" where
  "prune now hits =
     (let live = filter (\<lambda>(k, e). \<not> ht_resetAt e \<le> now) hits in
      if length live \<ge> MAX_TRACKED_KEYS then drop (length live - MAX_TRACKED_KEYS + 1) live else live)"

definition checkRateLimit :: "string \<Rightarrow> rate_rule \<Rightarrow> int \<Rightarrow> hits \<Rightarrow> rate_result \<times> hits" where
  "checkRateLimit key rule now hits =
     (let entry0 = jm_get hits key;
          fresh = (case entry0 of None \<Rightarrow> True | Some e \<Rightarrow> ht_resetAt e \<le> now);
          hits1 = (if entry0 = None \<and> length hits \<ge> MAX_TRACKED_KEYS then prune now hits else hits);
          entry = (if fresh then \<lparr>ht_count = 0, ht_resetAt = now + ru_windowMs rule\<rparr> else the entry0);
          entry' = entry\<lparr>ht_count := ht_count entry + 1\<rparr>
      in (\<lparr>rs_allowed = (ht_count entry' \<le> ru_limit rule),
            rs_remaining = ru_limit rule - ht_count entry',
            rs_retryAfter = max 1 (- ((- (ht_resetAt entry' - now)) div 1000))\<rparr>,
          jm_set hits1 key entry'))"

section \<open>The dashboard guard\<close>

definition PUBLIC_DASHBOARD_PATHS :: "string list" where
  "PUBLIC_DASHBOARD_PATHS = [''/dashboard/event'', ''/dashboard/event/payment'', ''/dashboard/event/details'',
     ''/dashboard/event/search'', ''/dashboard/event/escrow'', ''/dashboard/event/create-escrow'']"

definition ROLE_RESTRICTED_PATHS :: "(string \<times> string) list" where
  "ROLE_RESTRICTED_PATHS = [(''/dashboard/manager'', ''manager''), (''/dashboard/users'', ''admin''),
     (''/dashboard/admin'', ''admin'')]"

definition under_path :: "string \<Rightarrow> string \<Rightarrow> bool" where
  "under_path pathname p = (pathname = p \<or> startsWith pathname (p @ ''/''))"

text \<open>The regular expression of the booking pages: a non-empty middle without line breaks.\<close>

definition booking_escrow_path :: "string \<Rightarrow> bool" where
  "booking_escrow_path pathname =
     (let pre = ''/dashboard/event/booking/''; suf = ''/escrow'';
          middle = take (length pathname - length pre - length suf) (drop (length pre) pathname)
      in length pre + length suf < length pathname \<and> startsWith pathname pre \<and>
         drop (length pathname - length suf) pathname = suf \<and>
         list_all (\<lambda>c. c \<noteq> CHR 0x0A \<and> c \<noteq> CHR 0x0D) middle)"

definition isPublicDashboardPath :: "string \<Rightarrow> bool" where
  "isPublicDashboardPath pathname =
     (list_ex (under_path pathname) PUBLIC_DASHBOARD_PATHS \<or> booking_escrow_path pathname)"

datatype edge_response =
    EdgeNext
  | EdgeTooMany int
  | RedirectLogin string
  | RedirectDashboard

record edge_request =
  eq_pathname :: string
  eq_headers :: "string \<Rightarrow> string option"
  eq_session :: "string option"
  eq_role :: "string option"

fun role_check :: "string \<Rightarrow> string \<Rightarrow> (string \<times> string) list \<Rightarrow> edge_response" where
  "role_check pathname roleCookie [] = EdgeNext"
| "role_check pathname roleCookie ((p, requiredRole) # r) =
     (if under_path pathname p \<and> roleCookie \<noteq> requiredRole then RedirectDashboard
      else role_check pathname roleCookie r)"

definition edge_middleware :: "int \<Rightarrow> edge_request \<Rightarrow> hits \<Rightarrow> edge_response \<times> hits" where
  "edge_middleware now req hits =
     (let pathname = eq_pathname req in
      if startsWith pathname ''/api/auth'' then
        (let (result, hits') = checkRateLimit (getClientIp (eq_headers req) @ '':'' @ pathname)
               (getRuleForPath pathname) now hits
         in (if \<not> rs_allowed result then EdgeTooMany (rs_retryAfter result) else EdgeNext, hits'))
      else if \<not> startsWith pathname ''/dashboard'' then (EdgeNext, hits)
      else if isPublicDashboardPath pathname then (EdgeNext, hits)
      else if \<not> truthy (eq_session req) then (RedirectLogin pathname, hits)
      else
        (role_check pathname (case eq_role req of None \<Rightarrow> [] | Some r \<Rightarrow> r) ROLE_RESTRICTED_PATHS, hits))"

section \<open>What the guard lets through\<close>

lemma role_check_next:
  "role_check pathname role rs = EdgeNext \<longleftrightarrow> (\<forall>(p, r) \<in> set rs. under_path pathname p \<longrightarrow> role = r)"
  by (induction rs) (auto split: if_splits)

text \<open>
  A dashboard page is served exactly to those who may see it. A request for a page under
  \<open>/dashboard\<close> passes iff the page is public or the request carries a session cookie and, for a
  restricted page, the role that page requires; without a session it is redirected to the login page
  that leads back to it. The limiter's counters are untouched.
\<close>

theorem edge_guard_exact:
  assumes "startsWith (eq_pathname req) ''/dashboard''"
  shows "(fst (edge_middleware now req hits) = EdgeNext \<longleftrightarrow>
      isPublicDashboardPath (eq_pathname req) \<or>
      (truthy (eq_session req) \<and>
       (\<forall>(p, r) \<in> set ROLE_RESTRICTED_PATHS.
          under_path (eq_pathname req) p \<longrightarrow> (case eq_role req of None \<Rightarrow> [] | Some x \<Rightarrow> x) = r)))
    \<and> (\<not> isPublicDashboardPath (eq_pathname req) \<and> \<not> truthy (eq_session req) \<longrightarrow>
        fst (edge_middleware now req hits) = RedirectLogin (eq_pathname req))
    \<and> snd (edge_middleware now req hits) = hits"
proof -
  have "\<not> startsWith (eq_pathname req) ''/api/auth''"
    using assms by (auto simp: startsWith_iff)
  then show ?thesis using assms
    by (simp add: edge_middleware_def role_check_next Let_def)
qed

theorem edge_guard_exact_witness:
  "fst (edge_middleware 0 \<lparr>eq_pathname = ''/dashboard/admin/users'', eq_headers = \<lambda>h. None,
      eq_session = Some ''s'', eq_role = Some ''manager''\<rparr> []) \<noteq> EdgeNext"
proof -
  let ?r = "\<lparr>eq_pathname = ''/dashboard/admin/users'', eq_headers = \<lambda>h. None,
      eq_session = Some ''s'', eq_role = Some ''manager''\<rparr>"
  have "startsWith (eq_pathname ?r) ''/dashboard''" by (simp add: startsWith_def)
  moreover have "\<not> isPublicDashboardPath ''/dashboard/admin/users''" by code_simp
  moreover have "under_path ''/dashboard/admin/users'' ''/dashboard/admin''" by code_simp
  ultimately show ?thesis using edge_guard_exact [of ?r 0 "[]"] by (auto simp: ROLE_RESTRICTED_PATHS_def)
qed

section \<open>How many requests a window allows\<close>

text \<open>Requests as they reach one server instance: key, rule and time.\<close>

fun rate_run :: "(string \<times> rate_rule \<times> int) list \<Rightarrow> hits \<Rightarrow> bool list \<times> hits" where
  "rate_run [] hits = ([], hits)"
| "rate_run ((k, rule, now) # rs) hits =
     (let (r, hits') = checkRateLimit k rule now hits; (bs, hits'') = rate_run rs hits'
      in (rs_allowed r # bs, hits''))"

definition requests_of :: "string \<Rightarrow> (string \<times> rate_rule \<times> int) list \<Rightarrow> nat" where
  "requests_of k rs = length (filter (\<lambda>x. fst x = k) rs)"

definition allowed_of :: "string \<Rightarrow> (string \<times> rate_rule \<times> int) list \<Rightarrow> hits \<Rightarrow> nat" where
  "allowed_of k rs hits = length (filter (\<lambda>(x, b). fst x = k \<and> b) (zip rs (fst (rate_run rs hits))))"

lemma check_room:
  assumes "length hits < MAX_TRACKED_KEYS"
  shows "snd (checkRateLimit k rule now hits) =
      jm_set hits k (if (case jm_get hits k of None \<Rightarrow> True | Some e \<Rightarrow> ht_resetAt e \<le> now)
        then \<lparr>ht_count = 1, ht_resetAt = now + ru_windowMs rule\<rparr>
        else (the (jm_get hits k))\<lparr>ht_count := ht_count (the (jm_get hits k)) + 1\<rparr>)"
  using assms by (auto simp: checkRateLimit_def Let_def split: option.splits)

lemma check_live:
  "jm_get hits k = Some e \<Longrightarrow> now < ht_resetAt e \<Longrightarrow>
   rs_allowed (fst (checkRateLimit k rule now hits)) = (ht_count e + 1 \<le> ru_limit rule)"
  by (simp add: checkRateLimit_def Let_def)

lemma allowed_live:
  assumes "jm_get hits k = Some e" and "length hits + length rs \<le> MAX_TRACKED_KEYS"
    and "\<forall>(x, r, t) \<in> set rs. t < ht_resetAt e \<and> (x = k \<longrightarrow> ru_limit r = n)"
  shows "allowed_of k rs hits = min (n - ht_count e) (requests_of k rs)"
  using assms
proof (induction rs arbitrary: hits e)
  case Nil
  then show ?case by (simp add: allowed_of_def requests_of_def)
next
  case (Cons q rs)
  obtain x rule t where q: "q = (x, rule, t)" using prod_cases3 by blast
  obtain r hits' where c: "checkRateLimit x rule t hits = (r, hits')" using prod.exhaust by blast
  have room: "length hits < MAX_TRACKED_KEYS" using Cons.prems(2) by simp
  have t: "t < ht_resetAt e" using Cons.prems(3) q by auto
  have len: "length hits' + length rs \<le> MAX_TRACKED_KEYS"
    using check_room [OF room, of x rule t] c Cons.prems(2) by (simp add: jm_length_set)
  have step: "allowed_of k (q # rs) hits = (if x = k \<and> rs_allowed r then 1 else 0) + allowed_of k rs hits'"
    using q c by (simp add: allowed_of_def split: prod.splits)
  have later: "\<forall>(x, r, t) \<in> set rs. t < ht_resetAt e \<and> (x = k \<longrightarrow> ru_limit r = n)"
    using Cons.prems(3) by auto
  show ?case
  proof (cases "x = k")
    case False
    then have "jm_get hits' k = Some e"
      using check_room [OF room, of x rule t] c Cons.prems(1) by auto
    from Cons.IH [OF this len later] step False q show ?thesis by (simp add: requests_of_def)
  next
    case True
    then have e': "jm_get hits' k = Some (e\<lparr>ht_count := ht_count e + 1\<rparr>)"
      using check_room [OF room, of x rule t] c Cons.prems(1) t by auto
    have l: "ru_limit rule = n" using Cons.prems(3) q True by auto
    have "rs_allowed r = (ht_count e + 1 \<le> n)"
      using check_live [OF Cons.prems(1) t, of rule] True c l by simp
    with Cons.IH [OF e' len] later step True q show ?thesis by (auto simp: requests_of_def)
  qed
qed

text \<open>
  C31: A window allows exactly the limit. When a key's first request of a window comes in at \<open>start\<close>, then
  of that request and all further requests of the key before the window ends, however they interleave
  with those of other keys, exactly the first \<open>limit\<close> are allowed and every later one is refused, as
  long as fewer than 10,000 keys are tracked (beyond that the oldest counters are dropped).
\<close>

theorem rate_limit_window:
  assumes "case jm_get hits k of None \<Rightarrow> True | Some e \<Rightarrow> ht_resetAt e \<le> start"
    and "length hits + length rs < MAX_TRACKED_KEYS"
    and "\<forall>(x, r, t) \<in> set rs. t < start + ru_windowMs rule \<and> (x = k \<longrightarrow> ru_limit r = ru_limit rule)"
  shows "allowed_of k ((k, rule, start) # rs) hits = min (ru_limit rule) (1 + requests_of k rs)"
proof -
  obtain r hits' where c: "checkRateLimit k rule start hits = (r, hits')" using prod.exhaust by blast
  have room: "length hits < MAX_TRACKED_KEYS" using assms(2) by simp
  have e: "jm_get hits' k = Some \<lparr>ht_count = 1, ht_resetAt = start + ru_windowMs rule\<rparr>"
    and len: "length hits' + length rs \<le> MAX_TRACKED_KEYS"
    using check_room [OF room, of k rule start] c assms(1,2) by (auto simp: jm_length_set)
  have a: "rs_allowed r = (1 \<le> ru_limit rule)"
    using c assms(1) room by (auto simp: checkRateLimit_def Let_def split: option.splits)
  have "allowed_of k ((k, rule, start) # rs) hits = (if rs_allowed r then 1 else 0) + allowed_of k rs hits'"
    using c by (simp add: allowed_of_def split: prod.splits)
  moreover have "allowed_of k rs hits' = min (ru_limit rule - 1) (requests_of k rs)"
    using allowed_live [OF e len] assms(3) by simp
  ultimately show ?thesis using a by auto
qed

theorem rate_limit_window_witness:
  "allowed_of ''a'' [(''a'', \<lparr>ru_limit = 1, ru_windowMs = 60000\<rparr>, 5), (''b'', DEFAULT_AUTH_RULE, 6),
      (''a'', \<lparr>ru_limit = 1, ru_windowMs = 60000\<rparr>, 7)] [] = 1"
  using rate_limit_window [where hits = "[]" and k = "''a''" and start = 5
      and rs = "[(''b'', DEFAULT_AUTH_RULE, 6), (''a'', \<lparr>ru_limit = 1, ru_windowMs = 60000\<rparr>, 7)]"
      and rule = "\<lparr>ru_limit = 1, ru_windowMs = 60000\<rparr>"]
  by (simp add: MAX_TRACKED_KEYS_def requests_of_def)

end
