(* ===== verification/Migration_Audit.thy ===== *)
theory Migration_Audit
  imports Http_Input Env_Config Js_Date
begin

text \<open>
  \<open>db/migrationAudit.ts\<close>: the record of which schema migrations a deploy applied, written to the log,
  a deploy log file and an audit table. The database, the file system's answers, module loading and
  path resolution are parameters.
\<close>

section \<open>Records and options\<close>

record audit_record =
  mr_releaseVersion :: string
  mr_deployedAt :: string
  mr_environment :: string
  mr_appliedMigrations :: "string list"
  mr_note :: "string option"

record audit_options =
  ao_releaseVersion :: "string option"
  ao_environment :: "string option"
  ao_logFile :: "string option"
  ao_note :: "string option"
  ao_skipDatabase :: bool
  ao_skipFile :: bool

definition no_options :: audit_options where
  "no_options = \<lparr>ao_releaseVersion = None, ao_environment = None, ao_logFile = None, ao_note = None,
     ao_skipDatabase = False, ao_skipFile = False\<rparr>"

text \<open>The process: its environment variables, the validated NODE_ENV, \<open>path.resolve\<close> against the
  working directory and against the module's directory, and \<open>require\<close> (\<open>None\<close> when it throws).\<close>

record audit_process =
  pr_env :: "string \<Rightarrow> string option"
  pr_node_env :: string
  pr_cwd :: "string \<Rightarrow> string"
  pr_dir :: "string \<Rightarrow> string"
  pr_require :: "string \<Rightarrow> json option"

definition filled :: "string option \<Rightarrow> bool" where
  "filled v = (case v of None \<Rightarrow> False | Some s \<Rightarrow> trim s \<noteq> [])"

fun first_version :: "(json \<Rightarrow> json option) \<Rightarrow> (string \<Rightarrow> json option) \<Rightarrow> string list \<Rightarrow> string option" where
  "first_version pick load [] = None"
| "first_version pick load (c # cs) =
     (case load c of
        None \<Rightarrow> first_version pick load cs
      | Some config \<Rightarrow>
          (case pick config of
             Some (JStr v) \<Rightarrow> if trim v \<noteq> [] then Some (trim v) else first_version pick load cs
           | _ \<Rightarrow> first_version pick load cs))"

definition config_version :: "json \<Rightarrow> json option" where
  "config_version config =
     (if \<not> js_truthy (Some config) then None
      else if js_truthy (json_prop config ''version'') then json_prop config ''version''
      else if js_truthy (json_prop config ''release'') then opt_prop (json_prop config ''release'') ''version''
      else None)"

definition package_version :: "json \<Rightarrow> json option" where
  "package_version pkg = (if js_truthy (Some pkg) then json_prop pkg ''version'' else None)"

definition readReleaseConfigVersion :: "audit_process \<Rightarrow> string option" where
  "readReleaseConfigVersion p = first_version config_version (pr_require p)
     [pr_cwd p ''release.config.js'', pr_cwd p ''release.config.cjs'',
      pr_dir p ''../../../../release.config.js'', pr_dir p ''../../../../release.config.cjs'']"

definition readPackageJsonVersion :: "audit_process \<Rightarrow> string option" where
  "readPackageJsonVersion p = first_version package_version (pr_require p)
     [pr_cwd p ''package.json'', pr_dir p ''../../../../package.json'']"

definition resolveReleaseVersion :: "audit_process \<Rightarrow> string option \<Rightarrow> string" where
  "resolveReleaseVersion p explicit =
     (if filled explicit then trim (the explicit)
      else if filled (pr_env p ''RELEASE_VERSION'') then trim (the (pr_env p ''RELEASE_VERSION''))
      else if truthy (readReleaseConfigVersion p) then the (readReleaseConfigVersion p)
      else if truthy (readPackageJsonVersion p) then the (readPackageJsonVersion p)
      else ''unknown'')"

definition resolveEnvironment :: "audit_process \<Rightarrow> string option \<Rightarrow> string" where
  "resolveEnvironment p explicit =
     (if filled explicit then trim (the explicit)
      else if pr_node_env p \<noteq> [] then pr_node_env p else ''unknown'')"

definition resolveLogFile :: "audit_process \<Rightarrow> string option \<Rightarrow> string" where
  "resolveLogFile p explicit =
     (if filled explicit then the explicit
      else if filled (pr_env p ''MIGRATION_AUDIT_LOG_FILE'') then the (pr_env p ''MIGRATION_AUDIT_LOG_FILE'')
      else pr_cwd p ''deploy-migrations.log'')"

section \<open>Reading and writing\<close>

text \<open>
  The database: the names of \<open>pgmigrations\<close> in order or an error with its code, the creation of the
  audit table and the insertion, which may fail. The outside state holds the structured log, the
  appended lines with their file, and the database.
\<close>

record 'd audit_db =
  db_names :: "'d \<Rightarrow> string option + string list"
  db_ensure :: "'d \<Rightarrow> bool \<times> 'd"
  db_insert :: "audit_record \<Rightarrow> 'd \<Rightarrow> bool \<times> 'd"

datatype audit_event =
    AuditRecorded audit_record
  | AuditFileFailed
  | AuditDatabaseFailed
  | AuditBaseline "string list"
  | AuditSkipped

record 'd audit_state =
  as_log :: "audit_event list"
  as_lines :: "(string \<times> string) list"
  as_db :: 'd

definition audit_log :: "audit_event \<Rightarrow> 'd audit_state \<Rightarrow> 'd audit_state" where
  "audit_log e s = s\<lparr>as_log := as_log s @ [e]\<rparr>"

definition readAppliedMigrations :: "'d audit_db \<Rightarrow> 'd \<Rightarrow> string option + string list" where
  "readAppliedMigrations db d = (case db_names db d of
       Inr names \<Rightarrow> Inr names
     | Inl code \<Rightarrow> if code = Some ''42P01'' then Inr [] else Inl code)"

definition diffMigrations :: "string list \<Rightarrow> string list \<Rightarrow> string list" where
  "diffMigrations before after = filter (\<lambda>name. name \<notin> set before) after"

definition recordAuditInDatabase :: "'d audit_db \<Rightarrow> audit_record \<Rightarrow> 'd \<Rightarrow> bool \<times> 'd" where
  "recordAuditInDatabase db r d = (case db_ensure db d of
       (False, d') \<Rightarrow> (False, d')
     | (True, d') \<Rightarrow> db_insert db r d')"

definition deploy_line :: "audit_record \<Rightarrow> string" where
  "deploy_line r =
     (let migrations = (if mr_appliedMigrations r \<noteq> [] then join '', '' (mr_appliedMigrations r) else ''(none)'')
      in ''['' @ mr_deployedAt r @ ''] release='' @ mr_releaseVersion r @ '' environment='' @ mr_environment r @
         '' migrations='' @ show_nat (length (mr_appliedMigrations r)) @ '' applied=['' @ migrations @ '']'' @
         (if truthy (mr_note r) then '' note='' @ the (mr_note r) else []) @ [CHR 0x0A])"

text \<open>\<open>can_append\<close> says whether appending to a file succeeds.\<close>

definition appendToDeployLog :: "(string \<Rightarrow> bool) \<Rightarrow> audit_record \<Rightarrow> string \<Rightarrow> 'd audit_state \<Rightarrow> bool \<times> 'd audit_state" where
  "appendToDeployLog can_append r logFile s =
     (if can_append logFile then (True, s\<lparr>as_lines := as_lines s @ [(logFile, deploy_line r)]\<rparr>) else (False, s))"

definition logAuditRecord :: "audit_record \<Rightarrow> 'd audit_state \<Rightarrow> 'd audit_state" where
  "logAuditRecord r s = audit_log (AuditRecorded r) s"

definition writeMigrationAudit ::
  "audit_process \<Rightarrow> (string \<Rightarrow> bool) \<Rightarrow> audit_record \<Rightarrow> audit_options \<Rightarrow> 'd audit_db option \<Rightarrow> 'd audit_state \<Rightarrow> 'd audit_state" where
  "writeMigrationAudit p can_append r opts client s =
     (let s1 = logAuditRecord r s;
          s2 = (if ao_skipFile opts then s1
                else (case appendToDeployLog can_append r (resolveLogFile p (ao_logFile opts)) s1 of
                    (True, t) \<Rightarrow> t | (False, t) \<Rightarrow> audit_log AuditFileFailed t))
      in if ao_skipDatabase opts then s2
         else (case client of
             None \<Rightarrow> s2
           | Some db \<Rightarrow>
               (case recordAuditInDatabase db r (as_db s2) of
                  (True, d) \<Rightarrow> s2\<lparr>as_db := d\<rparr>
                | (False, d) \<Rightarrow> audit_log AuditDatabaseFailed (s2\<lparr>as_db := d\<rparr>))))"

definition buildAuditRecord :: "audit_process \<Rightarrow> int \<Rightarrow> string list \<Rightarrow> audit_options \<Rightarrow> audit_record" where
  "buildAuditRecord p now applied opts =
     \<lparr>mr_releaseVersion = resolveReleaseVersion p (ao_releaseVersion opts), mr_deployedAt = toISOString now,
      mr_environment = resolveEnvironment p (ao_environment opts), mr_appliedMigrations = applied,
      mr_note = ao_note opts\<rparr>"

text \<open>\<open>startMigrationAudit\<close> returns the baseline; \<open>finish\<close> is the function it hands back.\<close>

definition startMigrationAudit :: "'d audit_db \<Rightarrow> 'd audit_state \<Rightarrow> string option + string list" where
  "startMigrationAudit db s = readAppliedMigrations db (as_db s)"

definition finishMigrationAudit ::
  "audit_process \<Rightarrow> (string \<Rightarrow> bool) \<Rightarrow> 'd audit_db \<Rightarrow> string list \<Rightarrow> int \<Rightarrow> audit_options \<Rightarrow> 'd audit_state \<Rightarrow>
   (string option + audit_record) \<times> 'd audit_state" where
  "finishMigrationAudit p can_append db before now opts s =
     (case readAppliedMigrations db (as_db s) of
        Inl code \<Rightarrow> (Inl code, s)
      | Inr after \<Rightarrow>
          (let r = buildAuditRecord p now (diffMigrations before after) opts
           in (Inr r, writeMigrationAudit p can_append r opts (Some db) s)))"

definition recordAppliedMigrations ::
  "audit_process \<Rightarrow> (string \<Rightarrow> bool) \<Rightarrow> string list \<Rightarrow> int \<Rightarrow> audit_options \<Rightarrow> 'd audit_db option \<Rightarrow> 'd audit_state \<Rightarrow>
   audit_record \<times> 'd audit_state" where
  "recordAppliedMigrations p can_append applied now opts client s =
     (let r = buildAuditRecord p now applied opts in (r, writeMigrationAudit p can_append r opts client s))"

section \<open>The command line\<close>

datatype audit_mode = BeforeMode | AfterMode | AppliedMode | RecordMode

record audit_args =
  ag_mode :: audit_mode
  ag_applied :: "string list"
  ag_options :: audit_options

definition split_applied :: "string \<Rightarrow> string list" where
  "split_applied v = filter (\<lambda>e. e \<noteq> []) (map trim (split_on (CHR '','') v))"

definition next_arg :: "string list \<Rightarrow> string option" where
  "next_arg rest = (case rest of [] \<Rightarrow> None | v # _ \<Rightarrow> Some v)"

text \<open>An option with a value takes the next argument, whatever it is, and skips it.\<close>

function parse_args :: "string list \<Rightarrow> audit_args \<Rightarrow> audit_args" where
  "parse_args [] g = g"
| "parse_args (arg # rest) g =
     (if arg = ''--before'' then parse_args rest (g\<lparr>ag_mode := BeforeMode\<rparr>)
      else if arg = ''--after'' then parse_args rest (g\<lparr>ag_mode := AfterMode\<rparr>)
      else if arg = ''--applied'' then
        (if truthy (next_arg rest) then
           parse_args (tl rest) (g\<lparr>ag_mode := AppliedMode, ag_applied := split_applied (the (next_arg rest))\<rparr>)
         else parse_args rest (g\<lparr>ag_mode := AppliedMode\<rparr>))
      else if arg = ''--release'' then
        parse_args (tl rest) (g\<lparr>ag_options := (ag_options g)\<lparr>ao_releaseVersion := next_arg rest\<rparr>\<rparr>)
      else if arg = ''--environment'' then
        parse_args (tl rest) (g\<lparr>ag_options := (ag_options g)\<lparr>ao_environment := next_arg rest\<rparr>\<rparr>)
      else if arg = ''--log-file'' then
        parse_args (tl rest) (g\<lparr>ag_options := (ag_options g)\<lparr>ao_logFile := next_arg rest\<rparr>\<rparr>)
      else if arg = ''--note'' then
        parse_args (tl rest) (g\<lparr>ag_options := (ag_options g)\<lparr>ao_note := next_arg rest\<rparr>\<rparr>)
      else if arg = ''--skip-database'' then
        parse_args rest (g\<lparr>ag_options := (ag_options g)\<lparr>ao_skipDatabase := True\<rparr>\<rparr>)
      else if arg = ''--skip-file'' then
        parse_args rest (g\<lparr>ag_options := (ag_options g)\<lparr>ao_skipFile := True\<rparr>\<rparr>)
      else parse_args rest g)"
  by pat_completeness auto
termination
  by (relation "measure (\<lambda>(xs, _). length xs)") (auto simp: less_Suc_eq_le)

declare parse_args.simps [simp del]

definition parseArgs :: "string list \<Rightarrow> audit_args" where
  "parseArgs argv = parse_args argv \<lparr>ag_mode = RecordMode, ag_applied = [], ag_options = no_options\<rparr>"

text \<open>The \<open>migrations\<close> of the parsed baseline file; a file that is missing or unusable is no baseline.\<close>

definition baseline_migrations :: "json option \<Rightarrow> string list" where
  "baseline_migrations v = (case opt_prop v ''migrations'' of
       Some (JArr xs) \<Rightarrow> concat (map (\<lambda>j. case j of JStr s \<Rightarrow> [s] | _ \<Rightarrow> []) xs)
     | _ \<Rightarrow> [])"

text \<open>\<open>Inl\<close> is the rejection that makes the process exit with 1.\<close>

definition audit_main ::
  "audit_process \<Rightarrow> (string \<Rightarrow> bool) \<Rightarrow> (string \<Rightarrow> json option) \<Rightarrow> 'd audit_db \<Rightarrow> int \<Rightarrow> string list \<Rightarrow> 'd audit_state \<Rightarrow>
   (string option + unit) \<times> 'd audit_state" where
  "audit_main p can_append read_json db now argv s =
     (let g = parseArgs argv in
      if \<not> truthy (pr_env p ''DATABASE_URL'') then (Inr (), audit_log AuditSkipped s)
      else if ag_mode g = AppliedMode then
        (Inr (), snd (recordAppliedMigrations p can_append (ag_applied g) now (ag_options g) (Some db) s))
      else if ag_mode g = BeforeMode then
        (case readAppliedMigrations db (as_db s) of
           Inl code \<Rightarrow> (Inl code, s)
         | Inr before \<Rightarrow> (Inr (), audit_log (AuditBaseline before) s))
      else
        (case finishMigrationAudit p can_append db
                (baseline_migrations (read_json (pr_cwd p ''.migration-audit-before.json''))) now (ag_options g) s of
           (Inl code, s') \<Rightarrow> (Inl code, s')
         | (Inr _, s') \<Rightarrow> (Inr (), s')))"

section \<open>What the audit records\<close>

lemma diffMigrations_new: "set new \<inter> set before = {} \<Longrightarrow> diffMigrations before (before @ new) = new"
proof -
  assume "set new \<inter> set before = {}"
  then have "filter (\<lambda>x. x \<notin> set before) new = new" by (auto simp: filter_id_conv)
  then show ?thesis by (simp add: diffMigrations_def)
qed

lemma writeMigrationAudit_log:
  "\<exists>fails. as_log (writeMigrationAudit p can_append r opts client s) = as_log s @ AuditRecorded r # fails
     \<and> set fails \<subseteq> {AuditFileFailed, AuditDatabaseFailed}"
  by (cases "ao_skipFile opts"; cases "ao_skipDatabase opts"; cases client)
    (auto simp: writeMigrationAudit_def logAuditRecord_def audit_log_def appendToDeployLog_def Let_def
      split: prod.splits bool.splits)

lemma writeMigrationAudit_lines:
  "as_lines (writeMigrationAudit p can_append r opts client s) =
     as_lines s @ (if \<not> ao_skipFile opts \<and> can_append (resolveLogFile p (ao_logFile opts))
                   then [(resolveLogFile p (ao_logFile opts), deploy_line r)] else [])"
  by (cases client)
    (auto simp: writeMigrationAudit_def logAuditRecord_def audit_log_def appendToDeployLog_def Let_def
      split: prod.splits bool.splits)

lemma writeMigrationAudit_db:
  "as_db (writeMigrationAudit p can_append r opts client s) =
     (if ao_skipDatabase opts then as_db s
      else (case client of None \<Rightarrow> as_db s | Some db \<Rightarrow> snd (recordAuditInDatabase db r (as_db s))))"
  by (auto simp: writeMigrationAudit_def logAuditRecord_def audit_log_def appendToDeployLog_def Let_def
      split: prod.splits bool.splits option.splits)

text \<open>
  C16: A deploy's audit names exactly the migrations it applied. If the migration table read at the start
  was \<open>before\<close> (empty when the table did not exist) and the run appended \<open>new\<close> to it, then \<open>finish\<close>
  returns a record whose migrations are \<open>new\<close>, in order; that record is in the structured log whatever
  fails, in the deploy log file unless that is skipped or cannot be appended to, and handed to the
  database unless that is skipped; a sink that fails never fails the deploy.
\<close>

theorem migration_audit_exact:
  assumes "startMigrationAudit db s0 = Inr before"
    and "db_names db (as_db s) = Inr (before @ new)" and "set new \<inter> set before = {}"
    and "finishMigrationAudit p can_append db before now opts s = (res, t)"
  shows "\<exists>r fails. res = Inr r \<and> mr_appliedMigrations r = new \<and> mr_deployedAt r = toISOString now
    \<and> as_log t = as_log s @ AuditRecorded r # fails \<and> set fails \<subseteq> {AuditFileFailed, AuditDatabaseFailed}
    \<and> as_lines t = as_lines s @ (if \<not> ao_skipFile opts \<and> can_append (resolveLogFile p (ao_logFile opts))
        then [(resolveLogFile p (ao_logFile opts), deploy_line r)] else [])
    \<and> as_db t = (if ao_skipDatabase opts then as_db s else snd (recordAuditInDatabase db r (as_db s)))"
proof -
  let ?r = "buildAuditRecord p now new opts"
  have "readAppliedMigrations db (as_db s) = Inr (before @ new)"
    using assms(2) by (simp add: readAppliedMigrations_def)
  then have "res = Inr ?r" and t: "t = writeMigrationAudit p can_append ?r opts (Some db) s"
    using assms(4) diffMigrations_new [OF assms(3)] by (simp_all add: finishMigrationAudit_def Let_def)
  then show ?thesis
    using writeMigrationAudit_log [of p can_append ?r opts "Some db" s]
    by (auto simp: writeMigrationAudit_lines writeMigrationAudit_db buildAuditRecord_def)
qed

definition sample_process :: audit_process where
  "sample_process = \<lparr>pr_env = (\<lambda>k. if k = ''RELEASE_VERSION'' then Some ''1.4.2'' else None), pr_node_env = ''test'',
     pr_cwd = (\<lambda>f. ''/app/'' @ f), pr_dir = (\<lambda>f. ''/app/'' @ f), pr_require = (\<lambda>f. None)\<rparr>"

text \<open>A database whose state is the list of its migrations; the audit insert fails.\<close>

definition sample_db :: "string list audit_db" where
  "sample_db = \<lparr>db_names = (\<lambda>d. if d = [] then Inl (Some ''42P01'') else Inr d), db_ensure = (\<lambda>d. (True, d)),
     db_insert = (\<lambda>r d. (False, d))\<rparr>"

definition sample_audit :: "string list audit_state" where
  "sample_audit = \<lparr>as_log = [], as_lines = [], as_db = [''1_users'', ''2_refunds'']\<rparr>"

theorem migration_audit_exact_witness:
  "\<exists>r. fst (finishMigrationAudit sample_process (\<lambda>f. True) sample_db [] 5 no_options sample_audit) = Inr r
     \<and> mr_appliedMigrations r = [''1_users'', ''2_refunds'']"
proof -
  obtain res t where f: "finishMigrationAudit sample_process (\<lambda>f. True) sample_db [] 5 no_options sample_audit = (res, t)"
    using prod.exhaust by blast
  have "startMigrationAudit sample_db (sample_audit\<lparr>as_db := []\<rparr>) = Inr []"
    by (simp add: startMigrationAudit_def readAppliedMigrations_def sample_db_def)
  moreover have "db_names sample_db (as_db sample_audit) = Inr ([] @ [''1_users'', ''2_refunds''])"
    by (simp add: sample_db_def sample_audit_def)
  ultimately have "\<exists>r. res = Inr r \<and> mr_appliedMigrations r = [''1_users'', ''2_refunds'']"
    using migration_audit_exact [OF _ _ _ f, of "sample_audit\<lparr>as_db := []\<rparr>" "[''1_users'', ''2_refunds'']"] by auto
  then show ?thesis unfolding f by simp
qed

text \<open>The two-step use of the script: \<open>--before\<close> writes no baseline file, so \<open>--after\<close> finds none.\<close>

lemma before_writes_no_file:
  "as_lines (snd (audit_main p can_append read_json db now [''--before''] s)) = as_lines s \<and>
   as_db (snd (audit_main p can_append read_json db now [''--before''] s)) = as_db s"
  by (simp add: audit_main_def parseArgs_def parse_args.simps Let_def audit_log_def split: sum.splits)

lemma after_records_everything:
  assumes "truthy (pr_env p ''DATABASE_URL'')" and "read_json (pr_cwd p ''.migration-audit-before.json'') = None"
    and "readAppliedMigrations db (as_db s) = Inr names"
  shows "\<exists>r fails. as_log (snd (audit_main p can_append read_json db now [''--after''] s))
      = as_log s @ AuditRecorded r # fails \<and> mr_appliedMigrations r = names"
proof -
  have "diffMigrations [] names = names" by (simp add: diffMigrations_def)
  then show ?thesis
    using assms writeMigrationAudit_log [of p can_append "buildAuditRecord p now names no_options" no_options "Some db" s]
    by (auto simp: audit_main_def parseArgs_def parse_args.simps finishMigrationAudit_def baseline_migrations_def
        opt_prop_def buildAuditRecord_def no_options_def Let_def)
qed

end
