(* ===== verification/Csv_Export.thy ===== *)
theory Csv_Export
  imports Js_Base
begin

text \<open>
  \<open>lib/exportToCSV.ts\<close> of the frontend: the text of the exported files. The download itself (blob and
  link) is browser I/O; the file name is its argument.
\<close>

abbreviation quote :: char where "quote \<equiv> CHR 0x22"
abbreviation newline :: char where "newline \<equiv> CHR 0x0A"

record transaction_row =
  tx_purchaseId :: string
  tx_event :: string
  tx_transferInitiated :: string
  tx_transferCompleted :: string
  tx_amount :: jsnum
  tx_rowStatus :: string

record wallet_row =
  wl_address :: string
  wl_network :: string
  wl_isPrimary :: bool

text \<open>\<open>replace(/"/g, '""')\<close>.\<close>

fun escape_quotes :: "string \<Rightarrow> string" where
  "escape_quotes [] = []"
| "escape_quotes (c # cs) = (if c = quote then quote # quote # escape_quotes cs else c # escape_quotes cs)"

definition csv_cell :: "string \<Rightarrow> string" where
  "csv_cell s = quote # escape_quotes s @ [quote]"

definition csv_content :: "string list list \<Rightarrow> string" where
  "csv_content rows = join [newline] (map (\<lambda>row. join '','' (map csv_cell row)) rows)"

definition downloadCSV :: "string list \<Rightarrow> string list list \<Rightarrow> string \<Rightarrow> string \<times> string" where
  "downloadCSV headers rows filename = (filename, csv_content (headers # rows))"

text \<open>
  \<open>toFixed(2)\<close> on exact values: the nearest multiple of 1/100, the larger of two; from 10 to the 21st on
  the text is that of the number itself, given by \<open>num_text\<close>.
\<close>

definition two_digits :: "nat \<Rightarrow> string" where
  "two_digits n = (if n < 10 then ''0'' else []) @ show_nat n"

definition toFixed2 :: "(rat \<Rightarrow> string) \<Rightarrow> jsnum \<Rightarrow> string" where
  "toFixed2 num_text x = (case x of
       NaN \<Rightarrow> ''NaN'' | PosInf \<Rightarrow> ''Infinity'' | NegInf \<Rightarrow> ''-Infinity''
     | Fin r \<Rightarrow>
         if \<bar>r\<bar> \<ge> 10 ^ 21 then num_text r
         else
           (let n = nat (js_round (\<bar>r\<bar> * 100))
            in (if r < 0 then ''-'' else []) @ show_nat (n div 100) @ ''.'' @ two_digits (n mod 100)))"

definition transaction_headers :: "string list" where
  "transaction_headers = [''Purchase ID'', ''Event'', ''Transfer Initiated'', ''Transfer Completed'',
     ''Amount (USD)'', ''Status'']"

definition transaction_cells :: "(rat \<Rightarrow> string) \<Rightarrow> transaction_row \<Rightarrow> string list" where
  "transaction_cells num_text t = [tx_purchaseId t, tx_event t, tx_transferInitiated t, tx_transferCompleted t,
     toFixed2 num_text (tx_amount t), tx_rowStatus t]"

definition exportTransactionsToCSV :: "(rat \<Rightarrow> string) \<Rightarrow> transaction_row list \<Rightarrow> string option \<Rightarrow> string \<times> string" where
  "exportTransactionsToCSV num_text ts filename =
     downloadCSV transaction_headers (map (transaction_cells num_text) ts)
       (case filename of None \<Rightarrow> ''truestub-transactions.csv'' | Some f \<Rightarrow> f)"

definition wallet_headers :: "string list" where
  "wallet_headers = [''Address'', ''Network'', ''Primary'']"

definition wallet_cells :: "wallet_row \<Rightarrow> string list" where
  "wallet_cells w = [wl_address w, wl_network w, if wl_isPrimary w then ''Yes'' else ''No'']"

definition exportWalletsToCSV :: "wallet_row list \<Rightarrow> string option \<Rightarrow> string \<times> string" where
  "exportWalletsToCSV ws filename =
     downloadCSV wallet_headers (map wallet_cells ws)
       (case filename of None \<Rightarrow> ''truestub-wallets.csv'' | Some f \<Rightarrow> f)"

section \<open>Reading a file back\<close>

text \<open>
  A reader of quoted comma-separated values, as a spreadsheet has it: a cell is everything between its
  quotes, a doubled quote inside stands for one; cells end at a comma, a line break or the end. \<open>None\<close>
  is a malformed file. Each cell takes one unit of the fuel.
\<close>

fun read_quoted :: "string \<Rightarrow> (string \<times> string) option" where
  "read_quoted [] = None"
| "read_quoted (c # cs) =
     (if c \<noteq> quote then map_option (\<lambda>(f, r). (c # f, r)) (read_quoted cs)
      else (case cs of
          [] \<Rightarrow> Some ([], [])
        | d # ds \<Rightarrow> if d = quote then map_option (\<lambda>(f, r). (quote # f, r)) (read_quoted ds) else Some ([], cs)))"

fun csv_read :: "nat \<Rightarrow> string \<Rightarrow> string list list option" where
  "csv_read 0 s = None"
| "csv_read (Suc n) [] = None"
| "csv_read (Suc n) (c # t) =
     (if c \<noteq> quote then None
      else (case read_quoted t of
          None \<Rightarrow> None
        | Some (f, []) \<Rightarrow> Some [[f]]
        | Some (f, d # r) \<Rightarrow>
            if d = CHR '','' then
              (case csv_read n r of Some (row # rows) \<Rightarrow> Some ((f # row) # rows) | _ \<Rightarrow> None)
            else if d = newline then map_option (\<lambda>rows. [f] # rows) (csv_read n r)
            else None))"

definition csv_parse :: "string \<Rightarrow> string list list option" where
  "csv_parse s = csv_read (length s) s"

lemma read_quoted_escape:
  "rest = [] \<or> hd rest \<noteq> quote \<Longrightarrow> read_quoted (escape_quotes s @ quote # rest) = Some (s, rest)"
  by (induction s) (auto split: list.splits)

lemma read_cell_comma:
  "csv_read (Suc n) (csv_cell f @ CHR '','' # r) =
     (case csv_read n r of Some (row # rows) \<Rightarrow> Some ((f # row) # rows) | _ \<Rightarrow> None)"
  using read_quoted_escape [of "CHR '','' # r" f] by (simp add: csv_cell_def)

lemma read_cell_newline:
  "csv_read (Suc n) (csv_cell f @ newline # r) = map_option (\<lambda>rows. [f] # rows) (csv_read n r)"
  using read_quoted_escape [of "newline # r" f] by (simp add: csv_cell_def)

lemma read_last_cell: "csv_read (Suc n) (csv_cell f) = Some [[f]]"
  using read_quoted_escape [of "[]" f] by (simp add: csv_cell_def)

definition csv_row :: "string list \<Rightarrow> string" where
  "csv_row row = join '','' (map csv_cell row)"

lemma csv_row_simps:
  "csv_row [f] = csv_cell f" "csv_row (f # g # fs) = csv_cell f @ CHR '','' # csv_row (g # fs)"
  by (simp_all add: csv_row_def)

lemma read_row_end: "row \<noteq> [] \<Longrightarrow> length row \<le> n \<Longrightarrow> csv_read n (csv_row row) = Some [row]"
proof (induction row arbitrary: n rule: induct_list012)
  case (2 f)
  then obtain m where "n = Suc m" by (cases n) auto
  then show ?case by (simp only: csv_row_simps read_last_cell)
next
  case (3 f g fs)
  then obtain m where m: "n = Suc m" "length (g # fs) \<le> m" by (cases n) auto
  have "csv_read m (csv_row (g # fs)) = Some [g # fs]" by (rule "3.IH"(2)) (simp_all only: m list.distinct not_False_eq_True)
  then show ?case by (simp only: m(1) csv_row_simps(2) read_cell_comma option.case list.case)
qed simp

lemma read_row_more:
  assumes "\<And>m. k \<le> m \<Longrightarrow> csv_read m r = Some rows"
  shows "row \<noteq> [] \<Longrightarrow> length row + k \<le> n \<Longrightarrow> csv_read n (csv_row row @ newline # r) = Some (row # rows)"
proof (induction row arbitrary: n rule: induct_list012)
  case (2 f)
  then obtain m where m: "n = Suc m" "k \<le> m" by (cases n) auto
  then show ?case by (simp only: csv_row_simps read_cell_newline assms [OF m(2)] option.map)
next
  case (3 f g fs)
  then obtain m where m: "n = Suc m" "length (g # fs) + k \<le> m" by (cases n) auto
  have "csv_read m (csv_row (g # fs) @ newline # r) = Some ((g # fs) # rows)"
    by (rule "3.IH"(2)) (simp_all only: m list.distinct not_False_eq_True)
  then show ?case
    by (simp only: m(1) csv_row_simps(2) append_assoc append_Cons read_cell_comma option.case list.case)
qed simp

lemma csv_content_simps:
  "csv_content [row] = csv_row row"
  "csv_content (row # row' # rows) = csv_row row @ newline # csv_content (row' # rows)"
  by (simp_all add: csv_content_def csv_row_def)

lemma csv_read_content:
  "rows \<noteq> [] \<Longrightarrow> list_all (\<lambda>row. row \<noteq> []) rows \<Longrightarrow> sum_list (map length rows) \<le> n \<Longrightarrow>
   csv_read n (csv_content rows) = Some rows"
proof (induction rows arbitrary: n rule: induct_list012)
  case (2 row)
  then show ?case by (simp del: csv_read.simps add: csv_content_simps read_row_end)
next
  case (3 row row' rows)
  have "csv_read n (csv_row row @ newline # csv_content (row' # rows)) = Some (row # row' # rows)"
  proof (rule read_row_more)
    fix m assume "sum_list (map length (row' # rows)) \<le> m"
    then show "csv_read m (csv_content (row' # rows)) = Some (row' # rows)"
      using "3.prems" by (intro "3.IH"(2)) simp_all
  qed (use "3.prems" in simp_all)
  then show ?case by (simp only: csv_content_simps(2))
qed simp

lemma row_length: "length row \<le> length (csv_row row)"
  by (induction row rule: induct_list012) (simp_all add: csv_row_simps csv_cell_def)

lemma cells_length: "sum_list (map length rows) \<le> length (csv_content rows)"
proof (induction rows rule: induct_list012)
  case (2 row)
  then show ?case by (simp add: csv_content_simps row_length)
next
  case (3 row row' rows)
  then show ?case using row_length [of row] by (simp add: csv_content_simps(2))
qed (simp add: csv_content_def)

lemma csv_parse_content:
  "rows \<noteq> [] \<Longrightarrow> list_all (\<lambda>row. row \<noteq> []) rows \<Longrightarrow> csv_parse (csv_content rows) = Some rows"
  unfolding csv_parse_def by (rule csv_read_content [OF _ _ cells_length])

text \<open>
  C33: An exported file reads back as what was exported. Whatever the cells contain (quotes, commas, line
  breaks), reading the transactions file yields the headers and then, per transaction and in order,
  exactly its six cells; likewise the wallets file. No value can leak into another cell or row.
\<close>

theorem csv_round_trip:
  "csv_parse (snd (exportTransactionsToCSV num_text ts filename))
     = Some (transaction_headers # map (transaction_cells num_text) ts)
   \<and> csv_parse (snd (exportWalletsToCSV ws filename)) = Some (wallet_headers # map wallet_cells ws)"
proof -
  have "list_all (\<lambda>row. row \<noteq> []) (transaction_headers # map (transaction_cells num_text) ts)"
    "list_all (\<lambda>row. row \<noteq> []) (wallet_headers # map wallet_cells ws)"
    by (simp_all add: list_all_iff transaction_headers_def transaction_cells_def wallet_headers_def wallet_cells_def)
  then show ?thesis
    by (simp add: exportTransactionsToCSV_def exportWalletsToCSV_def downloadCSV_def csv_parse_content)
qed

end
