(* ===== verification/Analytics.thy ===== *)
theory Analytics
  imports Js_Map Js_Date
begin

text \<open>
  \<open>routes/analytics.ts\<close>: the platform analytics of a date range. The GraphQL client is a parameter,
  a read of the escrow table with a condition, a limit and an offset; \<open>new Date\<close> of a query parameter
  is one as well. \<open>Date.UTC\<close> reads the years 0 to 99 as 1900 to 1999, which is not modelled: the range
  is taken to lie outside them. Sums are over exact rationals.
\<close>

section \<open>Rows\<close>

datatype amount = AmNum jsnum | AmStr string

record escrow_row =
  ar_amount :: amount
  ar_currency :: "string option"
  ar_status :: string
  ar_created_at :: iso
  ar_released_at :: "iso option"

record analytics_day =
  ad_date :: string
  ad_volume :: rat
  ad_escrowsCreated :: nat
  ad_escrowsCompleted :: nat
  ad_disputes :: nat
  ad_disputeRate :: rat
  ad_avgReleaseHours :: rat

record asset_entry =
  ae_currency :: string
  ae_volume :: rat
  ae_completedVolume :: rat
  ae_escrowsCreated :: nat
  ae_escrowsCompleted :: nat

definition PAGE_SIZE :: nat where "PAGE_SIZE = 500"

definition ACTIVE_STATUSES :: "string list" where
  "ACTIVE_STATUSES = [''pending'', ''funded'', ''active'', ''disputed'',
     ''PENDING'', ''FUNDED'', ''ACTIVE'', ''DISPUTED'']"

definition COMPLETED_STATUSES :: "string list" where
  "COMPLETED_STATUSES = [''completed'', ''released'', ''resolved'']"

definition DOLLAR_DENOMINATED_CURRENCIES :: "string list" where
  "DOLLAR_DENOMINATED_CURRENCIES = [''USD'', ''USDC'']"

definition UNKNOWN_CURRENCY :: string where "UNKNOWN_CURRENCY = ''UNKNOWN''"

text \<open>The \<open>where\<close> argument: a creation interval or a list of statuses.\<close>

datatype escrow_where = CreatedBetween string string | StatusIn "string list"

text \<open>
  The answer of \<open>hasuraClient.request\<close>: an error, or the rows (\<open>None\<close> when the field is missing, and
  then \<open>.length\<close> throws). \<open>None\<close> as the result of \<open>fetch_from\<close> is a loop that never ends.
\<close>

type_synonym escrow_query = "escrow_where \<Rightarrow> nat \<Rightarrow> nat \<Rightarrow> string + escrow_row list option"

partial_function (option) fetch_from ::
  "escrow_query \<Rightarrow> escrow_where \<Rightarrow> nat \<Rightarrow> escrow_row list \<Rightarrow> (string + escrow_row list) option" where
  "fetch_from q cond offset rows =
     (case q cond PAGE_SIZE offset of
        Inl e \<Rightarrow> Some (Inl e)
      | Inr None \<Rightarrow> Some (Inl ''TypeError'')
      | Inr (Some page) \<Rightarrow>
          if length page < PAGE_SIZE then Some (Inr (rows @ page))
          else fetch_from q cond (offset + PAGE_SIZE) (rows @ page))"

definition fetchEscrows :: "escrow_query \<Rightarrow> escrow_where \<Rightarrow> (string + escrow_row list) option" where
  "fetchEscrows q cond = fetch_from q cond 0 []"

definition currencyOf :: "escrow_row \<Rightarrow> string" where
  "currencyOf row = (case map_option (\<lambda>c. toUpperCase (trim c)) (ar_currency row) of
       Some c \<Rightarrow> if c \<noteq> [] then c else UNKNOWN_CURRENCY | None \<Rightarrow> UNKNOWN_CURRENCY)"

definition amount_number :: "amount \<Rightarrow> jsnum" where
  "amount_number a = (case a of AmNum x \<Rightarrow> x | AmStr s \<Rightarrow> js_Number s)"

definition finite_or_zero :: "jsnum \<Rightarrow> rat" where
  "finite_or_zero x = (case x of Fin r \<Rightarrow> r | _ \<Rightarrow> 0)"

definition rawAmountOf :: "escrow_row \<Rightarrow> rat" where
  "rawAmountOf row = finite_or_zero (amount_number (ar_amount row))"

definition amountOf :: "escrow_row \<Rightarrow> rat" where
  "amountOf row =
     (if (case ar_currency row of None \<Rightarrow> [] | Some c \<Rightarrow> toUpperCase c) \<notin> set DOLLAR_DENOMINATED_CURRENCIES then 0
      else finite_or_zero (amount_number (ar_amount row)))"

definition row_completed :: "escrow_row \<Rightarrow> bool" where
  "row_completed row = (toLowerCase (ar_status row) \<in> set COMPLETED_STATUSES)"

definition releaseDurationHours :: "escrow_row \<Rightarrow> rat option" where
  "releaseDurationHours row =
     (if \<not> row_completed row \<or> \<not> iso_truthy (ar_released_at row) then None
      else (case (date_ms (ar_created_at row), date_ms (the (ar_released_at row))) of
          (Some c, Some r) \<Rightarrow> if r < c then None else Some (of_int (r - c) / of_int MS_PER_HOUR)
        | _ \<Rightarrow> None))"

section \<open>The aggregation loop\<close>

record analytics_state =
  st_buckets :: "(string, analytics_day) jmap"
  st_durationTotal :: rat
  st_durationCount :: nat
  st_durationsByDay :: "(string, rat \<times> nat) jmap"
  st_assets :: "(string, asset_entry) jmap"

definition empty_day :: "string \<Rightarrow> analytics_day" where
  "empty_day d = \<lparr>ad_date = d, ad_volume = 0, ad_escrowsCreated = 0, ad_escrowsCompleted = 0, ad_disputes = 0,
     ad_disputeRate = 0, ad_avgReleaseHours = 0\<rparr>"

definition empty_asset :: "string \<Rightarrow> asset_entry" where
  "empty_asset c = \<lparr>ae_currency = c, ae_volume = 0, ae_completedVolume = 0, ae_escrowsCreated = 0,
     ae_escrowsCompleted = 0\<rparr>"

text \<open>The days from \<open>firstDay\<close> to \<open>lastDay\<close>, by day number.\<close>

definition day_buckets :: "int \<Rightarrow> int \<Rightarrow> (string, analytics_day) jmap" where
  "day_buckets start end =
     foldl (\<lambda>m day. jm_set m (utc_day (day * MS_PER_DAY)) (empty_day (utc_day (day * MS_PER_DAY)))) []
       [start div MS_PER_DAY .. end div MS_PER_DAY]"

definition assetEntry :: "string \<Rightarrow> (string, asset_entry) jmap \<Rightarrow> asset_entry" where
  "assetEntry c m = (case jm_get m c of None \<Rightarrow> empty_asset c | Some e \<Rightarrow> e)"

definition count_day :: "escrow_row \<Rightarrow> analytics_day \<Rightarrow> analytics_day" where
  "count_day row b0 =
     (let b1 = b0\<lparr>ad_volume := ad_volume b0 + amountOf row, ad_escrowsCreated := ad_escrowsCreated b0 + 1\<rparr>;
          b2 = (if row_completed row then
                  (let b = b1\<lparr>ad_escrowsCompleted := ad_escrowsCompleted b1 + 1\<rparr> in
                   case releaseDurationHours row of
                     None \<Rightarrow> b
                   | Some h \<Rightarrow> b\<lparr>ad_avgReleaseHours := ad_avgReleaseHours b + h\<rparr>)
                else b1)
      in if toLowerCase (ar_status row) = ''disputed'' then b2\<lparr>ad_disputes := ad_disputes b2 + 1\<rparr> else b2)"

definition count_asset :: "escrow_row \<Rightarrow> asset_entry \<Rightarrow> asset_entry" where
  "count_asset row e0 =
     (let e = e0\<lparr>ae_volume := ae_volume e0 + rawAmountOf row, ae_escrowsCreated := ae_escrowsCreated e0 + 1\<rparr>
      in if row_completed row then
           e\<lparr>ae_escrowsCompleted := ae_escrowsCompleted e + 1,
              ae_completedVolume := ae_completedVolume e + rawAmountOf row\<rparr>
         else e)"

definition add_duration :: "string \<Rightarrow> rat \<Rightarrow> (string, rat \<times> nat) jmap \<Rightarrow> (string, rat \<times> nat) jmap" where
  "add_duration date h m = (let (hours, n) = (case jm_get m date of None \<Rightarrow> (0, 0) | Some p \<Rightarrow> p)
     in jm_set m date (hours + h, n + 1))"

definition analytics_step :: "string \<Rightarrow> escrow_row \<Rightarrow> analytics_state \<Rightarrow> analytics_state" where
  "analytics_step date row s =
     (case jm_get (st_buckets s) date of
        None \<Rightarrow> s
      | Some bucket \<Rightarrow>
          (let s1 = s\<lparr>st_buckets := jm_set (st_buckets s) date (count_day row bucket),
                 st_assets := jm_set (st_assets s) (currencyOf row)
                   (count_asset row (assetEntry (currencyOf row) (st_assets s)))\<rparr>
           in case releaseDurationHours row of
                None \<Rightarrow> s1
              | Some h \<Rightarrow> s1\<lparr>st_durationTotal := st_durationTotal s + h, st_durationCount := st_durationCount s + 1,
                  st_durationsByDay := add_duration date h (st_durationsByDay s)\<rparr>))"

text \<open>\<open>toISOString\<close> of an invalid creation date throws: \<open>None\<close>.\<close>

fun analytics_loop :: "escrow_row list \<Rightarrow> analytics_state \<Rightarrow> analytics_state option" where
  "analytics_loop [] s = Some s"
| "analytics_loop (row # rows) s = (case date_ms (ar_created_at row) of
       None \<Rightarrow> None
     | Some t \<Rightarrow> analytics_loop rows (analytics_step (utc_day t) row s))"

definition finish_day :: "(string, rat \<times> nat) jmap \<Rightarrow> analytics_day \<Rightarrow> analytics_day" where
  "finish_day durations b =
     b\<lparr>ad_disputeRate := (if ad_escrowsCreated b \<noteq> 0 then of_nat (ad_disputes b) / of_nat (ad_escrowsCreated b) * 100 else 0),
       ad_avgReleaseHours := (case jm_get durations (ad_date b) of None \<Rightarrow> 0 | Some (hours, n) \<Rightarrow> hours / of_nat n)\<rparr>"

record platform_health =
  ph_totalVolume :: rat
  ph_activeEscrows :: nat
  ph_totalCreated :: nat
  ph_totalCompleted :: nat
  ph_totalDisputes :: nat
  ph_completionRate :: rat
  ph_avgReleaseHours :: rat
  ph_totalValueLocked :: rat

record analytics_report =
  rp_escrowChartData :: "analytics_day list"
  rp_assetBreakdown :: "asset_entry list"
  rp_platformHealth :: platform_health
  rp_hasData :: bool

text \<open>\<open>localeCompare\<close> on currencies is the collation of the host, a parameter.\<close>

definition analytics_summary ::
  "(string \<Rightarrow> string \<Rightarrow> int) \<Rightarrow> int \<Rightarrow> int \<Rightarrow> escrow_row list \<Rightarrow> escrow_row list \<Rightarrow> analytics_report option" where
  "analytics_summary collate start end periodRows activeRows =
     (case analytics_loop periodRows \<lparr>st_buckets = day_buckets start end, st_durationTotal = 0,
          st_durationCount = 0, st_durationsByDay = [], st_assets = []\<rparr> of
        None \<Rightarrow> None
      | Some s \<Rightarrow>
          (let chartData = map (finish_day (st_durationsByDay s)) (jm_values (st_buckets s));
               totalCreated = length periodRows;
               totalCompleted = sum_list (map ad_escrowsCompleted chartData);
               totalDisputes = sum_list (map ad_disputes chartData)
           in Some \<lparr>rp_escrowChartData = chartData,
                rp_assetBreakdown =
                  js_sort (\<lambda>a b. collate (ae_currency a) (ae_currency b) \<le> 0) (jm_values (st_assets s)),
                rp_platformHealth = \<lparr>ph_totalVolume = sum_list (map ad_volume chartData),
                  ph_activeEscrows = length activeRows, ph_totalCreated = totalCreated,
                  ph_totalCompleted = totalCompleted, ph_totalDisputes = totalDisputes,
                  ph_completionRate = (if totalCreated \<noteq> 0 then of_nat totalCompleted / of_nat totalCreated * 100 else 0),
                  ph_avgReleaseHours = (if st_durationCount s \<noteq> 0
                    then st_durationTotal s / of_nat (st_durationCount s) else 0),
                  ph_totalValueLocked = sum_list (map amountOf activeRows)\<rparr>,
                rp_hasData = (periodRows \<noteq> [])\<rparr>))"

datatype analytics_reply = AnBadRange | AnFailed | AnReport analytics_report

text \<open>A \<open>Date\<close> beyond 100,000,000 days from the epoch is invalid.\<close>

definition valid_time :: "int \<Rightarrow> int option" where
  "valid_time t = (if \<bar>t\<bar> \<le> 100000000 * MS_PER_DAY then Some t else None)"

text \<open>The handler: the date range, the two queries, the report. The outer \<open>None\<close> is a query that never ends.\<close>

definition analytics_range ::
  "(string \<Rightarrow> int option) \<Rightarrow> int \<Rightarrow> string option \<Rightarrow> string option \<Rightarrow> (int \<times> int) option" where
  "analytics_range parse_date now start_q end_q =
     (let end = (case end_q of Some v \<Rightarrow> parse_date v | None \<Rightarrow> Some now);
          start = (case start_q of Some v \<Rightarrow> parse_date v | None \<Rightarrow> Option.bind end (\<lambda>e. valid_time (e - 29 * MS_PER_DAY)))
      in case (start, end) of
           (Some s, Some e) \<Rightarrow> if s > e \<or> e - s > 366 * MS_PER_DAY then None else Some (s, e)
         | _ \<Rightarrow> None)"

definition analytics_route ::
  "(string \<Rightarrow> string \<Rightarrow> int) \<Rightarrow> (string \<Rightarrow> int option) \<Rightarrow> escrow_query \<Rightarrow> int \<Rightarrow> string option \<Rightarrow> string option \<Rightarrow>
   analytics_reply option" where
  "analytics_route collate parse_date q now start_q end_q =
     (case analytics_range parse_date now start_q end_q of
        None \<Rightarrow> Some AnBadRange
      | Some (start, end) \<Rightarrow>
          (case (fetchEscrows q (CreatedBetween (toISOString start) (toISOString end)),
                 fetchEscrows q (StatusIn ACTIVE_STATUSES)) of
             (Some (Inr period), Some (Inr active)) \<Rightarrow>
               Some (case analytics_summary collate start end period active of
                   None \<Rightarrow> AnFailed | Some r \<Rightarrow> AnReport r)
           | (Some (Inl _), _) \<Rightarrow> Some AnFailed
           | (_, Some (Inl _)) \<Rightarrow> Some AnFailed
           | _ \<Rightarrow> None))"

section \<open>The reference\<close>

text \<open>What the report must be, by filtering and summing.\<close>

definition row_date :: "escrow_row \<Rightarrow> string option" where
  "row_date row = map_option utc_day (date_ms (ar_created_at row))"

definition rows_on :: "escrow_row list \<Rightarrow> string \<Rightarrow> escrow_row list" where
  "rows_on rows d = filter (\<lambda>r. row_date r = Some d) rows"

definition durations :: "escrow_row list \<Rightarrow> rat list" where
  "durations rows = map the (filter (\<lambda>h. h \<noteq> None) (map releaseDurationHours rows))"

definition average :: "rat list \<Rightarrow> rat" where
  "average xs = (if xs = [] then 0 else sum_list xs / of_nat (length xs))"

definition percentage :: "nat \<Rightarrow> nat \<Rightarrow> rat" where
  "percentage k n = (if n \<noteq> 0 then of_nat k / of_nat n * 100 else 0)"

definition row_disputed :: "escrow_row \<Rightarrow> bool" where
  "row_disputed r = (toLowerCase (ar_status r) = ''disputed'')"

definition spec_day :: "escrow_row list \<Rightarrow> string \<Rightarrow> analytics_day" where
  "spec_day rows d = (let rs = rows_on rows d in
     \<lparr>ad_date = d, ad_volume = sum_list (map amountOf rs), ad_escrowsCreated = length rs,
      ad_escrowsCompleted = length (filter row_completed rs), ad_disputes = length (filter row_disputed rs),
      ad_disputeRate = percentage (length (filter row_disputed rs)) (length rs),
      ad_avgReleaseHours = average (durations rs)\<rparr>)"

definition spec_asset :: "escrow_row list \<Rightarrow> string \<Rightarrow> asset_entry" where
  "spec_asset rows c = (let rs = filter (\<lambda>r. currencyOf r = c) rows in
     \<lparr>ae_currency = c, ae_volume = sum_list (map rawAmountOf rs),
      ae_completedVolume = sum_list (map rawAmountOf (filter row_completed rs)),
      ae_escrowsCreated = length rs, ae_escrowsCompleted = length (filter row_completed rs)\<rparr>)"

text \<open>The state of the loop after some rows, over the days \<open>ds\<close>: what the invariant says.\<close>

definition partial_day :: "escrow_row list \<Rightarrow> string \<Rightarrow> analytics_day" where
  "partial_day rows d = (spec_day rows d)\<lparr>ad_disputeRate := 0, ad_avgReleaseHours := sum_list (durations (rows_on rows d))\<rparr>"

definition in_days :: "string list \<Rightarrow> escrow_row list \<Rightarrow> escrow_row list" where
  "in_days ds rows = filter (\<lambda>r. \<exists>d\<in>set ds. row_date r = Some d) rows"

definition loop_inv :: "string list \<Rightarrow> escrow_row list \<Rightarrow> analytics_state \<Rightarrow> bool" where
  "loop_inv ds rows s =
     (map fst (st_buckets s) = ds \<and>
      (\<forall>d. jm_get (st_buckets s) d = (if d \<in> set ds then Some (partial_day rows d) else None)) \<and>
      st_durationTotal s = sum_list (durations (in_days ds rows)) \<and>
      st_durationCount s = length (durations (in_days ds rows)) \<and>
      (\<forall>d\<in>set ds. jm_get (st_durationsByDay s) d =
         (let hs = durations (rows_on rows d) in if hs = [] then None else Some (sum_list hs, length hs))) \<and>
      map fst (st_assets s) = first_seen (map currencyOf (in_days ds rows)) \<and>
      (\<forall>c. jm_get (st_assets s) c =
         (if c \<in> set (map currencyOf (in_days ds rows)) then Some (spec_asset (in_days ds rows) c) else None)))"

lemma durations_snoc: "durations (rows @ [r]) = durations rows @ (case releaseDurationHours r of None \<Rightarrow> [] | Some h \<Rightarrow> [h])"
  by (simp add: durations_def split: option.splits)

lemma rows_on_snoc: "rows_on (rows @ [r]) d = rows_on rows d @ (if row_date r = Some d then [r] else [])"
  by (simp add: rows_on_def)

lemma in_days_snoc: "in_days ds (rows @ [r]) = in_days ds rows @ (if \<exists>d\<in>set ds. row_date r = Some d then [r] else [])"
  by (simp add: in_days_def)

lemma duration_completed: "releaseDurationHours r = Some h \<Longrightarrow> row_completed r"
  by (auto simp: releaseDurationHours_def split: if_splits)

lemma count_day_partial: "row_date r = Some d \<Longrightarrow> count_day r (partial_day rows d) = partial_day (rows @ [r]) d"
  by (auto simp: count_day_def partial_day_def spec_day_def Let_def rows_on_snoc durations_snoc row_disputed_def
      dest: duration_completed split: option.splits)

lemma count_asset_spec:
  "count_asset r (spec_asset rows (currencyOf r)) = spec_asset (rows @ [r]) (currencyOf r)"
  by (auto simp: count_asset_def spec_asset_def Let_def)

lemma spec_asset_other: "currencyOf r \<noteq> c \<Longrightarrow> spec_asset (rows @ [r]) c = spec_asset rows c"
  by (simp add: spec_asset_def)

lemma spec_asset_none: "c \<notin> set (map currencyOf rows) \<Longrightarrow> spec_asset rows c = empty_asset c"
proof -
  assume "c \<notin> set (map currencyOf rows)"
  then have "filter (\<lambda>r. currencyOf r = c) rows = []" by (auto simp: filter_empty_conv)
  then show ?thesis by (simp add: spec_asset_def empty_asset_def)
qed

lemma partial_day_other: "row_date r \<noteq> Some d \<Longrightarrow> partial_day (rows @ [r]) d = partial_day rows d"
  by (simp add: partial_day_def spec_day_def rows_on_snoc)

lemma step_outside:
  assumes "loop_inv ds rows s" and "row_date r = Some d" and "d \<notin> set ds"
  shows "loop_inv ds (rows @ [r]) (analytics_step d r s)"
proof -
  have "analytics_step d r s = s" using assms by (simp add: analytics_step_def loop_inv_def)
  moreover have "\<forall>e\<in>set ds. row_date r \<noteq> Some e" using assms(2,3) by auto
  ultimately show ?thesis using assms(1) by (simp add: loop_inv_def partial_day_other rows_on_snoc in_days_snoc)
qed

lemma step_assets:
  assumes "\<forall>c. jm_get m c = (if c \<in> set (map currencyOf rows) then Some (spec_asset rows c) else None)"
  shows "jm_get (jm_set m (currencyOf r) (count_asset r (assetEntry (currencyOf r) m))) c =
     (if c \<in> set (map currencyOf (rows @ [r])) then Some (spec_asset (rows @ [r]) c) else None)"
proof -
  have "assetEntry (currencyOf r) m = spec_asset rows (currencyOf r)"
    using assms by (auto simp: assetEntry_def spec_asset_none)
  then show ?thesis using assms by (auto simp: count_asset_spec spec_asset_other)
qed

lemma step_durations:
  assumes "\<forall>e\<in>set ds. jm_get m e = (let hs = durations (rows_on rows e) in if hs = [] then None else Some (sum_list hs, length hs))"
    and "row_date r = Some d" and "d \<in> set ds" and "releaseDurationHours r = Some h" and "e \<in> set ds"
  shows "jm_get (add_duration d h m) e =
     (let hs = durations (rows_on (rows @ [r]) e) in if hs = [] then None else Some (sum_list hs, length hs))"
  using assms by (auto simp: add_duration_def Let_def rows_on_snoc durations_snoc split: prod.splits option.splits)

lemma step_inside:
  assumes inv: "loop_inv ds rows s" and d: "row_date r = Some d" "d \<in> set ds"
  shows "loop_inv ds (rows @ [r]) (analytics_step d r s)"
proof -
  let ?t = "analytics_step d r s"
  have b: "jm_get (st_buckets s) d = Some (partial_day rows d)" using inv d by (simp add: loop_inv_def)
  have assets: "\<forall>c. jm_get (st_assets s) c =
      (if c \<in> set (map currencyOf (in_days ds rows)) then Some (spec_asset (in_days ds rows) c) else None)"
    using inv by (simp add: loop_inv_def)
  have days: "\<forall>e\<in>set ds. jm_get (st_durationsByDay s) e =
      (let hs = durations (rows_on rows e) in if hs = [] then None else Some (sum_list hs, length hs))"
    using inv by (simp add: loop_inv_def)
  have snoc: "in_days ds (rows @ [r]) = in_days ds rows @ [r]" using d by (simp add: in_days_snoc)
  have buckets: "st_buckets ?t = jm_set (st_buckets s) d (partial_day (rows @ [r]) d)"
    "st_assets ?t = jm_set (st_assets s) (currencyOf r) (count_asset r (assetEntry (currencyOf r) (st_assets s)))"
    using b count_day_partial [OF d(1), of rows] by (simp_all add: analytics_step_def Let_def split: option.splits)
  have "map fst (st_buckets ?t) = ds"
    using inv b by (simp add: buckets map_fst_jm_set jm_has_def loop_inv_def)
  moreover have "\<forall>e. jm_get (st_buckets ?t) e = (if e \<in> set ds then Some (partial_day (rows @ [r]) e) else None)"
    using inv d by (auto simp: buckets loop_inv_def partial_day_other)
  moreover have "st_durationTotal ?t = sum_list (durations (in_days ds (rows @ [r])))"
    "st_durationCount ?t = length (durations (in_days ds (rows @ [r])))"
    using inv b by (simp_all add: snoc durations_snoc analytics_step_def Let_def loop_inv_def split: option.splits)
  moreover have "\<forall>e\<in>set ds. jm_get (st_durationsByDay ?t) e =
      (let hs = durations (rows_on (rows @ [r]) e) in if hs = [] then None else Some (sum_list hs, length hs))"
  proof (cases "releaseDurationHours r")
    case None
    then have "durations (rows_on (rows @ [r]) e) = durations (rows_on rows e)" for e
      by (simp add: rows_on_snoc durations_snoc)
    then show ?thesis using days b None by (simp add: analytics_step_def Let_def)
  next
    case (Some h)
    then have "st_durationsByDay ?t = add_duration d h (st_durationsByDay s)"
      using b by (simp add: analytics_step_def Let_def)
    then show ?thesis using step_durations [OF days d Some] by simp
  qed
  moreover have "map fst (st_assets ?t) = first_seen (map currencyOf (in_days ds (rows @ [r])))"
    using inv assets by (auto simp: buckets snoc loop_inv_def map_fst_jm_set jm_set_append jm_has_def)
  moreover have "\<forall>c. jm_get (st_assets ?t) c = (if c \<in> set (map currencyOf (in_days ds (rows @ [r])))
      then Some (spec_asset (in_days ds (rows @ [r])) c) else None)"
    unfolding buckets snoc using step_assets [OF assets] by blast
  ultimately show ?thesis by (simp add: loop_inv_def)
qed

lemma loop_inv_step:
  "loop_inv ds rows s \<Longrightarrow> row_date r = Some d \<Longrightarrow> loop_inv ds (rows @ [r]) (analytics_step d r s)"
  using step_inside step_outside by blast

lemma analytics_loop_inv:
  "loop_inv ds done s \<Longrightarrow> analytics_loop rows s =
     (if list_all (\<lambda>r. row_date r \<noteq> None) rows then Some t else None) \<Longrightarrow>
   list_all (\<lambda>r. row_date r \<noteq> None) rows \<Longrightarrow> loop_inv ds (done @ rows) t"
proof (induction rows arbitrary: s "done")
  case (Cons r rows)
  then obtain u where u: "date_ms (ar_created_at r) = Some u" by (auto simp: row_date_def)
  then have "row_date r = Some (utc_day u)" by (simp add: row_date_def)
  from Cons.IH [OF loop_inv_step [OF Cons.prems(1) this]] Cons.prems u show ?case by simp
qed simp

lemma analytics_loop_defined:
  "(analytics_loop rows s = None) = (\<not> list_all (\<lambda>r. row_date r \<noteq> None) rows)"
  by (induction rows s rule: analytics_loop.induct) (auto simp: row_date_def split: option.splits)

definition report_days :: "int \<Rightarrow> int \<Rightarrow> string list" where
  "report_days start end = map fst (day_buckets start end)"

lemma filled_with:
  assumes "\<And>k v. jm_get m k = Some v \<Longrightarrow> v = h k"
  shows "jm_get (foldl (\<lambda>m x. jm_set m (f x) (h (f x))) m xs) d = Some v \<Longrightarrow> v = h d"
  using assms
proof (induction xs arbitrary: m)
  case (Cons x xs)
  show ?case by (rule Cons.IH) (use Cons.prems in \<open>auto split: if_splits\<close>)
qed auto

lemma day_buckets_get:
  "jm_get (day_buckets start end) d = (if d \<in> set (report_days start end) then Some (empty_day d) else None)"
proof -
  have "jm_get (day_buckets start end) d = Some v \<Longrightarrow> v = empty_day d" for v
    unfolding day_buckets_def by (rule filled_with [where h = empty_day and f = "\<lambda>day. utc_day (day * MS_PER_DAY)"]) simp_all
  moreover have "d \<in> set (report_days start end) \<longleftrightarrow> jm_get (day_buckets start end) d \<noteq> None"
    by (simp add: report_days_def jm_get_def map_of_eq_None_iff)
  ultimately show ?thesis by (cases "jm_get (day_buckets start end) d") auto
qed

lemma report_days_distinct: "distinct (report_days start end)"
proof -
  have "jm_wf m \<Longrightarrow> jm_wf (foldl (\<lambda>m day. jm_set m (f day) (g day)) m xs)"
    for f :: "int \<Rightarrow> string" and g :: "int \<Rightarrow> analytics_day" and m xs
    by (induction xs arbitrary: m) auto
  then show ?thesis by (simp add: report_days_def day_buckets_def jm_wf_def [symmetric])
qed

lemma empty_day_partial: "empty_day d = partial_day [] d"
  by (simp add: empty_day_def partial_day_def spec_day_def rows_on_def durations_def)

lemma loop_inv_start:
  "loop_inv (report_days start end) [] \<lparr>st_buckets = day_buckets start end, st_durationTotal = 0,
     st_durationCount = 0, st_durationsByDay = [], st_assets = []\<rparr>"
  by (simp add: loop_inv_def day_buckets_get empty_day_partial report_days_def durations_def in_days_def rows_on_def)

definition spec_report ::
  "(string \<Rightarrow> string \<Rightarrow> int) \<Rightarrow> int \<Rightarrow> int \<Rightarrow> escrow_row list \<Rightarrow> escrow_row list \<Rightarrow> analytics_report" where
  "spec_report collate start end period active =
     (let ds = report_days start end; rows = in_days ds period in
      \<lparr>rp_escrowChartData = map (spec_day period) ds,
       rp_assetBreakdown = js_sort (\<lambda>a b. collate (ae_currency a) (ae_currency b) \<le> 0)
         (map (spec_asset rows) (first_seen (map currencyOf rows))),
       rp_platformHealth = \<lparr>ph_totalVolume = sum_list (map amountOf rows), ph_activeEscrows = length active,
         ph_totalCreated = length period, ph_totalCompleted = length (filter row_completed rows),
         ph_totalDisputes = length (filter row_disputed rows),
         ph_completionRate = percentage (length (filter row_completed rows)) (length period),
         ph_avgReleaseHours = average (durations rows), ph_totalValueLocked = sum_list (map amountOf active)\<rparr>,
       rp_hasData = (period \<noteq> [])\<rparr>)"

text \<open>Every row of the range is on exactly one of its days, so the totals of the days are the totals.\<close>

lemma sum_over_days:
  fixes f :: "escrow_row \<Rightarrow> 'a :: comm_monoid_add"
  assumes "distinct ds"
  shows "sum_list (map (\<lambda>d. sum_list (map f (rows_on rows d))) ds) = sum_list (map f (in_days ds rows))"
proof (induction rows)
  case Nil
  then show ?case by (simp add: rows_on_def in_days_def)
next
  case (Cons r rows)
  have "sum_list (map (\<lambda>d. sum_list (map f (rows_on (r # rows) d))) ds) =
      sum_list (map (\<lambda>d. (if row_date r = Some d then f r else 0) + sum_list (map f (rows_on rows d))) ds)"
    by (rule arg_cong [where f = sum_list]) (simp add: rows_on_def)
  also have "\<dots> = sum_list (map (\<lambda>d. if row_date r = Some d then f r else 0) ds) + sum_list (map f (in_days ds rows))"
    by (simp add: sum_list_addf Cons)
  also have "sum_list (map (\<lambda>d. if row_date r = Some d then f r else 0) ds) =
      (if \<exists>d\<in>set ds. row_date r = Some d then f r else 0)"
    using assms by (induction ds) (auto simp: sum_list_0)
  finally show ?case by (simp add: in_days_def)
qed

lemma count_over_days:
  "distinct ds \<Longrightarrow> sum_list (map (\<lambda>d. length (filter P (rows_on rows d))) ds) = length (filter P (in_days ds rows))"
proof -
  have len: "length (filter P xs) = sum_list (map (\<lambda>r. if P r then 1 else 0) xs)" for xs :: "escrow_row list"
    by (induction xs) auto
  assume "distinct ds"
  then show ?thesis unfolding len by (rule sum_over_days)
qed

lemma spec_day_fields [simp]:
  "ad_date (spec_day rows d) = d" "ad_volume (spec_day rows d) = sum_list (map amountOf (rows_on rows d))"
  "ad_escrowsCompleted (spec_day rows d) = length (filter row_completed (rows_on rows d))"
  "ad_disputes (spec_day rows d) = length (filter row_disputed (rows_on rows d))"
  by (simp_all add: spec_day_def Let_def)

lemma finish_partial_day:
  "jm_get m d = (let hs = durations (rows_on rows d) in if hs = [] then None else Some (sum_list hs, length hs)) \<Longrightarrow>
   finish_day m (partial_day rows d) = spec_day rows d"
  by (auto simp: finish_day_def partial_day_def spec_day_def Let_def percentage_def average_def)

lemma loop_inv_chart:
  assumes "loop_inv ds rows s" and "distinct ds"
  shows "map (finish_day (st_durationsByDay s)) (jm_values (st_buckets s)) = map (spec_day rows) ds"
    and "jm_values (st_assets s) = map (spec_asset (in_days ds rows)) (first_seen (map currencyOf (in_days ds rows)))"
proof -
  have b: "map fst (st_buckets s) = ds" using assms(1) by (simp add: loop_inv_def)
  have "jm_values (st_buckets s) = map (partial_day rows) (map fst (st_buckets s))"
    using assms by (intro jm_values_keys) (auto simp: loop_inv_def jm_wf_def)
  then have "jm_values (st_buckets s) = map (partial_day rows) ds" by (simp only: b)
  then show "map (finish_day (st_durationsByDay s)) (jm_values (st_buckets s)) = map (spec_day rows) ds"
    using assms(1) by (auto simp: loop_inv_def intro!: finish_partial_day)
  have k: "map fst (st_assets s) = first_seen (map currencyOf (in_days ds rows))"
    "\<forall>c. jm_get (st_assets s) c = (if c \<in> set (map currencyOf (in_days ds rows)) then Some (spec_asset (in_days ds rows) c) else None)"
    using assms(1) by (simp_all add: loop_inv_def)
  have "jm_values (st_assets s) = map (spec_asset (in_days ds rows)) (map fst (st_assets s))"
  proof (rule jm_values_keys)
    show "jm_wf (st_assets s)" by (simp only: jm_wf_def k(1) first_seen_simps)
    fix c assume "c \<in> set (map fst (st_assets s))"
    then show "jm_get (st_assets s) c = Some (spec_asset (in_days ds rows) c)"
      by (simp only: k first_seen_simps if_True)
  qed
  then show "jm_values (st_assets s) = map (spec_asset (in_days ds rows)) (first_seen (map currencyOf (in_days ds rows)))"
    by (simp only: k(1))
qed

lemma analytics_exact_core:
  "analytics_summary collate start end period active =
     (if list_all (\<lambda>r. row_date r \<noteq> None) period then Some (spec_report collate start end period active) else None)"
proof -
  let ?s = "\<lparr>st_buckets = day_buckets start end, st_durationTotal = 0, st_durationCount = 0,
     st_durationsByDay = [], st_assets = []\<rparr>" and ?ds = "report_days start end"
  show ?thesis
  proof (cases "analytics_loop period ?s")
    case None
    then show ?thesis using analytics_loop_defined [of period ?s] by (simp add: analytics_summary_def)
  next
    case (Some t)
    then have ok: "list_all (\<lambda>r. row_date r \<noteq> None) period" using analytics_loop_defined [of period ?s] by simp
    have inv: "loop_inv ?ds period t"
      using analytics_loop_inv [OF loop_inv_start [of start "end"], of period t] ok Some by simp
    have totals: "st_durationTotal t = sum_list (durations (in_days ?ds period))"
      "st_durationCount t = length (durations (in_days ?ds period))"
      using inv by (simp_all add: loop_inv_def)
    show ?thesis
      using ok loop_inv_chart [OF inv report_days_distinct]
        sum_over_days [OF report_days_distinct, of amountOf period start "end"]
        count_over_days [OF report_days_distinct, of row_completed period start "end"]
        count_over_days [OF report_days_distinct, of row_disputed period start "end"]
      by (simp add: analytics_summary_def Some spec_report_def Let_def totals average_def percentage_def o_def
          cong: if_cong)
  qed
qed

text \<open>
  The analytics loop computes the reference report. For every list of rows the report exists exactly
  when every creation date is valid, and then it is the one defined by filtering and summing: each day of
  the range has the volume, the counts, the dispute rate and the average release time of exactly its
  rows; each currency met in the range has the sums of exactly its rows; the platform totals are the
  sums over all rows of the range, each counted once.
\<close>

theorem analytics_exact:
  "analytics_summary collate start end period active =
     (if list_all (\<lambda>r. row_date r \<noteq> None) period then Some (spec_report collate start end period active) else None)"
  by (rule analytics_exact_core)

section \<open>Reading the table\<close>

text \<open>
  A server that pages a fixed table: every request at an offset gets the next rows of what the condition
  selects.
\<close>

definition serves :: "escrow_query \<Rightarrow> (escrow_where \<Rightarrow> escrow_row list) \<Rightarrow> bool" where
  "serves q table = (\<forall>cond lmt offset. q cond lmt offset = Inr (Some (take lmt (drop offset (table cond)))))"

lemma fetch_from_table:
  assumes "serves q table"
  shows "offset \<le> length (table cond) \<Longrightarrow>
    fetch_from q cond offset rows = Some (Inr (rows @ drop offset (table cond)))"
proof (induction "length (table cond) - offset" arbitrary: offset rows rule: less_induct)
  case less
  have q: "q cond PAGE_SIZE offset = Inr (Some (take PAGE_SIZE (drop offset (table cond))))"
    using assms by (simp add: serves_def)
  show ?case
  proof (cases "length (table cond) - offset < PAGE_SIZE")
    case True
    then show ?thesis by (subst fetch_from.simps) (simp add: q)
  next
    case False
    then have "fetch_from q cond (offset + PAGE_SIZE) (rows @ take PAGE_SIZE (drop offset (table cond)))
        = Some (Inr ((rows @ take PAGE_SIZE (drop offset (table cond))) @ drop (offset + PAGE_SIZE) (table cond)))"
      by (intro less) (auto simp: PAGE_SIZE_def)
    moreover have "take PAGE_SIZE (drop offset (table cond)) @ drop (offset + PAGE_SIZE) (table cond) = drop offset (table cond)"
      by (metis add.commute append_take_drop_id drop_drop)
    ultimately show ?thesis using False by (subst fetch_from.simps) (simp add: q)
  qed
qed

lemma fetchEscrows_table: "serves q table \<Longrightarrow> fetchEscrows q cond = Some (Inr (table cond))"
  by (simp add: fetchEscrows_def fetch_from_table)

text \<open>
  C15: A request for analytics is always answered, with the report of the whole table. Against a server
  that pages a fixed table, the reading loops end, however many rows there are and also when their
  number is a multiple of the page size; the handler refuses exactly the date ranges that are invalid,
  reversed or longer than 366 days, and otherwise replies with the reference report over all rows of
  the range and all active rows, or with a failure when a creation date is invalid.
\<close>

theorem analytics_route_answers:
  assumes "serves q table"
  shows "analytics_route collate parse_date q now start_q end_q = Some
    (case analytics_range parse_date now start_q end_q of
       None \<Rightarrow> AnBadRange
     | Some (start, end) \<Rightarrow>
         (let period = table (CreatedBetween (toISOString start) (toISOString end)) in
          if list_all (\<lambda>r. row_date r \<noteq> None) period
          then AnReport (spec_report collate start end period (table (StatusIn ACTIVE_STATUSES)))
          else AnFailed))"
  by (simp add: analytics_route_def fetchEscrows_table [OF assms] analytics_exact_core Let_def split: option.splits)

definition sample_row :: escrow_row where
  "sample_row = \<lparr>ar_amount = AmStr ''12.5'', ar_currency = Some ''usdc'', ar_status = ''Released'',
     ar_created_at = Iso 1000, ar_released_at = Some (Iso 7201000)\<rparr>"

theorem analytics_route_answers_witness:
  "analytics_route (\<lambda>a b. 0) (\<lambda>_. None) (\<lambda>cond lmt off. Inr (Some (take lmt (drop off [sample_row])))) 5000 None None
     = Some (AnReport (spec_report (\<lambda>a b. 0) (5000 - 29 * MS_PER_DAY) 5000 [sample_row] [sample_row]))"
proof -
  have "serves (\<lambda>cond lmt off. Inr (Some (take lmt (drop off [sample_row])))) (\<lambda>_. [sample_row])"
    by (simp add: serves_def)
  from analytics_route_answers [OF this, of "\<lambda>a b. 0" "\<lambda>_. None" 5000 None None] show ?thesis
    by (simp add: analytics_range_def valid_time_def MS_PER_DAY_def sample_row_def row_date_def Let_def)
qed

end
