(* ===== verification/Review_Filter.thy ===== *)
theory Review_Filter
  imports Js_Base
begin

text \<open>
  \<open>lib/moderation/review-content-filter.ts\<close> and \<open>lib/moderation/flagged-listings.ts\<close> of the frontend:
  the word filter that reviews pass before they are published and the queue of flagged listings.
\<close>

section \<open>Normalisation\<close>

datatype moderation_status = Approved | Held | Rejected

record filter_result =
  fr_approved :: bool
  fr_status :: moderation_status
  fr_normalizedText :: string
  fr_flaggedTerms :: "string list"
  fr_reason :: "string option"

definition PROFANITY_LIST :: "string list" where
  "PROFANITY_LIST = [''asshole'', ''bastard'', ''bitch'', ''bullshit'', ''cunt'', ''damn'', ''dick'', ''douchebag'',
     ''fuck'', ''fucker'', ''fucking'', ''goddamn'', ''idiot'', ''jackass'', ''moron'', ''motherfucker'',
     ''nigger'', ''piss'', ''prick'', ''retard'', ''shit'', ''slut'', ''stupid'', ''whore'']"

definition ABUSE_LIST :: "string list" where
  "ABUSE_LIST = [''kill yourself'', ''kys'', ''you should die'', ''hate you'', ''worthless piece of'']"

text \<open>
  \<open>normalize('NFKD')\<close> without the combining marks, on the lower-case letters and the symbols of
  Latin-1. The fraction slash and the Greek mu of the decompositions lie outside Latin-1; a slash and
  the micro sign stand for them (none of these is a letter, a digit or white space).
\<close>

definition nfkd_char :: "char \<Rightarrow> string" where
  "nfkd_char c = (let n = (of_char c :: nat) in
     if n = 160 then '' '' else if n \<in> {168, 175, 180, 184} then '' ''
     else if n = 170 then ''a'' else if n = 178 then ''2'' else if n = 179 then ''3''
     else if n = 185 then ''1'' else if n = 186 then ''o''
     else if n = 188 then ''1/4'' else if n = 189 then ''1/2'' else if n = 190 then ''3/4''
     else if 224 \<le> n \<and> n \<le> 229 then ''a'' else if n = 231 then ''c''
     else if 232 \<le> n \<and> n \<le> 235 then ''e'' else if 236 \<le> n \<and> n \<le> 239 then ''i''
     else if n = 241 then ''n'' else if 242 \<le> n \<and> n \<le> 246 then ''o''
     else if 249 \<le> n \<and> n \<le> 252 then ''u'' else if n = 253 \<or> n = 255 then ''y''
     else [c])"

definition leet_char :: "char \<Rightarrow> char" where
  "leet_char c =
     (if c = CHR ''@'' then CHR ''a'' else if c = CHR ''3'' then CHR ''e''
      else if c \<in> set ''1!|'' then CHR ''i'' else if c = CHR ''0'' then CHR ''o''
      else if c \<in> set ''$5'' then CHR ''s'' else if c = CHR ''7'' then CHR ''t'' else c)"

definition word_char :: "char \<Rightarrow> bool" where
  "word_char c = (let n = (of_char c :: nat) in (97 \<le> n \<and> n \<le> 122) \<or> (48 \<le> n \<and> n \<le> 57))"

definition blank_char :: "char \<Rightarrow> char" where
  "blank_char c = (if word_char c \<or> is_ws c then c else CHR '' '')"

definition normalizeReviewText :: "string \<Rightarrow> string" where
  "normalizeReviewText s =
     (if s = [] then []
      else trim (collapse (map (\<lambda>c. blank_char (leet_char c)) (concat (map nfkd_char (toLowerCase s))))))"

definition tokenize :: "string \<Rightarrow> string list" where
  "tokenize s = (if s = [] then [] else filter (\<lambda>t. t \<noteq> []) (split_on (CHR '' '') s))"

section \<open>The filter\<close>

definition containsProfanity :: "string \<Rightarrow> bool" where
  "containsProfanity s =
     (let normalized = normalizeReviewText s in
      if normalized = [] then False
      else if list_ex (\<lambda>token. token \<in> set PROFANITY_LIST) (tokenize normalized) then True
      else list_ex (\<lambda>phrase. str_includes normalized phrase) (map toLowerCase ABUSE_LIST))"

fun flag_tokens :: "string list \<Rightarrow> string list \<Rightarrow> string list" where
  "flag_tokens [] flagged = flagged"
| "flag_tokens (t # ts) flagged =
     flag_tokens ts (if t \<in> set PROFANITY_LIST \<and> t \<notin> set flagged then flagged @ [t] else flagged)"

definition filterReviewContent :: "string \<Rightarrow> filter_result" where
  "filterReviewContent s =
     (let n = normalizeReviewText s in
      if n = [] then
        \<lparr>fr_approved = False, fr_status = Rejected, fr_normalizedText = n, fr_flaggedTerms = [],
         fr_reason = Some ''Review content cannot be empty.''\<rparr>
      else
        (let abusive = filter (\<lambda>phrase. str_includes n phrase) (map toLowerCase ABUSE_LIST) in
         if length abusive > 0 then
           \<lparr>fr_approved = False, fr_status = Rejected, fr_normalizedText = n, fr_flaggedTerms = abusive,
            fr_reason = Some ''This review contains abusive or harassing language and cannot be submitted.''\<rparr>
         else
           (let profane = flag_tokens (tokenize n) abusive in
            if length profane > 0 then
              \<lparr>fr_approved = False, fr_status = Held, fr_normalizedText = n, fr_flaggedTerms = profane,
               fr_reason = Some ''This review contains language that requires moderation before it can be published.''\<rparr>
            else
              \<lparr>fr_approved = True, fr_status = Approved, fr_normalizedText = n, fr_flaggedTerms = [],
               fr_reason = None\<rparr>)))"

definition shouldHoldForModeration :: "string \<Rightarrow> bool" where
  "shouldHoldForModeration s = (fr_status (filterReviewContent s) \<noteq> Approved)"

section \<open>Flagged listings\<close>

datatype flag_source = UserReport | DuplicateDetection | FraudDetection

datatype flag_status = FlagPending | FlagApproved | FlagRemoved

record flagged_listing =
  fl_id :: string
  fl_listingId :: string
  fl_eventName :: string
  fl_sellerId :: string
  fl_price :: rat
  fl_source :: flag_source
  fl_reason :: string
  fl_flaggedAt :: string
  fl_status :: flag_status

definition resolveFlag :: "flagged_listing list \<Rightarrow> string \<Rightarrow> flag_status \<Rightarrow> flagged_listing list" where
  "resolveFlag flags i decision = map (\<lambda>f. if fl_id f = i then f\<lparr>fl_status := decision\<rparr> else f) flags"

section \<open>Correctness\<close>

lemma set_flag_tokens: "set (flag_tokens ts flagged) = set flagged \<union> (set ts \<inter> set PROFANITY_LIST)"
  by (induction ts flagged rule: flag_tokens.induct) auto

lemma distinct_flag_tokens: "distinct flagged \<Longrightarrow> distinct (flag_tokens ts flagged)"
  by (induction ts flagged rule: flag_tokens.induct) auto

text \<open>What a normalised text looks like: letters, digits and single blanks, none at the ends.\<close>

lemma is_ws_blank [simp]: "is_ws (CHR '' '')"
  by (simp add: is_ws_def)

definition plain :: "char \<Rightarrow> bool" where
  "plain c = (word_char c \<or> c = CHR '' '')"

lemma collapse_plain: "list_all (\<lambda>c. word_char c \<or> is_ws c) s \<Longrightarrow> list_all plain (collapse s)"
proof (induction s rule: collapse.induct)
  case (2 c cs)
  have "list_all (\<lambda>c. word_char c \<or> is_ws c) (dropWhile is_ws cs)"
    using "2.prems" by (auto simp: list_all_iff dest: set_dropWhileD)
  with 2 show ?case by (auto simp: plain_def)
qed simp

lemma normalized_plain: "list_all plain (normalizeReviewText s)"
proof -
  have "list_all (\<lambda>c. word_char c \<or> is_ws c) (map (\<lambda>c. blank_char (leet_char c)) u)" for u
    by (auto simp: list_all_iff blank_char_def)
  from collapse_plain [OF this] show ?thesis
    using set_trim by (fastforce simp: normalizeReviewText_def list_all_iff)
qed

lemma abuse_lower: "map toLowerCase ABUSE_LIST = ABUSE_LIST"
  by (simp add: ABUSE_LIST_def toLowerCase_def lower_char_def)

text \<open>
  The review filter and its yes-no twin agree, and each verdict is exact. \<open>containsProfanity\<close> says
  yes to exactly the non-empty texts that \<open>filterReviewContent\<close> does not approve; a text is rejected
  exactly when nothing of it is left after normalisation or an abusive phrase occurs in it, held
  exactly when it is not rejected and one of its words is on the profanity list, and approved
  otherwise; the flagged terms are, without repetition, exactly the phrases or the words found; the
  normalised text has only lower-case letters, digits and blanks.
\<close>

theorem review_filter_exact:
  "(let r = filterReviewContent s; n = normalizeReviewText s;
        abusive = list_ex (str_includes n) ABUSE_LIST;
        profane = list_ex (\<lambda>t. t \<in> set PROFANITY_LIST) (tokenize n)
    in (containsProfanity s \<longleftrightarrow> n \<noteq> [] \<and> \<not> fr_approved r)
     \<and> fr_status r = (if n = [] then Rejected else if abusive then Rejected else if profane then Held else Approved)
     \<and> (fr_approved r \<longleftrightarrow> fr_status r = Approved) \<and> (shouldHoldForModeration s \<longleftrightarrow> \<not> fr_approved r)
     \<and> distinct (fr_flaggedTerms r)
     \<and> set (fr_flaggedTerms r) =
         (if n = [] then {} else if abusive then {p. p \<in> set ABUSE_LIST \<and> str_includes n p}
          else set (tokenize n) \<inter> set PROFANITY_LIST)
     \<and> fr_normalizedText r = n \<and> list_all plain n)"
proof -
  let ?n = "normalizeReviewText s" and ?ts = "tokenize (normalizeReviewText s)"
  have d: "distinct (filter (str_includes ?n) ABUSE_LIST)"
    by (rule distinct_filter) (simp add: ABUSE_LIST_def)
  have none: "flag_tokens ?ts [] = [] \<longleftrightarrow> \<not> list_ex (\<lambda>t. t \<in> set PROFANITY_LIST) ?ts"
    using set_flag_tokens [of ?ts "[]"] by (auto simp: list_ex_iff simp flip: set_empty)
  have some: "filter (str_includes ?n) ABUSE_LIST = [] \<longleftrightarrow> \<not> list_ex (str_includes ?n) ABUSE_LIST"
    by (auto simp: filter_empty_conv list_ex_iff)
  consider "?n = []" | "?n \<noteq> []" "list_ex (str_includes ?n) ABUSE_LIST"
    | "?n \<noteq> []" "\<not> list_ex (str_includes ?n) ABUSE_LIST" by blast
  then show ?thesis
  proof cases
    case 1
    then show ?thesis
      by (simp add: Let_def filterReviewContent_def containsProfanity_def shouldHoldForModeration_def)
  next
    case 2
    then have "0 < length (filter (str_includes ?n) ABUSE_LIST)" using some by simp
    with 2 d show ?thesis
      by (auto simp: Let_def filterReviewContent_def containsProfanity_def shouldHoldForModeration_def
          abuse_lower normalized_plain cong: if_cong)
  next
    case 3
    then have e: "filter (str_includes ?n) ABUSE_LIST = []" using some by simp
    show ?thesis
      using 3 e none set_flag_tokens [of ?ts "[]"] distinct_flag_tokens [of "[]" ?ts]
      by (auto simp: Let_def filterReviewContent_def containsProfanity_def shouldHoldForModeration_def
          abuse_lower normalized_plain cong: if_cong)
  qed
qed

text \<open>The abusive phrases are matched as substrings, not as words: a harmless word is enough.\<close>

lemma skyscraper_rejected: "fr_status (filterReviewContent ''Nice skyscraper'') = Rejected"
proof -
  let ?n = "normalizeReviewText ''Nice skyscraper''"
  have n: "?n = ''nice skyscraper''" by code_simp
  have "str_includes ''nice skyscraper'' ''kys''" "''kys'' \<in> set ABUSE_LIST"
    by code_simp (simp add: ABUSE_LIST_def)
  then have "0 < length (filter (str_includes ?n) ABUSE_LIST)"
    unfolding n by (intro length_pos_if_in_set [of "''kys''"]) simp
  then show ?thesis unfolding filterReviewContent_def Let_def abuse_lower by (simp add: n)
qed

text \<open>Resolving a flag moves no other flag and loses none.\<close>

lemma resolveFlag_exact:
  "length (resolveFlag flags i decision) = length flags"
  "map fl_id (resolveFlag flags i decision) = map fl_id flags"
  "filter (\<lambda>f. fl_id f \<noteq> i) (resolveFlag flags i decision) = filter (\<lambda>f. fl_id f \<noteq> i) flags"
  "resolveFlag (resolveFlag flags i decision) i decision = resolveFlag flags i decision"
  by (induction flags) (simp_all add: resolveFlag_def)

end
