(* ===== verification/Client_Changelog.thy ===== *)
theory Client_Changelog
  imports Http_Input Js_Map
begin

text \<open>
  \<open>lib/changelog/escrow-changelog.ts\<close> of the frontend: the write-once changelog of a session, a map from
  contracts to their entries in order, with an event per mutation. The logger that events go to is the
  list of the events. Names that the backend's service also has carry the prefix \<open>client\<close>; time stamps
  are the ISO texts the caller or the clock gives.
\<close>

datatype client_kind =
    ESCROW_CREATED | ESCROW_FUNDED | MILESTONE_APPROVED | MILESTONE_STATUS_CHANGED | FUNDS_RELEASED
  | DISPUTE_STARTED | DISPUTE_RESOLVED | TRANSFER_INITIATED | TRANSFER_COMPLETED | TRANSFER_CANCELLED
  | REFUND_CLAIMED | ESCROW_CANCELLED | CUSTOM

record client_entry =
  ec_id :: string
  ec_contractId :: string
  ec_kind :: client_kind
  ec_description :: string
  ec_createdAt :: string
  ec_actor :: string
  ec_txHash :: "string option"
  ec_metadata :: "(string \<times> json) list option"

text \<open>What the caller of an append supplies: an entry whose creation time may be missing.\<close>

record client_draft =
  ed_id :: string
  ed_contractId :: string
  ed_kind :: client_kind
  ed_description :: string
  ed_createdAt :: "string option"
  ed_actor :: string
  ed_txHash :: "string option"
  ed_metadata :: "(string \<times> json) list option"

datatype client_event_type = EntryAppended | EntryRemoved | ChangelogCleared

record client_event =
  ee_type :: client_event_type
  ee_contractId :: "string option"
  ee_entryId :: "string option"
  ee_timestamp :: string

datatype client_changelog_error =
    ChangelogImmutabilityError string
  | DuplicateChangelogEntryError string

record client_changelog =
  cc_store :: "(string, client_entry list) jmap"
  cc_events :: "client_event list"

definition logChangelogEvent :: "client_event \<Rightarrow> client_changelog \<Rightarrow> client_changelog" where
  "logChangelogEvent e s = s\<lparr>cc_events := cc_events s @ [e]\<rparr>"

definition frozen_entry :: "string \<Rightarrow> client_draft \<Rightarrow> client_entry" where
  "frozen_entry now d = \<lparr>ec_id = ed_id d, ec_contractId = ed_contractId d, ec_kind = ed_kind d,
     ec_description = ed_description d,
     ec_createdAt = (case ed_createdAt d of None \<Rightarrow> now | Some t \<Rightarrow> t), ec_actor = ed_actor d,
     ec_txHash = ed_txHash d, ec_metadata = ed_metadata d\<rparr>"

definition entries_of :: "string \<Rightarrow> client_changelog \<Rightarrow> client_entry list" where
  "entries_of c s = (case jm_get (cc_store s) c of None \<Rightarrow> [] | Some es \<Rightarrow> es)"

definition appendChangelogEntry ::
  "string \<Rightarrow> client_draft \<Rightarrow> client_changelog \<Rightarrow> (client_changelog_error + client_entry) \<times> client_changelog" where
  "appendChangelogEntry now d s =
     (if list_ex (list_ex (\<lambda>e. ec_id e = ed_id d)) (jm_values (cc_store s)) then
        (Inl (DuplicateChangelogEntryError (ed_id d)), s)
      else
        (let frozen = frozen_entry now d;
             c = ed_contractId d
         in (Inr frozen,
             logChangelogEvent \<lparr>ee_type = EntryAppended, ee_contractId = Some c, ee_entryId = Some (ed_id d),
                 ee_timestamp = ec_createdAt frozen\<rparr>
               (s\<lparr>cc_store := jm_set (cc_store s) c (entries_of c s @ [frozen])\<rparr>))))"

definition updateChangelogEntry ::
  "string \<Rightarrow> string \<Rightarrow> client_changelog \<Rightarrow> (client_changelog_error + client_entry) \<times> client_changelog" where
  "updateChangelogEntry c i s = (Inl (ChangelogImmutabilityError i), s)"

text \<open>\<open>splice\<close> at the index of the first match.\<close>

fun splice_first :: "('a \<Rightarrow> bool) \<Rightarrow> 'a list \<Rightarrow> ('a \<times> 'a list) option" where
  "splice_first P [] = None"
| "splice_first P (x # xs) = (if P x then Some (x, xs) else map_option (\<lambda>(y, ys). (y, x # ys)) (splice_first P xs))"

definition removeChangelogEntry ::
  "string \<Rightarrow> string \<Rightarrow> string \<Rightarrow> client_changelog \<Rightarrow> client_entry option \<times> client_changelog" where
  "removeChangelogEntry now c i s =
     (case jm_get (cc_store s) c of
        None \<Rightarrow> (None, s)
      | Some entries \<Rightarrow>
          (case splice_first (\<lambda>e. ec_id e = i) entries of
             None \<Rightarrow> (None, s)
           | Some (removed, rest) \<Rightarrow>
               (Some removed,
                logChangelogEvent \<lparr>ee_type = EntryRemoved, ee_contractId = Some c, ee_entryId = Some i,
                    ee_timestamp = now\<rparr>
                  (s\<lparr>cc_store := jm_set (cc_store s) c rest\<rparr>))))"

definition getChangelog :: "string \<Rightarrow> client_changelog \<Rightarrow> client_entry list" where
  "getChangelog c s = entries_of c s"

definition getChangelogEntry :: "string \<Rightarrow> string \<Rightarrow> client_changelog \<Rightarrow> client_entry option" where
  "getChangelogEntry c i s = List.find (\<lambda>e. ec_id e = i) (entries_of c s)"

definition clearChangelog :: "string \<Rightarrow> string \<Rightarrow> client_changelog \<Rightarrow> bool \<times> client_changelog" where
  "clearChangelog now c s =
     (let had = jm_has (cc_store s) c;
          s1 = s\<lparr>cc_store := jm_delete (cc_store s) c\<rparr>
      in (had, if had then logChangelogEvent \<lparr>ee_type = ChangelogCleared, ee_contractId = Some c,
                 ee_entryId = None, ee_timestamp = now\<rparr> s1 else s1))"

definition clearAllChangelogs :: "client_changelog \<Rightarrow> client_changelog" where
  "clearAllChangelogs s = s\<lparr>cc_store := []\<rparr>"

section \<open>Runs\<close>

definition empty_changelog :: client_changelog where
  "empty_changelog = \<lparr>cc_store = [], cc_events = []\<rparr>"

datatype client_changelog_op =
    CcAppend string client_draft
  | CcUpdate string string
  | CcRemove string string string
  | CcClear string string

fun cc_apply :: "client_changelog_op \<Rightarrow> client_changelog \<Rightarrow> client_changelog" where
  "cc_apply (CcAppend now d) s = snd (appendChangelogEntry now d s)"
| "cc_apply (CcUpdate c i) s = snd (updateChangelogEntry c i s)"
| "cc_apply (CcRemove now c i) s = snd (removeChangelogEntry now c i s)"
| "cc_apply (CcClear now c) s = snd (clearChangelog now c s)"

definition cc_run :: "client_changelog_op list \<Rightarrow> client_changelog \<Rightarrow> client_changelog" where
  "cc_run ops s = foldl (\<lambda>t x. cc_apply x t) s ops"

text \<open>The index of a changelog, and its reconstruction from the events alone.\<close>

definition cc_index :: "client_changelog \<Rightarrow> (string \<times> string) set" where
  "cc_index s = {(c, i). \<exists>e\<in>set (entries_of c s). ec_id e = i}"

definition cc_replay :: "(string \<times> string) set \<Rightarrow> client_event \<Rightarrow> (string \<times> string) set" where
  "cc_replay ix e = (case (ee_type e, ee_contractId e, ee_entryId e) of
       (EntryAppended, Some c, Some i) \<Rightarrow> insert (c, i) ix
     | (EntryRemoved, Some c, Some i) \<Rightarrow> ix - {(c, i)}
     | (ChangelogCleared, Some c, _) \<Rightarrow> {p \<in> ix. fst p \<noteq> c}
     | _ \<Rightarrow> ix)"

definition cc_wf :: "client_changelog \<Rightarrow> bool" where
  "cc_wf s =
     (jm_wf (cc_store s) \<and>
      (\<forall>c e. e \<in> set (entries_of c s) \<longrightarrow> ec_contractId e = c) \<and>
      (\<forall>c. distinct (map ec_id (entries_of c s))) \<and>
      (\<forall>c d e f. e \<in> set (entries_of c s) \<longrightarrow> f \<in> set (entries_of d s) \<longrightarrow> ec_id e = ec_id f \<longrightarrow> c = d))"

lemma splice_first_Some:
  "splice_first P xs = Some (y, ys) \<Longrightarrow> \<exists>us vs. xs = us @ y # vs \<and> ys = us @ vs \<and> P y"
proof (induction xs arbitrary: ys)
  case (Cons x xs)
  show ?case
  proof (cases "P x")
    case True
    then show ?thesis using Cons.prems by auto
  next
    case False
    then obtain zs where "splice_first P xs = Some (y, zs)" "ys = x # zs" using Cons.prems by auto
    with Cons.IH [of zs] show ?thesis by (metis append_Cons)
  qed
qed simp

lemma entries_mem:
  assumes "jm_wf (cc_store s)"
  shows "(\<exists>es\<in>set (jm_values (cc_store s)). \<exists>e\<in>set es. P e) \<longleftrightarrow> (\<exists>c. \<exists>e\<in>set (entries_of c s). P e)"
proof -
  have "es \<in> set (jm_values (cc_store s)) \<longleftrightarrow> (\<exists>c. jm_get (cc_store s) c = Some es)" for es
    using jm_get_iff_mem [OF assms] by (force simp: jm_values_def)
  moreover have "e \<in> set (entries_of c s) \<longleftrightarrow> (\<exists>es. jm_get (cc_store s) c = Some es \<and> e \<in> set es)" for c e
    by (cases "jm_get (cc_store s) c") (auto simp: entries_of_def)
  ultimately show ?thesis by metis
qed

lemma entries_of_simps [simp]:
  "entries_of c (s\<lparr>cc_store := jm_set m d es\<rparr>) = (if c = d then es else entries_of c (s\<lparr>cc_store := m\<rparr>))"
  "entries_of c (s\<lparr>cc_store := jm_delete m d\<rparr>) = (if c = d then [] else entries_of c (s\<lparr>cc_store := m\<rparr>))"
  "entries_of c (s\<lparr>cc_store := cc_store s\<rparr>) = entries_of c s"
  "entries_of c (logChangelogEvent e s) = entries_of c s"
  "cc_store (logChangelogEvent e s) = cc_store s" "cc_events (logChangelogEvent e s) = cc_events s @ [e]"
  by (simp_all add: entries_of_def logChangelogEvent_def)

lemma append_ok:
  assumes "cc_wf s"
  shows "cc_wf (snd (appendChangelogEntry now d s))"
    and "\<exists>es. cc_events (snd (appendChangelogEntry now d s)) = cc_events s @ es
      \<and> cc_index (snd (appendChangelogEntry now d s)) = foldl cc_replay (cc_index s) es"
proof -
  have wf: "jm_wf (cc_store s)" using assms by (simp add: cc_wf_def)
  let ?dup = "list_ex (list_ex (\<lambda>e. ec_id e = ed_id d)) (jm_values (cc_store s))"
  have dup: "?dup \<longleftrightarrow> (\<exists>c. \<exists>e\<in>set (entries_of c s). ec_id e = ed_id d)"
    using entries_mem [OF wf] by (simp add: list_ex_iff)
  have "cc_wf (snd (appendChangelogEntry now d s)) \<and>
    (\<exists>es. cc_events (snd (appendChangelogEntry now d s)) = cc_events s @ es
      \<and> cc_index (snd (appendChangelogEntry now d s)) = foldl cc_replay (cc_index s) es)"
  proof (cases ?dup)
    case True
    then show ?thesis using assms by (auto simp: appendChangelogEntry_def intro!: exI [of _ "[]"])
  next
    case False
    let ?t = "snd (appendChangelogEntry now d s)"
    have st: "entries_of c ?t = (if c = ed_contractId d then entries_of c s @ [frozen_entry now d] else entries_of c s)" for c
      using False by (simp add: appendChangelogEntry_def Let_def)
    have fresh: "\<And>c e. e \<in> set (entries_of c s) \<Longrightarrow> ec_id e \<noteq> ed_id d \<and> ed_id d \<noteq> ec_id e" using False dup by metis
    have "jm_wf (cc_store ?t)" using False wf by (simp add: appendChangelogEntry_def Let_def)
    then have "cc_wf ?t"
      using assms unfolding cc_wf_def st by (auto simp: frozen_entry_def dest: fresh)
    moreover have "cc_index ?t = insert (ed_contractId d, ed_id d) (cc_index s)"
      unfolding cc_index_def st by (auto simp: frozen_entry_def split: if_splits)
    moreover have "cc_events ?t = cc_events s @ [\<lparr>ee_type = EntryAppended, ee_contractId = Some (ed_contractId d),
        ee_entryId = Some (ed_id d), ee_timestamp = ec_createdAt (frozen_entry now d)\<rparr>]"
      using False by (simp add: appendChangelogEntry_def Let_def)
    ultimately show ?thesis by (auto simp: cc_replay_def)
  qed
  then show "cc_wf (snd (appendChangelogEntry now d s))"
    and "\<exists>es. cc_events (snd (appendChangelogEntry now d s)) = cc_events s @ es
      \<and> cc_index (snd (appendChangelogEntry now d s)) = foldl cc_replay (cc_index s) es" by simp_all
qed

lemma remove_ok:
  assumes "cc_wf s"
  shows "cc_wf (snd (removeChangelogEntry now c i s))"
    and "\<exists>es. cc_events (snd (removeChangelogEntry now c i s)) = cc_events s @ es
      \<and> cc_index (snd (removeChangelogEntry now c i s)) = foldl cc_replay (cc_index s) es"
proof -
  let ?t = "snd (removeChangelogEntry now c i s)"
  have "cc_wf ?t \<and> (\<exists>es. cc_events ?t = cc_events s @ es \<and> cc_index ?t = foldl cc_replay (cc_index s) es)"
  proof (cases "splice_first (\<lambda>e. ec_id e = i) (entries_of c s)")
    case None
    then have "?t = s" by (simp add: removeChangelogEntry_def entries_of_def split: option.splits)
    then show ?thesis using assms by (auto intro!: exI [of _ "[]"])
  next
    case (Some p)
    then obtain y ys where p: "splice_first (\<lambda>e. ec_id e = i) (entries_of c s) = Some (y, ys)" by (cases p) auto
    from splice_first_Some [OF p] obtain us vs
      where parts: "entries_of c s = us @ y # vs" "ys = us @ vs" "ec_id y = i" by auto
    obtain es where es: "jm_get (cc_store s) c = Some es" "entries_of c s = es"
      using parts(1) by (cases "jm_get (cc_store s) c") (auto simp: entries_of_def)
    have t: "?t = logChangelogEvent \<lparr>ee_type = EntryRemoved, ee_contractId = Some c, ee_entryId = Some i, ee_timestamp = now\<rparr>
        (s\<lparr>cc_store := jm_set (cc_store s) c ys\<rparr>)"
      using p es by (simp add: removeChangelogEntry_def)
    have st: "entries_of d ?t = (if d = c then ys else entries_of d s)" for d by (simp add: t)
    have sub: "set (entries_of d ?t) \<subseteq> set (entries_of d s)" for d using parts st by auto
    have dist: "distinct (map ec_id (us @ y # vs))" using assms parts(1) by (simp add: cc_wf_def flip: parts(1))
    have "jm_wf (cc_store ?t)" using assms by (simp add: t cc_wf_def)
    moreover have "distinct (map ec_id (entries_of d ?t))" for d
      using assms dist parts by (auto simp: st cc_wf_def)
    ultimately have "cc_wf ?t" using assms sub unfolding cc_wf_def by (meson subsetD)
    moreover have "cc_index ?t = cc_index s - {(c, i)}"
      unfolding cc_index_def st using parts dist by (auto split: if_splits) (metis imageI)+
    ultimately show ?thesis by (auto simp: t cc_replay_def)
  qed
  then show "cc_wf ?t" and "\<exists>es. cc_events ?t = cc_events s @ es \<and> cc_index ?t = foldl cc_replay (cc_index s) es"
    by simp_all
qed

lemma clear_ok:
  assumes "cc_wf s"
  shows "cc_wf (snd (clearChangelog now c s))"
    and "\<exists>es. cc_events (snd (clearChangelog now c s)) = cc_events s @ es
      \<and> cc_index (snd (clearChangelog now c s)) = foldl cc_replay (cc_index s) es"
proof -
  let ?t = "snd (clearChangelog now c s)"
  have st: "entries_of d ?t = (if d = c then [] else entries_of d s)" for d
    by (simp add: clearChangelog_def Let_def)
  have "jm_wf (cc_store ?t)" using assms by (simp add: clearChangelog_def Let_def cc_wf_def)
  then show "cc_wf ?t" using assms unfolding cc_wf_def st by auto
  have ix: "cc_index ?t = {p \<in> cc_index s. fst p \<noteq> c}"
    unfolding cc_index_def st by (auto split: if_splits)
  show "\<exists>es. cc_events ?t = cc_events s @ es \<and> cc_index ?t = foldl cc_replay (cc_index s) es"
  proof (cases "jm_has (cc_store s) c")
    case True
    then show ?thesis unfolding ix by (simp add: clearChangelog_def Let_def cc_replay_def)
  next
    case False
    then have "entries_of c s = []" by (simp add: entries_of_def jm_has_def)
    then have "cc_index ?t = cc_index s" unfolding ix by (auto simp: cc_index_def)
    moreover have "cc_events ?t = cc_events s" using False by (simp add: clearChangelog_def)
    ultimately show ?thesis by (auto intro!: exI [of _ "[]"])
  qed
qed

lemma cc_apply_ok:
  "cc_wf s \<Longrightarrow> cc_wf (cc_apply x s) \<and>
    (\<exists>es. cc_events (cc_apply x s) = cc_events s @ es \<and> cc_index (cc_apply x s) = foldl cc_replay (cc_index s) es)"
  by (cases x) (auto simp: append_ok remove_ok clear_ok updateChangelogEntry_def intro!: exI [of _ "[]"])

lemma cc_run_ok:
  "cc_wf s \<Longrightarrow> cc_wf (cc_run ops s) \<and>
    (\<exists>es. cc_events (cc_run ops s) = cc_events s @ es \<and> cc_index (cc_run ops s) = foldl cc_replay (cc_index s) es)"
proof (induction ops arbitrary: s)
  case (Cons x xs)
  obtain es where es: "cc_wf (cc_apply x s)" "cc_events (cc_apply x s) = cc_events s @ es"
    "cc_index (cc_apply x s) = foldl cc_replay (cc_index s) es"
    using cc_apply_ok [OF Cons.prems] by blast
  from Cons.IH [OF es(1)] obtain fs where
    "cc_wf (cc_run xs (cc_apply x s))" "cc_events (cc_run xs (cc_apply x s)) = cc_events (cc_apply x s) @ fs"
    "cc_index (cc_run xs (cc_apply x s)) = foldl cc_replay (cc_index (cc_apply x s)) fs"
    by blast
  then show ?case by (auto simp: cc_run_def es)
qed (auto simp: cc_run_def)

text \<open>
  The session's changelog stays well-formed and its events tell its content. Whatever appends,
  updates, removals and clearings of contracts are made from the empty changelog, every entry is filed
  under its own contract, no two entries share an id, also not across contracts, and replaying the
  emitted events yields exactly the pairs of contract and id that the changelog holds.
\<close>

theorem client_changelog_consistent:
  "cc_wf (cc_run ops empty_changelog) \<and>
   cc_index (cc_run ops empty_changelog) = foldl cc_replay {} (cc_events (cc_run ops empty_changelog))"
proof -
  have "cc_wf empty_changelog" "cc_index empty_changelog = {}" "cc_events empty_changelog = []"
    by (simp_all add: cc_wf_def empty_changelog_def entries_of_def cc_index_def)
  with cc_run_ok [of empty_changelog ops] show ?thesis by auto
qed

end
