(* ===== verification/Listing_Routes.thy ===== *)
theory Listing_Routes
  imports Listing_Fraud Http_Input
begin

text \<open>
  \<open>routes/listings.ts\<close>, \<open>routes/listing-alerts.ts\<close> and
  \<open>services/dispute-resolver-balance.service.ts\<close>. The alert service is a parameter, because its file
  does not parse; the escrow service the listing update loads by a dynamic import is one, because the
  module does not exist in the repository. Both act on an outside world; a failure is the message of
  the value they throw, which the handlers pass to the error handler.
\<close>

section \<open>Request schemas\<close>

text \<open>\<open>z.number().nonnegative()\<close>, \<open>.positive()\<close>: any number but \<open>NaN\<close>, also the infinity that a huge literal parses to.\<close>

definition nonnegative :: "jsnum \<Rightarrow> bool" where "nonnegative x = js_le (Fin 0) x"

definition positive :: "jsnum \<Rightarrow> bool" where "positive x = js_lt (Fin 0) x"

definition number_field :: "(jsnum \<Rightarrow> bool) \<Rightarrow> json option \<Rightarrow> jsnum option" where
  "number_field valid v = (case v of Some (JNum x) \<Rightarrow> if valid x then Some x else None | _ \<Rightarrow> None)"

definition optional_number :: "(jsnum \<Rightarrow> bool) \<Rightarrow> json option \<Rightarrow> jsnum option option" where
  "optional_number valid v = (case v of None \<Rightarrow> Some None | Some j \<Rightarrow> map_option Some (number_field valid (Some j)))"

definition optional_email :: "(string \<Rightarrow> bool) \<Rightarrow> json option \<Rightarrow> string option option" where
  "optional_email is_email v = (case optional_string v of
       Some (Some s) \<Rightarrow> if is_email s then Some (Some s) else None | r \<Rightarrow> r)"

definition listing_schema :: "json \<Rightarrow> listing option" where
  "listing_schema j =
     (case (optional_string (json_prop j ''id''), required_string (json_prop j ''eventName''),
            optional_string (json_prop j ''eventDate''), optional_string (json_prop j ''section''),
            optional_string (json_prop j ''row''), optional_string (json_prop j ''seat''),
            required_string (json_prop j ''sellerId''), optional_string (json_prop j ''status'')) of
        (Some i, Some e, Some d, Some sec, Some r, Some st, Some sel, Some status) \<Rightarrow>
          Some \<lparr>li_id = i, li_eventName = e, li_eventDate = d, li_section = sec, li_row = r, li_seat = st,
            li_sellerId = sel, li_status = status\<rparr>
      | _ \<Rightarrow> None)"

fun all_some :: "'a option list \<Rightarrow> 'a list option" where
  "all_some [] = Some []"
| "all_some (x # xs) = (case (x, all_some xs) of (Some y, Some ys) \<Rightarrow> Some (y # ys) | _ \<Rightarrow> None)"

definition risk_check_schema :: "json \<Rightarrow> (listing \<times> listing list) option" where
  "risk_check_schema j =
     (case (case json_prop j ''listing'' of None \<Rightarrow> None | Some l \<Rightarrow> listing_schema l,
            case json_prop j ''existingListings'' of
              None \<Rightarrow> Some []
            | Some (JArr ls) \<Rightarrow> all_some (map listing_schema ls)
            | Some _ \<Rightarrow> None) of
        (Some l, Some ls) \<Rightarrow> Some (l, ls)
      | _ \<Rightarrow> None)"

text \<open>A listing as the alert service sees it.\<close>

record snapshot =
  sn_id :: string
  sn_eventName :: string
  sn_price :: jsnum
  sn_section :: "string option"
  sn_status :: "string option"

definition create_listing_schema :: "json \<Rightarrow> snapshot option" where
  "create_listing_schema j =
     (case (required_string (json_prop j ''id''), required_string (json_prop j ''eventName''),
            number_field nonnegative (json_prop j ''price''), optional_string (json_prop j ''section''),
            optional_string (json_prop j ''status'')) of
        (Some i, Some e, Some p, Some sec, Some st) \<Rightarrow>
          Some \<lparr>sn_id = i, sn_eventName = e, sn_price = p, sn_section = sec, sn_status = st\<rparr>
      | _ \<Rightarrow> None)"

text \<open>The path gives the id; the previous price is kept apart.\<close>

definition update_listing_schema :: "string \<Rightarrow> json \<Rightarrow> (snapshot \<times> jsnum option) option" where
  "update_listing_schema i j =
     (case (required_string (json_prop j ''eventName''), number_field nonnegative (json_prop j ''price''),
            optional_number nonnegative (json_prop j ''previousPrice''), optional_string (json_prop j ''section''),
            optional_string (json_prop j ''status'')) of
        (Some e, Some p, Some prev, Some sec, Some st) \<Rightarrow>
          Some (\<lparr>sn_id = i, sn_eventName = e, sn_price = p, sn_section = sec, sn_status = st\<rparr>, prev)
      | _ \<Rightarrow> None)"

section \<open>Listings\<close>

datatype listing_body =
    LbUnauthorized string
  | LbInvalid string
  | LbRisk risk_result
  | LbCreated snapshot "string list" "string list"
  | LbUpdated string "string list" "string list"
  | LbLocked

text \<open>\<open>Inl\<close> is \<open>next(err)\<close>.\<close>

type_synonym listing_result = "string + listing_body reply"

record 'w alert_service =
  al_notifyNewListing :: "snapshot \<Rightarrow> 'w \<Rightarrow> (string + string list) \<times> 'w"
  al_notifySavedSearchMatches :: "snapshot \<Rightarrow> 'w \<Rightarrow> (string + string list) \<times> 'w"
  al_notifyListingUpdate :: "snapshot \<Rightarrow> jsnum option \<Rightarrow> 'w \<Rightarrow> (string + string list \<times> string list) \<times> 'w"

definition risk_check_route :: "json \<Rightarrow> listing_body reply" where
  "risk_check_route body = (case risk_check_schema body of
       None \<Rightarrow> Reply 400 (LbInvalid ''Invalid listing risk-check payload'')
     | Some (l, existing) \<Rightarrow> Reply 200 (LbRisk (assessListingRisk l existing)))"

definition create_listing_route :: "'w alert_service \<Rightarrow> json \<Rightarrow> 'w \<Rightarrow> listing_result \<times> 'w" where
  "create_listing_route al body w = (case create_listing_schema body of
       None \<Rightarrow> (Inr (Reply 400 (LbInvalid ''Invalid listing payload'')), w)
     | Some l \<Rightarrow>
         (case al_notifyNewListing al l w of
            (Inl e, w1) \<Rightarrow> (Inl e, w1)
          | (Inr notified, w1) \<Rightarrow>
              (case al_notifySavedSearchMatches al l w1 of
                 (Inl e, w2) \<Rightarrow> (Inl e, w2)
               | (Inr matches, w2) \<Rightarrow> (Inr (Reply 201 (LbCreated l notified matches)), w2))))"

definition LOCKING_ESCROW_STATUSES :: "string list" where
  "LOCKING_ESCROW_STATUSES = [''active'', ''in_progress'', ''funded'', ''completed'']"

text \<open>The outcome of \<open>import("../services/escrow.service")\<close>: a rejection, a module without the finder, or the finder.\<close>

datatype 'w escrow_module =
    ImportFails string
  | NoFinder
  | Finder "string \<Rightarrow> 'w \<Rightarrow> (string + json option) \<times> 'w"

definition locking_status :: "json \<Rightarrow> bool" where
  "locking_status escrow = (case opt_prop (Some escrow) ''status'' of
       Some (JStr st) \<Rightarrow> st \<in> set LOCKING_ESCROW_STATUSES | _ \<Rightarrow> False)"

definition escrow_list :: "json option \<Rightarrow> json list" where
  "escrow_list v = (case v of Some (JArr es) \<Rightarrow> es | _ \<Rightarrow> if js_truthy v then [the v] else [])"

definition findLockingEscrow :: "'w escrow_module \<Rightarrow> string \<Rightarrow> 'w \<Rightarrow> (string + json option) \<times> 'w" where
  "findLockingEscrow m listingId w = (case m of
       ImportFails e \<Rightarrow> (Inl e, w)
     | NoFinder \<Rightarrow> (Inr None, w)
     | Finder f \<Rightarrow> (case f listingId w of
           (Inl e, w') \<Rightarrow> (Inl e, w')
         | (Inr v, w') \<Rightarrow> (Inr (List.find locking_status (escrow_list v)), w')))"

definition update_listing_route ::
  "'w escrow_module \<Rightarrow> 'w alert_service \<Rightarrow> string \<Rightarrow> json \<Rightarrow> 'w \<Rightarrow> listing_result \<times> 'w" where
  "update_listing_route m al i body w = (case update_listing_schema i body of
       None \<Rightarrow> (Inr (Reply 400 (LbInvalid ''Invalid listing update'')), w)
     | Some (l, prev) \<Rightarrow>
         (case findLockingEscrow m i w of
            (Inl e, w1) \<Rightarrow> (Inl e, w1)
          | (Inr locking, w1) \<Rightarrow>
              if js_truthy locking then (Inr (Reply 409 LbLocked), w1)
              else
                (case al_notifyListingUpdate al l prev w1 of
                   (Inl e, w2) \<Rightarrow> (Inl e, w2)
                 | (Inr (price, sell), w2) \<Rightarrow> (Inr (Reply 200 (LbUpdated i price sell)), w2))))"

text \<open>The router with its guard: writes need a verified token.\<close>

datatype listing_request =
    RiskCheck json
  | CreateListing json
  | UpdateListing string json

definition listings_router ::
  "verifier \<Rightarrow> 'w escrow_module \<Rightarrow> 'w alert_service \<Rightarrow> string option \<Rightarrow> listing_request \<Rightarrow> 'w \<Rightarrow> listing_result \<times> 'w" where
  "listings_router verify m al header req w =
     (case requireAuthForWrites verify (case req of UpdateListing _ _ \<Rightarrow> ''PATCH'' | _ \<Rightarrow> ''POST'') header of
        Inl (Reply st (AuthError e)) \<Rightarrow> (Inr (Reply st (LbUnauthorized e)), w)
      | Inr _ \<Rightarrow>
          (case req of
             RiskCheck body \<Rightarrow> (Inr (risk_check_route body), w)
           | CreateListing body \<Rightarrow> create_listing_route al body w
           | UpdateListing i body \<Rightarrow> update_listing_route m al i body w))"

section \<open>Saved searches and watches\<close>

record search_input =
  si_eventName :: string
  si_maxPrice :: "jsnum option"
  si_section :: "string option"
  si_email :: "string option"
  si_pushToken :: "string option"

record watch_input =
  wi_listingId :: string
  wi_eventName :: "string option"
  wi_price :: "jsnum option"
  wi_email :: "string option"
  wi_pushToken :: "string option"

text \<open>The stores of the alert service: searches and watches of a user, with what it returns for them.\<close>

record ('w, 's, 'e) watch_service =
  ws_createSearch :: "string \<Rightarrow> search_input \<Rightarrow> 'w \<Rightarrow> 's \<times> 'w"
  ws_listSearches :: "string \<Rightarrow> 'w \<Rightarrow> 's list"
  ws_deleteSearch :: "string \<Rightarrow> string \<Rightarrow> 'w \<Rightarrow> bool \<times> 'w"
  ws_watch :: "string \<Rightarrow> watch_input \<Rightarrow> 'w \<Rightarrow> 'e \<times> 'w"
  ws_listWatched :: "string \<Rightarrow> 'w \<Rightarrow> 'e list"
  ws_listingId :: "'e \<Rightarrow> string"
  ws_unwatch :: "string \<Rightarrow> string \<Rightarrow> 'w \<Rightarrow> bool \<times> 'w"
  ws_checkPriceChange :: "string \<Rightarrow> jsnum \<Rightarrow> 'w \<Rightarrow> string list \<times> 'w"

datatype ('s, 'e) alert_body =
    AlError string
  | AlSearch 's
  | AlSearches "'s list"
  | AlWatch 'e
  | AlWatches "'e list"
  | AlNotified "string list"
  | AlEmpty

definition search_schema :: "(string \<Rightarrow> bool) \<Rightarrow> json \<Rightarrow> search_input option" where
  "search_schema is_email j =
     (case (required_string (json_prop j ''eventName''), optional_number positive (json_prop j ''maxPrice''),
            optional_string (json_prop j ''section''), optional_email is_email (json_prop j ''email''),
            optional_string (json_prop j ''pushToken'')) of
        (Some e, Some p, Some sec, Some m, Some t) \<Rightarrow>
          Some \<lparr>si_eventName = e, si_maxPrice = p, si_section = sec, si_email = m, si_pushToken = t\<rparr>
      | _ \<Rightarrow> None)"

definition watch_schema :: "(string \<Rightarrow> bool) \<Rightarrow> json \<Rightarrow> watch_input option" where
  "watch_schema is_email j =
     (case (required_string (json_prop j ''listingId''), optional_string (json_prop j ''eventName''),
            optional_number nonnegative (json_prop j ''price''), optional_email is_email (json_prop j ''email''),
            optional_string (json_prop j ''pushToken'')) of
        (Some i, Some e, Some p, Some m, Some t) \<Rightarrow>
          Some \<lparr>wi_listingId = i, wi_eventName = e, wi_price = p, wi_email = m, wi_pushToken = t\<rparr>
      | _ \<Rightarrow> None)"

definition price_check_schema :: "json \<Rightarrow> (string \<times> jsnum) option" where
  "price_check_schema j =
     (case (required_string (json_prop j ''listingId''), number_field nonnegative (json_prop j ''currentPrice'')) of
        (Some i, Some p) \<Rightarrow> Some (i, p) | _ \<Rightarrow> None)"

definition authenticatedUserId :: "token option \<Rightarrow> string option" where
  "authenticatedUserId user = (case user of None \<Rightarrow> None | Some u \<Rightarrow> if tk_uid u = [] then None else Some (tk_uid u))"

definition with_user :: "token option \<Rightarrow> (string \<Rightarrow> 'w \<Rightarrow> ('s, 'e) alert_body reply \<times> 'w) \<Rightarrow> 'w \<Rightarrow> ('s, 'e) alert_body reply \<times> 'w" where
  "with_user user k w = (case authenticatedUserId user of
       None \<Rightarrow> (Reply 401 (AlError ''Unauthorized''), w) | Some uid \<Rightarrow> k uid w)"

definition create_search_route ::
  "(string \<Rightarrow> bool) \<Rightarrow> ('w, 's, 'e) watch_service \<Rightarrow> token option \<Rightarrow> json \<Rightarrow> 'w \<Rightarrow> ('s, 'e) alert_body reply \<times> 'w" where
  "create_search_route is_email ws user body = with_user user (\<lambda>uid w. case search_schema is_email body of
       None \<Rightarrow> (Reply 400 (AlError ''Invalid saved search''), w)
     | Some i \<Rightarrow> (let (s, w') = ws_createSearch ws uid i w in (Reply 201 (AlSearch s), w')))"

definition list_searches_route ::
  "('w, 's, 'e) watch_service \<Rightarrow> token option \<Rightarrow> 'w \<Rightarrow> ('s, 'e) alert_body reply \<times> 'w" where
  "list_searches_route ws user = with_user user (\<lambda>uid w. (Reply 200 (AlSearches (ws_listSearches ws uid w)), w))"

definition delete_search_route ::
  "('w, 's, 'e) watch_service \<Rightarrow> token option \<Rightarrow> string \<Rightarrow> 'w \<Rightarrow> ('s, 'e) alert_body reply \<times> 'w" where
  "delete_search_route ws user i = with_user user (\<lambda>uid w. case ws_deleteSearch ws i uid w of
       (True, w') \<Rightarrow> (Reply 204 AlEmpty, w')
     | (False, w') \<Rightarrow> (Reply 404 (AlError ''Saved search not found''), w'))"

definition watch_route ::
  "(string \<Rightarrow> bool) \<Rightarrow> ('w, 's, 'e) watch_service \<Rightarrow> token option \<Rightarrow> json \<Rightarrow> 'w \<Rightarrow> ('s, 'e) alert_body reply \<times> 'w" where
  "watch_route is_email ws user body = with_user user (\<lambda>uid w. case watch_schema is_email body of
       None \<Rightarrow> (Reply 400 (AlError ''Invalid watchlist payload''), w)
     | Some i \<Rightarrow>
         (case List.find (\<lambda>e. ws_listingId ws e = wi_listingId i) (ws_listWatched ws uid w) of
            Some e \<Rightarrow> (Reply 200 (AlWatch e), w)
          | None \<Rightarrow> (let (e, w') = ws_watch ws uid i w in (Reply 201 (AlWatch e), w'))))"

definition list_watched_route ::
  "('w, 's, 'e) watch_service \<Rightarrow> token option \<Rightarrow> 'w \<Rightarrow> ('s, 'e) alert_body reply \<times> 'w" where
  "list_watched_route ws user = with_user user (\<lambda>uid w. (Reply 200 (AlWatches (ws_listWatched ws uid w)), w))"

definition unwatch_route ::
  "('w, 's, 'e) watch_service \<Rightarrow> token option \<Rightarrow> string \<Rightarrow> 'w \<Rightarrow> ('s, 'e) alert_body reply \<times> 'w" where
  "unwatch_route ws user i = with_user user (\<lambda>uid w. case ws_unwatch ws uid i w of
       (True, w') \<Rightarrow> (Reply 204 AlEmpty, w')
     | (False, w') \<Rightarrow> (Reply 404 (AlError ''Not on watchlist''), w'))"

text \<open>The price check reads no user.\<close>

definition price_check_route :: "('w, 's, 'e) watch_service \<Rightarrow> json \<Rightarrow> 'w \<Rightarrow> ('s, 'e) alert_body reply \<times> 'w" where
  "price_check_route ws body w = (case price_check_schema body of
       None \<Rightarrow> (Reply 400 (AlError ''Invalid price check payload''), w)
     | Some (i, p) \<Rightarrow> (let (ns, w') = ws_checkPriceChange ws i p w in (Reply 200 (AlNotified ns), w')))"

section \<open>What the listing routes guarantee\<close>

lemma with_user_uid:
  "with_user (Some u) k w = (if tk_uid u = [] then (Reply 401 (AlError ''Unauthorized''), w) else k (tk_uid u) w)"
  by (simp add: with_user_def authenticatedUserId_def)

text \<open>Watching a listing twice answers with the first entry and changes nothing more.\<close>

lemma watch_twice:
  assumes law: "\<And>uid i v e v'. ws_watch ws uid i v = (e, v') \<Longrightarrow>
      ws_listingId ws e = wi_listingId i \<and> e \<in> set (ws_listWatched ws uid v')"
    and "watch_route is_email ws user body w = (Reply st (AlWatch e), w1)"
  shows "\<exists>e'. watch_route is_email ws user body w1 = (Reply 200 (AlWatch e'), w1)"
proof -
  obtain uid where u: "authenticatedUserId user = Some uid"
    using assms(2) by (cases "authenticatedUserId user") (auto simp: watch_route_def with_user_def)
  obtain i where i: "watch_schema is_email body = Some i"
    using assms(2) u by (cases "watch_schema is_email body") (auto simp: watch_route_def with_user_def)
  have "\<exists>x\<in>set (ws_listWatched ws uid w1). ws_listingId ws x = wi_listingId i"
  proof (cases "List.find (\<lambda>e. ws_listingId ws e = wi_listingId i) (ws_listWatched ws uid w)")
    case None
    then have "ws_watch ws uid i w = (e, w1)"
      using assms(2) u i by (auto simp: watch_route_def with_user_def split: prod.splits)
    then show ?thesis using law by blast
  next
    case (Some x)
    then have "w1 = w" using assms(2) u i by (simp add: watch_route_def with_user_def)
    with Some show ?thesis by (force simp: find_Some_iff)
  qed
  then show ?thesis using u i
    by (cases "List.find (\<lambda>e. ws_listingId ws e = wi_listingId i) (ws_listWatched ws uid w1)")
      (auto simp: watch_route_def with_user_def find_None_iff)
qed

lemma locking_truthy: "locking_status e \<Longrightarrow> js_truthy (Some e)"
  by (cases e) (auto simp: locking_status_def opt_prop_def)

lemma found_locking: "findLockingEscrow m i w = (Inr (Some e), w') \<Longrightarrow> locking_status e"
  by (auto simp: findLockingEscrow_def find_Some_iff split: escrow_module.splits prod.splits sum.splits)

lemma patch_guard:
  "listings_router verify m al header (UpdateListing i body) w =
     (case authenticate verify header of
        Inl (Reply st (AuthError e)) \<Rightarrow> (Inr (Reply st (LbUnauthorized e)), w)
      | Inr u \<Rightarrow> update_listing_route m al i body w)"
  by (auto simp: listings_router_def requireAuthForWrites_def READ_METHODS_def requireAuth_def
      split: sum.splits reply.splits auth_body.splits)

lemma truthy_found: "findLockingEscrow m i w = (Inr v, w') \<Longrightarrow> js_truthy v = (v \<noteq> None)"
  by (cases v) (auto dest: found_locking locking_truthy)

lemma update_listing_route_eq:
  "update_listing_route m al i body w = (case update_listing_schema i body of
       None \<Rightarrow> (Inr (Reply 400 (LbInvalid ''Invalid listing update'')), w)
     | Some (l, prev) \<Rightarrow> (case findLockingEscrow m i w of
            (Inl e, w1) \<Rightarrow> (Inl e, w1)
          | (Inr (Some _), w1) \<Rightarrow> (Inr (Reply 409 LbLocked), w1)
          | (Inr None, w1) \<Rightarrow> (case al_notifyListingUpdate al l prev w1 of
                   (Inl e, w2) \<Rightarrow> (Inl e, w2)
                 | (Inr (price, sell), w2) \<Rightarrow> (Inr (Reply 200 (LbUpdated i price sell)), w2))))"
  by (auto simp: update_listing_route_def truthy_found split: option.splits prod.splits sum.splits)

lemma update_listing_cases:
  "update_listing_route m al i body w = (Inr (Reply 200 b), w') \<longleftrightarrow>
     (\<exists>l prev w1 p q. update_listing_schema i body = Some (l, prev) \<and> findLockingEscrow m i w = (Inr None, w1) \<and>
        al_notifyListingUpdate al l prev w1 = (Inr (p, q), w') \<and> b = LbUpdated i p q)"
  "update_listing_route m al i body w = (Inr (Reply 409 b), w') \<longleftrightarrow>
     (\<exists>l prev e. update_listing_schema i body = Some (l, prev) \<and> findLockingEscrow m i w = (Inr (Some e), w') \<and>
        b = LbLocked)"
  by (auto simp: update_listing_route_eq split: option.splits prod.splits sum.splits)

lemma import_fails_no_update:
  "fst (listings_router verify (ImportFails err) al header (UpdateListing i body) w) \<noteq> Inr (Reply 200 b)"
proof -
  have "fst (update_listing_route (ImportFails err) al i body w) \<noteq> Inr (Reply 200 b)"
    by (simp add: update_listing_route_eq findLockingEscrow_def split: option.split)
  moreover have "r_status r = 401" if "authenticate verify header = Inl r" for r
    using that by (rule authenticate_Inl_401)
  ultimately show ?thesis
    by (auto simp: patch_guard split: sum.split reply.split auth_body.split)
qed

text \<open>
  The terms of a listing cannot be edited while an escrow holds them. Through the router a listing
  update is answered with 200, and its watchers are notified, exactly when the caller has a verified
  token, the payload is valid, the escrow module gave an answer, none of the escrows it found for the
  listing is active, in progress, funded or completed, and the notification succeeded; a valid update by
  a verified caller gets 409, without any notification, exactly when one is. When the import of the
  escrow module fails, as it does in the repository, no update succeeds.
\<close>

theorem listing_update_guarded:
  "(listings_router verify m al header (UpdateListing i body) w = (Inr (Reply 200 b), w') \<longleftrightarrow>
      (\<exists>tok u l prev w1 p q. header = Some (''Bearer '' @ tok) \<and> verify tok = Some u \<and>
         update_listing_schema i body = Some (l, prev) \<and> findLockingEscrow m i w = (Inr None, w1) \<and>
         al_notifyListingUpdate al l prev w1 = (Inr (p, q), w') \<and> b = LbUpdated i p q))
   \<and> (listings_router verify m al header (UpdateListing i body) w = (Inr (Reply 409 b), w') \<longleftrightarrow>
      (\<exists>tok u l prev e. header = Some (''Bearer '' @ tok) \<and> verify tok = Some u \<and>
         update_listing_schema i body = Some (l, prev) \<and> findLockingEscrow m i w = (Inr (Some e), w') \<and>
         locking_status e \<and> b = LbLocked))
   \<and> fst (listings_router verify (ImportFails err) al header (UpdateListing i body) w) \<noteq> Inr (Reply 200 b)"
proof -
  have core: "(listings_router verify m al header (UpdateListing i body) w = (Inr (Reply 200 b), w') \<longleftrightarrow>
      (\<exists>tok u l prev w1 p q. header = Some (''Bearer '' @ tok) \<and> verify tok = Some u \<and>
         update_listing_schema i body = Some (l, prev) \<and> findLockingEscrow m i w = (Inr None, w1) \<and>
         al_notifyListingUpdate al l prev w1 = (Inr (p, q), w') \<and> b = LbUpdated i p q))
   \<and> (listings_router verify m al header (UpdateListing i body) w = (Inr (Reply 409 b), w') \<longleftrightarrow>
      (\<exists>tok u l prev e. header = Some (''Bearer '' @ tok) \<and> verify tok = Some u \<and>
         update_listing_schema i body = Some (l, prev) \<and> findLockingEscrow m i w = (Inr (Some e), w') \<and>
         locking_status e \<and> b = LbLocked))" for m :: "'a escrow_module" and w'
  proof (cases "authenticate verify header")
    case (Inl r)
    then have no: "\<not> (\<exists>tok u. header = Some (''Bearer '' @ tok) \<and> verify tok = Some u)"
      using authenticate_Inr [of verify header] by (metis Inl_Inr_False)
    obtain st t where r: "r = Reply st (AuthError t)" by (metis auth_body.exhaust reply.exhaust)
    moreover have "st = 401" using authenticate_Inl_401 [OF Inl] r by simp
    ultimately show ?thesis using Inl no by (auto simp: patch_guard)
  next
    case (Inr u)
    then obtain tok where t: "header = Some (''Bearer '' @ tok)" "verify tok = Some u"
      by (auto simp: authenticate_Inr)
    have r: "listings_router verify m al header (UpdateListing i body) w = update_listing_route m al i body w"
      by (simp add: patch_guard Inr)
    show ?thesis unfolding r update_listing_cases using t found_locking [of m i w] by blast
  qed
  show ?thesis using core [of m w'] import_fails_no_update [of verify err al header i body w b] by (elim conjE) (intro conjI)
qed

end
