(* ===== verification/Balance_Monitor.thy ===== *)
theory Balance_Monitor
  imports Js_Base
begin

text \<open>
  \<open>services/dispute-resolver-balance.service.ts\<close>: the check of the wallet that pays for dispute
  resolutions, and the monitor that repeats it. The environment variables are an argument. The balance
  query is a parameter: \<open>None\<close> stands for the import that \<open>lib/trustless-work\<close> does not provide (calling it
  throws a \<open>TypeError\<close>), and a query may reject.
\<close>

record balance_check =
  bc_skipped :: bool
  bc_walletAddress :: "string option"
  bc_balance :: "jsnum option"
  bc_threshold :: "jsnum option"
  bc_low :: bool
  bc_error :: "string option"

record low_balance_alert =
  lb_walletAddress :: string
  lb_balance :: jsnum
  lb_threshold :: jsnum

definition parseThreshold :: "string option \<Rightarrow> jsnum option" where
  "parseThreshold raw = (case raw of
       None \<Rightarrow> None
     | Some s \<Rightarrow> if trim s = [] then None
                 else if \<not> isFinite (js_Number s) then None else Some (js_Number s))"

type_synonym balance_query = "(string \<Rightarrow> string + jsnum) option"

definition getAccountBalance :: "balance_query \<Rightarrow> string \<Rightarrow> string + jsnum" where
  "getAccountBalance q wallet = (case q of None \<Rightarrow> Inl ''TypeError'' | Some f \<Rightarrow> f wallet)"

text \<open>The result and the alerts the check captures.\<close>

definition checkDisputeResolverBalance ::
  "balance_query \<Rightarrow> (string \<Rightarrow> string option) \<Rightarrow> balance_check \<times> low_balance_alert list" where
  "checkDisputeResolverBalance q penv =
     (let walletAddress = penv ''DISPUTE_RESOLVER_WALLET_ADDRESS'' in
      if \<not> truthy walletAddress \<or> trim (the walletAddress) = [] then
        (\<lparr>bc_skipped = True, bc_walletAddress = None, bc_balance = None, bc_threshold = None, bc_low = False,
          bc_error = None\<rparr>, [])
      else
        (let wallet = the walletAddress; threshold = parseThreshold (penv ''DISPUTE_RESOLVER_LOW_BALANCE_THRESHOLD'') in
         case getAccountBalance q wallet of
           Inl e \<Rightarrow> (\<lparr>bc_skipped = False, bc_walletAddress = Some wallet, bc_balance = None, bc_threshold = threshold,
             bc_low = False, bc_error = Some e\<rparr>, [])
         | Inr balance \<Rightarrow>
             (case threshold of
                None \<Rightarrow> (\<lparr>bc_skipped = False, bc_walletAddress = Some wallet, bc_balance = Some balance,
                  bc_threshold = None, bc_low = False, bc_error = None\<rparr>, [])
              | Some t \<Rightarrow>
                  (let low = js_lt balance t in
                   (\<lparr>bc_skipped = False, bc_walletAddress = Some wallet, bc_balance = Some balance,
                      bc_threshold = Some t, bc_low = low, bc_error = None\<rparr>,
                    if low then [\<lparr>lb_walletAddress = wallet, lb_balance = balance, lb_threshold = t\<rparr>] else [])))))"

definition DEFAULT_CHECK_INTERVAL_MS :: int where "DEFAULT_CHECK_INTERVAL_MS = 15 * 60 * 1000"

text \<open>The monitor: a check at the start and one per interval until it is stopped (or \<open>n\<close> timers have fired).\<close>

fun monitor_times :: "nat \<Rightarrow> int \<Rightarrow> int \<Rightarrow> int \<Rightarrow> int list" where
  "monitor_times 0 t interval stop = []"
| "monitor_times (Suc n) t interval stop =
     (if stop \<le> t then [] else t # monitor_times n (t + interval) interval stop)"

definition startDisputeResolverBalanceMonitor :: "nat \<Rightarrow> int \<Rightarrow> int \<Rightarrow> int \<Rightarrow> int list" where
  "startDisputeResolverBalanceMonitor n start interval stop = start # monitor_times n (start + interval) interval stop"

text \<open>
  A low-balance alert is raised exactly when it should be. The check captures an alert iff the wallet
  is configured with a non-blank address, the threshold variable is a finite number, the balance could
  be read and it is below the threshold; there is at most one, it carries that wallet, balance and
  threshold, and it agrees with the \<open>low\<close> flag. A failed query is reported as an error and never as a
  healthy or low balance. With the balance query missing, as in the repository, no alert is ever raised.
\<close>

theorem balance_alert_exact:
  "(let (r, alerts) = checkDisputeResolverBalance q penv in
     (a \<in> set alerts \<longleftrightarrow>
        (\<exists>w b t. penv ''DISPUTE_RESOLVER_WALLET_ADDRESS'' = Some w \<and> trim w \<noteq> [] \<and>
           parseThreshold (penv ''DISPUTE_RESOLVER_LOW_BALANCE_THRESHOLD'') = Some t \<and> isFinite t \<and>
           getAccountBalance q w = Inr b \<and> js_lt b t \<and>
           a = \<lparr>lb_walletAddress = w, lb_balance = b, lb_threshold = t\<rparr>))
     \<and> length alerts = (if bc_low r then 1 else 0)
     \<and> (bc_error r \<noteq> None \<longleftrightarrow> \<not> bc_skipped r \<and> bc_balance r = None))
   \<and> snd (checkDisputeResolverBalance None penv) = []"
proof -
  have f: "parseThreshold raw = Some t \<longleftrightarrow> parseThreshold raw = Some t \<and> isFinite t" for raw t
    by (auto simp: parseThreshold_def split: option.splits if_splits)
  have e: "trim [] = []" by (simp add: trim_def trim_start_def)
  show ?thesis
    using f [of "penv ''DISPUTE_RESOLVER_LOW_BALANCE_THRESHOLD''"]
    by (cases "penv ''DISPUTE_RESOLVER_WALLET_ADDRESS''")
      (auto simp: checkDisputeResolverBalance_def getAccountBalance_def Let_def e split: option.splits sum.splits)
qed

end
