(* ===== verification/Client_Helpers.thy ===== *)
theory Client_Helpers
  imports Js_Map Js_Date
begin

text \<open>
  Helper libraries of the frontend: \<open>lib/retry.ts\<close>, \<open>lib/earnings.ts\<close>, \<open>lib/ticket-pricing.ts\<close>,
  \<open>lib/watchlist.ts\<close> and \<open>lib/featureFlags.ts\<close>. Delays are recorded instead of waited for.
\<close>

section \<open>Retrying\<close>

text \<open>
  A caught value as \<open>isTransientError\<close> looks at it: \<open>null\<close> or \<open>undefined\<close>, or an object with the
  status of its response, its own status and its message, each of which may be missing or of another type.
\<close>

datatype status_field = StNullish | StOther | StNumber jsnum

datatype caught =
    CaughtNullish
  | CaughtError (ce_response_status: status_field) (ce_status: status_field) (ce_message: "string option")

definition definitivePatterns :: "string list" where
  "definitivePatterns = [''insufficient'', ''balance'', ''rejected'', ''invalid signature'', ''bad auth'', ''unauthorized'']"

definition transientPatterns :: "string list" where
  "transientPatterns = [''timeout'', ''timed out'', ''network error'', ''network request failed'', ''econnreset'',
     ''econnrefused'', ''fetch failed'', ''503'', ''504'', ''429'', ''sequence'', ''eagain'', ''try again'',
     ''rate limit'', ''service unavailable'']"

definition isTransientError :: "caught \<Rightarrow> bool" where
  "isTransientError err = (case err of
       CaughtNullish \<Rightarrow> False
     | CaughtError rs st msg \<Rightarrow>
         (let status = (if rs = StNullish then st else rs);
              text = (case msg of None \<Rightarrow> [] | Some m \<Rightarrow> toLowerCase m)
          in if status \<in> set (map (\<lambda>n. StNumber (Fin n)) [400, 401, 403]) then False
             else if status \<in> set (map (\<lambda>n. StNumber (Fin n)) [429, 503, 504]) then True
             else if list_ex (str_includes text) definitivePatterns then False
             else if list_ex (str_includes text) transientPatterns then True
             else True))"

text \<open>
  One run: the function's result on each attempt (counted from 0), the retries announced with their
  1-based number, and the delays. The attempts left are the fuel of the loop, so it is structural.
  \<open>Inl None\<close> is the \<open>throw undefined\<close> of a run with no attempt at all.
\<close>

record 'a retry_trace =
  rt_result :: "caught option + 'a"
  rt_calls :: nat
  rt_announced :: "(nat \<times> caught) list"
  rt_delays :: "rat list"

fun retry_loop :: "(nat \<Rightarrow> caught + 'a) \<Rightarrow> rat \<Rightarrow> nat \<Rightarrow> nat \<Rightarrow> caught option \<Rightarrow> 'a retry_trace" where
  "retry_loop f base 0 attempt lastError =
     \<lparr>rt_result = Inl lastError, rt_calls = 0, rt_announced = [], rt_delays = []\<rparr>"
| "retry_loop f base (Suc left) attempt lastError =
     (case f attempt of
        Inr v \<Rightarrow> \<lparr>rt_result = Inr v, rt_calls = 1, rt_announced = [], rt_delays = []\<rparr>
      | Inl e \<Rightarrow>
          if \<not> isTransientError e then \<lparr>rt_result = Inl (Some e), rt_calls = 1, rt_announced = [], rt_delays = []\<rparr>
          else if left = 0 then \<lparr>rt_result = Inl (Some e), rt_calls = 1, rt_announced = [], rt_delays = []\<rparr>
          else
            (let r = retry_loop f base left (attempt + 1) (Some e)
             in r\<lparr>rt_calls := rt_calls r + 1, rt_announced := (attempt + 1, e) # rt_announced r,
                  rt_delays := base * 2 ^ attempt # rt_delays r\<rparr>))"

definition retryWithBackoff :: "(nat \<Rightarrow> caught + 'a) \<Rightarrow> nat option \<Rightarrow> rat option \<Rightarrow> 'a retry_trace" where
  "retryWithBackoff f maxAttempts baseDelayMs =
     retry_loop f (case baseDelayMs of None \<Rightarrow> 1000 | Some b \<Rightarrow> b)
       (case maxAttempts of None \<Rightarrow> 3 | Some n \<Rightarrow> n) 0 None"

section \<open>Earnings\<close>

datatype period = Day | Week | Month

record payout_escrow =
  pe_id :: string
  pe_listingName :: string
  pe_amount :: rat
  pe_currency :: string
  pe_status :: string
  pe_releasedAt :: "iso option"

record earnings_bucket =
  eb_key :: string
  eb_total :: rat
  eb_count :: nat

record earnings_summary =
  es_total :: rat
  es_count :: nat
  es_buckets :: "earnings_bucket list"
  es_pendingTotal :: rat
  es_pendingCount :: nat
  es_pendingBuckets :: "earnings_bucket list"

definition RELEASED_STATUSES :: "string list" where "RELEASED_STATUSES = [''released'', ''completed'']"

definition PENDING_STATUSES :: "string list" where
  "PENDING_STATUSES = [''disputed'', ''funded'', ''pending'', ''in_dispute'']"

definition isPayout :: "payout_escrow \<Rightarrow> bool" where
  "isPayout e = (toLowerCase (pe_status e) \<in> set RELEASED_STATUSES \<and> iso_truthy (pe_releasedAt e))"

definition isPending :: "payout_escrow \<Rightarrow> bool" where
  "isPending e = (\<not> isPayout e \<and> toLowerCase (pe_status e) \<in> set PENDING_STATUSES)"

text \<open>
  The start of the period that contains a time: days are counted from Thursday 1970-01-01, so Monday is
  day 4 modulo 7. \<open>None\<close> is the \<open>RangeError\<close> of an invalid date.
\<close>

definition bucket_day :: "period \<Rightarrow> int \<Rightarrow> int" where
  "bucket_day p t = (let day = t div MS_PER_DAY in
     case p of
       Day \<Rightarrow> day
     | Week \<Rightarrow> day - (day - 4) mod 7
     | Month \<Rightarrow> (case civil day of (y, m, d) \<Rightarrow> day - (d - 1)))"

definition bucketKey :: "iso \<Rightarrow> period \<Rightarrow> string option" where
  "bucketKey v p = map_option (\<lambda>t. utc_day (bucket_day p t * MS_PER_DAY)) (date_ms v)"

record earnings_state =
  er_map :: "(string, earnings_bucket) jmap"
  er_total :: rat
  er_count :: nat

definition empty_earnings :: earnings_state where
  "empty_earnings = \<lparr>er_map = [], er_total = 0, er_count = 0\<rparr>"

definition add_earning :: "string \<Rightarrow> rat \<Rightarrow> earnings_state \<Rightarrow> earnings_state" where
  "add_earning key amount s =
     (let b = (case jm_get (er_map s) key of None \<Rightarrow> \<lparr>eb_key = key, eb_total = 0, eb_count = 0\<rparr> | Some b \<Rightarrow> b)
      in \<lparr>er_map = jm_set (er_map s) key (b\<lparr>eb_total := eb_total b + amount, eb_count := eb_count b + 1\<rparr>),
          er_total = er_total s + amount, er_count = er_count s + 1\<rparr>)"

text \<open>The loop over the escrows with the confirmed and the pending tallies; \<open>now\<close> is the clock.\<close>

fun earnings_loop :: "iso \<Rightarrow> period \<Rightarrow> payout_escrow list \<Rightarrow> earnings_state \<Rightarrow> earnings_state \<Rightarrow>
   (earnings_state \<times> earnings_state) option" where
  "earnings_loop now p [] s q = Some (s, q)"
| "earnings_loop now p (e # es) s q =
     (if isPayout e then
        (case bucketKey (the (pe_releasedAt e)) p of
           None \<Rightarrow> None
         | Some key \<Rightarrow> earnings_loop now p es (add_earning key (pe_amount e) s) q)
      else if isPending e then
        (case bucketKey (case pe_releasedAt e of None \<Rightarrow> now | Some r \<Rightarrow> r) p of
           None \<Rightarrow> None
         | Some key \<Rightarrow> earnings_loop now p es s (add_earning key (pe_amount e) q))
      else earnings_loop now p es s q)"

definition summarizeEarnings ::
  "(string \<Rightarrow> string \<Rightarrow> int) \<Rightarrow> iso \<Rightarrow> payout_escrow list \<Rightarrow> period \<Rightarrow> earnings_summary option" where
  "summarizeEarnings collate now escrows p =
     map_option (\<lambda>(s, q). \<lparr>es_total = er_total s, es_count = er_count s,
         es_buckets = js_sort (\<lambda>a b. collate (eb_key a) (eb_key b) \<le> 0) (jm_values (er_map s)),
         es_pendingTotal = er_total q, es_pendingCount = er_count q,
         es_pendingBuckets = js_sort (\<lambda>a b. collate (eb_key a) (eb_key b) \<le> 0) (jm_values (er_map q))\<rparr>)
       (earnings_loop now p escrows empty_earnings empty_earnings)"

definition summarizePendingEarnings ::
  "(string \<Rightarrow> string \<Rightarrow> int) \<Rightarrow> iso \<Rightarrow> payout_escrow list \<Rightarrow> period \<Rightarrow> earnings_summary option" where
  "summarizePendingEarnings = summarizeEarnings"

section \<open>Prices\<close>

record ticket_listing =
  tl_ticketQuantity :: jsnum
  tl_pricePerUnit :: rat
  tl_bundlePrice :: "rat option"
  tl_allowPartialPurchase :: bool

datatype quantity_error = NotWholeNumber | OnlyAvailable jsnum | FullBundleRequired

definition calculatePurchaseTotal :: "ticket_listing \<Rightarrow> rat \<Rightarrow> rat" where
  "calculatePurchaseTotal l quantity =
     (if Fin quantity = tl_ticketQuantity l \<and> tl_bundlePrice l \<noteq> None then the (tl_bundlePrice l)
      else quantity * tl_pricePerUnit l)"

definition isInteger :: "jsnum \<Rightarrow> bool" where
  "isInteger x = (case x of Fin r \<Rightarrow> r = of_int \<lfloor>r\<rfloor> | _ \<Rightarrow> False)"

definition validatePurchaseQuantity :: "ticket_listing \<Rightarrow> jsnum \<Rightarrow> quantity_error list" where
  "validatePurchaseQuantity l quantity =
     (if \<not> isInteger quantity \<or> js_le quantity (Fin 0) then [NotWholeNumber]
      else
        (if js_lt (tl_ticketQuantity l) quantity then [OnlyAvailable (tl_ticketQuantity l)] else [])
        @ (if \<not> tl_allowPartialPurchase l \<and> quantity \<noteq> tl_ticketQuantity l then [FullBundleRequired] else []))"

datatype price_direction = Up | Down

record price_change =
  pc_direction :: price_direction
  pc_previous :: rat
  pc_current :: rat
  pc_percent :: int

definition getPriceChange :: "rat option \<Rightarrow> rat \<Rightarrow> price_change option" where
  "getPriceChange previous current = (case previous of
       None \<Rightarrow> None
     | Some p \<Rightarrow>
         if p \<le> 0 \<or> p = current then None
         else Some \<lparr>pc_direction = (if current < p then Down else Up), pc_previous = p, pc_current = current,
           pc_percent = js_round ((current - p) / p * 100)\<rparr>)"

section \<open>Feature flags\<close>

definition FEATURE_FLAG_DEFAULTS :: "(string \<times> bool) list" where
  "FEATURE_FLAG_DEFAULTS = [(''ESCROW_RECEIPTS'', True)]"

definition TRUE_VALUES :: "string list" where "TRUE_VALUES = [''1'', ''true'', ''on'', ''yes'']"

definition FALSE_VALUES :: "string list" where "FALSE_VALUES = [''0'', ''false'', ''off'', ''no'']"

text \<open>The flag is a key of the defaults.\<close>

definition isFeatureEnabled :: "string \<Rightarrow> (string \<Rightarrow> string option) \<Rightarrow> bool" where
  "isFeatureEnabled flag penv =
     (let raw = map_option (\<lambda>v. toLowerCase (trim v)) (penv (''FEATURE_FLAG_'' @ flag)) in
      if truthy raw \<and> the raw \<in> set TRUE_VALUES then True
      else if truthy raw \<and> the raw \<in> set FALSE_VALUES then False
      else the (map_of FEATURE_FLAG_DEFAULTS flag))"

definition getFeatureFlags :: "(string \<Rightarrow> string option) \<Rightarrow> (string \<times> bool) list" where
  "getFeatureFlags penv = map (\<lambda>(f, _). (f, isFeatureEnabled f penv)) FEATURE_FLAG_DEFAULTS"

section \<open>Correctness\<close>

text \<open>Where a run ends: a result or a definitive error.\<close>

definition conclusive :: "caught + 'a \<Rightarrow> bool" where
  "conclusive x = (case x of Inr _ \<Rightarrow> True | Inl e \<Rightarrow> \<not> isTransientError e)"

definition final_result :: "caught + 'a \<Rightarrow> caught option + 'a" where
  "final_result x = (case x of Inr v \<Rightarrow> Inr v | Inl e \<Rightarrow> Inl (Some e))"

lemma retry_loop_exact:
  "0 < n \<Longrightarrow> \<exists>k. 0 < k \<and> k \<le> n \<and> rt_calls (retry_loop f b n i l) = k
    \<and> rt_result (retry_loop f b n i l) = final_result (f (i + k - 1))
    \<and> list_all (\<lambda>j. \<not> conclusive (f j)) [i..<i + k - 1] \<and> (k = n \<or> conclusive (f (i + k - 1)))
    \<and> rt_delays (retry_loop f b n i l) = map (\<lambda>j. b * 2 ^ j) [i..<i + k - 1]
    \<and> map fst (rt_announced (retry_loop f b n i l)) = map Suc [i..<i + k - 1]"
proof (induction n arbitrary: i l)
  case (Suc n)
  consider v where "f i = Inr v" | e where "f i = Inl e" "\<not> isTransientError e \<or> n = 0"
    | e where "f i = Inl e" "isTransientError e" "0 < n" by (cases "f i") auto
  then show ?case
  proof cases
    case 1
    then show ?thesis by (intro exI [of _ 1]) (simp add: final_result_def conclusive_def)
  next
    case 2
    then show ?thesis by (intro exI [of _ 1]) (auto simp: final_result_def conclusive_def)
  next
    case 3
    from Suc.IH [OF 3(3), of "i + 1" "Some e"] obtain k where k: "0 < k" "k \<le> n"
      "rt_calls (retry_loop f b n (i + 1) (Some e)) = k"
      "rt_result (retry_loop f b n (i + 1) (Some e)) = final_result (f (i + 1 + k - 1))"
      "list_all (\<lambda>j. \<not> conclusive (f j)) [i + 1..<i + 1 + k - 1]" "k = n \<or> conclusive (f (i + 1 + k - 1))"
      "rt_delays (retry_loop f b n (i + 1) (Some e)) = map (\<lambda>j. b * 2 ^ j) [i + 1..<i + 1 + k - 1]"
      "map fst (rt_announced (retry_loop f b n (i + 1) (Some e))) = map Suc [i + 1..<i + 1 + k - 1]"
      by blast
    have step: "[i..<i + k] = i # [Suc i..<i + k]" using k(1) by (simp add: upt_conv_Cons)
    show ?thesis
      using 3 k by (intro exI [of _ "Suc k"]) (simp add: step Let_def conclusive_def)
  qed
qed simp

text \<open>
  Retrying is exact and bounded. With a limit of n the function is called k times with k at most n:
  every call before the last failed with a transient error, the last call's value or error is the
  result, and it was the last because it succeeded, failed definitively or used up the limit; the waits
  between the calls double from the base delay, and each retry is announced with its number. Without a
  limit it is 3 and the base delay one second; with the limit 0 nothing is called.
\<close>

theorem retry_exact:
  "(let r = retryWithBackoff f maxAttempts baseDelayMs; k = rt_calls r;
        n = (case maxAttempts of None \<Rightarrow> 3 | Some m \<Rightarrow> m);
        b = (case baseDelayMs of None \<Rightarrow> 1000 | Some d \<Rightarrow> d)
    in k \<le> n \<and> (k = 0 \<longleftrightarrow> n = 0)
     \<and> rt_result r = (if n = 0 then Inl None else final_result (f (k - 1)))
     \<and> list_all (\<lambda>j. \<not> conclusive (f j)) [0..<k - 1] \<and> (k = n \<or> conclusive (f (k - 1)))
     \<and> rt_delays r = map (\<lambda>j. b * 2 ^ j) [0..<k - 1] \<and> map fst (rt_announced r) = map Suc [0..<k - 1])"
proof -
  let ?n = "case maxAttempts of None \<Rightarrow> 3 | Some m \<Rightarrow> m"
  show ?thesis
  proof (cases "?n = 0")
    case True
    then show ?thesis by (simp add: retryWithBackoff_def Let_def)
  next
    case False
    then have "0 < ?n" by simp
    from retry_loop_exact [OF this, of f "case baseDelayMs of None \<Rightarrow> 1000 | Some d \<Rightarrow> d" 0 None]
    show ?thesis using False unfolding retryWithBackoff_def Let_def by auto
  qed
qed

text \<open>The reference for the earnings: the escrows of each kind with their keys, summed.\<close>

definition escrow_date :: "iso \<Rightarrow> payout_escrow \<Rightarrow> iso" where
  "escrow_date now e = (case pe_releasedAt e of None \<Rightarrow> now | Some r \<Rightarrow> r)"

definition tallied :: "payout_escrow \<Rightarrow> bool" where
  "tallied e = (isPayout e \<or> isPending e)"

definition dated :: "iso \<Rightarrow> payout_escrow list \<Rightarrow> bool" where
  "dated now es = list_all (\<lambda>e. date_ms (escrow_date now e) \<noteq> None) (filter tallied es)"

definition keyed :: "iso \<Rightarrow> period \<Rightarrow> payout_escrow list \<Rightarrow> (string \<times> rat) list" where
  "keyed now p es = map (\<lambda>e. (the (bucketKey (escrow_date now e) p), pe_amount e)) es"

definition spec_bucket :: "(string \<times> rat) list \<Rightarrow> string \<Rightarrow> earnings_bucket" where
  "spec_bucket xs k = \<lparr>eb_key = k, eb_total = sum_list (map snd (filter (\<lambda>x. fst x = k) xs)),
     eb_count = length (filter (\<lambda>x. fst x = k) xs)\<rparr>"

definition spec_buckets :: "(string \<times> rat) list \<Rightarrow> earnings_bucket list" where
  "spec_buckets xs = map (spec_bucket xs) (first_seen (map fst xs))"

definition tally :: "(string \<times> rat) list \<Rightarrow> earnings_state \<Rightarrow> earnings_state" where
  "tally xs s = foldl (\<lambda>t (k, a). add_earning k a t) s xs"

lemma earnings_loop_tally:
  "earnings_loop now p es s q =
     (if dated now es then Some (tally (keyed now p (filter isPayout es)) s, tally (keyed now p (filter isPending es)) q)
      else None)"
proof (induction es arbitrary: s q)
  case Nil
  then show ?case by (simp add: dated_def tally_def keyed_def)
next
  case (Cons e es)
  have pay: "isPayout e \<Longrightarrow> pe_releasedAt e = Some (escrow_date now e) \<and> \<not> isPending e"
    by (auto simp: isPayout_def isPending_def iso_truthy_def escrow_date_def)
  show ?case
    using pay by (cases "date_ms (escrow_date now e)")
      (auto simp: Cons dated_def tallied_def tally_def keyed_def bucketKey_def escrow_date_def split: option.splits)
qed

lemma tally_snoc: "tally (xs @ [(k, a)]) s = add_earning k a (tally xs s)"
  by (simp add: tally_def)

lemma tally_exact:
  "er_total (tally xs empty_earnings) = sum_list (map snd xs) \<and> er_count (tally xs empty_earnings) = length xs
   \<and> map fst (er_map (tally xs empty_earnings)) = first_seen (map fst xs)
   \<and> (\<forall>k. jm_get (er_map (tally xs empty_earnings)) k = (if k \<in> set (map fst xs) then Some (spec_bucket xs k) else None))"
proof (induction xs rule: rev_induct)
  case Nil
  then show ?case by (simp add: tally_def empty_earnings_def)
next
  case (snoc x xs)
  obtain k a where x: "x = (k, a)" by (cases x)
  let ?t = "tally xs empty_earnings"
  have none: "k \<notin> fst ` set xs \<Longrightarrow> filter (\<lambda>y. fst y = k) xs = []" by (auto simp: filter_empty_conv)
  have get: "jm_get (er_map (tally (xs @ [x]) empty_earnings)) j =
      (if j \<in> set (map fst (xs @ [x])) then Some (spec_bucket (xs @ [x]) j) else None)" for j
    using snoc none by (auto simp: x tally_snoc add_earning_def Let_def spec_bucket_def)
  have keys: "map fst (er_map (tally (xs @ [x]) empty_earnings)) = first_seen (map fst (xs @ [x]))"
    using snoc by (auto simp: x tally_snoc add_earning_def Let_def map_fst_jm_set jm_set_append jm_has_def)
  show ?case using snoc get keys by (simp add: x tally_snoc add_earning_def Let_def)
qed

lemma tally_values: "jm_values (er_map (tally xs empty_earnings)) = spec_buckets xs"
proof -
  let ?m = "er_map (tally xs empty_earnings)"
  have k: "map fst ?m = first_seen (map fst xs)" using tally_exact [of xs] by simp
  have "jm_values ?m = map (spec_bucket xs) (map fst ?m)"
  proof (rule jm_values_keys)
    show "jm_wf ?m" by (simp only: jm_wf_def k first_seen_simps)
    fix j assume "j \<in> set (map fst ?m)"
    then show "jm_get ?m j = Some (spec_bucket xs j)"
      using tally_exact [of xs] by (simp only: k first_seen_simps if_True)
  qed
  then show ?thesis by (simp only: k spec_buckets_def)
qed

text \<open>
  The earnings summary is the reference one. It exists exactly when every counted escrow has a valid
  date; then the confirmed total and count are those of the released escrows with a release date, the
  pending ones those of the escrows in flight or disputed, no escrow is in both, and each list of
  buckets holds, per period that occurs, the sum and the number of exactly the escrows of that period.
\<close>

theorem earnings_exact:
  "summarizeEarnings collate now escrows p =
     (if dated now escrows then
        (let pay = keyed now p (filter isPayout escrows); pend = keyed now p (filter isPending escrows);
             le = (\<lambda>a b. collate (eb_key a) (eb_key b) \<le> 0)
         in Some \<lparr>es_total = sum_list (map pe_amount (filter isPayout escrows)),
              es_count = length (filter isPayout escrows), es_buckets = js_sort le (spec_buckets pay),
              es_pendingTotal = sum_list (map pe_amount (filter isPending escrows)),
              es_pendingCount = length (filter isPending escrows), es_pendingBuckets = js_sort le (spec_buckets pend)\<rparr>)
      else None)
   \<and> filter isPayout (filter isPending escrows) = []"
proof -
  have amounts: "sum_list (map snd (keyed now p es)) = sum_list (map pe_amount es)" "length (keyed now p es) = length es" for es
    by (simp_all add: keyed_def o_def)
  show ?thesis
    using tally_exact [of "keyed now p (filter isPayout escrows)"] tally_exact [of "keyed now p (filter isPending escrows)"]
    by (auto simp: summarizeEarnings_def earnings_loop_tally tally_values Let_def amounts isPending_def filter_empty_conv)
qed

end
