(* ===== verification/Wallet_Checks.thy ===== *)
theory Wallet_Checks
  imports Js_Base
begin

text \<open>
  The frontend's checks before money moves: the address validators
  (\<open>components/auth/wallet/utils/walletValidation.ts\<close>, \<open>components/tw-blocks/wallet-kit/validators.ts\<close>
  and the one of \<open>hooks/useTicketPurchaseEscrow.ts\<close>), the asset registry and the trustline check
  (\<open>wallet-kit/trustlines.ts\<close>, \<open>wallet-kit/trustline-check.ts\<close>), and the choice of the Stellar network
  (\<open>lib/trustless-work/config.ts\<close>). Environment variables are a function argument; the Horizon server
  is a parameter.
\<close>

section \<open>Addresses\<close>

definition upper_alnum_char :: "char \<Rightarrow> bool" where
  "upper_alnum_char c = (let n = (of_char c :: nat) in (65 \<le> n \<and> n \<le> 90) \<or> (48 \<le> n \<and> n \<le> 57))"

definition hex_char :: "char \<Rightarrow> bool" where
  "hex_char c = (let n = (of_char c :: nat) in (97 \<le> n \<and> n \<le> 102) \<or> (65 \<le> n \<and> n \<le> 70) \<or> (48 \<le> n \<and> n \<le> 57))"

text \<open>\<open>/^G[A-Z2-7]{55}$/\<close>, \<open>/^0x[a-fA-F0-9]{40}$/\<close>, and the hook's \<open>/^G[A-Z0-9]{55}$/\<close>.\<close>

definition isValidStellarAddress :: "string \<Rightarrow> bool" where
  "isValidStellarAddress a = (case a of c # r \<Rightarrow> c = CHR ''G'' \<and> length r = 55 \<and> list_all base32_char r | [] \<Rightarrow> False)"

definition isValidEthereumAddress :: "string \<Rightarrow> bool" where
  "isValidEthereumAddress a = (startsWith a ''0x'' \<and> length a = 42 \<and> list_all hex_char (drop 2 a))"

definition isValidBSCAddress :: "string \<Rightarrow> bool" where
  "isValidBSCAddress a = isValidEthereumAddress a"

definition hook_isValidStellarAddress :: "string \<Rightarrow> bool" where
  "hook_isValidStellarAddress a = (case a of c # r \<Rightarrow> c = CHR ''G'' \<and> length r = 55 \<and> list_all upper_alnum_char r | [] \<Rightarrow> False)"

definition isValidWallet :: "string \<Rightarrow> bool" where
  "isValidWallet wallet =
     (if length wallet \<noteq> 56 \<or> wallet ! 0 \<noteq> CHR ''G'' then False
      else if \<not> (wallet \<noteq> [] \<and> list_all base32_char wallet) then False else True)"

definition isValidAddress :: "string \<Rightarrow> string \<Rightarrow> bool" where
  "isValidAddress address chain =
     (if chain = ''stellar'' then isValidStellarAddress address
      else if chain = ''ethereum'' then isValidEthereumAddress address
      else if chain = ''bsc'' then isValidBSCAddress address
      else False)"

definition formatAddress :: "string \<Rightarrow> nat \<Rightarrow> nat \<Rightarrow> string" where
  "formatAddress address startChars endChars =
     (if address = [] \<or> length address \<le> startChars + endChars then address
      else take startChars address @ ''...'' @
        (if endChars = 0 then address else drop (length address - endChars) address))"

definition detectChainFromAddress :: "string \<Rightarrow> string option" where
  "detectChainFromAddress a =
     (if isValidStellarAddress a then Some ''stellar''
      else if isValidEthereumAddress a then Some ''ethereum'' else None)"

definition validateWalletConnection :: "string option \<Rightarrow> string option \<Rightarrow> string option \<Rightarrow> string list" where
  "validateWalletConnection address chain walletType =
     (if \<not> truthy address then [''Address is required'']
      else if \<not> truthy chain then [''Chain type is required'']
      else if \<not> isValidAddress (the address) (the chain) then
        [''Invalid address format for '' @ the chain @ '' chain'']
      else [])
     @ (if \<not> truthy walletType then [''Wallet type is required''] else [])"

section \<open>The asset registry\<close>

record asset_def =
  as_name :: string
  as_symbol :: string
  as_address :: string
  as_issuer :: string
  as_network :: string

text \<open>Each asset has ten million units; icons and descriptions are for display.\<close>

definition trustlines :: "asset_def list" where
  "trustlines =
     [\<lparr>as_name = ''USDC'', as_symbol = ''USDC'',
        as_address = ''CBIELTK6YBZJU5UP2WWQEUCYKLPU6AUNZ2BQ4WWFEIE3USCIHMXQDAMA'',
        as_issuer = ''GBBD47IF6LWK7P7MDEVSCWR7DPUWV3NY3DTQEVFL4NAT4AQH3ZLLFLA5'', as_network = ''testnet''\<rparr>,
      \<lparr>as_name = ''XLM'', as_symbol = ''XLM'',
        as_address = ''CDLZFC3SYJYDZT7K67VZ75HPJVIEUVNIXF47ZG2FB2RMQQVU2HHGCYSC'',
        as_issuer = ''native'', as_network = ''testnet''\<rparr>,
      \<lparr>as_name = ''EURC'', as_symbol = ''EURC'',
        as_address = ''GB3Q6QDZYTHWT7E5PVS3W7FUT5GVAFC5KSZFFLPU25GO7VTC3NM2ZTVO'',
        as_issuer = ''GB3Q6QDZYTHWT7E5PVS3W7FUT5GVAFC5KSZFFLPU25GO7VTC3NM2ZTVO'', as_network = ''testnet''\<rparr>,
      \<lparr>as_name = ''USDC'', as_symbol = ''USDC'',
        as_address = ''CCW67TSZV3SSS2HXMBQ5JFGCKJNXKZM7UQUWUZPUTHXSTZLEO7SJMI75'',
        as_issuer = ''GA5ZSEJYB37JRC5AVCIA5MOP4RHTM335X2KGX3IHOJAPP5RE34K4KZVN'', as_network = ''mainnet''\<rparr>,
      \<lparr>as_name = ''XLM'', as_symbol = ''XLM'',
        as_address = ''CAS3J7GYLGXMF6TDJBBYYSE3HQ6BBSMLNUQ34T6TZMYMW2SLH34QDHA4'',
        as_issuer = ''native'', as_network = ''mainnet''\<rparr>,
      \<lparr>as_name = ''EURC'', as_symbol = ''EURC'',
        as_address = ''GB3Q6QDZYTHWT7E5PVS3W7FUT5GVAFC5KSZFFLPU25GO7VTC3NM2ZTVO'',
        as_issuer = ''GB3Q6QDZYTHWT7E5PVS3W7FUT5GVAFC5KSZFFLPU25GO7VTC3NM2ZTVO'', as_network = ''mainnet''\<rparr>]"

definition ASSET_DECIMALS :: nat where "ASSET_DECIMALS = 10000000"

text \<open>An option of the selector; the symbol falls back to the name.\<close>

record asset_option =
  op_value :: string
  op_label :: string
  op_symbol :: string
  op_issuer :: string

definition asset_option_of :: "asset_def \<Rightarrow> asset_option" where
  "asset_option_of t = \<lparr>op_value = as_address t, op_label = as_name t,
     op_symbol = (if as_symbol t \<noteq> [] then as_symbol t else as_name t), op_issuer = as_issuer t\<rparr>"

definition getSupportedAssets :: "string \<Rightarrow> asset_def list \<Rightarrow> asset_option list" where
  "getSupportedAssets network reg = map asset_option_of (filter (\<lambda>t. as_network t = network) reg)"

definition getTrustlineBySymbol :: "string \<Rightarrow> string \<Rightarrow> asset_def list \<Rightarrow> asset_option option" where
  "getTrustlineBySymbol symbol network reg =
     map_option asset_option_of
       (List.find (\<lambda>t. (toUpperCase (as_name t) = toUpperCase symbol \<or> toUpperCase (as_symbol t) = toUpperCase symbol) \<and>
          as_network t = network) reg)"

definition addTrustlineAsset :: "asset_def \<Rightarrow> asset_def list \<Rightarrow> asset_def list" where
  "addTrustlineAsset a reg =
     (if list_ex (\<lambda>t. as_address t = as_address a \<and> as_network t = as_network a) reg then reg else reg @ [a])"

definition getActiveNetwork :: "(string \<Rightarrow> string option) \<Rightarrow> string" where
  "getActiveNetwork penv =
     (let fromEnv = penv ''NEXT_PUBLIC_TRUSTLESS_NETWORK'' in
      if fromEnv = Some ''testnet'' \<or> fromEnv = Some ''mainnet'' then the fromEnv
      else if penv ''NODE_ENV'' = Some ''production'' then ''mainnet'' else ''testnet'')"

section \<open>The trustline check\<close>

record funding_asset =
  fa_code :: string
  fa_issuer :: string
  fa_name :: string
  fa_network :: string

datatype missing_reason = NoTrustline | AccountNotFound

datatype trustline_check =
    NotRequired
  | Present funding_asset
  | Missing funding_asset missing_reason

record account_balance =
  bl_asset_type :: string
  bl_asset_code :: "string option"
  bl_asset_issuer :: "string option"

definition resolveFundingAsset :: "string option \<Rightarrow> string \<Rightarrow> asset_def list \<Rightarrow> funding_asset option" where
  "resolveFundingAsset address network reg =
     (if \<not> truthy address then None
      else (case List.find (\<lambda>t. as_network t = network \<and> (as_address t = the address \<or> as_issuer t = the address)) reg of
          None \<Rightarrow> None
        | Some t \<Rightarrow>
            if as_issuer t = ''native'' then None
            else Some \<lparr>fa_code = as_symbol t, fa_issuer = as_issuer t, fa_name = as_name t, fa_network = network\<rparr>))"

definition hasTrustlineFor :: "account_balance list \<Rightarrow> funding_asset \<Rightarrow> bool" where
  "hasTrustlineFor balances a =
     list_ex (\<lambda>b. bl_asset_type b \<noteq> ''native'' \<and> bl_asset_code b = Some (fa_code a) \<and>
        bl_asset_issuer b = Some (fa_issuer a)) balances"

text \<open>\<open>loadAccount\<close> on the server of a network: the balances, or a failure with the status of its response if any.\<close>

type_synonym horizon = "string \<Rightarrow> string \<Rightarrow> nat option + account_balance list"

definition checkFundingTrustline ::
  "horizon \<Rightarrow> string \<Rightarrow> string option \<Rightarrow> string \<Rightarrow> asset_def list \<Rightarrow> nat option + trustline_check" where
  "checkFundingTrustline load wallet address network reg =
     (case resolveFundingAsset address network reg of
        None \<Rightarrow> Inr NotRequired
      | Some a \<Rightarrow>
          (case load network wallet of
             Inr balances \<Rightarrow> Inr (if hasTrustlineFor balances a then Present a else Missing a NoTrustline)
           | Inl st \<Rightarrow> if st = Some 404 then Inr (Missing a AccountNotFound) else Inl st))"

section \<open>The network of the frontend\<close>

record tw_config =
  tc_baseURL :: string
  tc_apiKey :: string
  tc_network :: string

definition or_default :: "string option \<Rightarrow> string \<Rightarrow> string" where
  "or_default v d = (if truthy v then the v else d)"

definition resolveFrontendNetwork :: "(string \<Rightarrow> string option) \<Rightarrow> string" where
  "resolveFrontendNetwork penv =
     (let configured = penv ''NEXT_PUBLIC_TRUSTLESS_NETWORK'' in
      if configured = Some ''testnet'' \<or> configured = Some ''mainnet'' then the configured
      else if penv ''NODE_ENV'' = Some ''development'' then ''testnet'' else ''mainnet'')"

definition getTrustlessWorkConfig :: "(string \<Rightarrow> string option) \<Rightarrow> tw_config" where
  "getTrustlessWorkConfig penv =
     \<lparr>tc_baseURL = (if penv ''NODE_ENV'' = Some ''development''
        then or_default (penv ''NEXT_PUBLIC_TRUSTLESS_API_URL_DEV'') ''https://dev.api.trustlesswork.com''
        else or_default (penv ''NEXT_PUBLIC_TRUSTLESS_API_URL'') ''https://api.trustlesswork.com''),
      tc_apiKey = or_default (penv ''NEXT_PUBLIC_API_KEY'') [],
      tc_network = resolveFrontendNetwork penv\<rparr>"

text \<open>\<open>valid_url\<close> says whether \<open>new URL\<close> accepts a string.\<close>

definition validateTrustlessWorkConfig :: "(string \<Rightarrow> bool) \<Rightarrow> tw_config \<Rightarrow> bool" where
  "validateTrustlessWorkConfig valid_url c =
     (if tc_apiKey c = [] then False else if tc_baseURL c = [] then False else valid_url (tc_baseURL c))"

datatype network_error = NetworkNotSet | NetworkUnrecognized string | NetworkMismatch string string

definition assertNetworkMatchesBackend :: "string option \<Rightarrow> string \<Rightarrow> network_error + string" where
  "assertNetworkMatchesBackend backendNetwork frontendNetwork =
     (let normalizedBackend = map_option (\<lambda>v. toLowerCase (trim v)) backendNetwork in
      if \<not> truthy normalizedBackend then Inl NetworkNotSet
      else if the normalizedBackend \<noteq> ''testnet'' \<and> the normalizedBackend \<noteq> ''mainnet'' then
        Inl (NetworkUnrecognized (the backendNetwork))
      else if the normalizedBackend \<noteq> frontendNetwork then
        Inl (NetworkMismatch frontendNetwork (the normalizedBackend))
      else Inr frontendNetwork)"

section \<open>What the checks guarantee\<close>

lemma base32_upper: "base32_char c \<Longrightarrow> upper_alnum_char c"
  by (auto simp: base32_char_def upper_alnum_char_def Let_def)

lemma list_all_split:
  "(\<And>c. P c \<longleftrightarrow> Q c \<and> c \<notin> D) \<Longrightarrow> list_all P r \<longleftrightarrow> list_all Q r \<and> set r \<inter> D = {}"
  by (induction r) auto

text \<open>
  The validators of Stellar addresses compare as follows. The wallet kit's and the wallet module's
  accept exactly the same strings, a G and 55 base-32 characters; whatever they accept the escrow hook
  accepts; what the hook accepts beyond them are exactly the strings with a digit 0, 1, 8 or 9 among
  the 55, which are no Stellar addresses. The three chains accept disjoint formats, but for
  Ethereum and BSC, which are one.
\<close>

theorem stellar_validators_agree:
  "(isValidWallet a \<longleftrightarrow> isValidStellarAddress a)
   \<and> (isValidStellarAddress a \<longleftrightarrow> hook_isValidStellarAddress a \<and> set a \<inter> set ''0189'' = {})
   \<and> \<not> (isValidStellarAddress a \<and> isValidEthereumAddress a)
   \<and> (detectChainFromAddress a = Some ''stellar'' \<longleftrightarrow> isValidAddress a ''stellar'')
   \<and> isValidAddress a ''bsc'' = isValidAddress a ''ethereum''"
proof -
  have g: "base32_char (CHR ''G'')" by (simp add: base32_char_def)
  have d: "base32_char c \<longleftrightarrow> upper_alnum_char c \<and> c \<notin> set ''0189''" for c
  proof -
    have eq: "c = e \<longleftrightarrow> (of_char c :: nat) = of_char e" for e by (simp only: of_char_eq_iff)
    have "c \<in> set ''0189'' \<longleftrightarrow> (of_char c :: nat) \<in> {48, 49, 56, 57}"
      using eq [of "CHR ''0''"] eq [of "CHR ''1''"] eq [of "CHR ''8''"] eq [of "CHR ''9''"] by simp
    then show ?thesis by (auto simp: base32_char_def upper_alnum_char_def Let_def)
  qed
  have w: "isValidWallet a \<longleftrightarrow> isValidStellarAddress a"
  proof (cases a)
    case (Cons c r)
    show ?thesis using g
      unfolding Cons isValidWallet_def isValidStellarAddress_def list.case nth_Cons_0 list.pred_inject length_Cons
      by (cases "c = CHR ''G''"; cases "length r = 55") simp_all
  qed (simp add: isValidWallet_def isValidStellarAddress_def)
  have h: "isValidStellarAddress a \<longleftrightarrow> hook_isValidStellarAddress a \<and> set a \<inter> set ''0189'' = {}"
  proof (cases a)
    case (Cons c r)
    have "c = CHR ''G'' \<Longrightarrow> set (c # r) \<inter> set ''0189'' = set r \<inter> set ''0189''" by simp
    then show ?thesis
      using list_all_split [of base32_char upper_alnum_char "set ''0189''" r, OF d]
      unfolding Cons isValidStellarAddress_def hook_isValidStellarAddress_def list.case by blast
  qed (simp add: isValidStellarAddress_def hook_isValidStellarAddress_def)
  have e: "\<not> (isValidStellarAddress a \<and> isValidEthereumAddress a)"
    by (auto simp: isValidStellarAddress_def isValidEthereumAddress_def startsWith_def split: list.splits)
  show ?thesis using w h e
    by (auto simp: detectChainFromAddress_def isValidAddress_def isValidBSCAddress_def)
qed

text \<open>The two choices of the network agree unless neither variable decides.\<close>

lemma network_defaults_agree:
  "getActiveNetwork penv = resolveFrontendNetwork penv \<longleftrightarrow>
     penv ''NEXT_PUBLIC_TRUSTLESS_NETWORK'' = Some ''testnet'' \<or> penv ''NEXT_PUBLIC_TRUSTLESS_NETWORK'' = Some ''mainnet''
     \<or> penv ''NODE_ENV'' = Some ''production'' \<or> penv ''NODE_ENV'' = Some ''development''"
  by (auto simp: getActiveNetwork_def resolveFrontendNetwork_def Let_def)

lemma assertNetworkMatchesBackend_exact:
  "assertNetworkMatchesBackend b f = Inr n \<longleftrightarrow>
     n = f \<and> map_option (\<lambda>v. toLowerCase (trim v)) b = Some f \<and> f \<in> {''testnet'', ''mainnet''}"
  by (cases b) (auto simp: assertNetworkMatchesBackend_def Let_def toLowerCase_def)

section \<open>The registry and the trustline check\<close>

definition registry_ok :: "asset_def list \<Rightarrow> bool" where
  "registry_ok reg = distinct (map (\<lambda>t. (as_address t, as_network t)) reg)"

lemma addTrustlineAsset_ok:
  "registry_ok reg \<Longrightarrow> registry_ok (addTrustlineAsset a reg)"
  "addTrustlineAsset a (addTrustlineAsset a reg) = addTrustlineAsset a reg"
  "set reg \<subseteq> set (addTrustlineAsset a reg)"
  by (auto simp: registry_ok_def addTrustlineAsset_def list_ex_iff)

definition register_assets :: "asset_def list \<Rightarrow> asset_def list \<Rightarrow> asset_def list" where
  "register_assets xs reg = foldl (\<lambda>r a. addTrustlineAsset a r) reg xs"

lemma register_assets_ok:
  "registry_ok reg \<Longrightarrow> registry_ok (register_assets xs reg)"
  "set reg \<subseteq> set (register_assets xs reg)"
proof (induction xs arbitrary: reg)
  case (Cons x xs)
  { case 1 then show ?case using Cons(1) addTrustlineAsset_ok(1) by (simp add: register_assets_def) }
  { case 2 then show ?case using Cons(2) [of "addTrustlineAsset x reg"] addTrustlineAsset_ok(3) [of reg x]
      by (auto simp: register_assets_def) }
qed (simp_all add: register_assets_def)

lemma trustlines_ok: "registry_ok trustlines"
  by (simp add: registry_ok_def trustlines_def)

lemma find_mem: "List.find P xs = Some x \<Longrightarrow> x \<in> set xs \<and> P x"
  by (induction xs) (auto split: if_splits)

lemma resolveFundingAsset_Some:
  "resolveFundingAsset address network reg = Some a \<Longrightarrow>
   \<exists>t\<in>set reg. as_network t = network \<and> as_issuer t = fa_issuer a \<and> as_symbol t = fa_code a \<and>
     fa_issuer a \<noteq> ''native'' \<and> (Some (as_address t) = address \<or> Some (as_issuer t) = address)"
proof -
  assume "resolveFundingAsset address network reg = Some a"
  then obtain s t where t: "address = Some s" "as_issuer t \<noteq> ''native''"
    "List.find (\<lambda>t. as_network t = network \<and> (as_address t = s \<or> as_issuer t = s)) reg = Some t"
    "a = \<lparr>fa_code = as_symbol t, fa_issuer = as_issuer t, fa_name = as_name t, fa_network = network\<rparr>"
    by (cases address) (auto simp: resolveFundingAsset_def split: option.splits if_splits)
  from find_mem [OF t(3)] show ?thesis by (intro bexI [of _ t]) (auto simp: t(1,2,4))
qed

lemma check_cases:
  "checkFundingTrustline load wallet address network reg = Inr NotRequired
     \<longleftrightarrow> resolveFundingAsset address network reg = None"
  "checkFundingTrustline load wallet address network reg = Inr (Present a)
     \<longleftrightarrow> (\<exists>bs. resolveFundingAsset address network reg = Some a \<and> load network wallet = Inr bs \<and> hasTrustlineFor bs a)"
  "checkFundingTrustline load wallet address network reg = Inr (Missing a NoTrustline)
     \<longleftrightarrow> (\<exists>bs. resolveFundingAsset address network reg = Some a \<and> load network wallet = Inr bs \<and> \<not> hasTrustlineFor bs a)"
  by (auto simp: checkFundingTrustline_def split: option.splits sum.splits if_splits)

lemma hasTrustlineFor_iff:
  "hasTrustlineFor bs a \<longleftrightarrow> (\<exists>b. b \<in> set bs \<and> bl_asset_type b \<noteq> ''native'' \<and> bl_asset_code b = Some (fa_code a) \<and>
     bl_asset_issuer b = Some (fa_issuer a))"
  by (auto simp: hasTrustlineFor_def list_ex_iff)

text \<open>
  Funding is let through only with the trustline it needs. Whatever assets were registered on top of
  the built-in ones, the registry has one entry per address and network and keeps the built-in ones; when
  the check says that a trustline is present, the account's balances have a non-native entry with the
  code and the issuer of a registered asset of that network that has the escrow's address as its address
  or issuer; when it says that one is missing for lack of a trustline, no balance is such an entry; and
  a native or unknown asset needs no server at all.
\<close>

theorem funding_trustline_exact:
  "(let reg = register_assets xs trustlines in registry_ok reg \<and> set trustlines \<subseteq> set reg
    \<and> (checkFundingTrustline load wallet address network reg = Inr NotRequired
        \<longleftrightarrow> resolveFundingAsset address network reg = None)
    \<and> (checkFundingTrustline load wallet address network reg = Inr (Present a)
        \<longleftrightarrow> (\<exists>bs b. resolveFundingAsset address network reg = Some a \<and> load network wallet = Inr bs \<and> b \<in> set bs
              \<and> bl_asset_type b \<noteq> ''native'' \<and> bl_asset_code b = Some (fa_code a) \<and> bl_asset_issuer b = Some (fa_issuer a)))
    \<and> (checkFundingTrustline load wallet address network reg = Inr (Missing a NoTrustline)
        \<longleftrightarrow> (\<exists>bs. resolveFundingAsset address network reg = Some a \<and> load network wallet = Inr bs \<and>
              \<not> hasTrustlineFor bs a))
    \<and> (case resolveFundingAsset address network reg of
         None \<Rightarrow> True
       | Some a \<Rightarrow> \<exists>t\<in>set reg. as_network t = network \<and> as_issuer t = fa_issuer a \<and> as_symbol t = fa_code a \<and>
           fa_issuer a \<noteq> ''native'' \<and> (Some (as_address t) = address \<or> Some (as_issuer t) = address)))"
proof -
  define reg where "reg = register_assets xs trustlines"
  have "registry_ok reg" "set trustlines \<subseteq> set reg"
    unfolding reg_def using register_assets_ok trustlines_ok by blast+
  moreover have "case resolveFundingAsset address network reg of None \<Rightarrow> True
       | Some a \<Rightarrow> \<exists>t\<in>set reg. as_network t = network \<and> as_issuer t = fa_issuer a \<and> as_symbol t = fa_code a \<and>
           fa_issuer a \<noteq> ''native'' \<and> (Some (as_address t) = address \<or> Some (as_issuer t) = address)"
    using resolveFundingAsset_Some [of address network reg] by (simp split: option.split)
  ultimately show ?thesis
    unfolding Let_def reg_def [symmetric] check_cases hasTrustlineFor_iff by blast
qed

end
