(* ===== verification/Purchase_Escrow.thy ===== *)
theory Purchase_Escrow
  imports Wallet_Checks
begin

text \<open>
  \<open>hooks/useTicketPurchaseEscrow.ts\<close> and \<open>services/escrow.service.ts\<close> of the frontend: the escrow of a
  ticket purchase, from the checks of the purchase to the payload, and the two-step submission of the
  reservation escrows. Memoisation is left out (the memoised values are functions of their
  dependencies); \<open>new Date\<close> and \<open>toLocaleDateString\<close> are parameters, as are the wallet kit, the HTTP
  client and the signer. Amounts are exact rationals.
\<close>

section \<open>Purchase data\<close>

datatype escrow_type = SingleRelease | MultiRelease

record ticket_purchase =
  tp_id :: string
  tp_listingId :: string
  tp_eventId :: string
  tp_totalAmount :: rat
  tp_currency :: string
  tp_quantity :: int
  tp_transferDate :: string
  tp_eventDate :: string
  tp_guestEmail :: string
  tp_guestName :: "string option"
  tp_seatSection :: "string option"
  tp_cancellationPolicy :: "string option"
  tp_milestonePayments :: "bool option option"

record event_data =
  ev_id :: string
  ev_name :: string
  ev_walletAddress :: string
  ev_rating :: "rat option"
  ev_location :: "string option"
  ev_imageUrl :: "string option"

datatype milestone_status = MsPending | MsCompleted | MsDisputed

record milestone =
  ms_description :: string
  ms_amount :: string
  ms_dueDate :: string
  ms_status :: milestone_status
  ms_type :: string
  ms_percentage :: rat

definition STROOPS_MULTIPLIER :: rat where "STROOPS_MULTIPLIER = 10000000"

definition SPLIT_INITIATED :: rat where "SPLIT_INITIATED = 7 / 10"

definition SPLIT_COMPLETED :: rat where "SPLIT_COMPLETED = 3 / 10"

text \<open>\<open>Math.round(amount * STROOPS_MULTIPLIER).toString()\<close>; below ten to the 21 the text is the decimal one.\<close>

definition stroops :: "rat \<Rightarrow> int" where
  "stroops amount = js_round (amount * STROOPS_MULTIPLIER)"

definition toStroops :: "rat \<Rightarrow> string" where
  "toStroops amount = show_int (stroops amount)"

text \<open>\<open>parse_date\<close> is the time value of \<open>new Date\<close>; \<open>None\<close> is \<open>NaN\<close>, and no comparison with it holds.\<close>

definition validatePurchaseData :: "(string \<Rightarrow> int option) \<Rightarrow> ticket_purchase \<Rightarrow> string list" where
  "validatePurchaseData parse_date p =
     (if tp_id p = [] then [''Purchase ID is required''] else [])
     @ (if tp_eventId p = [] then [''Event ID is required''] else [])
     @ (if tp_listingId p = [] then [''Listing ID is required''] else [])
     @ (if tp_totalAmount p = 0 \<or> tp_totalAmount p \<le> 0 then [''Valid purchase amount is required''] else [])
     @ (if tp_transferDate p = [] then [''Transfer date is required''] else [])
     @ (if tp_eventDate p = [] then [''Event date is required''] else [])
     @ (if tp_guestEmail p = [] then [''Guest email is required''] else [])
     @ (case (parse_date (tp_eventDate p), parse_date (tp_transferDate p)) of
          (Some e, Some t) \<Rightarrow> if e \<le> t then [''Event date must be after the transfer date''] else []
        | _ \<Rightarrow> [])"

definition validateEventData :: "event_data \<Rightarrow> string list" where
  "validateEventData e =
     (if ev_id e = [] then [''Event ID is required''] else [])
     @ (if ev_name e = [] then [''Event name is required''] else [])
     @ (if ev_walletAddress e = [] then [''Event wallet address is required'']
        else if \<not> hook_isValidStellarAddress (ev_walletAddress e) then [''Invalid event wallet address format'']
        else [])"

definition validationErrors :: "(string \<Rightarrow> int option) \<Rightarrow> ticket_purchase \<Rightarrow> event_data \<Rightarrow> string \<Rightarrow> string list" where
  "validationErrors parse_date p e guestWallet =
     (if guestWallet = [] then [''Wallet not connected'']
      else if \<not> hook_isValidStellarAddress guestWallet then [''Invalid guest wallet address''] else [])
     @ validatePurchaseData parse_date p @ validateEventData e"

section \<open>The escrow\<close>

definition calculateMilestoneAmounts :: "escrow_type \<Rightarrow> ticket_purchase \<Rightarrow> rat \<Rightarrow> milestone list" where
  "calculateMilestoneAmounts typ p total_amount =
     (case typ of
        SingleRelease \<Rightarrow>
          [\<lparr>ms_description = ''Ticket purchase payment - Released after the transfer is confirmed'',
             ms_amount = toStroops total_amount, ms_dueDate = tp_eventDate p, ms_status = MsPending,
             ms_type = ''transfer_completed'',
             ms_percentage = 100\<rparr>]
      | MultiRelease \<Rightarrow>
          [\<lparr>ms_description = ''Transfer initiated milestone - Ticket sent and initial payment released'',
             ms_amount = toStroops (total_amount * SPLIT_INITIATED), ms_dueDate = tp_transferDate p,
             ms_status = MsPending, ms_type = ''transfer_initiated'', ms_percentage = SPLIT_INITIATED * 100\<rparr>,
           \<lparr>ms_description = ''Transfer completed milestone - Buyer confirmed successful ticket transfer'',
             ms_amount = toStroops (total_amount * SPLIT_COMPLETED), ms_dueDate = tp_eventDate p, ms_status = MsPending,
             ms_type = ''transfer_completed'', ms_percentage = SPLIT_COMPLETED * 100\<rparr>])"

record active_trustline =
  at_address :: string
  at_decimals :: nat
  at_symbol :: string

definition activeTrustline :: "(string \<Rightarrow> string option) \<Rightarrow> asset_def list \<Rightarrow> string option \<Rightarrow> ticket_purchase \<Rightarrow> active_trustline" where
  "activeTrustline penv reg selectedAsset p =
     (let networkAssets = getSupportedAssets (getActiveNetwork penv) reg;
          assetSymbol = toUpperCase (if truthy selectedAsset then the selectedAsset
            else if tp_currency p \<noteq> [] then tp_currency p else ''USDC'');
          matched = coalesce (List.find (\<lambda>t. toUpperCase (op_symbol t) = assetSymbol \<or> toUpperCase (op_label t) = assetSymbol) networkAssets)
            (coalesce (List.find (\<lambda>t. op_label t = ''USDC'') networkAssets)
              (case networkAssets of [] \<Rightarrow> None | t # _ \<Rightarrow> Some t))
      in \<lparr>at_address = (if truthy (map_option op_value matched) then op_value (the matched)
            else or_default (penv ''NEXT_PUBLIC_USDC_ISSUER'') []),
          at_decimals = ASSET_DECIMALS,
          at_symbol = (if truthy (map_option op_symbol matched) then op_symbol (the matched) else assetSymbol)\<rparr>)"

record escrow_roles =
  ro_approver :: string
  ro_serviceProvider :: string
  ro_platformAddress :: string
  ro_releaseSigner :: string
  ro_disputeResolver :: string
  ro_receiver :: string

record escrow_metadata =
  em_purchaseId :: string
  em_listingId :: string
  em_eventId :: string
  em_eventName :: string
  em_transferDate :: string
  em_eventDate :: string
  em_guestEmail :: string
  em_platform :: string
  em_version :: string
  em_seatSection :: "string option"
  em_cancellationPolicy :: "string option"
  em_milestones :: "milestone list"

record escrow_form =
  fo_title :: string
  fo_engagementId :: string
  fo_description :: string
  fo_amount :: rat
  fo_platformFee :: rat
  fo_roles :: escrow_roles
  fo_trustline :: "string \<times> nat"
  fo_milestones :: "(string \<times> string) list"
  fo_receiverMemo :: string
  fo_metadata :: escrow_metadata

definition escrowFormData ::
  "(string \<Rightarrow> string) \<Rightarrow> (string \<Rightarrow> string option) \<Rightarrow> asset_def list \<Rightarrow> escrow_type \<Rightarrow> string option \<Rightarrow>
   ticket_purchase \<Rightarrow> event_data \<Rightarrow> string \<Rightarrow> escrow_form" where
  "escrowFormData locale_date penv reg typ selectedAsset p e guestWallet =
     (let platformWallet = or_default (penv ''NEXT_PUBLIC_PLATFORM_WALLET_ADDRESS'') [];
          disputeResolver = or_default (penv ''NEXT_PUBLIC_DISPUTE_RESOLVER_ADDRESS'') platformWallet;
          tl = activeTrustline penv reg selectedAsset p;
          milestones = calculateMilestoneAmounts typ p (tp_totalAmount p)
      in \<lparr>fo_title = ''Ticket Purchase - '' @ ev_name e, fo_engagementId = tp_id p,
          fo_description = ''Secure escrow payment for a ticket purchase for '' @ ev_name e @
            ''. Transfer date: '' @ locale_date (tp_transferDate p) @ '', Event date: '' @ locale_date (tp_eventDate p),
          fo_amount = tp_totalAmount p, fo_platformFee = 5 / 2,
          fo_roles = \<lparr>ro_approver = guestWallet, ro_serviceProvider = ev_walletAddress e,
            ro_platformAddress = platformWallet, ro_releaseSigner = platformWallet,
            ro_disputeResolver = disputeResolver, ro_receiver = ev_walletAddress e\<rparr>,
          fo_trustline = (at_address tl, at_decimals tl),
          fo_milestones = map (\<lambda>m. (ms_description m, ms_amount m)) milestones,
          fo_receiverMemo = take 28 (tp_id p),
          fo_metadata = \<lparr>em_purchaseId = tp_id p, em_listingId = tp_listingId p, em_eventId = tp_eventId p,
            em_eventName = ev_name e, em_transferDate = tp_transferDate p, em_eventDate = tp_eventDate p,
            em_guestEmail = tp_guestEmail p, em_platform = ''TrueStub'', em_version = ''1.0.0'',
            em_seatSection = tp_seatSection p, em_cancellationPolicy = tp_cancellationPolicy p,
            em_milestones = milestones\<rparr>\<rparr>)"

text \<open>\<open>useEscrowValidation\<close>: the amount as a number, and whether the roles, the metadata and the milestones are there.\<close>

definition validateEscrowData :: "jsnum \<Rightarrow> string option \<Rightarrow> string option \<Rightarrow> string option \<Rightarrow> nat \<Rightarrow> string list" where
  "validateEscrowData amount approver serviceProvider purchaseId milestones =
     (if amount = Fin 0 \<or> amount = NaN \<or> js_le amount (Fin 0) then [''Amount must be greater than 0''] else [])
     @ (if \<not> truthy approver then [''Approver address is required''] else [])
     @ (if \<not> truthy serviceProvider then [''Service provider address is required''] else [])
     @ (if \<not> truthy purchaseId then [''Purchase ID is required in metadata''] else [])
     @ (if milestones = 0 then [''At least one milestone is required''] else [])"

section \<open>The reservation escrows\<close>

record reservation_milestone =
  rm_description :: string
  rm_amount :: rat
  rm_receiver :: string

record reservation_escrow =
  rv_signer :: string
  rv_engagementId :: string
  rv_title :: string
  rv_description :: string
  rv_roles :: escrow_roles
  rv_amount :: rat
  rv_platformFee :: rat
  rv_milestones :: "reservation_milestone list"
  rv_trustline :: "string \<times> nat \<times> string"
  rv_receiverMemo :: nat

definition PLATFORM_ACCOUNT :: string where
  "PLATFORM_ACCOUNT = ''GBPA2LO4XHBZD54ZEGGK4GG3OYHAYBPK6FNDAHCJWNJTLTKYUL52QCQR''"

datatype escrow_post =
    DeployMultiRelease reservation_escrow
  | FundMultiRelease string string rat
  | SendTransaction string

text \<open>
  What the browser and the network do: the address of the connected wallet, a POST with its answer, the
  signature of a transaction for an address. Each may throw (\<open>Inl\<close>).
\<close>

record 'w escrow_io =
  io_getAddress :: "'w \<Rightarrow> (string + string) \<times> 'w"
  io_post :: "escrow_post \<Rightarrow> 'w \<Rightarrow> (string + string) \<times> 'w"
  io_sign :: "string \<Rightarrow> string \<Rightarrow> 'w \<Rightarrow> (string + string) \<times> 'w"

definition andthen :: "((string + 'a) \<times> 'w) \<Rightarrow> ('a \<Rightarrow> 'w \<Rightarrow> (string + 'b) \<times> 'w) \<Rightarrow> (string + 'b) \<times> 'w" where
  "andthen r k = (case r of (Inl e, w) \<Rightarrow> (Inl e, w) | (Inr v, w) \<Rightarrow> k v w)"

definition submit_signed :: "'w escrow_io \<Rightarrow> string \<Rightarrow> escrow_post \<Rightarrow> 'w \<Rightarrow> (string + string) \<times> 'w" where
  "submit_signed io address body w =
     andthen (io_post io body w) (\<lambda>unsigned w1.
     andthen (io_sign io unsigned address w1) (\<lambda>signed w2.
     io_post io (SendTransaction signed) w2))"

definition reservation_body :: "string \<Rightarrow> string \<Rightarrow> string \<Rightarrow> rat \<Rightarrow> rat \<Rightarrow> reservation_escrow" where
  "reservation_body address eventName descr price tax =
     \<lparr>rv_signer = address, rv_engagementId = ''HR1-223423232'', rv_title = eventName, rv_description = descr,
      rv_roles = \<lparr>ro_approver = address, ro_serviceProvider = PLATFORM_ACCOUNT,
        ro_platformAddress = PLATFORM_ACCOUNT, ro_releaseSigner = PLATFORM_ACCOUNT,
        ro_disputeResolver = PLATFORM_ACCOUNT, ro_receiver = PLATFORM_ACCOUNT\<rparr>,
      rv_amount = price, rv_platformFee = tax,
      rv_milestones = map (\<lambda>d. \<lparr>rm_description = d, rm_amount = price / 3, rm_receiver = PLATFORM_ACCOUNT\<rparr>)
        [''The event delivers the room keys to the tenant'', ''The room is in perfectly conditions'',
         ''The tenant returns the room keys to the event''],
      rv_trustline = (''CBIELTK6YBZJU5UP2WWQEUCYKLPU6AUNZ2BQ4WWFEIE3USCIHMXQDAMA'', 10000000, ''USDC''),
      rv_receiverMemo = 123456\<rparr>"

definition initializedReservationEscrow ::
  "'w escrow_io \<Rightarrow> string \<Rightarrow> string \<Rightarrow> rat \<Rightarrow> rat \<Rightarrow> 'w \<Rightarrow> (string + string) \<times> 'w" where
  "initializedReservationEscrow io eventName descr price tax w =
     andthen (io_getAddress io w) (\<lambda>address w1.
       if price = 0 \<or> price \<le> 0 then (Inl ''Invalid price: must be a positive number'', w1)
       else if tax = 0 \<or> tax < 0 then (Inl ''Invalid tax: must be a non-negative number'', w1)
       else submit_signed io address (DeployMultiRelease (reservation_body address eventName descr price tax)) w1)"

definition fundReservationEscrow :: "'w escrow_io \<Rightarrow> string \<Rightarrow> rat \<Rightarrow> 'w \<Rightarrow> (string + string) \<times> 'w" where
  "fundReservationEscrow io contractId amount w =
     andthen (io_getAddress io w) (\<lambda>address w1.
       if contractId = [] then (Inl ''Contract ID is required'', w1)
       else if amount = 0 \<or> amount \<le> 0 then (Inl ''Invalid amount: must be a positive number'', w1)
       else submit_signed io address (FundMultiRelease contractId address amount) w1)"

section \<open>What the payloads guarantee\<close>

lemma two_rounds: "\<bar>js_round a + js_round b - js_round (a + b)\<bar> \<le> 1"
proof -
  have "a + 1 / 2 < of_int \<lfloor>a + 1 / 2\<rfloor> + 1" "of_int \<lfloor>a + 1 / 2\<rfloor> \<le> a + 1 / 2"
    "b + 1 / 2 < of_int \<lfloor>b + 1 / 2\<rfloor> + 1" "of_int \<lfloor>b + 1 / 2\<rfloor> \<le> b + 1 / 2"
    "a + b + 1 / 2 < of_int \<lfloor>a + b + 1 / 2\<rfloor> + 1" "of_int \<lfloor>a + b + 1 / 2\<rfloor> \<le> a + b + 1 / 2"
    by linarith+
  then have "(of_int (js_round a + js_round b - js_round (a + b)) :: rat) < of_int 2"
    "(of_int (- 2) :: rat) < of_int (js_round a + js_round b - js_round (a + b))"
    unfolding js_round_def of_int_add of_int_diff by simp_all linarith+
  then show ?thesis unfolding of_int_less_iff by linarith
qed

text \<open>
  The milestones of a purchase pay out the purchase. The payload's amount is the purchase's; with a
  single release its only milestone is the whole amount in stroops; with two releases the amounts are
  whole stroops that together differ from the whole by at most one stroop. The buyer approves, the
  seller is paid, the metadata carries the same milestones, and the memo fits the 28 characters of the chain.
\<close>

theorem purchase_milestones_sum:
  "(let f = escrowFormData locale_date penv reg typ selectedAsset p e guestWallet; n = stroops (tp_totalAmount p)
    in fo_amount f = tp_totalAmount p \<and> length (fo_receiverMemo f) \<le> 28
     \<and> map (\<lambda>m. (ms_description m, ms_amount m)) (em_milestones (fo_metadata f)) = fo_milestones f
     \<and> ro_approver (fo_roles f) = guestWallet \<and> ro_receiver (fo_roles f) = ev_walletAddress e
     \<and> (case typ of
          SingleRelease \<Rightarrow> map snd (fo_milestones f) = [show_int n]
        | MultiRelease \<Rightarrow> (\<exists>a b. map snd (fo_milestones f) = [show_int a, show_int b] \<and> \<bar>a + b - n\<bar> \<le> 1)))"
proof -
  have "\<bar>stroops (x * SPLIT_INITIATED) + stroops (x * SPLIT_COMPLETED) - stroops x\<bar> \<le> 1" for x
    using two_rounds [of "x * SPLIT_INITIATED * STROOPS_MULTIPLIER" "x * SPLIT_COMPLETED * STROOPS_MULTIPLIER"]
    by (simp add: stroops_def SPLIT_INITIATED_def SPLIT_COMPLETED_def STROOPS_MULTIPLIER_def mult.commute [of x])
  then show ?thesis
    by (auto simp: escrowFormData_def calculateMilestoneAmounts_def toStroops_def Let_def split: escrow_type.split)
qed

text \<open>The two rounded shares can exceed the whole: of five stroops they are four and two.\<close>

lemma milestones_exceed:
  "stroops (5 / 10000000) = 5"
  "stroops (5 / 10000000 * SPLIT_INITIATED) + stroops (5 / 10000000 * SPLIT_COMPLETED) = 6"
  by (simp_all add: stroops_def js_round_def SPLIT_INITIATED_def SPLIT_COMPLETED_def STROOPS_MULTIPLIER_def floor_eq_iff)

text \<open>A date that cannot be parsed is never reported.\<close>

lemma unparsable_date_accepted:
  "parse_date (tp_eventDate p) = None \<Longrightarrow>
   ''Event date must be after the transfer date'' \<notin> set (validatePurchaseData parse_date p)"
  by (auto simp: validatePurchaseData_def)

text \<open>The three milestones of a reservation add up to its price, and a tax of zero is refused.\<close>

lemma reservation_milestones: "sum_list (map rm_amount (rv_milestones (reservation_body a t d price tax))) = price"
  by (simp add: reservation_body_def)

lemma zero_tax_refused:
  "io_getAddress io w = (Inr address, w1) \<Longrightarrow> 0 < price \<Longrightarrow>
   initializedReservationEscrow io t d price 0 w = (Inl ''Invalid tax: must be a non-negative number'', w1)"
  by (simp add: initializedReservationEscrow_def andthen_def)

end
