(* ===== verification/Wallet_Session.thy ===== *)
theory Wallet_Session
  imports Wallet_Checks Js_Map
begin

text \<open>
  The wallets of a session: \<open>components/auth/wallet/hooks/useMultiWallet.ts\<close> (the connected wallets and
  the selected one), \<open>useWalletSessionGuard.ts\<close>, \<open>useAccountSwitcher.ts\<close>, and the favourites and saved
  searches of \<open>core/store/data\<close>. A React state is a record, a handler its update; what the wallet
  extensions and the network answer is an argument. Callbacks that nobody awaits (balances, the wallet's
  network) are operations of their own, so they can arrive in any order. The flag that a connection is
  under way is not kept.
\<close>

section \<open>State\<close>

record wallet =
  wa_address :: string
  wa_name :: string
  wa_chain :: string
  wa_walletType :: string

record wallet_error =
  we_code :: string
  we_message :: string

record 'b wallet_state =
  wt_connected :: "wallet list"
  wt_selected :: "wallet option"
  wt_error :: "wallet_error option"
  wt_balances :: "'b list"
  wt_networkMismatch :: bool
  wt_actualNetwork :: string

definition new_session :: "'b wallet_state" where
  "new_session = \<lparr>wt_connected = [], wt_selected = None, wt_error = None, wt_balances = [],
     wt_networkMismatch = False, wt_actualNetwork = []\<rparr>"

text \<open>The passphrases of the Stellar kit are its constants, parameters here.\<close>

definition resolveExpectedNetwork :: "string \<Rightarrow> string \<Rightarrow> (string \<Rightarrow> string option) \<Rightarrow> string" where
  "resolveExpectedNetwork PUBLIC TESTNET penv =
     (if or_default (penv ''NEXT_PUBLIC_TRUSTLESS_NETWORK'') ''testnet'' = ''mainnet'' then PUBLIC else TESTNET)"

section \<open>Connecting\<close>

definition without_type :: "string \<Rightarrow> wallet list \<Rightarrow> wallet list" where
  "without_type t ws = filter (\<lambda>w. wa_walletType w \<noteq> t) ws"

text \<open>The common end of the three connections: the validation, then the wallet replaces the one of its type and is selected.\<close>

definition add_connected :: "string \<Rightarrow> string \<Rightarrow> wallet \<Rightarrow> 'b wallet_state \<Rightarrow> 'b wallet_state" where
  "add_connected err_code fallback w s0 =
     (let s = s0\<lparr>wt_error := None\<rparr>;
          errors = validateWalletConnection (Some (wa_address w)) (Some (wa_chain w)) (Some (wa_walletType w))
      in if errors \<noteq> [] then
           s\<lparr>wt_error := Some \<lparr>we_code = err_code,
             we_message = (if join '', '' errors \<noteq> [] then join '', '' errors else fallback)\<rparr>\<rparr>
         else s\<lparr>wt_connected := without_type (wa_walletType w) (wt_connected s) @ [w], wt_selected := Some w\<rparr>)"

definition failed_connection :: "string \<Rightarrow> string \<Rightarrow> string \<Rightarrow> 'b wallet_state \<Rightarrow> 'b wallet_state" where
  "failed_connection err_code msg fallback s =
     s\<lparr>wt_error := Some \<lparr>we_code = err_code, we_message = (if msg \<noteq> [] then msg else fallback)\<rparr>\<rparr>"

text \<open>\<open>onWalletSelected\<close> of the Stellar modal with the chosen option and the address the kit returns.\<close>

definition connectStellarWallet ::
  "string \<Rightarrow> string \<Rightarrow> string + string \<Rightarrow> 'b wallet_state \<Rightarrow> 'b wallet_state" where
  "connectStellarWallet option_id option_name address s = (case address of
       Inl msg \<Rightarrow> failed_connection ''STELLAR_CONNECTION_FAILED'' msg ''Failed to connect Stellar wallet'' s
     | Inr a \<Rightarrow> add_connected ''STELLAR_CONNECTION_FAILED'' ''Failed to connect Stellar wallet''
         \<lparr>wa_address = a, wa_name = option_name, wa_chain = ''stellar'', wa_walletType = option_id\<rparr> s)"

text \<open>\<open>None\<close>: no provider is installed, and the call throws before it touches the state.\<close>

definition connectMetaMask :: "(string + string list) option \<Rightarrow> 'b wallet_state \<Rightarrow> 'b wallet_state" where
  "connectMetaMask accounts s = (case accounts of
       None \<Rightarrow> s
     | Some (Inl msg) \<Rightarrow> failed_connection ''METAMASK_CONNECTION_FAILED'' msg ''MetaMask connection failed'' s
     | Some (Inr []) \<Rightarrow> failed_connection ''METAMASK_CONNECTION_FAILED'' ''No accounts found'' ''MetaMask connection failed'' s
     | Some (Inr (a # _)) \<Rightarrow> add_connected ''METAMASK_CONNECTION_FAILED'' ''MetaMask connection failed''
         \<lparr>wa_address = a, wa_name = ''MetaMask'', wa_chain = ''ethereum'', wa_walletType = ''metamask''\<rparr> s)"

text \<open>\<open>Inr None\<close>: the user cancelled.\<close>

definition connectWalletConnect :: "string + string option \<Rightarrow> 'b wallet_state \<Rightarrow> 'b wallet_state" where
  "connectWalletConnect result s = (case result of
       Inl msg \<Rightarrow> failed_connection ''WALLETCONNECT_CONNECTION_FAILED'' msg ''Failed to connect WalletConnect'' s
     | Inr None \<Rightarrow> s\<lparr>wt_error := None\<rparr>
     | Inr (Some a) \<Rightarrow> add_connected ''WALLETCONNECT_CONNECTION_FAILED'' ''Failed to connect WalletConnect''
         \<lparr>wa_address = a, wa_name = ''WalletConnect'', wa_chain = ''ethereum'', wa_walletType = ''walletconnect''\<rparr> s)"

section \<open>The other operations\<close>

text \<open>\<open>Some msg\<close> is the failure of the extension's own disconnect.\<close>

definition session_disconnectWallet :: "string \<Rightarrow> string option \<Rightarrow> 'b wallet_state \<Rightarrow> 'b wallet_state" where
  "session_disconnectWallet t failure s = (case failure of
       Some msg \<Rightarrow> failed_connection ''DISCONNECT_FAILED'' msg ''Failed to disconnect wallet'' s
     | None \<Rightarrow>
         (let remaining = without_type t (wt_connected s);
              s1 = s\<lparr>wt_connected := remaining,
                wt_selected := (if map_option wa_walletType (wt_selected s) = Some t
                  then (case remaining of [] \<Rightarrow> None | w # _ \<Rightarrow> Some w) else wt_selected s)\<rparr>
          in if length (wt_connected s) \<le> 1 then
               s1\<lparr>wt_balances := [], wt_networkMismatch := False, wt_actualNetwork := []\<rparr>
             else s1))"

definition selectWallet :: "wallet \<Rightarrow> 'b wallet_state \<Rightarrow> 'b wallet_state" where
  "selectWallet w s = s\<lparr>wt_selected := Some w\<rparr>"

definition reset_session :: "'b wallet_state \<Rightarrow> 'b wallet_state" where
  "reset_session s = s\<lparr>wt_connected := [], wt_selected := None, wt_error := None, wt_balances := [],
     wt_networkMismatch := False, wt_actualNetwork := []\<rparr>"

definition updateWalletAddress :: "wallet \<Rightarrow> 'b wallet_state \<Rightarrow> 'b wallet_state" where
  "updateWalletAddress u s =
     s\<lparr>wt_connected := map (\<lambda>w. if wa_walletType w = wa_walletType u then u else w) (wt_connected s),
       wt_selected := (if map_option wa_walletType (wt_selected s) = Some (wa_walletType u) then Some u
         else wt_selected s)\<rparr>"

text \<open>The end of a balance query for some address: its balances, or nothing when it failed.\<close>

definition balances_loaded :: "'b list option \<Rightarrow> 'b wallet_state \<Rightarrow> 'b wallet_state" where
  "balances_loaded r s = s\<lparr>wt_balances := (case r of None \<Rightarrow> [] | Some bs \<Rightarrow> bs)\<rparr>"

definition network_read :: "string \<Rightarrow> string option \<Rightarrow> 'b wallet_state \<Rightarrow> 'b wallet_state" where
  "network_read expected r s = (case r of
       None \<Rightarrow> s\<lparr>wt_actualNetwork := [], wt_networkMismatch := False\<rparr>
     | Some n \<Rightarrow> s\<lparr>wt_actualNetwork := n, wt_networkMismatch := (n \<noteq> expected)\<rparr>)"

section \<open>Session guard and account switching\<close>

text \<open>The notifications of one poll: the kit's address, or a failure.\<close>

definition stellar_guard :: "wallet list \<Rightarrow> string option + unit \<Rightarrow> (string \<times> string) list" where
  "stellar_guard ws r =
     (let stellar = filter (\<lambda>w. wa_chain w = ''stellar'') ws in
      case r of
        Inl a \<Rightarrow> if truthy a then []
          else map (\<lambda>w. (wa_walletType w,
            ''Your Stellar wallet has been locked or disconnected. Please reconnect to continue.'')) stellar
      | Inr _ \<Rightarrow> map (\<lambda>w. (wa_walletType w, ''Your Stellar wallet session has ended. Please reconnect.'')) stellar)"

definition eth_wallets :: "wallet list \<Rightarrow> wallet list" where
  "eth_wallets ws = filter (\<lambda>w. wa_chain w = ''ethereum'' \<or> wa_chain w = ''bsc'') ws"

definition eth_accounts_guard :: "wallet list \<Rightarrow> string list \<Rightarrow> (string \<times> string) list" where
  "eth_accounts_guard ws accounts =
     (if accounts = [] then map (\<lambda>w. (wa_walletType w,
        ''Your MetaMask account has been disconnected or locked. Please reconnect.'')) (eth_wallets ws) else [])"

definition eth_disconnect_guard :: "wallet list \<Rightarrow> (string \<times> string) list" where
  "eth_disconnect_guard ws =
     map (\<lambda>w. (wa_walletType w, ''Your wallet connection was interrupted. Please reconnect.'')) (eth_wallets ws)"

definition STELLAR_WALLET_TYPES :: "string list" where
  "STELLAR_WALLET_TYPES = [''freighter'', ''albedo'', ''lobstr'']"

definition switched :: "wallet \<Rightarrow> string \<Rightarrow> wallet option" where
  "switched w a = (if a \<noteq> wa_address w then Some (w\<lparr>wa_address := a\<rparr>) else None)"

text \<open>The background listener: the wallet to report, if any.\<close>

definition accounts_changed :: "wallet \<Rightarrow> string list \<Rightarrow> wallet option" where
  "accounts_changed selected accounts = (case accounts of [] \<Rightarrow> None | a # _ \<Rightarrow> switched selected a)"

text \<open>
  \<open>requestAccountSwitch\<close>: the error, or the wallet to report. The kit is missing (\<open>None\<close>), rejects or
  gives an address; the provider is missing, rejects or gives accounts.
\<close>

definition requestAccountSwitch ::
  "(string + string option) option \<Rightarrow> (string + string list) option \<Rightarrow> wallet option \<Rightarrow> string + wallet option" where
  "requestAccountSwitch kit provider selected =
     (let err = (\<lambda>m. Inl (if m \<noteq> [] then m else ''Failed to switch account. Please try again.'')) in
      case selected of
        None \<Rightarrow> Inl ''No wallet is currently connected.''
      | Some w \<Rightarrow>
          if wa_walletType w \<in> set STELLAR_WALLET_TYPES then
            (case kit of
               None \<Rightarrow> err ''Stellar wallet kit is not initialised (server-side render?).''
             | Some (Inl m) \<Rightarrow> err m
             | Some (Inr a) \<Rightarrow>
                 if \<not> truthy a then
                   err ''Your Stellar wallet returned no address. Make sure it is unlocked and connected.''
                 else Inr (switched w (the a)))
          else if wa_walletType w = ''metamask'' \<or> wa_walletType w = ''walletconnect'' then
            (case provider of
               None \<Rightarrow> err ''No Ethereum provider found. Is MetaMask installed?''
             | Some (Inl m) \<Rightarrow> err m
             | Some (Inr []) \<Rightarrow> err ''No accounts returned from wallet.''
             | Some (Inr (a # _)) \<Rightarrow> Inr (switched w a))
          else err (''Account switching is not supported for wallet type \"'' @ wa_walletType w @ ''\".''))"

section \<open>Favourites and saved searches\<close>

record favorites =
  fv_savedListingIds :: "string list"
  fv_savedPrices :: "(string, rat) jmap"
  fv_hydrated :: bool

definition isSaved :: "string \<Rightarrow> favorites \<Rightarrow> bool" where
  "isSaved i s = (i \<in> set (fv_savedListingIds s))"

text \<open>\<open>lookup\<close> gives the current price of a listing, if it is known.\<close>

definition toggleSaved :: "(string \<Rightarrow> rat option) \<Rightarrow> string \<Rightarrow> favorites \<Rightarrow> favorites" where
  "toggleSaved lookup i s =
     (if isSaved i s then s\<lparr>fv_savedListingIds := filter (\<lambda>j. j \<noteq> i) (fv_savedListingIds s)\<rparr>
      else s\<lparr>fv_savedListingIds := fv_savedListingIds s @ [i],
        fv_savedPrices := (case lookup i of None \<Rightarrow> fv_savedPrices s | Some p \<Rightarrow> jm_set (fv_savedPrices s) i p)\<rparr>)"

definition removeSaved :: "string \<Rightarrow> favorites \<Rightarrow> favorites" where
  "removeSaved i s = s\<lparr>fv_savedListingIds := filter (\<lambda>j. j \<noteq> i) (fv_savedListingIds s)\<rparr>"

definition hydrateFromBackend :: "(string \<times> rat) list option \<Rightarrow> favorites \<Rightarrow> favorites" where
  "hydrateFromBackend saved s = (case saved of
       None \<Rightarrow> s
     | Some ls \<Rightarrow> \<lparr>fv_savedListingIds = map fst ls,
         fv_savedPrices = foldl (\<lambda>m (i, p). jm_set m i p) [] ls, fv_hydrated = True\<rparr>)"

record saved_search =
  ss_id :: string
  ss_eventName :: string
  ss_maxPrice :: "rat option"
  ss_section :: "string option"
  ss_createdAt :: string

definition addSearch :: "saved_search \<Rightarrow> saved_search list \<Rightarrow> saved_search list" where
  "addSearch x xs = x # xs"

definition removeSearch :: "string \<Rightarrow> saved_search list \<Rightarrow> saved_search list" where
  "removeSearch i xs = filter (\<lambda>x. ss_id x \<noteq> i) xs"

section \<open>The session invariant\<close>

datatype 'b wallet_op =
    WoStellar string string "string + string"
  | WoMetaMask "(string + string list) option"
  | WoWalletConnect "string + string option"
  | WoDisconnect string "string option"
  | WoSelect nat
  | WoUpdate wallet
  | WoReset
  | WoBalances "'b list option"
  | WoNetwork string "string option"

text \<open>The interface selects from the list of the connected wallets, by position.\<close>

fun wallet_apply :: "'b wallet_op \<Rightarrow> 'b wallet_state \<Rightarrow> 'b wallet_state" where
  "wallet_apply (WoStellar i n a) s = connectStellarWallet i n a s"
| "wallet_apply (WoMetaMask r) s = connectMetaMask r s"
| "wallet_apply (WoWalletConnect r) s = connectWalletConnect r s"
| "wallet_apply (WoDisconnect t f) s = session_disconnectWallet t f s"
| "wallet_apply (WoSelect k) s = (if k < length (wt_connected s) then selectWallet (wt_connected s ! k) s else s)"
| "wallet_apply (WoUpdate u) s = updateWalletAddress u s"
| "wallet_apply WoReset s = reset_session s"
| "wallet_apply (WoBalances r) s = balances_loaded r s"
| "wallet_apply (WoNetwork e r) s = network_read e r s"

definition wallet_run :: "'b wallet_op list \<Rightarrow> 'b wallet_state \<Rightarrow> 'b wallet_state" where
  "wallet_run ops s = foldl (\<lambda>t x. wallet_apply x t) s ops"

definition session_ok :: "'b wallet_state \<Rightarrow> bool" where
  "session_ok s = (distinct (map wa_walletType (wt_connected s)) \<and>
     (case wt_selected s of None \<Rightarrow> wt_connected s = [] | Some w \<Rightarrow> w \<in> set (wt_connected s)))"

definition valid_wallet :: "wallet \<Rightarrow> bool" where
  "valid_wallet w = (validateWalletConnection (Some (wa_address w)) (Some (wa_chain w)) (Some (wa_walletType w)) = [])"

definition session_valid :: "'b wallet_state \<Rightarrow> bool" where
  "session_valid s = list_all valid_wallet (wt_connected s)"

fun updates_valid :: "'b wallet_op list \<Rightarrow> bool" where
  "updates_valid [] = True"
| "updates_valid (WoUpdate u # ops) = (valid_wallet u \<and> updates_valid ops)"
| "updates_valid (x # ops) = updates_valid ops"

lemma updates_valid_Cons: "updates_valid (x # ops) = ((case x of WoUpdate u \<Rightarrow> valid_wallet u | _ \<Rightarrow> True) \<and> updates_valid ops)"
  by (cases x) simp_all

lemma without_type_simps [simp]:
  "set (without_type t ws) = {w \<in> set ws. wa_walletType w \<noteq> t}"
  "distinct (map wa_walletType ws) \<Longrightarrow> distinct (map wa_walletType (without_type t ws))"
  by (auto simp: without_type_def distinct_map_filter)

lemma add_connected_ok:
  "session_ok s \<Longrightarrow> session_ok (add_connected c f w s)"
  "session_valid s \<Longrightarrow> session_valid (add_connected c f w s)"
  by (auto simp: add_connected_def Let_def session_ok_def session_valid_def valid_wallet_def list_all_iff
      split: option.splits)

lemma session_frame:
  "wt_connected s = wt_connected t \<Longrightarrow> wt_selected s = wt_selected t \<Longrightarrow> session_ok s = session_ok t"
  "wt_connected s = wt_connected t \<Longrightarrow> session_valid s = session_valid t"
  by (simp_all add: session_ok_def session_valid_def split: option.split)

lemma session_frames [simp]:
  "session_ok (failed_connection c m f s) = session_ok s" "session_valid (failed_connection c m f s) = session_valid s"
  "session_ok (balances_loaded r s) = session_ok s" "session_valid (balances_loaded r s) = session_valid s"
  "session_ok (network_read e n s) = session_ok s" "session_valid (network_read e n s) = session_valid s"
  "session_ok (s\<lparr>wt_error := None\<rparr>) = session_ok s" "session_valid (s\<lparr>wt_error := None\<rparr>) = session_valid s"
  by (rule session_frame; simp add: failed_connection_def balances_loaded_def network_read_def split: option.split)+

lemma disconnect_ok:
  assumes "session_ok s"
  shows "session_ok (session_disconnectWallet t f s)"
proof (cases f)
  case None
  let ?r = "without_type t (wt_connected s)"
  have d: "distinct (map wa_walletType ?r)" using assms by (simp add: session_ok_def)
  have sel: "wt_selected s = Some w \<Longrightarrow> wa_walletType w \<noteq> t \<Longrightarrow> w \<in> set ?r" for w
    using assms by (simp add: session_ok_def)
  have none: "wt_selected s = None \<Longrightarrow> ?r = []"
    using assms by (simp add: session_ok_def without_type_def)
  show ?thesis
    using None d sel none
    by (cases "wt_selected s"; cases ?r) (auto simp: session_disconnectWallet_def session_ok_def Let_def)
qed (use assms in \<open>simp add: session_disconnectWallet_def\<close>)

lemma update_ok:
  assumes "session_ok s"
  shows "session_ok (updateWalletAddress u s)"
proof -
  have t: "map wa_walletType (map (\<lambda>w. if wa_walletType w = wa_walletType u then u else w) ws) = map wa_walletType ws" for ws
    by simp
  show ?thesis
    using assms unfolding session_ok_def updateWalletAddress_def
    by (cases "wt_selected s") (auto simp: t simp del: map_map)
qed

lemma connect_ok:
  "session_ok s \<Longrightarrow> session_ok (connectStellarWallet i n a s)" "session_valid s \<Longrightarrow> session_valid (connectStellarWallet i n a s)"
  "session_ok s \<Longrightarrow> session_ok (connectMetaMask r s)" "session_valid s \<Longrightarrow> session_valid (connectMetaMask r s)"
  "session_ok s \<Longrightarrow> session_ok (connectWalletConnect q s)" "session_valid s \<Longrightarrow> session_valid (connectWalletConnect q s)"
  by (simp_all add: connectStellarWallet_def connectMetaMask_def connectWalletConnect_def add_connected_ok
      split: sum.split option.split list.split)

lemma wallet_apply_ok: "session_ok s \<Longrightarrow> session_ok (wallet_apply x s)"
proof (cases x)
  case (WoSelect k)
  then show "session_ok s \<Longrightarrow> ?thesis"
    by (cases "k < length (wt_connected s)") (simp_all add: selectWallet_def session_ok_def)
next
  case WoReset
  then show "session_ok s \<Longrightarrow> ?thesis" by (simp add: reset_session_def session_ok_def)
qed (simp_all add: connect_ok disconnect_ok update_ok)

lemma wallet_apply_valid:
  assumes "session_valid s" and "updates_valid [x]"
  shows "session_valid (wallet_apply x s)"
proof (cases x)
  case (WoDisconnect t f)
  then show ?thesis using assms(1)
    by (simp add: session_disconnectWallet_def Let_def session_valid_def without_type_def
        failed_connection_def list_all_iff split: option.split)
next
  case (WoUpdate u)
  then show ?thesis using assms by (auto simp: updateWalletAddress_def session_valid_def list_all_iff)
next
  case (WoSelect k)
  then show ?thesis using assms by (simp add: selectWallet_def session_valid_def)
next
  case WoReset
  then show ?thesis by (simp add: reset_session_def session_valid_def)
qed (use assms in \<open>simp_all add: connect_ok\<close>)

lemma wallet_run_ok: "session_ok s \<Longrightarrow> session_ok (wallet_run ops s)"
  by (induction ops arbitrary: s) (simp_all add: wallet_run_def wallet_apply_ok)

lemma wallet_run_valid: "session_valid s \<Longrightarrow> updates_valid ops \<Longrightarrow> session_valid (wallet_run ops s)"
proof (induction ops arbitrary: s)
  case (Cons x ops)
  then have "updates_valid [x]" "updates_valid ops" by (simp_all add: updates_valid_Cons)
  with Cons.IH [OF wallet_apply_valid [OF Cons.prems(1)]] show ?case by (simp add: wallet_run_def)
qed (simp add: wallet_run_def)

text \<open>
  A session never loses track of its wallets. After any sequence of connections (successful, failed or
  cancelled), disconnections, selections, address updates, resets and late answers of the network, at
  most one wallet per type is connected, a wallet is selected exactly when one is connected and it is a
  connected one, and, as long as no account switch reported a malformed address, every connected wallet
  has an address of its chain's format.
\<close>

theorem wallet_session_consistent:
  "(let s = wallet_run ops new_session in
      distinct (map wa_walletType (wt_connected s))
    \<and> (wt_selected s = None \<longleftrightarrow> wt_connected s = [])
    \<and> set_option (wt_selected s) \<subseteq> set (wt_connected s)
    \<and> (if updates_valid ops then
         list_all (\<lambda>w. isValidAddress (wa_address w) (wa_chain w)) (wt_connected s) else True))"
proof -
  let ?s = "wallet_run ops new_session"
  have ok: "session_ok ?s" by (rule wallet_run_ok) (simp add: new_session_def session_ok_def)
  have valid: "updates_valid ops \<Longrightarrow> session_valid ?s"
    by (rule wallet_run_valid) (simp_all add: new_session_def session_valid_def)
  have addr: "valid_wallet w \<Longrightarrow> isValidAddress (wa_address w) (wa_chain w)" for w
    by (auto simp: valid_wallet_def validateWalletConnection_def split: if_splits)
  show ?thesis
    using ok valid addr unfolding Let_def session_ok_def session_valid_def
    by (cases "wt_selected ?s") (auto simp: list_all_iff)
qed

text \<open>
  Balances are not tied to the wallet they were asked for: when the answer for the first wallet comes
  after the one for the second, the second is selected and the balances of the first are shown.
\<close>

lemma stale_balances:
  "wt_balances (wallet_run [WoSelect 0, WoSelect 1, WoBalances (Some second), WoBalances (Some first)] s) = first"
  by (simp add: wallet_run_def balances_loaded_def)

text \<open>A favourite toggled twice is back where it was, at the end of the list; the ids stay distinct.\<close>

lemma toggle_distinct: "distinct (fv_savedListingIds s) \<Longrightarrow> distinct (fv_savedListingIds (toggleSaved lookup i s))"
  by (auto simp: toggleSaved_def isSaved_def)

lemma toggle_isSaved: "isSaved j (toggleSaved lookup i s) = (if j = i then \<not> isSaved i s else isSaved j s)"
  by (auto simp: toggleSaved_def isSaved_def)

lemma toggle_price:
  "\<not> isSaved i s \<Longrightarrow> lookup i = Some p \<Longrightarrow> jm_get (fv_savedPrices (toggleSaved lookup i s)) i = Some p"
  by (simp add: toggleSaved_def)

text \<open>One poll of the guard reports every Stellar wallet, also those the polled extension does not hold.\<close>

lemma guard_reports_all:
  "fst ` set (stellar_guard ws (Inl None)) = wa_walletType ` {w \<in> set ws. wa_chain w = ''stellar''}"
  by (force simp: stellar_guard_def)

end
