(* ===== verification/Env_Types.thy ===== *)
theory Env_Types
  imports Env_Config
begin

text \<open>
  The types of \<open>config/env.ts\<close>: what the schema asks of each variable beyond its presence, and the types
  that every value of the validated environment has. zod's e-mail and URL formats are the parameters
  \<open>is_email\<close> and \<open>is_url\<close>; the other checks are those of the schema. Numbers are kept as the decimal text
  of the parsed integer.
\<close>

section \<open>The types of the schema\<close>

datatype field_type =
    AnyText
  | NonEmptyText
  | EmailText
  | UrlText
  | OneOf "string list"
  | IntRange int "int option"
  | ResolverSecret

definition envTypes :: "(string \<times> field_type) list" where
  "envTypes = [(''PORT'', IntRange 1 (Some 65535)), (''NODE_ENV'', OneOf [''development'', ''production'', ''test'']),
     (''FIREBASE_ADMIN_PROJECT_ID'', NonEmptyText), (''FIREBASE_ADMIN_CLIENT_EMAIL'', EmailText),
     (''FIREBASE_ADMIN_PRIVATE_KEY'', NonEmptyText), (''TRUSTLESS_WORK_WEBHOOK_SECRET'', NonEmptyText),
     (''FIREBASE_PROJECT_ID'', NonEmptyText), (''FIREBASE_CLIENT_EMAIL'', EmailText),
     (''FIREBASE_PRIVATE_KEY'', NonEmptyText),
     (''LOG_LEVEL'', OneOf [''fatal'', ''error'', ''warn'', ''info'', ''debug'', ''trace'', ''silent'']),
     (''CORS_ORIGINS'', AnyText), (''RATE_LIMIT_WINDOW_MS'', IntRange 1 None), (''RATE_LIMIT_MAX'', IntRange 1 None),
     (''EMAIL_PROVIDER'', AnyText), (''SENDGRID_API_KEY'', NonEmptyText), (''NOTIFICATION_FROM_EMAIL'', EmailText),
     (''HASURA_GRAPHQL_URL'', UrlText), (''HASURA_GRAPHQL_ADMIN_SECRET'', NonEmptyText), (''DATABASE_URL'', UrlText),
     (''PG_POOL_MAX'', IntRange 1 None), (''PG_IDLE_TIMEOUT_MS'', IntRange 0 None),
     (''PG_CONNECTION_TIMEOUT_MS'', IntRange 1 None), (''PG_QUERY_TIMEOUT_MS'', IntRange 1 None),
     (''TRUSTLESS_WORK_API_URL'', UrlText), (''TRUSTLESS_WORK_API_KEY'', NonEmptyText),
     (''TRUSTLESS_WORK_DISPUTE_RESOLVER_SECRET'', ResolverSecret), (''STELLAR_NETWORK'', OneOf [''testnet'', ''mainnet'']),
     (''FRONTEND_TRUSTLESS_NETWORK'', OneOf [''testnet'', ''mainnet'']), (''SENTRY_DSN'', UrlText),
     (''CRITICAL_ALERT_WEBHOOK_URL'', UrlText)]"

definition field_type_of :: "string \<Rightarrow> field_type" where
  "field_type_of k = (case map_of envTypes k of None \<Rightarrow> AnyText | Some t \<Rightarrow> t)"

definition in_range :: "int \<Rightarrow> int option \<Rightarrow> int \<Rightarrow> bool" where
  "in_range lo hi n \<longleftrightarrow> lo \<le> n \<and> (case hi of None \<Rightarrow> True | Some h \<Rightarrow> n \<le> h)"

text \<open>\<open>Number(val)\<close> followed by \<open>int\<close>, \<open>min\<close>, \<open>max\<close>, \<open>positive\<close> or \<open>nonnegative\<close>.\<close>

definition parse_int_field :: "int \<Rightarrow> int option \<Rightarrow> string \<Rightarrow> string option" where
  "parse_int_field lo hi v = (case js_Number v of
       Fin r \<Rightarrow> if of_int \<lfloor>r\<rfloor> = r \<and> in_range lo hi \<lfloor>r\<rfloor> then Some (show_int \<lfloor>r\<rfloor>) else None
     | _ \<Rightarrow> None)"

definition resolver_secret :: "string \<Rightarrow> bool" where
  "resolver_secret v \<longleftrightarrow> length v = 56 \<and> hd v = CHR ''S'' \<and> list_all base32_char (tl v)"

fun parse_typed :: "(string \<Rightarrow> bool) \<Rightarrow> (string \<Rightarrow> bool) \<Rightarrow> field_type \<Rightarrow> string \<Rightarrow> string option" where
  "parse_typed is_email is_url AnyText v = Some v"
| "parse_typed is_email is_url NonEmptyText v = (if v \<noteq> [] then Some v else None)"
| "parse_typed is_email is_url EmailText v = (if is_email v then Some v else None)"
| "parse_typed is_email is_url UrlText v = (if is_url v then Some v else None)"
| "parse_typed is_email is_url (OneOf vs) v = (if v \<in> set vs then Some v else None)"
| "parse_typed is_email is_url (IntRange lo hi) v = parse_int_field lo hi v"
| "parse_typed is_email is_url ResolverSecret v = (if resolver_secret v then Some v else None)"

definition parse_env :: "(string \<Rightarrow> bool) \<Rightarrow> (string \<Rightarrow> bool) \<Rightarrow> string \<Rightarrow> string \<Rightarrow> string option" where
  "parse_env is_email is_url k v = parse_typed is_email is_url (field_type_of k) v"

section \<open>The values of a type\<close>

fun has_type :: "(string \<Rightarrow> bool) \<Rightarrow> (string \<Rightarrow> bool) \<Rightarrow> field_type \<Rightarrow> string \<Rightarrow> bool" where
  "has_type is_email is_url AnyText v = True"
| "has_type is_email is_url NonEmptyText v = (v \<noteq> [])"
| "has_type is_email is_url EmailText v = is_email v"
| "has_type is_email is_url UrlText v = is_url v"
| "has_type is_email is_url (OneOf vs) v = (v \<in> set vs)"
| "has_type is_email is_url (IntRange lo hi) v = (\<exists>n. v = show_int n \<and> in_range lo hi n)"
| "has_type is_email is_url ResolverSecret v = resolver_secret v"

lemma parse_typed_type: "parse_typed is_email is_url t v = Some w \<Longrightarrow> has_type is_email is_url t w"
  by (cases t) (auto simp: parse_int_field_def split: if_splits jsnum.splits)

lemma envSchema_keys [simp]: "map fst envTypes = map fst envSchema"
  by (simp add: envTypes_def envSchema_def)

lemma envSchema_distinct: "distinct (map fst envSchema)"
  by (simp add: envSchema_def)

lemma shown_digits:
  "digit_char 0 = CHR ''0''" "digit_char 9 = CHR ''9''" "digit_char 4 = CHR ''4''" "digit_char (Suc 0) = CHR ''1''"
  "digit_char 3 = CHR ''3''" "digit_char 5 = CHR ''5''"
  by (simp_all add: digit_char_def char_of_def bit_iff_odd)

lemma default_numbers:
  "''4000'' = show_int 4000" "''900000'' = show_int 900000" "''100'' = show_int 100" "''10'' = show_int 10"
  "''30000'' = show_int 30000" "''5000'' = show_int 5000"
  by (simp_all add: show_int_def show_nat.simps shown_digits)

lemma default_list:
  "(k, Default d) \<in> set envSchema \<longleftrightarrow> (k, d) \<in> {(''PORT'', ''4000''), (''NODE_ENV'', ''development''),
     (''LOG_LEVEL'', ''info''), (''CORS_ORIGINS'', ''http://localhost:3000''), (''RATE_LIMIT_WINDOW_MS'', ''900000''),
     (''RATE_LIMIT_MAX'', ''100''), (''NOTIFICATION_FROM_EMAIL'', ''noreply@truestub.local''), (''PG_POOL_MAX'', ''10''),
     (''PG_IDLE_TIMEOUT_MS'', ''30000''), (''PG_CONNECTION_TIMEOUT_MS'', ''5000''), (''PG_QUERY_TIMEOUT_MS'', ''30000''),
     (''TRUSTLESS_WORK_API_URL'', ''https://dev.api.trustlesswork.com''), (''STELLAR_NETWORK'', ''testnet'')}"
  by (simp add: envSchema_def)

lemma shown_in_range: "in_range lo hi n \<Longrightarrow> \<exists>m. show_int n = show_int m \<and> in_range lo hi m"
  by blast

text \<open>The default values have the types of their variables; the two textual ones are left to the parameters.\<close>

lemma default_typed:
  assumes "is_email ''noreply@truestub.local''" and "is_url ''https://dev.api.trustlesswork.com''"
    and "(k, Default d) \<in> set envSchema"
  shows "has_type is_email is_url (field_type_of k) d"
proof -
  have "field_type_of ''PORT'' = IntRange 1 (Some 65535)" "field_type_of ''NODE_ENV'' = OneOf [''development'', ''production'', ''test'']"
    "field_type_of ''LOG_LEVEL'' = OneOf [''fatal'', ''error'', ''warn'', ''info'', ''debug'', ''trace'', ''silent'']"
    "field_type_of ''CORS_ORIGINS'' = AnyText" "field_type_of ''RATE_LIMIT_WINDOW_MS'' = IntRange 1 None"
    "field_type_of ''RATE_LIMIT_MAX'' = IntRange 1 None" "field_type_of ''NOTIFICATION_FROM_EMAIL'' = EmailText"
    "field_type_of ''PG_POOL_MAX'' = IntRange 1 None" "field_type_of ''PG_IDLE_TIMEOUT_MS'' = IntRange 0 None"
    "field_type_of ''PG_CONNECTION_TIMEOUT_MS'' = IntRange 1 None" "field_type_of ''PG_QUERY_TIMEOUT_MS'' = IntRange 1 None"
    "field_type_of ''TRUSTLESS_WORK_API_URL'' = UrlText" "field_type_of ''STELLAR_NETWORK'' = OneOf [''testnet'', ''mainnet'']"
    by (simp_all add: field_type_of_def envTypes_def)
  note types = this
  have nums: "\<exists>m. ''4000'' = show_int m \<and> in_range 1 (Some 65535) m" "\<exists>m. ''900000'' = show_int m \<and> in_range 1 None m"
    "\<exists>m. ''100'' = show_int m \<and> in_range 1 None m" "\<exists>m. ''10'' = show_int m \<and> in_range 1 None m"
    "\<exists>m. ''30000'' = show_int m \<and> in_range 0 None m" "\<exists>m. ''30000'' = show_int m \<and> in_range 1 None m"
    "\<exists>m. ''5000'' = show_int m \<and> in_range 1 None m"
    unfolding default_numbers by (rule shown_in_range, simp add: in_range_def)+
  from assms(3) [unfolded default_list] show ?thesis
    unfolding insert_iff empty_iff prod.inject
    by (elim disjE conjE; (simp only: types has_type.simps nums assms(1,2)); simp?)
qed

section \<open>Every branch of the validation\<close>

fun field_fails :: "(string \<Rightarrow> string \<Rightarrow> string option) \<Rightarrow> env \<Rightarrow> string \<times> field_kind \<Rightarrow> bool" where
  "field_fails parse raw (k, kind) \<longleftrightarrow> (case env_get raw k of None \<Rightarrow> kind = Required | Some v \<Rightarrow> parse k v = None)"

lemma parse_field_none: "parse_field parse raw f = None \<longleftrightarrow> field_fails parse raw f"
  by (cases f) (auto split: option.split field_kind.split)

lemma parse_fields_none: "parse_fields parse raw fs = None \<longleftrightarrow> list_ex (field_fails parse raw) fs"
  by (induction fs) (auto simp: parse_field_none [symmetric] split: option.split)

lemma parse_field_distinct: "parse_field parse raw f = Some xs \<Longrightarrow> distinct (map fst xs)"
  by (cases f) (auto split: option.splits field_kind.splits)

lemma below_disjoint: "x \<notin> C \<Longrightarrow> A \<subseteq> {x} \<Longrightarrow> B \<subseteq> C \<Longrightarrow> A \<inter> B = {}"
  by blast

lemma parse_fields_distinct:
  "parse_fields parse raw fs = Some e \<Longrightarrow> distinct (map fst fs) \<Longrightarrow> distinct (map fst e)"
proof (induction fs arbitrary: e)
  case (Cons f fs)
  from Cons.prems obtain xs ys where e: "parse_field parse raw f = Some xs" "parse_fields parse raw fs = Some ys" "e = xs @ ys"
    by (auto split: option.splits)
  have "fst f \<notin> fst ` set fs" using Cons.prems(2) by simp
  moreover have "fst ` set xs \<subseteq> {fst f}" "fst ` set ys \<subseteq> fst ` set fs"
    using parse_field_keys [OF e(1)] parse_fields_keys [OF e(2)] .
  ultimately have "set (map fst xs) \<inter> set (map fst ys) = {}"
    unfolding list.set_map by (rule below_disjoint)
  moreover have "distinct (map fst ys)" using Cons.prems(2) by (intro Cons.IH [OF e(2)]) simp
  ultimately show ?case
    unfolding e(3) map_append distinct_append using parse_field_distinct [OF e(1)] by (intro conjI)
qed simp

lemma parse_fields_members:
  assumes "parse_fields parse raw fs = Some e" and "(k, v) \<in> set e"
  shows "(k, Default v) \<in> set fs \<or> (\<exists>u. env_get raw k = Some u \<and> parse k u = Some v)"
  using assms
proof (induction fs arbitrary: e)
  case (Cons f fs)
  from Cons.prems obtain xs ys where e: "parse_field parse raw f = Some xs" "parse_fields parse raw fs = Some ys" "e = xs @ ys"
    by (auto split: option.splits)
  show ?case
  proof (cases "(k, v) \<in> set xs")
    case True
    with e(1) show ?thesis by (cases f) (auto split: option.splits field_kind.splits)
  next
    case False
    with Cons.IH [OF e(2)] Cons.prems(2) e(3) show ?thesis by auto
  qed
qed simp

lemma parse_fields_present:
  assumes "parse_fields parse raw fs = Some e" and "(k, kind) \<in> set fs" and "kind \<noteq> Optional"
  shows "k \<in> set (map fst e)"
  using assms
proof (induction fs arbitrary: e)
  case (Cons f fs)
  from Cons.prems obtain xs ys where e: "parse_field parse raw f = Some xs" "parse_fields parse raw fs = Some ys" "e = xs @ ys"
    by (auto split: option.splits)
  show ?case
  proof (cases "f = (k, kind)")
    case True
    with e(1) Cons.prems(3) have "k \<in> set (map fst xs)" by (auto split: option.splits field_kind.splits)
    with e(3) show ?thesis by simp
  next
    case False
    with Cons.IH [OF e(2)] Cons.prems(2,3) e(3) show ?thesis by auto
  qed
qed simp

text \<open>
  C32: The server starts only with a well-typed environment. Validation fails exactly when a required
  variable is unset or blank or a set one does not have the form its field asks for; otherwise the
  result holds each key at most once, only keys of the schema, every required and every defaulted one,
  and each value has the type of its field: an integer in the field's range, one of the enumerated
  words, a non-empty text, an e-mail address, a URL or a Stellar secret key.
\<close>

theorem env_typed:
  assumes "is_email ''noreply@truestub.local''" and "is_url ''https://dev.api.trustlesswork.com''"
  shows "case validateEnv (parse_env is_email is_url) raw of
      None \<Rightarrow> list_ex (field_fails (parse_env is_email is_url) (non_empty raw)) envSchema
    | Some e \<Rightarrow> distinct (map fst e) \<and> set (map fst e) \<subseteq> set (map fst envSchema)
        \<and> list_all (\<lambda>(k, kind). kind = Optional \<or> k \<in> set (map fst e)) envSchema
        \<and> list_all (\<lambda>(k, v). has_type is_email is_url (field_type_of k) v) e
        \<and> \<not> list_ex (field_fails (parse_env is_email is_url) (non_empty raw)) envSchema"
proof (cases "validateEnv (parse_env is_email is_url) raw")
  case None
  then have "list_ex (field_fails (parse_env is_email is_url) (non_empty raw)) envSchema"
    by (simp only: validateEnv_def parse_fields_none)
  with None show ?thesis by (simp only: option.case)
next
  case (Some e)
  note e = Some [unfolded validateEnv_def]
  have "has_type is_email is_url (field_type_of k) v" if "(k, v) \<in> set e" for k v
    using parse_fields_members [OF e that] default_typed [of is_email is_url k v] assms parse_typed_type
    unfolding parse_env_def by blast
  moreover have "\<not> list_ex (field_fails (parse_env is_email is_url) (non_empty raw)) envSchema"
    using e unfolding parse_fields_none [symmetric] by simp
  moreover have "list_all (\<lambda>(k, kind). kind = Optional \<or> k \<in> set (map fst e)) envSchema"
    using parse_fields_present [OF e] by (auto simp only: list_all_iff split: prod.split)
  ultimately show ?thesis
    using Some parse_fields_distinct [OF e envSchema_distinct] parse_fields_keys [OF e]
    by (auto simp: list_all_iff)
qed

theorem env_typed_witness:
  "case validateEnv (parse_env (\<lambda>s. str_includes s ''@'') (\<lambda>s. startsWith s ''https://''))
      [(''FIREBASE_ADMIN_PROJECT_ID'', ''p''), (''FIREBASE_ADMIN_CLIENT_EMAIL'', ''a@b''),
       (''FIREBASE_ADMIN_PRIVATE_KEY'', ''k''), (''PORT'', ''8080'')] of
      None \<Rightarrow> list_ex (field_fails (parse_env (\<lambda>s. str_includes s ''@'') (\<lambda>s. startsWith s ''https://''))
        (non_empty [(''FIREBASE_ADMIN_PROJECT_ID'', ''p''), (''FIREBASE_ADMIN_CLIENT_EMAIL'', ''a@b''),
          (''FIREBASE_ADMIN_PRIVATE_KEY'', ''k''), (''PORT'', ''8080'')])) envSchema
    | Some e \<Rightarrow> list_all (\<lambda>(k, v). has_type (\<lambda>s. str_includes s ''@'') (\<lambda>s. startsWith s ''https://'') (field_type_of k) v) e"
  using env_typed [of "\<lambda>s. str_includes s ''@''" "\<lambda>s. startsWith s ''https://''"
      "[(''FIREBASE_ADMIN_PROJECT_ID'', ''p''), (''FIREBASE_ADMIN_CLIENT_EMAIL'', ''a@b''),
       (''FIREBASE_ADMIN_PRIVATE_KEY'', ''k''), (''PORT'', ''8080'')]"]
  by (auto simp: startsWith_def split: option.splits)

end
