(* ===== verification/Escrow_Mutations.thy ===== *)
theory Escrow_Mutations
  imports Client_Helpers Purchase_Escrow
begin

text \<open>
  The escrow blocks of the frontend (\<open>components/tw-blocks\<close>): the eight mutations of
  \<open>tanstack/useEscrowsMutations.ts\<close>, the selected escrow of \<open>providers/EscrowProvider.tsx\<close>, and the
  handlers that fund an escrow, approve a milestone and change its status. The Trustless Work SDK and the
  wallet are a record of functions of what was asked before, so they may answer anything at any time; what
  is asked of them is recorded in order. A handler works with the escrow it captured when it was rendered
  and with the state at the time it ends, so both are arguments.
\<close>

section \<open>Errors\<close>

text \<open>A thrown value: an Axios error with its response's status and message, or another one with a status and a code.\<close>

record thrown =
  th_axios :: bool
  th_response :: "(nat \<times> string option) option"
  th_status :: "nat option"
  th_code :: "int option"
  th_message :: string

definition plain_error :: "string \<Rightarrow> thrown" where
  "plain_error m = \<lparr>th_axios = False, th_response = None, th_status = None, th_code = None, th_message = m\<rparr>"

datatype api_error_type = NOT_FOUND | UNAUTHORIZED | UNKNOWN_ERROR | WALLET_ERROR

record error_response =
  er_message :: string
  er_code :: int
  er_type :: api_error_type

definition mapStatusCodeToErrorType :: "int \<Rightarrow> api_error_type" where
  "mapStatusCodeToErrorType code = (if code = 404 then NOT_FOUND else if code = 401 then UNAUTHORIZED else UNKNOWN_ERROR)"

definition handleError :: "thrown \<Rightarrow> error_response" where
  "handleError e =
     (if th_axios e then
        (let code = (case th_response e of None \<Rightarrow> 500 | Some (n, _) \<Rightarrow> if n = 0 then 500 else int n);
             data_message = (case th_response e of None \<Rightarrow> None | Some (_, m) \<Rightarrow> m);
             message = (if truthy data_message then the data_message else th_message e)
         in \<lparr>er_message = message, er_code = code, er_type = mapStatusCodeToErrorType code\<rparr>)
      else if th_code e = Some (- 4) then
        \<lparr>er_message = ''Wallet was closed before transaction was sent'', er_code = - 4, er_type = WALLET_ERROR\<rparr>
      else \<lparr>er_message = th_message e, er_code = 500, er_type = UNKNOWN_ERROR\<rparr>)"

section \<open>Mutations\<close>

datatype escrow_op =
    DeployEscrow | UpdateEscrow | FundEscrow | ChangeMilestoneStatus | ApproveMilestone | StartDispute
  | ReleaseFunds | ResolveDispute

fun op_name :: "escrow_op \<Rightarrow> string" where
  "op_name DeployEscrow = ''deployEscrow''"
| "op_name UpdateEscrow = ''updateEscrow''"
| "op_name FundEscrow = ''fundEscrow''"
| "op_name ChangeMilestoneStatus = ''changeMilestoneStatus''"
| "op_name ApproveMilestone = ''approveMilestone''"
| "op_name StartDispute = ''startDispute''"
| "op_name ReleaseFunds = ''releaseFunds''"
| "op_name ResolveDispute = ''resolveDispute''"

record deploy_milestone =
  dm_description :: string
  dm_amount :: "jsnum option"
  dm_receiver :: "string option"

record deploy_payload =
  dl_engagementId :: string
  dl_title :: string
  dl_description :: string
  dl_amount :: "jsnum option"
  dl_platformFee :: jsnum
  dl_signer :: string
  dl_roles :: escrow_roles
  dl_milestones :: "deploy_milestone list"
  dl_trustline :: string

text \<open>The payloads of the handlers below; the mutations themselves pass any payload on.\<close>

datatype tx_payload =
    PayDeploy deploy_payload
  | PayFund jsnum string string
  | PayApprove string string string
  | PayChangeStatus string string string "string option" string
  | PayOther string

datatype tx_event =
    Prepared escrow_op tx_payload escrow_type
  | Signed string string string
  | Sent string
  | Invalidated

record sdk =
  sd_prepare :: "escrow_op \<Rightarrow> tx_payload \<Rightarrow> escrow_type \<Rightarrow> tx_event list \<Rightarrow> thrown + string option"
  sd_sign :: "string \<Rightarrow> string \<Rightarrow> tx_event list \<Rightarrow> thrown + string option"
  sd_send :: "string \<Rightarrow> tx_event list \<Rightarrow> thrown + (string \<times> string option)"

text \<open>\<open>signTransaction\<close> of \<open>wallet-kit.ts\<close> asks for a signature for the test network, whatever network is configured.\<close>

definition SIGNING_NETWORK :: string where "SIGNING_NETWORK = ''TESTNET''"

definition kit_signTransaction :: "sdk \<Rightarrow> string \<Rightarrow> string \<Rightarrow> tx_event list \<Rightarrow> (thrown + string option) \<times> tx_event list" where
  "kit_signTransaction k unsigned address h = (sd_sign k unsigned address h, h @ [Signed unsigned address SIGNING_NETWORK])"

text \<open>
  The body that all eight mutations share: an unsigned transaction, its signature, its submission; a
  success invalidates the cached escrow queries. The response is its contract id.
\<close>

definition signed_mutation ::
  "sdk \<Rightarrow> escrow_op \<Rightarrow> tx_payload \<Rightarrow> escrow_type \<Rightarrow> string \<Rightarrow> tx_event list \<Rightarrow> (thrown + string option) \<times> tx_event list" where
  "signed_mutation k op payload typ address h =
     (let h1 = h @ [Prepared op payload typ] in
      case sd_prepare k op payload typ h of
        Inl e \<Rightarrow> (Inl e, h1)
      | Inr unsigned \<Rightarrow>
          if \<not> truthy unsigned then
            (Inl (plain_error (''Unsigned transaction is missing from '' @ op_name op @ '' response.'')), h1)
          else
            (case kit_signTransaction k (the unsigned) address h1 of
               (Inl e, h2) \<Rightarrow> (Inl e, h2)
             | (Inr signed, h2) \<Rightarrow>
                 if \<not> truthy signed then (Inl (plain_error ''Signed transaction is missing.''), h2)
                 else
                   (let h3 = h2 @ [Sent (the signed)] in
                    case sd_send k (the signed) h2 of
                      Inl e \<Rightarrow> (Inl e, h3)
                    | Inr (status, contract) \<Rightarrow>
                        if status \<noteq> ''SUCCESS'' then (Inl (plain_error ''Transaction failed to send''), h3)
                        else (Inr contract, h3 @ [Invalidated]))))"

type_synonym mutation = "tx_payload \<Rightarrow> escrow_type \<Rightarrow> string \<Rightarrow> tx_event list \<Rightarrow> (thrown + string option) \<times> tx_event list"

definition deployEscrow :: "sdk \<Rightarrow> mutation" where "deployEscrow k = signed_mutation k DeployEscrow"
definition updateEscrow_tx :: "sdk \<Rightarrow> mutation" where "updateEscrow_tx k = signed_mutation k UpdateEscrow"
definition fundEscrow :: "sdk \<Rightarrow> mutation" where "fundEscrow k = signed_mutation k FundEscrow"
definition approveMilestone :: "sdk \<Rightarrow> mutation" where "approveMilestone k = signed_mutation k ApproveMilestone"
definition changeMilestoneStatus :: "sdk \<Rightarrow> mutation" where
  "changeMilestoneStatus k = signed_mutation k ChangeMilestoneStatus"
definition startDispute :: "sdk \<Rightarrow> mutation" where "startDispute k = signed_mutation k StartDispute"
definition releaseFunds :: "sdk \<Rightarrow> mutation" where "releaseFunds k = signed_mutation k ReleaseFunds"
definition resolveDispute_tx :: "sdk \<Rightarrow> mutation" where "resolveDispute_tx k = signed_mutation k ResolveDispute"

text \<open>The hook's result: each operation with its mutation.\<close>

fun useEscrowsMutations :: "sdk \<Rightarrow> escrow_op \<Rightarrow> mutation" where
  "useEscrowsMutations k DeployEscrow = deployEscrow k"
| "useEscrowsMutations k UpdateEscrow = updateEscrow_tx k"
| "useEscrowsMutations k FundEscrow = fundEscrow k"
| "useEscrowsMutations k ChangeMilestoneStatus = changeMilestoneStatus k"
| "useEscrowsMutations k ApproveMilestone = approveMilestone k"
| "useEscrowsMutations k StartDispute = startDispute k"
| "useEscrowsMutations k ReleaseFunds = releaseFunds k"
| "useEscrowsMutations k ResolveDispute = resolveDispute_tx k"

lemmas mutation_defs = deployEscrow_def updateEscrow_tx_def fundEscrow_def approveMilestone_def
  changeMilestoneStatus_def startDispute_def releaseFunds_def resolveDispute_tx_def

lemma mutation_signed: "useEscrowsMutations k op = signed_mutation k op"
  by (cases op) (simp_all add: mutation_defs)

lemma no_transaction:
  assumes "\<nexists>u. sd_prepare k op payload typ h = Inr (Some u) \<and> u \<noteq> []"
  obtains e where "signed_mutation k op payload typ address h = (Inl e, h @ [Prepared op payload typ])"
proof -
  have "\<not> truthy b" if "sd_prepare k op payload typ h = Inr b" for b using assms that by (cases b) auto
  then show ?thesis using that
    by (cases "sd_prepare k op payload typ h") (auto simp: signed_mutation_def Let_def)
qed

lemma no_signature:
  assumes "sd_prepare k op payload typ h = Inr (Some u)" and "u \<noteq> []"
    and "\<nexists>s. sd_sign k u address (h @ [Prepared op payload typ]) = Inr (Some s) \<and> s \<noteq> []"
  obtains e where "signed_mutation k op payload typ address h = (Inl e, h @ [Prepared op payload typ, Signed u address ''TESTNET''])"
proof -
  have "\<not> truthy b" if "sd_sign k u address (h @ [Prepared op payload typ]) = Inr b" for b
    using assms(3) that by (cases b) auto
  then show ?thesis using that assms(1,2)
    by (cases "sd_sign k u address (h @ [Prepared op payload typ])")
      (auto simp: signed_mutation_def kit_signTransaction_def SIGNING_NETWORK_def Let_def)
qed

lemma not_accepted:
  assumes "sd_prepare k op payload typ h = Inr (Some u)" and "u \<noteq> []"
    and "sd_sign k u address (h @ [Prepared op payload typ]) = Inr (Some s)" and "s \<noteq> []"
    and "\<nexists>c. sd_send k s (h @ [Prepared op payload typ, Signed u address ''TESTNET'']) = Inr (''SUCCESS'', c)"
  obtains e where "signed_mutation k op payload typ address h =
    (Inl e, h @ [Prepared op payload typ, Signed u address ''TESTNET'', Sent s])"
  using assms by (cases "sd_send k s (h @ [Prepared op payload typ, Signed u address ''TESTNET''])")
    (auto simp: signed_mutation_def kit_signTransaction_def SIGNING_NETWORK_def Let_def)

lemma accepted_tx:
  assumes "sd_prepare k op payload typ h = Inr (Some u)" and "u \<noteq> []"
    and "sd_sign k u address (h @ [Prepared op payload typ]) = Inr (Some s)" and "s \<noteq> []"
    and "sd_send k s (h @ [Prepared op payload typ, Signed u address ''TESTNET'']) = Inr (''SUCCESS'', c)"
  shows "signed_mutation k op payload typ address h =
    (Inr c, h @ [Prepared op payload typ, Signed u address ''TESTNET'', Sent s, Invalidated])"
  using assms by (simp add: signed_mutation_def kit_signTransaction_def SIGNING_NETWORK_def Let_def)

text \<open>How a mutation can end.\<close>

lemma mutation_cases:
  obtains (unprepared) e where
      "\<nexists>u. sd_prepare k op payload typ h = Inr (Some u) \<and> u \<noteq> []"
      "signed_mutation k op payload typ address h = (Inl e, h @ [Prepared op payload typ])"
  | (unsigned) e u where "sd_prepare k op payload typ h = Inr (Some u)" "u \<noteq> []"
      "\<nexists>s. sd_sign k u address (h @ [Prepared op payload typ]) = Inr (Some s) \<and> s \<noteq> []"
      "signed_mutation k op payload typ address h = (Inl e, h @ [Prepared op payload typ, Signed u address ''TESTNET''])"
  | (unsent) e u s where "sd_prepare k op payload typ h = Inr (Some u)" "u \<noteq> []"
      "sd_sign k u address (h @ [Prepared op payload typ]) = Inr (Some s)" "s \<noteq> []"
      "\<nexists>c. sd_send k s (h @ [Prepared op payload typ, Signed u address ''TESTNET'']) = Inr (''SUCCESS'', c)"
      "signed_mutation k op payload typ address h = (Inl e, h @ [Prepared op payload typ, Signed u address ''TESTNET'', Sent s])"
  | (accepted) u s c where "sd_prepare k op payload typ h = Inr (Some u)" "u \<noteq> []"
      "sd_sign k u address (h @ [Prepared op payload typ]) = Inr (Some s)" "s \<noteq> []"
      "sd_send k s (h @ [Prepared op payload typ, Signed u address ''TESTNET'']) = Inr (''SUCCESS'', c)"
      "signed_mutation k op payload typ address h =
        (Inr c, h @ [Prepared op payload typ, Signed u address ''TESTNET'', Sent s, Invalidated])"
proof (cases "\<exists>u. sd_prepare k op payload typ h = Inr (Some u) \<and> u \<noteq> []")
  case False
  obtain e where "signed_mutation k op payload typ address h = (Inl e, h @ [Prepared op payload typ])"
    by (rule no_transaction [OF False])
  then show ?thesis by (rule that(1) [OF False])
next
  case True
  then obtain u where u: "sd_prepare k op payload typ h = Inr (Some u)" "u \<noteq> []" by blast
  show ?thesis
  proof (cases "\<exists>s. sd_sign k u address (h @ [Prepared op payload typ]) = Inr (Some s) \<and> s \<noteq> []")
    case False
    obtain e where "signed_mutation k op payload typ address h = (Inl e, h @ [Prepared op payload typ, Signed u address ''TESTNET''])"
      by (rule no_signature [OF u False])
    then show ?thesis by (rule that(2) [OF u False])
  next
    case True
    then obtain s where s: "sd_sign k u address (h @ [Prepared op payload typ]) = Inr (Some s)" "s \<noteq> []" by blast
    show ?thesis
    proof (cases "\<exists>c. sd_send k s (h @ [Prepared op payload typ, Signed u address ''TESTNET'']) = Inr (''SUCCESS'', c)")
      case False
      obtain e where "signed_mutation k op payload typ address h =
          (Inl e, h @ [Prepared op payload typ, Signed u address ''TESTNET'', Sent s])"
        by (rule not_accepted [OF u s False])
      then show ?thesis by (rule that(3) [OF u s False])
    next
      case True
      then obtain c where c: "sd_send k s (h @ [Prepared op payload typ, Signed u address ''TESTNET'']) = Inr (''SUCCESS'', c)"
        by blast
      show ?thesis by (rule that(4) [OF u s c accepted_tx [OF u s c]])
    qed
  qed
qed

text \<open>
  C34: A mutation reports success only for the transaction it built. For each of the eight operations and
  whatever the SDK and the wallet answer, the call succeeds exactly when the SDK built a transaction
  from the given payload, the wallet of the given address signed that transaction for the test network,
  and the network accepted exactly the signed one; then, and only then, the cached escrow queries are
  invalidated. Otherwise the steps stop at the first one that fails, and nothing is sent that was not
  signed.
\<close>

theorem mutation_signed_exact:
  "(case useEscrowsMutations k op payload typ address h of (r, h') \<Rightarrow>
      (r = Inr c \<longleftrightarrow> (\<exists>u s. sd_prepare k op payload typ h = Inr (Some u) \<and> u \<noteq> []
          \<and> sd_sign k u address (h @ [Prepared op payload typ]) = Inr (Some s) \<and> s \<noteq> []
          \<and> sd_send k s (h @ [Prepared op payload typ, Signed u address ''TESTNET'']) = Inr (''SUCCESS'', c)))
    \<and> (\<exists>u s n. h' = h @ take n [Prepared op payload typ, Signed u address ''TESTNET'', Sent s, Invalidated]
          \<and> 1 \<le> n \<and> n \<le> 4 \<and> (isl r \<longleftrightarrow> n \<noteq> 4)
          \<and> (n = 1 \<or> sd_prepare k op payload typ h = Inr (Some u))
          \<and> (n \<le> 2 \<or> sd_sign k u address (h @ [Prepared op payload typ]) = Inr (Some s))))"
proof -
  let ?P = "Prepared op payload typ" and ?S = "\<lambda>u. Signed u address ''TESTNET''"
  have goal: ?thesis if "signed_mutation k op payload typ address h = (r, h @ take n [?P, ?S u, Sent s, Invalidated])"
    and "1 \<le> n" "n \<le> 4" "isl r \<longleftrightarrow> n \<noteq> 4" "n = 1 \<or> sd_prepare k op payload typ h = Inr (Some u)"
    and "n \<le> 2 \<or> sd_sign k u address (h @ [?P]) = Inr (Some s)"
    and "r = Inr c \<longleftrightarrow> (\<exists>u s. sd_prepare k op payload typ h = Inr (Some u) \<and> u \<noteq> []
          \<and> sd_sign k u address (h @ [?P]) = Inr (Some s) \<and> s \<noteq> []
          \<and> sd_send k s (h @ [?P, ?S u]) = Inr (''SUCCESS'', c))" for r n u s
    unfolding mutation_signed that(1) prod.case using that(2-7) by blast
  show ?thesis
  proof (cases rule: mutation_cases [of k op payload "typ" h address])
    case (unprepared e)
    then show ?thesis by (intro goal [of "Inl e" 1]) auto
  next
    case (unsigned e u)
    then show ?thesis by (intro goal [of "Inl e" 2 u]) auto
  next
    case (unsent e u s)
    then show ?thesis by (intro goal [of "Inl e" 3 u s]) auto
  next
    case (accepted u s c')
    then show ?thesis by (intro goal [of "Inr c'" 4 u s]) auto
  qed
qed

section \<open>The selected escrow\<close>

record milestone_view =
  mv_description :: string
  mv_status :: "string option"
  mv_evidence :: "string option"
  mv_approved :: bool
  mv_flag_approved :: bool

record escrow_view =
  xv_contractId :: string
  xv_type :: "escrow_type option"
  xv_amount :: "jsnum option"
  xv_balance :: "jsnum option"
  xv_trustline :: "string option"
  xv_milestones :: "milestone_view list option"

text \<open>\<open>ss_stored\<close> is the escrow under the key \<open>selectedEscrow\<close> of the local storage.\<close>

record escrow_session =
  ss_selected :: "escrow_view option"
  ss_stored :: "escrow_view option"
  ss_roles :: "string list"

text \<open>The effect of a mount: a stored escrow is selected.\<close>

definition load_stored :: "escrow_session \<Rightarrow> escrow_session" where
  "load_stored s = (case ss_stored s of None \<Rightarrow> s | Some v \<Rightarrow> s\<lparr>ss_selected := Some v\<rparr>)"

definition persist :: "escrow_view option \<Rightarrow> escrow_session \<Rightarrow> escrow_session" where
  "persist v s = s\<lparr>ss_stored := v\<rparr>"

text \<open>\<open>updateEscrow\<close> with a function, or with a partial escrow whose fields are merged over the current one.\<close>

definition updateEscrow :: "(escrow_view \<Rightarrow> escrow_view) \<Rightarrow> escrow_session \<Rightarrow> escrow_session" where
  "updateEscrow f s = (case ss_selected s of
       None \<Rightarrow> s
     | Some current \<Rightarrow> persist (Some (f current)) (s\<lparr>ss_selected := Some (f current)\<rparr>))"

definition setEscrowField :: "(escrow_view \<Rightarrow> escrow_view) \<Rightarrow> escrow_session \<Rightarrow> escrow_session" where
  "setEscrowField set_field s = (case ss_selected s of
       None \<Rightarrow> s
     | Some current \<Rightarrow> persist (Some (set_field current)) (s\<lparr>ss_selected := Some (set_field current)\<rparr>))"

definition clearEscrow :: "escrow_session \<Rightarrow> escrow_session" where
  "clearEscrow s = persist None (s\<lparr>ss_selected := None\<rparr>)"

definition setSelectedEscrow :: "escrow_view option \<Rightarrow> escrow_session \<Rightarrow> escrow_session" where
  "setSelectedEscrow v s = s\<lparr>ss_selected := v\<rparr>"

definition setUserRolesInEscrow :: "string list \<Rightarrow> escrow_session \<Rightarrow> escrow_session" where
  "setUserRolesInEscrow roles s =
     (if length (ss_roles s) = length roles \<and> list_all (\<lambda>(a, b). a = b) (zip (ss_roles s) roles) then s
      else s\<lparr>ss_roles := roles\<rparr>)"

text \<open>
  What an object spread of the captured escrow does to the current one: every field of the captured one
  wins; a missing captured escrow (\<open>...null\<close>) contributes nothing.
\<close>

definition spread_over :: "escrow_view option \<Rightarrow> escrow_view \<Rightarrow> escrow_view" where
  "spread_over captured current = (case captured of None \<Rightarrow> current | Some e \<Rightarrow> e)"

section \<open>Handlers\<close>

datatype toast = ToastSuccess string | ToastError string

record block_state =
  bs_session :: escrow_session
  bs_history :: "tx_event list"
  bs_toasts :: "toast list"
  bs_missingAsset :: "funding_asset option"
  bs_accountNotFound :: bool

definition toast :: "toast \<Rightarrow> block_state \<Rightarrow> block_state" where
  "toast t st = st\<lparr>bs_toasts := bs_toasts st @ [t]\<rparr>"

definition toast_thrown :: "thrown \<Rightarrow> block_state \<Rightarrow> block_state" where
  "toast_thrown e = toast (ToastError (er_message (handleError e)))"

definition captured_id :: "escrow_view option \<Rightarrow> string" where
  "captured_id captured = (case captured of None \<Rightarrow> [] | Some e \<Rightarrow> xv_contractId e)"

definition captured_type :: "escrow_view option \<Rightarrow> escrow_type" where
  "captured_type captured = (case captured of None \<Rightarrow> MultiRelease
     | Some e \<Rightarrow> (case xv_type e of None \<Rightarrow> MultiRelease | Some t \<Rightarrow> t))"

text \<open>The end of a mutation: the recorded steps, and a toast with the error's message.\<close>

definition settle :: "(thrown + string option) \<times> tx_event list \<Rightarrow> (block_state \<Rightarrow> block_state) \<Rightarrow> block_state \<Rightarrow> block_state" where
  "settle r ok st = (case r of (res, h) \<Rightarrow>
     (let st1 = st\<lparr>bs_history := h\<rparr> in case res of Inl e \<Rightarrow> toast_thrown e st1 | Inr _ \<Rightarrow> ok st1))"

definition on_session :: "(escrow_session \<Rightarrow> escrow_session) \<Rightarrow> block_state \<Rightarrow> block_state" where
  "on_session f st = st\<lparr>bs_session := f (bs_session st)\<rparr>"

text \<open>\<open>index === Number(milestoneIndex)\<close>\<close>

definition at_milestone :: "string \<Rightarrow> (milestone_view \<Rightarrow> milestone_view) \<Rightarrow> milestone_view list \<Rightarrow> milestone_view list" where
  "at_milestone idx f ms = map (\<lambda>(i, m). if js_Number idx = Fin (of_nat i) then f m else m) (enumerate 0 ms)"

definition with_milestones :: "escrow_view option \<Rightarrow> string \<Rightarrow> (milestone_view \<Rightarrow> milestone_view) \<Rightarrow> escrow_view \<Rightarrow> escrow_view" where
  "with_milestones captured idx f current =
     (spread_over captured current)\<lparr>xv_milestones :=
        (case captured of None \<Rightarrow> None | Some e \<Rightarrow> map_option (at_milestone idx f) (xv_milestones e))\<rparr>"

definition approve_view :: "escrow_type option \<Rightarrow> milestone_view \<Rightarrow> milestone_view" where
  "approve_view typ m = (if typ = Some SingleRelease then m\<lparr>mv_approved := True\<rparr> else m\<lparr>mv_flag_approved := True\<rparr>)"

definition approve_submit ::
  "sdk \<Rightarrow> string \<Rightarrow> string \<Rightarrow> escrow_view option \<Rightarrow> block_state \<Rightarrow> block_state" where
  "approve_submit k wallet idx captured st =
     settle (approveMilestone k (PayApprove (captured_id captured) idx wallet) (captured_type captured) wallet (bs_history st))
       (\<lambda>st1. on_session (updateEscrow (with_milestones captured idx (approve_view (Option.bind captured xv_type))))
                (toast (ToastSuccess ''Milestone approved flag updated successfully'') st1)) st"

definition change_status_submit ::
  "sdk \<Rightarrow> string \<Rightarrow> string \<Rightarrow> string \<Rightarrow> string option \<Rightarrow> escrow_view option \<Rightarrow> block_state \<Rightarrow> block_state" where
  "change_status_submit k wallet idx status evidence captured st =
     (let ev = (if truthy evidence then evidence else None) in
      settle (changeMilestoneStatus k (PayChangeStatus (captured_id captured) idx status ev wallet) (captured_type captured)
                wallet (bs_history st))
       (\<lambda>st1. on_session (updateEscrow (with_milestones captured idx (\<lambda>m. m\<lparr>mv_status := Some status, mv_evidence := ev\<rparr>)))
                (toast (ToastSuccess ''Milestone status updated successfully'') st1)) st)"

text \<open>The dialogs repeat the forms, and the approval button repeats the approval form.\<close>

definition approve_dialog_submit ::
  "sdk \<Rightarrow> string \<Rightarrow> string \<Rightarrow> escrow_view option \<Rightarrow> block_state \<Rightarrow> block_state" where
  "approve_dialog_submit = approve_submit"

definition approve_click ::
  "sdk \<Rightarrow> string \<Rightarrow> string \<Rightarrow> escrow_view option \<Rightarrow> block_state \<Rightarrow> block_state" where
  "approve_click = approve_submit"

definition change_status_dialog_submit ::
  "sdk \<Rightarrow> string \<Rightarrow> string \<Rightarrow> string \<Rightarrow> string option \<Rightarrow> escrow_view option \<Rightarrow> block_state \<Rightarrow> block_state" where
  "change_status_dialog_submit = change_status_submit"

text \<open>The status button asks for a status itself and leaves the selected escrow alone.\<close>

definition change_status_click ::
  "sdk \<Rightarrow> string \<Rightarrow> string \<Rightarrow> string \<Rightarrow> string option \<Rightarrow> escrow_view option \<Rightarrow> block_state \<Rightarrow> block_state" where
  "change_status_click k wallet idx status evidence captured st =
     (if status = [] \<or> trim status = [] then toast (ToastError ''Status is required'') st
      else settle (changeMilestoneStatus k
             (PayChangeStatus (captured_id captured) idx status (if truthy evidence then evidence else None) wallet)
             (captured_type captured) wallet (bs_history st))
           (toast (ToastSuccess ''Milestone status updated successfully'')) st)"

text \<open>
  The blocks for a given contract (\<open>multi-release\<close>): a confirmation that was asked for and declined ends
  the click; \<open>confirmed\<close> is \<open>None\<close> when none is asked for.
\<close>

definition approve_contract ::
  "sdk \<Rightarrow> string \<Rightarrow> string \<Rightarrow> string \<Rightarrow> string \<Rightarrow> bool option \<Rightarrow> block_state \<Rightarrow> block_state" where
  "approve_contract k wallet contractId milestoneId approverWallet confirmed st =
     (if confirmed = Some False then st
      else (let who = (if approverWallet \<noteq> [] then approverWallet else wallet) in
        settle (approveMilestone k (PayApprove contractId milestoneId who) MultiRelease who (bs_history st))
          (toast (ToastSuccess ''Milestone approved successfully'')) st))"

definition change_contract ::
  "sdk \<Rightarrow> string \<Rightarrow> string \<Rightarrow> string \<Rightarrow> string \<Rightarrow> string option \<Rightarrow> bool option \<Rightarrow> block_state \<Rightarrow> block_state" where
  "change_contract k wallet contractId milestoneId newStatus evidence confirmed st =
     (if newStatus = [] \<or> trim newStatus = [] then toast (ToastError ''Status is required'') st
      else if confirmed = Some False then st
      else settle (changeMilestoneStatus k
             (PayChangeStatus contractId milestoneId newStatus (if truthy evidence then evidence else None) wallet)
             MultiRelease wallet (bs_history st))
           (toast (ToastSuccess ''Milestone status updated successfully'')) st)"

end
