(* ===== verification/Escrow_Funding.thy ===== *)
theory Escrow_Funding
  imports Escrow_Mutations
begin

text \<open>
  Funding an escrow from the frontend's blocks (\<open>single-multi-release/fund-escrow\<close>): the trustline guard
  of \<open>shared/useFundingTrustline.ts\<close> in front of the form, the dialog and the button; and what the
  handlers of the blocks leave in the selected escrow and in the local storage.
\<close>

section \<open>The trustline guard\<close>

definition ensureTrustline ::
  "horizon \<Rightarrow> (nat option \<Rightarrow> thrown) \<Rightarrow> string \<Rightarrow> asset_def list \<Rightarrow> string \<Rightarrow> string option \<Rightarrow> block_state \<Rightarrow>
   (thrown + bool) \<times> block_state" where
  "ensureTrustline load horizon_error network reg wallet trustline st =
     (if wallet = [] then (Inr True, st)
      else (case checkFundingTrustline load wallet trustline network reg of
          Inl e \<Rightarrow> (Inl (horizon_error e), st)
        | Inr (Missing a reason) \<Rightarrow>
            (Inr False, st\<lparr>bs_missingAsset := Some a, bs_accountNotFound := (reason = AccountNotFound)\<rparr>)
        | Inr _ \<Rightarrow> (Inr True, st\<lparr>bs_missingAsset := None, bs_accountNotFound := False\<rparr>)))"

text \<open>Establishing a trustline is the network's part; \<open>established\<close> is what it throws, or its hash.\<close>

definition establish :: "string \<Rightarrow> (funding_asset \<Rightarrow> string + string) \<Rightarrow> block_state \<Rightarrow> block_state" where
  "establish wallet established st = (case bs_missingAsset st of
       None \<Rightarrow> st
     | Some a \<Rightarrow>
         if wallet = [] then st
         else (case established a of
             Inr tx_hash \<Rightarrow> (toast (ToastSuccess (fa_name a @ '' trustline added. You can now fund the escrow.'')) st)\<lparr>bs_missingAsset := None\<rparr>
           | Inl e \<Rightarrow> toast (ToastError (''Could not add the '' @ fa_name a @ '' trustline: '' @ e)) st))"

definition dismiss :: "block_state \<Rightarrow> block_state" where
  "dismiss st = st\<lparr>bs_missingAsset := None\<rparr>"

section \<open>Funding\<close>

fun js_add :: "jsnum \<Rightarrow> jsnum \<Rightarrow> jsnum" where
  "js_add (Fin a) (Fin b) = Fin (a + b)"
| "js_add NaN b = NaN"
| "js_add a NaN = NaN"
| "js_add PosInf NegInf = NaN"
| "js_add NegInf PosInf = NaN"
| "js_add PosInf b = PosInf"
| "js_add NegInf b = NegInf"
| "js_add a PosInf = PosInf"
| "js_add a NegInf = NegInf"

definition fundEscrowSchema :: "jsnum \<Rightarrow> bool" where
  "fundEscrowSchema v \<longleftrightarrow> v \<noteq> NaN \<and> js_lt (Fin 0) v"

text \<open>\<open>value || 0\<close>\<close>

definition or_zero :: "jsnum option \<Rightarrow> jsnum" where
  "or_zero v = (case v of None \<Rightarrow> Fin 0 | Some NaN \<Rightarrow> Fin 0 | Some x \<Rightarrow> x)"

text \<open>
  The form and the dialog: the Boolean says whether the form was reset. A submission that the schema
  refuses never calls the handler.
\<close>

definition fund_submit ::
  "horizon \<Rightarrow> (nat option \<Rightarrow> thrown) \<Rightarrow> string \<Rightarrow> asset_def list \<Rightarrow> sdk \<Rightarrow> string \<Rightarrow> jsnum \<Rightarrow> escrow_view option \<Rightarrow>
   block_state \<Rightarrow> bool \<times> block_state" where
  "fund_submit load horizon_error network reg k wallet amount captured st =
     (if \<not> fundEscrowSchema amount then (False, st)
      else (case ensureTrustline load horizon_error network reg wallet (Option.bind captured xv_trustline) st of
          (Inl e, st1) \<Rightarrow> (True, toast_thrown e st1)
        | (Inr False, st1) \<Rightarrow> (False, st1)
        | (Inr True, st1) \<Rightarrow>
            (True, settle (fundEscrow k (PayFund amount (captured_id captured) wallet) (captured_type captured) wallet (bs_history st1))
              (\<lambda>st2. toast (ToastSuccess ''Escrow funded successfully'')
                 (on_session (updateEscrow (\<lambda>c. (spread_over captured c)
                    \<lparr>xv_balance := Some (js_add (or_zero (Option.bind captured xv_balance)) amount)\<rparr>)) st2)) st1)))"

definition fund_dialog_submit ::
  "horizon \<Rightarrow> (nat option \<Rightarrow> thrown) \<Rightarrow> string \<Rightarrow> asset_def list \<Rightarrow> sdk \<Rightarrow> string \<Rightarrow> jsnum \<Rightarrow> escrow_view option \<Rightarrow>
   block_state \<Rightarrow> bool \<times> block_state" where
  "fund_dialog_submit = fund_submit"

text \<open>The button adds the deposit to the escrow's \<open>amount\<close>, not to its balance.\<close>

definition fund_click ::
  "horizon \<Rightarrow> (nat option \<Rightarrow> thrown) \<Rightarrow> string \<Rightarrow> asset_def list \<Rightarrow> sdk \<Rightarrow> string \<Rightarrow> jsnum \<Rightarrow> escrow_view option \<Rightarrow>
   block_state \<Rightarrow> block_state" where
  "fund_click load horizon_error network reg k wallet amount captured st =
     (if amount = Fin 0 \<or> amount = NaN then toast (ToastError ''Amount is required'') st
      else if js_le amount (Fin 0) then toast (ToastError ''Amount must be greater than 0'') st
      else (case ensureTrustline load horizon_error network reg wallet (Option.bind captured xv_trustline) st of
          (Inl e, st1) \<Rightarrow> toast_thrown e st1
        | (Inr False, st1) \<Rightarrow> st1
        | (Inr True, st1) \<Rightarrow>
            settle (fundEscrow k (PayFund amount (captured_id captured) wallet) (captured_type captured) wallet (bs_history st1))
              (\<lambda>st2. toast (ToastSuccess ''Escrow funded successfully'')
                 (on_session (updateEscrow (\<lambda>c. (spread_over captured c)
                    \<lparr>xv_amount := Some (js_add (or_zero (Option.bind captured xv_amount)) amount)\<rparr>)) st2)) st1))"

section \<open>What the handlers guarantee\<close>

text \<open>
  How far a mutation got: to its first step when the SDK built no transaction, to the second when the wallet
  did not sign the one it built, to the third when the network did not accept the signed one, else to the end.
\<close>

definition traced ::
  "sdk \<Rightarrow> escrow_op \<Rightarrow> tx_payload \<Rightarrow> escrow_type \<Rightarrow> string \<Rightarrow> tx_event list \<Rightarrow> tx_event list \<Rightarrow> nat \<Rightarrow> bool" where
  "traced k op payload typ a h h' n \<longleftrightarrow> (\<exists>u s.
     h' = h @ take n [Prepared op payload typ, Signed u a ''TESTNET'', Sent s, Invalidated] \<and> n \<in> {1..4}
   \<and> (if 2 \<le> n then sd_prepare k op payload typ h = Inr (Some u) \<and> u \<noteq> []
      else \<nexists>v. sd_prepare k op payload typ h = Inr (Some v) \<and> v \<noteq> [])
   \<and> (if 3 \<le> n then sd_sign k u a (h @ [Prepared op payload typ]) = Inr (Some s) \<and> s \<noteq> []
        \<and> (n = 4) = (\<exists>c. sd_send k s (h @ [Prepared op payload typ, Signed u a ''TESTNET'']) = Inr (''SUCCESS'', c))
      else if n = 2 then \<nexists>v. sd_sign k u a (h @ [Prepared op payload typ]) = Inr (Some v) \<and> v \<noteq> []
      else True))"

lemma settle_traced:
  obtains n h' where "traced k op payload typ a h h' n"
    and "n = 4 \<and> settle (signed_mutation k op payload typ a h) ok st = ok (st\<lparr>bs_history := h'\<rparr>)
      \<or> n \<noteq> 4 \<and> (\<exists>e. settle (signed_mutation k op payload typ a h) ok st = toast_thrown e (st\<lparr>bs_history := h'\<rparr>))"
proof (cases rule: mutation_cases [of k op payload "typ" h a])
  case (unprepared e)
  then show ?thesis by (intro that [of _ 1]) (auto simp: settle_def traced_def)
next
  case (unsigned e u)
  then show ?thesis by (intro that [of _ 2]) (auto simp: settle_def traced_def)
next
  case (unsent e u s)
  then show ?thesis by (intro that [of _ 3]) (auto simp: settle_def traced_def)
next
  case (accepted u s c)
  then show ?thesis by (intro that [of _ 4]) (auto simp: settle_def traced_def)
qed

text \<open>The wallet may fund: no wallet (the mutation reports that), no trustline needed, or the trustline is there.\<close>

definition can_fund :: "horizon \<Rightarrow> string \<Rightarrow> asset_def list \<Rightarrow> string \<Rightarrow> string option \<Rightarrow> bool" where
  "can_fund load network reg wallet trustline \<longleftrightarrow> wallet = [] \<or>
     (case resolveFundingAsset trustline network reg of None \<Rightarrow> True
      | Some a \<Rightarrow> (case load network wallet of Inl _ \<Rightarrow> False | Inr bs \<Rightarrow> hasTrustlineFor bs a))"

lemma ensureTrustline_True:
  "fst (ensureTrustline load he network reg wallet t st) = Inr True \<longleftrightarrow> can_fund load network reg wallet t"
  by (auto simp: ensureTrustline_def can_fund_def checkFundingTrustline_def
      split: option.splits sum.splits trustline_check.splits if_splits)

lemma ensureTrustline_state:
  "bs_history (snd (ensureTrustline load he network reg wallet t st)) = bs_history st"
  "bs_session (snd (ensureTrustline load he network reg wallet t st)) = bs_session st"
  "bs_toasts (snd (ensureTrustline load he network reg wallet t st)) = bs_toasts st"
  by (auto simp: ensureTrustline_def split: sum.split trustline_check.split)

lemma ensureTrustline_missing:
  "fst (ensureTrustline load he network reg wallet t st) = Inr False \<Longrightarrow>
   \<exists>a. resolveFundingAsset t network reg = Some a \<and>
     bs_missingAsset (snd (ensureTrustline load he network reg wallet t st)) = Some a"
  by (auto simp: ensureTrustline_def checkFundingTrustline_def
      split: option.splits sum.splits trustline_check.splits if_splits)

text \<open>The selected escrow after a completed deposit: of the form and the dialog, and of the button.\<close>

definition deposited :: "jsnum \<Rightarrow> escrow_view option \<Rightarrow> escrow_session \<Rightarrow> escrow_session" where
  "deposited amount captured = updateEscrow (\<lambda>c. (spread_over captured c)
     \<lparr>xv_balance := Some (js_add (or_zero (Option.bind captured xv_balance)) amount)\<rparr>)"

definition clicked :: "jsnum \<Rightarrow> escrow_view option \<Rightarrow> escrow_session \<Rightarrow> escrow_session" where
  "clicked amount captured = updateEscrow (\<lambda>c. (spread_over captured c)
     \<lparr>xv_amount := Some (js_add (or_zero (Option.bind captured xv_amount)) amount)\<rparr>)"

text \<open>The mutation of a handler, started after the guard has let it through.\<close>

lemma settled_deposit:
  assumes "bs_session st1 = S" and "ok = (\<lambda>st2. toast (ToastSuccess m) (on_session credit st2))"
  shows "\<exists>n. traced k op payload typ a h (bs_history (settle (signed_mutation k op payload typ a h) ok st1)) n
    \<and> bs_session (settle (signed_mutation k op payload typ a h) ok st1) = (if n = 4 then credit S else S)"
proof (rule settle_traced [of k op payload "typ" a h ok st1])
  fix n h'
  assume "traced k op payload typ a h h' n"
    and "n = 4 \<and> settle (signed_mutation k op payload typ a h) ok st1 = ok (st1\<lparr>bs_history := h'\<rparr>)
      \<or> n \<noteq> 4 \<and> (\<exists>e. settle (signed_mutation k op payload typ a h) ok st1 = toast_thrown e (st1\<lparr>bs_history := h'\<rparr>))"
  then show ?thesis using assms
    by (intro exI [of _ n]) (auto simp: toast_def toast_thrown_def on_session_def)
qed

lemma button_guard: "(amount = Fin 0 \<or> amount = NaN) \<or> js_le amount (Fin 0) \<longleftrightarrow> \<not> fundEscrowSchema amount"
  by (cases amount) (auto simp: fundEscrowSchema_def js_lt_def)

text \<open>
  C38: Money leaves the wallet only for a valid deposit that the wallet can make. The form (and the dialog, which
  is the same code) and the button ask the SDK for a transaction exactly when the amount is a positive number
  and the guard lets it through: a connected wallet must hold the trustline of the escrow's asset, unless the
  escrow's trustline names no known asset; without a wallet nothing is checked and the SDK is asked with an
  empty signer. Then it is asked for this amount and this escrow once; the wallet is asked to sign just the
  transaction the SDK built, and just what it signed is submitted, each step only after the one before
  succeeded. The selected escrow changes exactly when the network accepted: the form adds the amount to the
  captured balance, the button to the captured total amount of the escrow. Otherwise nothing is asked and the
  escrow is left alone; the button then says why, and when the trustline is missing the asset is shown and
  the form keeps the amount.
\<close>

theorem funding_guarded:
  "let t = Option.bind captured xv_trustline; payload = PayFund amount (captured_id captured) wallet;
       trace = traced k FundEscrow payload (captured_type captured) wallet (bs_history st);
       holds = (case resolveFundingAsset t network reg of None \<Rightarrow> True
         | Some a \<Rightarrow> (case load network wallet of Inl e \<Rightarrow> False | Inr bs \<Rightarrow> hasTrustlineFor bs a));
       may = (fundEscrowSchema amount \<and> (wallet = [] \<or> holds));
       click = fund_click load he network reg k wallet amount captured st
   in (case fund_submit load he network reg k wallet amount captured st of (reset, st') \<Rightarrow>
        if may then reset \<and> (\<exists>n. trace (bs_history st') n
            \<and> bs_session st' = (if n = 4 then deposited amount captured (bs_session st) else bs_session st))
        else bs_history st' = bs_history st \<and> bs_session st' = bs_session st
          \<and> (reset \<or> bs_toasts st' = bs_toasts st)
          \<and> (if fundEscrowSchema amount \<and> \<not> reset
             then \<exists>a. resolveFundingAsset t network reg = Some a \<and> bs_missingAsset st' = Some a else True))
    \<and> (if may then \<exists>n. trace (bs_history click) n
            \<and> bs_session click = (if n = 4 then clicked amount captured (bs_session st) else bs_session st)
       else bs_history click = bs_history st \<and> bs_session click = bs_session st
          \<and> ((\<exists>m. bs_toasts click = bs_toasts st @ [ToastError m])
             \<or> fundEscrowSchema amount \<and> (\<exists>a. resolveFundingAsset t network reg = Some a \<and> bs_missingAsset click = Some a)))"
proof -
  let ?t = "Option.bind captured xv_trustline" and ?p = "PayFund amount (captured_id captured) wallet"
  let ?e = "ensureTrustline load he network reg wallet ?t st"
  obtain r st1 where g: "?e = (r, st1)" by (cases ?e)
  have s1: "bs_history st1 = bs_history st" "bs_session st1 = bs_session st" "bs_toasts st1 = bs_toasts st"
    and may: "r = Inr True \<longleftrightarrow> can_fund load network reg wallet ?t"
    and missing: "r = Inr False \<Longrightarrow> \<exists>a. resolveFundingAsset ?t network reg = Some a \<and> bs_missingAsset st1 = Some a"
    using ensureTrustline_state [of load he network reg wallet ?t st] ensureTrustline_True [of load he network reg wallet ?t st]
      ensureTrustline_missing [of load he network reg wallet ?t st] by (simp_all add: g)
  have r: "r = Inr True \<or> r = Inr False \<or> (\<exists>e. r = Inl e)" by (cases r) auto
  note can = can_fund_def [of load network reg wallet ?t, symmetric]
  show ?thesis
  proof (cases "fundEscrowSchema amount \<and> r = Inr True")
    case True
    let ?ok = "\<lambda>credit st2. toast (ToastSuccess ''Escrow funded successfully'') (on_session credit st2)"
    have f: "fund_submit load he network reg k wallet amount captured st = (True, settle
        (signed_mutation k FundEscrow ?p (captured_type captured) wallet (bs_history st)) (?ok (deposited amount captured)) st1)"
      "fund_click load he network reg k wallet amount captured st = settle
        (signed_mutation k FundEscrow ?p (captured_type captured) wallet (bs_history st)) (?ok (clicked amount captured)) st1"
      using True g s1 button_guard [of amount]
      by (simp_all add: fund_submit_def fund_click_def fundEscrow_def deposited_def clicked_def)
    show ?thesis unfolding Let_def can f prod.case using True may
      by (simp add: settled_deposit [OF s1(2) refl])
  next
    case False
    then show ?thesis unfolding Let_def can using may missing r s1 g button_guard [of amount]
      by (auto simp: fund_submit_def fund_click_def toast_thrown_def toast_def)
  qed
qed

text \<open>A network and a wallet that accept everything.\<close>

definition willing :: "sdk \<Rightarrow> bool" where
  "willing k \<longleftrightarrow> (\<exists>u s c. u \<noteq> [] \<and> s \<noteq> [] \<and> (\<forall>op p t h. sd_prepare k op p t h = Inr (Some u))
     \<and> (\<forall>x a h. sd_sign k x a h = Inr (Some s)) \<and> (\<forall>x h. sd_send k x h = Inr (''SUCCESS'', c)))"

lemma willing_settle:
  assumes "willing k"
  obtains u s where "settle (signed_mutation k op payload typ a h) ok st = ok (st\<lparr>bs_history := h @
        [Prepared op payload typ, Signed u a ''TESTNET'', Sent s, Invalidated]\<rparr>)"
proof -
  from assms obtain u s c where w: "u \<noteq> []" "s \<noteq> []" "sd_prepare k op payload typ h = Inr (Some u)"
    "sd_sign k u a (h @ [Prepared op payload typ]) = Inr (Some s)"
    "sd_send k s (h @ [Prepared op payload typ, Signed u a ''TESTNET'']) = Inr (''SUCCESS'', c)"
    unfolding willing_def by blast
  from accepted_tx [OF w(3) w(1) w(4) w(2) w(5)] show ?thesis by (intro that) (simp add: settle_def)
qed

lemma at_milestone_nth:
  assumes "j < length ms" and "js_Number idx = Fin (of_nat i)"
  shows "at_milestone idx f ms ! j = (if j = i then f (ms ! j) else ms ! j)"
  using assms by (simp add: at_milestone_def nth_enumerate_eq)

lemma approved_session:
  fixes wallet idx :: string
  assumes "willing k" and "ss_selected (bs_session st) = Some c" and "xv_milestones e = Some ms"
  defines "st' \<equiv> approve_submit k wallet idx (Some e) st"
  shows "ss_selected (bs_session st') = Some (e\<lparr>xv_milestones := Some (at_milestone idx (approve_view (xv_type e)) ms)\<rparr>)"
    and "ss_stored (bs_session st') = ss_selected (bs_session st')"
    and "count_list (bs_history st') Invalidated = count_list (bs_history st) Invalidated + 1"
proof -
  obtain u s where "st' = on_session (updateEscrow (with_milestones (Some e) idx (approve_view (xv_type e))))
      (toast (ToastSuccess ''Milestone approved flag updated successfully'')
        (st\<lparr>bs_history := bs_history st @ [Prepared ApproveMilestone (PayApprove (captured_id (Some e)) idx wallet)
           (captured_type (Some e)), Signed u wallet ''TESTNET'', Sent s, Invalidated]\<rparr>))"
    unfolding st'_def approve_submit_def approveMilestone_def by (rule willing_settle [OF assms(1)]) simp
  then show "ss_selected (bs_session st') = Some (e\<lparr>xv_milestones := Some (at_milestone idx (approve_view (xv_type e)) ms)\<rparr>)"
    and "ss_stored (bs_session st') = ss_selected (bs_session st')"
    and "count_list (bs_history st') Invalidated = count_list (bs_history st) Invalidated + 1"
    using assms(2,3) by (simp_all add: on_session_def toast_def updateEscrow_def persist_def with_milestones_def spread_over_def)
qed

text \<open>
  Two approvals made from one view show as one. When a user approves two different milestones from
  the same rendering of an escrow and the network accepts both, the later handler writes back the escrow
  it captured: its own milestone shows as approved, the other one shows as it was before, in the selected
  escrow and in the copy in the local storage.
\<close>

theorem approvals_lost_update:
  assumes "willing k" and "js_Number idx = Fin (of_nat i)" and "js_Number idx' = Fin (of_nat j)" and "i \<noteq> j"
    and "xv_milestones e = Some ms" and "i < length ms" and "j < length ms"
    and "ss_selected (bs_session st) = Some c"
  shows "let st2 = approve_submit k wallet idx' (Some e) (approve_submit k wallet idx (Some e) st) in
    \<exists>v ms'. ss_selected (bs_session st2) = Some v \<and> ss_stored (bs_session st2) = Some v \<and> xv_milestones v = Some ms'
      \<and> ms' ! i = ms ! i \<and> ms' ! j = approve_view (xv_type e) (ms ! j)
      \<and> count_list (bs_history st2) Invalidated = count_list (bs_history st) Invalidated + 2"
proof -
  let ?st1 = "approve_submit k wallet idx (Some e) st"
  note 1 = approved_session [OF assms(1,8,5), of wallet idx]
  note 2 = approved_session [OF assms(1) 1(1) assms(5), of wallet idx']
  show ?thesis unfolding Let_def
    using 1(3) 2 assms(4,6,7) by (simp add: at_milestone_nth [OF _ assms(3)])
qed

definition sample_sdk :: sdk where
  "sample_sdk = \<lparr>sd_prepare = \<lambda>_ _ _ _. Inr (Some ''tx''), sd_sign = \<lambda>_ _ _. Inr (Some ''signed''),
     sd_send = \<lambda>_ _. Inr (''SUCCESS'', Some ''C1'')\<rparr>"

definition sample_view :: escrow_view where
  "sample_view = \<lparr>xv_contractId = ''C1'', xv_type = Some MultiRelease, xv_amount = None, xv_balance = None,
     xv_trustline = None, xv_milestones = Some (replicate 2 \<lparr>mv_description = ''m'', mv_status = None,
       mv_evidence = None, mv_approved = False, mv_flag_approved = False\<rparr>)\<rparr>"

definition sample_block :: block_state where
  "sample_block = \<lparr>bs_session = \<lparr>ss_selected = Some sample_view, ss_stored = None, ss_roles = []\<rparr>, bs_history = [],
     bs_toasts = [], bs_missingAsset = None, bs_accountNotFound = False\<rparr>"

lemma sample_willing: "willing sample_sdk"
  by (auto simp: willing_def sample_sdk_def)

lemma sample_indices: "js_Number ''0'' = Fin (of_nat 0)" "js_Number ''1'' = Fin (of_nat 1)"
  by (simp_all add: js_Number_def radix_defs js_string_defs unsigned_number_def parse_decimal_def span_digits_def is_digit_def
      digit_val_def parse_exp_def pow10_def to_double_normal to_double_def)

theorem approvals_lost_update_witness:
  "\<exists>v ms'. ss_selected (bs_session (approve_submit sample_sdk ''G'' ''1'' (Some sample_view)
       (approve_submit sample_sdk ''G'' ''0'' (Some sample_view) sample_block))) = Some v
     \<and> xv_milestones v = Some ms' \<and> \<not> mv_flag_approved (ms' ! 0) \<and> mv_flag_approved (ms' ! 1)"
  using approvals_lost_update [OF sample_willing sample_indices, of sample_view
      "replicate 2 \<lparr>mv_description = ''m'', mv_status = None, mv_evidence = None, mv_approved = False, mv_flag_approved = False\<rparr>"
      sample_block sample_view "''G''"]
  by (auto simp: sample_view_def sample_block_def approve_view_def Let_def)

section \<open>The local storage\<close>

datatype session_op =
    Update "escrow_view \<Rightarrow> escrow_view"
  | SetField "escrow_view \<Rightarrow> escrow_view"
  | Clear
  | SelectEscrow "escrow_view option"
  | SetRoles "string list"

fun session_step :: "session_op \<Rightarrow> escrow_session \<Rightarrow> escrow_session" where
  "session_step (Update f) s = updateEscrow f s"
| "session_step (SetField f) s = setEscrowField f s"
| "session_step Clear s = clearEscrow s"
| "session_step (SelectEscrow v) s = setSelectedEscrow v s"
| "session_step (SetRoles r) s = setUserRolesInEscrow r s"

definition session_ops :: "session_op list \<Rightarrow> escrow_session \<Rightarrow> escrow_session" where
  "session_ops ops s = foldl (\<lambda>s x. session_step x s) s ops"

text \<open>A reload of the page: only the local storage survives.\<close>

definition reload :: "escrow_session \<Rightarrow> escrow_session" where
  "reload s = load_stored \<lparr>ss_selected = None, ss_stored = ss_stored s, ss_roles = []\<rparr>"

lemma reload_selected: "ss_selected (reload s) = ss_stored s"
  by (simp add: reload_def load_stored_def split: option.split)

lemma session_synced:
  "ss_stored s = ss_selected s \<Longrightarrow> list_all (\<lambda>x. \<not> (\<exists>v. x = SelectEscrow v)) ops \<Longrightarrow>
   ss_stored (session_ops ops s) = ss_selected (session_ops ops s)"
  unfolding session_ops_def
proof (induction ops arbitrary: s)
  case (Cons x ops)
  have "ss_stored (session_step x s) = ss_selected (session_step x s)"
    using Cons.prems by (cases x) (auto simp: updateEscrow_def setEscrowField_def clearEscrow_def persist_def
        setUserRolesInEscrow_def split: option.split)
  with Cons show ?case by simp
qed simp

text \<open>Without a selection a reload restores the selected escrow; a selection alone is not stored.\<close>

lemma reload_restores:
  "list_all (\<lambda>x. \<not> (\<exists>v. x = SelectEscrow v)) ops \<Longrightarrow>
   ss_selected (reload (session_ops ops (reload s))) = ss_selected (session_ops ops (reload s))"
proof -
  assume "list_all (\<lambda>x. \<not> (\<exists>v. x = SelectEscrow v)) ops"
  moreover have "ss_stored (reload s) = ss_selected (reload s)"
    by (simp add: reload_def load_stored_def split: option.split)
  ultimately have "ss_stored (session_ops ops (reload s)) = ss_selected (session_ops ops (reload s))"
    by (intro session_synced)
  then show ?thesis by (simp only: reload_selected)
qed

lemma selection_lost: "ss_selected (reload (session_ops [Clear, SelectEscrow (Some v)] s)) = None"
  by (simp add: reload_selected session_ops_def clearEscrow_def setSelectedEscrow_def persist_def)

end
