(* ===== verification/Escrow_Forms.thy ===== *)
theory Escrow_Forms
  imports Escrow_Funding
begin

text \<open>
  The two forms that deploy an escrow (\<open>single-release\<close> and \<open>multi-release\<close> under
  \<open>components/tw-blocks/escrows\<close>): the schemas, the payload and the submission with its retries, composed
  with the mutations and the retry helper. zod rejects \<open>NaN\<close> for a numeric field. The hooks use
  \<open>useTrustlineAssets\<close> without importing it; they are modelled as if it were in scope.
\<close>

section \<open>Schemas\<close>

datatype form_num = FText string | FNum jsnum

record form_milestone =
  fm_description :: string
  fm_amount :: "form_num option"

record escrow_values =
  ef_engagementId :: string
  ef_title :: string
  ef_description :: string
  ef_amount :: "form_num option"
  ef_platformFee :: "form_num option"
  ef_receiverMemo :: "string option"
  ef_trustline :: string
  ef_roles :: escrow_roles
  ef_milestones :: "form_milestone list"

definition to_number :: "form_num \<Rightarrow> jsnum" where
  "to_number v = (case v of FText s \<Rightarrow> js_Number s | FNum n \<Rightarrow> n)"

text \<open>A text that is still being typed passes both checks.\<close>

definition incomplete :: "string \<Rightarrow> bool" where
  "incomplete s \<longleftrightarrow> s = [] \<or> s = ''.'' \<or> last s = CHR ''.''"

text \<open>
  \<open>toString().split(".")[1]\<close> has at most two characters. Below a millionth and from ten to the 21 on the
  text has an exponent: then only a one-digit mantissa has no point.
\<close>

definition one_digit :: "rat \<Rightarrow> bool" where
  "one_digit a = list_ex (\<lambda>k. list_ex (\<lambda>d. a = of_nat d * pow10 k) [1..<10]) [-324..308]"

definition two_places :: "jsnum \<Rightarrow> bool" where
  "two_places x = (case x of
       Fin r \<Rightarrow> r = 0 \<or> (if 1 / 10 ^ 6 \<le> \<bar>r\<bar> \<and> \<bar>r\<bar> < 10 ^ 21 then of_int \<lfloor>r * 100\<rfloor> = r * 100 else one_digit \<bar>r\<bar>)
     | _ \<Rightarrow> True)"

definition positive_field :: "form_num \<Rightarrow> bool" where
  "positive_field v = (case v of
       FText s \<Rightarrow> incomplete s \<or> (js_Number s \<noteq> NaN \<and> js_lt (Fin 0) (js_Number s))
     | FNum n \<Rightarrow> js_lt (Fin 0) n)"

definition places_field :: "form_num \<Rightarrow> bool" where
  "places_field v = (case v of
       FText s \<Rightarrow> incomplete s \<or> (js_Number s \<noteq> NaN \<and> two_places (js_Number s))
     | FNum n \<Rightarrow> two_places n)"

definition amount_field :: "form_num option \<Rightarrow> bool" where
  "amount_field f = (case f of None \<Rightarrow> False | Some v \<Rightarrow> v \<noteq> FNum NaN \<and> positive_field v \<and> places_field v)"

definition role_field :: "string \<Rightarrow> bool" where
  "role_field w \<longleftrightarrow> w \<noteq> [] \<and> isValidWallet w"

definition memo_field :: "string option \<Rightarrow> bool" where
  "memo_field m = (case m of
       Some (c # cs) \<Rightarrow> is_digit c \<and> c \<noteq> CHR ''0'' \<and> list_all is_digit cs
     | _ \<Rightarrow> True)"

definition getBaseSchema :: "escrow_values \<Rightarrow> bool" where
  "getBaseSchema f \<longleftrightarrow>
     ef_trustline f \<noteq> [] \<and> role_field (ro_approver (ef_roles f)) \<and> role_field (ro_serviceProvider (ef_roles f))
     \<and> role_field (ro_platformAddress (ef_roles f)) \<and> role_field (ro_releaseSigner (ef_roles f))
     \<and> role_field (ro_disputeResolver (ef_roles f)) \<and> role_field (ro_receiver (ef_roles f))
     \<and> ef_engagementId f \<noteq> [] \<and> ef_title f \<noteq> [] \<and> 10 \<le> length (ef_description f)
     \<and> amount_field (ef_platformFee f) \<and> memo_field (ef_receiverMemo f)"

definition getMultiReleaseFormSchema :: "escrow_values \<Rightarrow> bool" where
  "getMultiReleaseFormSchema f \<longleftrightarrow> getBaseSchema f \<and> ef_milestones f \<noteq> []
     \<and> list_all (\<lambda>m. fm_description m \<noteq> [] \<and> amount_field (fm_amount m)) (ef_milestones f)"

definition getSingleReleaseFormSchema :: "escrow_values \<Rightarrow> bool" where
  "getSingleReleaseFormSchema f \<longleftrightarrow> getBaseSchema f \<and> amount_field (ef_amount f) \<and> ef_milestones f \<noteq> []
     \<and> list_all (\<lambda>m. fm_description m \<noteq> []) (ef_milestones f)"

section \<open>Editing\<close>

definition isAnyMilestoneEmpty :: "escrow_values \<Rightarrow> bool" where
  "isAnyMilestoneEmpty f = list_ex (\<lambda>m. fm_description m = []) (ef_milestones f)"

definition add_multi_milestone :: "escrow_values \<Rightarrow> escrow_values" where
  "add_multi_milestone f = f\<lparr>ef_milestones := ef_milestones f @ [\<lparr>fm_description = [], fm_amount = Some (FText [])\<rparr>]\<rparr>"

definition add_single_milestone :: "escrow_values \<Rightarrow> escrow_values" where
  "add_single_milestone f = f\<lparr>ef_milestones := ef_milestones f @ [\<lparr>fm_description = [], fm_amount = None\<rparr>]\<rparr>"

definition remove_milestone :: "nat \<Rightarrow> escrow_values \<Rightarrow> escrow_values" where
  "remove_milestone i f = f\<lparr>ef_milestones := map snd (filter (\<lambda>(j, _). j \<noteq> i) (enumerate 0 (ef_milestones f)))\<rparr>"

definition template_form :: "asset_option list \<Rightarrow> string \<Rightarrow> form_num option \<Rightarrow> form_num option \<Rightarrow> escrow_values" where
  "template_form assets wallet amount milestone_amount =
     \<lparr>ef_engagementId = ''ENG-001'', ef_title = ''Design Landing Page'',
      ef_description = ''Landing for the new product of the company.'', ef_amount = amount,
      ef_platformFee = Some (FNum (Fin 5)), ef_receiverMemo = Some ''123'',
      ef_trustline = (case List.find (\<lambda>t. op_label t = ''USDC'') assets of None \<Rightarrow> [] | Some t \<Rightarrow> op_value t),
      ef_roles = \<lparr>ro_approver = wallet, ro_serviceProvider = wallet, ro_platformAddress = wallet,
        ro_releaseSigner = wallet, ro_disputeResolver = wallet, ro_receiver = wallet\<rparr>,
      ef_milestones = map (\<lambda>d. \<lparr>fm_description = d, fm_amount = milestone_amount\<rparr>)
        [''Design the wireframe'', ''Develop the wireframe'', ''Deploy the wireframe'']\<rparr>"

definition fill_multi_template :: "asset_option list \<Rightarrow> string \<Rightarrow> escrow_values" where
  "fill_multi_template assets wallet = template_form assets wallet None (Some (FNum (Fin 2)))"

definition fill_single_template :: "asset_option list \<Rightarrow> string \<Rightarrow> escrow_values" where
  "fill_single_template assets wallet = template_form assets wallet (Some (FNum (Fin 5))) None"

section \<open>Payload\<close>

text \<open>The approver of the form, else the connected wallet, else the address in the local storage.\<close>

definition signer_address :: "escrow_values \<Rightarrow> string \<Rightarrow> string \<Rightarrow> string" where
  "signer_address f wallet stored =
     (if ro_approver (ef_roles f) \<noteq> [] then ro_approver (ef_roles f) else if wallet \<noteq> [] then wallet else stored)"

text \<open>A contract address is replaced by the issuer of its asset.\<close>

definition trustline_address :: "asset_option list \<Rightarrow> string \<Rightarrow> string" where
  "trustline_address assets a =
     (case List.find (\<lambda>t. op_value t = a) assets of
        None \<Rightarrow> a
      | Some t \<Rightarrow> if startsWith a ''C'' \<and> op_issuer t \<noteq> [] then op_issuer t else a)"

definition receiver_address :: "escrow_values \<Rightarrow> string" where
  "receiver_address f = (if ro_serviceProvider (ef_roles f) \<noteq> [] then ro_serviceProvider (ef_roles f)
     else ro_receiver (ef_roles f))"

definition fee_number :: "escrow_values \<Rightarrow> jsnum" where
  "fee_number f = (case ef_platformFee f of None \<Rightarrow> NaN | Some v \<Rightarrow> to_number v)"

definition multi_payload :: "asset_option list \<Rightarrow> string \<Rightarrow> escrow_values \<Rightarrow> deploy_payload" where
  "multi_payload assets signer f =
     \<lparr>dl_engagementId = ef_engagementId f, dl_title = ef_title f, dl_description = ef_description f,
      dl_amount = None, dl_platformFee = fee_number f, dl_signer = signer,
      dl_roles = (ef_roles f)\<lparr>ro_receiver := receiver_address f\<rparr>,
      dl_milestones = map (\<lambda>m. \<lparr>dm_description = fm_description m, dm_amount = map_option to_number (fm_amount m),
        dm_receiver = Some (receiver_address f)\<rparr>) (ef_milestones f),
      dl_trustline = trustline_address assets (ef_trustline f)\<rparr>"

definition single_payload :: "asset_option list \<Rightarrow> string \<Rightarrow> escrow_values \<Rightarrow> deploy_payload" where
  "single_payload assets signer f =
     \<lparr>dl_engagementId = ef_engagementId f, dl_title = ef_title f, dl_description = ef_description f,
      dl_amount = map_option to_number (ef_amount f), dl_platformFee = fee_number f, dl_signer = signer,
      dl_roles = ef_roles f,
      dl_milestones = map (\<lambda>m. \<lparr>dm_description = fm_description m, dm_amount = None, dm_receiver = None\<rparr>) (ef_milestones f),
      dl_trustline = trustline_address assets (ef_trustline f)\<rparr>"

section \<open>Submission\<close>

definition caught_of :: "thrown \<Rightarrow> caught" where
  "caught_of e = CaughtError
     (case th_response e of None \<Rightarrow> StNullish | Some (n, _) \<Rightarrow> StNumber (Fin (of_nat n)))
     (case th_status e of None \<Rightarrow> StNullish | Some n \<Rightarrow> StNumber (Fin (of_nat n))) (Some (th_message e))"

text \<open>The steps recorded before the attempt with a number, and the retried deployment with at most three attempts.\<close>

fun attempt_history :: "sdk \<Rightarrow> tx_payload \<Rightarrow> escrow_type \<Rightarrow> string \<Rightarrow> tx_event list \<Rightarrow> nat \<Rightarrow> tx_event list" where
  "attempt_history k p t a h 0 = h"
| "attempt_history k p t a h (Suc j) = snd (deployEscrow k p t a (attempt_history k p t a h j))"

definition deploy_attempt :: "sdk \<Rightarrow> tx_payload \<Rightarrow> escrow_type \<Rightarrow> string \<Rightarrow> tx_event list \<Rightarrow> nat \<Rightarrow> thrown + string option" where
  "deploy_attempt k p t a h j = fst (deployEscrow k p t a (attempt_history k p t a h j))"

definition deploy_with_retry ::
  "sdk \<Rightarrow> tx_payload \<Rightarrow> escrow_type \<Rightarrow> string \<Rightarrow> tx_event list \<Rightarrow> (thrown + string option) \<times> tx_event list" where
  "deploy_with_retry k p t a h =
     (let n = rt_calls (retryWithBackoff (\<lambda>j. map_sum caught_of id (deploy_attempt k p t a h j)) (Some 3) (Some 1000))
      in (deploy_attempt k p t a h (n - 1), attempt_history k p t a h n))"

text \<open>The escrow that a deployment selects: the payload with the new contract id. It has no type and no balance.\<close>

definition deployed_view :: "deploy_payload \<Rightarrow> string option \<Rightarrow> escrow_view" where
  "deployed_view p contract =
     \<lparr>xv_contractId = (case contract of None \<Rightarrow> [] | Some c \<Rightarrow> c), xv_type = None, xv_amount = dl_amount p,
      xv_balance = None, xv_trustline = Some (dl_trustline p),
      xv_milestones = Some (map (\<lambda>m. \<lparr>mv_description = dm_description m, mv_status = None, mv_evidence = None,
        mv_approved = False, mv_flag_approved = False\<rparr>) (dl_milestones p))\<rparr>"

definition initialize_submit ::
  "sdk \<Rightarrow> string \<Rightarrow> string \<Rightarrow> escrow_type \<Rightarrow> (string \<Rightarrow> deploy_payload) \<Rightarrow> escrow_values \<Rightarrow> block_state \<Rightarrow> block_state" where
  "initialize_submit k wallet stored t payload f st =
     (let signer = signer_address f wallet stored in
      if signer = [] then toast (ToastError ''Please connect your wallet first'') st
      else (case deploy_with_retry k (PayDeploy (payload signer)) t wallet (bs_history st) of
          (Inl e, h) \<Rightarrow> toast_thrown e (st\<lparr>bs_history := h\<rparr>)
        | (Inr contract, h) \<Rightarrow>
            on_session (setSelectedEscrow (Some (deployed_view (payload signer) contract)))
              (toast (ToastSuccess ''Escrow initialized successfully'') (st\<lparr>bs_history := h\<rparr>))))"

definition initialize_multi ::
  "sdk \<Rightarrow> string \<Rightarrow> string \<Rightarrow> asset_option list \<Rightarrow> escrow_values \<Rightarrow> block_state \<Rightarrow> block_state" where
  "initialize_multi k wallet stored assets f st =
     (if getMultiReleaseFormSchema f then
        initialize_submit k wallet stored MultiRelease (\<lambda>signer. multi_payload assets signer f) f st
      else st)"

definition initialize_single ::
  "sdk \<Rightarrow> string \<Rightarrow> string \<Rightarrow> asset_option list \<Rightarrow> escrow_values \<Rightarrow> block_state \<Rightarrow> block_state" where
  "initialize_single k wallet stored assets f st =
     (if getSingleReleaseFormSchema f then
        initialize_submit k wallet stored SingleRelease (\<lambda>signer. single_payload assets signer f) f st
      else st)"

section \<open>What a submission does\<close>

fun is_sent :: "tx_event \<Rightarrow> bool" where
  "is_sent (Sent s) = True"
| "is_sent _ = False"

text \<open>The steps are deployments of one payload, signed by one wallet.\<close>

definition deploys :: "deploy_payload \<Rightarrow> escrow_type \<Rightarrow> string \<Rightarrow> tx_event list \<Rightarrow> bool" where
  "deploys p typ wallet t = list_all (\<lambda>x. case x of
       Prepared op q ty \<Rightarrow> op = DeployEscrow \<and> q = PayDeploy p \<and> ty = typ
     | Signed u a n \<Rightarrow> a = wallet \<and> n = ''TESTNET''
     | _ \<Rightarrow> True) t"

lemma deploys_append [simp]: "deploys p typ w (s @ t) \<longleftrightarrow> deploys p typ w s \<and> deploys p typ w t"
  by (simp add: deploys_def)

lemma deploys_Nil [simp]: "deploys p typ w []"
  by (simp add: deploys_def)

lemma deploy_steps:
  obtains (failed) t e where "deployEscrow k (PayDeploy p) typ a h = (Inl e, h @ t)" "deploys p typ a t" "t \<noteq> []"
      "length (filter is_sent t) \<le> 1" "Invalidated \<notin> set t"
  | (succeeded) t c where "deployEscrow k (PayDeploy p) typ a h = (Inr c, h @ t)" "deploys p typ a t" "t \<noteq> []"
      "length (filter is_sent t) \<le> 1" "count_list t Invalidated = 1"
proof (cases rule: mutation_cases [of k DeployEscrow "PayDeploy p" "typ" h a])
  case (unprepared e)
  then show ?thesis by (intro that(1)) (auto simp: deployEscrow_def deploys_def)
next
  case (unsigned e u)
  then show ?thesis by (intro that(1)) (auto simp: deployEscrow_def deploys_def)
next
  case (unsent e u s)
  then show ?thesis by (intro that(1)) (auto simp: deployEscrow_def deploys_def)
next
  case (accepted u s c)
  then show ?thesis by (intro that(2)) (auto simp: deployEscrow_def deploys_def)
qed

lemma attempts_failed:
  "list_all (\<lambda>j. isl (deploy_attempt k (PayDeploy p) typ a h j)) [0..<n] \<Longrightarrow>
   \<exists>t. attempt_history k (PayDeploy p) typ a h n = h @ t \<and> deploys p typ a t \<and> length (filter is_sent t) \<le> n
     \<and> Invalidated \<notin> set t \<and> (t = [] \<longleftrightarrow> n = 0)"
proof (induction n)
  case (Suc n)
  then obtain t where t: "attempt_history k (PayDeploy p) typ a h n = h @ t" "deploys p typ a t"
    "length (filter is_sent t) \<le> n" "Invalidated \<notin> set t" by auto
  have "isl (fst (deployEscrow k (PayDeploy p) typ a (h @ t)))"
    using Suc.prems t(1) by (simp add: deploy_attempt_def)
  then show ?case
    using t by (cases rule: deploy_steps [of k p "typ" a "h @ t"]) auto
qed simp

lemma deploy_with_retry_steps:
  obtains (failed) t e where "deploy_with_retry k (PayDeploy p) typ a h = (Inl e, h @ t)" "deploys p typ a t" "t \<noteq> []"
      "length (filter is_sent t) \<le> 3" "Invalidated \<notin> set t"
  | (succeeded) t c where "deploy_with_retry k (PayDeploy p) typ a h = (Inr c, h @ t)" "deploys p typ a t" "t \<noteq> []"
      "length (filter is_sent t) \<le> 3" "count_list t Invalidated = 1"
proof -
  let ?f = "\<lambda>j. map_sum caught_of id (deploy_attempt k (PayDeploy p) typ a h j)"
  let ?n = "rt_calls (retryWithBackoff ?f (Some 3) (Some 1000))"
  from retry_loop_exact [of 3 ?f 1000 0 None] obtain n where n: "0 < n" "n \<le> 3" "?n = n"
    "list_all (\<lambda>j. \<not> conclusive (?f j)) [0..<n - 1]"
    unfolding retryWithBackoff_def by auto
  have "isl (deploy_attempt k (PayDeploy p) typ a h j)" if "\<not> conclusive (?f j)" for j
    using that by (cases "deploy_attempt k (PayDeploy p) typ a h j") (auto simp: conclusive_def)
  with n(4) have "list_all (\<lambda>j. isl (deploy_attempt k (PayDeploy p) typ a h j)) [0..<n - 1]"
    by (simp add: list_all_iff)
  from attempts_failed [OF this] obtain t where t: "attempt_history k (PayDeploy p) typ a h (n - 1) = h @ t"
    "deploys p typ a t" "length (filter is_sent t) \<le> n - 1" "Invalidated \<notin> set t" by blast
  have d: "deploy_with_retry k (PayDeploy p) typ a h = deployEscrow k (PayDeploy p) typ a (h @ t)"
    unfolding deploy_with_retry_def n(3) Let_def using n(1) t(1)
    by (cases n) (simp_all add: deploy_attempt_def)
  show ?thesis
  proof (cases rule: deploy_steps [of k p "typ" a "h @ t"])
    case (failed t' e)
    with n(2) t d show ?thesis by (intro that(1) [of e "t @ t'"]) auto
  next
    case (succeeded t' c)
    with n(2) t d show ?thesis by (intro that(2) [of c "t @ t'"]) auto
  qed
qed

definition deployed :: "deploy_payload \<Rightarrow> escrow_type \<Rightarrow> string \<Rightarrow> block_state \<Rightarrow> block_state \<Rightarrow> tx_event list \<Rightarrow> bool" where
  "deployed p typ wallet st st' t \<longleftrightarrow>
     bs_history st' = bs_history st @ t \<and> deploys p typ wallet t \<and> length (filter is_sent t) \<le> 3
     \<and> (if Invalidated \<in> set t then count_list t Invalidated = 1
            \<and> (\<exists>c. bs_session st' = setSelectedEscrow (Some (deployed_view p c)) (bs_session st))
            \<and> captured_type (ss_selected (bs_session st')) = MultiRelease
        else bs_session st' = bs_session st)"

lemma submit_deployed:
  assumes "signer_address f wallet stored \<noteq> []"
  shows "\<exists>t. t \<noteq> [] \<and> deployed (payload (signer_address f wallet stored)) typ wallet st
    (initialize_submit k wallet stored typ payload f st) t"
proof (cases rule: deploy_with_retry_steps [of k "payload (signer_address f wallet stored)" "typ" wallet "bs_history st"])
  case (failed t e)
  with assms show ?thesis
    by (intro exI [of _ t]) (simp add: initialize_submit_def deployed_def toast_thrown_def toast_def)
next
  case (succeeded t c)
  have "Invalidated \<in> set t" using succeeded(5) by (metis count_notin zero_neq_one)
  moreover have "captured_type (Some (deployed_view q c')) = MultiRelease" for q c'
    by (simp add: captured_type_def deployed_view_def)
  ultimately show ?thesis using succeeded assms
    by (intro exI [of _ t]) (auto simp: initialize_submit_def deployed_def toast_def on_session_def setSelectedEscrow_def)
qed

text \<open>
  C39: A submitted form deploys what it shows, and little more than once. A form that its schema accepts
  makes the SDK build deployments of exactly the form's payload, with the approver as its signer, signed
  by the connected wallet and sent at most three times; at most one is reported as accepted, and exactly
  then the new escrow is selected. A form that is refused does nothing. Whatever kind of escrow was
  deployed, the selected escrow is handled as a multi-release one from then on, since its type is unset.
\<close>

theorem initialize_exact:
  "(if getMultiReleaseFormSchema f then
      \<exists>t. t \<noteq> [] \<and> deployed (multi_payload assets (ro_approver (ef_roles f)) f) MultiRelease wallet st
        (initialize_multi k wallet stored assets f st) t
    else initialize_multi k wallet stored assets f st = st)
   \<and> (if getSingleReleaseFormSchema f then
      \<exists>t. t \<noteq> [] \<and> deployed (single_payload assets (ro_approver (ef_roles f)) f) SingleRelease wallet st
        (initialize_single k wallet stored assets f st) t
    else initialize_single k wallet stored assets f st = st)"
proof -
  have s: "signer_address f wallet stored = ro_approver (ef_roles f)" "ro_approver (ef_roles f) \<noteq> []"
    if "getBaseSchema f" using that by (simp_all add: getBaseSchema_def role_field_def signer_address_def)
  have m: "getBaseSchema f" if "getMultiReleaseFormSchema f" using that by (simp add: getMultiReleaseFormSchema_def)
  have g: "getBaseSchema f" if "getSingleReleaseFormSchema f" using that by (simp add: getSingleReleaseFormSchema_def)
  show ?thesis
    using submit_deployed [of f wallet stored "\<lambda>signer. multi_payload assets signer f"]
      submit_deployed [of f wallet stored "\<lambda>signer. single_payload assets signer f"] s m g
    by (auto simp: initialize_multi_def initialize_single_def)
qed

text \<open>A deployment whose answer is lost is sent again: two transactions for one submission.\<close>

definition lossy_sdk :: sdk where
  "lossy_sdk = \<lparr>sd_prepare = \<lambda>_ _ _ _. Inr (Some ''tx''), sd_sign = \<lambda>_ _ _. Inr (Some ''signed''),
     sd_send = \<lambda>_ h. if list_ex is_sent h then Inr (''SUCCESS'', Some ''C2'') else Inl (plain_error ''timeout'')\<rparr>"

lemma deployed_twice:
  "filter is_sent (snd (deploy_with_retry lossy_sdk (PayDeploy p) typ a [])) = [Sent ''signed'', Sent ''signed'']"
proof -
  have t: "isTransientError (caught_of (plain_error ''timeout''))"
    by (simp add: isTransientError_def caught_of_def plain_error_def Let_def definitivePatterns_def
        js_string_defs)
  have f: "deployEscrow lossy_sdk (PayDeploy p) typ a h =
      (if list_ex is_sent h then (Inr (Some ''C2''), h @ [Prepared DeployEscrow (PayDeploy p) typ, Signed ''tx'' a ''TESTNET'',
          Sent ''signed'', Invalidated])
       else (Inl (plain_error ''timeout''), h @ [Prepared DeployEscrow (PayDeploy p) typ, Signed ''tx'' a ''TESTNET'', Sent ''signed'']))" for h
    by (simp add: deployEscrow_def signed_mutation_def kit_signTransaction_def SIGNING_NETWORK_def lossy_sdk_def Let_def)
  show ?thesis
    by (simp add: deploy_with_retry_def retryWithBackoff_def numeral_3_eq_3 deploy_attempt_def f t Let_def)
qed

text \<open>An accepted fee or amount is a positive number with two decimals, unless its text is unfinished.\<close>

lemma accepted_amount:
  "amount_field (Some v) \<Longrightarrow> (\<exists>s. v = FText s \<and> incomplete s) \<or> (js_lt (Fin 0) (to_number v) \<and> two_places (to_number v))"
  by (cases v) (auto simp: amount_field_def positive_field_def places_field_def to_number_def)

lemma empty_amount_accepted: "amount_field (Some (FText []))" "to_number (FText []) = Fin 0"
  by (simp_all add: amount_field_def positive_field_def places_field_def incomplete_def to_number_def js_Number_def
      js_string_defs)

text \<open>The native asset's trustline is sent as the word that stands for its issuer.\<close>

lemma native_trustline:
  "trustline_address (getSupportedAssets ''testnet'' trustlines) ''CDLZFC3SYJYDZT7K67VZ75HPJVIEUVNIXF47ZG2FB2RMQQVU2HHGCYSC''
     = ''native''"
  by (simp add: trustline_address_def getSupportedAssets_def trustlines_def asset_option_of_def startsWith_def)

section \<open>Fees\<close>

text \<open>\<open>setAmounts\<close> of \<open>providers/EscrowAmountProvider.tsx\<close>: the receiver's share, the platform's and Trustless Work's.\<close>

record escrow_amounts =
  ea_receiver :: rat
  ea_platformFee :: rat
  ea_trustlessWork :: rat

definition setAmounts :: "rat \<Rightarrow> rat \<Rightarrow> escrow_amounts" where
  "setAmounts totalAmount platformFee =
     (let trustlessPercentage = 3 / 10; receiverPercentage = 100 - (trustlessPercentage + platformFee)
      in \<lparr>ea_receiver = totalAmount * receiverPercentage / 100, ea_platformFee = totalAmount * platformFee / 100,
          ea_trustlessWork = totalAmount * trustlessPercentage / 100\<rparr>)"

lemma amounts_sum:
  "ea_receiver (setAmounts t f) + ea_platformFee (setAmounts t f) + ea_trustlessWork (setAmounts t f) = t"
  by (simp add: setAmounts_def Let_def field_simps)

end
