(* ===== verification/Escrow_Status.thy ===== *)
theory Escrow_Status
  imports Escrow_Mutations
begin

text \<open>
  How the frontend reads an escrow: \<open>components/escrow/hook/useEscrowStatus.ts\<close> and
  \<open>useEscrowUpdates.ts\<close>, \<open>views/getViewForStatus.ts\<close>, \<open>types/escrow.ts\<close>, and the release helpers of
  \<open>lib/trustless-work/hooks\<close>. The indexer is a parameter. An undefined flag is \<open>None\<close>. Polling is the
  caller's business: a fetch is one function call.
\<close>

section \<open>Milestones\<close>

record milestone_flags =
  fl_approved :: "bool option"
  fl_released :: "bool option"
  fl_disputed :: "bool option"

record release_milestone =
  rl_amount :: rat
  rl_status :: "string option"
  rl_approved :: "bool option"
  rl_flags :: "milestone_flags option"

definition flag :: "(milestone_flags \<Rightarrow> bool option) \<Rightarrow> release_milestone \<Rightarrow> bool" where
  "flag f m = (case rl_flags m of None \<Rightarrow> False | Some fl \<Rightarrow> f fl = Some True)"

definition calculateTotalAmount :: "release_milestone list \<Rightarrow> rat" where
  "calculateTotalAmount ms = foldl (\<lambda>total m. total + rl_amount m) 0 ms"

definition calculateReleasedAmount :: "release_milestone list \<Rightarrow> rat" where
  "calculateReleasedAmount ms = foldl (\<lambda>total m. total + rl_amount m) 0 (filter (flag fl_released) ms)"

definition calculatePendingAmount :: "release_milestone list \<Rightarrow> rat" where
  "calculatePendingAmount ms = foldl (\<lambda>total m. total + rl_amount m) 0 (filter (\<lambda>m. \<not> flag fl_released m) ms)"

record release_progress =
  rg_total :: rat
  rg_released :: rat
  rg_pending :: rat
  rg_percentage :: rat

definition getMilestoneReleaseProgress :: "release_milestone list \<Rightarrow> release_progress" where
  "getMilestoneReleaseProgress ms =
     (let total = calculateTotalAmount ms; released = calculateReleasedAmount ms
      in \<lparr>rg_total = total, rg_released = released, rg_pending = calculatePendingAmount ms,
          rg_percentage = (if 0 < total then released / total * 100 else 0)\<rparr>)"

definition isMilestoneReadyForRelease :: "release_milestone \<Rightarrow> bool" where
  "isMilestoneReadyForRelease m \<longleftrightarrow> flag fl_approved m \<and> \<not> flag fl_released m \<and> \<not> flag fl_disputed m"

definition getMilestonesByStatus :: "release_milestone list \<Rightarrow> string \<Rightarrow> release_milestone list" where
  "getMilestonesByStatus ms status =
     (if status = ''approved'' then filter (\<lambda>m. flag fl_approved m \<and> \<not> flag fl_released m) ms
      else if status = ''released'' then filter (flag fl_released) ms
      else if status = ''disputed'' then filter (flag fl_disputed) ms
      else if status = ''pending'' then filter (\<lambda>m. \<not> flag fl_approved m \<and> \<not> flag fl_released m) ms
      else ms)"

definition areAllMilestonesApproved :: "release_milestone list \<Rightarrow> bool" where
  "areAllMilestonesApproved ms = list_all (\<lambda>m. rl_approved m = Some True) ms"

definition getMilestoneProgress :: "release_milestone list \<Rightarrow> nat \<times> nat \<times> rat" where
  "getMilestoneProgress ms =
     (let total = length ms; approved = length (filter (\<lambda>m. rl_approved m = Some True) ms)
      in (total, approved, if 0 < total then of_nat approved / of_nat total * 100 else 0))"

text \<open>
  The operations of the two release hooks ask the SDK for a transaction of their own kind; the hooks have
  no others. \<open>withdrawRemainingFunds\<close>, which hands its payload to the SDK as it is, is left out.
\<close>

definition release_hook_ops :: "escrow_op list" where
  "release_hook_ops = [ApproveMilestone, ChangeMilestoneStatus, ReleaseFunds, StartDispute, ResolveDispute]"

definition useMultiRelease :: "sdk \<Rightarrow> escrow_op \<Rightarrow> (tx_payload \<Rightarrow> tx_event list \<Rightarrow> thrown + string option) option" where
  "useMultiRelease k op =
     (if op \<in> set release_hook_ops then Some (\<lambda>payload. sd_prepare k op payload MultiRelease) else None)"

definition useSingleRelease :: "sdk \<Rightarrow> escrow_op \<Rightarrow> (tx_payload \<Rightarrow> tx_event list \<Rightarrow> thrown + string option) option" where
  "useSingleRelease k op =
     (if op \<in> set release_hook_ops then Some (\<lambda>payload. sd_prepare k op payload SingleRelease) else None)"

section \<open>Status\<close>

text \<open>An escrow of the indexer: its status and its milestones, either of which may be missing.\<close>

record indexed_escrow =
  ie_status :: "string option"
  ie_milestones :: "release_milestone list option"

text \<open>One fetch: nothing is asked without a contract and a signer; the first escrow found counts.\<close>

definition fetch_status ::
  "(string \<Rightarrow> string \<Rightarrow> 'e + indexed_escrow list option) \<Rightarrow> string \<Rightarrow> string \<Rightarrow> 'e + indexed_escrow option" where
  "fetch_status indexer contractId signer =
     (if contractId = [] \<or> signer = [] then Inr None
      else (case indexer contractId signer of
          Inl e \<Rightarrow> Inl e
        | Inr (Some (e # _)) \<Rightarrow> Inr (Some e)
        | Inr _ \<Rightarrow> Inr None))"

definition getEscrowStatusString :: "indexed_escrow option \<Rightarrow> string" where
  "getEscrowStatusString escrow = (case escrow of
       None \<Rightarrow> ''unknown''
     | Some e \<Rightarrow>
         if truthy (ie_status e) then the (ie_status e)
         else (case ie_milestones e of
             None \<Rightarrow> ''unknown''
           | Some ms \<Rightarrow>
               if ms = [] then ''pending''
               else if list_all (\<lambda>m. flag fl_released m \<or> rl_status m = Some ''released'') ms then ''released''
               else if list_ex (\<lambda>m. flag fl_disputed m \<or> rl_status m = Some ''disputed'') ms then ''inDispute''
               else if list_ex (\<lambda>m. rl_approved m = Some True \<or> rl_status m = Some ''approved'') ms then ''pendingRelease''
               else ''working''))"

definition getStatusVariant :: "string \<Rightarrow> string" where
  "getStatusVariant status =
     (let s = toLowerCase status in
      if s \<in> set [''released'', ''completed''] then ''default''
      else if s \<in> set [''pendinrelease'', ''pending'', ''working'', ''funded''] then ''secondary''
      else if s \<in> set [''indispute'', ''disputed'', ''cancelled'', ''failed''] then ''destructive''
      else ''outline'')"

definition status_map :: "(string \<times> string) list" where
  "status_map = [(''working'', ''In Progress''), (''pendingRelease'', ''Pending Release''), (''released'', ''Released''),
     (''inDispute'', ''In Dispute''), (''resolved'', ''Resolved''), (''pending'', ''Pending''), (''funded'', ''Funded''),
     (''completed'', ''Completed''), (''cancelled'', ''Cancelled''), (''unknown'', ''Unknown'')]"

text \<open>The map is an object, so inherited names such as \<open>constructor\<close> would be found too; they are not statuses.\<close>

definition formatStatus :: "string \<Rightarrow> string" where
  "formatStatus status = (case map_of status_map status of
       Some t \<Rightarrow> t
     | None \<Rightarrow> toUpperCase (take 1 status) @ drop 1 status)"

datatype view_kind = ViewPaid | ViewBlocked | ViewReleased | ViewDisputed | ViewPending

definition getViewForStatus :: "string \<Rightarrow> view_kind" where
  "getViewForStatus status =
     (let s = toLowerCase status in
      if s = ''funded'' then ViewPaid
      else if s = ''active'' then ViewBlocked
      else if s \<in> set [''completed'', ''released''] then ViewReleased
      else if s \<in> set [''disputed'', ''indispute''] then ViewDisputed
      else ViewPending)"

text \<open>
  \<open>useEscrowUpdates\<close>: the three notification queries and the status after a round; a failed query leaves
  the status alone.
\<close>

datatype update_status = Pending_action | Milestone_approved | Disputed_update

definition updated_status ::
  "'e + nat \<Rightarrow> 'e + string list \<Rightarrow> 'e + nat \<Rightarrow> update_status \<Rightarrow> update_status" where
  "updated_status pending milestones disputes s =
     (case (pending, milestones, disputes) of
        (Inr p, Inr ms, Inr d) \<Rightarrow>
          (let s1 = (if 0 < p then Pending_action else s);
               s2 = (if ''approved'' \<in> set ms then Milestone_approved else s1)
           in if 0 < d then Disputed_update else s2)
      | _ \<Rightarrow> s)"

section \<open>Refund status\<close>

definition SUPPORTED_ESCROW_ASSETS :: "string list" where "SUPPORTED_ESCROW_ASSETS = [''USDC'', ''XLM'', ''EURC'']"

definition isSupportedEscrowAsset :: "string \<Rightarrow> bool" where
  "isSupportedEscrowAsset v \<longleftrightarrow> v \<in> set SUPPORTED_ESCROW_ASSETS"

datatype refund_state = RfNone | RfRequested | RfProcessing | RfSubmitted | RfCompleted | RfFailed

record typed_escrow =
  te_id :: string
  te_refund :: "refund_state option"
  te_refundStatus :: "refund_state option"

definition normalizeEscrow :: "typed_escrow \<Rightarrow> typed_escrow" where
  "normalizeEscrow raw = raw\<lparr>te_refundStatus := te_refund raw\<rparr>"

lemma normalized: "te_refundStatus (normalizeEscrow e) = te_refund (normalizeEscrow e)" "normalizeEscrow (normalizeEscrow e) = normalizeEscrow e"
  by (simp_all add: normalizeEscrow_def)

section \<open>What the readings guarantee\<close>

lemma sum_amounts: "foldl (\<lambda>total m. total + rl_amount m) a ms = a + sum_list (map rl_amount ms)"
  by (induction ms arbitrary: a) (simp_all add: add.assoc)

lemma amounts_split:
  "sum_list (map f (filter P ms)) + sum_list (map f (filter (\<lambda>m. \<not> P m) ms)) = (sum_list (map f ms) :: rat)"
  by (induction ms) simp_all

lemma amounts_nonneg: "list_all (\<lambda>m. 0 \<le> f m) ms \<Longrightarrow> 0 \<le> (sum_list (map f ms) :: rat)"
  by (induction ms) simp_all

lemma amounts_released_all:
  "list_all (\<lambda>m. 0 < f m) ms \<Longrightarrow> sum_list (map f (filter P ms)) = (sum_list (map f ms) :: rat) \<longleftrightarrow> list_all P ms"
proof (induction ms)
  case (Cons m ms)
  have "sum_list (map f (filter P ms)) \<le> sum_list (map f ms)"
    using amounts_split [of f P ms] amounts_nonneg [of f "filter (\<lambda>m. \<not> P m) ms"] Cons.prems
    by (auto simp: list_all_iff less_imp_le)
  with Cons show ?case by auto
qed simp

lemma counts_split3:
  "length (filter (\<lambda>m. A m \<and> \<not> R m) ms) + length (filter R ms) + length (filter (\<lambda>m. \<not> A m \<and> \<not> R m) ms) = length ms"
  by (induction ms) auto

text \<open>
  The release figures of an escrow add up. The released and the pending amount sum to the total; with
  non-negative amounts the percentage lies between 0 and 100, and with positive ones it is 100 exactly
  when every milestone is released; each milestone counts as exactly one of approved, released and
  pending; and the milestones ready for release are the approved ones that are not disputed.
\<close>

theorem release_progress_exact:
  "(let g = getMilestoneReleaseProgress ms in
      rg_released g + rg_pending g = rg_total g
    \<and> rg_total g = sum_list (map rl_amount ms)
    \<and> (if list_all (\<lambda>m. 0 \<le> rl_amount m) ms then 0 \<le> rg_percentage g \<and> rg_percentage g \<le> 100 else True)
    \<and> (if ms \<noteq> [] \<and> list_all (\<lambda>m. 0 < rl_amount m) ms then rg_percentage g = 100 \<longleftrightarrow> list_all (flag fl_released) ms else True)
    \<and> length (getMilestonesByStatus ms ''approved'') + length (getMilestonesByStatus ms ''released'')
        + length (getMilestonesByStatus ms ''pending'') = length ms
    \<and> filter isMilestoneReadyForRelease ms = filter (\<lambda>m. \<not> flag fl_disputed m) (getMilestonesByStatus ms ''approved''))"
proof -
  let ?R = "sum_list (map rl_amount (filter (flag fl_released) ms))"
  let ?P = "sum_list (map rl_amount (filter (\<lambda>m. \<not> flag fl_released m) ms))" and ?T = "sum_list (map rl_amount ms)"
  define q where "q = (if 0 < ?T then ?R / ?T * 100 else 0)"
  have g: "getMilestoneReleaseProgress ms = \<lparr>rg_total = ?T, rg_released = ?R, rg_pending = ?P, rg_percentage = q\<rparr>"
    by (simp add: q_def getMilestoneReleaseProgress_def calculateTotalAmount_def calculateReleasedAmount_def
        calculatePendingAmount_def sum_amounts Let_def)
  have split: "?R + ?P = ?T" by (rule amounts_split)
  have bounds: "0 \<le> ?R" "?R \<le> ?T" if "list_all (\<lambda>m. 0 \<le> rl_amount m) ms"
    using amounts_nonneg [of rl_amount "filter (flag fl_released) ms"]
      amounts_nonneg [of rl_amount "filter (\<lambda>m. \<not> flag fl_released m) ms"] split that
    by (auto simp: list_all_iff)
  have pos: "0 < ?T" if "ms \<noteq> []" "list_all (\<lambda>m. 0 < rl_amount m) ms"
    using that amounts_nonneg [of rl_amount "tl ms"] by (cases ms) (auto simp: list_all_iff less_imp_le add_pos_nonneg)
  have full: "q = 100 \<longleftrightarrow> list_all (flag fl_released) ms" if "ms \<noteq> []" "list_all (\<lambda>m. 0 < rl_amount m) ms"
    using pos [OF that] amounts_released_all [OF that(2), of "flag fl_released"] by (simp add: q_def field_simps)
  have ready: "filter isMilestoneReadyForRelease ms = filter (\<lambda>m. \<not> flag fl_disputed m) (getMilestonesByStatus ms ''approved'')"
    by (auto simp: getMilestonesByStatus_def isMilestoneReadyForRelease_def intro!: filter_cong)
  have counts: "length (getMilestonesByStatus ms ''approved'') + length (getMilestonesByStatus ms ''released'')
        + length (getMilestonesByStatus ms ''pending'') = length ms"
    using counts_split3 [of "flag fl_approved" "flag fl_released" ms] by (simp add: getMilestonesByStatus_def)
  have pct: "0 \<le> q \<and> q \<le> 100"
    if "list_all (\<lambda>m. 0 \<le> rl_amount m) ms"
    using bounds [OF that] by (auto simp: q_def field_simps)
  show ?thesis
    unfolding g Let_def release_progress.simps using split pct full pos ready counts by simp
qed

text \<open>
  A multi-release milestone carries its approval in its flags, which the status reading does not look at:
  an approved escrow shows as being worked on. And the variant's table misspells the status.
\<close>

lemma approved_shows_working:
  "getEscrowStatusString (Some \<lparr>ie_status = None, ie_milestones = Some [\<lparr>rl_amount = a, rl_status = None, rl_approved = None,
     rl_flags = Some \<lparr>fl_approved = Some True, fl_released = None, fl_disputed = None\<rparr>\<rparr>]\<rparr>) = ''working''"
  by (simp add: getEscrowStatusString_def flag_def)

lemma pending_release_variant: "getStatusVariant ''pendingRelease'' = ''outline''" "getStatusVariant ''PendinRelease'' = ''secondary''"
  by (simp_all add: getStatusVariant_def js_string_defs Let_def char_of_def bit_iff_odd)

lemma dispute_wins: "updated_status (Inr p) (Inr ms) (Inr (Suc d)) s = Disputed_update"
  by (simp add: updated_status_def)

end
