(* ===== verification/Analytics_View.thy ===== *)
theory Analytics_View
  imports Analytics
begin

text \<open>
  The reader of the analytics route: \<open>hooks/use-analytics-data.ts\<close> with the figures of
  \<open>lib/chart-utils.ts\<close>. The signed-in user, the token and the answer of the server are arguments of a
  fetch; icons are for display.
\<close>

section \<open>Figures\<close>

definition calculateChange :: "rat \<Rightarrow> rat \<Rightarrow> rat" where
  "calculateChange current previous = (if previous = 0 then 0 else (current - previous) / previous * 100)"

text \<open>\<open>Number(x.toFixed(n))\<close>: the closest multiple of the unit, the larger one of two.\<close>

definition to_fixed :: "nat \<Rightarrow> rat \<Rightarrow> rat" where
  "to_fixed n x = (if x < 0 then - (of_int \<lfloor>- x * 10 ^ n + 1 / 2\<rfloor> / 10 ^ n) else of_int \<lfloor>x * 10 ^ n + 1 / 2\<rfloor> / 10 ^ n)"

datatype trend = TrendUp | TrendDown

record metric =
  mt_label :: string
  mt_value :: rat
  mt_change :: rat
  mt_trend :: trend
  mt_color :: string

definition trend_of :: "bool \<Rightarrow> trend" where
  "trend_of up = (if up then TrendUp else TrendDown)"

definition completion_rate :: "analytics_day \<Rightarrow> rat" where
  "completion_rate d = (if ad_escrowsCreated d \<noteq> 0
     then of_nat (ad_escrowsCompleted d) / of_nat (ad_escrowsCreated d) * 100 else 0)"

text \<open>\<open>escrowList.at(-1)\<close> and \<open>at(-2)\<close>, each with an empty day as its default.\<close>

definition latest_day :: "analytics_day list \<Rightarrow> analytics_day" where
  "latest_day ds = (case rev ds of [] \<Rightarrow> empty_day [] | d # _ \<Rightarrow> d)"

definition previous_day :: "analytics_day list \<Rightarrow> analytics_day" where
  "previous_day ds = (case rev ds of _ # d # _ \<Rightarrow> d | _ \<Rightarrow> empty_day [])"

definition generateEscrowMetrics :: "analytics_day list \<Rightarrow> platform_health \<Rightarrow> metric list" where
  "generateEscrowMetrics ds h =
     (let latest = latest_day ds; previous = previous_day ds;
          disputeRate = (if ph_totalCreated h \<noteq> 0 then of_nat (ph_totalDisputes h) / of_nat (ph_totalCreated h) * 100 else 0)
      in [\<lparr>mt_label = ''USD / USDC Escrow Volume'', mt_value = ph_totalVolume h,
            mt_change = calculateChange (ad_volume latest) (ad_volume previous),
            mt_trend = trend_of (ad_volume previous \<le> ad_volume latest), mt_color = ''primary''\<rparr>,
          \<lparr>mt_label = ''Dispute Rate'', mt_value = to_fixed 2 disputeRate,
            mt_change = ad_disputeRate latest - ad_disputeRate previous,
            mt_trend = trend_of (ad_disputeRate latest \<le> ad_disputeRate previous),
            mt_color = (if ph_totalDisputes h = 0 then ''success'' else ''warning'')\<rparr>,
          \<lparr>mt_label = ''Avg Time to Release'', mt_value = to_fixed 1 (ph_avgReleaseHours h),
            mt_change = ad_avgReleaseHours previous - ad_avgReleaseHours latest,
            mt_trend = trend_of (ad_avgReleaseHours latest \<le> ad_avgReleaseHours previous), mt_color = ''info''\<rparr>,
          \<lparr>mt_label = ''Completion Rate'', mt_value = to_fixed 1 (ph_completionRate h),
            mt_change = completion_rate latest - completion_rate previous,
            mt_trend = trend_of (completion_rate previous \<le> completion_rate latest), mt_color = ''success''\<rparr>])"

section \<open>Fetching\<close>

record analytics_view =
  av_chart :: "analytics_day list"
  av_metrics :: "metric list"
  av_health :: platform_health
  av_hasData :: bool
  av_error :: "string option"

text \<open>An answer: a failure of the token or the request, or a status with a body that may not parse.\<close>

datatype fetch_answer = FetchFails | Answer nat "analytics_report option"

definition fetchData :: "bool \<Rightarrow> fetch_answer \<Rightarrow> analytics_view \<Rightarrow> bool \<times> analytics_view" where
  "fetchData signed_in answer s =
     (if \<not> signed_in then
        (False, s\<lparr>av_error := Some ''Sign in with an administrator account to view platform analytics.''\<rparr>)
      else (case answer of
          Answer st body \<Rightarrow>
            if st = 401 \<or> st = 403 then
              (False, s\<lparr>av_error := Some ''Administrator access is required to view platform analytics.''\<rparr>)
            else if \<not> (200 \<le> st \<and> st \<le> 299) \<or> body = None then
              (False, s\<lparr>av_error := Some ''Failed to load live platform analytics. Please try again.''\<rparr>)
            else (let r = the body in
              (True, \<lparr>av_chart = rp_escrowChartData r,
                 av_metrics = generateEscrowMetrics (rp_escrowChartData r) (rp_platformHealth r),
                 av_health = rp_platformHealth r, av_hasData = rp_hasData r, av_error = None\<rparr>))
        | FetchFails \<Rightarrow> (False, s\<lparr>av_error := Some ''Failed to load live platform analytics. Please try again.''\<rparr>)))"

text \<open>The query of the request: the whole of the last selected day is asked for.\<close>

definition analytics_query :: "(int \<Rightarrow> int) \<Rightarrow> (int \<times> int) option \<Rightarrow> (string \<times> string) list" where
  "analytics_query end_of_day dateRange = (case dateRange of
       None \<Rightarrow> []
     | Some (start, end) \<Rightarrow> [(''start'', toISOString start), (''end'', toISOString (end_of_day end))])"

section \<open>What the figures guarantee\<close>

lemma change_sign: "0 \<le> p \<Longrightarrow> 0 \<le> c \<Longrightarrow> 0 \<le> calculateChange c p \<longleftrightarrow> p \<le> c"
  by (auto simp: calculateChange_def field_simps)

lemma to_fixed_close: "\<bar>to_fixed n x - x\<bar> \<le> 1 / (2 * 10 ^ n)"
proof -
  have k: "\<bar>of_int \<lfloor>y * 10 ^ n + 1 / 2\<rfloor> / 10 ^ n - y\<bar> \<le> 1 / (2 * 10 ^ n)" for y :: rat
  proof -
    have "of_int \<lfloor>y * 10 ^ n + 1 / 2\<rfloor> \<le> y * 10 ^ n + 1 / 2" "y * 10 ^ n + 1 / 2 < of_int \<lfloor>y * 10 ^ n + 1 / 2\<rfloor> + 1"
      by linarith+
    then have "\<bar>of_int \<lfloor>y * 10 ^ n + 1 / 2\<rfloor> - y * 10 ^ n\<bar> \<le> 1 / 2" by linarith
    moreover have "of_int \<lfloor>y * 10 ^ n + 1 / 2\<rfloor> / 10 ^ n - y = (of_int \<lfloor>y * 10 ^ n + 1 / 2\<rfloor> - y * 10 ^ n) / 10 ^ n"
      by (simp add: diff_divide_distrib)
    ultimately show ?thesis by (simp add: abs_divide field_simps)
  qed
  have "\<bar>- a - x\<bar> = \<bar>a - (- x)\<bar>" for a :: rat by (simp add: abs_if)
  then show ?thesis using k [of x] k [of "- x"] by (simp add: to_fixed_def)
qed

text \<open>
  The trend arrows agree with the changes beside them. For a report whose days have non-negative
  volumes, the arrow of the volume and of the completion rate points up exactly when the change shown is
  not negative, that of the dispute rate exactly when the shown change is not positive, and that of the
  release time exactly when the shown saving is not negative; the completion rate shown is within a
  twentieth of the exact one, and a failed fetch keeps the figures of the last successful one.
\<close>

theorem metrics_trends:
  "(case fetchData signed_in answer s of (ok, v) \<Rightarrow>
      (ok \<longleftrightarrow> signed_in \<and> (\<exists>st b. answer = Answer st (Some b) \<and> 200 \<le> st \<and> st \<le> 299))
    \<and> (ok \<longleftrightarrow> av_error v = None)
    \<and> (if ok then
         (if list_all (\<lambda>d. 0 \<le> ad_volume d) (av_chart v) then
            map mt_trend (av_metrics v) = map (\<lambda>(up, m). trend_of (if up then 0 \<le> mt_change m else mt_change m \<le> 0))
              (zip [True, False, True, True] (av_metrics v))
          else True)
         \<and> \<bar>mt_value (av_metrics v ! 3) - ph_completionRate (av_health v)\<bar> \<le> 1 / 20
       else av_chart v = av_chart s \<and> av_metrics v = av_metrics s \<and> av_health v = av_health s))"
proof (cases "signed_in \<and> (\<exists>st b. answer = Answer st (Some b) \<and> 200 \<le> st \<and> st \<le> 299)")
  case False
  then show ?thesis
    by (cases answer) (auto simp: fetchData_def Let_def)
next
  case True
  then obtain st b where b: "answer = Answer st (Some b)" "200 \<le> st" "st \<le> 299" "signed_in" by blast
  let ?ds = "rp_escrowChartData b" and ?h = "rp_platformHealth b"
  have f: "fetchData signed_in answer s = (True, \<lparr>av_chart = ?ds, av_metrics = generateEscrowMetrics ?ds ?h,
      av_health = ?h, av_hasData = rp_hasData b, av_error = None\<rparr>)"
    using b by (simp add: fetchData_def)
  have vol: "0 \<le> ad_volume (latest_day ?ds)" "0 \<le> ad_volume (previous_day ?ds)" if "list_all (\<lambda>d. 0 \<le> ad_volume d) ?ds"
  proof -
    have "list_all (\<lambda>d. 0 \<le> ad_volume d) (rev ?ds)" using that by simp
    then show "0 \<le> ad_volume (latest_day ?ds)" "0 \<le> ad_volume (previous_day ?ds)"
      by (auto simp: latest_day_def previous_day_def empty_day_def split: list.split)
  qed
  have "\<bar>to_fixed 1 (ph_completionRate ?h) - ph_completionRate ?h\<bar> \<le> 1 / 20"
    using to_fixed_close [of 1 "ph_completionRate ?h"] by simp
  then show ?thesis unfolding f prod.case using b(1-3,4)
    by (simp add: generateEscrowMetrics_def Let_def change_sign vol trend_of_def)
qed

end
