(* ===== verification/Utf8_Relay.thy ===== *)
theory Utf8_Relay
  imports Js_Base
begin

text \<open>
  What \<open>Request.text()\<close> followed by sending the text does to the bytes of a body: a leading byte order
  mark is dropped, well-formed UTF-8 passes unchanged, and every ill-formed part becomes the replacement
  character. Bytes are characters 0 to 255.
\<close>

definition byte :: "nat \<Rightarrow> char" where "byte n = char_of n"

abbreviation code :: "char \<Rightarrow> nat" where "code c \<equiv> of_char c"

definition BOM :: string where "BOM = map byte [239, 187, 191]"
definition REPLACEMENT :: string where "REPLACEMENT = map byte [239, 191, 189]"

text \<open>
  The decoder keeps the bytes of the sequence it is in, how many are still needed and the bounds of the
  next one; a byte out of bounds ends the sequence and is read again.
\<close>

function recode_loop :: "string \<Rightarrow> nat \<Rightarrow> nat \<Rightarrow> nat \<Rightarrow> string \<Rightarrow> string" where
  "recode_loop acc need lo hi [] = (if need = 0 then [] else REPLACEMENT)"
| "recode_loop acc need lo hi (b # bs) =
     (if need = 0 then
        (if code b \<le> 127 then b # recode_loop [] 0 128 191 bs
         else if 194 \<le> code b \<and> code b \<le> 223 then recode_loop [b] 1 128 191 bs
         else if 224 \<le> code b \<and> code b \<le> 239 then
           recode_loop [b] 2 (if code b = 224 then 160 else 128) (if code b = 237 then 159 else 191) bs
         else if 240 \<le> code b \<and> code b \<le> 244 then
           recode_loop [b] 3 (if code b = 240 then 144 else 128) (if code b = 244 then 143 else 191) bs
         else REPLACEMENT @ recode_loop [] 0 128 191 bs)
      else if \<not> (lo \<le> code b \<and> code b \<le> hi) then REPLACEMENT @ recode_loop [] 0 128 191 (b # bs)
      else if need = 1 then acc @ [b] @ recode_loop [] 0 128 191 bs
      else recode_loop (acc @ [b]) (need - 1) 128 191 bs)"
  by pat_completeness auto
termination
  by (relation "measure (\<lambda>(acc, need, lo, hi, bs). 2 * length bs + (if need = 0 then 0 else 1))") auto

declare recode_loop.simps(2) [simp del]

definition utf8_recode :: "string \<Rightarrow> string" where
  "utf8_recode bytes = recode_loop [] 0 128 191 (if take 3 bytes = BOM then drop 3 bytes else bytes)"

section \<open>Encoded text\<close>

text \<open>The UTF-8 encoding of a scalar value.\<close>

definition encode_point :: "nat \<Rightarrow> string" where
  "encode_point p =
     (if p < 128 then [byte p]
      else if p < 2048 then map byte [192 + p div 64, 128 + p mod 64]
      else if p < 65536 then map byte [224 + p div 4096, 128 + p div 64 mod 64, 128 + p mod 64]
      else map byte [240 + p div 262144, 128 + p div 4096 mod 64, 128 + p div 64 mod 64, 128 + p mod 64])"

definition scalar :: "nat \<Rightarrow> bool" where
  "scalar p \<longleftrightarrow> p < 1114112 \<and> \<not> (55296 \<le> p \<and> p < 57344)"

definition utf8_encode :: "nat list \<Rightarrow> string" where
  "utf8_encode ps = concat (map encode_point ps)"

lemma code_byte [simp]: "n < 256 \<Longrightarrow> code (byte n) = n"
  by (simp add: byte_def)

lemma recode_ascii: "code b \<le> 127 \<Longrightarrow> recode_loop [] 0 128 191 (b # bs) = b # recode_loop [] 0 128 191 bs"
  by (simp add: recode_loop.simps(2))

lemma recode_next:
  "need \<noteq> 0 \<Longrightarrow> lo \<le> code b \<Longrightarrow> code b \<le> hi \<Longrightarrow>
   recode_loop acc need lo hi (b # bs) =
     (if need = 1 then acc @ [b] @ recode_loop [] 0 128 191 bs else recode_loop (acc @ [b]) (need - 1) 128 191 bs)"
  by (simp add: recode_loop.simps(2))

text \<open>The first continuation byte of a scalar value lies within the bounds its leading byte sets.\<close>

lemma split64: "(n::nat) = 64 * (n div 64) + n mod 64" "n mod 64 < 64"
  by simp_all

lemma lead3:
  fixes p :: nat
  assumes "scalar p" and "2048 \<le> p" and "p < 65536"
  shows "224 + p div 4096 \<le> 239" and "p div 4096 = 0 \<Longrightarrow> 32 \<le> p div 64 mod 64" and "p div 4096 = 13 \<Longrightarrow> p div 64 mod 64 < 32"
proof -
  define q where "q = p div 64"
  have q: "32 \<le> q" "q < 1024" "\<not> (864 \<le> q \<and> q < 896)" and d: "p div 4096 = q div 64"
    using assms by (auto simp: q_def scalar_def div_mult2_eq [symmetric])
  show "224 + p div 4096 \<le> 239" "p div 4096 = 0 \<Longrightarrow> 32 \<le> p div 64 mod 64" "p div 4096 = 13 \<Longrightarrow> p div 64 mod 64 < 32"
    using q split64 [of q] unfolding d q_def [symmetric] by linarith+
qed

lemma lead4:
  fixes p :: nat
  assumes "65536 \<le> p" and "p < 1114112"
  shows "240 + p div 262144 \<le> 244" and "p div 262144 = 0 \<Longrightarrow> 16 \<le> p div 4096 mod 64" and "p div 262144 = 4 \<Longrightarrow> p div 4096 mod 64 < 16"
proof -
  define q where "q = p div 4096"
  have q: "16 \<le> q" "q < 272" and d: "p div 262144 = q div 64"
    using assms by (auto simp: q_def div_mult2_eq [symmetric])
  show "240 + p div 262144 \<le> 244" "p div 262144 = 0 \<Longrightarrow> 16 \<le> p div 4096 mod 64" "p div 262144 = 4 \<Longrightarrow> p div 4096 mod 64 < 16"
    using q split64 [of q] unfolding d q_def [symmetric] by linarith+
qed

lemma recode_lead:
  "194 \<le> n \<Longrightarrow> n \<le> 223 \<Longrightarrow> recode_loop [] 0 128 191 (byte n # bs) = recode_loop [byte n] 1 128 191 bs"
  "224 \<le> n \<Longrightarrow> n \<le> 239 \<Longrightarrow> recode_loop [] 0 128 191 (byte n # bs) =
     recode_loop [byte n] 2 (if n = 224 then 160 else 128) (if n = 237 then 159 else 191) bs"
  "240 \<le> n \<Longrightarrow> n \<le> 244 \<Longrightarrow> recode_loop [] 0 128 191 (byte n # bs) =
     recode_loop [byte n] 3 (if n = 240 then 144 else 128) (if n = 244 then 143 else 191) bs"
  by (simp_all add: recode_loop.simps(2))

lemma recode_point:
  assumes "scalar p"
  shows "recode_loop [] 0 128 191 (encode_point p @ bs) = encode_point p @ recode_loop [] 0 128 191 bs"
proof -
  have m: "p mod 64 < 64" "p div 64 mod 64 < 64" "p div 4096 mod 64 < 64" by simp_all
  consider "p < 128" | "128 \<le> p" "p < 2048" | "2048 \<le> p" "p < 65536" | "65536 \<le> p" "p < 1114112"
    using assms by (fastforce simp: scalar_def not_less)
  then show ?thesis
  proof cases
    case 1
    then show ?thesis by (simp add: encode_point_def recode_ascii)
  next
    case 2
    then have "194 \<le> 192 + p div 64" "192 + p div 64 \<le> 223" by auto
    with 2 m show ?thesis by (simp add: encode_point_def recode_lead(1) recode_next)
  next
    case 3
    note l = lead3 [OF assms 3]
    then have "(if 224 + p div 4096 = 224 then 160 else 128) \<le> 128 + p div 64 mod 64"
      "128 + p div 64 mod 64 \<le> (if 224 + p div 4096 = 237 then 159 else 191)" using m by auto
    with 3 l(1) m show ?thesis by (simp add: encode_point_def recode_lead(2) recode_next del: if_split)
  next
    case 4
    note l = lead4 [OF 4]
    then have "(if 240 + p div 262144 = 240 then 144 else 128) \<le> 128 + p div 4096 mod 64"
      "128 + p div 4096 mod 64 \<le> (if 240 + p div 262144 = 244 then 143 else 191)" using m by auto
    with 4 l(1) m show ?thesis by (simp add: encode_point_def recode_lead(3) recode_next del: if_split)
  qed
qed

lemma recode_encoded: "list_all scalar ps \<Longrightarrow> recode_loop [] 0 128 191 (utf8_encode ps) = utf8_encode ps"
  by (induction ps) (simp_all add: utf8_encode_def recode_point)

text \<open>Text that does not start with a byte order mark survives; ASCII is such text.\<close>

lemma recode_text: "list_all scalar ps \<Longrightarrow> take 3 (utf8_encode ps) \<noteq> BOM \<Longrightarrow> utf8_recode (utf8_encode ps) = utf8_encode ps"
  by (simp add: utf8_recode_def recode_encoded)

lemma recode_ascii_text: "list_all (\<lambda>c. code c \<le> 127) bytes \<Longrightarrow> utf8_recode bytes = bytes"
proof -
  assume a: "list_all (\<lambda>c. code c \<le> 127) bytes"
  then have "take 3 bytes \<noteq> BOM" by (cases bytes) (auto simp: BOM_def)
  moreover have "recode_loop [] 0 128 191 bytes = bytes" using a by (induction bytes) (simp_all add: recode_ascii)
  ultimately show ?thesis by (simp add: utf8_recode_def)
qed

end
