(* ===== verification/Webhook_Relay.thy ===== *)
theory Webhook_Relay
  imports Webhook_Properties Utf8_Relay
begin

text \<open>
  The two other ends of the escrow-status webhook: \<open>app/webhooks/escrow-status/route.ts\<close> of the
  frontend, which passes deliveries on to the backend, and \<open>scripts/simulate-webhook.ts\<close>, which builds
  and signs deliveries. The network and \<open>JSON.parse\<close> are parameters.
\<close>

section \<open>Deliveries\<close>

text \<open>The headers of a request by their lower-case names.\<close>

type_synonym headers = "string \<Rightarrow> string option"

text \<open>
  The backend behind \<open>express.json\<close>: the raw bytes are kept, and a body that does not parse is answered
  by the error handler with \<open>bad\<close>. The delivery declares JSON.
\<close>

definition webhook_request_of :: "headers \<Rightarrow> string \<Rightarrow> json \<Rightarrow> webhook_request" where
  "webhook_request_of hs bytes body =
     \<lparr>wr_tw_signature = map_option HStr (hs ''x-trustless-work-signature''),
      wr_webhook_signature = map_option HStr (hs ''x-webhook-signature''),
      wr_signature = map_option HStr (hs ''x-signature''),
      wr_rawBody = Some bytes, wr_body = Some body\<rparr>"

type_synonym 's endpoint = "headers \<Rightarrow> string \<Rightarrow> 's \<Rightarrow> webhook_reply_body reply \<times> 's"

definition backend_endpoint ::
  "hmac \<Rightarrow> 'w hasura \<Rightarrow> env \<Rightarrow> string option \<Rightarrow> 'w notifier \<Rightarrow> (string \<Rightarrow> json option) \<Rightarrow> webhook_reply_body reply \<Rightarrow> int \<Rightarrow>
   (processed \<times> 'w) endpoint" where
  "backend_endpoint hmac server env amb notify parse bad now hs bytes s =
     (case parse bytes of
        None \<Rightarrow> (bad, s)
      | Some body \<Rightarrow> escrow_status_webhook hmac server env amb notify now (webhook_request_of hs bytes body) s)"

section \<open>The pass-through\<close>

definition SIGNATURE_HEADERS :: "string list" where
  "SIGNATURE_HEADERS = [''x-trustless-work-signature'', ''x-webhook-signature'', ''x-signature'']"

text \<open>What becomes of the forwarded request: an answer, one that is no JSON, none after or before it was handled.\<close>

datatype fate = Answered | Garbled | AnswerLost | NotReached

datatype relay_body = RelayError string | Relayed webhook_reply_body

definition relay :: "string option \<Rightarrow> fate \<Rightarrow> 's endpoint \<Rightarrow> headers \<Rightarrow> string \<Rightarrow> 's \<Rightarrow> relay_body reply \<times> 's" where
  "relay backendUrl fate backend hs bytes s =
     (if \<not> truthy backendUrl then (Reply 500 (RelayError ''Missing BACKEND_URL''), s)
      else (case find (\<lambda>n. hs n \<noteq> None) SIGNATURE_HEADERS of
          None \<Rightarrow> (Reply 401 (RelayError ''Missing webhook signature header''), s)
        | Some signatureHeader \<Rightarrow>
            (let forwarded = (\<lambda>n. if n = signatureHeader then hs n else None);
                 (answer, s') = backend forwarded (utf8_recode bytes) s
             in case fate of
                  Answered \<Rightarrow> (Reply (r_status answer) (Relayed (r_body answer)), s')
                | Garbled \<Rightarrow> (Reply (r_status answer) (RelayError ''Invalid response from escrow status service''), s')
                | AnswerLost \<Rightarrow> (Reply 502 (RelayError ''Failed to reach escrow status service''), s')
                | NotReached \<Rightarrow> (Reply 502 (RelayError ''Failed to reach escrow status service''), s))))"

section \<open>The simulator\<close>

record sim_flags =
  sf_status :: string
  sf_contractId :: string
  sf_engagementId :: string
  sf_amount :: string
  sf_currency :: string
  sf_recipientEmail :: string
  sf_recipientName :: string
  sf_role :: string
  sf_url :: string
  sf_secret :: string
  sf_duplicate :: bool

definition sim_secret :: "sim_flags \<Rightarrow> string option \<Rightarrow> string" where
  "sim_secret f env_secret =
     (if sf_secret f \<noteq> [] then sf_secret f else if truthy env_secret then the env_secret else ''dev-secret'')"

definition sim_endpoint :: "sim_flags \<Rightarrow> string option \<Rightarrow> string option \<Rightarrow> string" where
  "sim_endpoint f url port =
     (if sf_url f \<noteq> [] then sf_url f else if truthy url then the url
      else ''http://localhost:'' @ (case port of None \<Rightarrow> ''4000'' | Some p \<Rightarrow> p) @ ''/webhooks/escrow-status'')"

text \<open>The payload; \<open>rnd\<close> is the random part of a fresh event id.\<close>

definition sim_payload :: "sim_flags \<Rightarrow> string \<Rightarrow> json" where
  "sim_payload f rnd = JObj
     ([(''eventId'', JStr (if sf_duplicate f then ''sim-event-fixed-dedup-key'' else ''sim-event-'' @ rnd)),
       (''contractId'', JStr (sf_contractId f))]
      @ (if sf_engagementId f \<noteq> [] then [(''engagementId'', JStr (sf_engagementId f))] else [])
      @ [(''status'', JStr (sf_status f)), (''amount'', JStr (sf_amount f)), (''currency'', JStr (sf_currency f)),
         (''recipientEmail'', JStr (sf_recipientEmail f)), (''recipientName'', JStr (sf_recipientName f)),
         (''role'', JStr (sf_role f))])"

definition sim_sign :: "hmac \<Rightarrow> string \<Rightarrow> string \<Rightarrow> string" where
  "sim_sign hmac body secret = ''sha256='' @ hmac secret body"

definition sim_headers :: "hmac \<Rightarrow> string \<Rightarrow> string \<Rightarrow> headers" where
  "sim_headers hmac secret body = [''content-type'' \<mapsto> ''application/json'',
     ''x-trustless-work-signature'' \<mapsto> sim_sign hmac body secret]"

text \<open>
  \<open>main\<close>: one delivery, and a second one of the same body when asked for; the exit code and the replies.
  The two deliveries reach the backend at two times.
\<close>

definition simulate ::
  "hmac \<Rightarrow> string \<Rightarrow> string \<Rightarrow> bool \<Rightarrow> 's endpoint \<Rightarrow> 's endpoint \<Rightarrow> 's \<Rightarrow> nat \<times> webhook_reply_body reply list \<times> 's" where
  "simulate hmac secret body duplicate first second s =
     (let hs = sim_headers hmac secret body; (r1, s1) = first hs body s in
      if r_status r1 \<noteq> 200 then (1, [r1], s1)
      else if \<not> duplicate then (0, [r1], s1)
      else (let (r2, s2) = second hs body s1 in (if r_status r2 \<noteq> 200 then 1 else 0, [r1, r2], s2)))"

section \<open>What the pass-through guarantees\<close>

lemma admit_signature:
  "getSignatureHeader r = getSignatureHeader r' \<Longrightarrow> wr_rawBody r = wr_rawBody r' \<Longrightarrow> wr_body r = wr_body r' \<Longrightarrow>
   escrow_status_webhook hmac server env amb notify now r s = escrow_status_webhook hmac server env amb notify now r' s"
  by (simp only: escrow_status_webhook_def webhook_admit_def)

lemma forwarded_signature:
  assumes "find (\<lambda>n. hs n \<noteq> None) SIGNATURE_HEADERS = Some n" and "hs n \<noteq> Some []"
  shows "getSignatureHeader (webhook_request_of (\<lambda>m. if m = n then hs m else None) bytes body)
     = getSignatureHeader (webhook_request_of hs bytes body)"
  using assms
  by (auto simp: SIGNATURE_HEADERS_def getSignatureHeader_def webhook_request_of_def header_truthy_def
      split: if_splits option.splits)

lemma relay_forwards:
  assumes "truthy url" and "find (\<lambda>n. hs n \<noteq> None) SIGNATURE_HEADERS = Some n" and "hs n \<noteq> Some []"
    and "utf8_recode bytes = bytes"
    and "backend_endpoint hmac server env amb notify parse bad now hs bytes s = (r, s')"
  shows "relay url fate (backend_endpoint hmac server env amb notify parse bad now) hs bytes s =
     (case fate of
        Answered \<Rightarrow> (Reply (r_status r) (Relayed (r_body r)), s')
      | Garbled \<Rightarrow> (Reply (r_status r) (RelayError ''Invalid response from escrow status service''), s')
      | AnswerLost \<Rightarrow> (Reply 502 (RelayError ''Failed to reach escrow status service''), s')
      | NotReached \<Rightarrow> (Reply 502 (RelayError ''Failed to reach escrow status service''), s))"
proof -
  have "backend_endpoint hmac server env amb notify parse bad now (\<lambda>m. if m = n then hs m else None) bytes s = (r, s')"
  proof (cases "parse bytes")
    case None
    then show ?thesis using assms(5) by (simp add: backend_endpoint_def)
  next
    case (Some body)
    then show ?thesis using Some assms(5) admit_signature [OF forwarded_signature [OF assms(2,3), of bytes body],
          where hmac = hmac and server = server and env = env and amb = amb and notify = notify and now = now and s = s]
      by (simp add: backend_endpoint_def webhook_request_of_def)
  qed
  then show ?thesis using assms(1,2,4) by (simp add: relay_def split: fate.split)
qed

text \<open>
  C20: A delivery through the frontend is a delivery to the backend. When the first signature header that
  is present is not empty and the body is UTF-8 text without a byte order mark, the pass-through answers
  with the status and the body of the backend's own reply to that delivery and leaves the backend in the
  state the direct delivery leaves it in: no signature is lost, no byte changes, no error is hidden.
\<close>

theorem relay_transparent:
  assumes "truthy url" and "find (\<lambda>n. hs n \<noteq> None) SIGNATURE_HEADERS = Some n" and "hs n \<noteq> Some []"
    and "list_all scalar ps" and "take 3 (utf8_encode ps) \<noteq> BOM"
  shows "relay url Answered (backend_endpoint hmac server env amb notify parse bad now) hs (utf8_encode ps) s =
    (case backend_endpoint hmac server env amb notify parse bad now hs (utf8_encode ps) s of
       (r, s') \<Rightarrow> (Reply (r_status r) (Relayed (r_body r)), s'))"
  using relay_forwards [OF assms(1-3) recode_text [OF assms(4,5)], of hmac server env amb notify parse bad now s]
  by (cases "backend_endpoint hmac server env amb notify parse bad now hs (utf8_encode ps) s") simp

text \<open>
  A delivery whose answer is lost is not lost and not repeated. The backend handled it, the sender is
  answered 502 and delivers again: within 24 hours and with fewer than 10,000 deliveries in between the
  repetition is acknowledged as a duplicate without a status write or a notification.
\<close>

theorem relay_lost_answer_retried:
  assumes "truthy url" and "find (\<lambda>n. hs n \<noteq> None) SIGNATURE_HEADERS = Some n" and "hs n \<noteq> Some []"
    and "utf8_recode bytes = bytes" and "jm_wf (fst s)"
    and "backend_endpoint hmac server env amb notify parse bad t0 hs bytes s = (Reply 200 (WhSynced c g st rows ns), s1)"
    and "length ds < PROCESSED_EVENT_MAX" and "\<forall>(u, r) \<in> set ds. u \<le> t0 + PROCESSED_EVENT_TTL_MS"
    and "t \<le> t0 + PROCESSED_EVENT_TTL_MS" and "bad \<noteq> Reply 200 (WhSynced c g st rows ns)"
  shows "let backend = backend_endpoint hmac server env amb notify parse bad;
             (lost, s') = relay url AnswerLost (backend t0) hs bytes s;
             between = webhook_run hmac server env amb notify ds s';
             (again, s'') = relay url Answered (backend t) hs bytes between
         in lost = Reply 502 (RelayError ''Failed to reach escrow status service'')
            \<and> again = Reply 200 (Relayed (WhDuplicate c st)) \<and> snd s'' = snd between"
proof -
  let ?backend = "backend_endpoint hmac server env amb notify parse bad"
  let ?between = "webhook_run hmac server env amb notify ds s1"
  obtain body where b: "parse bytes = Some body"
    using assms(6,10) by (cases "parse bytes") (auto simp: backend_endpoint_def)
  then have "escrow_status_webhook hmac server env amb notify t0 (webhook_request_of hs bytes body) s
      = (Reply 200 (WhSynced c g st rows ns), s1)"
    using assms(6) by (simp add: backend_endpoint_def)
  from processed_replayed [OF assms(5) this assms(7,8,9)] b
  obtain p where "?backend t hs bytes ?between = (Reply 200 (WhDuplicate c st), (p, snd ?between))"
    by (auto simp: backend_endpoint_def)
  note again = relay_forwards [OF assms(1-4) this, of Answered]
  show ?thesis
    using again relay_forwards [OF assms(1-4,6), of AnswerLost] by (simp add: Let_def)
qed

text \<open>The signed delivery of before, with its signature in another header.\<close>

definition sample_headers :: headers where "sample_headers = [''x-signature'' \<mapsto> ''sha256=whsecBODY'']"

definition sample_parse :: "string \<Rightarrow> json option" where "sample_parse bytes = wr_body sample_delivery"

definition sample_backend :: "int \<Rightarrow> (processed \<times> nat) endpoint" where
  "sample_backend = backend_endpoint sample_hmac sample_hasura sample_webhook_env None sample_notifier sample_parse
     (Reply 400 (WhError ''Invalid JSON''))"

lemma sample_text: "utf8_encode [66, 79, 68, 89] = ''BODY''"
  by (simp add: utf8_encode_def encode_point_def byte_def char_of_def bit_iff_odd)

lemma sample_header: "find (\<lambda>n. sample_headers n \<noteq> None) SIGNATURE_HEADERS = Some ''x-signature''"
  by (simp add: sample_headers_def SIGNATURE_HEADERS_def)

lemma sample_signed: "sample_headers ''x-signature'' \<noteq> Some []"
  by (simp add: sample_headers_def)

lemma sample_backend_first:
  "sample_backend 5 sample_headers ''BODY'' ([], 0)
     = (Reply 200 (WhSynced ''C1'' ''C1'' (Mapped ''released'') (JNum (Fin 1)) (Some JNull)), ([(''ev1'', 5)], 101))"
proof -
  have "escrow_status_webhook sample_hmac sample_hasura sample_webhook_env None sample_notifier 5
      (webhook_request_of sample_headers ''BODY'' (the (wr_body sample_delivery))) ([], 0)
    = escrow_status_webhook sample_hmac sample_hasura sample_webhook_env None sample_notifier 5 sample_delivery ([], 0)"
    by (rule admit_signature)
      (simp_all add: webhook_request_of_def sample_delivery_def sample_headers_def getSignatureHeader_def header_truthy_def)
  moreover have "sample_parse ''BODY'' = Some (the (wr_body sample_delivery))"
    by (simp add: sample_parse_def sample_delivery_def)
  ultimately show ?thesis by (simp add: sample_backend_def backend_endpoint_def sample_first)
qed

theorem relay_transparent_witness:
  "relay (Some ''https://api'') Answered (sample_backend 5) sample_headers ''BODY'' ([], 0)
     = (Reply 200 (Relayed (WhSynced ''C1'' ''C1'' (Mapped ''released'') (JNum (Fin 1)) (Some JNull))), ([(''ev1'', 5)], 101))"
proof -
  have "list_all scalar [66, 79, 68, 89]" "take 3 (utf8_encode [66, 79, 68, 89]) \<noteq> BOM"
    by (simp_all add: scalar_def sample_text BOM_def byte_def char_of_def bit_iff_odd)
  from relay_transparent [OF _ sample_header sample_signed this, of "Some ''https://api''" sample_hmac sample_hasura
      sample_webhook_env None sample_notifier sample_parse "Reply 400 (WhError ''Invalid JSON'')" 5 "([], 0)"]
  show ?thesis
    using sample_backend_first by (simp add: sample_text sample_backend_def)
qed

theorem relay_lost_answer_retried_witness:
  "\<exists>s' s''. relay (Some ''https://api'') AnswerLost (sample_backend 5) sample_headers ''BODY'' ([], 0)
       = (Reply 502 (RelayError ''Failed to reach escrow status service''), s')
     \<and> relay (Some ''https://api'') Answered (sample_backend 9) sample_headers ''BODY'' s'
       = (Reply 200 (Relayed (WhDuplicate ''C1'' (Mapped ''released''))), s'') \<and> snd s'' = snd s'"
proof -
  have a: "utf8_recode ''BODY'' = ''BODY''" by (rule recode_ascii_text) simp
  obtain l s' where 1: "relay (Some ''https://api'') AnswerLost (sample_backend 5) sample_headers ''BODY'' ([], 0) = (l, s')"
    using prod.exhaust by blast
  obtain r s'' where 2: "relay (Some ''https://api'') Answered (sample_backend 9) sample_headers ''BODY'' s' = (r, s'')"
    using prod.exhaust by blast
  show ?thesis
    using relay_lost_answer_retried [OF _ sample_header sample_signed a _ sample_backend_first [unfolded sample_backend_def],
        of "Some ''https://api''" "[]" 9] 1 2
    by (cases s'') (simp add: sample_backend_def webhook_run_def PROCESSED_EVENT_MAX_def PROCESSED_EVENT_TTL_MS_def)
qed

section \<open>What the simulator's deliveries meet\<close>

text \<open>The requests of the simulator carry a valid signature, so only the payload decides.\<close>

lemma sim_signature: "getSignatureHeader (webhook_request_of (sim_headers hmac secret bytes) bytes body) = Some (sim_sign hmac bytes secret)"
  by (simp add: getSignatureHeader_def webhook_request_of_def sim_headers_def header_truthy_def sim_sign_def)

lemma sim_verified: "verifySignature hmac bytes (sim_sign hmac bytes secret) secret"
  by (simp add: verifySignature_def sim_sign_def normalizeSignature_def startsWith_def)

lemma sim_event: "getEventId hmac (sim_payload f rnd) raw =
    (if sf_duplicate f then ''sim-event-fixed-dedup-key'' else ''sim-event-'' @ rnd)"
  by (simp add: getEventId_def sim_payload_def)

definition sim_status :: "sim_flags \<Rightarrow> mapped option" where
  "sim_status f = (if sf_contractId f = [] \<or> sf_status f = [] then None else status_lookup (toLowerCase (sf_status f)))"

definition sim_job :: "sim_flags \<Rightarrow> string \<Rightarrow> mapped \<Rightarrow> webhook_job" where
  "sim_job f rnd st =
     \<lparr>wj_contractId = sf_contractId f,
      wj_engagementId = (if sf_engagementId f = [] then sf_contractId f else sf_engagementId f),
      wj_status = st,
      wj_eventId = (if sf_duplicate f then ''sim-event-fixed-dedup-key'' else ''sim-event-'' @ rnd),
      wj_body = sim_payload f rnd\<rparr>"

lemma required_string_JStr: "required_string (Some (JStr s)) = (if s = [] then None else Some s)"
  by (cases s) simp_all

lemma sim_admitted:
  assumes "env_get env ''TRUSTLESS_WORK_WEBHOOK_SECRET'' = Some secret" and "secret \<noteq> []"
    and "sim_status f = Some st"
  shows "webhook_admit hmac env now (webhook_request_of (sim_headers hmac secret bytes) bytes (sim_payload f rnd)) m =
     (if jm_has (pruneProcessedEvents now m) (wj_eventId (sim_job f rnd st))
      then Inl (Reply 200 (WhDuplicate (sf_contractId f) st)) else Inr (sim_job f rnd st), pruneProcessedEvents now m)"
proof -
  have p: "json_prop (sim_payload f rnd) ''contractId'' = Some (JStr (sf_contractId f))"
    "json_prop (sim_payload f rnd) ''status'' = Some (JStr (sf_status f))"
    "json_prop (sim_payload f rnd) ''engagementId'' = (if sf_engagementId f = [] then None else Some (JStr (sf_engagementId f)))"
    "js_truthy (Some (sim_payload f rnd))"
    by (simp_all add: sim_payload_def)
  have r: "wr_rawBody (webhook_request_of hs bytes b) = Some bytes" "wr_body (webhook_request_of hs bytes b) = Some b" for hs b
    by (simp_all add: webhook_request_of_def)
  show ?thesis
    using assms sim_verified [of hmac bytes secret]
    by (simp add: webhook_admit_def sim_signature r p sim_event required_string_JStr sim_status_def sim_job_def Let_def
        split: if_splits)
       (simp add: sim_sign_def)
qed

text \<open>
  The simulator tells whether the webhook works. Against a backend with the simulator's secret, the
  simulation of a new event with a contract and a known status is never refused for its signature or its
  payload: it ends with code 0 exactly when the status write succeeds, the status is written and notified
  once, and a duplicate sent within 24 hours is acknowledged as such without any effect.
\<close>

theorem simulation_exact:
  assumes "env_get env ''TRUSTLESS_WORK_WEBHOOK_SECRET'' = Some secret" and "secret \<noteq> []"
    and "sim_status f = Some st" and "parse bytes = Some (sim_payload f rnd)" and "jm_wf (fst s)"
    and "\<not> jm_has (fst s) (wj_eventId (sim_job f rnd st))" and "t2 \<le> t1 + PROCESSED_EVENT_TTL_MS"
  shows "let backend = backend_endpoint hmac server env amb notify parse bad;
             (exit_code, replies, s') = simulate hmac secret bytes (sf_duplicate f) (backend t1) (backend t2) s;
             (written, w) = updateEscrowStatus server env amb (sf_contractId f) (status_variable st) (snd s);
             (note, w') = webhook_notify notify (sim_job f rnd st) w
         in (case written of
               Inl _ \<Rightarrow> exit_code = 1 \<and> replies = [Reply 500 (WhError ''Failed to sync escrow status'')] \<and> snd s' = w
             | Inr rows \<Rightarrow> exit_code = 0 \<and> snd s' = w'
                 \<and> replies = Reply 200 (WhSynced (sf_contractId f) (wj_engagementId (sim_job f rnd st)) st rows note)
                     # (if sf_duplicate f then [Reply 200 (WhDuplicate (sf_contractId f) st)] else []))"
proof -
  let ?hs = "sim_headers hmac secret bytes" and ?j = "sim_job f rnd st"
  let ?req = "webhook_request_of ?hs bytes (sim_payload f rnd)" and ?p = "pruneProcessedEvents t1 (fst s)"
  obtain p0 w0 where s: "s = (p0, w0)" by (cases s)
  have bk: "backend_endpoint hmac server env amb notify parse bad t ?hs bytes u =
      escrow_status_webhook hmac server env amb notify t ?req u" for t u
    using assms(4) by (simp add: backend_endpoint_def)
  note admit = sim_admitted [OF assms(1-3), of hmac _ bytes rnd]
  have j: "wj_contractId ?j = sf_contractId f" "wj_status ?j = st" by (simp_all add: sim_job_def)
  have new: "\<not> jm_has ?p (wj_eventId ?j)"
    using assms(5,6) in_set_dropD by (fastforce simp: jm_has_def jm_get_def map_of_eq_None_iff prune_eq)
  obtain written w where u: "updateEscrowStatus server env amb (sf_contractId f) (status_variable st) (snd s) = (written, w)"
    by (cases "updateEscrowStatus server env amb (sf_contractId f) (status_variable st) (snd s)")
  obtain nt w' where n: "webhook_notify notify ?j w = (nt, w')" by (cases "webhook_notify notify ?j w")
  have first: "escrow_status_webhook hmac server env amb notify t1 ?req s = webhook_finish notify t1 ?j written (?p, w)"
    using new u j by (simp add: escrow_status_webhook_def admit)
  show ?thesis
  proof (cases written)
    case (Inl e)
    then show ?thesis using first u n by (simp add: simulate_def bk webhook_finish_def Let_def)
  next
    case (Inr rows)
    let ?first = "Reply 200 (WhSynced (sf_contractId f) (wj_engagementId ?j) st rows nt)"
    have 1: "escrow_status_webhook hmac server env amb notify t1 ?req s = (?first, (jm_set ?p (wj_eventId ?j) t1, w'))"
      using first Inr n j by (simp add: webhook_finish_def)
    have "\<exists>p. escrow_status_webhook hmac server env amb notify t2 ?req (jm_set ?p (wj_eventId ?j) t1, w')
        = (Reply 200 (WhDuplicate (sf_contractId f) st), (p, w'))"
      using processed_replayed [OF assms(5) 1, of "[]" t2] assms(7) by (simp add: webhook_run_def PROCESSED_EVENT_MAX_def)
    then obtain p where 2: "escrow_status_webhook hmac server env amb notify t2 ?req (jm_set ?p (wj_eventId ?j) t1, w')
        = (Reply 200 (WhDuplicate (sf_contractId f) st), (p, w'))" by blast
    show ?thesis using 1 2 u n Inr by (simp add: simulate_def bk Let_def)
  qed
qed

definition sample_flags :: sim_flags where
  "sample_flags = \<lparr>sf_status = ''funded'', sf_contractId = ''C1'', sf_engagementId = [], sf_amount = ''150.00'',
     sf_currency = ''USDC'', sf_recipientEmail = ''buyer@example.com'', sf_recipientName = ''Alice Buyer'',
     sf_role = ''buyer'', sf_url = [], sf_secret = ''whsec'', sf_duplicate = True\<rparr>"

definition sample_simulated :: "int \<Rightarrow> (processed \<times> nat) endpoint" where
  "sample_simulated = backend_endpoint sample_hmac sample_hasura sample_webhook_env None sample_notifier
     (\<lambda>_. Some (sim_payload sample_flags [])) (Reply 400 (WhError ''Invalid JSON''))"

theorem simulation_exact_witness:
  "\<exists>s'. simulate sample_hmac ''whsec'' ''P'' True (sample_simulated 5) (sample_simulated 9) ([], 0)
     = (0, [Reply 200 (WhSynced ''C1'' ''C1'' (Mapped ''funded'') (JNum (Fin 1)) (Some JNull)),
            Reply 200 (WhDuplicate ''C1'' (Mapped ''funded''))], s') \<and> snd s' = 101"
proof -
  have "toLowerCase ''funded'' = ''funded''" by code_simp
  then have st: "sim_status sample_flags = Some (Mapped ''funded'')"
    by (simp add: sim_status_def sample_flags_def status_lookup_def STATUS_MAP_def)
  have e: "env_get sample_webhook_env ''TRUSTLESS_WORK_WEBHOOK_SECRET'' = Some ''whsec''"
    by (simp add: env_get_def sample_webhook_env_def)
  have f: "sf_duplicate sample_flags" "sf_contractId sample_flags = ''C1''"
    "wj_engagementId (sim_job sample_flags [] st) = ''C1''" for st
    by (simp_all add: sample_flags_def sim_job_def)
  obtain c rs s' where r: "simulate sample_hmac ''whsec'' ''P'' True (sample_simulated 5) (sample_simulated 9) ([], 0) = (c, rs, s')"
    using prod_cases3 by blast
  show ?thesis
    using simulation_exact [OF e _ st, of "\<lambda>_. Some (sim_payload sample_flags [])" "''P''" "[]" "([], 0)" 9 5
        sample_hmac sample_hasura None sample_notifier "Reply 400 (WhError ''Invalid JSON'')"] r
    by (simp add: f sample_update webhook_notify_def sample_notifier_def jm_has_def PROCESSED_EVENT_TTL_MS_def
        sample_simulated_def)
qed

end
