(* ===== verification/Server_Api.thy ===== *)
theory Server_Api
  imports Http_Input Utf8_Relay Client_Helpers
begin

text \<open>
  The server side of the frontend: the schemas of \<open>lib/server/validation.ts\<close>, the routes under
  \<open>app/api\<close> that check a request and pass it on to the backend, and the public status lookup of
  \<open>lib/server/hasura.ts\<close>. \<open>fetch\<close> and zod's e-mail format are parameters.
\<close>

section \<open>Schemas\<close>

type_synonym issue = "string \<times> string"

fun json_type :: "json \<Rightarrow> string" where
  "json_type JNull = ''null''"
| "json_type (JBool b) = ''boolean''"
| "json_type (JNum x) = ''number''"
| "json_type (JStr s) = ''string''"
| "json_type (JArr xs) = ''array''"
| "json_type (JObj ps) = ''object''"

text \<open>\<open>z.object\<close>: the input must be an object; \<open>None\<close> is \<open>undefined\<close>.\<close>

definition object_schema :: "json option \<Rightarrow> (json \<Rightarrow> issue list + 'a) \<Rightarrow> issue list + 'a" where
  "object_schema input k = (case input of
       None \<Rightarrow> Inl [([], ''Required'')]
     | Some (JObj ps) \<Rightarrow> k (JObj ps)
     | Some j \<Rightarrow> Inl [([], ''Expected object, received '' @ json_type j)])"

definition string_field :: "string \<Rightarrow> json option \<Rightarrow> (string \<Rightarrow> string list) \<Rightarrow> issue list" where
  "string_field name v checks = (case v of
       None \<Rightarrow> [(name, ''Required'')]
     | Some (JStr s) \<Rightarrow> map (Pair name) (checks s)
     | Some j \<Rightarrow> [(name, ''Expected string, received '' @ json_type j)])"

definition text_of :: "json option \<Rightarrow> string" where
  "text_of v = (case v of Some (JStr s) \<Rightarrow> s | _ \<Rightarrow> [])"

definition checked :: "issue list \<Rightarrow> 'a \<Rightarrow> issue list + 'a" where
  "checked issues a = (if issues = [] then Inr a else Inl issues)"

definition forgotPasswordSchema :: "(string \<Rightarrow> bool) \<Rightarrow> json option \<Rightarrow> issue list + string" where
  "forgotPasswordSchema email_ok input = object_schema input (\<lambda>j.
     let v = json_prop j ''email'' in
     checked (string_field ''email'' v (\<lambda>s. let t = trim s in
         (if t = [] then [''Email is required''] else []) @ (if email_ok t then [] else [''Invalid email address''])))
       (trim (text_of v)))"

definition token_issues :: "json option \<Rightarrow> issue list" where
  "token_issues v = string_field ''token'' v (\<lambda>s. if s = [] then [''Token is required''] else [])"

definition resetPasswordSchema :: "json option \<Rightarrow> issue list + string \<times> string" where
  "resetPasswordSchema input = object_schema input (\<lambda>j.
     let t = json_prop j ''token''; p = json_prop j ''newPassword'' in
     checked (token_issues t @ string_field ''newPassword'' p
         (\<lambda>s. if length s < 8 then [''Password must be at least 8 characters''] else []))
       (text_of t, text_of p))"

definition validateResetTokenSchema :: "json option \<Rightarrow> issue list + string" where
  "validateResetTokenSchema input = object_schema input (\<lambda>j.
     let t = json_prop j ''token'' in checked (token_issues t) (text_of t))"

definition syncUserSchema :: "json option \<Rightarrow> issue list + json" where
  "syncUserSchema input = object_schema input Inr"

section \<open>Requests and replies\<close>

record api_request =
  ar_method :: string
  ar_url :: string
  ar_authorization :: "string option"
  ar_body :: "json option"

text \<open>
  The answer of \<open>fetch\<close>: it throws, or there is a status, whether the content type is JSON, and the body
  if it parses.
\<close>

datatype upstream = UpThrows | Up nat bool "json option"

type_synonym net = "api_request \<Rightarrow> upstream"

definition ok_status :: "nat \<Rightarrow> bool" where "ok_status n \<longleftrightarrow> 200 \<le> n \<and> n \<le> 299"

text \<open>A response constructor refuses a body with one of these statuses; the handlers catch that.\<close>

definition null_body_status :: "nat \<Rightarrow> bool" where "null_body_status n \<longleftrightarrow> n \<in> {101, 103, 204, 205, 304}"

definition error_json :: "json \<Rightarrow> json" where "error_json e = JObj [(''error'', e)]"

definition internal_error :: "json reply" where
  "internal_error = Reply 500 (error_json (JStr ''Internal server error''))"

definition json_reply :: "nat \<Rightarrow> json \<Rightarrow> json reply" where
  "json_reply status body = (if null_body_status status then internal_error else Reply status body)"

definition issue_json :: "issue \<Rightarrow> json" where
  "issue_json i = JObj [(''field'', JStr (fst i)), (''message'', JStr (snd i))]"

definition parseOr400 :: "issue list + 'a \<Rightarrow> json reply + 'a" where
  "parseOr400 result = (case result of
       Inr a \<Rightarrow> Inr a
     | Inl issues \<Rightarrow> Inl (Reply 400 (JObj
         [(''error'', JStr (case issues of [] \<Rightarrow> ''Invalid request'' | i # _ \<Rightarrow> snd i)),
          (''issues'', JArr (map issue_json issues))])))"

text \<open>\<open>data.error || fallback\<close>; reading a property of \<open>null\<close> throws, \<open>?.\<close> does not.\<close>

definition error_or :: "json option \<Rightarrow> string \<Rightarrow> json" where
  "error_or v fallback = (if js_truthy v then the v else JStr fallback)"

text \<open>The end of the two password routes: the body must be JSON.\<close>

definition strict_answer :: "upstream \<Rightarrow> string \<Rightarrow> json reply" where
  "strict_answer answer fallback = (case answer of
       Up status _ (Some data) \<Rightarrow>
         if ok_status status then json_reply 200 data
         else if data = JNull then internal_error
         else json_reply status (error_json (error_or (json_prop data ''error'') fallback))
     | _ \<Rightarrow> internal_error)"

text \<open>The end of the two authorised routes: another content type counts as no data.\<close>

definition lenient_answer :: "upstream \<Rightarrow> string \<Rightarrow> json \<Rightarrow> json reply" where
  "lenient_answer answer fallback success = (case answer of
       Up status is_json body \<Rightarrow>
         if is_json \<and> body = None then internal_error
         else (let data = nullish (if is_json then body else None) in
           if ok_status status then json_reply 200 (case data of None \<Rightarrow> success | Some d \<Rightarrow> d)
           else json_reply status (error_json (error_or (opt_prop data ''error'') fallback)))
     | UpThrows \<Rightarrow> internal_error)"

section \<open>The routes\<close>

text \<open>Each route returns its reply and the requests it sent. An unset base URL is the text \<open>undefined\<close>.\<close>

definition base_url :: "string option \<Rightarrow> string" where
  "base_url v = (case v of None \<Rightarrow> ''undefined'' | Some u \<Rightarrow> u)"

definition forgot_password :: "(string \<Rightarrow> bool) \<Rightarrow> net \<Rightarrow> string option \<Rightarrow> json option \<Rightarrow> json reply \<times> api_request list" where
  "forgot_password email_ok net webhookUrl body =
     (case parseOr400 (forgotPasswordSchema email_ok body) of
        Inl r \<Rightarrow> (r, [])
      | Inr email \<Rightarrow>
          (let q = \<lparr>ar_method = ''POST'', ar_url = base_url webhookUrl @ ''/webhooks/forgot-password'',
                    ar_authorization = None, ar_body = Some (JObj [(''email'', JStr email)])\<rparr>
           in (strict_answer (net q) ''Failed to process request'', [q])))"

definition reset_password :: "net \<Rightarrow> string option \<Rightarrow> json option \<Rightarrow> json reply \<times> api_request list" where
  "reset_password net backendUrl body =
     (case parseOr400 (resetPasswordSchema body) of
        Inl r \<Rightarrow> (r, [])
      | Inr (token, newPassword) \<Rightarrow>
          (let q = \<lparr>ar_method = ''POST'', ar_url = base_url backendUrl @ ''/api/auth/reset-password'',
                    ar_authorization = None,
                    ar_body = Some (JObj [(''token'', JStr token), (''newPassword'', JStr newPassword)])\<rparr>
           in (strict_answer (net q) ''Failed to reset password'', [q])))"

definition delete_user :: "net \<Rightarrow> string option \<Rightarrow> string option \<Rightarrow> json reply \<times> api_request list" where
  "delete_user net backendUrl authorization =
     (if \<not> truthy authorization then (Reply 401 (error_json (JStr ''Authorization header is required'')), [])
      else if \<not> truthy backendUrl then (Reply 500 (error_json (JStr ''Backend URL configuration error'')), [])
      else (let q = \<lparr>ar_method = ''DELETE'', ar_url = the backendUrl @ ''/api/users/me'',
                     ar_authorization = authorization, ar_body = None\<rparr>
        in (lenient_answer (net q) ''Failed to delete user''
              (JObj [(''success'', JBool True), (''deleted'', JBool True)]), [q])))"

definition sync_user :: "net \<Rightarrow> string option \<Rightarrow> string option \<Rightarrow> json option \<Rightarrow> json reply \<times> api_request list" where
  "sync_user net backendUrl authorization body =
     (if \<not> truthy authorization then (Reply 401 (error_json (JStr ''Authorization header is required'')), [])
      else if \<not> truthy backendUrl then (Reply 200 (JObj [(''success'', JBool True), (''synced'', JBool False)]), [])
      else (case parseOr400 (syncUserSchema (coalesce (nullish body) (Some (JObj [])))) of
          Inl r \<Rightarrow> (r, [])
        | Inr profile \<Rightarrow>
            (let q = \<lparr>ar_method = ''POST'', ar_url = the backendUrl @ ''/api/auth/sync-user'',
                      ar_authorization = authorization, ar_body = Some profile\<rparr>
             in (lenient_answer (net q) ''Failed to sync user'' (JObj [(''success'', JBool True)]), [q]))))"

text \<open>\<open>encodeURIComponent\<close>: every byte of the UTF-8 encoding of another character as a percent escape.\<close>

definition unreserved :: "char \<Rightarrow> bool" where
  "unreserved c = (let n = (of_char c :: nat) in
     (48 \<le> n \<and> n \<le> 57) \<or> (65 \<le> n \<and> n \<le> 90) \<or> (97 \<le> n \<and> n \<le> 122)
     \<or> n \<in> {45, 95, 46, 33, 126, 42, 39, 40, 41})"

definition hex_digit :: "nat \<Rightarrow> char" where
  "hex_digit d = char_of (if d < 10 then 48 + d else 55 + d)"

definition percent :: "char \<Rightarrow> string" where
  "percent b = [CHR ''%'', hex_digit (code b div 16), hex_digit (code b mod 16)]"

definition encode_char :: "char \<Rightarrow> string" where
  "encode_char c = (if unreserved c then [c] else concat (map percent (encode_point (code c))))"

definition encodeURIComponent :: "string \<Rightarrow> string" where
  "encodeURIComponent s = concat (map encode_char s)"

definition validate_reset_token :: "net \<Rightarrow> string option \<Rightarrow> string option \<Rightarrow> json reply \<times> api_request list" where
  "validate_reset_token net backendUrl token =
     (case parseOr400 (validateResetTokenSchema
              (Some (JObj [(''token'', JStr (case token of None \<Rightarrow> [] | Some t \<Rightarrow> t))]))) of
        Inl r \<Rightarrow> (r, [])
      | Inr t \<Rightarrow>
          if \<not> truthy backendUrl then (Reply 500 (error_json (JStr ''Backend URL configuration error'')), [])
          else (let q = \<lparr>ar_method = ''GET'',
                    ar_url = the backendUrl @ ''/api/auth/validate-reset-token?token='' @ encodeURIComponent t,
                    ar_authorization = None, ar_body = None\<rparr>
            in (case net q of
                  UpThrows \<Rightarrow> internal_error
                | Up status _ data \<Rightarrow>
                    if \<not> ok_status status then json_reply status (error_json (JStr ''Failed to validate token''))
                    else (case data of None \<Rightarrow> internal_error | Some d \<Rightarrow> json_reply 200 d), [q])))"

definition feature_flags :: "(string \<Rightarrow> string option) \<Rightarrow> json reply" where
  "feature_flags penv = Reply 200 (JObj (map (map_prod id JBool) (getFeatureFlags penv)))"

section \<open>The public status\<close>

definition PUBLIC_STATUS_MAP :: "(string \<times> string) list" where
  "PUBLIC_STATUS_MAP = [(''pending'', ''pending''), (''funded'', ''funded''), (''active'', ''funded''),
     (''completed'', ''released''), (''released'', ''released''), (''resolved'', ''released''), (''disputed'', ''disputed'')]"

definition id_char :: "char \<Rightarrow> bool" where
  "id_char c = (let n = (of_char c :: nat) in
     (48 \<le> n \<and> n \<le> 57) \<or> (65 \<le> n \<and> n \<le> 90) \<or> (97 \<le> n \<and> n \<le> 122) \<or> n = 95 \<or> n = 45)"

definition isValidEscrowId :: "string \<Rightarrow> bool" where
  "isValidEscrowId i \<longleftrightarrow> 1 \<le> length i \<and> length i \<le> 128 \<and> list_all id_char i"

text \<open>The map is a plain object: two lower-case names find what it inherits.\<close>

datatype public_status = Public string | PublicInherited

definition public_status_of :: "string \<Rightarrow> public_status" where
  "public_status_of raw = (let k = toLowerCase raw in
     case map_of PUBLIC_STATUS_MAP k of
       Some s \<Rightarrow> Public s
     | None \<Rightarrow> if k = ''constructor'' \<or> k = ''__proto__'' then PublicInherited else Public ''pending'')"

fun index0 :: "json option \<Rightarrow> json option" where
  "index0 (Some (JArr (x # _))) = Some x"
| "index0 (Some (JObj ps)) = map_of ps ''0''"
| "index0 v = None"

record status_query =
  sq_url :: string
  sq_secret :: "string option"
  sq_escrowId :: string

definition getPublicEscrowStatus ::
  "(status_query \<Rightarrow> upstream) \<Rightarrow> string option \<Rightarrow> string option \<Rightarrow> string \<Rightarrow> public_status option \<times> status_query list" where
  "getPublicEscrowStatus hasura url secret escrowId =
     (if \<not> isValidEscrowId escrowId then (None, [])
      else (let q = \<lparr>sq_url = (if truthy url then the url else ''http://localhost:8080/v1/graphql''),
                     sq_secret = (if truthy secret then secret else None), sq_escrowId = escrowId\<rparr>
        in ((case hasura q of
               Up status _ (Some data) \<Rightarrow>
                 if \<not> ok_status status then None
                 else (case opt_prop (index0 (opt_prop (json_prop data ''data'') ''escrows'')) ''status'' of
                     Some (JStr raw) \<Rightarrow> if raw = [] then None else Some (public_status_of raw)
                   | _ \<Rightarrow> None)
             | _ \<Rightarrow> None), [q])))"

section \<open>What the routes guarantee\<close>

text \<open>Decoding percent escapes, the reference for the encoding.\<close>

definition hex_value :: "char \<Rightarrow> nat" where
  "hex_value c = (if code c \<le> 57 then code c - 48 else code c - 55)"

fun percent_decode :: "string \<Rightarrow> string" where
  "percent_decode (c # h # l # r) =
     (if c = CHR ''%'' then byte (hex_value h * 16 + hex_value l) # percent_decode r
      else c # percent_decode (h # l # r))"
| "percent_decode s = s"

lemma hex_value_digit: "d < 16 \<Longrightarrow> hex_value (hex_digit d) = d"
  by (simp add: hex_value_def hex_digit_def)

lemma code_less: "code c < 256"
  by (metis of_char_mod_256 mod_less_divisor zero_less_numeral)

lemma byte_code: "byte (code c) = c"
  by (simp add: byte_def)

lemma decode_percent: "percent_decode (percent b @ r) = b # percent_decode r"
proof -
  have d: "code b div 16 < 16" using code_less [of b] by (simp add: less_mult_imp_div_less)
  show ?thesis by (simp add: percent_def hex_value_digit [OF d] hex_value_digit byte_code)
qed

lemma decode_bytes: "percent_decode (concat (map percent bs) @ r) = bs @ percent_decode r"
  by (induction bs) (simp_all add: decode_percent)

lemma decode_plain: "c \<noteq> CHR ''%'' \<Longrightarrow> percent_decode (c # r) = c # percent_decode r"
  by (cases r rule: percent_decode.cases) auto

lemma encode_unreserved: "unreserved c \<Longrightarrow> encode_point (code c) = [c] \<and> c \<noteq> CHR ''%''"
  by (auto simp: unreserved_def encode_point_def byte_code Let_def)

lemma decode_encode_char: "percent_decode (encode_char c @ r) = encode_point (code c) @ percent_decode r"
  by (simp add: encode_char_def decode_bytes decode_plain encode_unreserved)

lemma decode_encoded: "percent_decode (encodeURIComponent s) = utf8_encode (map code s)"
proof (induction s)
  case (Cons c s)
  then show ?case
    by (simp add: encodeURIComponent_def utf8_encode_def decode_encode_char)
qed (simp add: encodeURIComponent_def utf8_encode_def)

text \<open>What each schema lets through.\<close>

definition valid_email :: "(string \<Rightarrow> bool) \<Rightarrow> json option \<Rightarrow> string option" where
  "valid_email email_ok body = (case body of
       Some (JObj ps) \<Rightarrow> (case map_of ps ''email'' of
           Some (JStr e) \<Rightarrow> if trim e \<noteq> [] \<and> email_ok (trim e) then Some (trim e) else None
         | _ \<Rightarrow> None)
     | _ \<Rightarrow> None)"

definition valid_reset :: "json option \<Rightarrow> (string \<times> string) option" where
  "valid_reset body = (case body of
       Some (JObj ps) \<Rightarrow> (case (map_of ps ''token'', map_of ps ''newPassword'') of
           (Some (JStr t), Some (JStr p)) \<Rightarrow> if t \<noteq> [] \<and> 8 \<le> length p then Some (t, p) else None
         | _ \<Rightarrow> None)
     | _ \<Rightarrow> None)"

definition valid_profile :: "json option \<Rightarrow> json option" where
  "valid_profile body = (case body of
       None \<Rightarrow> Some (JObj [])
     | Some JNull \<Rightarrow> Some (JObj [])
     | Some (JObj ps) \<Rightarrow> Some (JObj ps)
     | _ \<Rightarrow> None)"

lemma forgot_schema: "case valid_email email_ok body of
     Some e \<Rightarrow> forgotPasswordSchema email_ok body = Inr e | None \<Rightarrow> (\<exists>is. forgotPasswordSchema email_ok body = Inl is)"
  by (auto simp: forgotPasswordSchema_def valid_email_def object_schema_def checked_def string_field_def text_of_def Let_def
      split: option.splits json.splits)

lemma reset_schema: "case valid_reset body of
     Some p \<Rightarrow> resetPasswordSchema body = Inr p | None \<Rightarrow> (\<exists>is. resetPasswordSchema body = Inl is)"
  by (auto simp: resetPasswordSchema_def valid_reset_def object_schema_def checked_def string_field_def token_issues_def
      text_of_def Let_def split: option.splits json.splits)

lemma profile_schema: "case valid_profile body of
     Some p \<Rightarrow> syncUserSchema (coalesce (nullish body) (Some (JObj []))) = Inr p
   | None \<Rightarrow> (\<exists>is. syncUserSchema (coalesce (nullish body) (Some (JObj []))) = Inl is)"
  by (auto simp: syncUserSchema_def valid_profile_def object_schema_def split: option.splits json.splits)

lemma token_schema: "validateResetTokenSchema (Some (JObj [(''token'', JStr t)])) =
    (if t = [] then Inl [(''token'', ''Token is required'')] else Inr t)"
  by (simp add: validateResetTokenSchema_def object_schema_def token_issues_def string_field_def checked_def text_of_def)

text \<open>When the end of a route is a success.\<close>

definition upstream_ok :: "upstream \<Rightarrow> bool" where
  "upstream_ok a = (case a of Up st j d \<Rightarrow> ok_status st \<and> d \<noteq> None | UpThrows \<Rightarrow> False)"

definition upstream_done :: "upstream \<Rightarrow> bool" where
  "upstream_done a = (case a of Up st j d \<Rightarrow> ok_status st \<and> (j \<longrightarrow> d \<noteq> None) | UpThrows \<Rightarrow> False)"

lemma json_reply_status: "r_status (json_reply n b) = (if null_body_status n then 500 else n)" "json_reply 200 b = Reply 200 b"
  by (simp_all add: json_reply_def internal_error_def null_body_status_def)

lemma not_200: "\<not> ok_status n \<Longrightarrow> r_status (json_reply n b) \<noteq> 200"
  by (auto simp: json_reply_status ok_status_def)

lemma strict_200: "r_status (strict_answer a m) = 200 \<longleftrightarrow> upstream_ok a"
  using not_200 by (auto simp: strict_answer_def upstream_ok_def internal_error_def json_reply_status(2) split: upstream.split option.split)

lemma lenient_200: "r_status (lenient_answer a m d) = 200 \<longleftrightarrow> upstream_done a"
  using not_200 by (auto simp: lenient_answer_def upstream_done_def internal_error_def json_reply_status(2) Let_def
      split: upstream.split option.split)

text \<open>
  C21: The server routes forward what they validated, once, and nothing else. A password route sends one
  request with exactly the checked fields (the address without surrounding blanks, a token, a password
  of at least eight characters) and none for a body the schema refuses, which is answered 400; deleting
  and syncing need the authorization, which is passed on unchanged; a reset token reaches the backend as
  itself, whatever characters it has; and a route reports success exactly when the backend did, except
  that syncing without a backend succeeds silently.
\<close>

theorem proxies_forward_validated:
  "(case forgot_password email_ok net url body of (r, qs) \<Rightarrow>
      (case valid_email email_ok body of
         None \<Rightarrow> r_status r = 400 \<and> qs = []
       | Some e \<Rightarrow> \<exists>q. qs = [q] \<and> ar_body q = Some (JObj [(''email'', JStr e)]) \<and> (r_status r = 200 \<longleftrightarrow> upstream_ok (net q))))
   \<and> (case reset_password net url body of (r, qs) \<Rightarrow>
      (case valid_reset body of
         None \<Rightarrow> r_status r = 400 \<and> qs = []
       | Some (t, p) \<Rightarrow> \<exists>q. qs = [q] \<and> ar_body q = Some (JObj [(''token'', JStr t), (''newPassword'', JStr p)])
            \<and> (r_status r = 200 \<longleftrightarrow> upstream_ok (net q))))
   \<and> (case delete_user net url auth of (r, qs) \<Rightarrow>
      (if truthy auth \<and> truthy url
       then \<exists>q. qs = [q] \<and> ar_method q = ''DELETE'' \<and> ar_authorization q = auth \<and> (r_status r = 200 \<longleftrightarrow> upstream_done (net q))
       else qs = [] \<and> r_status r = (if truthy auth then 500 else 401)))
   \<and> (case sync_user net url auth body of (r, qs) \<Rightarrow>
      (if truthy auth \<and> truthy url then
         (case valid_profile body of
            None \<Rightarrow> r_status r = 400 \<and> qs = []
          | Some p \<Rightarrow> \<exists>q. qs = [q] \<and> ar_body q = Some p \<and> ar_authorization q = auth \<and> (r_status r = 200 \<longleftrightarrow> upstream_done (net q)))
       else qs = [] \<and> r_status r = (if truthy auth then 200 else 401)))
   \<and> (case validate_reset_token net url tok of (r, qs) \<Rightarrow>
      (if truthy tok \<and> truthy url then
         \<exists>q e. qs = [q] \<and> ar_url q = the url @ ''/api/auth/validate-reset-token?token='' @ e
           \<and> percent_decode e = utf8_encode (map code (the tok)) \<and> (r_status r = 200 \<longleftrightarrow> upstream_ok (net q))
       else qs = [] \<and> r_status r = (if truthy tok then 500 else 400)))"
proof (intro conjI)
  show "case forgot_password email_ok net url body of (r, qs) \<Rightarrow>
      (case valid_email email_ok body of
         None \<Rightarrow> r_status r = 400 \<and> qs = []
       | Some e \<Rightarrow> \<exists>q. qs = [q] \<and> ar_body q = Some (JObj [(''email'', JStr e)]) \<and> (r_status r = 200 \<longleftrightarrow> upstream_ok (net q)))"
    using forgot_schema [of email_ok body]
    by (cases "valid_email email_ok body") (auto simp: forgot_password_def parseOr400_def strict_200 Let_def)
  show "case reset_password net url body of (r, qs) \<Rightarrow>
      (case valid_reset body of
         None \<Rightarrow> r_status r = 400 \<and> qs = []
       | Some (t, p) \<Rightarrow> \<exists>q. qs = [q] \<and> ar_body q = Some (JObj [(''token'', JStr t), (''newPassword'', JStr p)])
            \<and> (r_status r = 200 \<longleftrightarrow> upstream_ok (net q)))"
    using reset_schema [of body]
    by (cases "valid_reset body") (auto simp: reset_password_def parseOr400_def strict_200 Let_def)
  show "case delete_user net url auth of (r, qs) \<Rightarrow>
      (if truthy auth \<and> truthy url
       then \<exists>q. qs = [q] \<and> ar_method q = ''DELETE'' \<and> ar_authorization q = auth \<and> (r_status r = 200 \<longleftrightarrow> upstream_done (net q))
       else qs = [] \<and> r_status r = (if truthy auth then 500 else 401))"
    by (simp add: delete_user_def lenient_200 Let_def)
  show "case sync_user net url auth body of (r, qs) \<Rightarrow>
      (if truthy auth \<and> truthy url then
         (case valid_profile body of
            None \<Rightarrow> r_status r = 400 \<and> qs = []
          | Some p \<Rightarrow> \<exists>q. qs = [q] \<and> ar_body q = Some p \<and> ar_authorization q = auth \<and> (r_status r = 200 \<longleftrightarrow> upstream_done (net q)))
       else qs = [] \<and> r_status r = (if truthy auth then 200 else 401))"
    using profile_schema [of body]
    by (cases "valid_profile body") (auto simp: sync_user_def parseOr400_def lenient_200 Let_def)
  show "case validate_reset_token net url tok of (r, qs) \<Rightarrow>
      (if truthy tok \<and> truthy url then
         \<exists>q e. qs = [q] \<and> ar_url q = the url @ ''/api/auth/validate-reset-token?token='' @ e
           \<and> percent_decode e = utf8_encode (map code (the tok)) \<and> (r_status r = 200 \<longleftrightarrow> upstream_ok (net q))
       else qs = [] \<and> r_status r = (if truthy tok then 500 else 400))"
  proof (cases "truthy tok \<and> truthy url")
    case True
    have "r_status (fst (validate_reset_token net url tok)) = 200 \<longleftrightarrow> upstream_ok (net \<lparr>ar_method = ''GET'',
        ar_url = the url @ ''/api/auth/validate-reset-token?token='' @ encodeURIComponent (the tok),
        ar_authorization = None, ar_body = None\<rparr>)"
      using True not_200
      by (auto simp: validate_reset_token_def token_schema parseOr400_def upstream_ok_def internal_error_def
          json_reply_status(2) truthy_def Let_def split: option.splits upstream.split)
    with True show ?thesis
      by (auto simp: validate_reset_token_def token_schema parseOr400_def Let_def decode_encoded truthy_def split: option.splits)
  qed (auto simp: validate_reset_token_def token_schema parseOr400_def Let_def split: option.splits)
qed

lemma public_lookup:
  "snd (getPublicEscrowStatus hasura url secret i) =
     (if isValidEscrowId i then [\<lparr>sq_url = (if truthy url then the url else ''http://localhost:8080/v1/graphql''),
        sq_secret = (if truthy secret then secret else None), sq_escrowId = i\<rparr>] else [])"
  by (simp add: getPublicEscrowStatus_def Let_def)

lemma text_result:
  "(case v of Some (JStr raw) \<Rightarrow> if raw = [] then None else Some (f raw) | _ \<Rightarrow> None) \<in> insert None (range (\<lambda>raw. Some (f raw)))"
proof (cases v)
  case (Some j)
  then show ?thesis by (cases j) auto
qed simp

lemma public_result:
  "fst (getPublicEscrowStatus hasura url secret i) \<in>
     insert None (if isValidEscrowId i then range (\<lambda>raw. Some (public_status_of raw)) else {})"
proof (cases "isValidEscrowId i")
  case True
  let ?q = "\<lparr>sq_url = (if truthy url then the url else ''http://localhost:8080/v1/graphql''),
    sq_secret = (if truthy secret then secret else None), sq_escrowId = i\<rparr>"
  note t = text_result [where f = public_status_of]
  show ?thesis
  proof (cases "hasura ?q")
    case (Up status c body)
    with True show ?thesis using t
      by (cases body; cases "ok_status status") (simp_all add: getPublicEscrowStatus_def Let_def insertI1 del: insert_iff)
  qed (simp add: True getPublicEscrowStatus_def Let_def)
qed (simp add: getPublicEscrowStatus_def)

lemma public_words:
  "case public_status_of raw of
     PublicInherited \<Rightarrow> True
   | Public s \<Rightarrow> s \<in> {''pending'', ''funded'', ''released'', ''disputed''}
       \<and> (s = ''pending'' \<or> (\<exists>raw. map_of PUBLIC_STATUS_MAP (toLowerCase raw) = Some s))"
proof (cases "map_of PUBLIC_STATUS_MAP (toLowerCase raw)")
  case (Some s)
  have "s \<in> {''pending'', ''funded'', ''released'', ''disputed''}"
    using Some by (auto simp: PUBLIC_STATUS_MAP_def split: if_splits)
  with Some show ?thesis by (auto simp: public_status_of_def Let_def)
qed (simp add: public_status_of_def Let_def)

text \<open>
  The public status page leaks nothing but a coarse state. Only a well-formed id is looked up, once,
  and whatever the database or an attacker answers, the result is nothing or one of four words, or, for
  the two statuses named like inherited properties, an inherited value; a result other than pending
  comes only from the statuses the table lists.
\<close>

theorem public_status_coarse:
  "(case getPublicEscrowStatus hasura url secret i of (r, qs) \<Rightarrow>
      (qs = [] \<longleftrightarrow> \<not> isValidEscrowId i) \<and> list_all (\<lambda>q. sq_escrowId q = i) qs \<and> length qs \<le> 1
    \<and> (case r of
         None \<Rightarrow> True
       | Some PublicInherited \<Rightarrow> isValidEscrowId i
       | Some (Public s) \<Rightarrow> isValidEscrowId i \<and> s \<in> {''pending'', ''funded'', ''released'', ''disputed''}
           \<and> (s = ''pending'' \<or> (\<exists>raw. map_of PUBLIC_STATUS_MAP (toLowerCase raw) = Some s))))"
proof -
  obtain r qs where g: "getPublicEscrowStatus hasura url secret i = (r, qs)" by fastforce
  have "r = None \<or> isValidEscrowId i \<and> (\<exists>raw. r = Some (public_status_of raw))"
    using public_result [of hasura url secret i] g by (auto split: if_splits)
  note r = this
  show ?thesis
  proof (cases r)
    case None
    then show ?thesis using public_lookup [of hasura url secret i] g by simp
  next
    case (Some p)
    with r obtain raw where "p = public_status_of raw" "isValidEscrowId i" by auto
    then show ?thesis using public_lookup [of hasura url secret i] public_words [of raw] g Some
      by (cases "public_status_of raw") auto
  qed
qed

text \<open>A refunded, cancelled or expired escrow is shown as pending.\<close>

lemma closed_shown_pending:
  "public_status_of ''refunded'' = Public ''pending''" "public_status_of ''cancelled'' = Public ''pending''"
  "public_status_of ''expired'' = Public ''pending''"
  by code_simp+

end
