(* ===== verification/Paged_Table.thy ===== *)
theory Paged_Table
  imports Contracts "HOL-Library.Multiset"
begin

text \<open>
  Tables that filter, sort and page their rows, as several pages of the frontend do: the arithmetic of the
  pages, and the interface of such a table with what every one of them shows.
\<close>

section \<open>Pages\<close>

text \<open>\<open>Math.max(1, Math.ceil(n / sz))\<close>, \<open>Math.min(page, totalPages)\<close> and the slice of the page.\<close>

definition totalPages :: "nat \<Rightarrow> nat \<Rightarrow> nat" where
  "totalPages n sz = max 1 ((n + sz - 1) div sz)"

definition safePage :: "nat \<Rightarrow> nat \<Rightarrow> nat" where
  "safePage p n = min p n"

definition page_rows :: "'a list \<Rightarrow> nat \<Rightarrow> nat \<Rightarrow> 'a list" where
  "page_rows xs sz p = page xs ((safePage p (totalPages (length xs) sz) - 1) * sz) sz"

lemma mset_js_insort [simp]: "mset (js_insort le x xs) = add_mset x (mset xs)"
  by (induction xs) auto

lemma mset_js_sort [simp]: "mset (js_sort le xs) = mset xs"
  by (induction xs) auto

text \<open>A comparison only matters on the rows that are sorted.\<close>

lemma js_insort_cong: "(\<And>y. y \<in> set xs \<Longrightarrow> le x y = le' x y) \<Longrightarrow> js_insort le x xs = js_insort le' x xs"
  by (induction xs) auto

lemma js_sort_cong: "(\<And>x y. x \<in> set xs \<Longrightarrow> y \<in> set xs \<Longrightarrow> le x y = le' x y) \<Longrightarrow> js_sort le xs = js_sort le' xs"
proof (induction xs)
  case (Cons x xs)
  then show ?case using js_insort_cong [of "js_sort le' xs" le x le'] by simp
qed simp

lemma sorted_js_sort_on:
  assumes "\<And>x y. x \<in> set xs \<Longrightarrow> y \<in> set xs \<Longrightarrow> le x y = (f x \<le> (f y :: 'b :: linorder))"
  shows "sorted_wrt le (js_sort le xs)"
proof -
  have "sorted_wrt (\<lambda>x y. f x \<le> f y) (js_sort (\<lambda>x y. f x \<le> f y) xs)" by (rule sorted_wrt_js_sort) auto
  moreover have "js_sort le xs = js_sort (\<lambda>x y. f x \<le> f y) xs" using assms by (rule js_sort_cong)
  moreover have "sorted_wrt (\<lambda>x y. f x \<le> f y) ys \<Longrightarrow> set ys \<subseteq> set xs \<Longrightarrow> sorted_wrt le ys" for ys
    by (induction ys) (auto simp: assms)
  ultimately show ?thesis by simp
qed

lemma totalPages_pos: "1 \<le> totalPages n sz"
  by (simp add: totalPages_def)

lemma totalPages_covers: "1 \<le> sz \<Longrightarrow> n \<le> totalPages n sz * sz"
proof -
  assume s: "1 \<le> sz"
  have "n + sz - 1 = sz * ((n + sz - 1) div sz) + (n + sz - 1) mod sz" by simp
  moreover have "(n + sz - 1) mod sz < sz" using s by simp
  ultimately have "n \<le> sz * ((n + sz - 1) div sz)" using s by linarith
  also have "\<dots> \<le> totalPages n sz * sz" by (simp add: totalPages_def mult.commute)
  finally show ?thesis .
qed

lemma totalPages_tight: "1 \<le> sz \<Longrightarrow> p < totalPages n sz \<Longrightarrow> 1 \<le> p \<Longrightarrow> p * sz < n"
proof -
  assume s: "1 \<le> sz" and p: "p < totalPages n sz" "1 \<le> p"
  then have "Suc p \<le> (n + sz - 1) div sz" by (simp add: totalPages_def)
  then have "Suc p * sz \<le> n + sz - 1" using s by (simp add: less_eq_div_iff_mult_less_eq)
  then show ?thesis using s by simp
qed

lemma page_rows_in: "1 \<le> p \<Longrightarrow> p \<le> totalPages (length xs) sz \<Longrightarrow> page_rows xs sz p = take sz (drop ((p - 1) * sz) xs)"
  by (simp add: page_rows_def safePage_def page_def)

lemma pages_prefix:
  "1 \<le> sz \<Longrightarrow> k \<le> totalPages (length xs) sz \<Longrightarrow>
   concat (map (page_rows xs sz) [1..<Suc k]) = take (k * sz) xs"
proof (induction k)
  case (Suc k)
  have "page_rows xs sz (Suc k) = take sz (drop (k * sz) xs)"
    using page_rows_in [of "Suc k" xs sz] Suc.prems by simp
  moreover have "concat (map (page_rows xs sz) [1..<Suc k]) = take (k * sz) xs" using Suc by simp
  moreover have "take (Suc k * sz) xs = take (k * sz) xs @ take sz (drop (k * sz) xs)"
    using take_add [of "k * sz" sz xs] by (simp add: add.commute)
  ultimately show ?case by simp
qed simp

lemma pages_concat: "1 \<le> sz \<Longrightarrow> concat (map (page_rows xs sz) [1..<Suc (totalPages (length xs) sz)]) = xs"
  by (simp only: pages_prefix) (simp add: totalPages_covers)

lemma page_nonempty: "1 \<le> sz \<Longrightarrow> 1 \<le> p \<Longrightarrow> xs \<noteq> [] \<Longrightarrow> page_rows xs sz p \<noteq> []"
proof -
  assume a: "1 \<le> sz" "1 \<le> p" "xs \<noteq> []"
  let ?q = "safePage p (totalPages (length xs) sz)"
  have q: "1 \<le> ?q" "?q \<le> totalPages (length xs) sz" using a(2) totalPages_pos [of "length xs" sz] by (simp_all add: safePage_def)
  have "(?q - 1) * sz < length xs"
  proof (cases "?q = 1")
    case False
    with totalPages_tight [OF a(1), of "?q - 1" "length xs"] q show ?thesis by simp
  qed (use a(3) in simp)
  then show ?thesis using a(1) by (simp add: page_rows_def page_def)
qed

section \<open>The interface\<close>

text \<open>
  A table over states: the rows it has, which of them match the filters, and the list it shows, which has
  each matching row as often as the table does.
\<close>

locale table_view =
  fixes rows :: "'s \<Rightarrow> 'a list"
    and keep :: "'s \<Rightarrow> 'a \<Rightarrow> bool"
    and shown :: "'s \<Rightarrow> 'a list"
  assumes shown_mset: "mset (shown s) = mset (filter (keep s) (rows s))"
begin

lemma shown_iff: "x \<in> set (shown s) \<longleftrightarrow> x \<in> set (rows s) \<and> keep s x"
  using shown_mset [of s, THEN arg_cong [of _ _ set_mset]] by auto

lemma shown_length: "length (shown s) = length (filter (keep s) (rows s))"
  using shown_mset [of s] by (metis size_mset)

lemma pages_show_all:
  "1 \<le> sz \<Longrightarrow> mset (concat (map (page_rows (shown s) sz) [1..<Suc (totalPages (length (shown s)) sz)]))
     = mset (filter (keep s) (rows s))"
  by (simp only: pages_concat shown_mset)

lemma page_sound: "x \<in> set (page_rows (shown s) sz p) \<Longrightarrow> x \<in> set (rows s) \<and> keep s x"
  using shown_iff by (auto simp: page_rows_def page_def dest: in_set_takeD in_set_dropD)

lemma page_not_empty:
  "1 \<le> sz \<Longrightarrow> 1 \<le> p \<Longrightarrow> page_rows (shown s) sz p = [] \<longleftrightarrow> filter (keep s) (rows s) = []"
proof -
  assume a: "1 \<le> sz" "1 \<le> p"
  have "shown s = [] \<longleftrightarrow> filter (keep s) (rows s) = []" using shown_length [of s] by (metis length_0_conv)
  moreover have "page_rows [] sz p = []" by (simp add: page_rows_def page_def)
  ultimately show ?thesis using page_nonempty [OF a, of "shown s"] by metis
qed

end

text \<open>A table that shows its rows in an order.\<close>

locale ordered_table = table_view rows keep shown
  for rows :: "'s \<Rightarrow> 'a list" and keep :: "'s \<Rightarrow> 'a \<Rightarrow> bool" and shown :: "'s \<Rightarrow> 'a list" +
  fixes ord :: "'s \<Rightarrow> 'a \<Rightarrow> 'a \<Rightarrow> bool"
  assumes shown_sorted: "sorted_wrt (ord s) (shown s)"
begin

lemma page_sorted: "sorted_wrt (ord s) (page_rows (shown s) sz p)"
  using shown_sorted [of s] by (simp add: page_rows_def page_def sorted_wrt_take sorted_wrt_drop)

text \<open>An earlier page holds nothing that belongs on a later one.\<close>

lemma pages_ordered:
  assumes "1 \<le> sz" and "1 \<le> p" and "p < q" and "q \<le> totalPages (length (shown s)) sz"
    and "x \<in> set (page_rows (shown s) sz p)" and "y \<in> set (page_rows (shown s) sz q)"
  shows "ord s x y"
proof -
  let ?xs = "shown s"
  have le: "p * sz \<le> (q - 1) * sz" using assms(3) by (intro mult_le_mono1) simp
  have "x \<in> set (take (p * sz) ?xs)"
  proof -
    have "p * sz = (p - 1) * sz + sz" using assms(2) by (simp add: mult_eq_if)
    then have "take (p * sz) ?xs = take ((p - 1) * sz) ?xs @ take sz (drop ((p - 1) * sz) ?xs)"
      by (simp only: take_add)
    moreover have "x \<in> set (take sz (drop ((p - 1) * sz) ?xs))"
      using assms(5) page_rows_in [OF assms(2), of ?xs sz] assms(3,4) by simp
    ultimately show ?thesis by (simp only: set_append Un_iff simp_thms)
  qed
  moreover have "y \<in> set (drop (p * sz) ?xs)"
  proof -
    have "y \<in> set (drop ((q - 1) * sz) ?xs)"
      using assms(6) page_rows_in [of q ?xs sz] assms(2,3,4) in_set_takeD by fastforce
    then show ?thesis using set_drop_subset_set_drop [OF le, of ?xs] by blast
  qed
  moreover have "sorted_wrt (ord s) (take (p * sz) ?xs @ drop (p * sz) ?xs)" using shown_sorted by simp
  ultimately show ?thesis by (simp only: sorted_wrt_append)
qed

end

end
