(* ===== verification/User_Admin.thy ===== *)
theory User_Admin
  imports Paged_Table Csv_Export
begin

text \<open>
  The user management page \<open>app/dashboard/users/page.tsx\<close>: its sample users, the state of the page, every
  event of its controls, and the filtered, sorted and paged table with its export. The collation of
  \<open>localeCompare\<close>, the text of numbers and the random ids are parameters; dialogs, icons and the
  clipboard are left out.
\<close>

section \<open>Users\<close>

datatype user_role = RoleAdmin | RoleModerator | RoleSeller | RoleBuyer
datatype user_status = UserActive | UserPending | UserSuspended | UserFlagged

fun role_name :: "user_role \<Rightarrow> string" where
  "role_name RoleAdmin = ''admin''"
| "role_name RoleModerator = ''moderator''"
| "role_name RoleSeller = ''seller''"
| "role_name RoleBuyer = ''buyer''"

fun status_name :: "user_status \<Rightarrow> string" where
  "status_name UserActive = ''active''"
| "status_name UserPending = ''pending''"
| "status_name UserSuspended = ''suspended''"
| "status_name UserFlagged = ''flagged''"

record managed_user =
  mu_id :: string
  mu_firstName :: string
  mu_lastName :: string
  mu_email :: string
  mu_phoneNumber :: string
  mu_role :: user_role
  mu_status :: user_status
  mu_kycVerified :: bool
  mu_walletAddress :: string
  mu_fullWalletAddress :: string
  mu_escrowsCount :: nat
  mu_completedVolume :: string
  mu_reputationScore :: rat
  mu_totalReviews :: nat
  mu_joinedDate :: string

definition INITIAL_USERS :: "managed_user list" where
  "INITIAL_USERS =
    [\<lparr>mu_id = ''usr_stb_001'', mu_firstName = ''Sarah'', mu_lastName = ''Connor'',
      mu_email = ''sarah.c@truestub.io'', mu_phoneNumber = ''+1 (555) 234-5678'', mu_role = RoleAdmin, mu_status = UserActive,
      mu_kycVerified = True, mu_walletAddress = ''GDQP...4X9Z'',
      mu_fullWalletAddress = ''GDQP2LMKABCDEF1234567890MNOPQRSTUVWXYZ12345678904X9Z'',
      mu_escrowsCount = 48, mu_completedVolume = ''$24,500 USDC'', mu_reputationScore = 50 / 10,
      mu_totalReviews = 42, mu_joinedDate = ''2025-11-12''\<rparr>,
     \<lparr>mu_id = ''usr_stb_002'', mu_firstName = ''John'', mu_lastName = ''Smith'',
      mu_email = ''john.smith@gmail.com'', mu_phoneNumber = ''+506 6489 5321'', mu_role = RoleSeller, mu_status = UserActive,
      mu_kycVerified = True, mu_walletAddress = ''GASK...XN32'',
      mu_fullWalletAddress = ''GASKQBX7ABCDEF1234567890MNOPQRSTUVWXYZ1234567890XN32'',
      mu_escrowsCount = 32, mu_completedVolume = ''$12,800 USDC'', mu_reputationScore = 49 / 10,
      mu_totalReviews = 29, mu_joinedDate = ''2026-01-08''\<rparr>,
     \<lparr>mu_id = ''usr_stb_003'', mu_firstName = ''Elena'', mu_lastName = ''Rostova'',
      mu_email = ''elena.r@blockchain-tickets.com'', mu_phoneNumber = ''+44 20 7946 0912'', mu_role = RoleSeller, mu_status = UserActive,
      mu_kycVerified = True, mu_walletAddress = ''GBLM...9Y2A'',
      mu_fullWalletAddress = ''GBLM9876543210ABCDEF1234567890MNOPQRSTUVWXYZ9Y2A'',
      mu_escrowsCount = 65, mu_completedVolume = ''$38,200 USDC'', mu_reputationScore = 48 / 10,
      mu_totalReviews = 57, mu_joinedDate = ''2025-12-03''\<rparr>,
     \<lparr>mu_id = ''usr_stb_004'', mu_firstName = ''Marcus'', mu_lastName = ''Vance'',
      mu_email = ''marcus.vance@cryptoevents.org'', mu_phoneNumber = ''+1 (555) 876-5432'', mu_role = RoleModerator, mu_status = UserActive,
      mu_kycVerified = True, mu_walletAddress = ''GCKX...7W1B'',
      mu_fullWalletAddress = ''GCKX112233445566778899AABBCCDDEEFF00112233447W1B'',
      mu_escrowsCount = 19, mu_completedVolume = ''$8,900 USDC'', mu_reputationScore = 49 / 10,
      mu_totalReviews = 18, mu_joinedDate = ''2026-01-19''\<rparr>,
     \<lparr>mu_id = ''usr_stb_005'', mu_firstName = ''Amara'', mu_lastName = ''Diallo'',
      mu_email = ''amara.d@stubfan.net'', mu_phoneNumber = ''+33 1 42 68 55 00'', mu_role = RoleBuyer, mu_status = UserActive,
      mu_kycVerified = True, mu_walletAddress = ''GBVF...3T8K'',
      mu_fullWalletAddress = ''GBVF887766554433221100FFEEDDCCBBAA99887766553T8K'',
      mu_escrowsCount = 12, mu_completedVolume = ''$3,400 USDC'', mu_reputationScore = 47 / 10,
      mu_totalReviews = 11, mu_joinedDate = ''2026-02-02''\<rparr>,
     \<lparr>mu_id = ''usr_stb_006'', mu_firstName = ''Liam'', mu_lastName = ''Chen'',
      mu_email = ''liam.chen@techfest.io'', mu_phoneNumber = ''+65 6789 0123'', mu_role = RoleBuyer, mu_status = UserPending,
      mu_kycVerified = False, mu_walletAddress = ''GAZX...6M4P'',
      mu_fullWalletAddress = ''GAZX55443322110099887766554433221100998877666M4P'',
      mu_escrowsCount = 2, mu_completedVolume = ''$450 USDC'', mu_reputationScore = 42 / 10,
      mu_totalReviews = 2, mu_joinedDate = ''2026-02-21''\<rparr>,
     \<lparr>mu_id = ''usr_stb_007'', mu_firstName = ''Victor'', mu_lastName = ''Novak'',
      mu_email = ''v.novak@suspicious-domain.cc'', mu_phoneNumber = ''+7 495 123-45-67'', mu_role = RoleSeller, mu_status = UserFlagged,
      mu_kycVerified = False, mu_walletAddress = ''GC99...1L88'',
      mu_fullWalletAddress = ''GC9900112233445566778899AABBCCDDEEFF001122331L88'',
      mu_escrowsCount = 4, mu_completedVolume = ''$1,100 USDC'', mu_reputationScore = 21 / 10,
      mu_totalReviews = 5, mu_joinedDate = ''2026-02-14''\<rparr>,
     \<lparr>mu_id = ''usr_stb_008'', mu_firstName = ''Dmitri'', mu_lastName = ''Kozlov'',
      mu_email = ''dmitri.k@banned-tickets.ru'', mu_phoneNumber = ''+7 812 987-65-43'', mu_role = RoleBuyer, mu_status = UserSuspended,
      mu_kycVerified = False, mu_walletAddress = ''GD88...5Q11'',
      mu_fullWalletAddress = ''GD8811223344556677889900AABBCCDDEEFF112233445Q11'',
      mu_escrowsCount = 1, mu_completedVolume = ''$200 USDC'', mu_reputationScore = 10 / 10,
      mu_totalReviews = 3, mu_joinedDate = ''2026-01-25''\<rparr>]"

text \<open>The columns one can sort by, and their values.\<close>

datatype user_field =
    FId | FFirstName | FLastName | FEmail | FPhoneNumber | FRole | FStatus | FKycVerified | FWalletAddress
  | FFullWalletAddress | FEscrowsCount | FCompletedVolume | FReputationScore | FTotalReviews | FJoinedDate

datatype cell_value = VText string | VNum rat | VBool bool

fun field_value :: "managed_user \<Rightarrow> user_field \<Rightarrow> cell_value" where
  "field_value u FId = VText (mu_id u)"
| "field_value u FFirstName = VText (mu_firstName u)"
| "field_value u FLastName = VText (mu_lastName u)"
| "field_value u FEmail = VText (mu_email u)"
| "field_value u FPhoneNumber = VText (mu_phoneNumber u)"
| "field_value u FRole = VText (role_name (mu_role u))"
| "field_value u FStatus = VText (status_name (mu_status u))"
| "field_value u FKycVerified = VBool (mu_kycVerified u)"
| "field_value u FWalletAddress = VText (mu_walletAddress u)"
| "field_value u FFullWalletAddress = VText (mu_fullWalletAddress u)"
| "field_value u FEscrowsCount = VNum (of_nat (mu_escrowsCount u))"
| "field_value u FCompletedVolume = VText (mu_completedVolume u)"
| "field_value u FReputationScore = VNum (mu_reputationScore u)"
| "field_value u FTotalReviews = VNum (of_nat (mu_totalReviews u))"
| "field_value u FJoinedDate = VText (mu_joinedDate u)"

section \<open>The state of the page\<close>

record new_user_form =
  nf_firstName :: string
  nf_lastName :: string
  nf_email :: string
  nf_phoneNumber :: string
  nf_role :: user_role
  nf_walletAddress :: string
  nf_kycVerified :: bool

definition empty_form :: new_user_form where
  "empty_form = \<lparr>nf_firstName = [], nf_lastName = [], nf_email = [], nf_phoneNumber = [], nf_role = RoleBuyer,
     nf_walletAddress = [], nf_kycVerified = False\<rparr>"

record user_page =
  up_users :: "managed_user list"
  up_search :: string
  up_role :: string
  up_status :: string
  up_kyc :: string
  up_sortField :: user_field
  up_sortAsc :: bool
  up_page :: nat
  up_pageSize :: nat
  up_editing :: "managed_user option"
  up_newRole :: user_role
  up_addOpen :: bool
  up_form :: new_user_form
  up_messages :: "string list"

definition initial_page :: user_page where
  "initial_page = \<lparr>up_users = INITIAL_USERS, up_search = [], up_role = ''all'', up_status = ''all'', up_kyc = ''all'',
     up_sortField = FJoinedDate, up_sortAsc = False, up_page = 1, up_pageSize = 5, up_editing = None,
     up_newRole = RoleBuyer, up_addOpen = False, up_form = empty_form, up_messages = []\<rparr>"

section \<open>The table\<close>

definition matches_user :: "user_page \<Rightarrow> managed_user \<Rightarrow> bool" where
  "matches_user s u =
     (let q = toLowerCase (up_search s);
          matchesSearch = str_includes (toLowerCase (mu_firstName u)) q \<or> str_includes (toLowerCase (mu_lastName u)) q
            \<or> str_includes (toLowerCase (mu_email u)) q \<or> str_includes (toLowerCase (mu_id u)) q
            \<or> str_includes (toLowerCase (mu_fullWalletAddress u)) q;
          matchesRole = (up_role s = ''all'' \<or> role_name (mu_role u) = up_role s);
          matchesStatus = (up_status s = ''all'' \<or> status_name (mu_status u) = up_status s);
          matchesKyc = (up_kyc s = ''all'' \<or> up_kyc s = ''verified'' \<and> mu_kycVerified u
            \<or> up_kyc s = ''unverified'' \<and> \<not> mu_kycVerified u)
      in matchesSearch \<and> matchesRole \<and> matchesStatus \<and> matchesKyc)"

text \<open>The comparator of the sort, as \<open>compare a b \<le> 0\<close>.\<close>

definition user_le :: "(string \<Rightarrow> string \<Rightarrow> int) \<Rightarrow> user_page \<Rightarrow> managed_user \<Rightarrow> managed_user \<Rightarrow> bool" where
  "user_le collate s a b = (case (field_value a (up_sortField s), field_value b (up_sortField s)) of
       (VText x, VText y) \<Rightarrow> (if up_sortAsc s then collate x y \<le> 0 else collate y x \<le> 0)
     | (VNum x, VNum y) \<Rightarrow> (if up_sortAsc s then x - y \<le> 0 else y - x \<le> 0)
     | _ \<Rightarrow> True)"

definition filteredUsers :: "(string \<Rightarrow> string \<Rightarrow> int) \<Rightarrow> user_page \<Rightarrow> managed_user list" where
  "filteredUsers collate s = js_sort (user_le collate s) (filter (matches_user s) (up_users s))"

definition paginatedUsers :: "(string \<Rightarrow> string \<Rightarrow> int) \<Rightarrow> user_page \<Rightarrow> managed_user list" where
  "paginatedUsers collate s = page_rows (filteredUsers collate s) (up_pageSize s) (up_page s)"

definition user_pages :: "(string \<Rightarrow> string \<Rightarrow> int) \<Rightarrow> user_page \<Rightarrow> nat" where
  "user_pages collate s = totalPages (length (filteredUsers collate s)) (up_pageSize s)"

record user_figures =
  us_total :: nat
  us_sellers :: nat
  us_activeEscrows :: nat
  us_flaggedOrSuspended :: nat

definition user_stats :: "user_page \<Rightarrow> user_figures" where
  "user_stats s =
     \<lparr>us_total = length (up_users s),
      us_sellers = length (filter (\<lambda>u. mu_role u = RoleSeller) (up_users s)),
      us_activeEscrows = foldl (\<lambda>acc u. acc + mu_escrowsCount u) 0 (up_users s),
      us_flaggedOrSuspended = length (filter (\<lambda>u. mu_status u = UserFlagged \<or> mu_status u = UserSuspended) (up_users s))\<rparr>"

definition user_headers :: "string list" where
  "user_headers = [''User ID'', ''First Name'', ''Last Name'', ''Email'', ''Phone'', ''Role'', ''Status'', ''KYC Verified'',
     ''Wallet Address'', ''Escrows Count'', ''Completed Volume'', ''Reputation Score'', ''Joined Date'']"

definition user_cells :: "(rat \<Rightarrow> string) \<Rightarrow> managed_user \<Rightarrow> string list" where
  "user_cells num_text u = [mu_id u, mu_firstName u, mu_lastName u, mu_email u, mu_phoneNumber u, role_name (mu_role u),
     status_name (mu_status u), if mu_kycVerified u then ''Yes'' else ''No'', mu_fullWalletAddress u,
     show_nat (mu_escrowsCount u), mu_completedVolume u, num_text (mu_reputationScore u), mu_joinedDate u]"

definition handleExportCSV :: "(string \<Rightarrow> string \<Rightarrow> int) \<Rightarrow> (rat \<Rightarrow> string) \<Rightarrow> string \<Rightarrow> user_page \<Rightarrow> string \<times> string" where
  "handleExportCSV collate num_text now_iso s =
     (''truestub-users-'' @ take 10 now_iso @ ''.csv'',
      csv_content (user_headers # map (user_cells num_text) (filteredUsers collate s)))"

section \<open>Events\<close>

definition handleToggleStatus :: "managed_user \<Rightarrow> user_page \<Rightarrow> user_page" where
  "handleToggleStatus user s =
     (let nextStatus = (if mu_status user = UserSuspended \<or> mu_status user = UserFlagged then UserActive else UserSuspended)
      in s\<lparr>up_users := map (\<lambda>u. if mu_id u = mu_id user then u\<lparr>mu_status := nextStatus\<rparr> else u) (up_users s),
           up_messages := up_messages s @
             [''User '' @ mu_firstName user @ '' '' @ mu_lastName user @ '' is now '' @ status_name nextStatus]\<rparr>)"

definition handleSaveRole :: "user_page \<Rightarrow> user_page" where
  "handleSaveRole s = (case up_editing s of
       None \<Rightarrow> s
     | Some e \<Rightarrow>
         s\<lparr>up_users := map (\<lambda>u. if mu_id u = mu_id e then u\<lparr>mu_role := up_newRole s\<rparr> else u) (up_users s),
           up_messages := up_messages s @
             [''Role for '' @ mu_firstName e @ '' '' @ mu_lastName e @ '' updated to '' @ role_name (up_newRole s)],
           up_editing := None\<rparr>)"

definition last4 :: "string \<Rightarrow> string" where "last4 w = drop (length w - 4) w"

text \<open>The user that the form describes; \<open>rnd\<close> is \<open>Math.floor(Math.random() * 900)\<close>, \<open>now_iso\<close> the ISO time.\<close>

definition created_user :: "nat \<Rightarrow> string \<Rightarrow> new_user_form \<Rightarrow> managed_user" where
  "created_user rnd now_iso f =
     \<lparr>mu_id = ''usr_stb_'' @ show_nat (100 + rnd), mu_firstName = nf_firstName f, mu_lastName = nf_lastName f,
      mu_email = nf_email f,
      mu_phoneNumber = (if nf_phoneNumber f \<noteq> [] then nf_phoneNumber f else ''+1 (555) 000-0000''),
      mu_role = nf_role f, mu_status = UserActive, mu_kycVerified = nf_kycVerified f,
      mu_walletAddress = (if nf_walletAddress f \<noteq> []
        then take 4 (nf_walletAddress f) @ ''...'' @ last4 (nf_walletAddress f) else ''GB...TEMP''),
      mu_fullWalletAddress = (if nf_walletAddress f \<noteq> [] then nf_walletAddress f
        else ''GBLANKWALLETADDRESS1234567890ABCDEFGHIJKLMNOPQRSTUVWXYZ''),
      mu_escrowsCount = 0, mu_completedVolume = ''$0 USDC'', mu_reputationScore = 5, mu_totalReviews = 0,
      mu_joinedDate = hd (split_on (CHR ''T'') now_iso)\<rparr>"

definition handleCreateUser :: "nat \<Rightarrow> string \<Rightarrow> user_page \<Rightarrow> user_page" where
  "handleCreateUser rnd now_iso s =
     (let f = up_form s in
      if nf_firstName f = [] \<or> nf_lastName f = [] \<or> nf_email f = [] then
        s\<lparr>up_messages := up_messages s @ [''Please fill in the required fields (First Name, Last Name, Email)'']\<rparr>
      else (let created = created_user rnd now_iso f in
        s\<lparr>up_users := created # up_users s,
          up_messages := up_messages s @
            [''User '' @ mu_firstName created @ '' '' @ mu_lastName created @ '' created successfully!''],
          up_addOpen := False, up_form := empty_form\<rparr>))"

definition toggleSort :: "user_field \<Rightarrow> user_page \<Rightarrow> user_page" where
  "toggleSort f s = (if up_sortField s = f then s\<lparr>up_sortAsc := \<not> up_sortAsc s\<rparr> else s\<lparr>up_sortField := f, up_sortAsc := True\<rparr>)"

datatype size_option = Rows5 | Rows10 | Rows20

fun size_value :: "size_option \<Rightarrow> nat" where
  "size_value Rows5 = 5"
| "size_value Rows10 = 10"
| "size_value Rows20 = 20"

text \<open>
  What the user can do. The row menu acts on a displayed row; a button that is disabled does nothing.
\<close>

datatype user_act =
    SetSearch string | SetRoleFilter string | SetStatusFilter string | SetKycFilter string | ResetFilters
  | SortBy user_field | SetPageSize size_option | PrevPage | NextPage
  | RowToggleStatus nat | RowEditRole nat | ChooseRole user_role | SaveRole | CancelRole
  | OpenAdd | CloseAdd | FillForm new_user_form | SubmitAdd nat string | ExportUsers

fun user_event :: "(string \<Rightarrow> string \<Rightarrow> int) \<Rightarrow> user_act \<Rightarrow> user_page \<Rightarrow> user_page" where
  "user_event collate (SetSearch q) s = s\<lparr>up_search := q, up_page := 1\<rparr>"
| "user_event collate (SetRoleFilter v) s = s\<lparr>up_role := v, up_page := 1\<rparr>"
| "user_event collate (SetStatusFilter v) s = s\<lparr>up_status := v, up_page := 1\<rparr>"
| "user_event collate (SetKycFilter v) s = s\<lparr>up_kyc := v, up_page := 1\<rparr>"
| "user_event collate ResetFilters s =
     s\<lparr>up_search := [], up_role := ''all'', up_status := ''all'', up_kyc := ''all'', up_page := 1\<rparr>"
| "user_event collate (SortBy f) s = toggleSort f s"
| "user_event collate (SetPageSize z) s = s\<lparr>up_pageSize := size_value z, up_page := 1\<rparr>"
| "user_event collate PrevPage s =
     (if safePage (up_page s) (user_pages collate s) \<le> 1 then s else s\<lparr>up_page := max 1 (up_page s - 1)\<rparr>)"
| "user_event collate NextPage s =
     (if user_pages collate s \<le> safePage (up_page s) (user_pages collate s) then s
      else s\<lparr>up_page := min (user_pages collate s) (up_page s + 1)\<rparr>)"
| "user_event collate (RowToggleStatus i) s =
     (if i < length (paginatedUsers collate s) then handleToggleStatus (paginatedUsers collate s ! i) s else s)"
| "user_event collate (RowEditRole i) s =
     (if i < length (paginatedUsers collate s)
      then s\<lparr>up_editing := Some (paginatedUsers collate s ! i), up_newRole := mu_role (paginatedUsers collate s ! i)\<rparr> else s)"
| "user_event collate (ChooseRole r) s = s\<lparr>up_newRole := r\<rparr>"
| "user_event collate SaveRole s = handleSaveRole s"
| "user_event collate CancelRole s = s\<lparr>up_editing := None\<rparr>"
| "user_event collate OpenAdd s = s\<lparr>up_addOpen := True\<rparr>"
| "user_event collate CloseAdd s = s\<lparr>up_addOpen := False\<rparr>"
| "user_event collate (FillForm f) s = s\<lparr>up_form := f\<rparr>"
| "user_event collate (SubmitAdd rnd now_iso) s = handleCreateUser rnd now_iso s"
| "user_event collate ExportUsers s = s\<lparr>up_messages := up_messages s @ [''User list exported to CSV'']\<rparr>"

definition user_run :: "(string \<Rightarrow> string \<Rightarrow> int) \<Rightarrow> user_act list \<Rightarrow> user_page \<Rightarrow> user_page" where
  "user_run collate es s = foldl (\<lambda>t e. user_event collate e t) s es"

section \<open>What the page guarantees\<close>

definition page_ok :: "user_page \<Rightarrow> bool" where
  "page_ok s \<longleftrightarrow> 1 \<le> up_page s \<and> 1 \<le> up_pageSize s"

lemma size_value_pos [simp]: "Suc 0 \<le> size_value z"
  by (cases z) simp_all

lemma event_ok: "page_ok s \<Longrightarrow> page_ok (user_event collate e s)"
  using totalPages_pos [of "length (filteredUsers collate s)" "up_pageSize s"]
  by (cases e; (cases "up_editing s")?)
    (auto simp: page_ok_def toggleSort_def handleToggleStatus_def handleSaveRole_def handleCreateUser_def user_pages_def
      Let_def)

lemma run_ok: "page_ok s \<Longrightarrow> page_ok (user_run collate es s)"
  by (induction es arbitrary: s) (simp_all add: user_run_def event_ok)

lemma initial_ok: "page_ok initial_page"
  by (simp add: page_ok_def initial_page_def)

subsection \<open>The table shows every matching user, in order\<close>

text \<open>What sorting asks of \<open>localeCompare\<close>: a total preorder on texts.\<close>

definition collation :: "(string \<Rightarrow> string \<Rightarrow> int) \<Rightarrow> bool" where
  "collation collate \<longleftrightarrow> (\<forall>x y. collate x y \<le> 0 \<or> collate y x \<le> 0)
     \<and> (\<forall>x y z. collate x y \<le> 0 \<longrightarrow> collate y z \<le> 0 \<longrightarrow> collate x z \<le> 0)"

lemma user_le_total: "collation collate \<Longrightarrow> user_le collate s a b \<or> user_le collate s b a"
  by (cases "up_sortField s") (auto simp: user_le_def collation_def)

lemma user_le_trans:
  assumes "collation collate"
  shows "user_le collate s a b \<Longrightarrow> user_le collate s b c \<Longrightarrow> user_le collate s a c"
proof -
  have tr: "collate x y \<le> 0 \<Longrightarrow> collate y z \<le> 0 \<Longrightarrow> collate x z \<le> 0" for x y z
    using assms unfolding collation_def by blast
  show "user_le collate s a b \<Longrightarrow> user_le collate s b c \<Longrightarrow> user_le collate s a c"
    by (cases "up_sortField s"; cases "up_sortAsc s") (auto simp: user_le_def intro: tr)
qed

interpretation users: table_view up_users matches_user "filteredUsers collate" for collate
  by unfold_locales (simp add: filteredUsers_def)

interpretation ranked: ordered_table up_users matches_user "filteredUsers collate"
    "\<lambda>s a b. collation collate \<longrightarrow> user_le collate s a b" for collate
proof unfold_locales
  fix s
  show "sorted_wrt (\<lambda>a b. collation collate \<longrightarrow> user_le collate s a b) (filteredUsers collate s)"
  proof (cases "collation collate")
    case True
    then show ?thesis
      using sorted_wrt_js_sort [of "user_le collate s"] user_le_total user_le_trans
      unfolding filteredUsers_def by (metis (no_types, lifting) sorted_wrt_mono_rel)
  qed (simp add: sorted_wrt_iff_nth_less)
qed

lemma user_pages_rows: "paginatedUsers collate (s\<lparr>up_page := p\<rparr>) = page_rows (filteredUsers collate s) (up_pageSize s) p"
proof -
  have m: "matches_user (s\<lparr>up_page := p\<rparr>) = matches_user s" by (rule ext) (simp add: matches_user_def)
  have l: "user_le collate (s\<lparr>up_page := p\<rparr>) = user_le collate s" by (intro ext) (simp add: user_le_def split: cell_value.splits)
  show ?thesis unfolding paginatedUsers_def filteredUsers_def m l by simp
qed

lemma export_reads_back:
  "csv_parse (snd (handleExportCSV collate num_text now_iso s))
     = Some (user_headers # map (user_cells num_text) (filteredUsers collate s))"
  by (simp add: handleExportCSV_def csv_parse_content list_all_iff user_headers_def user_cells_def)

text \<open>
  C36: Whatever an administrator does on the users page, its table neither hides nor invents a user. After any
  events from the initial page, going through the pages shows exactly the users that match the search and
  the filters, each once per entry; the page shown is empty only when no user matches, even after rows left
  the table; its rows come in the order of the chosen column when the collation is a total preorder; and
  the exported file reads back as the headers and one row of cells per matching user, whatever the texts hold.
\<close>

theorem user_table_exact:
  "let s = user_run collate es initial_page; matching = filter (matches_user s) (up_users s) in
     mset (concat (map (\<lambda>p. paginatedUsers collate (s\<lparr>up_page := p\<rparr>)) [1..<Suc (user_pages collate s)])) = mset matching
     \<and> (paginatedUsers collate s = [] \<longleftrightarrow> matching = [])
     \<and> (if collation collate then sorted_wrt (user_le collate s) (paginatedUsers collate s) else True)
     \<and> csv_parse (snd (handleExportCSV collate num_text now_iso s))
         = Some (user_headers # map (user_cells num_text) (filteredUsers collate s))
     \<and> mset (filteredUsers collate s) = mset matching"
proof -
  let ?s = "user_run collate es initial_page"
  have ok: "1 \<le> up_pageSize ?s" "1 \<le> up_page ?s" using run_ok [OF initial_ok] by (simp_all add: page_ok_def)
  have "if collation collate then sorted_wrt (user_le collate ?s) (paginatedUsers collate ?s) else True"
    using ranked.page_sorted [of collate ?s "up_pageSize ?s" "up_page ?s"]
    by (cases "collation collate") (simp_all add: paginatedUsers_def)
  moreover have "paginatedUsers collate ?s = [] \<longleftrightarrow> filter (matches_user ?s) (up_users ?s) = []"
    unfolding paginatedUsers_def by (rule users.page_not_empty [OF ok])
  ultimately show ?thesis
    unfolding Let_def user_pages_rows user_pages_def
    by (simp only: users.pages_show_all [OF ok(1)] users.shown_mset export_reads_back simp_thms)
qed

subsection \<open>What the events do to the users\<close>

text \<open>A listed user keeps everything but role and status; a fresh one is what the form makes.\<close>

definition kept :: "managed_user \<Rightarrow> managed_user \<Rightarrow> bool" where
  "kept u v \<longleftrightarrow> v = u\<lparr>mu_role := mu_role v, mu_status := mu_status v\<rparr>
     \<and> mu_status v \<in> {mu_status u, UserActive, UserSuspended}"

definition fresh_user :: "managed_user \<Rightarrow> bool" where
  "fresh_user v \<longleftrightarrow> mu_status v \<in> {UserActive, UserSuspended} \<and> mu_escrowsCount v = 0
     \<and> mu_firstName v \<noteq> [] \<and> mu_lastName v \<noteq> [] \<and> mu_email v \<noteq> []"

definition grown :: "managed_user list \<Rightarrow> managed_user list \<Rightarrow> bool" where
  "grown us vs \<longleftrightarrow> list_all fresh_user (take (length vs - length us) vs)
     \<and> list_all2 kept us (drop (length vs - length us) vs)"

lemma kept_refl [simp]: "kept u u"
  by (simp add: kept_def)

lemma kept_trans: "kept u v \<Longrightarrow> kept v w \<Longrightarrow> kept u w"
  by (cases u; cases v; cases w) (auto simp: kept_def)

lemma kept_fresh: "kept u v \<Longrightarrow> fresh_user u \<Longrightarrow> fresh_user v"
  by (cases u; cases v) (auto simp: kept_def fresh_user_def)

lemma grownI: "list_all fresh_user new \<Longrightarrow> list_all2 kept us old \<Longrightarrow> grown us (new @ old)"
  by (simp add: grown_def list_all2_lengthD)

lemma grownE:
  assumes "grown us vs"
  obtains new old where "vs = new @ old" and "list_all fresh_user new" and "list_all2 kept us old"
  using assms append_take_drop_id [of "length vs - length us" vs] unfolding grown_def by metis

lemma grown_refl: "grown us us"
  using grownI [of "[]" us us] by (simp add: list_all2_same)

lemma grown_trans:
  assumes "grown us vs" and "grown vs ws"
  shows "grown us ws"
proof -
  obtain new old where vs: "vs = new @ old" and new: "list_all fresh_user new" and old: "list_all2 kept us old"
    using assms(1) by (rule grownE)
  obtain new' old' where ws: "ws = new' @ old'" and new': "list_all fresh_user new'" and old': "list_all2 kept vs old'"
    using assms(2) by (rule grownE)
  obtain a b where ab: "old' = a @ b" "list_all2 kept new a" "list_all2 kept old b"
    using old' unfolding vs list_all2_append1 by metis
  have "list_all fresh_user a"
    using ab(2) new kept_fresh by (auto simp: list_all_length list_all2_conv_all_nth)
  moreover have "list_all2 kept us b"
    using list_all2_trans [of kept kept kept, OF kept_trans old ab(3)] .
  ultimately show ?thesis using grownI [of "new' @ a" us b] new' unfolding ws ab(1) by simp
qed

lemma grown_map: "(\<And>u. kept u (f u)) \<Longrightarrow> grown us (map f us)"
  using grownI [of "[]" us "map f us"] by (simp add: list_all2_map2 list_all2_same)

lemma event_grown: "grown (up_users s) (up_users (user_event collate e s))"
proof (cases e)
  case (RowToggleStatus i)
  then show ?thesis by (auto simp: grown_refl handleToggleStatus_def Let_def kept_def intro!: grown_map)
next
  case SaveRole
  then show ?thesis by (auto simp: grown_refl handleSaveRole_def kept_def intro!: grown_map split: option.splits)
next
  case (SubmitAdd rnd now_iso)
  then show ?thesis
    using grownI [of "[created_user rnd now_iso (up_form s)]" "up_users s" "up_users s"]
    by (simp add: grown_refl handleCreateUser_def Let_def fresh_user_def created_user_def list_all2_same)
qed (simp_all add: grown_refl toggleSort_def)

lemma run_grown: "grown (up_users s) (up_users (user_run collate es s))"
proof (induction es arbitrary: s)
  case (Cons e es)
  have "user_run collate (e # es) s = user_run collate es (user_event collate e s)" by (simp add: user_run_def)
  then show ?case using grown_trans [OF event_grown Cons] by simp
qed (simp add: user_run_def grown_refl)

lemma active_sum: "us_activeEscrows (user_stats s) = sum_list (map mu_escrowsCount (up_users s))"
proof -
  have "foldl (\<lambda>acc u. acc + mu_escrowsCount u) n us = n + sum_list (map mu_escrowsCount us)" for n and us :: "managed_user list"
    by (induction us arbitrary: n) simp_all
  then show ?thesis by (simp add: user_stats_def)
qed

lemma grown_sum: "grown us vs \<Longrightarrow> sum_list (map mu_escrowsCount vs) = sum_list (map mu_escrowsCount us)"
proof (erule grownE)
  fix new old
  assume vs: "vs = new @ old" and new: "list_all fresh_user new" and old: "list_all2 kept us old"
  have "sum_list (map mu_escrowsCount new) = 0" using new by (induction new) (simp_all add: fresh_user_def)
  moreover have "map mu_escrowsCount old = map mu_escrowsCount us"
  proof (use old in \<open>induction rule: list_all2_induct\<close>)
    case (Cons x xs y ys)
    then show ?case by (cases x; cases y) (simp add: kept_def)
  qed simp
  ultimately show ?thesis unfolding vs by simp
qed

text \<open>
  No sequence of administrator actions removes a user or rewrites one. Whatever is done, the users listed
  before are still there, in their order, with every field but role and status as it was; a status that
  changed is active or suspended, so nobody becomes pending or flagged by hand; what precedes them are users
  made by the form, with the required fields filled in and no escrow; so the figure of active escrows never moves.
\<close>

theorem user_admin_frame:
  "let t = user_run collate es s in
     grown (up_users s) (up_users t) \<and> length (up_users s) \<le> length (up_users t)
     \<and> us_activeEscrows (user_stats t) = us_activeEscrows (user_stats s)"
proof -
  have g: "grown (up_users s) (up_users (user_run collate es s))" by (rule run_grown)
  then have "length (up_users s) \<le> length (up_users (user_run collate es s))"
    by (auto elim!: grownE dest!: list_all2_lengthD)
  then show ?thesis using g grown_sum [OF g] by (simp add: Let_def active_sum)
qed

text \<open>
  Ids are drawn among nine hundred, so two users may share one; then suspending one suspends the other. And
  the previous button counts from the page that was asked for, not from the one that is shown.
\<close>

lemma shared_id_toggled:
  assumes "i < length (up_users s)" and "mu_id (up_users s ! i) = mu_id u"
  shows "mu_status (up_users (handleToggleStatus u s) ! i)
    = (if mu_status u = UserSuspended \<or> mu_status u = UserFlagged then UserActive else UserSuspended)"
  using assms by (simp add: handleToggleStatus_def Let_def)

lemma previous_stuck:
  assumes "2 \<le> user_pages collate s" and "user_pages collate s < up_page s"
  shows "safePage (up_page (user_event collate PrevPage s)) (user_pages collate s) = safePage (up_page s) (user_pages collate s)"
  using assms by (simp add: safePage_def)

end
