(* ===== verification/Escrow_Dashboard.thy ===== *)
theory Escrow_Dashboard
  imports Paged_Table Csv_Export Js_Map
begin

text \<open>
  The escrow dashboards: \<open>components/dashboard/RoleEscrowDashboard.tsx\<close> (filters, order, figures, export and
  the polling effect), \<open>EscrowsByStatus.tsx\<close>, \<open>RecentActivity.tsx\<close>, \<open>lib/formatEscrowAmount.ts\<close>, and the wallet
  dashboard \<open>components/escrow/WalletEscrowDashboard.tsx\<close> with its cards. \<open>new Date(text).getTime()\<close> is the
  parameter \<open>time_of\<close> (\<open>None\<close> is \<open>NaN\<close>), number formats and translations are parameters. The table that shows
  the rows, \<open>EscrowTable.tsx\<close>, does not parse and is left out.
\<close>

section \<open>Escrows of the dashboard\<close>

record deal_meta =
  dm_purchaseId :: string
  dm_eventName :: string
  dm_transferDate :: string
  dm_eventDate :: string

record deal =
  de_id :: string
  de_status :: string
  de_amount :: rat
  de_asset :: "string option"
  de_metadata :: "deal_meta option"
  de_createdAt :: string
  de_updatedAt :: string

definition deal_statuses :: "string list" where
  "deal_statuses = [''pending'', ''funded'', ''transfer_confirmed'', ''transfer_finalized'', ''completed'', ''cancelled'']"

definition meta_text :: "(deal_meta \<Rightarrow> string) \<Rightarrow> deal \<Rightarrow> string" where
  "meta_text f d = (case de_metadata d of None \<Rightarrow> [] | Some m \<Rightarrow> f m)"

record dash_filter =
  df_status :: "string list"
  df_minAmount :: string
  df_maxAmount :: string
  df_sortBy :: string
  df_transferFrom :: string
  df_transferTo :: string
  df_eventFrom :: string
  df_eventTo :: string

definition no_filter :: dash_filter where
  "no_filter = \<lparr>df_status = [], df_minAmount = [], df_maxAmount = [], df_sortBy = ''recent'', df_transferFrom = [],
     df_transferTo = [], df_eventFrom = [], df_eventTo = []\<rparr>"

definition STATUS_OPTIONS :: "string list" where
  "STATUS_OPTIONS = [''Completed'', ''Transfer Confirmed'', ''Transfer Finalized'', ''Cancelled'', ''Pending'']"

definition STATUS_MAP :: "(string \<times> string) list" where
  "STATUS_MAP = [(''Completed'', ''completed''), (''Transfer Confirmed'', ''transfer_confirmed''),
     (''Transfer Finalized'', ''transfer_finalized''), (''Cancelled'', ''cancelled''), (''Pending'', ''pending'')]"

definition one_if :: "bool \<Rightarrow> nat" where "one_if b = (if b then 1 else 0)"

definition activeFilterCount :: "dash_filter \<Rightarrow> nat" where
  "activeFilterCount f = length (df_status f) + one_if (df_minAmount f \<noteq> []) + one_if (df_maxAmount f \<noteq> [])
     + one_if (df_transferFrom f \<noteq> []) + one_if (df_transferTo f \<noteq> []) + one_if (df_eventFrom f \<noteq> [])
     + one_if (df_eventTo f \<noteq> []) + one_if (df_sortBy f \<noteq> ''recent'')"

section \<open>Filters and order\<close>

text \<open>A comparison of two dates is false when one of them is invalid.\<close>

definition date_le :: "int option \<Rightarrow> int option \<Rightarrow> bool" where
  "date_le a b = (case (a, b) of (Some x, Some y) \<Rightarrow> x \<le> y | _ \<Rightarrow> False)"

definition matches_deal :: "(string \<Rightarrow> int option) \<Rightarrow> dash_filter \<Rightarrow> deal \<Rightarrow> bool" where
  "matches_deal time_of f d =
     ((if df_status f \<noteq> [] then Some (de_status d) \<in> set (map (map_of STATUS_MAP) (df_status f)) else True)
      \<and> (if df_minAmount f \<noteq> [] then js_le (js_Number (df_minAmount f)) (Fin (de_amount d)) else True)
      \<and> (if df_maxAmount f \<noteq> [] then js_le (Fin (de_amount d)) (js_Number (df_maxAmount f)) else True)
      \<and> (if df_transferFrom f \<noteq> [] then meta_text dm_transferDate d \<noteq> []
            \<and> date_le (time_of (df_transferFrom f)) (time_of (meta_text dm_transferDate d)) else True)
      \<and> (if df_transferTo f \<noteq> [] then meta_text dm_transferDate d \<noteq> []
            \<and> date_le (time_of (meta_text dm_transferDate d)) (time_of (df_transferTo f)) else True)
      \<and> (if df_eventFrom f \<noteq> [] then meta_text dm_eventDate d \<noteq> []
            \<and> date_le (time_of (df_eventFrom f)) (time_of (meta_text dm_eventDate d)) else True)
      \<and> (if df_eventTo f \<noteq> [] then meta_text dm_eventDate d \<noteq> []
            \<and> date_le (time_of (meta_text dm_eventDate d)) (time_of (df_eventTo f)) else True))"

text \<open>
  The comparators as \<open>compare a b \<le> 0\<close>. A difference that is \<open>NaN\<close> counts as zero; then the order of the
  rows is up to the engine, which here inserts stably.
\<close>

definition diff_le :: "int option \<Rightarrow> int option \<Rightarrow> bool" where
  "diff_le a b = (case (a, b) of (Some x, Some y) \<Rightarrow> x - y \<le> 0 | _ \<Rightarrow> True)"

definition transfer_time :: "(string \<Rightarrow> int option) \<Rightarrow> deal \<Rightarrow> int option" where
  "transfer_time time_of d =
     (if meta_text dm_transferDate d \<noteq> [] then time_of (meta_text dm_transferDate d) else Some 0)"

definition deal_le :: "(string \<Rightarrow> int option) \<Rightarrow> dash_filter \<Rightarrow> deal \<Rightarrow> deal \<Rightarrow> bool" where
  "deal_le time_of f a b =
     (if df_sortBy f = ''amount-high'' then de_amount b - de_amount a \<le> 0
      else if df_sortBy f = ''amount-low'' then de_amount a - de_amount b \<le> 0
      else if df_sortBy f = ''checkin'' then diff_le (transfer_time time_of a) (transfer_time time_of b)
      else diff_le (time_of (de_createdAt b)) (time_of (de_createdAt a)))"

text \<open>The state of the dashboard that the table depends on: its filter and the escrows it is given.\<close>

record dash =
  da_escrows :: "deal list"
  da_filter :: dash_filter

definition filteredTransactions :: "(string \<Rightarrow> int option) \<Rightarrow> dash \<Rightarrow> deal list" where
  "filteredTransactions time_of s =
     js_sort (deal_le time_of (da_filter s)) (filter (matches_deal time_of (da_filter s)) (da_escrows s))"

text \<open>What the user can do: the controls of the filter menu.\<close>

datatype dash_act =
    ChooseSort string | ToggleStatus string | TypeMin string | TypeMax string
  | PickTransferFrom string | PickTransferTo string | PickEventFrom string | PickEventTo string | ResetAll

fun dash_event :: "dash_act \<Rightarrow> dash_filter \<Rightarrow> dash_filter" where
  "dash_event (ChooseSort v) f = f\<lparr>df_sortBy := v\<rparr>"
| "dash_event (ToggleStatus st) f =
     f\<lparr>df_status := (if st \<in> set (df_status f) then filter (\<lambda>s. s \<noteq> st) (df_status f) else df_status f @ [st])\<rparr>"
| "dash_event (TypeMin v) f = f\<lparr>df_minAmount := v\<rparr>"
| "dash_event (TypeMax v) f = f\<lparr>df_maxAmount := v\<rparr>"
| "dash_event (PickTransferFrom v) f = f\<lparr>df_transferFrom := v\<rparr>"
| "dash_event (PickTransferTo v) f = f\<lparr>df_transferTo := v\<rparr>"
| "dash_event (PickEventFrom v) f = f\<lparr>df_eventFrom := v\<rparr>"
| "dash_event (PickEventTo v) f = f\<lparr>df_eventTo := v\<rparr>"
| "dash_event ResetAll f = no_filter"

definition export_row :: "deal \<Rightarrow> transaction_row" where
  "export_row d = \<lparr>tx_purchaseId = (if meta_text dm_purchaseId d \<noteq> [] then meta_text dm_purchaseId d else de_id d),
     tx_event = meta_text dm_eventName d, tx_transferInitiated = meta_text dm_transferDate d,
     tx_transferCompleted = meta_text dm_eventDate d, tx_amount = Fin (de_amount d), tx_rowStatus = de_status d\<rparr>"

text \<open>The export button is disabled on an empty table.\<close>

definition handleExportTransactions :: "(string \<Rightarrow> int option) \<Rightarrow> (rat \<Rightarrow> string) \<Rightarrow> dash \<Rightarrow> (string \<times> string) option" where
  "handleExportTransactions time_of num_text s =
     (if filteredTransactions time_of s = [] then None
      else Some (exportTransactionsToCSV num_text (map export_row (filteredTransactions time_of s)) None))"

section \<open>Figures\<close>

record dash_cards =
  dc_total :: nat
  dc_active :: nat
  dc_completed :: nat
  dc_value :: rat

definition dash_figures :: "deal list \<Rightarrow> dash_cards" where
  "dash_figures es =
     \<lparr>dc_total = length es,
      dc_active = length (filter (\<lambda>e. de_status e = ''pending'' \<or> de_status e = ''transfer_confirmed''
        \<or> de_status e = ''transfer_finalized'') es),
      dc_completed = length (filter (\<lambda>e. de_status e = ''completed'') es),
      dc_value = foldl (\<lambda>sum e. sum + de_amount e) 0 es\<rparr>"

definition ISO_CURRENCY_CODES :: "string list" where
  "ISO_CURRENCY_CODES = [''USD'', ''EUR'', ''GBP'', ''MXN'', ''CRC'']"

definition formatEscrowAmount :: "(string \<Rightarrow> rat \<Rightarrow> string) \<Rightarrow> (rat \<Rightarrow> string) \<Rightarrow> rat \<Rightarrow> string \<Rightarrow> string" where
  "formatEscrowAmount money number amount currency =
     (if currency \<in> set ISO_CURRENCY_CODES then money currency amount else number amount @ '' '' @ currency)"

text \<open>
  The totals per asset. The object is read in the order of its entries: codes that are array indices come
  first, by number, the others in the order of their first use. A code that names an inherited member finds
  a function; what is shown then is not modelled (\<open>None\<close>).
\<close>

definition inherited_member :: "string \<Rightarrow> bool" where
  "inherited_member k \<longleftrightarrow> k \<in> set [''constructor'', ''__proto__'', ''hasOwnProperty'', ''isPrototypeOf'',
     ''propertyIsEnumerable'', ''toLocaleString'', ''toString'', ''valueOf'', ''__defineGetter__'',
     ''__defineSetter__'', ''__lookupGetter__'', ''__lookupSetter__'']"

definition array_index :: "string \<Rightarrow> nat option" where
  "array_index k = (if k \<noteq> [] \<and> list_all is_digit k \<and> (hd k \<noteq> CHR ''0'' \<or> k = ''0'') \<and> digits_val 0 k < 2 ^ 32 - 1
     then Some (digits_val 0 k) else None)"

definition asset_code :: "deal \<Rightarrow> string" where
  "asset_code d = (case de_asset d of None \<Rightarrow> ''USDC'' | Some c \<Rightarrow> c)"

definition add_total :: "(string, rat) jmap \<Rightarrow> deal \<Rightarrow> (string, rat) jmap" where
  "add_total totals d = (if de_status d = ''cancelled'' then totals
     else jm_set totals (asset_code d) ((case jm_get totals (asset_code d) of None \<Rightarrow> 0 | Some x \<Rightarrow> x) + de_amount d))"

definition asset_totals :: "deal list \<Rightarrow> (string, rat) jmap" where
  "asset_totals es = foldl add_total [] es"

definition object_entries :: "(string, rat) jmap \<Rightarrow> (string \<times> rat) list" where
  "object_entries m =
     js_sort (\<lambda>a b. the (array_index (fst a)) \<le> the (array_index (fst b))) (filter (\<lambda>e. array_index (fst e) \<noteq> None) m)
     @ filter (\<lambda>e. array_index (fst e) = None) m"

definition getTotalAmount :: "(string \<Rightarrow> rat \<Rightarrow> string) \<Rightarrow> (rat \<Rightarrow> string) \<Rightarrow> deal list \<Rightarrow> string option" where
  "getTotalAmount money number es =
     (if list_ex (\<lambda>d. de_status d \<noteq> ''cancelled'' \<and> inherited_member (asset_code d)) es then None
      else Some (case object_entries (asset_totals es) of
         [] \<Rightarrow> formatEscrowAmount money number 0 ''USDC''
       | entries \<Rightarrow> join [CHR '' '', char_of (183 :: nat), CHR '' ''] (map (\<lambda>(code, amount). formatEscrowAmount money number amount code) entries)))"

datatype viewer = AsGuest | AsEvent | AsAdmin

definition status_count :: "string \<Rightarrow> deal list \<Rightarrow> nat" where
  "status_count st es = length (filter (\<lambda>e. de_status e = st) es)"

text \<open>The cards of a role: the key of the title and the value.\<close>

fun getStatusStats :: "viewer \<Rightarrow> deal list \<Rightarrow> (string \<times> nat) list" where
  "getStatusStats AsGuest es =
     [(''dashboard.active'', status_count ''pending'' es + status_count ''funded'' es),
      (''dashboard.completed'', status_count ''completed'' es)]"
| "getStatusStats AsEvent es =
     [(''dashboard.statusPending'', status_count ''pending'' es), (''dashboard.active'', status_count ''funded'' es)]"
| "getStatusStats AsAdmin es =
     [(''dashboard.active'', status_count ''pending'' es + status_count ''funded'' es),
      (''dashboard.completed'', status_count ''completed'' es), (''dashboard.cancelled'', status_count ''cancelled'' es)]"

section \<open>Recent activity\<close>

definition updated_le :: "(string \<Rightarrow> int option) \<Rightarrow> deal \<Rightarrow> deal \<Rightarrow> bool" where
  "updated_le time_of a b = diff_le (time_of (de_updatedAt b)) (time_of (de_updatedAt a))"

definition recentEscrows :: "(string \<Rightarrow> int option) \<Rightarrow> deal list \<Rightarrow> deal list" where
  "recentEscrows time_of es = take 5 (js_sort (updated_le time_of) es)"

definition getStatusText :: "(string \<Rightarrow> string) \<Rightarrow> string \<Rightarrow> string" where
  "getStatusText t st =
     (if st = ''pending'' then t ''dashboard.statusPending'' else if st = ''funded'' then t ''dashboard.statusFunded''
      else if st = ''transfer_confirmed'' then t ''dashboard.statusTransferConfirmed''
      else if st = ''transfer_finalized'' then t ''dashboard.statusTransferFinalized''
      else if st = ''completed'' then t ''dashboard.statusCompleted''
      else if st = ''cancelled'' then t ''dashboard.statusCancelled'' else st)"

definition getActivityMessage :: "(string \<Rightarrow> string) \<Rightarrow> deal \<Rightarrow> string" where
  "getActivityMessage t d =
     (let purchaseId = (if meta_text dm_purchaseId d \<noteq> [] then meta_text dm_purchaseId d else ''Unknown'');
          eventName = (if meta_text dm_eventName d \<noteq> [] then ''('' @ meta_text dm_eventName d @ '')'' else [])
      in ''#'' @ purchaseId @ '' '' @ eventName @
         (if de_status d \<in> set deal_statuses then '' - '' @ getStatusText t (de_status d) else []))"

definition getStatusBadgeVariant :: "string \<Rightarrow> string" where
  "getStatusBadgeVariant st = (if st = ''cancelled'' then ''destructive'' else if st = ''funded'' then ''default''
     else if st = ''pending'' then ''secondary'' else ''outline'')"

section \<open>Notifications\<close>

record notification =
  no_id :: string
  no_message :: string
  no_read :: bool

text \<open>Both sources are placeholders that answer with nothing.\<close>

definition checkPendingNotifications :: "notification list" where "checkPendingNotifications = []"
definition checkMilestoneNotifications :: "notification list" where "checkMilestoneNotifications = []"

text \<open>\<open>filter\<close> with \<open>findIndex\<close>: the first of each id.\<close>

fun first_of_each :: "string list \<Rightarrow> notification list \<Rightarrow> notification list" where
  "first_of_each seen [] = []"
| "first_of_each seen (n # ns) =
     (if no_id n \<in> set seen then first_of_each seen ns else n # first_of_each (no_id n # seen) ns)"

definition merge_notifications :: "notification list \<Rightarrow> notification list \<Rightarrow> notification list" where
  "merge_notifications received prev =
     prev @ filter (\<lambda>n. no_id n \<notin> set (map no_id prev)) (first_of_each [] received)"

text \<open>
  The effect: the two refs, the indicator, the interval and the requests under way. It runs when loading has
  ended and is cleaned up when loading starts again or the component goes. The answer of a request is the
  two lists, in the code those of the placeholders.
\<close>

record poller =
  po_notifications :: "notification list"
  po_polling :: bool
  po_mounted :: bool
  po_showPolling :: bool
  po_timer :: bool
  po_inFlight :: nat

definition mounted_poller :: "notification list \<Rightarrow> poller" where
  "mounted_poller ns = \<lparr>po_notifications = ns, po_polling = False, po_mounted = True, po_showPolling = False,
     po_timer = False, po_inFlight = 0\<rparr>"

definition checkUpdates :: "poller \<Rightarrow> poller" where
  "checkUpdates p = (if po_polling p then p
     else p\<lparr>po_polling := True, po_showPolling := (if po_mounted p then True else po_showPolling p),
            po_inFlight := Suc (po_inFlight p)\<rparr>)"

definition poll_answered :: "notification list option \<Rightarrow> poller \<Rightarrow> poller" where
  "poll_answered answer p =
     (let p1 = (case answer of None \<Rightarrow> p
            | Some ns \<Rightarrow> if first_of_each [] ns \<noteq> [] \<and> po_mounted p
                then p\<lparr>po_notifications := merge_notifications ns (po_notifications p)\<rparr> else p)
      in p1\<lparr>po_polling := False, po_showPolling := (if po_mounted p then False else po_showPolling p),
            po_inFlight := po_inFlight p - 1\<rparr>)"

datatype poll_act = EffectRuns | IntervalTick | PollAnswers | EffectCleanup

fun poll_event :: "poll_act \<Rightarrow> poller \<Rightarrow> poller" where
  "poll_event EffectRuns p = (checkUpdates p)\<lparr>po_timer := True\<rparr>"
| "poll_event IntervalTick p = (if po_timer p then checkUpdates p else p)"
| "poll_event PollAnswers p =
     (if po_inFlight p = 0 then p
      else poll_answered (Some (checkPendingNotifications @ checkMilestoneNotifications)) p)"
| "poll_event EffectCleanup p = p\<lparr>po_mounted := False, po_polling := False, po_timer := False\<rparr>"

definition poll_run :: "poll_act list \<Rightarrow> poller \<Rightarrow> poller" where
  "poll_run es p = foldl (\<lambda>q e. poll_event e q) p es"

section \<open>The wallet dashboard\<close>

record wallet_escrow =
  we_contractId :: "string option"
  we_title :: "string option"
  we_amount :: "rat option"
  we_asset :: "string option"
  we_approver :: "string option"
  we_serviceProvider :: "string option"
  we_releaseSigner :: "string option"

record role_columns =
  rc_approver :: "wallet_escrow list"
  rc_marker :: "wallet_escrow list"
  rc_releaser :: "wallet_escrow list"

definition holds_role :: "string option \<Rightarrow> string \<Rightarrow> bool" where
  "holds_role r address = (map_option toLowerCase r = Some (toLowerCase address))"

definition escrowsByRole :: "string option \<Rightarrow> wallet_escrow list option \<Rightarrow> role_columns" where
  "escrowsByRole address myEscrows = (case (address, myEscrows) of
       (Some a, Some es) \<Rightarrow>
         if a = [] then \<lparr>rc_approver = [], rc_marker = [], rc_releaser = []\<rparr>
         else \<lparr>rc_approver = filter (\<lambda>e. holds_role (we_approver e) a) es,
               rc_marker = filter (\<lambda>e. holds_role (we_serviceProvider e) a) es,
               rc_releaser = filter (\<lambda>e. holds_role (we_releaseSigner e) a) es\<rparr>
     | _ \<Rightarrow> \<lparr>rc_approver = [], rc_marker = [], rc_releaser = []\<rparr>)"

text \<open>What a card shows, by the order of its conditions.\<close>

datatype card_body = CardLoading | CardError string | CardEmpty | CardList "wallet_escrow list" "nat option"

definition escrow_card :: "wallet_escrow list \<Rightarrow> bool \<Rightarrow> string option \<Rightarrow> card_body" where
  "escrow_card es isLoading error =
     (if isLoading then CardLoading
      else case error of Some m \<Rightarrow> CardError m
        | None \<Rightarrow> if es = [] then CardEmpty
                  else CardList (take 10 es) (if 10 < length es then Some (length es) else None))"

definition item_title :: "wallet_escrow \<Rightarrow> string" where
  "item_title e = (case we_title e of None \<Rightarrow> ''Untitled Escrow'' | Some t \<Rightarrow> if t = [] then ''Untitled Escrow'' else t)"

definition item_contract :: "wallet_escrow \<Rightarrow> string" where
  "item_contract e = (case we_contractId e of
       None \<Rightarrow> ''Missing contract ID''
     | Some c \<Rightarrow> if c = [] then ''Missing contract ID'' else take 8 c @ ''...'' @ drop (length c - 6) c)"

section \<open>What the dashboard guarantees\<close>

definition dates_parse :: "(string \<Rightarrow> int option) \<Rightarrow> deal list \<Rightarrow> bool" where
  "dates_parse time_of es \<longleftrightarrow> list_all (\<lambda>d. time_of (de_createdAt d) \<noteq> None \<and> transfer_time time_of d \<noteq> None) es"

text \<open>On rows whose dates parse the comparators compare a number.\<close>

definition deal_rank :: "(string \<Rightarrow> int option) \<Rightarrow> dash_filter \<Rightarrow> deal \<Rightarrow> rat" where
  "deal_rank time_of f d =
     (if df_sortBy f = ''amount-high'' then - de_amount d
      else if df_sortBy f = ''amount-low'' then de_amount d
      else if df_sortBy f = ''checkin'' then of_int (the (transfer_time time_of d))
      else - of_int (the (time_of (de_createdAt d))))"

lemma deal_le_rank:
  "dates_parse time_of es \<Longrightarrow> a \<in> set es \<Longrightarrow> b \<in> set es \<Longrightarrow>
   deal_le time_of f a b = (deal_rank time_of f a \<le> deal_rank time_of f b)"
  by (auto simp: dates_parse_def list_all_iff deal_le_def deal_rank_def diff_le_def split: option.splits)

interpretation deals: table_view da_escrows "\<lambda>s. matches_deal time_of (da_filter s)" "filteredTransactions time_of"
  for time_of
  by unfold_locales (simp add: filteredTransactions_def)

interpretation ordered_deals: ordered_table da_escrows "\<lambda>s. matches_deal time_of (da_filter s)"
    "filteredTransactions time_of" "\<lambda>s a b. dates_parse time_of (da_escrows s) \<longrightarrow> deal_le time_of (da_filter s) a b"
  for time_of
proof unfold_locales
  fix s
  show "sorted_wrt (\<lambda>a b. dates_parse time_of (da_escrows s) \<longrightarrow> deal_le time_of (da_filter s) a b)
    (filteredTransactions time_of s)"
  proof (cases "dates_parse time_of (da_escrows s)")
    case True
    then have "sorted_wrt (deal_le time_of (da_filter s)) (filteredTransactions time_of s)"
      unfolding filteredTransactions_def
      by (intro sorted_js_sort_on [where f = "deal_rank time_of (da_filter s)"] deal_le_rank) auto
    then show ?thesis using True by simp
  qed (simp add: sorted_wrt_iff_nth_less)
qed

lemma no_active_filter: "activeFilterCount f = 0 \<Longrightarrow> matches_deal time_of f d"
  by (auto simp: activeFilterCount_def one_if_def matches_deal_def split: if_splits)

lemma export_reads: "handleExportTransactions time_of num_text s = Some file \<Longrightarrow>
  csv_parse (snd file) = Some (transaction_headers # map (transaction_cells num_text \<circ> export_row) (filteredTransactions time_of s))"
  by (auto simp: handleExportTransactions_def exportTransactionsToCSV_def downloadCSV_def transaction_headers_def
      transaction_cells_def list_all_iff csv_parse_content split: if_splits)

text \<open>
  The dashboard table is exactly the escrows its filters ask for. It holds each escrow that passes every
  filter as often as it was given, and nothing else; when no filter counts as active, that is every escrow;
  when the dates parse its rows are in the chosen order, on every page of a table of any page size an
  earlier page never holds a row that belongs on a later one; and the exported file reads back as the headers and
  one row per shown escrow, the export being refused exactly when nothing is shown.
\<close>

theorem dashboard_table_exact:
  "let shown = filteredTransactions time_of s; f = da_filter s in
     mset shown = mset (filter (matches_deal time_of f) (da_escrows s))
     \<and> (if activeFilterCount f = 0 then mset shown = mset (da_escrows s) else True)
     \<and> (if dates_parse time_of (da_escrows s) then sorted_wrt (deal_le time_of f) shown else True)
     \<and> concat (map (page_rows shown (Suc sz)) [1..<Suc (totalPages (length shown) (Suc sz))]) = shown
     \<and> (case handleExportTransactions time_of num_text s of
          None \<Rightarrow> shown = []
        | Some file \<Rightarrow> csv_parse (snd file)
            = Some (transaction_headers # map (transaction_cells num_text \<circ> export_row) shown))"
proof -
  let ?shown = "filteredTransactions time_of s"
  have all: "mset ?shown = mset (filter (matches_deal time_of (da_filter s)) (da_escrows s))" by (rule deals.shown_mset)
  have "if activeFilterCount (da_filter s) = 0 then mset ?shown = mset (da_escrows s) else True"
    using all no_active_filter [of "da_filter s" time_of] by simp
  moreover have "if dates_parse time_of (da_escrows s) then sorted_wrt (deal_le time_of (da_filter s)) ?shown else True"
    using ordered_deals.shown_sorted [where s = s and time_of = time_of]
    by (cases "dates_parse time_of (da_escrows s)") simp_all
  moreover have "concat (map (page_rows ?shown (Suc sz)) [1..<Suc (totalPages (length ?shown) (Suc sz))]) = ?shown"
    by (rule pages_concat) simp
  moreover have "case handleExportTransactions time_of num_text s of None \<Rightarrow> ?shown = []
      | Some file \<Rightarrow> csv_parse (snd file) = Some (transaction_headers # map (transaction_cells num_text \<circ> export_row) ?shown)"
    using export_reads [of time_of num_text s] by (auto simp: handleExportTransactions_def split: option.split)
  ultimately show ?thesis using all unfolding Let_def by blast
qed

text \<open>A status filter of its five labels never shows a funded escrow, and the active and completed figures miss them.\<close>

lemma funded_never_chosen:
  "df_status f \<noteq> [] \<Longrightarrow> de_status d = ''funded'' \<Longrightarrow> \<not> matches_deal time_of f d"
proof -
  have "Some ''funded'' \<noteq> map_of STATUS_MAP l" for l by (simp add: STATUS_MAP_def)
  then have "Some ''funded'' \<notin> set (map (map_of STATUS_MAP) (df_status f))" by (simp add: image_iff)
  then show "df_status f \<noteq> [] \<Longrightarrow> de_status d = ''funded'' \<Longrightarrow> \<not> matches_deal time_of f d"
    by (simp add: matches_deal_def)
qed

lemma funded_uncounted:
  assumes "list_all (\<lambda>d. de_status d \<in> set deal_statuses) es"
  shows "dc_total (dash_figures es) = dc_active (dash_figures es) + dc_completed (dash_figures es)
     + status_count ''funded'' es + status_count ''cancelled'' es"
  using assms by (induction es) (auto simp: dash_figures_def status_count_def deal_statuses_def)

subsection \<open>Totals per asset\<close>

definition counted :: "string \<Rightarrow> deal list \<Rightarrow> deal list" where
  "counted c es = filter (\<lambda>d. de_status d \<noteq> ''cancelled'' \<and> asset_code d = c) es"

lemma add_total_get:
  "jm_get (foldl add_total m es) c =
     (if counted c es = [] then jm_get m c
      else Some ((case jm_get m c of None \<Rightarrow> 0 | Some x \<Rightarrow> x) + sum_list (map de_amount (counted c es))))"
proof (induction es arbitrary: m)
  case (Cons d es)
  then show ?case
    by (auto simp: counted_def add_total_def jm_get_def jm_set_def update_conv split: option.splits)
qed (simp add: counted_def)

lemma add_total_keys: "distinct (map fst m) \<Longrightarrow> distinct (map fst (foldl add_total m es))"
  by (induction es arbitrary: m) (simp_all add: add_total_def jm_set_def distinct_update)

lemma object_entries_mset: "mset (object_entries m) = mset m"
  using multiset_partition [of "mset m" "\<lambda>e. array_index (fst e) \<noteq> None"] by (simp add: object_entries_def)

text \<open>
  The total of the status panel keeps the assets apart. The entries it prints have each asset code at most
  once; a code is there exactly when an escrow that is not cancelled uses it, with the sum of the amounts of
  those escrows and of no others; without any such escrow the text is the amount zero in USDC.
\<close>

theorem asset_totals_exact:
  "let entries = object_entries (asset_totals es) in
     distinct (map fst entries)
     \<and> map_of entries c = (if counted c es = [] then None else Some (sum_list (map de_amount (counted c es))))
     \<and> (if filter (\<lambda>d. de_status d \<noteq> ''cancelled'') es = []
        then getTotalAmount money number es = Some (number 0 @ '' USDC'') else True)"
proof -
  let ?m = "asset_totals es"
  have d: "distinct (map fst ?m)" using add_total_keys [of "[]" es] by (simp add: asset_totals_def)
  then have e: "distinct (map fst (object_entries ?m))"
    using object_entries_mset [of ?m] by (metis mset_eq_imp_distinct_iff mset_map)
  moreover have "map_of (object_entries ?m) = map_of ?m"
    using e d object_entries_mset [of ?m] by (metis map_of_inject_set mset_eq_setD)
  then have "map_of (object_entries ?m) c = (if counted c es = [] then None else Some (sum_list (map de_amount (counted c es))))"
    using add_total_get [of "[]" es c] by (simp add: asset_totals_def jm_get_def)
  moreover have "if filter (\<lambda>d. de_status d \<noteq> ''cancelled'') es = []
     then getTotalAmount money number es = Some (number 0 @ '' USDC'') else True"
  proof (cases "filter (\<lambda>d. de_status d \<noteq> ''cancelled'') es = []")
    case True
    then have c: "\<forall>d\<in>set es. de_status d = ''cancelled''" by (simp add: filter_empty_conv)
    then have "foldl add_total [] es = []" by (induction es) (simp_all add: add_total_def)
    then show ?thesis using c
      by (auto simp: getTotalAmount_def asset_totals_def object_entries_def list_ex_iff formatEscrowAmount_def ISO_CURRENCY_CODES_def)
  qed simp
  ultimately show ?thesis unfolding Let_def by blast
qed

subsection \<open>Recent activity\<close>

text \<open>The five rows shown are the latest: what is left out is no later than any of them.\<close>

lemma recent_are_latest:
  assumes "list_all (\<lambda>d. time_of (de_updatedAt d) \<noteq> None) es"
  obtains rest where "mset es = mset (recentEscrows time_of es @ rest)"
    and "sorted_wrt (updated_le time_of) (recentEscrows time_of es @ rest)"
    and "length (recentEscrows time_of es) = min 5 (length es)"
proof
  let ?xs = "js_sort (updated_le time_of) es"
  have "sorted_wrt (updated_le time_of) ?xs"
    using assms by (intro sorted_js_sort_on [where f = "\<lambda>d. - the (time_of (de_updatedAt d))"])
      (auto simp: updated_le_def diff_le_def list_all_iff split: option.splits)
  then show "sorted_wrt (updated_le time_of) (recentEscrows time_of es @ drop 5 ?xs)" by (simp add: recentEscrows_def)
  show "mset es = mset (recentEscrows time_of es @ drop 5 ?xs)"
    unfolding recentEscrows_def append_take_drop_id by simp
  show "length (recentEscrows time_of es) = min 5 (length es)" by (simp add: recentEscrows_def)
qed

subsection \<open>Polling\<close>

lemma first_of_each_ids: "distinct (map no_id (first_of_each seen ns)) \<and> set (map no_id (first_of_each seen ns)) \<inter> set seen = {}"
  by (induction seen ns rule: first_of_each.induct) auto

lemma merge_distinct: "distinct (map no_id prev) \<Longrightarrow> distinct (map no_id (merge_notifications ns prev))"
proof -
  assume "distinct (map no_id prev)"
  moreover have "distinct (map no_id (filter (\<lambda>n. no_id n \<notin> set (map no_id prev)) (first_of_each [] ns)))"
    using first_of_each_ids [of "[]" ns] distinct_map_filter by blast
  moreover have "set (map no_id prev) \<inter> set (map no_id (filter (\<lambda>n. no_id n \<notin> set (map no_id prev)) (first_of_each [] ns))) = {}"
    by (auto simp: image_iff)
  ultimately show ?thesis unfolding merge_notifications_def map_append distinct_append by blast
qed

definition cleanups :: "poll_act list \<Rightarrow> nat" where
  "cleanups es = length (filter (\<lambda>e. e = EffectCleanup) es)"

lemma poll_step:
  "po_notifications (poll_event e p) = po_notifications p
   \<and> po_inFlight (poll_event e p) + one_if (\<not> po_polling (poll_event e p))
     \<le> po_inFlight p + one_if (\<not> po_polling p) + one_if (e = EffectCleanup)
   \<and> (if po_mounted p then True else \<not> po_mounted (poll_event e p))"
  by (cases e) (auto simp: checkUpdates_def poll_answered_def Let_def one_if_def checkPendingNotifications_def
      checkMilestoneNotifications_def)

lemma poll_run_inv:
  "po_notifications (poll_run es p) = po_notifications p
   \<and> po_inFlight (poll_run es p) + one_if (\<not> po_polling (poll_run es p))
     \<le> po_inFlight p + one_if (\<not> po_polling p) + cleanups es
   \<and> (if po_mounted p then True else \<not> po_mounted (poll_run es p))"
proof (induction es arbitrary: p)
  case (Cons e es)
  have "poll_run (e # es) p = poll_run es (poll_event e p)" by (simp add: poll_run_def)
  moreover have "cleanups (e # es) = one_if (e = EffectCleanup) + cleanups es" by (simp add: cleanups_def one_if_def)
  ultimately show ?case using Cons [of "poll_event e p"] poll_step [of e p] by (auto split: if_splits)
qed (simp add: poll_run_def cleanups_def)

text \<open>
  Polling does not pile up requests: whatever the interval, the answers and the reloads do, the requests
  under way are at most one plus the number of times the effect was cleaned up, so one when the dashboard never
  reloads; the answers of the placeholder sources change no notification; and after one cleanup the component
  counts as unmounted for good, so no later answer can ever change the list.
\<close>

theorem polling_bounded:
  "let q = poll_run es (mounted_poller ns) in
     po_inFlight q \<le> Suc (cleanups es) \<and> po_notifications q = ns
     \<and> (if cleanups es = 0 then True else \<not> po_mounted q)"
proof -
  have "po_mounted (poll_run es p) \<longrightarrow> cleanups es = 0" for p
  proof (induction es arbitrary: p)
    case (Cons e es)
    have r: "poll_run (e # es) p = poll_run es (poll_event e p)" by (simp add: poll_run_def)
    show ?case
    proof (cases "e = EffectCleanup")
      case True
      then show ?thesis using poll_run_inv [of es "poll_event e p"] unfolding r by simp
    next
      case False
      then show ?thesis using Cons [of "poll_event e p"] unfolding r by (simp add: cleanups_def)
    qed
  qed (simp add: cleanups_def)
  then show ?thesis
    using poll_run_inv [of es "mounted_poller ns"] by (auto simp: mounted_poller_def one_if_def Let_def split: if_splits)
qed

lemma overlapping_polls:
  "po_inFlight (poll_run [EffectRuns, EffectCleanup, EffectRuns] (mounted_poller [])) = 2"
  by (simp add: poll_run_def checkUpdates_def mounted_poller_def)

end
