(* ===== verification/Sign_In.thy ===== *)
theory Sign_In
  imports Edge_Middleware Http_Input
begin

text \<open>
  Signing in and out in the browser: \<open>components/auth/Login.tsx\<close>, \<open>Register.tsx\<close> and \<open>LogoutButton.tsx\<close>, the
  store of \<open>core/store/data/slices/authentication.slice.ts\<close>, the wallet context of
  \<open>tw-blocks/wallet-kit/WalletProvider.tsx\<close> and \<open>useWallet.ts\<close>, the clearing of the persisted cache, and what
  the edge middleware then serves. Firebase, the wallet kit and the backend are the parameter record
  \<open>firebase\<close> over a world; a handler is modelled from its start to its last effect (the busy flags, back to
  false by then, are left out), messages are their translation keys.
\<close>

section \<open>The browser\<close>

record browser =
  br_token :: string
  br_address :: string
  br_name :: string
  br_session :: "string option"
  br_role :: "string option"
  br_legacy :: "string option"
  br_walletAddress :: "string option"
  br_walletName :: "string option"
  br_stored :: "string option"
  br_ctxAddress :: "string option"
  br_ctxName :: "string option"
  br_cache :: "string option"
  br_visited :: "string list"

definition push :: "string \<Rightarrow> browser \<Rightarrow> browser" where
  "push path b = b\<lparr>br_visited := br_visited b @ [path]\<rparr>"

text \<open>The store.\<close>

definition connectWalletStore :: "string \<Rightarrow> string \<Rightarrow> browser \<Rightarrow> browser" where
  "connectWalletStore address name b = b\<lparr>br_address := address, br_name := name\<rparr>"

definition setToken :: "string \<Rightarrow> browser \<Rightarrow> browser" where
  "setToken token b = b\<lparr>br_token := token\<rparr>"

definition disconnectWalletStore :: "browser \<Rightarrow> browser" where
  "disconnectWalletStore b = b\<lparr>br_address := [], br_name := [], br_token := []\<rparr>"

definition clearAuth :: "browser \<Rightarrow> browser" where
  "clearAuth b = b\<lparr>br_address := [], br_name := [], br_token := []\<rparr>"

text \<open>The value of a cookie written as text ends at the first semicolon; blanks around it are dropped.\<close>

definition cookie_value :: "string \<Rightarrow> string" where
  "cookie_value v = trim (takeWhile (\<lambda>c. c \<noteq> CHR '';'') v)"

section \<open>Wallet context\<close>

text \<open>\<open>state?.address || null\<close> for a text; the store writes only texts.\<close>

definition text_or_null :: "json option \<Rightarrow> string option" where
  "text_or_null j = (case j of Some (JStr s) \<Rightarrow> if s = [] then None else Some s | _ \<Rightarrow> None)"

definition getTrueStubWallet :: "(string \<Rightarrow> json option) \<Rightarrow> browser \<Rightarrow> string option \<times> string option" where
  "getTrueStubWallet parse b = (case br_stored b of
       None \<Rightarrow> (None, None)
     | Some text \<Rightarrow> if text = [] then (None, None) else (case parse text of
           None \<Rightarrow> (None, None)
         | Some parsed \<Rightarrow>
             (let inner = opt_prop (Some parsed) ''state'';
                  state = (if js_truthy inner then inner else Some parsed)
              in (text_or_null (opt_prop state ''address''), text_or_null (opt_prop state ''name'')))))"

definition wallet_mounted :: "(string \<Rightarrow> json option) \<Rightarrow> browser \<Rightarrow> browser" where
  "wallet_mounted parse b0 =
     (let (address, name, b) =
        (if truthy (br_walletAddress b0) then (br_walletAddress b0, br_walletName b0, b0)
         else (let (a, n) = getTrueStubWallet parse b0 in
           (a, n, if truthy a
                  then b0\<lparr>br_walletAddress := a, br_walletName := (if truthy n then n else br_walletName b0)\<rparr> else b0)))
      in b\<lparr>br_ctxAddress := (if truthy address then address else br_ctxAddress b),
           br_ctxName := (if truthy name then name else br_ctxName b)\<rparr>)"

definition setWalletInfo :: "string \<Rightarrow> string \<Rightarrow> browser \<Rightarrow> browser" where
  "setWalletInfo address name b = b\<lparr>br_ctxAddress := Some address, br_ctxName := Some name,
     br_walletAddress := Some address, br_walletName := Some name\<rparr>"

definition clearWalletInfo :: "browser \<Rightarrow> browser" where
  "clearWalletInfo b = b\<lparr>br_ctxAddress := None, br_ctxName := None, br_walletAddress := None, br_walletName := None\<rparr>"

text \<open>\<open>connectWallet\<close> with a chosen wallet; \<open>None\<close> is a failure of the kit, which \<open>handleConnect\<close> swallows.\<close>

definition kit_connect :: "string option \<Rightarrow> string \<Rightarrow> browser \<Rightarrow> browser" where
  "kit_connect address name b = (case address of None \<Rightarrow> b | Some a \<Rightarrow> setWalletInfo a name b)"

definition kit_disconnect :: "bool \<Rightarrow> browser \<Rightarrow> browser" where
  "kit_disconnect ok b = (if ok then clearWalletInfo b else b)"

definition clearPersistedCache :: "browser \<Rightarrow> browser" where
  "clearPersistedCache b = b\<lparr>br_cache := None\<rparr>"

section \<open>Signing in\<close>

datatype 'r sign_in_failure = MfaRequired 'r | Coded string | OtherFailure

record ('r, 'w) firebase =
  fb_signIn :: "string \<Rightarrow> string \<Rightarrow> 'w \<Rightarrow> ('r sign_in_failure + string) \<times> 'w"
  fb_hints :: "'r \<Rightarrow> (string \<times> string) list"
  fb_resolve :: "'r \<Rightarrow> string \<Rightarrow> string \<Rightarrow> 'w \<Rightarrow> ('r sign_in_failure + string) \<times> 'w"
  fb_redeem :: "string \<Rightarrow> string \<Rightarrow> 'w \<Rightarrow> bool option \<times> 'w"
  fb_register :: "string \<Rightarrow> string \<Rightarrow> string \<Rightarrow> 'w \<Rightarrow> ('r sign_in_failure + string) \<times> 'w"
  fb_sync :: "string \<Rightarrow> json \<Rightarrow> 'w \<Rightarrow> 'w"
  fb_signOut :: "'w \<Rightarrow> 'w"
  fb_disconnect :: "'w \<Rightarrow> bool \<times> 'w"
  fb_payload :: "string option \<Rightarrow> json option"
  fb_text :: "json \<Rightarrow> string"

record 'r login_page =
  lp_email :: string
  lp_password :: string
  lp_error :: string
  lp_mfa :: "'r option"
  lp_code :: string
  lp_mfaError :: string
  lp_recovery :: bool
  lp_next :: string

definition login_error :: "string \<Rightarrow> string" where
  "login_error code =
     (if code = ''auth/invalid-credential'' \<or> code = ''auth/wrong-password'' then ''auth.invalidCredential''
      else if code = ''auth/user-not-found'' then ''auth.userNotFound''
      else if code = ''auth/too-many-requests'' then ''auth.tooManyRequests''
      else if code = ''auth/invalid-email'' then ''auth.invalidEmail''
      else ''auth.unexpectedError'')"

definition postLoginPath :: "string \<Rightarrow> string" where
  "postLoginPath next = (if startsWith next ''/dashboard'' then next else ''/dashboard/escrow-dashboard'')"

text \<open>
  The role of a token: \<open>payload?.role ?? payload?.[claims]?.["x-hasura-role"] ?? ""\<close>, where the payload is the
  middle segment, decoded by \<open>fb_payload\<close> (\<open>None\<close> throws); a falsy role sets no cookie.
\<close>

definition role_claim :: "json option \<Rightarrow> json" where
  "role_claim payload = (case nullish (opt_prop payload ''role'') of
       Some r \<Rightarrow> r
     | None \<Rightarrow> (case nullish (opt_prop (opt_prop payload ''https://hasura.io/jwt/claims'') ''x-hasura-role'') of
           Some r \<Rightarrow> r | None \<Rightarrow> JStr []))"

definition token_segment :: "string \<Rightarrow> string option" where
  "token_segment idToken = (case split_on (CHR ''.'') idToken of _ # s # _ \<Rightarrow> Some s | _ \<Rightarrow> None)"

definition role_of_token :: "('r, 'w) firebase \<Rightarrow> string \<Rightarrow> string option" where
  "role_of_token api idToken = (case fb_payload api (token_segment idToken) of
       None \<Rightarrow> None
     | Some payload \<Rightarrow> (let role = role_claim (Some payload) in
         if js_truthy (Some role) then Some (case role of JStr s \<Rightarrow> s | _ \<Rightarrow> fb_text api role) else None))"

text \<open>What both ways of signing in do with the token.\<close>

definition enter :: "('r, 'w) firebase \<Rightarrow> string \<Rightarrow> string \<Rightarrow> browser \<Rightarrow> browser" where
  "enter api next idToken b =
     push (postLoginPath next)
       ((setToken idToken b)\<lparr>br_session := Some (cookie_value idToken),
          br_role := (case role_of_token api idToken of None \<Rightarrow> br_role b | Some r \<Rightarrow> Some (cookie_value r))\<rparr>)"

type_synonym ('r, 'w) login_state = "'r login_page \<times> browser \<times> 'w"

definition handleLogin :: "('r, 'w) firebase \<Rightarrow> ('r, 'w) login_state \<Rightarrow> ('r, 'w) login_state" where
  "handleLogin api st = (case st of (p0, b, w) \<Rightarrow>
     (let p = p0\<lparr>lp_error := []\<rparr> in
      case fb_signIn api (lp_email p) (lp_password p) w of
        (Inr idToken, w') \<Rightarrow> (p, enter api (lp_next p) idToken b, w')
      | (Inl (MfaRequired r), w') \<Rightarrow> (p\<lparr>lp_mfa := Some r\<rparr>, b, w')
      | (Inl (Coded code), w') \<Rightarrow> (p\<lparr>lp_error := login_error code\<rparr>, b, w')
      | (Inl OtherFailure, w') \<Rightarrow> (p\<lparr>lp_error := ''auth.loginFailed''\<rparr>, b, w')))"

definition handleRecoverySubmit :: "('r, 'w) firebase \<Rightarrow> ('r, 'w) login_state \<Rightarrow> ('r, 'w) login_state" where
  "handleRecoverySubmit api st = (case st of (p0, b, w) \<Rightarrow>
     (let p = p0\<lparr>lp_mfaError := []\<rparr> in
      case fb_redeem api (lp_email p) (lp_code p) w of
        (None, w') \<Rightarrow> (p\<lparr>lp_mfaError := ''auth.twoFactor.genericError''\<rparr>, b, w')
      | (Some False, w') \<Rightarrow> (p\<lparr>lp_mfaError := ''auth.twoFactor.recoveryCodeInvalid''\<rparr>, b, w')
      | (Some True, w') \<Rightarrow> handleLogin api (p\<lparr>lp_mfa := None, lp_recovery := False, lp_code := []\<rparr>, b, w')))"

definition handleMfaSubmit :: "('r, 'w) firebase \<Rightarrow> ('r, 'w) login_state \<Rightarrow> ('r, 'w) login_state" where
  "handleMfaSubmit api st = (case st of (p0, b, w) \<Rightarrow>
     case lp_mfa p0 of None \<Rightarrow> st
     | Some r \<Rightarrow>
       if lp_recovery p0 then handleRecoverySubmit api st
       else (let p = p0\<lparr>lp_mfaError := []\<rparr> in
         case find (\<lambda>h. fst h = ''totp'') (fb_hints api r) of
           None \<Rightarrow> (p\<lparr>lp_mfaError := ''auth.twoFactor.genericError''\<rparr>, b, w)
         | Some (_, uid) \<Rightarrow> (case fb_resolve api r uid (lp_code p) w of
             (Inr idToken, w') \<Rightarrow> (p, enter api (lp_next p) idToken b, w')
           | (Inl (Coded code), w') \<Rightarrow>
               (p\<lparr>lp_mfaError := if code = ''auth/invalid-verification-code'' then ''auth.twoFactor.invalidCode''
                  else ''auth.twoFactor.genericError''\<rparr>, b, w')
           | (_, w') \<Rightarrow> (p\<lparr>lp_mfaError := ''auth.twoFactor.genericError''\<rparr>, b, w'))))"

section \<open>The login page\<close>

definition mfa_input :: "bool \<Rightarrow> string \<Rightarrow> string" where
  "mfa_input recovery v = (if recovery then take 32 v else take 6 (filter is_digit v))"

definition mfa_ready :: "'r login_page \<Rightarrow> bool" where
  "mfa_ready p = (if lp_recovery p then trim (lp_code p) \<noteq> [] else length (lp_code p) = 6)"

text \<open>
  The form of the code is shown while a resolver is held, otherwise that of the password, whose two fields
  are required.
\<close>

datatype login_act = TypeEmail string | TypePassword string | SubmitLogin | TypeCode string | ToggleRecovery | SubmitMfa

fun login_event :: "('r, 'w) firebase \<Rightarrow> login_act \<Rightarrow> ('r, 'w) login_state \<Rightarrow> ('r, 'w) login_state" where
  "login_event api (TypeEmail v) (p, b, w) =
     (if lp_mfa p = None then (p\<lparr>lp_email := v, lp_error := []\<rparr>, b, w) else (p, b, w))"
| "login_event api (TypePassword v) (p, b, w) =
     (if lp_mfa p = None then (p\<lparr>lp_password := v, lp_error := []\<rparr>, b, w) else (p, b, w))"
| "login_event api SubmitLogin (p, b, w) =
     (if lp_mfa p = None \<and> lp_email p \<noteq> [] \<and> lp_password p \<noteq> [] then handleLogin api (p, b, w) else (p, b, w))"
| "login_event api (TypeCode v) (p, b, w) =
     (if lp_mfa p \<noteq> None then (p\<lparr>lp_code := mfa_input (lp_recovery p) v, lp_mfaError := []\<rparr>, b, w) else (p, b, w))"
| "login_event api ToggleRecovery (p, b, w) =
     (if lp_mfa p \<noteq> None then (p\<lparr>lp_recovery := \<not> lp_recovery p, lp_code := [], lp_mfaError := []\<rparr>, b, w) else (p, b, w))"
| "login_event api SubmitMfa (p, b, w) =
     (if lp_mfa p \<noteq> None \<and> mfa_ready p then handleMfaSubmit api (p, b, w) else (p, b, w))"

definition login_run :: "('r, 'w) firebase \<Rightarrow> login_act list \<Rightarrow> ('r, 'w) login_state \<Rightarrow> ('r, 'w) login_state" where
  "login_run api es st = foldl (\<lambda>s e. login_event api e s) st es"

text \<open>The effect that sends a visitor of the login page with a session on.\<close>

definition login_redirect :: "string \<Rightarrow> string \<Rightarrow> browser \<Rightarrow> browser" where
  "login_redirect pathname next b =
     (if (br_address b \<noteq> [] \<or> br_token b \<noteq> []) \<and> pathname = ''/login'' then push (postLoginPath next) b else b)"

section \<open>Registering and signing out\<close>

record register_page =
  rp_firstName :: string
  rp_lastName :: string
  rp_email :: string
  rp_password :: string
  rp_countryCode :: string
  rp_phone :: string
  rp_location :: string
  rp_error :: string

definition register_error :: "string \<Rightarrow> string" where
  "register_error code = (if code = ''auth/email-already-in-use'' then ''auth.emailInUse''
     else if code = ''auth/weak-password'' then ''auth.weakPassword''
     else if code = ''auth/invalid-email'' then ''auth.invalidEmail'' else ''auth.unexpectedError'')"

text \<open>\<open>zxcvbn\<close> is the parameter \<open>score\<close>.\<close>

definition getPasswordScore :: "(string \<Rightarrow> nat) \<Rightarrow> string \<Rightarrow> nat" where
  "getPasswordScore score password = (if password = [] then 0 else score password)"

definition sync_profile :: "register_page \<Rightarrow> json" where
  "sync_profile p = JObj [(''first_name'', JStr (rp_firstName p)), (''last_name'', JStr (rp_lastName p)),
     (''phone_number'', JStr (rp_phone p)), (''country_code'', JStr (rp_countryCode p)), (''location'', JStr (rp_location p))]"

text \<open>
  \<open>fb_register\<close> stands for the creation, the update of the profile and the token; a failed sync is ignored.
\<close>

definition handleRegister ::
  "(string \<Rightarrow> nat) \<Rightarrow> ('r, 'w) firebase \<Rightarrow> register_page \<times> browser \<times> 'w \<Rightarrow> register_page \<times> browser \<times> 'w" where
  "handleRegister score api st = (case st of (p0, b, w) \<Rightarrow>
     (let p = p0\<lparr>rp_error := []\<rparr> in
      if getPasswordScore score (rp_password p) < 2 then (p\<lparr>rp_error := ''auth.passwordTooWeak''\<rparr>, b, w)
      else case fb_register api (rp_email p) (rp_password p) (trim (rp_firstName p @ '' '' @ rp_lastName p)) w of
        (Inr token, w') \<Rightarrow>
          (p, push ''/login'' (setToken token (b\<lparr>br_legacy := Some token\<rparr>)), fb_sync api token (sync_profile p) w')
      | (Inl (Coded code), w') \<Rightarrow> (p\<lparr>rp_error := register_error code\<rparr>, b, w')
      | (_, w') \<Rightarrow> (p\<lparr>rp_error := ''auth.registrationFailed''\<rparr>, b, w')))"

definition handleLogout :: "('r, 'w) firebase \<Rightarrow> browser \<times> 'w \<Rightarrow> browser \<times> 'w" where
  "handleLogout api st = (case st of (b, w) \<Rightarrow>
     (let (ok, w1) = fb_disconnect api w
      in (push ''/login'' (clearAuth (clearPersistedCache (kit_disconnect ok b))), fb_signOut api w1)))"

section \<open>What a session is worth\<close>

text \<open>The request a browser makes for a page.\<close>

definition page_request :: "browser \<Rightarrow> string \<Rightarrow> edge_request" where
  "page_request b path = \<lparr>eq_pathname = path, eq_headers = \<lambda>h. None, eq_session = br_session b, eq_role = br_role b\<rparr>"

definition served :: "browser \<Rightarrow> string \<Rightarrow> edge_response" where
  "served b path = fst (edge_middleware 0 (page_request b path) [])"

text \<open>The tokens Firebase hands out for a sign-in.\<close>

definition issued :: "('r, 'w) firebase \<Rightarrow> string set" where
  "issued api = {t. \<exists>e pw w w'. fb_signIn api e pw w = (Inr t, w')}
     \<union> {t. \<exists>r uid code w w'. fb_resolve api r uid code w = (Inr t, w')}"

definition signed_as :: "browser \<Rightarrow> string \<times> string option \<times> string option" where
  "signed_as b = (br_token b, br_session b, br_role b)"

text \<open>Nothing changed, or a token that was handed out is token and session, under the old role or that of such a token.\<close>

definition admitted :: "('r, 'w) firebase \<Rightarrow> browser \<Rightarrow> browser \<Rightarrow> bool" where
  "admitted api b b' \<longleftrightarrow> signed_as b' = signed_as b
     \<or> br_token b' \<in> issued api \<and> br_session b' = Some (cookie_value (br_token b'))
       \<and> (br_role b' = br_role b
          \<or> (\<exists>u \<in> issued api. role_of_token api u \<noteq> None \<and> br_role b' = map_option cookie_value (role_of_token api u)))"

lemma admitted_refl [simp]: "admitted api b b"
  by (simp add: admitted_def)

lemma enter_simps [simp]:
  "br_token (enter api next t b) = t"
  "br_session (enter api next t b) = Some (cookie_value t)"
  "br_role (enter api next t b) = (case role_of_token api t of None \<Rightarrow> br_role b | Some r \<Rightarrow> Some (cookie_value r))"
  by (simp_all add: enter_def push_def setToken_def)

lemma admitted_enter: "t \<in> issued api \<Longrightarrow> admitted api b0 b \<Longrightarrow> admitted api b0 (enter api next t b)"
  by (auto simp: admitted_def signed_as_def split: option.splits)

lemma issued_signIn: "fb_signIn api e pw w = (Inr t, w') \<Longrightarrow> t \<in> issued api"
  by (auto simp: issued_def)

lemma issued_resolve: "fb_resolve api r u c w = (Inr t, w') \<Longrightarrow> t \<in> issued api"
  by (auto simp: issued_def)

lemma login_admitted: "admitted api b0 b \<Longrightarrow> admitted api b0 (fst (snd (handleLogin api (p, b, w))))"
  by (auto simp: handleLogin_def Let_def issued_signIn admitted_enter split: prod.splits sum.splits sign_in_failure.splits)

lemma recovery_admitted: "admitted api b0 b \<Longrightarrow> admitted api b0 (fst (snd (handleRecoverySubmit api (p, b, w))))"
  by (auto simp: handleRecoverySubmit_def Let_def intro: login_admitted split: prod.splits option.splits bool.splits)

lemma mfa_admitted: "admitted api b0 b \<Longrightarrow> admitted api b0 (fst (snd (handleMfaSubmit api (p, b, w))))"
  using recovery_admitted [of api b0 b p w]
  by (auto simp: handleMfaSubmit_def Let_def issued_resolve admitted_enter
      split: prod.splits option.splits sum.splits sign_in_failure.splits)

lemma event_admitted: "admitted api b0 b \<Longrightarrow> admitted api b0 (fst (snd (login_event api e (p, b, w))))"
  by (cases e) (auto simp: login_admitted mfa_admitted)

lemma run_admitted: "admitted api b0 b \<Longrightarrow> admitted api b0 (fst (snd (login_run api es (p, b, w))))"
proof (induction es arbitrary: p b w)
  case (Cons e es)
  obtain p' b' w' where s: "login_event api e (p, b, w) = (p', b', w')" by (metis prod_cases3)
  then have "admitted api b0 b'" using event_admitted [OF Cons.prems, of e p w] by simp
  then show ?case using Cons.IH [of b' p' w'] s by (simp add: login_run_def)
qed (simp add: login_run_def)

lemma served_next:
  "startsWith path ''/dashboard'' \<Longrightarrow> served b path = EdgeNext \<longleftrightarrow> isPublicDashboardPath path
     \<or> truthy (br_session b) \<and> list_all (\<lambda>(p, r). if under_path path p
         then (case br_role b of None \<Rightarrow> [] | Some x \<Rightarrow> x) = r else True) ROLE_RESTRICTED_PATHS"
proof -
  assume d: "startsWith path ''/dashboard''"
  then have "\<not> startsWith path ''/api/auth''" by (auto simp: startsWith_iff)
  then show ?thesis using d
    by (auto simp: served_def page_request_def edge_middleware_def role_check_next list_all_iff Let_def split: if_splits)
qed

text \<open>
  C22: Signing in gives exactly the session of a token Firebase issued. Whatever a visitor types and submits on
  the login page, with or without a second factor or a recovery code, token and session cookie stay as they
  were or are those of a token issued for a sign-in, and the role cookie is the old one or the role of an issued token. With a
  fresh session the middleware serves a dashboard page iff it is public or its restrictions name the role
  of the token, or, when the token has none, the role an earlier session left in the browser.
\<close>

theorem sign_in_exact:
  "admitted api b (fst (snd (login_run api es (p, b, w))))
   \<and> (let role = (case role_of_token api t of Some r \<Rightarrow> cookie_value r
                 | None \<Rightarrow> (case br_role b of None \<Rightarrow> [] | Some r \<Rightarrow> r))
      in if startsWith path ''/dashboard'' \<and> cookie_value t \<noteq> []
         then (served (enter api next t b) path = EdgeNext \<longleftrightarrow> isPublicDashboardPath path
           \<or> list_all (\<lambda>(q, r). if under_path path q then role = r else True) ROLE_RESTRICTED_PATHS)
         else True)"
proof -
  have "admitted api b (fst (snd (login_run api es (p, b, w))))" by (rule run_admitted) simp
  then show ?thesis by (auto simp: Let_def served_next split: option.split)
qed

lemma register_served: "served (fst (snd (handleRegister score api (p, b, w)))) path = served b path"
  by (simp add: handleRegister_def Let_def push_def setToken_def served_def page_request_def
      split: prod.split sum.split sign_in_failure.split)

lemma registered_is_redirected:
  "\<not> truthy (br_session b) \<Longrightarrow> startsWith path ''/dashboard'' \<Longrightarrow> \<not> isPublicDashboardPath path \<Longrightarrow>
   served (fst (snd (handleRegister score api (p, b, w)))) path \<noteq> EdgeNext"
  by (simp add: register_served served_next)

text \<open>
  Signing out leaves the door open. It empties the store, drops the persisted cache, signs out of Firebase,
  and, when the kit disconnects, forgets the wallet; but it clears neither cookie, so the middleware
  answers every request exactly as before. And a registration sets a token but no session: every page
  that was guarded stays guarded, so a first-time user is redirected to log in again.
\<close>

theorem sign_out_keeps_session:
  "(let b' = fst (handleLogout api (b, w)) in
     br_token b' = [] \<and> br_address b' = [] \<and> br_cache b' = None \<and> last (br_visited b') = ''/login''
     \<and> br_walletAddress b' = (if fst (fb_disconnect api w) then None else br_walletAddress b)
     \<and> served b' path = served b path)
   \<and> snd (handleLogout api (b, w)) = fb_signOut api (snd (fb_disconnect api w))
   \<and> served (fst (snd (handleRegister score api (p, b, w)))) path = served b path"
proof -
  obtain ok w1 where d: "fb_disconnect api w = (ok, w1)" by (rule prod.exhaust)
  show ?thesis using register_served [of score api p b w path]
    by (simp add: d handleLogout_def push_def clearAuth_def clearPersistedCache_def kit_disconnect_def clearWalletInfo_def
        served_def page_request_def Let_def)
qed

end
