(* ===== verification/Account_Security.thy ===== *)
theory Account_Security
  imports Sign_In Server_Api Edge_Middleware
begin

text \<open>
  The account pages around a session: \<open>lib/authTokenRefresh.ts\<close>, \<open>components/auth/TwoFactorSettings.tsx\<close>,
  \<open>NewPassword.tsx\<close>, \<open>ForgotPasswordForm.tsx\<close>, \<open>ResetPasswordForm.tsx\<close> with \<open>app/reset-password/page.tsx\<close> over
  the proxy routes of \<open>Server_Api\<close>, and the deletion dialog of \<open>components/dashboard/profile/PrivacyDataSection.tsx\<close>.
  Firebase and the network are parameters; translated messages are their keys.
\<close>

section \<open>Passwords\<close>

datatype form_status = FormIdle | FormLoading | FormSuccess | FormError

text \<open>\<open>NewPassword\<close>: the err is verified, then the password confirmed; a failure is its err (\<open>None\<close>: it has none).\<close>

definition new_password ::
  "(string \<Rightarrow> 'w \<Rightarrow> (string option + unit) \<times> 'w) \<Rightarrow> (string \<Rightarrow> string \<Rightarrow> 'w \<Rightarrow> (string option + unit) \<times> 'w)
     \<Rightarrow> string \<Rightarrow> string \<Rightarrow> string \<Rightarrow> 'w \<Rightarrow> (form_status \<times> string) \<times> 'w" where
  "new_password verify confirm oobCode password confirmPassword w =
     (let failed = (\<lambda>err. (FormError,
            if err = Some ''auth/expired-action-code'' \<or> err = Some ''auth/invalid-action-code''
              then ''This reset link has expired or already been used. Please request a new one.''
            else if err = Some ''auth/weak-password'' then ''Password is too weak. Please choose a stronger password.''
            else ''Failed to reset password. Please try again.''))
      in if password \<noteq> confirmPassword then ((FormError, ''Passwords do not match''), w)
         else if length password < 8 then ((FormError, ''Password must be at least 8 characters long''), w)
         else if oobCode = [] then
           ((FormError, ''This link is invalid or has expired. Please request a new password reset.''), w)
         else case verify oobCode w of
             (Inl err, w1) \<Rightarrow> (failed err, w1)
           | (Inr _, w1) \<Rightarrow> (case confirm oobCode password w1 of
                 (Inl err, w2) \<Rightarrow> (failed err, w2)
               | (Inr _, w2) \<Rightarrow>
                   ((FormSuccess, ''Password has been reset successfully. You can now sign in with your new password.''), w2)))"

definition forgot_error :: "string option \<Rightarrow> string" where
  "forgot_error err = (if err = Some ''auth/user-not-found'' then ''auth.userNotFound''
     else if err = Some ''auth/invalid-email'' then ''auth.invalidEmail''
     else if err = Some ''auth/too-many-requests'' then ''auth.tooManyRequests'' else ''auth.unexpectedError'')"

text \<open>\<open>ForgotPasswordForm\<close>: the status, the message and the e-mail field afterwards.\<close>

definition forgot_submit ::
  "bool \<Rightarrow> (string \<Rightarrow> 'w \<Rightarrow> (string option + unit) \<times> 'w) \<Rightarrow> string \<Rightarrow> 'w \<Rightarrow> (form_status \<times> string \<times> string) \<times> 'w" where
  "forgot_submit auth_present send email w =
     (if \<not> auth_present then ((FormError, ''Configuration error: Authentication service not found.'', email), w)
      else case send email w of
          (Inr _, w') \<Rightarrow> ((FormSuccess, ''auth.resetEmailSent'', []), w')
        | (Inl err, w') \<Rightarrow> ((FormError, forgot_error err, email), w'))"

text \<open>\<open>ResetPasswordForm\<close> over its \<open>onSubmit\<close>, which throws an \<open>Error\<close> with a message.\<close>

definition reset_form :: "(string \<Rightarrow> (string + unit) \<times> 'q) \<Rightarrow> 'q \<Rightarrow> string \<Rightarrow> string \<Rightarrow> (form_status \<times> string) \<times> 'q" where
  "reset_form onSubmit none password confirmPassword =
     (if password \<noteq> confirmPassword then ((FormError, ''auth.passwordsDoNotMatch''), none)
      else if length password < 8 then ((FormError, ''auth.passwordMinLength''), none)
      else case onSubmit password of
          (Inr _, q) \<Rightarrow> ((FormSuccess, ''auth.passwordResetSuccess''), q)
        | (Inl message, q) \<Rightarrow> ((FormError, message), q))"

text \<open>
  The page calls the proxy routes of its own server, behind \<open>middleware.ts\<close>: a request may never arrive, its
  answer may be lost (each with the message of what is then thrown), and the rate limit of the path may
  refuse it. Also given: the clock, the browser's headers and the counters of the limit. \<open>render\<close> is the text
  of a value that is no string; \<open>reparse\<close> is the token the route reads from the address, into which the page
  puts its token unescaped.
\<close>

datatype delivery = Delivered | NeverSent string | AnswerLost string

record browser_call =
  bc_delivery :: delivery
  bc_now :: int
  bc_headers :: "string \<Rightarrow> string option"

definition TOO_MANY :: "json reply" where
  "TOO_MANY = Reply 429 (error_json (JStr ''Too many requests. Please try again later.''))"

definition auth_fetch ::
  "browser_call \<Rightarrow> string \<Rightarrow> json reply \<times> api_request list \<Rightarrow> hits \<Rightarrow> (string + json reply) \<times> api_request list \<times> hits" where
  "auth_fetch c pathname route hits =
     (let (answer, hits') = edge_middleware (bc_now c)
            \<lparr>eq_pathname = pathname, eq_headers = bc_headers c, eq_session = None, eq_role = None\<rparr> hits;
          (reply, sent) = (case answer of EdgeTooMany n \<Rightarrow> (TOO_MANY, []) | _ \<Rightarrow> route)
      in case bc_delivery c of
           Delivered \<Rightarrow> (Inr reply, sent, hits')
         | AnswerLost m \<Rightarrow> (Inl m, sent, hits')
         | NeverSent m \<Rightarrow> (Inl m, [], hits))"

definition message_of :: "(json \<Rightarrow> string) \<Rightarrow> json \<Rightarrow> string" where
  "message_of render v = (case v of JStr s \<Rightarrow> s | _ \<Rightarrow> render v)"

definition handleResetPassword ::
  "(json \<Rightarrow> string) \<Rightarrow> browser_call \<Rightarrow> net \<Rightarrow> string option \<Rightarrow> string \<Rightarrow> hits \<Rightarrow> string
     \<Rightarrow> (string + unit) \<times> api_request list \<times> hits" where
  "handleResetPassword render c net backendUrl token hits password =
     (case auth_fetch c ''/api/auth/reset-password'' (reset_password net backendUrl
            (Some (JObj [(''token'', JStr token), (''newPassword'', JStr password)]))) hits of
        (Inl m, q) \<Rightarrow> (Inl m, q)
      | (Inr (Reply status data), q) \<Rightarrow>
          (if ok_status status then Inr ()
           else Inl (message_of render (error_or (json_prop data ''error'') ''Failed to reset password'')), q))"

text \<open>The effect of the page: whether the token is then taken as valid. Without a token nothing is asked.\<close>

definition page_validate ::
  "(string \<Rightarrow> string option) \<Rightarrow> browser_call \<Rightarrow> net \<Rightarrow> string option \<Rightarrow> string option \<Rightarrow> hits \<Rightarrow> bool \<times> hits" where
  "page_validate reparse c net backendUrl token hits =
     (if \<not> truthy token then (False, hits)
      else (case auth_fetch c ''/api/auth/validate-reset-token'' (validate_reset_token net backendUrl (reparse (the token))) hits of
          (Inl m, sent, hits') \<Rightarrow> (False, hits')
        | (Inr r, sent, hits') \<Rightarrow> (ok_status (r_status r), hits')))"

text \<open>A visit: the validation, other traffic in between, then one submission if the form is there.\<close>

definition reset_page_visit ::
  "(json \<Rightarrow> string) \<Rightarrow> (string \<Rightarrow> string option) \<Rightarrow> browser_call \<times> net \<Rightarrow> (hits \<Rightarrow> hits) \<Rightarrow> browser_call \<times> net \<Rightarrow> string option
     \<Rightarrow> string option \<Rightarrow> string \<Rightarrow> string \<Rightarrow> hits \<Rightarrow> ((form_status \<times> string) \<times> api_request list \<times> hits) option \<times> hits" where
  "reset_page_visit render reparse first traffic second backendUrl token password confirmPassword hits =
     (let (valid, h1) = page_validate reparse (fst first) (snd first) backendUrl token hits; h2 = traffic h1
      in (if valid
          then Some (reset_form (handleResetPassword render (fst second) (snd second) backendUrl (the token) h2) ([], h2)
                 password confirmPassword)
          else None, h2))"

section \<open>The second factor\<close>

record 's two_factor =
  tf_isEnrolled :: bool
  tf_enrolling :: bool
  tf_secret :: "'s option"
  tf_code :: string
  tf_error :: string
  tf_recoveryCodes :: "string list"

text \<open>\<open>fc_user\<close> is \<open>auth.currentUser\<close>, \<open>fc_factors\<close> its enrolled factors; failures are a err or none.\<close>

record ('s, 'w) factor_api =
  fc_user :: "'w \<Rightarrow> string option"
  fc_factors :: "'w \<Rightarrow> string list"
  fc_secret :: "'w \<Rightarrow> (string option + 's) \<times> 'w"
  fc_enroll :: "'s \<Rightarrow> string \<Rightarrow> 'w \<Rightarrow> (string option + unit) \<times> 'w"
  fc_unenroll :: "string \<Rightarrow> 'w \<Rightarrow> (string option + unit) \<times> 'w"
  fc_codes :: "'w \<Rightarrow> string list option \<times> 'w"

definition describeError :: "string option \<Rightarrow> string" where
  "describeError err = (if err = Some ''auth/invalid-verification-code'' then ''auth.twoFactor.invalidCode''
     else if err = Some ''auth/requires-recent-login'' then ''auth.twoFactor.requiresRecentLogin''
     else ''auth.twoFactor.genericError'')"

definition auth_changed :: "('s, 'w) factor_api \<Rightarrow> 'w \<Rightarrow> 's two_factor \<Rightarrow> 's two_factor" where
  "auth_changed api w t = t\<lparr>tf_isEnrolled := fc_user api w \<noteq> None \<and> fc_factors api w \<noteq> []\<rparr>"

definition startEnrollment :: "('s, 'w) factor_api \<Rightarrow> 's two_factor \<times> 'w \<Rightarrow> 's two_factor \<times> 'w" where
  "startEnrollment api st = (case st of (t, w) \<Rightarrow>
     if fc_user api w = None then st
     else case fc_secret api w of
         (Inr s, w') \<Rightarrow> (t\<lparr>tf_error := [], tf_secret := Some s, tf_enrolling := True\<rparr>, w')
       | (Inl err, w') \<Rightarrow> (t\<lparr>tf_error := describeError err\<rparr>, w'))"

definition generateRecoveryCodes :: "('s, 'w) factor_api \<Rightarrow> 's two_factor \<times> 'w \<Rightarrow> 's two_factor \<times> 'w" where
  "generateRecoveryCodes api st = (case st of (t, w) \<Rightarrow>
     if fc_user api w = None then st
     else case fc_codes api w of
         (Some codes, w') \<Rightarrow> (t\<lparr>tf_recoveryCodes := codes\<rparr>, w')
       | (None, w') \<Rightarrow> (t\<lparr>tf_error := ''auth.twoFactor.recoveryCodesError''\<rparr>, w'))"

definition confirmEnrollment :: "('s, 'w) factor_api \<Rightarrow> 's two_factor \<times> 'w \<Rightarrow> 's two_factor \<times> 'w" where
  "confirmEnrollment api st = (case st of (t0, w) \<Rightarrow>
     (case tf_secret t0 of
        Some s \<Rightarrow>
          if fc_user api w = None then st
          else (let t = t0\<lparr>tf_error := []\<rparr> in
            case fc_enroll api s (tf_code t) w of
              (Inr _, w') \<Rightarrow> generateRecoveryCodes api
                  (t\<lparr>tf_isEnrolled := True, tf_enrolling := False, tf_secret := None, tf_code := []\<rparr>, w')
            | (Inl err, w') \<Rightarrow> (t\<lparr>tf_error := describeError err\<rparr>, w'))
      | None \<Rightarrow> st))"

definition cancelEnrollment :: "'s two_factor \<Rightarrow> 's two_factor" where
  "cancelEnrollment t = t\<lparr>tf_enrolling := False, tf_secret := None, tf_code := [], tf_error := []\<rparr>"

definition disableTwoFactor :: "bool \<Rightarrow> ('s, 'w) factor_api \<Rightarrow> 's two_factor \<times> 'w \<Rightarrow> 's two_factor \<times> 'w" where
  "disableTwoFactor confirmed api st = (case st of (t0, w) \<Rightarrow>
     if fc_user api w = None \<or> \<not> confirmed then st
     else (let t = t0\<lparr>tf_error := []\<rparr> in
       case fc_factors api w of
         [] \<Rightarrow> (t\<lparr>tf_isEnrolled := False\<rparr>, w)
       | f # _ \<Rightarrow> (case fc_unenroll api f w of
             (Inr _, w') \<Rightarrow> (t\<lparr>tf_isEnrolled := False\<rparr>, w')
           | (Inl err, w') \<Rightarrow> (t\<lparr>tf_error := describeError err\<rparr>, w'))))"

section \<open>Deleting the account\<close>

definition ACTIVE_ESCROW_STATUSES :: "string list" where
  "ACTIVE_ESCROW_STATUSES = [''pending'', ''funded'', ''transfer_confirmed'', ''transfer_finalized'']"

definition DELETE_CONFIRMATION_PHRASE :: string where "DELETE_CONFIRMATION_PHRASE = ''DELETE''"

text \<open>The dialog, the checks under way, and what was asked for when a deletion request was sent.\<close>

record deletion =
  dl_open :: bool
  dl_checking :: bool
  dl_blocking :: "nat option"
  dl_text :: string
  dl_deleting :: bool
  dl_checks :: nat
  dl_sent :: "(nat option \<times> string) list"

definition new_deletion :: deletion where
  "new_deletion = \<lparr>dl_open = False, dl_checking = False, dl_blocking = None, dl_text = [], dl_deleting = False,
     dl_checks = 0, dl_sent = []\<rparr>"

definition handleOpenDelete :: "deletion \<Rightarrow> deletion" where
  "handleOpenDelete d = d\<lparr>dl_open := True, dl_text := [], dl_checking := True, dl_checks := Suc (dl_checks d)\<rparr>"

text \<open>The statuses a check returns; a failed one blocks.\<close>

definition check_answered :: "string list option \<Rightarrow> deletion \<Rightarrow> deletion" where
  "check_answered statuses d = (if dl_checks d = 0 then d else
     d\<lparr>dl_blocking := Some (case statuses of None \<Rightarrow> 1
         | Some sts \<Rightarrow> length (filter (\<lambda>st. st \<in> set ACTIVE_ESCROW_STATUSES) sts)),
       dl_checking := False, dl_checks := dl_checks d - 1\<rparr>)"

definition hasBlockingEscrows :: "deletion \<Rightarrow> bool" where
  "hasBlockingEscrows d \<longleftrightarrow> 0 < (case dl_blocking d of None \<Rightarrow> 0 | Some n \<Rightarrow> n)"

text \<open>The button exists and is enabled; the request goes through the route \<open>delete_user\<close> once there is a token.\<close>

definition delete_enabled :: "deletion \<Rightarrow> bool" where
  "delete_enabled d \<longleftrightarrow> dl_open d \<and> \<not> hasBlockingEscrows d \<and> \<not> dl_checking d \<and> \<not> dl_deleting d
     \<and> dl_text d = DELETE_CONFIRMATION_PHRASE"

definition handleConfirmDelete :: "deletion \<Rightarrow> deletion" where
  "handleConfirmDelete d = (if dl_text d \<noteq> DELETE_CONFIRMATION_PHRASE then d
     else d\<lparr>dl_deleting := True, dl_sent := dl_sent d @ [(dl_blocking d, dl_text d)]\<rparr>)"

definition delete_request :: "net \<Rightarrow> string option \<Rightarrow> string option \<Rightarrow> bool \<times> api_request list" where
  "delete_request net backendUrl idToken = (case idToken of
       None \<Rightarrow> (False, [])
     | Some token \<Rightarrow> (case delete_user net backendUrl (Some (''Bearer '' @ token)) of
           (Reply status body, sent) \<Rightarrow> (ok_status status, sent)))"

definition delete_answered :: "bool \<Rightarrow> deletion \<Rightarrow> deletion" where
  "delete_answered ok d = (if dl_deleting d then d\<lparr>dl_deleting := False, dl_open := (if ok then False else dl_open d)\<rparr> else d)"

datatype deletion_act = OpenDelete | CheckAnswers "string list option" | TypeConfirmation string | ConfirmDelete
  | DeleteAnswers bool | DismissDialog | CancelButton

fun deletion_event :: "deletion_act \<Rightarrow> deletion \<Rightarrow> deletion" where
  "deletion_event OpenDelete d = handleOpenDelete d"
| "deletion_event (CheckAnswers a) d = check_answered a d"
| "deletion_event (TypeConfirmation v) d =
     (if dl_open d \<and> \<not> dl_checking d \<and> \<not> hasBlockingEscrows d then d\<lparr>dl_text := v\<rparr> else d)"
| "deletion_event ConfirmDelete d = (if delete_enabled d then handleConfirmDelete d else d)"
| "deletion_event (DeleteAnswers ok) d = delete_answered ok d"
| "deletion_event DismissDialog d = (if dl_deleting d then d else d\<lparr>dl_open := False, dl_text := []\<rparr>)"
| "deletion_event CancelButton d = d\<lparr>dl_open := False\<rparr>"

definition deletion_run :: "deletion_act list \<Rightarrow> deletion \<Rightarrow> deletion" where
  "deletion_run es d = foldl (\<lambda>s e. deletion_event e s) d es"

section \<open>Refreshing the token\<close>

definition REFRESH_MARGIN_MS :: int where "REFRESH_MARGIN_MS = 5 * 60 * 1000"

text \<open>
  The timer with its user and the instant it fires, the token results under way, whether the listener is
  subscribed, and the users whose token was refreshed.
\<close>

record refresher =
  rf_timer :: "(string \<times> int) option"
  rf_pending :: "string list"
  rf_listening :: bool
  rf_forced :: "string list"

definition startAuthTokenRefresh :: refresher where
  "startAuthTokenRefresh = \<lparr>rf_timer = None, rf_pending = [], rf_listening = True, rf_forced = []\<rparr>"

datatype refresh_act = TokenChanged "string option" | ResultArrives nat int int | ResultFails nat | TimerFires int | StopRefresh

fun refresh_event :: "refresh_act \<Rightarrow> refresher \<Rightarrow> refresher" where
  "refresh_event (TokenChanged user) r = (if rf_listening r
     then r\<lparr>rf_timer := None, rf_pending := rf_pending r @ (case user of None \<Rightarrow> [] | Some u \<Rightarrow> [u])\<rparr> else r)"
| "refresh_event (ResultArrives i expiry now) r = (if i < length (rf_pending r)
     then r\<lparr>rf_timer := Some (rf_pending r ! i, now + max (expiry - now - REFRESH_MARGIN_MS) 0),
            rf_pending := take i (rf_pending r) @ drop (Suc i) (rf_pending r)\<rparr> else r)"
| "refresh_event (ResultFails i) r = r\<lparr>rf_pending := take i (rf_pending r) @ drop (Suc i) (rf_pending r)\<rparr>"
| "refresh_event (TimerFires now) r = (case rf_timer r of
       Some (u, due) \<Rightarrow> if due \<le> now then r\<lparr>rf_timer := None, rf_forced := rf_forced r @ [u]\<rparr> else r
     | None \<Rightarrow> r)"
| "refresh_event StopRefresh r = r\<lparr>rf_timer := None, rf_listening := False\<rparr>"

definition refresh_run :: "refresh_act list \<Rightarrow> refresher \<Rightarrow> refresher" where
  "refresh_run es r = foldl (\<lambda>s e. refresh_event e s) r es"

section \<open>What the pages guarantee\<close>

lemma schema_passes:
  "token \<noteq> [] \<Longrightarrow> 8 \<le> length pw \<Longrightarrow>
   resetPasswordSchema (Some (JObj [(''token'', JStr token), (''newPassword'', JStr pw)])) = Inr (token, pw)"
  by (simp add: resetPasswordSchema_def object_schema_def checked_def token_issues_def Server_Api.string_field_def text_of_def)

definition reset_request :: "string option \<Rightarrow> string \<Rightarrow> string \<Rightarrow> api_request" where
  "reset_request backendUrl token pw =
     \<lparr>ar_method = ''POST'', ar_url = base_url backendUrl @ ''/api/auth/reset-password'', ar_authorization = None,
      ar_body = Some (JObj [(''token'', JStr token), (''newPassword'', JStr pw)])\<rparr>"

definition validate_request :: "string option \<Rightarrow> string \<Rightarrow> api_request" where
  "validate_request backendUrl token =
     \<lparr>ar_method = ''GET'', ar_url = the backendUrl @ ''/api/auth/validate-reset-token?token='' @ encodeURIComponent token,
      ar_authorization = None, ar_body = None\<rparr>"

text \<open>The rate limit lets the request of this browser to this path pass.\<close>

definition lets_pass :: "browser_call \<Rightarrow> string \<Rightarrow> hits \<Rightarrow> bool" where
  "lets_pass c pathname hits = rs_allowed (fst (checkRateLimit (getClientIp (bc_headers c) @ '':'' @ pathname)
     (getRuleForPath pathname) (bc_now c) hits))"

definition not_sent :: "browser_call \<Rightarrow> bool" where
  "not_sent c = (case bc_delivery c of NeverSent m \<Rightarrow> True | _ \<Rightarrow> False)"

lemma auth_fetch_eq:
  assumes "startsWith pathname ''/api/auth''"
  shows "fst (auth_fetch c pathname route h) = (case bc_delivery c of
       Delivered \<Rightarrow> Inr (if lets_pass c pathname h then fst route else TOO_MANY)
     | AnswerLost m \<Rightarrow> Inl m | NeverSent m \<Rightarrow> Inl m)"
    and "fst (snd (auth_fetch c pathname route h)) = (if not_sent c \<or> \<not> lets_pass c pathname h then [] else snd route)"
  using assms
  by (auto simp: auth_fetch_def edge_middleware_def lets_pass_def not_sent_def Let_def split: prod.splits delivery.splits)

lemma strict_ok: "ok_status (r_status (strict_answer answer fallback)) = upstream_ok answer"
  by (auto simp: strict_answer_def upstream_ok_def json_reply_def internal_error_def ok_status_def null_body_status_def
      split: upstream.split option.split)

lemma reset_route:
  assumes "token \<noteq> []" and "8 \<le> length pw"
  shows "reset_password net backendUrl (Some (JObj [(''token'', JStr token), (''newPassword'', JStr pw)]))
    = (strict_answer (net (reset_request backendUrl token pw)) ''Failed to reset password'', [reset_request backendUrl token pw])"
  using assms by (simp add: reset_password_def parseOr400_def schema_passes reset_request_def Let_def)

lemma validate_ok:
  "ok_status (r_status (fst (validate_reset_token net backendUrl tok)))
    = (truthy tok \<and> truthy backendUrl \<and> upstream_ok (net (validate_request backendUrl (the tok))))"
  by (auto simp: validate_reset_token_def validate_request_def token_schema parseOr400_def upstream_ok_def internal_error_def
      json_reply_def ok_status_def null_body_status_def truthy_def Let_def split: option.splits upstream.split)

lemma too_many_message:
  "\<not> ok_status (r_status TOO_MANY)"
  "message_of render (error_or (json_prop (r_body TOO_MANY) ''error'') m) = ''Too many requests. Please try again later.''"
  by (simp_all add: TOO_MANY_def ok_status_def error_json_def error_or_def message_of_def)

lemma reset_submit:
  assumes "token \<noteq> []" and "8 \<le> length pw"
  defines "path \<equiv> ''/api/auth/reset-password''"
  shows "fst (snd (handleResetPassword render c net backendUrl token h pw))
      = (if not_sent c \<or> \<not> lets_pass c path h then [] else [reset_request backendUrl token pw])"
    and "fst (handleResetPassword render c net backendUrl token h pw) = Inr () \<longleftrightarrow>
      bc_delivery c = Delivered \<and> lets_pass c path h \<and> upstream_ok (net (reset_request backendUrl token pw))"
    and "bc_delivery c = Delivered \<Longrightarrow> \<not> lets_pass c path h \<Longrightarrow>
      fst (handleResetPassword render c net backendUrl token h pw) = Inl ''Too many requests. Please try again later.''"
    and "bc_delivery c = NeverSent m \<or> bc_delivery c = AnswerLost m \<Longrightarrow>
      fst (handleResetPassword render c net backendUrl token h pw) = Inl m"
proof -
  have p: "startsWith path ''/api/auth''" by (simp add: path_def startsWith_def)
  obtain r sent h' where f: "auth_fetch c path (reset_password net backendUrl
      (Some (JObj [(''token'', JStr token), (''newPassword'', JStr pw)]))) h = (r, sent, h')" by (rule prod_cases3)
  note eq = auth_fetch_eq [OF p, of c "reset_password net backendUrl
      (Some (JObj [(''token'', JStr token), (''newPassword'', JStr pw)]))" h, unfolded f fst_conv snd_conv, unfolded reset_route [OF assms(1,2)] fst_conv snd_conv]
  have hr: "handleResetPassword render c net backendUrl token h pw = (case r of Inl m \<Rightarrow> Inl m
      | Inr rp \<Rightarrow> if ok_status (r_status rp) then Inr ()
          else Inl (message_of render (error_or (json_prop (r_body rp) ''error'') ''Failed to reset password'')), sent, h')"
    using f by (auto simp: handleResetPassword_def path_def split: sum.splits reply.splits)
  show "fst (snd (handleResetPassword render c net backendUrl token h pw))
      = (if not_sent c \<or> \<not> lets_pass c path h then [] else [reset_request backendUrl token pw])"
    by (simp add: hr eq(2))
  show "fst (handleResetPassword render c net backendUrl token h pw) = Inr () \<longleftrightarrow>
      bc_delivery c = Delivered \<and> lets_pass c path h \<and> upstream_ok (net (reset_request backendUrl token pw))"
    using strict_ok [of "net (reset_request backendUrl token pw)"]
    by (cases "bc_delivery c") (auto simp: hr eq(1) too_many_message)
  show "bc_delivery c = Delivered \<Longrightarrow> \<not> lets_pass c path h \<Longrightarrow>
      fst (handleResetPassword render c net backendUrl token h pw) = Inl ''Too many requests. Please try again later.''"
    by (simp add: hr eq(1) too_many_message)
  show "bc_delivery c = NeverSent m \<or> bc_delivery c = AnswerLost m \<Longrightarrow>
      fst (handleResetPassword render c net backendUrl token h pw) = Inl m"
    by (auto simp: hr eq(1))
qed

lemma validate_page:
  "fst (page_validate reparse c net backendUrl token h) \<longleftrightarrow>
     truthy token \<and> bc_delivery c = Delivered \<and> lets_pass c ''/api/auth/validate-reset-token'' h
   \<and> truthy (reparse (the token)) \<and> truthy backendUrl
   \<and> upstream_ok (net (validate_request backendUrl (the (reparse (the token)))))"
proof -
  let ?path = "''/api/auth/validate-reset-token''"
  have p: "startsWith ?path ''/api/auth''" by (simp add: startsWith_def)
  obtain r sent h' where f: "auth_fetch c ?path (validate_reset_token net backendUrl (reparse (the token))) h = (r, sent, h')"
    by (rule prod_cases3)
  note eq = auth_fetch_eq(1) [OF p, of c "validate_reset_token net backendUrl (reparse (the token))" h, unfolded f fst_conv]
  show ?thesis
    using eq validate_ok [of net backendUrl "reparse (the token)"]
    by (cases "bc_delivery c") (auto simp: page_validate_def f too_many_message)
qed

text \<open>
  C29: What a visit of the reset page can end in. The form appears exactly when the link carries a token, the
  request to validate it arrived, was within the limit of its path and came back, and the backend confirmed
  the token the address was read as. If the two entries differ or are shorter than eight characters nothing is
  sent. Otherwise the proxy never refuses what the form accepted, but the rate limit of the path may, and the
  network may fail: at most one request goes to the backend, with that token and that password, exactly when
  the page's request arrived within the limit. The page reports success iff that request was sent, the backend
  accepted it with a JSON answer and the answer came back; over the limit it says so; and when the answer is
  lost it shows the error, although the backend may have changed the password.
\<close>

theorem reset_flow_exact:
  "let shown = truthy token \<and> bc_delivery c1 = Delivered \<and> lets_pass c1 ''/api/auth/validate-reset-token'' h
          \<and> truthy (reparse (the token)) \<and> truthy backendUrl
          \<and> upstream_ok (net1 (validate_request backendUrl (the (reparse (the token)))));
       request = reset_request backendUrl (the token) pw
   in case reset_page_visit render reparse (c1, net1) traffic (c2, net2) backendUrl token pw again h of
     (None, h2) \<Rightarrow> \<not> shown
   | (Some ((status, message), sent, h3), h2) \<Rightarrow> shown \<and>
       (let arrives = lets_pass c2 ''/api/auth/reset-password'' h2
        in if pw = again \<and> 8 \<le> length pw
           then sent = (if arrives \<and> \<not> not_sent c2 then [request] else [])
             \<and> status = (if bc_delivery c2 = Delivered \<and> arrives \<and> upstream_ok (net2 request) then FormSuccess else FormError)
             \<and> (case bc_delivery c2 of
                  Delivered \<Rightarrow> if arrives then True else message = ''Too many requests. Please try again later.''
                | NeverSent m \<Rightarrow> message = m | AnswerLost m \<Rightarrow> message = m)
           else status = FormError \<and> sent = [])"
proof -
  obtain valid h1 where v: "page_validate reparse c1 net1 backendUrl token h = (valid, h1)" by (rule prod.exhaust)
  note shown = validate_page [of reparse c1 net1 backendUrl token h, unfolded v fst_conv]
  show ?thesis
  proof (cases valid)
    case False
    then have visit: "reset_page_visit render reparse (c1, net1) traffic (c2, net2) backendUrl token pw again h = (None, traffic h1)"
      by (simp add: reset_page_visit_def v)
    show ?thesis unfolding Let_def visit using False shown by simp
  next
    case True
    then have t: "the token \<noteq> []" using shown by (cases token) (simp_all add: truthy_def)
    obtain r sent h3 where h: "handleResetPassword render c2 net2 backendUrl (the token) (traffic h1) pw = (r, sent, h3)"
      by (rule prod_cases3)
    show ?thesis
    proof (cases "pw = again \<and> 8 \<le> length pw")
      case same: True
      note s = reset_submit [OF t, where pw = pw and render = render and c = c2 and net = net2 and backendUrl = backendUrl
          and h = "traffic h1", unfolded h fst_conv snd_conv]
      have visit: "reset_page_visit render reparse (c1, net1) traffic (c2, net2) backendUrl token pw again h =
          (Some (case r of Inr u \<Rightarrow> (FormSuccess, ''auth.passwordResetSuccess'') | Inl m \<Rightarrow> (FormError, m), sent, h3), traffic h1)"
        using True same h by (cases r) (auto simp: reset_page_visit_def v reset_form_def Let_def)
      show ?thesis
        unfolding Let_def visit using shown True same s
        by (cases r; cases "bc_delivery c2") (simp_all split: if_splits)
    qed (use True shown in \<open>auto simp: reset_page_visit_def v reset_form_def Let_def\<close>)
  qed
qed

subsection \<open>Deletion\<close>

definition deletion_ok :: "deletion \<Rightarrow> bool" where
  "deletion_ok d \<longleftrightarrow> (dl_open d \<and> \<not> dl_checking d \<longrightarrow> dl_blocking d \<noteq> None)
     \<and> list_all (\<lambda>(blocking, typed). blocking = Some 0 \<and> typed = DELETE_CONFIRMATION_PHRASE) (dl_sent d)"

lemma deletion_event_ok: "deletion_ok d \<Longrightarrow> deletion_ok (deletion_event e d)"
  by (cases e) (auto simp: deletion_ok_def handleOpenDelete_def check_answered_def delete_enabled_def
      handleConfirmDelete_def delete_answered_def hasBlockingEscrows_def split: option.splits)

lemma deletion_run_ok: "deletion_ok d \<Longrightarrow> deletion_ok (deletion_run es d)"
  by (induction es arbitrary: d) (simp_all add: deletion_run_def deletion_event_ok)

text \<open>The number of requests that are answered or dismissed bounds nothing; at most one is under way.\<close>

definition confirms :: "deletion_act list \<Rightarrow> nat" where
  "confirms es = length (filter (\<lambda>e. e = ConfirmDelete) es)"

definition answers :: "deletion_act list \<Rightarrow> nat" where
  "answers es = length (filter (\<lambda>e. case e of DeleteAnswers _ \<Rightarrow> True | _ \<Rightarrow> False) es)"

lemma sent_step: "length (dl_sent (deletion_event e d)) + (if dl_deleting d then 1 else 0)
   \<le> length (dl_sent d) + (if dl_deleting (deletion_event e d) then 1 else 0)
     + (case e of DeleteAnswers _ \<Rightarrow> 1 | _ \<Rightarrow> 0)"
  by (cases e) (auto simp: handleOpenDelete_def check_answered_def delete_enabled_def handleConfirmDelete_def delete_answered_def)

lemma sent_run: "length (dl_sent (deletion_run es d)) + (if dl_deleting d then 1 else 0)
   \<le> length (dl_sent d) + (if dl_deleting (deletion_run es d) then 1 else 0) + answers es"
proof (induction es arbitrary: d)
  case (Cons e es)
  have "deletion_run (e # es) d = deletion_run es (deletion_event e d)" by (simp add: deletion_run_def)
  moreover have "answers (e # es) = (case e of DeleteAnswers _ \<Rightarrow> 1 | _ \<Rightarrow> 0) + answers es"
    by (simp add: answers_def split: deletion_act.split)
  ultimately show ?case using Cons [of "deletion_event e d"] sent_step [of e d] by (simp split: if_splits)
qed (simp add: deletion_run_def)

text \<open>
  C30: An account is deleted only on purpose and only when nothing is in flight. In any sequence of openings,
  check answers, typing, clicks and dismissals, every deletion request was sent while the last check had found
  no active escrow and the phrase was typed exactly; a failed check blocks; no second request is sent before the
  first is answered; and a request goes out through the proxy only with the bearer token of a signed-in user.
\<close>

theorem deletion_guarded:
  "let d = deletion_run es new_deletion in
     list_all (\<lambda>(blocking, typed). blocking = Some 0 \<and> typed = DELETE_CONFIRMATION_PHRASE) (dl_sent d)
     \<and> length (dl_sent d) \<le> Suc (answers es)
     \<and> \<not> delete_enabled (check_answered None (handleOpenDelete d))
     \<and> list_all (\<lambda>q. idToken \<noteq> None \<and> ar_authorization q = Some (''Bearer '' @ the idToken) \<and> ar_method q = ''DELETE'')
         (snd (delete_request net backendUrl idToken))"
proof -
  have "deletion_ok (deletion_run es new_deletion)"
    by (rule deletion_run_ok) (simp add: deletion_ok_def new_deletion_def)
  moreover have "length (dl_sent (deletion_run es new_deletion)) \<le> Suc (answers es)"
    using sent_run [of es new_deletion] by (simp add: new_deletion_def split: if_splits)
  moreover have "\<not> delete_enabled (check_answered None (handleOpenDelete d))" for d
    by (simp add: delete_enabled_def check_answered_def handleOpenDelete_def hasBlockingEscrows_def)
  moreover have "list_all (\<lambda>q. idToken \<noteq> None \<and> ar_authorization q = Some (''Bearer '' @ the idToken) \<and> ar_method q = ''DELETE'')
     (snd (delete_request net backendUrl idToken))"
    by (auto simp: delete_request_def delete_user_def Let_def split: option.split reply.split if_splits)
  ultimately show ?thesis by (simp add: Let_def deletion_ok_def)
qed

subsection \<open>The second factor and the refresh\<close>

text \<open>Only the first factor is removed: with another one left the panel shows the account as unprotected.\<close>

lemma disable_hides_second:
  "fc_user api w = Some u \<Longrightarrow> fc_factors api w = [f, g] \<Longrightarrow> fc_unenroll api f w = (Inr (), w') \<Longrightarrow>
   \<not> tf_isEnrolled (fst (disableTwoFactor True api (t, w)))"
  by (simp add: disableTwoFactor_def)

text \<open>A token result that arrives after the listener was stopped still sets a timer.\<close>

lemma late_result_refreshes:
  "rf_forced (refresh_run [TokenChanged (Some u), StopRefresh, ResultArrives 0 expiry now, TimerFires (now + max 0 (expiry - now))]
     startAuthTokenRefresh) = [u]"
  by (simp add: refresh_run_def startAuthTokenRefresh_def REFRESH_MARGIN_MS_def)

lemma refresh_before_expiry:
  "refresh_run [TokenChanged (Some u), ResultArrives 0 expiry now] startAuthTokenRefresh
     = \<lparr>rf_timer = Some (u, max now (expiry - REFRESH_MARGIN_MS)), rf_pending = [], rf_listening = True, rf_forced = []\<rparr>"
  by (simp add: refresh_run_def startAuthTokenRefresh_def)

end
