(* ===== verification/Purchase_Flow.thy ===== *)
theory Purchase_Flow
  imports Purchase_Escrow
begin

text \<open>
  The purchase pages around the escrow hook: \<open>components/ticket-listing/TicketEscrowWrapper.tsx\<close> with its
  \<open>EscrowCreationForm\<close>, and the gate \<open>hooks/useRequireVerifiedEmail.ts\<close>. The answers of the two loads, the dates and the wallet are inputs of
  the events; the choice of the asset, which nothing else reads, is left out; the simulated sources of the code are definitions of their own.
\<close>

section \<open>Sources and data\<close>

record escrow_response =
  er_contractId :: string
  er_status :: string
  er_unsignedXDR :: "string option"

text \<open>The simulated sources; the dates are a week and ten days from now, in ISO form.\<close>

definition getTicketPurchase :: "string \<Rightarrow> string \<Rightarrow> string \<Rightarrow> ticket_purchase" where
  "getTicketPurchase in_a_week in_ten_days purchaseId =
     \<lparr>tp_id = purchaseId, tp_listingId = ''listing-001'', tp_eventId = ''event-001'', tp_totalAmount = 450,
      tp_currency = ''USDC'', tp_quantity = 1, tp_transferDate = in_a_week, tp_eventDate = in_ten_days,
      tp_guestEmail = ''guest@example.com'', tp_guestName = Some ''John Doe'', tp_seatSection = Some ''Floor Section A'',
      tp_cancellationPolicy = Some ''Free cancellation until 24 hours before the transfer date'',
      tp_milestonePayments = Some (Some True)\<rparr>"

definition getEvent :: "string \<Rightarrow> event_data" where
  "getEvent eventId =
     \<lparr>ev_id = eventId, ev_name = ''Grand Stellar Event'',
      ev_walletAddress = ''GBCXK3ZQWFWMQJXLSIMVCAHUKTJVWRJPB5XYGZGQCVBWKWVEPTSYLUHI'', ev_rating = Some (48 / 10),
      ev_location = Some ''Downtown, New York City'', ev_imageUrl = Some ''/img/event-venue.png''\<rparr>"

definition escrow_type_of :: "ticket_purchase option \<Rightarrow> escrow_type" where
  "escrow_type_of p = (case p of
       None \<Rightarrow> SingleRelease
     | Some q \<Rightarrow> if tp_milestonePayments q = Some (Some True) then MultiRelease else SingleRelease)"

text \<open>\<open>Math.ceil\<close> of the days between the two dates; \<open>None\<close> is \<open>NaN\<close>.\<close>

definition daysToEvent :: "(string \<Rightarrow> int option) \<Rightarrow> ticket_purchase \<Rightarrow> int option" where
  "daysToEvent parse_date p = (case (parse_date (tp_eventDate p), parse_date (tp_transferDate p)) of
       (Some e, Some t) \<Rightarrow> Some (- ((t - e) div 86400000))
     | _ \<Rightarrow> None)"

section \<open>The wrapper\<close>

datatype email_status = EmailChecking | EmailVerified | EmailBlocked

datatype purchase_step = StepLoading | StepForm | StepConfirmation | StepError

text \<open>A load waits for the purchase, then for its event.\<close>

datatype pending_load = AwaitPurchase string | AwaitEvent

record purchase_page =
  pp_step :: purchase_step
  pp_error :: "string option"
  pp_escrow :: "escrow_response option"
  pp_purchase :: "ticket_purchase option"
  pp_event :: "event_data option"
  pp_loads :: "pending_load list"
  pp_email :: email_status
  pp_wallet :: string
  pp_showForm :: bool
  pp_visited :: "string list"

definition mount_page :: "ticket_purchase option \<Rightarrow> event_data option \<Rightarrow> string \<Rightarrow> purchase_page" where
  "mount_page purchase event wallet =
     \<lparr>pp_step = (if purchase = None then StepLoading else StepForm), pp_error = None, pp_escrow = None,
      pp_purchase = purchase, pp_event = event, pp_loads = [], pp_email = EmailChecking, pp_wallet = wallet,
      pp_showForm = False, pp_visited = []\<rparr>"

definition visit :: "string \<Rightarrow> purchase_page \<Rightarrow> purchase_page" where
  "visit path s = s\<lparr>pp_visited := pp_visited s @ [path]\<rparr>"

text \<open>The creation form keeps whether it is unfolded while it stays on the page; leaving it forgets that.\<close>

definition leave_form :: "purchase_page \<Rightarrow> purchase_page" where
  "leave_form s = s\<lparr>pp_showForm := False\<rparr>"

text \<open>\<open>useRequireVerifiedEmail\<close>: the user of the listener, if any, and whether the address is verified.\<close>

definition email_gate :: "bool option \<Rightarrow> purchase_page \<Rightarrow> purchase_page" where
  "email_gate user s = (if user = Some False then visit ''/verify-email'' (leave_form s\<lparr>pp_email := EmailBlocked\<rparr>)
     else s\<lparr>pp_email := EmailVerified\<rparr>)"

definition load_effect :: "string \<Rightarrow> ticket_purchase option \<Rightarrow> event_data option \<Rightarrow> purchase_page \<Rightarrow> purchase_page" where
  "load_effect purchaseId purchase event s =
     (if purchase \<noteq> None \<and> event \<noteq> None then s\<lparr>pp_step := StepForm\<rparr>
      else leave_form s\<lparr>pp_step := StepLoading, pp_error := None, pp_loads := pp_loads s @ [AwaitPurchase purchaseId]\<rparr>)"

definition drop_at :: "nat \<Rightarrow> 'a list \<Rightarrow> 'a list" where
  "drop_at i xs = take i xs @ drop (Suc i) xs"

text \<open>A failure carries the message of an \<open>Error\<close>, or none.\<close>

definition load_failed :: "string option \<Rightarrow> nat \<Rightarrow> purchase_page \<Rightarrow> purchase_page" where
  "load_failed message i s = leave_form s\<lparr>pp_error := Some (case message of Some m \<Rightarrow> m
        | None \<Rightarrow> ''Failed to load purchase details. Please try again.''),
     pp_step := StepError, pp_loads := drop_at i (pp_loads s)\<rparr>"

definition purchase_loaded :: "nat \<Rightarrow> string option + ticket_purchase \<Rightarrow> purchase_page \<Rightarrow> purchase_page" where
  "purchase_loaded i result s =
     (if i < length (pp_loads s) \<and> pp_loads s ! i \<noteq> AwaitEvent then
        (case result of
           Inl message \<Rightarrow> load_failed message i s
         | Inr p \<Rightarrow> s\<lparr>pp_purchase := Some p, pp_loads := (pp_loads s)[i := AwaitEvent]\<rparr>)
      else s)"

definition event_loaded :: "nat \<Rightarrow> string option + event_data \<Rightarrow> purchase_page \<Rightarrow> purchase_page" where
  "event_loaded i result s =
     (if i < length (pp_loads s) \<and> pp_loads s ! i = AwaitEvent then
        (case result of
           Inl message \<Rightarrow> load_failed message i s
         | Inr e \<Rightarrow> s\<lparr>pp_event := Some e, pp_step := StepForm, pp_loads := drop_at i (pp_loads s)\<rparr>)
      else s)"

text \<open>The outcome of the update changes nothing.\<close>

definition handleEscrowCreated :: "bool \<Rightarrow> escrow_response \<Rightarrow> purchase_page \<Rightarrow> purchase_page" where
  "handleEscrowCreated updated response s = leave_form s\<lparr>pp_escrow := Some response, pp_step := StepConfirmation\<rparr>"

definition handleCancel :: "purchase_page \<Rightarrow> purchase_page" where
  "handleCancel s = visit (''/dashboard/event/details?id='' @ (case pp_purchase s of None \<Rightarrow> [] | Some p \<Rightarrow> tp_eventId p)) s"

definition handleRetry :: "purchase_page \<Rightarrow> purchase_page" where
  "handleRetry s = s\<lparr>pp_error := None, pp_step := StepLoading\<rparr>"

section \<open>The form and the events\<close>

text \<open>What is on the page. The creation form is there with both data; it asks for a wallet first.\<close>

definition form_shown :: "purchase_page \<Rightarrow> bool" where
  "form_shown s \<longleftrightarrow> pp_email s = EmailVerified \<and> pp_step s = StepForm \<and> pp_purchase s \<noteq> None \<and> pp_event s \<noteq> None"

definition form_valid :: "(string \<Rightarrow> int option) \<Rightarrow> purchase_page \<Rightarrow> bool" where
  "form_valid parse_date s \<longleftrightarrow> pp_wallet s \<noteq> []
     \<and> validationErrors parse_date (the (pp_purchase s)) (the (pp_event s)) (pp_wallet s) = []"

text \<open>
  The embedded deploy form is rendered without properties: when it has created an escrow it tells the page
  nothing. \<open>Complete\<close> and \<open>ViewDetails\<close> are the buttons of the confirmation.
\<close>

datatype purchase_act =
    EmailKnown "bool option" | EffectRuns string "ticket_purchase option" "event_data option"
  | PurchaseArrives nat "string option + ticket_purchase" | EventArrives nat "string option + event_data"
  | Retry | CancelPurchase | WalletChanges string | Proceed | Back
  | EscrowFormSucceeds escrow_response | Complete | ViewDetails

fun purchase_event :: "(string \<Rightarrow> int option) \<Rightarrow> purchase_act \<Rightarrow> purchase_page \<Rightarrow> purchase_page" where
  "purchase_event pd (EmailKnown user) s = email_gate user s"
| "purchase_event pd (EffectRuns i p e) s = load_effect i p e s"
| "purchase_event pd (PurchaseArrives i r) s = purchase_loaded i r s"
| "purchase_event pd (EventArrives i r) s = event_loaded i r s"
| "purchase_event pd Retry s =
     (if pp_email s = EmailVerified \<and> pp_step s = StepError \<and> truthy (pp_error s) then handleRetry s else s)"
| "purchase_event pd CancelPurchase s = (if form_shown s \<and> pp_wallet s \<noteq> [] then handleCancel s else s)"
| "purchase_event pd (WalletChanges a) s = s\<lparr>pp_wallet := a\<rparr>"
| "purchase_event pd Proceed s =
     (if form_shown s \<and> form_valid pd s then s\<lparr>pp_showForm := True\<rparr> else s)"
| "purchase_event pd Back s =
     (if form_shown s \<and> pp_showForm s \<and> pp_wallet s \<noteq> [] then s\<lparr>pp_showForm := False\<rparr> else s)"
| "purchase_event pd (EscrowFormSucceeds r) s = s"
| "purchase_event pd Complete s =
     (if pp_email s = EmailVerified \<and> pp_step s = StepConfirmation \<and> pp_escrow s \<noteq> None then visit ''/dashboard'' s else s)"
| "purchase_event pd ViewDetails s =
     (if pp_email s = EmailVerified \<and> pp_step s = StepConfirmation \<and> pp_escrow s \<noteq> None
      then visit (''/dashboard?escrowId='' @ er_contractId (the (pp_escrow s))) s else s)"

definition purchase_run :: "(string \<Rightarrow> int option) \<Rightarrow> purchase_act list \<Rightarrow> purchase_page \<Rightarrow> purchase_page" where
  "purchase_run pd es s = foldl (\<lambda>t e. purchase_event pd e t) s es"

section \<open>Where the flow ends\<close>

definition open_form :: "(string \<Rightarrow> int option) \<Rightarrow> purchase_page \<Rightarrow> bool" where
  "open_form pd s \<longleftrightarrow> form_shown s \<and> pp_showForm s \<and> pp_wallet s \<noteq> []"

lemmas flow_defs = email_gate_def load_effect_def load_failed_def purchase_loaded_def event_loaded_def handleRetry_def
  handleCancel_def visit_def leave_form_def

lemma event_unconfirmed:
  "pp_step s \<noteq> StepConfirmation \<and> pp_escrow s = None \<Longrightarrow>
   pp_step (purchase_event pd e s) \<noteq> StepConfirmation \<and> pp_escrow (purchase_event pd e s) = None"
  by (cases e) (auto simp: flow_defs split: sum.splits)

lemma run_unconfirmed:
  "pp_step s \<noteq> StepConfirmation \<and> pp_escrow s = None \<Longrightarrow>
   pp_step (purchase_run pd es s) \<noteq> StepConfirmation \<and> pp_escrow (purchase_run pd es s) = None"
proof (induction es arbitrary: s)
  case (Cons e es)
  then show ?case using Cons.IH [of "purchase_event pd e s"] event_unconfirmed [of s pd e] by (simp add: purchase_run_def)
qed (simp add: purchase_run_def)

definition stuck :: "purchase_page \<Rightarrow> bool" where
  "stuck s \<longleftrightarrow> pp_step s = StepLoading \<and> pp_loads s = []"

definition user_act :: "purchase_act \<Rightarrow> bool" where
  "user_act e \<longleftrightarrow> (case e of EffectRuns _ _ _ \<Rightarrow> False | _ \<Rightarrow> True)"

lemma stuck_event: "stuck s \<Longrightarrow> user_act e \<Longrightarrow> stuck (purchase_event pd e s)"
  by (cases e) (auto simp: stuck_def user_act_def flow_defs form_shown_def split: sum.splits)

lemma stuck_run: "stuck s \<Longrightarrow> list_all user_act es \<Longrightarrow> stuck (purchase_run pd es s)"
proof (induction es arbitrary: s)
  case (Cons e es)
  then show ?case using Cons.IH [of "purchase_event pd e s"] stuck_event [of s e pd] by (simp add: purchase_run_def)
qed (simp add: purchase_run_def)

text \<open>The form is unfolded only over valid data: as long as the wallet stays, so does the validity.\<close>

lemma proceed_needs_valid:
  "\<not> pp_showForm s \<Longrightarrow> pp_showForm (purchase_event pd e s) \<Longrightarrow> e = Proceed \<and> form_valid pd s \<and> form_shown s"
  by (cases e) (auto simp: flow_defs split: if_splits sum.splits)

lemma blocked_sees_nothing:
  "pp_email s \<noteq> EmailVerified \<Longrightarrow> e \<in> {Retry, CancelPurchase, Proceed, Back, Complete, ViewDetails} \<Longrightarrow> purchase_event pd e s = s"
  by (auto simp: form_shown_def)

text \<open>
  The purchase pages lead nowhere after the form. The deploy form is given neither the data of the
  purchase nor a callback, so no sequence of loads, clicks and escrow creations ever reaches the
  confirmation or records an escrow for the purchase; the retry of a failed load only shows the spinner
  again: with no other load under way nothing the visitor does leaves it; the form is unfolded only when the
  purchase, the event and the wallet pass every check of the escrow hook; and an unverified address sees none of it.
\<close>

theorem purchase_flow_dead_ends:
  "let s = purchase_run pd es (mount_page purchase event wallet) in
     pp_step s \<noteq> StepConfirmation \<and> pp_escrow s = None
     \<and> (if pp_loads s = [] \<and> list_all user_act later then pp_step (purchase_run pd later (handleRetry s)) = StepLoading else True)
     \<and> (if pp_showForm (purchase_event pd e s) \<and> \<not> pp_showForm s
        then validationErrors pd (the (pp_purchase s)) (the (pp_event s)) (pp_wallet s) = [] \<and> pp_email s = EmailVerified else True)"
proof -
  let ?s = "purchase_run pd es (mount_page purchase event wallet)"
  have "pp_step ?s \<noteq> StepConfirmation \<and> pp_escrow ?s = None"
    by (rule run_unconfirmed) (simp add: mount_page_def)
  moreover have "pp_loads ?s = [] \<Longrightarrow> list_all user_act later \<Longrightarrow> pp_step (purchase_run pd later (handleRetry ?s)) = StepLoading"
    using stuck_run [of "handleRetry ?s" later pd] by (simp add: stuck_def handleRetry_def)
  moreover have "pp_showForm (purchase_event pd e ?s) \<Longrightarrow> \<not> pp_showForm ?s \<Longrightarrow>
      validationErrors pd (the (pp_purchase ?s)) (the (pp_event ?s)) (pp_wallet ?s) = [] \<and> pp_email ?s = EmailVerified"
    using proceed_needs_valid [of ?s pd e] by (simp add: form_valid_def form_shown_def)
  ultimately show ?thesis by (simp add: Let_def)
qed

text \<open>With the simulated sources every check but those of the wallet and the dates passes.\<close>

lemma simulated_data_valid:
  assumes "hook_isValidStellarAddress wallet" and "purchaseId \<noteq> []" and "week \<noteq> []" and "tendays \<noteq> []"
    and "pd week = Some t" and "pd tendays = Some e" and "t < e"
  shows "validationErrors pd (getTicketPurchase week tendays purchaseId) (getEvent ''event-001'') wallet = []"
proof -
  have "hook_isValidStellarAddress (ev_walletAddress (getEvent ''event-001''))" by code_simp
  moreover have "wallet \<noteq> []" using assms(1) by (auto simp: hook_isValidStellarAddress_def)
  ultimately show ?thesis using assms
    by (simp add: validationErrors_def validatePurchaseData_def validateEventData_def getTicketPurchase_def getEvent_def)
qed

end
