(* ===== verification/Wallet_Connect.thy ===== *)
theory Wallet_Connect
  imports Sign_In Wallet_Session
begin

text \<open>
  How a wallet is found and connected: \<open>useWalletDetection.ts\<close>, \<open>walletConfig.ts\<close>, \<open>walletConnect.ts\<close>,
  \<open>useNetworkCheck.ts\<close>, \<open>useWalletPersistence.ts\<close>, \<open>metamask-wallet.hook.ts\<close>, \<open>multi-wallet.hook.ts\<close> and
  \<open>wallet.hook.ts\<close> under \<open>components/auth/wallet\<close>. The extensions, the kit, ethers and the WalletConnect
  provider are what they answer: an argument of the operation that asks. Where a handler awaits, its start
  and its answer are separate events, so that others can come between. Logging is left out.
\<close>

section \<open>Detection\<close>

record ethereum =
  et_isMetaMask :: bool
  et_providers :: "bool list option"

record wallet_window =
  ww_freighterApi :: bool
  ww_ethereum :: "ethereum option"

record detection =
  dt_freighter :: bool
  dt_albedo :: bool
  dt_lobstr :: bool
  dt_metamask :: bool
  dt_walletconnect :: bool
  dt_freighterAddress :: "string option"

text \<open>The initial state, and the answer of \<open>getAddress\<close>: \<open>None\<close> throws.\<close>

definition no_detection :: detection where
  "no_detection = \<lparr>dt_freighter = False, dt_albedo = False, dt_lobstr = False, dt_metamask = False,
     dt_walletconnect = True, dt_freighterAddress = None\<rparr>"

definition retrieveFreighterAddress :: "string option option \<Rightarrow> string option" where
  "retrieveFreighterAddress answer = (case answer of None \<Rightarrow> None | Some address \<Rightarrow> address)"

text \<open>A window is there in a browser and missing on the server.\<close>

definition detectFreighter :: "wallet_window option \<Rightarrow> bool" where
  "detectFreighter w = (case w of None \<Rightarrow> False | Some w \<Rightarrow> ww_freighterApi w)"

definition detectAlbedo :: bool where
  "detectAlbedo = True"

definition detectLobstr :: "wallet_window option \<Rightarrow> bool" where
  "detectLobstr w = (w \<noteq> None)"

definition detectMetaMask :: "wallet_window option \<Rightarrow> bool" where
  "detectMetaMask w = (case w of
       None \<Rightarrow> False
     | Some w \<Rightarrow> (case ww_ethereum w of
         None \<Rightarrow> False
       | Some e \<Rightarrow> if et_isMetaMask e then True
                  else (case et_providers e of None \<Rightarrow> False | Some ps \<Rightarrow> list_ex (\<lambda>p. p) ps)))"

definition detectWallets :: "wallet_window option \<Rightarrow> string option option \<Rightarrow> browser \<Rightarrow> detection \<times> browser" where
  "detectWallets w getAddress b =
     (let freighterInstalled = detectFreighter w;
          freighterAddress = (if freighterInstalled then retrieveFreighterAddress getAddress else None);
          b' = (if truthy freighterAddress then connectWalletStore (the freighterAddress) ''Freighter'' b else b)
      in (\<lparr>dt_freighter = freighterInstalled, dt_albedo = detectAlbedo, dt_lobstr = detectLobstr w,
           dt_metamask = detectMetaMask w, dt_walletconnect = True, dt_freighterAddress = freighterAddress\<rparr>, b'))"

text \<open>
  The entries of a detection result whose value is a Boolean; what the hook returns has the flag
  \<open>isLoading\<close> besides.
\<close>

definition detection_entries :: "detection \<Rightarrow> (string \<times> bool) list" where
  "detection_entries d = [(''freighter'', dt_freighter d), (''albedo'', dt_albedo d), (''lobstr'', dt_lobstr d),
     (''metamask'', dt_metamask d), (''walletconnect'', dt_walletconnect d)]"

definition hook_entries :: "detection \<Rightarrow> bool \<Rightarrow> (string \<times> bool) list" where
  "hook_entries d isLoading = detection_entries d @ [(''isLoading'', isLoading)]"

definition getAvailableWallets :: "(string \<times> bool) list \<Rightarrow> string list" where
  "getAvailableWallets entries = map fst (filter (\<lambda>(key, v). key \<noteq> ''freighterAddress'' \<and> v) entries)"

definition isWalletAvailable :: "string \<Rightarrow> (string \<times> bool) list \<Rightarrow> bool" where
  "isWalletAvailable walletType entries = (map_of entries walletType = Some True)"

section \<open>The supported wallets\<close>

record wallet_config =
  wc_id :: string
  wc_name :: string
  wc_downloadUrl :: "string option"
  wc_chains :: "string list"
  wc_isPopular :: bool

definition WALLET_CONFIGS :: "(string \<times> wallet_config) list" where
  "WALLET_CONFIGS =
    [(''freighter'', \<lparr>wc_id = ''freighter'', wc_name = ''Freighter'', wc_downloadUrl = Some ''https://freighter.app/'',
        wc_chains = [''stellar''], wc_isPopular = True\<rparr>),
     (''albedo'', \<lparr>wc_id = ''albedo'', wc_name = ''Albedo'', wc_downloadUrl = Some ''https://albedo.link/'',
        wc_chains = [''stellar''], wc_isPopular = True\<rparr>),
     (''lobstr'', \<lparr>wc_id = ''lobstr'', wc_name = ''LOBSTR'', wc_downloadUrl = Some ''https://lobstr.co/'',
        wc_chains = [''stellar''], wc_isPopular = False\<rparr>),
     (''metamask'', \<lparr>wc_id = ''metamask'', wc_name = ''MetaMask'', wc_downloadUrl = Some ''https://metamask.io/'',
        wc_chains = [''ethereum'', ''bsc''], wc_isPopular = True\<rparr>),
     (''walletconnect'', \<lparr>wc_id = ''walletconnect'', wc_name = ''WalletConnect'', wc_downloadUrl = None,
        wc_chains = [''ethereum'', ''bsc''], wc_isPopular = False\<rparr>)]"

definition STELLAR_WALLETS :: "string list" where
  "STELLAR_WALLETS = [''freighter'', ''albedo'', ''lobstr'']"

definition ETHEREUM_WALLETS :: "string list" where
  "ETHEREUM_WALLETS = [''metamask'', ''walletconnect'']"

definition POPULAR_WALLETS :: "string list" where
  "POPULAR_WALLETS = map fst (filter (\<lambda>(key, c). wc_isPopular c) WALLET_CONFIGS)"

definition getWalletConfig :: "string \<Rightarrow> wallet_config option" where
  "getWalletConfig walletType = map_of WALLET_CONFIGS walletType"

definition getWalletsByChain :: "string \<Rightarrow> wallet_config list" where
  "getWalletsByChain chain = filter (\<lambda>config. chain \<in> set (wc_chains config)) (map snd WALLET_CONFIGS)"

definition getAllSupportedWallets :: "wallet_config list" where
  "getAllSupportedWallets = map snd WALLET_CONFIGS"

section \<open>The remembered wallet\<close>

text \<open>The storage of a browser: \<open>None\<close> on the server or when it throws.\<close>

definition KNOWN_WALLETS :: "string list" where
  "KNOWN_WALLETS = [''freighter'', ''albedo'', ''lobstr'', ''metamask'', ''walletconnect'']"

definition getPersistedWalletType :: "string option option \<Rightarrow> string option" where
  "getPersistedWalletType storage = (case storage of
       None \<Rightarrow> None
     | Some raw \<Rightarrow> if \<not> truthy raw then None
                   else if the raw \<in> set KNOWN_WALLETS then raw else None)"

definition persistWalletType :: "string option \<Rightarrow> string option option \<Rightarrow> string option option" where
  "persistWalletType walletType storage = (case storage of
       None \<Rightarrow> None
     | Some raw \<Rightarrow> Some walletType)"

record persistence =
  pw_last :: "string option"
  pw_storage :: "string option option"

definition persistence_mounted :: "string option option \<Rightarrow> persistence" where
  "persistence_mounted storage = \<lparr>pw_last = getPersistedWalletType storage, pw_storage = storage\<rparr>"

definition saveWalletType :: "string \<Rightarrow> persistence \<Rightarrow> persistence" where
  "saveWalletType t p = \<lparr>pw_last = Some t, pw_storage = persistWalletType (Some t) (pw_storage p)\<rparr>"

definition clearWalletType :: "persistence \<Rightarrow> persistence" where
  "clearWalletType p = \<lparr>pw_last = None, pw_storage = persistWalletType None (pw_storage p)\<rparr>"

section \<open>The network of the wallet\<close>

record network_check =
  nc_actual :: string
  nc_checking :: bool

datatype network_act = ConnectedIs bool | NetworkAnswered "string option"

text \<open>The effect of \<open>isConnected\<close> starts a check when the kit is there; its answer may come at any time.\<close>

fun network_event :: "bool \<Rightarrow> network_act \<Rightarrow> network_check \<Rightarrow> network_check" where
  "network_event kit (ConnectedIs c) n =
     (if c then (if kit then n\<lparr>nc_checking := True\<rparr> else n) else n\<lparr>nc_actual := []\<rparr>)"
| "network_event kit (NetworkAnswered answer) n =
     \<lparr>nc_actual = (case answer of None \<Rightarrow> [] | Some network \<Rightarrow> network), nc_checking = False\<rparr>"

definition isNetworkMatch :: "string \<Rightarrow> network_check \<Rightarrow> bool" where
  "isNetworkMatch expectedNetwork n \<longleftrightarrow> \<not> nc_checking n \<and> nc_actual n \<noteq> [] \<and> nc_actual n = expectedNetwork"

section \<open>WalletConnect\<close>

text \<open>
  The module keeps one provider. \<open>wl_open\<close> are the sessions the wallets hold open: a provider opens one when
  it is enabled and closes it when it is asked to disconnect.
\<close>

record wc_failure =
  wx_message :: "string option"
  wx_code :: "int option"

record 'p wc_module =
  wl_provider :: "'p option"
  wl_open :: "'p list"

record 'p wc_answers =
  wi_init :: "wc_failure + 'p"
  wi_enable :: "wc_failure + string list"
  wi_chainId :: "wc_failure + string"

definition hex_digits :: string where
  "hex_digits = ''0123456789abcdef''"

definition digit_of :: "char \<Rightarrow> int" where
  "digit_of c = int (length (takeWhile (\<lambda>d. d \<noteq> c) hex_digits))"

text \<open>\<open>parseInt(s, 16)\<close>: blanks, a sign, the prefix \<open>0x\<close>, then as many digits as there are; \<open>None\<close> is \<open>NaN\<close>.\<close>

definition parse_hex :: "string \<Rightarrow> int option" where
  "parse_hex s =
     (let t = toLowerCase (trim_start s);
          (sg, u) = (if startsWith t ''-'' then (-1, tl t) else if startsWith t ''+'' then (1, tl t) else (1, t));
          v = (if startsWith u ''0x'' then drop 2 u else u);
          ds = takeWhile (\<lambda>c. c \<in> set hex_digits) v
      in if ds = [] then None else Some (sg * foldl (\<lambda>n c. 16 * n + digit_of c) 0 ds))"

definition initializeWalletConnect :: "wc_failure + 'p \<Rightarrow> 'p wc_module \<Rightarrow> (wc_failure + 'p) \<times> 'p wc_module" where
  "initializeWalletConnect init m = (case wl_provider m of
       Some p \<Rightarrow> (Inr p, m)
     | None \<Rightarrow> (case init of Inl e \<Rightarrow> (Inl e, m) | Inr p \<Rightarrow> (Inr p, m\<lparr>wl_provider := Some p\<rparr>)))"

definition wc_cancelled :: "wc_failure \<Rightarrow> bool" where
  "wc_cancelled e \<longleftrightarrow>
     (case wx_message e of
        None \<Rightarrow> False
      | Some msg \<Rightarrow> str_includes msg ''Connection request reset'' \<or> str_includes msg ''User rejected''
          \<or> str_includes msg ''User cancelled'' \<or> str_includes msg ''User closed modal'')
     \<or> wx_code e = Some 4001"

definition wc_caught :: "wc_failure \<Rightarrow> 'p wc_module \<Rightarrow> (wc_failure + (string \<times> int option \<times> 'p) option) \<times> 'p wc_module" where
  "wc_caught e m = (if wc_cancelled e then Inr None else Inl e, m\<lparr>wl_provider := None\<rparr>)"

definition connectWalletConnect ::
    "'p wc_answers \<Rightarrow> 'p wc_module \<Rightarrow> (wc_failure + (string \<times> int option \<times> 'p) option) \<times> 'p wc_module" where
  "connectWalletConnect w m0 =
     (case initializeWalletConnect (wi_init w) (m0\<lparr>wl_provider := None\<rparr>) of
        (Inl e, m) \<Rightarrow> wc_caught e m
      | (Inr p, m) \<Rightarrow> (case wi_enable w of
            Inl e \<Rightarrow> wc_caught e m
          | Inr accounts \<Rightarrow>
              (let m' = m\<lparr>wl_open := wl_open m @ [p]\<rparr>
               in if accounts = [] then wc_caught \<lparr>wx_message = Some ''No accounts returned from WalletConnect'', wx_code = None\<rparr> m'
                  else (case wi_chainId w of
                      Inl e \<Rightarrow> wc_caught e m'
                    | Inr chainId \<Rightarrow> (Inr (Some (hd accounts, parse_hex chainId, p)), m')))))"

text \<open>\<open>answers\<close>: whether the provider's own \<open>disconnect\<close> returns; an error is swallowed.\<close>

definition disconnectWalletConnect :: "bool \<Rightarrow> 'p wc_module \<Rightarrow> 'p wc_module" where
  "disconnectWalletConnect answers m = (case wl_provider m of
       None \<Rightarrow> m
     | Some p \<Rightarrow> m\<lparr>wl_provider := None, wl_open := (if answers then removeAll p (wl_open m) else wl_open m)\<rparr>)"

definition cleanupWalletConnect :: "bool \<Rightarrow> bool \<Rightarrow> 'p wc_module \<Rightarrow> 'p wc_module" where
  "cleanupWalletConnect isOpen answers m = (case wl_provider m of
       None \<Rightarrow> m
     | Some p \<Rightarrow> m\<lparr>wl_provider := None,
                  wl_open := (if isOpen \<and> answers then removeAll p (wl_open m) else wl_open m)\<rparr>)"

section \<open>MetaMask\<close>

text \<open>
  A signer is the address it signs for, which it keeps; \<open>getSigner\<close>, \<open>getAddress\<close>, \<open>getNetwork\<close> and
  \<open>getBalance\<close> answer together: the signer with its address, the network and the balance, or the message of
  the first error, empty when it has none.
\<close>

record metamask =
  mm_isConnected :: bool
  mm_address :: "string option"
  mm_network :: "string option"
  mm_balance :: "string option"
  mm_provider :: bool
  mm_signer :: "string option"
  mm_error :: "string option"

type_synonym mm_answer = "string + string \<times> string \<times> string"

definition no_metamask :: metamask where
  "no_metamask = \<lparr>mm_isConnected = False, mm_address = None, mm_network = None, mm_balance = None,
     mm_provider = False, mm_signer = None, mm_error = None\<rparr>"

definition mm_message :: "string \<Rightarrow> string" where
  "mm_message m = (if m \<noteq> [] then m else ''Failed to connect to MetaMask'')"

text \<open>\<open>connectWallet\<close> up to its first answer: \<open>Some\<close> is the message it throws.\<close>

definition mm_connect :: "bool \<Rightarrow> metamask \<Rightarrow> string option \<times> metamask" where
  "mm_connect installed m =
     (if installed then (None, m\<lparr>mm_error := None\<rparr>)
      else (Some ''MetaMask is not installed'', m\<lparr>mm_error := Some ''MetaMask is not installed''\<rparr>))"

definition mm_answered :: "mm_answer \<Rightarrow> metamask \<Rightarrow> (string + string) \<times> metamask" where
  "mm_answered answer m = (case answer of
       Inl e \<Rightarrow> (Inl (mm_message e), m\<lparr>mm_error := Some (mm_message e)\<rparr>)
     | Inr (address, network, balance) \<Rightarrow> (Inr address,
         \<lparr>mm_isConnected = True, mm_address = Some address, mm_network = Some network, mm_balance = Some balance,
          mm_provider = True, mm_signer = Some address, mm_error = None\<rparr>))"

definition mm_disconnect :: "metamask \<Rightarrow> metamask" where
  "mm_disconnect m = no_metamask"

text \<open>\<open>switchNetwork\<close> when the extension has switched; the network is read after the switch.\<close>

definition switchNetwork :: "bool \<Rightarrow> string + unit \<Rightarrow> string + string \<Rightarrow> metamask \<Rightarrow> (string + unit) \<times> metamask" where
  "switchNetwork installed switch network m =
     (let failed = (\<lambda>e. if e \<noteq> [] then e else ''Failed to switch network'')
      in if \<not> installed then (Inl ''MetaMask is not installed'', m)
         else (case switch of
             Inl e \<Rightarrow> (Inl (failed e), m)
           | Inr _ \<Rightarrow> if mm_isConnected m
                      then (case network of Inl e \<Rightarrow> (Inl (failed e), m) | Inr n \<Rightarrow> (Inr (), m\<lparr>mm_network := Some n\<rparr>))
                      else (Inr (), m)))"

definition addNetwork :: "bool \<Rightarrow> string + unit \<Rightarrow> string + unit" where
  "addNetwork installed added =
     (if \<not> installed then Inl ''MetaMask is not installed''
      else (case added of Inl e \<Rightarrow> Inl (if e \<noteq> [] then e else ''Failed to add network'') | Inr u \<Rightarrow> Inr u))"

definition mm_getBalance :: "string + string \<Rightarrow> metamask \<Rightarrow> (string + string) \<times> metamask" where
  "mm_getBalance answer m =
     (if \<not> mm_provider m \<or> \<not> truthy (mm_address m) then (Inl ''Wallet not connected'', m)
      else (case answer of
          Inl e \<Rightarrow> (Inl (if e \<noteq> [] then e else ''Failed to get balance''), m)
        | Inr balance \<Rightarrow> (Inr balance, m\<lparr>mm_balance := Some balance\<rparr>)))"

text \<open>A signed message is the signer's address with the message; \<open>refused\<close> is the extension's error.\<close>

definition signMessage :: "string option \<Rightarrow> string \<Rightarrow> metamask \<Rightarrow> string + string \<times> string" where
  "signMessage refused message m = (case mm_signer m of
       None \<Rightarrow> Inl ''Wallet not connected''
     | Some signer \<Rightarrow> (case refused of
           Some e \<Rightarrow> Inl (if e \<noteq> [] then e else ''Failed to sign message'')
         | None \<Rightarrow> Inr (signer, message)))"

definition mm_accounts :: "string list \<Rightarrow> metamask \<Rightarrow> metamask" where
  "mm_accounts accounts m =
     (if accounts = [] then mm_disconnect m
      else if mm_isConnected m then m\<lparr>mm_address := Some (hd accounts)\<rparr> else m)"

text \<open>A change of chain reconnects; the extension that reports it is there.\<close>

definition mm_chain :: "metamask \<Rightarrow> metamask" where
  "mm_chain m = (if mm_isConnected m then snd (mm_connect True m) else m)"

datatype mm_act = MmConnect bool | MmAnswered mm_answer | MmDisconnect | MmSwitch bool "string + unit" "string + string"
  | MmBalance "string + string" | MmAccounts "string list" | MmChain

fun mm_event :: "mm_act \<Rightarrow> metamask \<Rightarrow> metamask" where
  "mm_event (MmConnect installed) m = snd (mm_connect installed m)"
| "mm_event (MmAnswered answer) m = snd (mm_answered answer m)"
| "mm_event MmDisconnect m = mm_disconnect m"
| "mm_event (MmSwitch installed switch network) m = snd (switchNetwork installed switch network m)"
| "mm_event (MmBalance answer) m = snd (mm_getBalance answer m)"
| "mm_event (MmAccounts accounts) m = mm_accounts accounts m"
| "mm_event MmChain m = mm_chain m"

definition mm_run :: "mm_act list \<Rightarrow> metamask \<Rightarrow> metamask" where
  "mm_run es m = foldl (\<lambda>m e. mm_event e m) m es"

section \<open>The connection dialogs\<close>

record dialogs =
  dg_error :: "string option"
  dg_main :: bool
  dg_stellar :: bool
  dg_metamask :: bool
  dg_selected :: "string option"
  dg_mm :: metamask

definition closed_dialogs :: dialogs where
  "closed_dialogs = \<lparr>dg_error = None, dg_main = False, dg_stellar = False, dg_metamask = False,
     dg_selected = None, dg_mm = no_metamask\<rparr>"

definition openMainModal :: "dialogs \<Rightarrow> dialogs" where
  "openMainModal d = d\<lparr>dg_main := True\<rparr>"

definition closeMainModal :: "dialogs \<Rightarrow> dialogs" where
  "closeMainModal d = d\<lparr>dg_main := False, dg_selected := None\<rparr>"

definition closeStellarModal :: "dialogs \<Rightarrow> dialogs" where
  "closeStellarModal d = d\<lparr>dg_stellar := False, dg_selected := None\<rparr>"

definition closeMetaMaskModal :: "dialogs \<Rightarrow> dialogs" where
  "closeMetaMaskModal d = d\<lparr>dg_metamask := False, dg_selected := None\<rparr>"

text \<open>
  \<open>handleMetaMaskDirectConnection\<close> up to the extension's answer, and its end. Without an extension it opens
  the dialog; the message of a failure decides between the dialog and the error text.
\<close>

definition direct_connection :: "bool \<Rightarrow> dialogs \<Rightarrow> dialogs" where
  "direct_connection installed d0 =
     (let d = d0\<lparr>dg_error := None\<rparr>
      in if \<not> installed then d\<lparr>dg_metamask := True\<rparr> else d\<lparr>dg_mm := snd (mm_connect True (dg_mm d))\<rparr>)"

definition direct_answered :: "mm_answer \<Rightarrow> dialogs \<times> browser \<Rightarrow> dialogs \<times> browser" where
  "direct_answered answer = (\<lambda>(d, b). case mm_answered answer (dg_mm d) of
       (Inr address, m) \<Rightarrow> (d\<lparr>dg_mm := m, dg_selected := None\<rparr>, connectWalletStore address ''MetaMask'' b)
     | (Inl msg, m) \<Rightarrow>
         (if str_includes msg ''User rejected'' \<or> str_includes msg ''User denied'' \<or> str_includes msg ''No accounts found''
             \<or> str_includes msg ''MetaMask is not installed''
          then d\<lparr>dg_mm := m, dg_metamask := True\<rparr>
          else d\<lparr>dg_mm := m, dg_error := Some (if msg \<noteq> [] then msg else ''Failed to connect to MetaMask'')\<rparr>, b))"

definition handleWalletTypeSelected :: "string \<Rightarrow> bool \<Rightarrow> dialogs \<Rightarrow> dialogs" where
  "handleWalletTypeSelected walletType installed d0 =
     (let d = d0\<lparr>dg_selected := Some walletType, dg_main := False\<rparr>
      in if walletType = ''stellar'' then d\<lparr>dg_stellar := True\<rparr>
         else if walletType = ''metamask'' then direct_connection installed d
         else d)"

text \<open>The kit answers with an address or the message of its error.\<close>

definition handleStellarWalletSelected :: "string \<Rightarrow> string + string \<Rightarrow> dialogs \<times> browser \<Rightarrow> dialogs \<times> browser" where
  "handleStellarWalletSelected name answer = (\<lambda>(d, b). case answer of
       Inr address \<Rightarrow> (d\<lparr>dg_error := None, dg_stellar := False, dg_selected := None\<rparr>, connectWalletStore address name b)
     | Inl e \<Rightarrow> (d\<lparr>dg_error := Some (''Failed to connect to '' @ name @ '': ''
           @ (if e \<noteq> [] then e else ''Unknown error''))\<rparr>, b))"

definition metamask_selected :: "bool \<Rightarrow> dialogs \<Rightarrow> dialogs" where
  "metamask_selected installed d = (case mm_connect installed (dg_mm d) of
       (None, m) \<Rightarrow> d\<lparr>dg_mm := m\<rparr>
     | (Some msg, m) \<Rightarrow> d\<lparr>dg_mm := m, dg_error := Some msg\<rparr>)"

definition metamask_selected_answered :: "mm_answer \<Rightarrow> dialogs \<times> browser \<Rightarrow> dialogs \<times> browser" where
  "metamask_selected_answered answer = (\<lambda>(d, b). case mm_answered answer (dg_mm d) of
       (Inr address, m) \<Rightarrow> (d\<lparr>dg_mm := m, dg_metamask := False, dg_selected := None\<rparr>,
                            connectWalletStore address ''MetaMask'' b)
     | (Inl msg, m) \<Rightarrow>
         (d\<lparr>dg_mm := m, dg_error := Some (if msg \<noteq> [] then msg else ''Failed to connect to MetaMask'')\<rparr>, b))"

text \<open>The end is the same whether the kit disconnects or throws.\<close>

definition dialogs_disconnect :: "bool \<Rightarrow> dialogs \<times> browser \<Rightarrow> dialogs \<times> browser" where
  "dialogs_disconnect kit_ok = (\<lambda>(d, b0).
     (let b = disconnectWalletStore b0;
          d' = (if mm_isConnected (dg_mm d) then d\<lparr>dg_mm := mm_disconnect (dg_mm d)\<rparr> else d)
      in if kit_ok then (d', push ''/'' b) else (d', push ''/'' (disconnectWalletStore b))))"

datatype dialog_act = OpenMain | CloseMain | CloseStellar | CloseMetaMask | TypeSelected string bool
  | DirectAnswered mm_answer | StellarSelected string "string + string" | MetaMaskSelected bool
  | SelectedAnswered mm_answer | DisconnectWallet bool | Extension mm_act

text \<open>\<open>Extension\<close> are the events of the MetaMask hook alone, the extension's among them.\<close>

fun dialog_event :: "dialog_act \<Rightarrow> dialogs \<times> browser \<Rightarrow> dialogs \<times> browser" where
  "dialog_event OpenMain (d, b) = (openMainModal d, b)"
| "dialog_event CloseMain (d, b) = (closeMainModal d, b)"
| "dialog_event CloseStellar (d, b) = (closeStellarModal d, b)"
| "dialog_event CloseMetaMask (d, b) = (closeMetaMaskModal d, b)"
| "dialog_event (TypeSelected t installed) (d, b) = (handleWalletTypeSelected t installed d, b)"
| "dialog_event (DirectAnswered answer) s = direct_answered answer s"
| "dialog_event (StellarSelected name answer) s = handleStellarWalletSelected name answer s"
| "dialog_event (MetaMaskSelected installed) (d, b) = (metamask_selected installed d, b)"
| "dialog_event (SelectedAnswered answer) s = metamask_selected_answered answer s"
| "dialog_event (DisconnectWallet kit_ok) s = dialogs_disconnect kit_ok s"
| "dialog_event (Extension e) (d, b) = (d\<lparr>dg_mm := mm_event e (dg_mm d)\<rparr>, b)"

definition dialog_run :: "dialog_act list \<Rightarrow> dialogs \<times> browser \<Rightarrow> dialogs \<times> browser" where
  "dialog_run es s = foldl (\<lambda>s e. dialog_event e s) s es"

section \<open>The wallet of the escrow pages\<close>

text \<open>\<open>wallet.hook.ts\<close>: its dialog, the kit and the signature of Freighter.\<close>

record wallet_hook =
  wk_error :: "string option"
  wk_isModalOpen :: bool
  wk_showWalletModal :: bool

definition wk_connectWallet :: "wallet_hook \<Rightarrow> wallet_hook" where
  "wk_connectWallet k = k\<lparr>wk_isModalOpen := True\<rparr>"

definition wk_closeModal :: "wallet_hook \<Rightarrow> wallet_hook" where
  "wk_closeModal k = k\<lparr>wk_isModalOpen := False\<rparr>"

definition handleWalletSelected :: "string \<Rightarrow> string option \<Rightarrow> wallet_hook \<times> browser \<Rightarrow> wallet_hook \<times> browser" where
  "handleWalletSelected name answer = (\<lambda>(k, b). case answer of
       None \<Rightarrow> (k\<lparr>wk_error := Some (''Failed to connect to '' @ name)\<rparr>, b)
     | Some address \<Rightarrow> (k\<lparr>wk_isModalOpen := False\<rparr>, connectWalletStore address name b))"

definition handleMultiWalletConnect :: "wallet \<Rightarrow> wallet_hook \<times> browser \<Rightarrow> wallet_hook \<times> browser" where
  "handleMultiWalletConnect w = (\<lambda>(k, b). (k\<lparr>wk_showWalletModal := False\<rparr>, connectWalletStore (wa_address w) (wa_name w) b))"

text \<open>\<open>disconnectWallet\<close>, where \<open>False\<close> is an error of the kit, and \<open>handleDisconnect\<close>, which swallows it.\<close>

definition wk_disconnectWallet :: "bool \<Rightarrow> browser \<Rightarrow> bool \<times> browser" where
  "wk_disconnectWallet kit_ok b = (if kit_ok then (True, push ''/'' (disconnectWalletStore b)) else (False, b))"

definition wk_handleDisconnect :: "bool \<Rightarrow> browser \<times> 'b wallet_state \<Rightarrow> browser \<times> 'b wallet_state" where
  "wk_handleDisconnect kit_ok = (\<lambda>(b, w). case wk_disconnectWallet kit_ok b of
       (True, b') \<Rightarrow> (b', reset_session w)
     | (False, b') \<Rightarrow> (b', w))"

text \<open>
  What Freighter is asked for, and its answer: an error it throws, or an object whose \<open>signedTxXdr\<close> is empty
  when it reports an error inside. \<open>None\<close> for the passphrase means the test network.
\<close>

record freighter_answer =
  fa_signedTxXdr :: string
  fa_error :: "string option"

definition signXDR :: "string \<Rightarrow> (string \<Rightarrow> string \<Rightarrow> string \<Rightarrow> string + freighter_answer) \<Rightarrow> string \<Rightarrow> string
    \<Rightarrow> string option \<Rightarrow> string + string" where
  "signXDR TESTNET freighter address unsignedXDR networkPassphrase =
     (if address = [] then Inl ''No wallet connected''
      else (case freighter unsignedXDR address (if truthy networkPassphrase then the networkPassphrase else TESTNET) of
          Inl e \<Rightarrow> Inl e
        | Inr answer \<Rightarrow> Inr (fa_signedTxXdr answer)))"

text \<open>
  \<open>XDRSigningFlow.tsx\<close>: what is sent, and what the page shows. A transaction is the object the helper answers
  with; the spread at the end lets its own fields win.
\<close>

record send_request =
  sx_authorization :: "string option"
  sx_signedXDR :: string
  sx_network :: string

datatype send_answer = SendThrows string | SendRefused string | SendUnreadable string | SendDone "(string \<times> json) list"

record transaction_result =
  tr_hash :: "json option"
  tr_status :: json
  tr_message :: json

record signing_flow =
  sf_error :: "string option"
  sf_success :: "transaction_result option"

definition first_present :: "json option list \<Rightarrow> json option" where
  "first_present js = (case filter (\<lambda>j. j \<noteq> None \<and> j \<noteq> Some JNull) js of [] \<Rightarrow> last (None # js) | j # _ \<Rightarrow> j)"

definition transaction_of :: "(string \<times> json) list \<Rightarrow> transaction_result" where
  "transaction_of fs =
     (let t = Some (JObj fs); field = (\<lambda>k d. case opt_prop t k of None \<Rightarrow> d | Some j \<Rightarrow> j)
      in \<lparr>tr_hash = (case opt_prop t ''hash'' of
              Some j \<Rightarrow> Some j
            | None \<Rightarrow> first_present [opt_prop (opt_prop t ''result'') ''hash'', opt_prop t ''transactionHash'',
                        opt_prop t ''txHash'', opt_prop t ''id'']),
          tr_status = field ''status'' (JStr ''success''),
          tr_message = field ''message'' (JStr ''Transaction completed successfully'')\<rparr>)"

definition handleSignAndSubmit :: "string \<Rightarrow> string \<Rightarrow> (string \<Rightarrow> string \<Rightarrow> string \<Rightarrow> string + freighter_answer)
    \<Rightarrow> (send_request \<Rightarrow> send_answer) \<Rightarrow> string option \<Rightarrow> string \<Rightarrow> string \<Rightarrow> string \<Rightarrow> signing_flow
    \<Rightarrow> signing_flow \<times> send_request list" where
  "handleSignAndSubmit PUBLIC TESTNET freighter send apiKey network address unsignedXDR f =
     (if address = [] then (f\<lparr>sf_error := Some ''No wallet connected. Please connect your wallet first.''\<rparr>, [])
      else (case signXDR TESTNET freighter address unsignedXDR
                   (Some (if network = ''mainnet'' then PUBLIC else TESTNET)) of
          Inl e \<Rightarrow> (f\<lparr>sf_error := Some e\<rparr>, [])
        | Inr signed \<Rightarrow>
            (let q = \<lparr>sx_authorization = (if truthy apiKey then Some (''Bearer '' @ the apiKey) else None),
                      sx_signedXDR = signed, sx_network = network\<rparr>
             in (case send q of
                   SendThrows e \<Rightarrow> f\<lparr>sf_error := Some e\<rparr>
                 | SendRefused statusText \<Rightarrow> f\<lparr>sf_error := Some (''Transaction failed: '' @ statusText)\<rparr>
                 | SendUnreadable e \<Rightarrow> f\<lparr>sf_error := Some e\<rparr>
                 | SendDone fs \<Rightarrow> f\<lparr>sf_error := None, sf_success := Some (transaction_of fs)\<rparr>, [q]))))"

section \<open>What the hooks show\<close>

text \<open>The account an honest reader of the events expects to be connected, and the one to be shown.\<close>

fun signer_after :: "mm_act \<Rightarrow> string option \<Rightarrow> string option" where
  "signer_after (MmAnswered (Inr (address, _, _))) a = Some address"
| "signer_after MmDisconnect a = None"
| "signer_after (MmAccounts []) a = None"
| "signer_after _ a = a"

fun account_after :: "mm_act \<Rightarrow> string option \<Rightarrow> string option" where
  "account_after (MmAccounts (x # xs)) a = (if a = None then None else Some x)"
| "account_after e a = signer_after e a"

definition signing_account :: "mm_act list \<Rightarrow> string option" where
  "signing_account es = foldl (\<lambda>a e. signer_after e a) None es"

definition shown_account :: "mm_act list \<Rightarrow> string option" where
  "shown_account es = foldl (\<lambda>a e. account_after e a) None es"

definition mm_ok :: "metamask \<Rightarrow> bool" where
  "mm_ok m \<longleftrightarrow> (mm_isConnected m \<longleftrightarrow> mm_address m \<noteq> None) \<and> (mm_isConnected m \<longleftrightarrow> mm_signer m \<noteq> None)
     \<and> (mm_isConnected m \<longleftrightarrow> mm_provider m)"

lemmas mm_defs = mm_connect_def mm_answered_def mm_disconnect_def switchNetwork_def mm_getBalance_def
  mm_accounts_def mm_chain_def no_metamask_def mm_ok_def

lemma no_metamask_simps:
  "mm_address no_metamask = None" "mm_signer no_metamask = None" "mm_ok no_metamask"
  by (simp_all add: mm_defs)

lemma mm_event_ok:
  assumes "mm_ok m"
  shows "mm_ok (mm_event e m) \<and> mm_signer (mm_event e m) = signer_after e (mm_signer m)
    \<and> mm_address (mm_event e m) = account_after e (mm_address m)"
proof (cases e)
  case (MmAnswered a)
  then show ?thesis using assms by (cases a) (auto simp: mm_defs)
next
  case (MmAccounts as)
  then show ?thesis using assms by (cases as) (auto simp: mm_defs)
qed (use assms in \<open>auto simp: mm_defs Let_def split: sum.splits\<close>)

lemma mm_run_ok:
  assumes "mm_ok m"
  shows "mm_ok (mm_run es m) \<and> mm_signer (mm_run es m) = foldl (\<lambda>a e. signer_after e a) (mm_signer m) es
    \<and> mm_address (mm_run es m) = foldl (\<lambda>a e. account_after e a) (mm_address m) es"
  using assms
proof (induction es arbitrary: m)
  case (Cons e es)
  from mm_event_ok [OF Cons.prems] show ?case
    using Cons.IH [of "mm_event e m"] by (simp add: mm_run_def)
qed (simp add: mm_run_def)

text \<open>
  The MetaMask hook shows the extension's account and signs with another. After any sequence of
  connections, answers, disconnections, account and chain changes, network switches and balance readings the
  hook is connected exactly when it has an address, a signer and a provider; the address it shows is the
  one last connected or switched to since the last disconnection, but a message is signed for the one last connected.
\<close>

theorem metamask_signer_exact:
  "let m = mm_run es no_metamask; shown = shown_account es; signer = signing_account es
   in mm_address m = shown \<and> (mm_isConnected m \<longleftrightarrow> shown \<noteq> None) \<and> (mm_isConnected m \<longleftrightarrow> signer \<noteq> None)
      \<and> (mm_provider m \<longleftrightarrow> mm_isConnected m)
      \<and> signMessage None message m = (case signer of None \<Rightarrow> Inl ''Wallet not connected'' | Some a \<Rightarrow> Inr (a, message))"
proof -
  have "mm_ok (mm_run es no_metamask) \<and> mm_signer (mm_run es no_metamask) = signing_account es
      \<and> mm_address (mm_run es no_metamask) = shown_account es"
    using mm_run_ok [OF no_metamask_simps(3), of es]
    by (simp add: signing_account_def shown_account_def no_metamask_simps(1,2))
  then show ?thesis by (cases "mm_isConnected (mm_run es no_metamask)") (auto simp: mm_ok_def signMessage_def Let_def)
qed

lemma signs_with_the_old_account:
  "let m = mm_run [MmConnect True, MmAnswered (Inr (''0xA'', n, bal)), MmAccounts [''0xB'']] no_metamask
   in mm_address m = Some ''0xB'' \<and> mm_balance m = Some bal \<and> signMessage None t m = Inr (''0xA'', t)"
  by (simp add: mm_run_def mm_connect_def mm_answered_def mm_accounts_def signMessage_def)

text \<open>What a dialog event leaves in the store: the wallet, and the token.\<close>

fun wallet_after :: "dialog_act \<Rightarrow> string \<times> string \<Rightarrow> string \<times> string" where
  "wallet_after (DirectAnswered (Inr (address, _, _))) w = (address, ''MetaMask'')"
| "wallet_after (SelectedAnswered (Inr (address, _, _))) w = (address, ''MetaMask'')"
| "wallet_after (StellarSelected name (Inr address)) w = (address, name)"
| "wallet_after (DisconnectWallet _) w = ([], [])"
| "wallet_after _ w = w"

fun disconnects :: "dialog_act \<Rightarrow> bool" where
  "disconnects (DisconnectWallet _) = True"
| "disconnects _ = False"

definition kept :: "browser \<Rightarrow> browser \<Rightarrow> bool" where
  "kept b b' \<longleftrightarrow> br_session b' = br_session b \<and> br_role b' = br_role b \<and> br_legacy b' = br_legacy b
     \<and> br_walletAddress b' = br_walletAddress b \<and> br_walletName b' = br_walletName b \<and> br_cache b' = br_cache b
     \<and> br_ctxAddress b' = br_ctxAddress b \<and> br_ctxName b' = br_ctxName b"

lemmas dialog_defs = direct_answered_def handleStellarWalletSelected_def metamask_selected_answered_def
  dialogs_disconnect_def connectWalletStore_def disconnectWalletStore_def push_def kept_def

lemma dialog_event_store:
  "case dialog_event e (d, b) of (d', b') \<Rightarrow>
     (br_address b', br_name b') = wallet_after e (br_address b, br_name b)
     \<and> br_token b' = (if disconnects e then [] else br_token b) \<and> kept b b'"
proof (cases e)
  case (DirectAnswered a)
  then show ?thesis by (cases a) (auto simp: dialog_defs mm_answered_def)
next
  case (SelectedAnswered a)
  then show ?thesis by (cases a) (auto simp: dialog_defs mm_answered_def)
next
  case (StellarSelected n a)
  then show ?thesis by (cases a) (auto simp: dialog_defs)
next
  case (DisconnectWallet ok)
  then show ?thesis by (auto simp: dialog_defs Let_def)
qed (simp_all add: kept_def)

lemma dialog_run_store:
  "case dialog_run es (d, b) of (d', b') \<Rightarrow>
     (br_address b', br_name b') = foldl (\<lambda>w e. wallet_after e w) (br_address b, br_name b) es
     \<and> br_token b' = (if list_ex disconnects es then [] else br_token b) \<and> kept b b'"
proof (induction es arbitrary: d b)
  case Nil
  then show ?case by (simp add: dialog_run_def kept_def)
next
  case (Cons e es)
  obtain d1 b1 where s: "dialog_event e (d, b) = (d1, b1)" by (rule prod.exhaust)
  from Cons.IH [where d = d1 and b = b1] dialog_event_store [where e = e and d = d and b = b] s show ?case
    by (auto simp: dialog_run_def kept_def)
qed

text \<open>
  The store knows only what a dialog connected. After any sequence of dialog events and of events of the
  MetaMask extension the wallet in the store is the one of the last successful connection since the last
  disconnection, so an account switched or disconnected in the extension stays in the store; disconnecting a
  wallet empties the token as well, whoever was signed in, while cookies, wallet context and persisted cache never change.
\<close>

theorem dialog_store_exact:
  "case dialog_run es (closed_dialogs, b) of (d', b') \<Rightarrow>
     (br_address b', br_name b') = foldl (\<lambda>w e. wallet_after e w) (br_address b, br_name b) es
     \<and> br_token b' = (if list_ex disconnects es then [] else br_token b)
     \<and> served b' path = served b path \<and> kept b b'"
  using dialog_run_store [where es = es and d = closed_dialogs and b = b]
  by (auto simp: served_def page_request_def kept_def split: prod.splits)

text \<open>Choosing WalletConnect closes the dialog and does nothing else; no handler ever connects through it.\<close>

lemma walletconnect_dead_end:
  "handleWalletTypeSelected ''walletconnect'' installed d = d\<lparr>dg_selected := Some ''walletconnect'', dg_main := False\<rparr>"
  by (simp add: handleWalletTypeSelected_def)

text \<open>An account disconnected in the extension is still the store's wallet.\<close>

lemma extension_disconnect_unseen:
  "let (d, b') = dialog_run [TypeSelected ''metamask'' True, DirectAnswered (Inr (a, n, bal)), Extension (MmAccounts [])]
                   (closed_dialogs, b)
   in \<not> mm_isConnected (dg_mm d) \<and> br_address b' = a"
  by (simp add: dialog_run_def handleWalletTypeSelected_def direct_connection_def direct_answered_def
      mm_answered_def mm_connect_def mm_accounts_def mm_disconnect_def no_metamask_def connectWalletStore_def)

text \<open>A second connection forgets the first provider without closing its session, which no later call can close.\<close>

lemma forgotten_session:
  assumes "p \<noteq> q"
  shows "let ask = (\<lambda>r. connectWalletConnect \<lparr>wi_init = Inr r, wi_enable = Inr [a], wi_chainId = Inr ''0x1''\<rparr>);
             (_, m1) = ask p \<lparr>wl_provider = None, wl_open = []\<rparr>; (connection, m2) = ask q m1
         in connection = Inr (Some (a, Some 1, q)) \<and> wl_open (disconnectWalletConnect True m2) = [p]"
  using assms
  by (simp add: connectWalletConnect_def initializeWalletConnect_def disconnectWalletConnect_def Let_def
      parse_hex_def trim_start_def toLowerCase_def lower_char_def is_ws_def startsWith_def hex_digits_def digit_of_def)

text \<open>A failed attempt keeps no provider; a wish to cancel is no error.\<close>

lemma wc_outcome:
  "case connectWalletConnect w m of
     (Inr (Some (address, chain, p)), m') \<Rightarrow> wl_provider m' = Some p \<and> p \<in> set (wl_open m')
   | (Inr None, m') \<Rightarrow> wl_provider m' = None
   | (Inl e, m') \<Rightarrow> wl_provider m' = None \<and> \<not> wc_cancelled e"
  by (auto simp: connectWalletConnect_def initializeWalletConnect_def wc_caught_def Let_def split: sum.splits)

text \<open>An answer that arrives after the wallet was disconnected makes the network match again.\<close>

lemma late_network_matches:
  assumes "net \<noteq> []"
  shows "isNetworkMatch net (network_event kit (NetworkAnswered (Some net)) (network_event kit (ConnectedIs False) n))"
  using assms by (simp add: isNetworkMatch_def)

text \<open>The remembered wallet is one of the known ones, whatever the storage holds, and survives a reload.\<close>

lemma remembered_wallet:
  "list_all (\<lambda>t. t \<in> set KNOWN_WALLETS) (case getPersistedWalletType storage of None \<Rightarrow> [] | Some t \<Rightarrow> [t])"
  "list_all (\<lambda>t. pw_last (persistence_mounted (pw_storage (saveWalletType t (persistence_mounted (Some raw))))) = Some t)
     KNOWN_WALLETS"
  "pw_last (persistence_mounted (pw_storage (clearWalletType p))) = None"
  by (auto simp: getPersistedWalletType_def persistence_mounted_def saveWalletType_def clearWalletType_def
      persistWalletType_def KNOWN_WALLETS_def split: option.splits)

text \<open>While the hook is loading, its flag counts as an available wallet.\<close>

lemma loading_is_available:
  "getAvailableWallets (hook_entries no_detection True) = [''walletconnect'', ''isLoading'']"
  by (simp add: getAvailableWallets_def hook_entries_def detection_entries_def no_detection_def)

text \<open>The wallet types of the detection, the persistence and the configuration are the same.\<close>

lemma wallet_types_agree:
  "map fst WALLET_CONFIGS = KNOWN_WALLETS" "map fst (detection_entries d) = KNOWN_WALLETS"
  "STELLAR_WALLETS @ ETHEREUM_WALLETS = KNOWN_WALLETS"
  "list_all (\<lambda>t. map_option wc_id (getWalletConfig t) = Some t) KNOWN_WALLETS"
  "map wc_id (getWalletsByChain ''stellar'') = STELLAR_WALLETS" "map wc_id (getWalletsByChain ''bsc'') = ETHEREUM_WALLETS"
  by (simp_all add: WALLET_CONFIGS_def KNOWN_WALLETS_def detection_entries_def STELLAR_WALLETS_def ETHEREUM_WALLETS_def
      getWalletConfig_def getWalletsByChain_def)

text \<open>
  Submitting a signed transaction sends at most one request, and only what Freighter returned. Nothing is
  sent without a wallet or when Freighter throws; otherwise exactly one request carries the text Freighter
  gave for the connected address and the chosen network's passphrase. The page shows a success exactly when
  the helper answered with an object, whatever status the object has; every other end shows an error and no success.
\<close>

theorem signing_flow_exact:
  "case handleSignAndSubmit PUBLIC TESTNET freighter send apiKey network address xdr f of (f', sent) \<Rightarrow>
     (case (if address = [] then Inl [] else freighter xdr address (if network = ''mainnet'' \<and> PUBLIC \<noteq> [] then PUBLIC else TESTNET)) of
        Inl _ \<Rightarrow> sent = [] \<and> sf_success f' = sf_success f \<and> sf_error f' \<noteq> None
      | Inr answer \<Rightarrow> (\<exists>q. sent = [q] \<and> sx_signedXDR q = fa_signedTxXdr answer \<and> sx_network q = network
          \<and> (case send q of
               SendDone fs \<Rightarrow> sf_error f' = None \<and> sf_success f' = Some (transaction_of fs)
             | _ \<Rightarrow> sf_error f' \<noteq> None \<and> sf_success f' = sf_success f)))"
proof (cases "address = []")
  case False
  let ?net = "if network = ''mainnet'' \<and> PUBLIC \<noteq> [] then PUBLIC else TESTNET"
  have signed: "signXDR TESTNET freighter address xdr (Some (if network = ''mainnet'' then PUBLIC else TESTNET))
      = map_sum id fa_signedTxXdr (freighter xdr address ?net)"
    using False by (auto simp: signXDR_def split: sum.splits)
  show ?thesis
  proof (cases "freighter xdr address ?net")
    case (Inr answer)
    then show ?thesis using False signed
      by (simp add: handleSignAndSubmit_def Let_def split: send_answer.splits)
  qed (use False signed in \<open>simp add: handleSignAndSubmit_def\<close>)
qed (simp add: handleSignAndSubmit_def)

text \<open>A signature the user declined is sent as an empty transaction; an answer that says it failed is shown as a success.\<close>

lemma declined_is_sent:
  assumes "\<And>x a n. freighter x a n = Inr \<lparr>fa_signedTxXdr = [], fa_error = Some e\<rparr>" and "address \<noteq> []"
  shows "map sx_signedXDR (snd (handleSignAndSubmit PUBLIC TESTNET freighter send k network address xdr f)) = [[]]"
  using assms by (simp add: handleSignAndSubmit_def signXDR_def Let_def)

lemma failed_shown_as_success:
  "tr_status (transaction_of [(''status'', JStr ''FAILED'')]) = JStr ''FAILED''"
  by (simp add: transaction_of_def Let_def opt_prop_def)

end
