(* ===== verification/Dispute_Pages.thy ===== *)
theory Dispute_Pages
  imports Dispute_Routes Client_Dispute Paged_Table
begin

text \<open>
  Disputes in the browser: the history table \<open>components/dispute/DisputeHistoryTable.tsx\<close> with its client
  \<open>lib/dispute-history-api.ts\<close> and the metrics client \<open>lib/dispute-metrics-api.ts\<close>, the form
  \<open>RaiseDisputeModal.tsx\<close> and the buttons of \<open>DisputeArbitrationCard.tsx\<close>, against the backend's routes and its
  state machine. An effect that is superseded aborts its request, so only the last one is ever answered. The
  ellipsis of a shortened id is a parameter; messages are their translation keys; markup is left out.
\<close>

section \<open>Numbers in a query\<close>

lemma digit_char_val:
  assumes "d < 10"
  shows "is_digit (digit_char d)" "digit_val (digit_char d) = d"
  using assms by (simp_all add: is_digit_def digit_val_def digit_char_def)

lemma show_nat_digits: "list_all is_digit (show_nat n)"
proof (induction n rule: show_nat.induct)
  case (1 n)
  then show ?case by (subst show_nat.simps) (simp add: digit_char_val)
qed

lemma digits_val_append: "digits_val acc (xs @ [c]) = 10 * digits_val acc xs + digit_val c"
  by (induction xs arbitrary: acc) simp_all

lemma digits_val_show: "digits_val 0 (show_nat n) = n"
proof (induction n rule: show_nat.induct)
  case (1 n)
  then show ?case
    by (subst show_nat.simps) (simp add: digits_val_append digit_char_val)
qed

lemma show_nat_Cons: "\<exists>c cs. show_nat n = c # cs"
  by (cases "show_nat n") (auto simp: show_nat.simps [of n] split: if_splits)

lemma trim_digits:
  assumes "list_all is_digit s"
  shows "trim s = s"
proof -
  have "is_digit c \<Longrightarrow> \<not> is_ws c" for c by (auto simp: is_digit_def is_ws_def Let_def)
  then have "s \<noteq> [] \<Longrightarrow> \<not> is_ws (hd s) \<and> \<not> is_ws (last s)" using assms by (simp add: list_all_iff)
  then show ?thesis
    by (cases "s = []") (simp_all add: trim_def trim_start_eq_self hd_rev)
qed

lemma digit_chars: "is_digit c \<Longrightarrow> c \<in> set ''0123456789''"
proof -
  assume d: "is_digit c"
  define n :: nat where "n = of_char c"
  have "c = char_of n" by (simp add: n_def)
  moreover have "n = 48 \<or> n = 49 \<or> n = 50 \<or> n = 51 \<or> n = 52 \<or> n = 53 \<or> n = 54 \<or> n = 55 \<or> n = 56 \<or> n = 57"
    using d unfolding is_digit_def n_def Let_def by presburger
  ultimately show ?thesis by (elim disjE) (simp_all add: char_of_def bit_iff_odd)
qed

text \<open>The text of a natural number reads back as that number, to the precision of a double.\<close>

lemma js_Number_show: "js_Number (show_nat n) = to_double (of_nat n)"
proof -
  obtain c cs where s: "show_nat n = c # cs" using show_nat_Cons by blast
  have d: "list_all is_digit (c # cs)" using show_nat_digits [of n] s by simp
  then have c: "c \<noteq> CHR ''-''" "c \<noteq> CHR ''+''" "c \<noteq> CHR ''I''" by (auto simp: is_digit_def)
  have "span_digits (show_nat n) = (show_nat n, [])"
    using show_nat_digits [of n] by (simp add: span_digits_def list_all_iff)
  then have "parse_decimal (show_nat n) = Some (of_nat n)"
    using s digits_val_show [of n] by (simp add: parse_decimal_def parse_exp_def pow10_def)
  then have "unsigned_number (c # cs) = to_double (of_nat n)"
    using s c by (simp add: unsigned_number_def)
  moreover have "c \<in> set ''0123456789''" using d digit_chars by simp
  ultimately show ?thesis using s trim_digits [OF d] radix_literal_digits [OF d] by (auto simp: js_Number_def)
qed

section \<open>Reading a page of the history\<close>

definition DISPUTE_PAGE_SIZE_OPTIONS :: "nat list" where
  "DISPUTE_PAGE_SIZE_OPTIONS = [10, 25, 50]"

record dispute_request =
  dq_token :: "string option"
  dq_limit :: string
  dq_offset :: string

datatype history_answer = RequestThrows "string option" | BadStatus nat | HistoryBody dispute_page

text \<open>\<open>fetchDisputeHistory\<close>; the failure of a request has a message when it is an \<open>Error\<close>.\<close>

definition history_request :: "string option \<Rightarrow> nat \<Rightarrow> nat \<Rightarrow> dispute_request" where
  "history_request token limit offset = \<lparr>dq_token = (if truthy token then Some (''Bearer '' @ the token) else None),
     dq_limit = show_nat limit, dq_offset = show_nat offset\<rparr>"

definition fetchDisputeHistory ::
    "(dispute_request \<Rightarrow> history_answer) \<Rightarrow> string option \<Rightarrow> nat \<Rightarrow> nat \<Rightarrow> string option + dispute_page" where
  "fetchDisputeHistory net token limit offset = (case net (history_request token limit offset) of
       RequestThrows e \<Rightarrow> Inl e
     | BadStatus st \<Rightarrow> Inl (Some (''Dispute history request failed ('' @ show_nat st @ '')''))
     | HistoryBody p \<Rightarrow> Inr p)"

section \<open>The history table\<close>

text \<open>\<open>hv_request\<close> is the page size and the offset of the request under way.\<close>

record history_view =
  hv_page :: nat
  hv_pageSize :: nat
  hv_data :: "dispute_page option"
  hv_isLoading :: bool
  hv_error :: "string option"
  hv_request :: "(nat \<times> nat) option"

definition load_page :: "history_view \<Rightarrow> history_view" where
  "load_page v = v\<lparr>hv_isLoading := True, hv_error := None,
     hv_request := Some (hv_pageSize v, (hv_page v - 1) * hv_pageSize v)\<rparr>"

definition history_mounted :: history_view where
  "history_mounted = load_page \<lparr>hv_page = 1, hv_pageSize = 10, hv_data = None, hv_isLoading = True,
     hv_error = None, hv_request = None\<rparr>"

definition setPage :: "nat \<Rightarrow> history_view \<Rightarrow> history_view" where
  "setPage p v = (if p = hv_page v then v else load_page (v\<lparr>hv_page := p\<rparr>))"

text \<open>An empty page of a history that has rows steps back to the last page; \<open>known_pages\<close> is the \<open>totalPages\<close> of the page.\<close>

definition history_answered :: "string option + dispute_page \<Rightarrow> history_view \<Rightarrow> history_view" where
  "history_answered answer v =
     (let w = v\<lparr>hv_isLoading := False, hv_request := None\<rparr>
      in case answer of
           Inl e \<Rightarrow> w\<lparr>hv_error := Some (case e of None \<Rightarrow> ''Failed to load disputes'' | Some m \<Rightarrow> m)\<rparr>
         | Inr result \<Rightarrow>
             if dg_disputes result = [] \<and> dg_total result > 0 \<and> hv_page v > 1
             then setPage (totalPages (dg_total result) (hv_pageSize v)) w
             else w\<lparr>hv_data := Some result\<rparr>)"

definition totalItems :: "history_view \<Rightarrow> nat" where
  "totalItems v = (case hv_data v of None \<Rightarrow> 0 | Some d \<Rightarrow> dg_total d)"

definition known_pages :: "history_view \<Rightarrow> nat" where
  "known_pages v = totalPages (totalItems v) (hv_pageSize v)"

definition history_rows :: "history_view \<Rightarrow> dispute list" where
  "history_rows v = (case hv_data v of None \<Rightarrow> [] | Some d \<Rightarrow> dg_disputes d)"

definition hasMore :: "history_view \<Rightarrow> bool" where
  "hasMore v = (case hv_data v of None \<Rightarrow> False | Some d \<Rightarrow> dg_hasMore d)"

datatype history_act = PrevPage | NextPage | PageSize nat | RetryLoad | Arrived "dispute_request \<Rightarrow> history_answer"

fun history_event :: "string option \<Rightarrow> history_act \<Rightarrow> history_view \<Rightarrow> history_view" where
  "history_event token PrevPage v =
     (if hv_isLoading v \<or> hv_page v \<le> 1 then v else setPage (max 1 (hv_page v - 1)) v)"
| "history_event token NextPage v =
     (if hv_isLoading v \<or> \<not> hasMore v then v else setPage (min (known_pages v) (hv_page v + 1)) v)"
| "history_event token (PageSize n) v =
     (if n \<notin> set DISPUTE_PAGE_SIZE_OPTIONS \<or> (n = hv_pageSize v \<and> hv_page v = 1) then v
      else load_page (v\<lparr>hv_pageSize := n, hv_page := 1\<rparr>))"
| "history_event token RetryLoad v = (if hv_isLoading v \<or> hv_error v = None then v else load_page v)"
| "history_event token (Arrived net) v = (case hv_request v of
       None \<Rightarrow> v
     | Some (limit, offset) \<Rightarrow> history_answered (fetchDisputeHistory net token limit offset) v)"

definition history_run :: "string option \<Rightarrow> history_act list \<Rightarrow> history_view \<Rightarrow> history_view" where
  "history_run token es v = foldl (\<lambda>v e. history_event token e v) v es"

definition shortId :: "string \<Rightarrow> string \<Rightarrow> string" where
  "shortId ellipsis i = (if length i > 12 then take 6 i @ ellipsis @ drop (length i - 4) i else i)"

definition state_label :: "dispute_state \<Rightarrow> string" where
  "state_label s = take 1 (state_name s) @ toLowerCase (drop 1 (state_name s))"

section \<open>The metrics\<close>

text \<open>\<open>fetchDisputeMetrics\<close>: the bounds of the request, and the answer.\<close>

datatype metrics_answer = MetricsThrows "string option" | MetricsStatus nat | MetricsBody dispute_metrics

definition metrics_request :: "string option \<Rightarrow> (int \<times> int) option
    \<Rightarrow> string option \<times> (string \<times> string) list" where
  "metrics_request token period =
     (if truthy token then Some (''Bearer '' @ the token) else None,
      case period of None \<Rightarrow> [] | Some (a, b) \<Rightarrow> [(''from'', toISOString a), (''to'', toISOString b)])"

definition fetchDisputeMetrics :: "(string option \<times> (string \<times> string) list \<Rightarrow> metrics_answer)
    \<Rightarrow> string option \<Rightarrow> (int \<times> int) option \<Rightarrow> string option + dispute_metrics" where
  "fetchDisputeMetrics net token period = (case net (metrics_request token period) of
       MetricsThrows e \<Rightarrow> Inl e
     | MetricsStatus st \<Rightarrow> Inl (Some (''Dispute metrics request failed ('' @ show_nat st @ '')''))
     | MetricsBody m \<Rightarrow> Inr m)"

section \<open>Raising a dispute\<close>

record dispute_report =
  rp_contractId :: string
  rp_reason :: string
  rp_description :: string
  rp_evidenceUrl :: string

datatype dispute_toast = DisputeError string | DisputeSuccess string

definition DISPUTE_REASONS :: "string list" where
  "DISPUTE_REASONS = [''ticket_not_delivered'', ''invalid_ticket'', ''wrong_category'', ''event_cancelled'',
     ''seller_unresponsive'', ''buyer_non_compliance'', ''other_breach'']"

text \<open>
  The properties of the modal. The callback of the page, if it passes one, may throw (\<open>False\<close>) depending on
  what it was told before; \<open>valid_url\<close> is the browser's check of a field of type \<open>url\<close>.
\<close>

record modal_props =
  mp_contractId :: string
  mp_userWallet :: string
  mp_onDisputeRaised :: "(dispute_report list \<Rightarrow> dispute_report \<Rightarrow> bool) option"
  mp_valid_url :: "string \<Rightarrow> bool"

text \<open>
  The state of the modal, the report the running handler has captured, the success timers that have yet to
  fire, and what was done so far: the transactions asked of the SDK (contract and signer), the reports the
  callback got, the warnings of the console and the toasts.
\<close>

record dispute_modal =
  rf_open :: bool
  rf_reason :: string
  rf_description :: string
  rf_evidenceUrl :: string
  rf_isSubmitting :: bool
  rf_isSuccess :: bool
  rf_running :: "dispute_report option"
  rf_timers :: nat
  rf_prepared :: "(string \<times> string) list"
  rf_reports :: "dispute_report list"
  rf_warnings :: "string list"
  rf_toasts :: "dispute_toast list"

definition modal_mounted :: dispute_modal where
  "modal_mounted = \<lparr>rf_open = False, rf_reason = [], rf_description = [], rf_evidenceUrl = [],
     rf_isSubmitting = False, rf_isSuccess = False, rf_running = None, rf_timers = 0, rf_prepared = [],
     rf_reports = [], rf_warnings = [], rf_toasts = []\<rparr>"

text \<open>The handler from the answer of the SDK on, and the handler up to its first \<open>await\<close>.\<close>

definition after_startDispute :: "modal_props \<Rightarrow> dispute_modal \<Rightarrow> dispute_modal" where
  "after_startDispute p s = (case rf_running s of
       None \<Rightarrow> s
     | Some report \<Rightarrow>
         (let (told, returns) = (case mp_onDisputeRaised p of
                  None \<Rightarrow> (rf_reports s, True)
                | Some f \<Rightarrow> (rf_reports s @ [report], f (rf_reports s) report));
              s' = (if returns
                    then s\<lparr>rf_toasts := rf_toasts s @ [DisputeSuccess ''disputes.success''], rf_isSuccess := True,
                           rf_timers := rf_timers s + 1\<rparr>
                    else s\<lparr>rf_toasts := rf_toasts s @ [DisputeError ''disputes.failure'']\<rparr>)
          in s'\<lparr>rf_reports := told, rf_isSubmitting := False, rf_running := None\<rparr>))"

definition handleRaiseDispute :: "modal_props \<Rightarrow> dispute_modal \<Rightarrow> dispute_modal" where
  "handleRaiseDispute p s =
     (if rf_reason s = [] \<or> trim (rf_description s) = []
      then s\<lparr>rf_toasts := rf_toasts s @ [DisputeError ''disputes.validation'']\<rparr>
      else (let s' = s\<lparr>rf_isSubmitting := True, rf_running := Some
                  \<lparr>rp_contractId = mp_contractId p, rp_reason = rf_reason s, rp_description = rf_description s,
                   rp_evidenceUrl = rf_evidenceUrl s\<rparr>\<rparr>
            in if mp_contractId p \<noteq> [] \<and> mp_userWallet p \<noteq> []
               then s'\<lparr>rf_prepared := rf_prepared s @ [(mp_contractId p, mp_userWallet p)]\<rparr>
               else after_startDispute p s'))"

text \<open>The form is on the screen while the dialog is open and shows no success; its button may be disabled.\<close>

definition form_shown :: "dispute_modal \<Rightarrow> bool" where
  "form_shown s \<longleftrightarrow> rf_open s \<and> \<not> rf_isSuccess s"

definition raise_disabled :: "dispute_modal \<Rightarrow> bool" where
  "raise_disabled s \<longleftrightarrow> rf_isSubmitting s \<or> rf_reason s = [] \<or> trim (rf_description s) = []"

datatype modal_act = SetOpen bool | SelectReason string | TypeDescription string | TypeEvidence string
  | CancelRaise | SubmitRaise | SdkAnswers "string option" | TimerFires

text \<open>\<open>SdkAnswers (Some e)\<close>: \<open>startDispute\<close> threw, which is only warned about.\<close>

fun modal_event :: "modal_props \<Rightarrow> modal_act \<Rightarrow> dispute_modal \<Rightarrow> dispute_modal" where
  "modal_event p (SetOpen b) s = s\<lparr>rf_open := b\<rparr>"
| "modal_event p (SelectReason r) s = (if form_shown s \<and> r \<in> set DISPUTE_REASONS then s\<lparr>rf_reason := r\<rparr> else s)"
| "modal_event p (TypeDescription t) s = (if form_shown s then s\<lparr>rf_description := t\<rparr> else s)"
| "modal_event p (TypeEvidence t) s = (if form_shown s then s\<lparr>rf_evidenceUrl := t\<rparr> else s)"
| "modal_event p CancelRaise s = (if form_shown s \<and> \<not> rf_isSubmitting s then s\<lparr>rf_open := False\<rparr> else s)"
| "modal_event p SubmitRaise s =
     (if form_shown s \<and> \<not> raise_disabled s \<and> (rf_evidenceUrl s = [] \<or> mp_valid_url p (rf_evidenceUrl s))
      then handleRaiseDispute p s else s)"
| "modal_event p (SdkAnswers e) s =
     (if rf_running s = None then s
      else after_startDispute p (case e of None \<Rightarrow> s | Some m \<Rightarrow> s\<lparr>rf_warnings := rf_warnings s @ [m]\<rparr>))"
| "modal_event p TimerFires s =
     (if rf_timers s = 0 then s else s\<lparr>rf_timers := rf_timers s - 1, rf_isSuccess := False, rf_open := False\<rparr>)"

definition modal_run :: "modal_props \<Rightarrow> modal_act list \<Rightarrow> dispute_modal \<Rightarrow> dispute_modal" where
  "modal_run p es s = foldl (\<lambda>s e. modal_event p e s) s es"

section \<open>The arbitration card\<close>

datatype card_status = CardOpen | CardEscalated | CardUnderReview | CardResolved | CardWithdrawn

definition isTerminal :: "card_status \<Rightarrow> bool" where
  "isTerminal s \<longleftrightarrow> s = CardResolved \<or> s = CardWithdrawn"

definition canEscalate :: "card_status \<Rightarrow> bool" where
  "canEscalate s \<longleftrightarrow> s = CardOpen"

definition canResolve :: "card_status \<Rightarrow> bool" where
  "canResolve s \<longleftrightarrow> s = CardOpen \<or> s = CardEscalated \<or> s = CardUnderReview"

definition canWithdraw :: "card_status \<Rightarrow> bool" where
  "canWithdraw s \<longleftrightarrow> s = CardOpen \<or> s = CardEscalated \<or> s = CardUnderReview"

text \<open>The actions a card offers: shown, with a handler, and nothing pending.\<close>

definition card_offers :: "card_status \<Rightarrow> (dispute_event \<Rightarrow> bool) \<Rightarrow> dispute_event option \<Rightarrow> dispute_event \<Rightarrow> bool" where
  "card_offers s handler pending a \<longleftrightarrow> \<not> isTerminal s \<and> handler a \<and> pending = None
     \<and> (case a of Escalate \<Rightarrow> canEscalate s | Resolve \<Rightarrow> canResolve s | Withdraw \<Rightarrow> canWithdraw s)"

text \<open>\<open>runAction\<close> from its start to the handler's end; a handler that throws leaves nothing pending either.\<close>

definition runAction :: "bool \<Rightarrow> dispute_event \<Rightarrow> dispute_event option \<Rightarrow> dispute_event option" where
  "runAction handled a pending = (if handled then Some a else pending)"

definition action_over :: "dispute_event option \<Rightarrow> dispute_event option" where
  "action_over pending = None"

definition statusLabel :: "card_status \<Rightarrow> string" where
  "statusLabel s = (if s = CardResolved then ''disputes.resolved''
     else if s = CardWithdrawn then ''disputes.withdrawn''
     else if s = CardEscalated then ''disputes.escalated''
     else if s = CardOpen then ''disputes.open'' else ''disputes.inProgress'')"

section \<open>The table over the backend\<close>

text \<open>What the backend's \<open>mine\<close> route answers a signed-in user, as the client reads it.\<close>

definition backend_history :: "(iso \<Rightarrow> iso \<Rightarrow> int) \<Rightarrow> token option \<Rightarrow> dispute_api \<Rightarrow> dispute_request \<Rightarrow> history_answer" where
  "backend_history collate user s q = (case mine_route collate user (Some (dq_limit q)) (Some (dq_offset q)) s of
       Reply st (DispHistory p) \<Rightarrow> HistoryBody p
     | Reply st _ \<Rightarrow> BadStatus (nat st))"

definition readable_number :: "nat \<Rightarrow> bool" where
  "readable_number n \<longleftrightarrow> of_nat n \<le> (10 :: rat) ^ 300"

lemma to_double_nat: "readable_number n \<Longrightarrow> to_double (of_nat n) = Fin (of_nat n)"
proof (cases "n = 0")
  case True
  then show ?thesis by (simp add: to_double_def)
next
  case False
  assume "readable_number n"
  moreover have "1 / 10 ^ 300 \<le> (1 :: rat)" by simp
  moreover have "(1 :: rat) \<le> of_nat n" using False by simp
  ultimately show ?thesis
    by (intro to_double_normal) (simp_all only: readable_number_def abs_of_nat)
qed

lemma options_readable: "l \<in> set DISPUTE_PAGE_SIZE_OPTIONS \<Longrightarrow> readable_number l \<and> 1 \<le> l \<and> l \<le> MAX_DISPUTE_PAGE_SIZE"
  by (auto simp: DISPUTE_PAGE_SIZE_OPTIONS_def readable_number_def MAX_DISPUTE_PAGE_SIZE_def)

lemma query_shown:
  assumes "readable_number n" and "valid (of_nat n)"
  shows "query_int valid (Some (show_nat n)) = Some (Some (Fin (of_nat n)))"
  using assms by (simp add: query_int_def js_Number_show to_double_nat)

lemma fetch_from_backend:
  assumes "tk_uid u \<noteq> []" and "l \<in> set DISPUTE_PAGE_SIZE_OPTIONS" and "readable_number off"
  shows "fetchDisputeHistory (backend_history collate (Some u) s) token l off
    = Inr \<lparr>dg_disputes = page (user_history collate (tk_uid u) (da_service s)) off l,
           dg_total = length (user_history collate (tk_uid u) (da_service s)),
           dg_limit = l, dg_offset = off,
           dg_hasMore = off + length (page (user_history collate (tk_uid u) (da_service s)) off l)
                        < length (user_history collate (tk_uid u) (da_service s))\<rparr>"
proof -
  have l: "readable_number l" "1 \<le> l" "l \<le> MAX_DISPUTE_PAGE_SIZE" using options_readable [OF assms(2)] by auto
  have "query_int (\<lambda>r. 0 < r \<and> r \<le> of_nat MAX_DISPUTE_PAGE_SIZE) (Some (show_nat l)) = Some (Some (Fin (of_nat l)))"
    using l by (intro query_shown) simp_all
  moreover have "query_int (\<lambda>r. 0 \<le> r) (Some (show_nat off)) = Some (Some (Fin (of_nat off)))"
    using assms(3) by (intro query_shown) simp_all
  ultimately show ?thesis
    using assms(1) l by (simp add: fetchDisputeHistory_def backend_history_def history_request_def mine_route_def
        listDisputesByUserPaginated_def dispute_limit_of_nat dispute_offset_of_nat Let_def)
qed

text \<open>What every state of the table satisfies.\<close>

definition view_ok :: "history_view \<Rightarrow> bool" where
  "view_ok v \<longleftrightarrow> 1 \<le> hv_page v \<and> hv_pageSize v \<in> set DISPUTE_PAGE_SIZE_OPTIONS
     \<and> (hv_isLoading v \<longleftrightarrow> hv_request v \<noteq> None)
     \<and> (case hv_request v of None \<Rightarrow> True
        | Some q \<Rightarrow> q = (hv_pageSize v, (hv_page v - 1) * hv_pageSize v) \<and> hv_error v = None)"

lemma load_page_ok: "1 \<le> hv_page v \<Longrightarrow> hv_pageSize v \<in> set DISPUTE_PAGE_SIZE_OPTIONS \<Longrightarrow> view_ok (load_page v)"
  by (simp add: view_ok_def load_page_def)

lemma setPage_ok: "view_ok v \<Longrightarrow> 1 \<le> p \<Longrightarrow> view_ok (setPage p v)"
  by (auto simp: setPage_def view_ok_def load_page_def)

lemma answered_ok: "view_ok v \<Longrightarrow> view_ok (history_answered a v)"
  using totalPages_pos [of _ "hv_pageSize v"]
  by (cases a) (auto simp: history_answered_def Let_def setPage_def view_ok_def load_page_def)

lemma history_event_ok: "view_ok v \<Longrightarrow> view_ok (history_event token e v)"
proof (induction token e v rule: history_event.induct)
  case (2 token v)
  then show ?case using totalPages_pos [of _ "hv_pageSize v"] by (auto simp: known_pages_def intro!: setPage_ok)
qed (auto intro!: setPage_ok load_page_ok answered_ok split: option.splits, auto simp: view_ok_def)

lemma history_run_ok: "view_ok v \<Longrightarrow> view_ok (history_run token es v)"
  by (induction es arbitrary: v) (simp_all add: history_run_def history_event_ok)

lemma mounted_ok: "view_ok history_mounted"
  by (simp add: history_mounted_def load_page_ok DISPUTE_PAGE_SIZE_OPTIONS_def)

text \<open>Two answers of an unchanged history settle the table, from any state in which it is loading.\<close>

definition settled_at :: "nat \<Rightarrow> dispute list \<Rightarrow> history_view \<Rightarrow> history_view \<Rightarrow> bool" where
  "settled_at pg mine v w \<longleftrightarrow> \<not> hv_isLoading w \<and> hv_error w = None \<and> hv_pageSize w = hv_pageSize v
     \<and> hv_page w = pg \<and> history_rows w = page mine ((pg - 1) * hv_pageSize v) (hv_pageSize v)
     \<and> totalItems w = length mine"

abbreviation arrive :: "(iso \<Rightarrow> iso \<Rightarrow> int) \<Rightarrow> token \<Rightarrow> string option \<Rightarrow> dispute_api \<Rightarrow> history_view \<Rightarrow> history_view" where
  "arrive collate u token s \<equiv> history_event token (Arrived (backend_history collate (Some u) s))"

lemma arrive_once:
  assumes "view_ok v" and "hv_isLoading v" and "tk_uid u \<noteq> []" and "readable_number ((hv_page v - 1) * hv_pageSize v)"
    and mine: "mine = user_history collate (tk_uid u) (da_service s)"
  shows "if page mine ((hv_page v - 1) * hv_pageSize v) (hv_pageSize v) = [] \<and> mine \<noteq> [] \<and> hv_page v > 1
         then arrive collate u token s v = setPage (totalPages (length mine) (hv_pageSize v)) (v\<lparr>hv_isLoading := False, hv_request := None\<rparr>)
         else settled_at (hv_page v) mine v (arrive collate u token s v)"
proof -
  have q: "hv_request v = Some (hv_pageSize v, (hv_page v - 1) * hv_pageSize v)" "hv_error v = None"
    and l: "hv_pageSize v \<in> set DISPUTE_PAGE_SIZE_OPTIONS"
    using assms(1,2) by (auto simp: view_ok_def split: option.splits)
  show ?thesis
    using q fetch_from_backend [OF assms(3) l assms(4), of collate s token]
    by (simp add: mine history_answered_def Let_def settled_at_def history_rows_def totalItems_def)
qed

lemma settled_idle: "view_ok w \<Longrightarrow> settled_at p mine v w \<Longrightarrow> arrive collate u token s w = w"
  by (cases "hv_request w") (simp_all add: settled_at_def view_ok_def)

lemma page_in: "1 \<le> p \<Longrightarrow> 1 \<le> sz \<Longrightarrow> xs \<noteq> [] \<Longrightarrow> p \<le> totalPages (length xs) sz \<Longrightarrow> page xs ((p - 1) * sz) sz \<noteq> []"
  using page_nonempty [of sz p xs] page_rows_in [of p xs sz] by (simp add: page_def)

lemma page_out:
  assumes "1 \<le> sz" and "totalPages (length xs) sz < p"
  shows "page xs ((p - 1) * sz) sz = []"
proof -
  have "length xs \<le> totalPages (length xs) sz * sz" using totalPages_covers [OF assms(1)] .
  also have "\<dots> \<le> (p - 1) * sz" using assms(2) by (intro mult_right_mono) simp_all
  finally show ?thesis by (simp add: page_def)
qed

lemma arrive_twice:
  assumes v: "view_ok v" "hv_isLoading v" and u: "tk_uid u \<noteq> []"
    and r: "readable_number ((hv_page v - 1) * hv_pageSize v)"
    and mine: "mine = user_history collate (tk_uid u) (da_service s)"
  shows "settled_at (if mine = [] then hv_page v else safePage (hv_page v) (totalPages (length mine) (hv_pageSize v))) mine v
    (arrive collate u token s (arrive collate u token s v))"
proof -
  let ?n = "totalPages (length mine) (hv_pageSize v)" and ?w = "arrive collate u token s v"
  have sz: "1 \<le> hv_pageSize v" and p1: "1 \<le> hv_page v"
    using v(1) options_readable by (auto simp: view_ok_def)
  have same: "settled_at p mine v ?w \<Longrightarrow> arrive collate u token s ?w = ?w" for p
    using settled_idle [OF history_event_ok [OF v(1)]] by blast
  show ?thesis
  proof (cases "mine \<noteq> [] \<and> ?n < hv_page v")
    case False
    then have "\<not> (page mine ((hv_page v - 1) * hv_pageSize v) (hv_pageSize v) = [] \<and> mine \<noteq> [] \<and> hv_page v > 1)"
      using page_in [OF p1 sz, of mine] by auto
    then have "settled_at (hv_page v) mine v ?w" using arrive_once [OF v u r mine, of token] by (auto split: if_splits)
    then show ?thesis using same False by (auto simp: safePage_def min_def)
  next
    case True
    let ?x = "load_page (v\<lparr>hv_page := ?n\<rparr>)"
    have "?w = setPage ?n (v\<lparr>hv_isLoading := False, hv_request := None\<rparr>)"
      using arrive_once [OF v u r mine, of token] page_out [OF sz, of mine "hv_page v"] True totalPages_pos [of "length mine" "hv_pageSize v"]
      by simp
    then have w: "?w = ?x" using True by (simp add: setPage_def load_page_def)
    have x: "view_ok ?x" "hv_isLoading ?x" "hv_page ?x = ?n" "hv_pageSize ?x = hv_pageSize v"
      using v(1) totalPages_pos [of "length mine" "hv_pageSize v"] by (auto simp: view_ok_def load_page_def)
    have "(?n - 1) * hv_pageSize v \<le> (hv_page v - 1) * hv_pageSize v" using True by (intro mult_right_mono diff_le_mono) simp_all
    then have "(of_nat ((?n - 1) * hv_pageSize v) :: rat) \<le> of_nat ((hv_page v - 1) * hv_pageSize v)"
      by (simp only: of_nat_le_iff)
    then have rx: "readable_number ((hv_page ?x - 1) * hv_pageSize ?x)"
      using r unfolding readable_number_def x(3,4) by (rule order_trans)
    have "settled_at ?n mine ?x (arrive collate u token s ?x)"
      using arrive_once [OF x(1,2) u rx mine, of token] page_in [of ?n "hv_pageSize v" mine] sz x True
        totalPages_pos [of "length mine" "hv_pageSize v"] by (auto split: if_splits)
    then show ?thesis using w True x(4) by (simp add: settled_at_def safePage_def min_def)
  qed
qed

lemma settled_shows:
  assumes "settled_at (if mine = [] then hv_page v else safePage (hv_page v) (totalPages (length mine) (hv_pageSize v))) mine v w"
    and sz: "1 \<le> hv_pageSize v" and p1: "1 \<le> hv_page v"
  shows "\<not> hv_isLoading w \<and> hv_error w = None \<and> totalItems w = length mine
    \<and> hv_page w = (if mine = [] then hv_page v else safePage (hv_page v) (totalPages (length mine) (hv_pageSize v)))
    \<and> history_rows w = page_rows mine (hv_pageSize v) (hv_page w)
    \<and> (history_rows w = [] \<longleftrightarrow> mine = [])
    \<and> concat (map (page_rows mine (hv_pageSize v)) [1..<Suc (totalPages (length mine) (hv_pageSize v))]) = mine"
proof -
  have p: "1 \<le> hv_page w" using assms totalPages_pos [of "length mine" "hv_pageSize v"]
    by (auto simp: settled_at_def safePage_def)
  have r: "history_rows w = page_rows mine (hv_pageSize v) (hv_page w)"
    using assms(1) by (cases "mine = []") (simp_all add: settled_at_def page_rows_def page_def safePage_def)
  moreover have "page_rows mine (hv_pageSize v) (hv_page w) = [] \<longleftrightarrow> mine = []"
    using page_nonempty [OF sz p, of mine] by (cases "mine = []") (simp_all add: page_rows_def page_def)
  ultimately show ?thesis using assms(1) pages_concat [OF sz, of mine] by (simp add: settled_at_def)
qed

text \<open>
  C24: The history table shows the backend's history. Whatever was clicked and whatever answers came before, if
  the table is loading and the user is signed in, then after at most two answers of the backend it shows,
  without an error, exactly the rows of its page, the page being moved back to the last one when the history
  has become shorter; a history that has rows is never shown as empty; and going through its pages shows it whole.
\<close>

theorem history_table_exact:
  "let v = history_run token es history_mounted;
       mine = user_history collate (tk_uid u) (da_service s);
       w = arrive collate u token s (arrive collate u token s v);
       sz = hv_pageSize v
   in if hv_isLoading v \<and> tk_uid u \<noteq> [] \<and> readable_number ((hv_page v - 1) * sz)
      then \<not> hv_isLoading w \<and> hv_error w = None \<and> totalItems w = length mine
         \<and> hv_page w = (if mine = [] then hv_page v else safePage (hv_page v) (totalPages (length mine) sz))
         \<and> history_rows w = page_rows mine sz (hv_page w)
         \<and> (history_rows w = [] \<longleftrightarrow> mine = [])
         \<and> concat (map (page_rows mine sz) [1..<Suc (totalPages (length mine) sz)]) = mine
      else True"
proof -
  have ok: "view_ok (history_run token es history_mounted)" using mounted_ok by (rule history_run_ok)
  then have "1 \<le> hv_pageSize (history_run token es history_mounted)" "1 \<le> hv_page (history_run token es history_mounted)"
    using options_readable by (auto simp: view_ok_def)
  note settled = settled_shows [OF arrive_twice [OF ok _ _ _ refl] this]
  show ?thesis unfolding Let_def by (rule if_thenI, elim conjE, rule settled)
qed

section \<open>What raising and acting on a dispute achieves\<close>

text \<open>How many of the submissions that came to an end were shown as raised, and how many as failed.\<close>

definition shown_raised :: "dispute_modal \<Rightarrow> nat" where
  "shown_raised s = length (filter (\<lambda>t. t = DisputeSuccess ''disputes.success'') (rf_toasts s))"

definition shown_failed :: "dispute_modal \<Rightarrow> nat" where
  "shown_failed s = length (filter (\<lambda>t. t = DisputeError ''disputes.failure'') (rf_toasts s))"

definition report_ok :: "modal_props \<Rightarrow> dispute_report \<Rightarrow> bool" where
  "report_ok p r \<longleftrightarrow> rp_contractId r = mp_contractId p \<and> rp_reason r \<in> set DISPUTE_REASONS
     \<and> trim (rp_description r) \<noteq> [] \<and> (rp_evidenceUrl r = [] \<or> mp_valid_url p (rp_evidenceUrl r))"

definition ended :: "dispute_modal \<Rightarrow> nat" where
  "ended s = shown_raised s + shown_failed s"

definition modal_ok :: "modal_props \<Rightarrow> dispute_modal \<Rightarrow> bool" where
  "modal_ok p s \<longleftrightarrow> (rf_isSubmitting s \<longleftrightarrow> rf_running s \<noteq> None)
     \<and> rf_timers s = (if rf_isSuccess s then 1 else 0) \<and> \<not> (rf_isSubmitting s \<and> rf_isSuccess s)
     \<and> (rf_reason s = [] \<or> rf_reason s \<in> set DISPUTE_REASONS)
     \<and> list_all (report_ok p) (rf_reports s) \<and> pred_option (report_ok p) (rf_running s)
     \<and> length (rf_toasts s) = ended s
     \<and> rf_prepared s = (if mp_contractId p \<noteq> [] \<and> mp_userWallet p \<noteq> []
         then replicate (ended s + (if rf_isSubmitting s then 1 else 0)) (mp_contractId p, mp_userWallet p) else [])
     \<and> (mp_contractId p \<noteq> [] \<and> mp_userWallet p \<noteq> [] \<or> \<not> rf_isSubmitting s)
     \<and> (case mp_onDisputeRaised p of None \<Rightarrow> rf_reports s = [] \<and> shown_failed s = 0
        | Some f \<Rightarrow> length (rf_reports s) = ended s)"

lemmas modal_counts = shown_raised_def shown_failed_def ended_def


lemma modal_frame [simp]:
  "modal_ok p (s\<lparr>rf_open := b\<rparr>) = modal_ok p s" "modal_ok p (s\<lparr>rf_description := t\<rparr>) = modal_ok p s"
  "modal_ok p (s\<lparr>rf_evidenceUrl := t\<rparr>) = modal_ok p s"
  by (simp_all add: modal_ok_def modal_counts cong: option.case_cong)





definition quiet :: "dispute_modal \<Rightarrow> dispute_modal" where
  "quiet s = s\<lparr>rf_warnings := []\<rparr>"



lemma quiet_warned [simp]: "quiet (s\<lparr>rf_warnings := w\<rparr>) = quiet s"
  by (simp add: quiet_def)




text \<open>The form keeps its fields, so the same dispute can be raised again once the timer has closed the dialog.\<close>

lemma raised_twice:
  "let p = \<lparr>mp_contractId = ''C1'', mp_userWallet = ''G1'', mp_onDisputeRaised = None, mp_valid_url = \<lambda>u. True\<rparr>;
       s = modal_run p [SetOpen True, SelectReason ''invalid_ticket'', TypeDescription ''x'', SubmitRaise,
             SdkAnswers (Some ''refused''), TimerFires, SetOpen True, SubmitRaise, SdkAnswers None] modal_mounted
   in rf_prepared s = [(''C1'', ''G1''), (''C1'', ''G1'')] \<and> shown_raised s = 2 \<and> rf_reports s = []"
  by code_simp

fun card_backend :: "card_status \<Rightarrow> dispute_state" where
  "card_backend CardOpen = OPEN"
| "card_backend CardEscalated = ESCALATED"
| "card_backend CardUnderReview = ESCALATED"
| "card_backend CardResolved = RESOLVED"
| "card_backend CardWithdrawn = WITHDRAWN"

text \<open>
  The card offers a handled action exactly when the backend's table has the transition, a dispute under
  review being an escalated one; the frontend's own state machine refuses one of them, the withdrawal of an
  escalated dispute.
\<close>

lemma card_offers_exact:
  "card_offers s handler None a \<longleftrightarrow> handler a \<and> resolveTransition (card_backend s) a \<noteq> None"
  by (cases s; cases a) (simp_all add: card_offers_def isTerminal_def canEscalate_def canResolve_def canWithdraw_def
      resolveTransition_def)

lemma card_offers_refused:
  "card_offers CardEscalated (\<lambda>a. True) None Withdraw" "\<not> isValidDisputeTransition CsEscalated CaWithdraw"
  by (simp_all add: card_offers_exact resolveTransition_def isValidDisputeTransition_def TERMINAL_DISPUTE_STATES_def)

end
