(* ===== verification/Booking.thy ===== *)
theory Booking
  imports Purchase_Escrow
begin

text \<open>
  Booking from a listing page: \<open>components/ticket-listing/PurchaseButton.tsx\<close> over the reservation escrows,
  \<open>SeatAvailabilityChecker.tsx\<close>, \<open>TicketPriceCalculator.tsx\<close>, \<open>EventDatePicker.tsx\<close> and \<open>TicketListingCard.tsx\<close>
  that joins them, \<open>PurchaseConfirmation.tsx\<close>, \<open>TicketPaymentDrawer.tsx\<close> and the handlers of
  \<open>app/listing/page.tsx\<close>. Times are milliseconds; the calendar (\<open>differenceInDays\<close>, \<open>addDays\<close>, local midnight, the
  local text of a date) is a parameter; a draw of \<open>Math.random\<close> is an argument. Busy flags that are reset by
  the end of a handler, and markup, are left out.
\<close>

section \<open>Choosing dates\<close>

record date_range =
  dr_from :: "int option"
  dr_to :: "int option"

definition MS_PER_NIGHT :: int where
  "MS_PER_NIGHT = 1000 * 60 * 60 * 24"

definition ceil_nights :: "int \<Rightarrow> int \<Rightarrow> int" where
  "ceil_nights a b = \<lceil>of_int (b - a) / (of_int MS_PER_NIGHT :: rat)\<rceil>"

text \<open>\<open>handleDateSelect\<close>: what is handed on; a complete range closes the calendar.\<close>

definition handleDateSelect :: "(int \<Rightarrow> int \<Rightarrow> int) \<Rightarrow> (int \<Rightarrow> int \<Rightarrow> int) \<Rightarrow> int \<Rightarrow> int \<Rightarrow> date_range option
    \<Rightarrow> date_range option \<times> bool" where
  "handleDateSelect differenceInDays addDays minNights maxNights selected = (case selected of
       None \<Rightarrow> (None, False)
     | Some r \<Rightarrow> (case (dr_from r, dr_to r) of
           (Some a, Some b) \<Rightarrow>
             (let nights = differenceInDays b a
              in if nights < minNights then (Some \<lparr>dr_from = Some a, dr_to = Some (addDays a minNights)\<rparr>, True)
                 else if nights > maxNights then (Some \<lparr>dr_from = Some a, dr_to = Some (addDays a maxNights)\<rparr>, True)
                 else (Some r, True))
         | _ \<Rightarrow> (Some r, False)))"

definition handleQuickSelect :: "(int \<Rightarrow> int \<Rightarrow> int) \<Rightarrow> int \<Rightarrow> int \<Rightarrow> date_range" where
  "handleQuickSelect addDays today days = \<lparr>dr_from = Some today, dr_to = Some (addDays today days)\<rparr>"

definition isDateDisabled :: "int \<Rightarrow> int \<Rightarrow> bool" where
  "isDateDisabled midnight date \<longleftrightarrow> date < midnight"

section \<open>The price\<close>

record price_breakdown =
  pb_basePrice :: rat
  pb_subtotal :: rat
  pb_tax :: rat
  pb_platformFee :: rat
  pb_total :: rat
  pb_nights :: int

definition complete_range :: "date_range option \<Rightarrow> (int \<times> int) option" where
  "complete_range dates = (case dates of None \<Rightarrow> None
     | Some r \<Rightarrow> (case (dr_from r, dr_to r) of (Some a, Some b) \<Rightarrow> Some (a, b) | _ \<Rightarrow> None))"

text \<open>\<open>calculatePrice\<close>, what the visitor sees, with its default rates.\<close>

definition calculatePrice :: "(int \<Rightarrow> int \<Rightarrow> int) \<Rightarrow> rat \<Rightarrow> date_range option \<Rightarrow> nat \<Rightarrow> rat \<Rightarrow> rat \<Rightarrow> price_breakdown" where
  "calculatePrice differenceInDays basePrice dates guestCount taxRate platformFee =
     (case complete_range dates of
        Some (a, b) \<Rightarrow>
          (let nights = differenceInDays b a;
               subtotal = basePrice * of_int nights * of_nat guestCount;
               tax = subtotal * taxRate;
               fee = subtotal * platformFee
           in \<lparr>pb_basePrice = subtotal, pb_subtotal = subtotal, pb_tax = tax, pb_platformFee = fee,
               pb_total = subtotal + tax + fee, pb_nights = nights\<rparr>)
      | None \<Rightarrow> \<lparr>pb_basePrice = 0, pb_subtotal = 0, pb_tax = 0, pb_platformFee = 0, pb_total = 0, pb_nights = 0\<rparr>)"

text \<open>The total of the card, what the visitor pays.\<close>

definition card_totalPrice :: "rat \<Rightarrow> date_range option \<Rightarrow> nat \<Rightarrow> rat" where
  "card_totalPrice basePrice dates guestCount =
     (case complete_range dates of
        Some (a, b) \<Rightarrow>
          (let subtotal = basePrice * of_int (ceil_nights a b) * of_nat guestCount
           in subtotal + subtotal * (1 / 10) + subtotal * (1 / 20))
      | None \<Rightarrow> 0)"

section \<open>Availability\<close>

record availability =
  av_isAvailable :: bool
  av_isLoading :: bool
  av_message :: "string option"

text \<open>
  The checker with the card's flag: \<open>sk_complete\<close> says that both dates and the listing are known, \<open>sk_pending\<close>
  counts the checks whose second is running. The card makes a new callback at each rendering, so each
  rendering of the card starts a check; a flag that changes renders the card.
\<close>

record seat_check =
  sk_complete :: bool
  sk_view :: availability
  sk_isAvailable :: bool
  sk_pending :: nat

definition checkAvailability :: "seat_check \<Rightarrow> seat_check" where
  "checkAvailability s =
     (if sk_complete s
      then s\<lparr>sk_view := \<lparr>av_isAvailable = False, av_isLoading = True, av_message = None\<rparr>, sk_pending := Suc (sk_pending s)\<rparr>
      else s\<lparr>sk_view := \<lparr>av_isAvailable = False, av_isLoading = False, av_message = None\<rparr>, sk_isAvailable := False\<rparr>)"

definition check_answered :: "rat \<Rightarrow> seat_check \<Rightarrow> seat_check" where
  "check_answered random s =
     (if sk_pending s = 0 then s
      else (let isAvailable = random > 3 / 10;
                s1 = s\<lparr>sk_pending := sk_pending s - 1,
                       sk_view := \<lparr>av_isAvailable = isAvailable, av_isLoading = False,
                         av_message = Some (if isAvailable then ''Room is available for selected dates''
                                            else ''Room is not available for selected dates'')\<rparr>\<rparr>
            in if sk_isAvailable s = isAvailable then s1
               else checkAvailability (s1\<lparr>sk_isAvailable := isAvailable\<rparr>)))"

datatype seat_act = CardRendered bool | CheckAnswered rat

fun seat_event :: "seat_act \<Rightarrow> seat_check \<Rightarrow> seat_check" where
  "seat_event (CardRendered known) s = checkAvailability (s\<lparr>sk_complete := known\<rparr>)"
| "seat_event (CheckAnswered random) s = check_answered random s"

definition seat_run :: "seat_act list \<Rightarrow> seat_check \<Rightarrow> seat_check" where
  "seat_run es s = foldl (\<lambda>s e. seat_event e s) s es"

section \<open>The booking\<close>

record booking_props =
  bp_from :: "int option"
  bp_to :: "int option"
  bp_isAvailable :: bool
  bp_totalPrice :: rat
  bp_disabled :: bool
  bp_maxRetries :: nat
  bp_address :: string

definition isConnected :: "booking_props \<Rightarrow> bool" where
  "isConnected p \<longleftrightarrow> bp_address p \<noteq> [] \<and> trim (bp_address p) \<noteq> []"

definition canBook :: "booking_props \<Rightarrow> bool" where
  "canBook p \<longleftrightarrow> bp_from p \<noteq> None \<and> bp_to p \<noteq> None \<and> bp_isAvailable p \<and> bp_totalPrice p > 0 \<and> \<not> bp_disabled p"

definition round2 :: "rat \<Rightarrow> rat" where
  "round2 x = of_int (js_round (x * 100)) / 100"

definition booking_base :: "rat \<Rightarrow> rat" where
  "booking_base t = round2 (t / (1 + 1 / 10 + 1 / 20))"

definition booking_tax :: "rat \<Rightarrow> rat" where
  "booking_tax t = round2 (booking_base t * (1 / 10))"

definition booking_fee :: "rat \<Rightarrow> rat" where
  "booking_fee t = round2 (booking_base t * (1 / 20))"

text \<open>
  The body of the \<open>try\<close>: the checks, the deployment, the funding. \<open>contract_of\<close> reads \<open>data.contractId\<close> of the
  answer to the deployment; \<open>locale\<close> is the local text of a date.
\<close>

definition book :: "'w escrow_io \<Rightarrow> (string \<Rightarrow> string option) \<Rightarrow> (int \<Rightarrow> string) \<Rightarrow> int \<Rightarrow> booking_props \<Rightarrow> 'w
    \<Rightarrow> (string + string) \<times> 'w" where
  "book io contract_of locale_text midnight p w =
     (case (bp_from p, bp_to p) of
        (Some a, Some b) \<Rightarrow>
          (if bp_totalPrice p \<le> 0 then (Inl ''Invalid price amount'', w)
           else if a < midnight then (Inl ''Check-in date cannot be in the past'', w)
           else if b \<le> a then (Inl ''Check-out date must be after check-in date'', w)
           else if booking_base (bp_totalPrice p) \<le> 0 \<or> booking_tax (bp_totalPrice p) < 0 \<or> booking_fee (bp_totalPrice p) < 0
           then (Inl ''Invalid price calculation'', w)
           else andthen (initializedReservationEscrow io ''Shikara Event''
                  (''Room reservation for '' @ show_int (ceil_nights a b) @ '' nights from '' @ locale_text a @ '' to '' @ locale_text b)
                  (booking_base (bp_totalPrice p)) (booking_tax (bp_totalPrice p)) w) (\<lambda>data w1.
                if \<not> truthy (contract_of data) then (Inl ''Failed to create escrow contract'', w1)
                else andthen (fundReservationEscrow io (the (contract_of data)) (bp_totalPrice p) w1) (\<lambda>_ w2.
                  (Inr (the (contract_of data)), w2))))
      | _ \<Rightarrow> (Inl ''Please select check-in and check-out dates'', w))"

definition network_error :: "string \<Rightarrow> bool" where
  "network_error msg \<longleftrightarrow> str_includes (toLowerCase msg) ''network'' \<or> str_includes (toLowerCase msg) ''timeout''
     \<or> str_includes (toLowerCase msg) ''connection''"

text \<open>
  \<open>handleBooking\<close> as the rendering with \<open>retryCount\<close> made it; \<open>RetryIn\<close> starts a timer that calls this same
  function again, with the count it has captured.
\<close>

datatype booking_end = NotBookable | ConnectFirst | Booked string | RetryIn nat | BookingFailed string

definition handleBooking :: "'w escrow_io \<Rightarrow> (string \<Rightarrow> string option) \<Rightarrow> (int \<Rightarrow> string) \<Rightarrow> int \<Rightarrow> nat \<Rightarrow> booking_props \<Rightarrow> 'w
    \<Rightarrow> booking_end \<times> 'w" where
  "handleBooking io contract_of locale_text midnight retryCount p w =
     (if \<not> canBook p then (NotBookable, w)
      else if \<not> isConnected p then (ConnectFirst, w)
      else (case book io contract_of locale_text midnight p w of
          (Inr purchaseId, w') \<Rightarrow> (Booked purchaseId, w')
        | (Inl msg, w') \<Rightarrow> (if retryCount < bp_maxRetries p \<and> network_error msg
                          then RetryIn (1000 * (retryCount + 1)) else BookingFailed msg, w')))"

text \<open>A click, and then \<open>n\<close> firings of the timer, each on its own day.\<close>

fun booking_firings :: "'w escrow_io \<Rightarrow> (string \<Rightarrow> string option) \<Rightarrow> (int \<Rightarrow> string) \<Rightarrow> (nat \<Rightarrow> int) \<Rightarrow> nat \<Rightarrow> booking_props
    \<Rightarrow> 'w \<Rightarrow> nat \<Rightarrow> booking_end \<times> 'w" where
  "booking_firings io contract_of locale_text midnight k p w 0 = handleBooking io contract_of locale_text (midnight 0) k p w"
| "booking_firings io contract_of locale_text midnight k p w (Suc n) =
     (case booking_firings io contract_of locale_text midnight k p w n of
        (RetryIn d, w') \<Rightarrow> handleBooking io contract_of locale_text (midnight (Suc n)) k p w'
      | r \<Rightarrow> r)"

definition getButtonText :: "bool \<Rightarrow> nat \<Rightarrow> (rat \<Rightarrow> string) \<Rightarrow> booking_props \<Rightarrow> string" where
  "getButtonText isBooking retryCount money p =
     (if isBooking then (if retryCount > 0 then ''Retrying... ('' @ show_nat retryCount @ ''/'' @ show_nat (bp_maxRetries p) @ '')''
                         else ''Processing...'')
      else if \<not> isConnected p then ''Connect Wallet to Book''
      else if bp_from p = None \<or> bp_to p = None then ''Select Dates''
      else if \<not> bp_isAvailable p then ''Not Available''
      else ''Book Now - $'' @ money (bp_totalPrice p))"

section \<open>After the booking\<close>

text \<open>\<open>handleBookingComplete\<close> of the page: what the confirmation will show, whatever was booked.\<close>

record purchase_data =
  pd_purchaseId :: string
  pd_transferInitiated :: int
  pd_transferCompleted :: int
  pd_guestCount :: nat
  pd_totalPrice :: rat

definition handleBookingComplete :: "int \<Rightarrow> string \<Rightarrow> purchase_data" where
  "handleBookingComplete now purchaseId =
     \<lparr>pd_purchaseId = purchaseId, pd_transferInitiated = now, pd_transferCompleted = now + 2 * 24 * 60 * 60 * 1000,
      pd_guestCount = 1, pd_totalPrice = 12054 / 100\<rparr>"

definition handleViewBooking :: "purchase_data option \<Rightarrow> string option" where
  "handleViewBooking data = map_option (\<lambda>d. ''/dashboard/event/payment?purchaseId='' @ pd_purchaseId d) data"

text \<open>The refund of \<open>PurchaseConfirmation.tsx\<close>: the claims it hands to its callback.\<close>

record refund_panel =
  rc_isConfirming :: bool
  rc_isSubmitting :: bool
  rc_claims :: "(rat \<times> string \<times> string) list"

datatype refund_act = StartRefund | CancelRefund | ConfirmRefund | RefundSettled

definition hasRefundDetails :: "rat option \<Rightarrow> string option \<Rightarrow> string option \<Rightarrow> bool" where
  "hasRefundDetails amount asset destination \<longleftrightarrow> amount \<noteq> None \<and> truthy asset \<and> truthy destination"

fun refund_event :: "rat option \<Rightarrow> string option \<Rightarrow> string option \<Rightarrow> refund_act \<Rightarrow> refund_panel \<Rightarrow> refund_panel" where
  "refund_event amount asset destination StartRefund s =
     (if \<not> hasRefundDetails amount asset destination then s else s\<lparr>rc_isConfirming := True\<rparr>)"
| "refund_event amount asset destination CancelRefund s = s\<lparr>rc_isConfirming := False\<rparr>"
| "refund_event amount asset destination ConfirmRefund s =
     (if \<not> hasRefundDetails amount asset destination \<or> \<not> rc_isConfirming s \<or> rc_isSubmitting s then s
      else s\<lparr>rc_isSubmitting := True, rc_claims := rc_claims s @ [(the amount, the asset, the destination)]\<rparr>)"
| "refund_event amount asset destination RefundSettled s =
     (if rc_isSubmitting s then s\<lparr>rc_isSubmitting := False, rc_isConfirming := False\<rparr> else s)"

definition refund_run :: "rat option \<Rightarrow> string option \<Rightarrow> string option \<Rightarrow> refund_act list \<Rightarrow> refund_panel" where
  "refund_run amount asset destination es = foldl (\<lambda>s e. refund_event amount asset destination e s)
     \<lparr>rc_isConfirming = False, rc_isSubmitting = False, rc_claims = []\<rparr> es"

text \<open>The drawer of \<open>TicketPaymentDrawer.tsx\<close>; none of its steps sends anything.\<close>

datatype drawer_step = Billing | Status | RefundConfirm

record payment_drawer =
  py_open :: bool
  py_step :: drawer_step
  py_refundConfirmed :: bool

datatype drawer_act = OpenDrawer bool | DrawerReset | PayClicked | ClaimClicked | RefundChecked bool | RefundConfirmClicked | RefundCancelled

fun drawer_event :: "drawer_act \<Rightarrow> payment_drawer \<Rightarrow> payment_drawer" where
  "drawer_event (OpenDrawer b) d = d\<lparr>py_open := b\<rparr>"
| "drawer_event DrawerReset d = (if py_open d then d else d\<lparr>py_step := Billing, py_refundConfirmed := False\<rparr>)"
| "drawer_event PayClicked d = (if py_step d = Billing then d\<lparr>py_step := Status\<rparr> else d)"
| "drawer_event ClaimClicked d = (if py_step d = Status then d\<lparr>py_step := RefundConfirm\<rparr> else d)"
| "drawer_event (RefundChecked b) d = (if py_step d = RefundConfirm then d\<lparr>py_refundConfirmed := b\<rparr> else d)"
| "drawer_event RefundConfirmClicked d =
     (if py_step d \<noteq> RefundConfirm \<or> \<not> py_refundConfirmed d then d else d\<lparr>py_step := Status\<rparr>)"
| "drawer_event RefundCancelled d = (if py_step d = RefundConfirm then d\<lparr>py_step := Status\<rparr> else d)"

section \<open>What a booking pays\<close>

lemma round2_close: "\<bar>round2 x - x\<bar> \<le> 1 / 200"
proof -
  have "x * 100 + 1 / 2 < of_int (js_round (x * 100)) + 1" "of_int (js_round (x * 100)) \<le> x * 100 + 1 / 2"
    by (simp_all add: js_round_def) linarith
  then show ?thesis by (simp add: round2_def abs_if field_simps)
qed

lemma booking_parts: "\<bar>booking_base t + booking_tax t + booking_fee t - t\<bar> \<le> 2 / 100"
proof -
  have "\<bar>booking_base t - t / (1 + 1 / 10 + 1 / 20)\<bar> \<le> 1 / 200" by (simp only: booking_base_def round2_close)
  moreover have "\<bar>booking_tax t - booking_base t * (1 / 10)\<bar> \<le> 1 / 200" by (simp only: booking_tax_def round2_close)
  moreover have "\<bar>booking_fee t - booking_base t * (1 / 20)\<bar> \<le> 1 / 200" by (simp only: booking_fee_def round2_close)
  moreover have "t / (1 + 1 / 10 + 1 / 20) = t * 20 / 23" by simp
  ultimately show ?thesis by linarith
qed

text \<open>
  What a booking deploys and what it funds. Base price, tax and fee are the total split to within two
  cents; the escrow is deployed for the base price with the tax as its platform fee and milestones that pay
  the base price, all to the platform's account, so the seller receives nothing and the fee is in no contract; but
  the escrow is funded with the total, so more than its milestones pay stays behind for any total from one unit on.
\<close>

theorem booking_amounts:
  "\<bar>booking_base t + booking_tax t + booking_fee t - t\<bar> \<le> 2 / 100
   \<and> (let v = reservation_body address ''Shikara Event'' descr (booking_base t) (booking_tax t) in
        rv_amount v = booking_base t \<and> rv_platformFee v = booking_tax t
        \<and> sum_list (map rm_amount (rv_milestones v)) = booking_base t
        \<and> list_all (\<lambda>m. rm_receiver m = PLATFORM_ACCOUNT) (rv_milestones v)
        \<and> (if 1 \<le> t then t / 10 < t - sum_list (map rm_amount (rv_milestones v)) else True))"
proof -
  have "\<bar>booking_base t - t * 20 / 23\<bar> \<le> 1 / 200"
    using round2_close [of "t / (1 + 1 / 10 + 1 / 20)"] by (simp add: booking_base_def)
  then have "1 \<le> t \<Longrightarrow> t / 10 < t - booking_base t" by linarith
  then show ?thesis using booking_parts [of t] by (simp add: reservation_body_def)
qed

section \<open>Retries\<close>

lemma attempt_failed:
  "k < bp_maxRetries p \<Longrightarrow> fst (handleBooking io contract_of locale_text midnight k p w) = BookingFailed msg
    \<Longrightarrow> \<not> network_error msg"
  by (auto simp: handleBooking_def split: if_splits sum.splits prod.splits)

lemma attempt_retries: "fst (handleBooking io contract_of locale_text midnight k p w) = RetryIn d \<Longrightarrow> d = 1000 * (k + 1)"
  by (auto simp: handleBooking_def split: if_splits sum.splits prod.splits)

lemma firings_end:
  "(case fst (booking_firings io contract_of locale_text midnight k p w n) of
      RetryIn d \<Rightarrow> d = 1000 * (k + 1)
    | BookingFailed msg \<Rightarrow> if k < bp_maxRetries p then \<not> network_error msg else True
    | _ \<Rightarrow> True)"
proof (induction n)
  case 0
  then show ?case using attempt_failed attempt_retries by (fastforce split: booking_end.splits)
next
  case (Suc n)
  obtain r w' where "booking_firings io contract_of locale_text midnight k p w n = (r, w')" by (rule prod.exhaust)
  then show ?case using Suc attempt_failed attempt_retries by (fastforce split: booking_end.splits)
qed

text \<open>A world that records what is posted, in which every funding fails in the network.\<close>

definition flaky_io :: "escrow_post list escrow_io" where
  "flaky_io = \<lparr>io_getAddress = \<lambda>w. (Inr ''GBUYER'', w),
     io_post = \<lambda>b w. (case b of FundMultiRelease c a m \<Rightarrow> Inl ''Network Error'' | _ \<Rightarrow> Inr ''tx'', w @ [b]),
     io_sign = \<lambda>x a w. (Inr ''signed'', w)\<rparr>"

fun is_deploy :: "escrow_post \<Rightarrow> bool" where
  "is_deploy (DeployMultiRelease b) = True"
| "is_deploy _ = False"

definition bookable :: "int \<Rightarrow> booking_props \<Rightarrow> bool" where
  "bookable midnight p \<longleftrightarrow> canBook p \<and> isConnected p \<and> midnight \<le> the (bp_from p) \<and> the (bp_from p) < the (bp_to p)
     \<and> booking_base (bp_totalPrice p) > 0 \<and> booking_tax (bp_totalPrice p) > 0 \<and> booking_fee (bp_totalPrice p) \<ge> 0"

lemma network_error_text: "network_error ''Network Error''"
  by code_simp

lemma flaky_attempt:
  assumes "bookable midnight p" and "k < bp_maxRetries p"
  shows "\<exists>ps. handleBooking flaky_io (\<lambda>d. Some ''C1'') locale_text midnight k p w = (RetryIn (1000 * (k + 1)), w @ ps)
    \<and> length (filter is_deploy ps) = 1"
proof -
  obtain a b where r: "bp_from p = Some a" "bp_to p = Some b" using assms(1) by (auto simp: bookable_def canBook_def)
  then have "midnight \<le> a" "a < b" "bp_totalPrice p > 0" using assms(1) by (auto simp: bookable_def canBook_def)
  then show ?thesis using assms r network_error_text
    by (simp add: handleBooking_def book_def bookable_def initializedReservationEscrow_def fundReservationEscrow_def
        andthen_def submit_signed_def flaky_io_def)
qed

lemma flaky_firings:
  assumes "\<And>i. bookable (midnight i) p" and "k < bp_maxRetries p"
  shows "\<exists>w. booking_firings flaky_io (\<lambda>d. Some ''C1'') locale_text midnight k p [] n = (RetryIn (1000 * (k + 1)), w)
    \<and> length (filter is_deploy w) = Suc n"
proof (induction n)
  case 0
  obtain ps where "handleBooking flaky_io (\<lambda>d. Some ''C1'') locale_text (midnight 0) k p [] = (RetryIn (1000 * (k + 1)), [] @ ps)"
    "length (filter is_deploy ps) = 1" using flaky_attempt [OF assms(1,2)] by blast
  then show ?case by simp
next
  case (Suc n)
  then obtain w where w: "booking_firings flaky_io (\<lambda>d. Some ''C1'') locale_text midnight k p [] n = (RetryIn (1000 * (k + 1)), w)"
    "length (filter is_deploy w) = Suc n" by blast
  obtain ps where "handleBooking flaky_io (\<lambda>d. Some ''C1'') locale_text (midnight (Suc n)) k p w = (RetryIn (1000 * (k + 1)), w @ ps)"
    "length (filter is_deploy ps) = 1" using flaky_attempt [OF assms(1,2)] by blast
  with w show ?case by simp
qed

text \<open>
  C26: The retries of a booking have no end and no back-off. The timer calls the handler with the count it
  captured, so when the click's count is below the limit no number of firings ever ends in a failure of the
  network, and every wait is the same; each of them starts from nothing, so with a funding that keeps failing in
  the network the click and n firings deploy n + 1 escrows and still go on.
\<close>

theorem booking_retries_for_ever:
  "(case fst (booking_firings io contract_of locale_text midnight k p w n) of
      RetryIn d \<Rightarrow> d = 1000 * (k + 1)
    | BookingFailed msg \<Rightarrow> if k < bp_maxRetries p then \<not> network_error msg else True
    | _ \<Rightarrow> True)
   \<and> (if bookable today p \<and> k < bp_maxRetries p
      then (case booking_firings flaky_io (\<lambda>d. Some ''C1'') locale_text (\<lambda>i. today) k p [] n of
              (RetryIn d, posts) \<Rightarrow> length (filter is_deploy posts) = Suc n | _ \<Rightarrow> False)
      else True)"
proof -
  have "bookable today p \<Longrightarrow> k < bp_maxRetries p \<Longrightarrow>
      (case booking_firings flaky_io (\<lambda>d. Some ''C1'') locale_text (\<lambda>i. today) k p [] n of
         (RetryIn d, posts) \<Rightarrow> length (filter is_deploy posts) = Suc n | _ \<Rightarrow> False)"
    using flaky_firings [of "\<lambda>i. today" p k locale_text n] by auto
  then show ?thesis by (intro conjI firings_end) simp
qed

section \<open>Around the booking\<close>

text \<open>A night that is an hour longer, when the clocks go back: the card charges one night more than it shows.\<close>

lemma long_night_charged:
  assumes "0 < n"
  shows "ceil_nights a (a + n * MS_PER_NIGHT + 3600000) = n + 1"
proof -
  have "(of_int (n * MS_PER_NIGHT + 3600000) :: rat) / of_int MS_PER_NIGHT = of_int n + 1 / 24"
    by (simp add: MS_PER_NIGHT_def)
  moreover have "\<lceil>of_int n + 1 / 24 :: rat\<rceil> = n + 1" by (rule ceiling_unique) simp_all
  ultimately show ?thesis by (simp add: ceil_nights_def add.assoc)
qed

text \<open>The answer for the dates chosen before counts for the new ones.\<close>

lemma old_answer_counts:
  "sk_isAvailable (seat_run [CardRendered True, CheckAnswered 1] \<lparr>sk_complete = True,
     sk_view = v, sk_isAvailable = False, sk_pending = 1\<rparr>)"
  by (simp add: seat_run_def checkAvailability_def check_answered_def Let_def)

text \<open>Two draws that disagree start another check each: the availability flickers until two in a row agree.\<close>

lemma availability_flickers:
  "sk_pending (check_answered r s) = (if sk_pending s = 0 then 0
     else if sk_isAvailable s = (r > 3 / 10) then sk_pending s - 1
     else if sk_complete s then sk_pending s else sk_pending s - 1)"
  by (simp add: check_answered_def checkAvailability_def Let_def)

text \<open>A chosen range is within the limits when the calendar adds the days it counts.\<close>

lemma selected_within:
  assumes "\<And>a n. differenceInDays (addDays a n) a = n" and "lo \<le> hi"
    and "handleDateSelect differenceInDays addDays lo hi (Some r) = (Some q, True)"
  shows "lo \<le> differenceInDays (the (dr_to q)) (the (dr_from q)) \<and> differenceInDays (the (dr_to q)) (the (dr_from q)) \<le> hi"
  using assms by (auto simp: handleDateSelect_def Let_def split: option.splits if_splits)

text \<open>Each claim was started by a click of its own, and is made once.\<close>

definition starts :: "refund_act list \<Rightarrow> nat" where
  "starts es = length (filter (\<lambda>e. e = StartRefund) es)"

lemma refund_claims_confirmed:
  "let s = refund_run amount asset destination es in
     length (rc_claims s) + (if rc_isConfirming s \<and> \<not> rc_isSubmitting s then 1 else 0) \<le> starts es
     \<and> list_all (\<lambda>c. c = (the amount, the asset, the destination)) (rc_claims s)
     \<and> (if hasRefundDetails amount asset destination then True else rc_claims s = [])"
proof (induction es rule: rev_induct)
  case (snoc e es)
  then show ?case by (cases e) (auto simp: refund_run_def starts_def Let_def)
qed (simp add: refund_run_def starts_def)

end
