(* ===== verification/Listing_Browse.thy ===== *)
theory Listing_Browse
  imports Listing_Routes Server_Api Paged_Table
begin

text \<open>
  Listings in the frontend: the browse page \<open>app/rent/page.tsx\<close>, the offers of
  \<open>components/dashboard/listings/InterestedPeopleTable.tsx\<close>, the own listings of \<open>MyListingsTable.tsx\<close> with
  \<open>hooks/useTicketListings.ts\<close>, and the form \<open>NewListingForm.tsx\<close> with the client \<open>lib/listing-alerts-api.ts\<close>,
  whose reports end in the backend's listing routes. The listings, the instant a text denotes (\<open>time_of\<close>, where \<open>None\<close> is an invalid date), the start of the next
  local day and the GraphQL server are parameters; markup is left out.
\<close>

section \<open>Browsing\<close>

record event_listing =
  el_id :: string
  el_name :: string
  el_price :: rat
  el_eventDate :: string
  el_section :: string
  el_promoted :: bool
  el_category :: string

datatype sort_option = Relevance | PriceLow | PriceHigh

definition SECTION_KEYWORDS :: "(string \<times> string list) list" where
  "SECTION_KEYWORDS = [(''1'', [''floor'', ''floor'']), (''2'', [''stand'', ''lower'', ''bowl'']),
     (''3'', [''balcony'', ''upper'', ''orchestra''])]"

definition sectionMatches :: "string \<Rightarrow> string \<Rightarrow> bool" where
  "sectionMatches listingSection filterValue =
     (if filterValue = ''all'' then True
      else list_ex (\<lambda>kw. str_includes (toLowerCase listingSection) kw)
             (case map_of SECTION_KEYWORDS filterValue of None \<Rightarrow> [] | Some ks \<Rightarrow> ks))"

record browse =
  rb_listings :: "event_listing list"
  rb_searchQuery :: string
  rb_selectedCategories :: "string list"
  rb_selectedSectionTab :: string
  rb_selectedSections :: "string list"
  rb_dateFrom :: string
  rb_dateTo :: string
  rb_minPrice :: rat
  rb_maxPrice :: rat
  rb_sortOption :: sort_option

definition browse_mounted :: "event_listing list \<Rightarrow> browse" where
  "browse_mounted listings = \<lparr>rb_listings = listings, rb_searchQuery = [], rb_selectedCategories = [],
     rb_selectedSectionTab = ''all'', rb_selectedSections = [], rb_dateFrom = [], rb_dateTo = [], rb_minPrice = 0,
     rb_maxPrice = 1000, rb_sortOption = Relevance\<rparr>"

definition before :: "int option \<Rightarrow> int option \<Rightarrow> bool" where
  "before a b = (case (a, b) of (Some x, Some y) \<Rightarrow> x < y | _ \<Rightarrow> False)"

definition not_after :: "int option \<Rightarrow> int option \<Rightarrow> bool" where
  "not_after a b = (case (a, b) of (Some x, Some y) \<Rightarrow> x \<le> y | _ \<Rightarrow> False)"

definition matches_listing :: "(string \<Rightarrow> int option) \<Rightarrow> (int \<Rightarrow> int) \<Rightarrow> browse \<Rightarrow> event_listing \<Rightarrow> bool" where
  "matches_listing time_of next_day s l \<longleftrightarrow>
     \<not> (trim (rb_searchQuery s) \<noteq> [] \<and> \<not> str_includes (toLowerCase (el_name l)) (toLowerCase (trim (rb_searchQuery s))))
     \<and> \<not> (rb_selectedCategories s \<noteq> [] \<and> el_category l \<notin> set (rb_selectedCategories s))
     \<and> \<not> (rb_selectedSectionTab s \<noteq> ''all'' \<and> \<not> sectionMatches (el_section l) (rb_selectedSectionTab s))
     \<and> \<not> (rb_selectedSections s \<noteq> [] \<and> \<not> list_ex (\<lambda>v. sectionMatches (el_section l) v) (rb_selectedSections s))
     \<and> \<not> (rb_dateFrom s \<noteq> [] \<and> before (time_of (el_eventDate l)) (time_of (rb_dateFrom s)))
     \<and> \<not> (rb_dateTo s \<noteq> [] \<and> not_after (map_option next_day (time_of (rb_dateTo s))) (time_of (el_eventDate l)))
     \<and> \<not> (el_price l < rb_minPrice s \<or> el_price l > rb_maxPrice s)"

definition listing_le :: "browse \<Rightarrow> event_listing \<Rightarrow> event_listing \<Rightarrow> bool" where
  "listing_le s a b = (case rb_sortOption s of
       PriceLow \<Rightarrow> el_price a - el_price b \<le> 0
     | PriceHigh \<Rightarrow> el_price b - el_price a \<le> 0
     | Relevance \<Rightarrow> (of_bool (el_promoted b) :: int) - of_bool (el_promoted a) \<le> 0)"

definition filteredListings :: "(string \<Rightarrow> int option) \<Rightarrow> (int \<Rightarrow> int) \<Rightarrow> browse \<Rightarrow> event_listing list" where
  "filteredListings time_of next_day s = js_sort (listing_le s) (filter (matches_listing time_of next_day s) (rb_listings s))"

definition toggleValue :: "string list \<Rightarrow> string \<Rightarrow> string list" where
  "toggleValue vs v = (if v \<in> set vs then filter (\<lambda>x. x \<noteq> v) vs else vs @ [v])"

definition activeFilterCount :: "browse \<Rightarrow> nat" where
  "activeFilterCount s = of_bool (trim (rb_searchQuery s) \<noteq> []) + length (rb_selectedCategories s)
     + of_bool (rb_selectedSectionTab s \<noteq> ''all'') + length (rb_selectedSections s) + of_bool (rb_dateFrom s \<noteq> [])
     + of_bool (rb_dateTo s \<noteq> []) + of_bool (rb_minPrice s > 0) + of_bool (rb_maxPrice s < 1000)
     + of_bool (rb_sortOption s \<noteq> Relevance)"

definition resetFilters :: "browse \<Rightarrow> browse" where
  "resetFilters s = s\<lparr>rb_sortOption := Relevance, rb_selectedCategories := [], rb_selectedSectionTab := ''all'',
     rb_selectedSections := [], rb_dateFrom := [], rb_dateTo := [], rb_searchQuery := [], rb_minPrice := 0,
     rb_maxPrice := 1000\<rparr>"

text \<open>The two price fields set any number; the two sliders keep the bounds apart.\<close>

datatype browse_act = Search string | ToggleCategory string | AllCategories | SectionTab string | ToggleSection string
  | DateFrom string | DateTo string | MinPrice rat | MaxPrice rat | SlideMin rat | SlideMax rat | SortBy sort_option | ResetAll

fun browse_event :: "browse_act \<Rightarrow> browse \<Rightarrow> browse" where
  "browse_event (Search q) s = s\<lparr>rb_searchQuery := q\<rparr>"
| "browse_event (ToggleCategory c) s = s\<lparr>rb_selectedCategories := toggleValue (rb_selectedCategories s) c\<rparr>"
| "browse_event AllCategories s = s\<lparr>rb_selectedCategories := []\<rparr>"
| "browse_event (SectionTab t) s = s\<lparr>rb_selectedSectionTab := t\<rparr>"
| "browse_event (ToggleSection v) s = s\<lparr>rb_selectedSections := toggleValue (rb_selectedSections s) v\<rparr>"
| "browse_event (DateFrom d) s = s\<lparr>rb_dateFrom := d\<rparr>"
| "browse_event (DateTo d) s = s\<lparr>rb_dateTo := d\<rparr>"
| "browse_event (MinPrice p) s = s\<lparr>rb_minPrice := p\<rparr>"
| "browse_event (MaxPrice p) s = s\<lparr>rb_maxPrice := p\<rparr>"
| "browse_event (SlideMin p) s = s\<lparr>rb_minPrice := min p (rb_maxPrice s - 1)\<rparr>"
| "browse_event (SlideMax p) s = s\<lparr>rb_maxPrice := max p (rb_minPrice s + 1)\<rparr>"
| "browse_event (SortBy o') s = s\<lparr>rb_sortOption := o'\<rparr>"
| "browse_event ResetAll s = resetFilters s"

definition browse_run :: "browse_act list \<Rightarrow> browse \<Rightarrow> browse" where
  "browse_run es s = foldl (\<lambda>s e. browse_event e s) s es"

section \<open>The offers of a listing\<close>

record listing_offer =
  lo_id :: int
  lo_buyer_name :: string
  lo_buyer_phone :: "string option"
  lo_buyer_wallet :: "string option"
  lo_offer_date :: string
  lo_bid_status :: string

record offers_view =
  ov_offers :: "listing_offer list"
  ov_searchQuery :: string
  ov_pageSize :: nat
  ov_currentPage :: nat
  ov_statusFilter :: string
  ov_startDate :: string
  ov_endDate :: string

definition offers_mounted :: "listing_offer list \<Rightarrow> offers_view" where
  "offers_mounted offers = \<lparr>ov_offers = offers, ov_searchQuery = [], ov_pageSize = 5, ov_currentPage = 1,
     ov_statusFilter = ''all'', ov_startDate = [], ov_endDate = []\<rparr>"

definition matches_offer :: "(string \<Rightarrow> int option) \<Rightarrow> offers_view \<Rightarrow> listing_offer \<Rightarrow> bool" where
  "matches_offer time_of s x \<longleftrightarrow>
     (let q = toLowerCase (ov_searchQuery s);
          has = (\<lambda>t. case t of None \<Rightarrow> False | Some v \<Rightarrow> str_includes (toLowerCase v) q)
      in (ov_searchQuery s = [] \<or> has (Some (lo_buyer_name x)) \<or> has (lo_buyer_phone x) \<or> has (lo_buyer_wallet x))
       \<and> (ov_statusFilter s = ''all'' \<or> lo_bid_status x = ov_statusFilter s)
       \<and> (ov_startDate s = [] \<or> not_after (time_of (ov_startDate s)) (time_of (lo_offer_date x)))
       \<and> (ov_endDate s = [] \<or> not_after (time_of (lo_offer_date x)) (time_of (ov_endDate s @ ''T23:59:59''))))"

definition filtered_offers :: "(string \<Rightarrow> int option) \<Rightarrow> offers_view \<Rightarrow> listing_offer list" where
  "filtered_offers time_of s = filter (matches_offer time_of s) (ov_offers s)"

definition offer_pages :: "(string \<Rightarrow> int option) \<Rightarrow> offers_view \<Rightarrow> nat" where
  "offer_pages time_of s = (length (filtered_offers time_of s) + ov_pageSize s - 1) div ov_pageSize s"

definition pageRows :: "(string \<Rightarrow> int option) \<Rightarrow> offers_view \<Rightarrow> listing_offer list" where
  "pageRows time_of s = page (filtered_offers time_of s) ((ov_currentPage s - 1) * ov_pageSize s) (ov_pageSize s)"

text \<open>\<open>showingFrom\<close> and \<open>showingTo\<close>.\<close>

definition showing :: "(string \<Rightarrow> int option) \<Rightarrow> offers_view \<Rightarrow> nat \<times> nat" where
  "showing time_of s =
     (let startIdx = (ov_currentPage s - 1) * ov_pageSize s;
          to = startIdx + length (pageRows time_of s)
      in (if to = 0 then 0 else if filtered_offers time_of s = [] then 0 else startIdx + 1, to))"

definition formatWallet :: "string \<Rightarrow> string option \<Rightarrow> string" where
  "formatWallet dash address = (if \<not> truthy address then dash
     else if length (the address) \<le> 6 then the address
     else take 3 (the address) @ ''...'' @ drop (length (the address) - 3) (the address))"

text \<open>A filter that changes goes back to the first page; the pager is there for more than one page.\<close>

datatype offers_act = OfferSearch string | OfferStatus string | OfferSize nat | OfferStart string | OfferEnd string
  | PrevOffers | NextOffers | GotoOffers nat | OffersLoaded "listing_offer list"

definition refiltered :: "offers_view \<Rightarrow> offers_view \<Rightarrow> offers_view" where
  "refiltered s t = (if t = s then s else t\<lparr>ov_currentPage := 1\<rparr>)"

fun offers_event :: "(string \<Rightarrow> int option) \<Rightarrow> offers_act \<Rightarrow> offers_view \<Rightarrow> offers_view" where
  "offers_event time_of (OfferSearch q) s = refiltered s (s\<lparr>ov_searchQuery := q\<rparr>)"
| "offers_event time_of (OfferStatus st) s = refiltered s (s\<lparr>ov_statusFilter := st\<rparr>)"
| "offers_event time_of (OfferSize n) s = (if n \<in> {5, 10, 20} then refiltered s (s\<lparr>ov_pageSize := n\<rparr>) else s)"
| "offers_event time_of (OfferStart d) s = refiltered s (s\<lparr>ov_startDate := d\<rparr>)"
| "offers_event time_of (OfferEnd d) s = refiltered s (s\<lparr>ov_endDate := d\<rparr>)"
| "offers_event time_of PrevOffers s = (if offer_pages time_of s \<le> 1 \<or> ov_currentPage s = 1 then s
     else s\<lparr>ov_currentPage := max 1 (ov_currentPage s - 1)\<rparr>)"
| "offers_event time_of NextOffers s = (if offer_pages time_of s \<le> 1 \<or> ov_currentPage s = offer_pages time_of s then s
     else s\<lparr>ov_currentPage := min (offer_pages time_of s) (ov_currentPage s + 1)\<rparr>)"
| "offers_event time_of (GotoOffers n) s = (if offer_pages time_of s \<le> 1 \<or> n = 0 \<or> offer_pages time_of s < n then s
     else s\<lparr>ov_currentPage := n\<rparr>)"
| "offers_event time_of (OffersLoaded os) s = s\<lparr>ov_offers := os\<rparr>"

definition offers_run :: "(string \<Rightarrow> int option) \<Rightarrow> offers_act list \<Rightarrow> offers_view \<Rightarrow> offers_view" where
  "offers_run time_of es s = foldl (\<lambda>s e. offers_event time_of e s) s es"


section \<open>The own listings\<close>

text \<open>Strings of digits as \<open>parseInt(s, 10)\<close> and \<open>parseFloat(s)\<close> read them: the longest prefix that is a number.\<close>

definition signed_rest :: "string \<Rightarrow> bool \<times> string" where
  "signed_rest s = (case trim_start s of
       CHR ''-'' # r \<Rightarrow> (True, r) | CHR ''+'' # r \<Rightarrow> (False, r) | r \<Rightarrow> (False, r))"

definition parseInt :: "string \<Rightarrow> jsnum" where
  "parseInt s = (let (neg, r) = signed_rest s; ds = takeWhile is_digit r;
                     n = (if ds = [] then NaN else to_double (of_nat (digits_val 0 ds)))
                 in if neg then neg_num n else n)"

definition exp_prefix :: "string \<Rightarrow> int" where
  "exp_prefix s = (case s of [] \<Rightarrow> 0
     | c # r \<Rightarrow>
         if c = CHR ''e'' \<or> c = CHR ''E'' then
           (let (sgn, q) = (case r of CHR ''-'' # q \<Rightarrow> (-1, q) | CHR ''+'' # q \<Rightarrow> (1, q) | _ \<Rightarrow> (1, r))
            in sgn * int (digits_val 0 (takeWhile is_digit q)))
         else 0)"

definition parseFloat :: "string \<Rightarrow> jsnum" where
  "parseFloat s = (let (neg, r) = signed_rest s;
       (ip, r1) = span_digits r;
       (fp, r2) = (case r1 of CHR ''.'' # q \<Rightarrow> span_digits q | _ \<Rightarrow> ([], r1));
       n = (if startsWith r ''Infinity'' then PosInf
            else if ip = [] \<and> fp = [] then NaN
            else to_double (of_nat (digits_val 0 (ip @ fp)) * pow10 (exp_prefix r2 - int (length fp))))
     in if neg then neg_num n else n)"

text \<open>\<open>x || 0\<close> on numbers.\<close>

definition or_number :: "jsnum \<Rightarrow> jsnum \<Rightarrow> jsnum" where
  "or_number x d = (if x = NaN \<or> x = Fin 0 then d else x)"

definition buildWhere :: "string \<Rightarrow> json" where
  "buildWhere search = (let query = trim search; pattern = ''%'' @ query @ ''%''
     in if query = [] then JObj []
        else JObj [(''_or'', JArr [JObj [(''name'', JObj [(''_ilike'', JStr pattern)])],
                                   JObj [(''location'', JObj [(''_ilike'', JStr pattern)])]])])"

text \<open>A row of \<open>GET_TICKET_LISTINGS\<close>; \<open>rl_count\<close> is \<open>listing_offers_aggregate?.aggregate?.count\<close>.\<close>

record raw_listing =
  rl_id :: "int + string"
  rl_name :: string
  rl_location :: string
  rl_price :: "jsnum + string"
  rl_status :: string
  rl_promoted :: "bool option"
  rl_created_at :: string
  rl_count :: "nat option"

record listing_row =
  lr_id :: string
  lr_name :: string
  lr_location :: string
  lr_price :: jsnum
  lr_status :: string
  lr_promoted :: bool
  lr_offers :: nat
  lr_created_at :: string

definition id_text :: "int + string \<Rightarrow> string" where
  "id_text i = (case i of Inl n \<Rightarrow> show_int n | Inr s \<Rightarrow> s)"

definition price_number :: "jsnum + string \<Rightarrow> jsnum" where
  "price_number p = (case p of Inl x \<Rightarrow> x | Inr s \<Rightarrow> js_Number s)"

definition listing_row :: "raw_listing \<Rightarrow> listing_row" where
  "listing_row l = \<lparr>lr_id = id_text (rl_id l), lr_name = rl_name l, lr_location = rl_location l,
     lr_price = price_number (rl_price l), lr_status = rl_status l, lr_promoted = (rl_promoted l = Some True),
     lr_offers = (case rl_count l of None \<Rightarrow> 0 | Some n \<Rightarrow> n), lr_created_at = rl_created_at l\<rparr>"

text \<open>
  The hook on the data of the query, absent while it loads or after it failed: the rows and the total.
\<close>

type_synonym listings_data = "(raw_listing list \<times> nat option) option"

definition useTicketListings :: "listings_data \<Rightarrow> listing_row list \<times> nat" where
  "useTicketListings data = (case data of None \<Rightarrow> ([], 0)
     | Some (ls, cnt) \<Rightarrow> (map listing_row ls, case cnt of None \<Rightarrow> 0 | Some n \<Rightarrow> n))"

text \<open>
  The table asks for its page with the current search; the query is a function of limit, offset and filter.
  The pager is there when the total exceeds a page, so never while a page loads.
\<close>

definition ITEMS_PER_PAGE :: nat where
  "ITEMS_PER_PAGE = 5"

record my_listings =
  ml_page :: nat
  ml_search :: string

datatype my_act = MySearch string | MyPrev | MyNext

definition my_data :: "(nat \<Rightarrow> nat \<Rightarrow> json \<Rightarrow> listings_data) \<Rightarrow> my_listings \<Rightarrow> listings_data" where
  "my_data query s = query ITEMS_PER_PAGE (ml_page s * ITEMS_PER_PAGE) (buildWhere (ml_search s))"

fun my_event :: "(nat \<Rightarrow> nat \<Rightarrow> json \<Rightarrow> listings_data) \<Rightarrow> my_act \<Rightarrow> my_listings \<Rightarrow> my_listings" where
  "my_event query (MySearch q) s = s\<lparr>ml_search := q, ml_page := 0\<rparr>"
| "my_event query MyPrev s =
     (if snd (useTicketListings (my_data query s)) \<le> ITEMS_PER_PAGE \<or> ml_page s = 0 then s
      else s\<lparr>ml_page := ml_page s - 1\<rparr>)"
| "my_event query MyNext s =
     (let n = snd (useTicketListings (my_data query s))
      in if n \<le> ITEMS_PER_PAGE \<or> n \<le> (ml_page s + 1) * ITEMS_PER_PAGE then s
         else s\<lparr>ml_page := ml_page s + 1\<rparr>)"

definition my_run :: "(nat \<Rightarrow> nat \<Rightarrow> json \<Rightarrow> listings_data) \<Rightarrow> my_act list \<Rightarrow> my_listings \<Rightarrow> my_listings" where
  "my_run query es s = foldl (\<lambda>s e. my_event query e s) s es"

text \<open>The rows with the number in front of each.\<close>

definition my_rows :: "(nat \<Rightarrow> nat \<Rightarrow> json \<Rightarrow> listings_data) \<Rightarrow> my_listings \<Rightarrow> (nat \<times> listing_row) list" where
  "my_rows query s = (let rows = fst (useTicketListings (my_data query s))
     in zip [ml_page s * ITEMS_PER_PAGE + 1 ..< ml_page s * ITEMS_PER_PAGE + 1 + length rows] rows)"

section \<open>A new listing\<close>

record listing_form =
  nf_name :: string
  nf_location :: string
  nf_amount :: string
  nf_promotion :: string
  nf_details :: string
  nf_rooms :: string
  nf_baths :: string
  nf_petFriendly :: bool
  nf_ticketQuantity :: string
  nf_allowPartialPurchase :: bool
  nf_bundlePrice :: string

definition parsedQuantity :: "listing_form \<Rightarrow> jsnum" where
  "parsedQuantity f = (let q = or_number (parseInt (nf_ticketQuantity f)) (Fin 1) in if js_le (Fin 1) q then q else Fin 1)"

definition parsedBundlePrice :: "listing_form \<Rightarrow> jsnum option" where
  "parsedBundlePrice f = (if nf_bundlePrice f = [] then None else Some (parseFloat (nf_bundlePrice f)))"

definition isBundle :: "listing_form \<Rightarrow> bool" where
  "isBundle f = js_lt (Fin 1) (parsedQuantity f)"

record new_listing =
  nl_owner_id :: "string option option"
  nl_name :: string
  nl_location :: string
  nl_price :: jsnum
  nl_ticket_quantity :: jsnum
  nl_allow_partial_purchase :: bool
  nl_bundle_price :: "jsnum option"
  nl_promotion_percent :: jsnum
  nl_promoted :: bool
  nl_details :: string
  nl_bedrooms :: jsnum
  nl_bathrooms :: jsnum
  nl_pet_friendly :: bool

definition new_listing_object :: "string option option \<Rightarrow> listing_form \<Rightarrow> new_listing" where
  "new_listing_object userId f =
     (let promotionPercent = or_number (parseInt (nf_promotion f)) (Fin 0)
      in \<lparr>nl_owner_id = userId, nl_name = nf_name f, nl_location = nf_location f,
          nl_price = or_number (parseFloat (nf_amount f)) (Fin 0), nl_ticket_quantity = parsedQuantity f,
          nl_allow_partial_purchase = (isBundle f \<and> nf_allowPartialPurchase f),
          nl_bundle_price = (if isBundle f then parsedBundlePrice f else None),
          nl_promotion_percent = promotionPercent, nl_promoted = js_lt (Fin 0) promotionPercent,
          nl_details = nf_details f, nl_bedrooms = parseInt (nf_rooms f), nl_bathrooms = parseInt (nf_baths f),
          nl_pet_friendly = nf_petFriendly f\<rparr>)"

text \<open>
  \<open>send\<close> of the alert client: the token of the signed-in user, the request it makes. Nothing it does can
  fail. \<open>JSON.stringify\<close> writes \<open>null\<close> for a number that is not finite and leaves out what is undefined.
\<close>

definition json_number :: "jsnum \<Rightarrow> json" where
  "json_number x = (case x of Fin r \<Rightarrow> JNum (Fin r) | _ \<Rightarrow> JNull)"

definition opt_field :: "string \<Rightarrow> json option \<Rightarrow> (string \<times> json) list" where
  "opt_field k v = (case v of None \<Rightarrow> [] | Some j \<Rightarrow> [(k, j)])"

definition send_alert :: "string \<Rightarrow> string option \<Rightarrow> string \<Rightarrow> string \<Rightarrow> json option \<Rightarrow> api_request list" where
  "send_alert backendUrl idToken method path body =
     (if \<not> truthy idToken then []
      else [\<lparr>ar_method = method, ar_url = backendUrl @ path, ar_authorization = Some (''Bearer '' @ the idToken),
             ar_body = body\<rparr>])"

definition saved_search_body :: "string \<Rightarrow> jsnum option \<Rightarrow> string option \<Rightarrow> json" where
  "saved_search_body eventName maxPrice sect =
     JObj ((''eventName'', JStr eventName) # opt_field ''maxPrice'' (map_option json_number maxPrice)
           @ opt_field ''section'' (map_option JStr sect))"

definition watch_body :: "string \<Rightarrow> string \<Rightarrow> jsnum \<Rightarrow> json" where
  "watch_body listingId eventName price =
     JObj [(''listingId'', JStr listingId), (''eventName'', JStr eventName), (''price'', json_number price)]"

definition created_body :: "string \<Rightarrow> string \<Rightarrow> jsnum \<Rightarrow> string option \<Rightarrow> json" where
  "created_body i eventName price status =
     JObj ([(''id'', JStr i), (''eventName'', JStr eventName), (''price'', json_number price)]
           @ opt_field ''status'' (map_option JStr status))"

definition registerSavedSearch where
  "registerSavedSearch backendUrl idToken eventName maxPrice sect =
     send_alert backendUrl idToken ''POST'' ''/api/saved-searches'' (Some (saved_search_body eventName maxPrice sect))"

definition registerWatch where
  "registerWatch backendUrl idToken listingId eventName price =
     send_alert backendUrl idToken ''POST'' ''/api/watchlist'' (Some (watch_body listingId eventName price))"

definition unregisterWatch where
  "unregisterWatch backendUrl idToken listingId =
     send_alert backendUrl idToken ''DELETE'' (''/api/watchlist/'' @ encodeURIComponent listingId) None"

definition notifyListingCreated where
  "notifyListingCreated backendUrl idToken i eventName price status =
     send_alert backendUrl idToken ''POST'' ''/api/listings'' (Some (created_body i eventName price status))"

text \<open>
  \<open>handleSubmit\<close>: the mutation fails, answers nothing, or answers the created row (id, name, price and
  status). The result is the toast, the page that is opened and the requests to the backend.
\<close>

datatype inserted = InsertFails | Inserted "(int \<times> string \<times> (jsnum + string) \<times> string) option"

definition submit_listing ::
    "string \<Rightarrow> string option \<Rightarrow> (new_listing \<Rightarrow> inserted) \<Rightarrow> string option option \<Rightarrow> listing_form
     \<Rightarrow> string \<times> string option \<times> api_request list" where
  "submit_listing backendUrl idToken mutate userId f = (case mutate (new_listing_object userId f) of
       InsertFails \<Rightarrow> (''Failed to create listing. Please try again.'', None, [])
     | Inserted created \<Rightarrow> (''Listing created'', Some ''/dashboard/listings'',
         (case created of None \<Rightarrow> []
          | Some (i, name, price, status) \<Rightarrow>
              notifyListingCreated backendUrl idToken (show_int i) name (price_number price) (Some status))))"

section \<open>What browsing shows\<close>

lemma listing_sorted: "sorted_wrt (listing_le s) (filteredListings time_of next_day s)"
proof -
  have pr: "sorted_wrt (listing_le s) (js_sort (listing_le s) xs)" if "rb_sortOption s = PriceLow" for xs
    by (rule sorted_js_sort_on [of _ _ el_price]) (simp add: listing_le_def that)
  have ph: "sorted_wrt (listing_le s) (js_sort (listing_le s) xs)" if "rb_sortOption s = PriceHigh" for xs
    by (rule sorted_js_sort_on [of _ _ "\<lambda>l. - el_price l"]) (simp add: listing_le_def that)
  have re: "sorted_wrt (listing_le s) (js_sort (listing_le s) xs)" if "rb_sortOption s = Relevance" for xs
    by (rule sorted_js_sort_on [of _ _ "\<lambda>l. - (of_bool (el_promoted l) :: int)"]) (simp add: listing_le_def that)
  show ?thesis using pr ph re by (cases "rb_sortOption s") (simp_all add: filteredListings_def)
qed

interpretation market: ordered_table rb_listings "matches_listing time_of next_day" "filteredListings time_of next_day" listing_le
  for time_of and next_day
  by unfold_locales (simp_all add: filteredListings_def [symmetric] listing_sorted, simp add: filteredListings_def)

lemma toggleValue_distinct: "distinct vs \<Longrightarrow> distinct (toggleValue vs v)"
  by (simp add: toggleValue_def)

lemma toggle_twice: "v \<notin> set vs \<Longrightarrow> toggleValue (toggleValue vs v) v = vs"
  by (auto simp: toggleValue_def filter_id_conv)

lemma toggle_member: "v \<in> set (toggleValue vs v) \<longleftrightarrow> v \<notin> set vs"
  by (simp add: toggleValue_def)

lemma browse_distinct:
  "distinct (rb_selectedCategories s) \<and> distinct (rb_selectedSections s) \<and> rb_listings s = ls \<Longrightarrow>
   distinct (rb_selectedCategories (browse_run es s)) \<and> distinct (rb_selectedSections (browse_run es s))
   \<and> rb_listings (browse_run es s) = ls"
proof (induction es arbitrary: s)
  case (Cons e es)
  have "distinct (rb_selectedCategories (browse_event e s)) \<and> distinct (rb_selectedSections (browse_event e s))
      \<and> rb_listings (browse_event e s) = ls"
    using Cons.prems by (cases e) (simp_all add: toggleValue_distinct resetFilters_def)
  then have "distinct (rb_selectedCategories (browse_run es (browse_event e s)))
      \<and> distinct (rb_selectedSections (browse_run es (browse_event e s)))
      \<and> rb_listings (browse_run es (browse_event e s)) = ls"
    by (rule Cons.IH)
  then show ?case by (simp add: browse_run_def)
qed (simp add: browse_run_def)

text \<open>With no filter counted as active the page still hides what costs more than 1000.\<close>

lemma no_filter_active:
  "activeFilterCount s = 0 \<Longrightarrow> matches_listing time_of next_day s l \<longleftrightarrow> rb_minPrice s \<le> el_price l \<and> el_price l \<le> rb_maxPrice s"
  by (auto simp: activeFilterCount_def matches_listing_def of_bool_def split: if_splits)

lemma reset_inactive: "activeFilterCount (browse_event ResetAll s) = 0"
  by (simp add: activeFilterCount_def resetFilters_def trim_def trim_start_def)

lemma reset_shows:
  "x \<in> set (filteredListings time_of next_day (browse_event ResetAll s)) \<longleftrightarrow> x \<in> set (rb_listings s) \<and> 0 \<le> el_price x \<and> el_price x \<le> 1000"
proof -
  have "x \<in> set (filteredListings time_of next_day (browse_event ResetAll s)) \<longleftrightarrow>
      x \<in> set (rb_listings (browse_event ResetAll s)) \<and> matches_listing time_of next_day (browse_event ResetAll s) x"
    by (rule market.shown_iff)
  then show ?thesis by (simp only: no_filter_active [OF reset_inactive]) (simp add: resetFilters_def)
qed

lemma section_without_tab:
  "\<not> list_ex (\<lambda>v. sectionMatches ''Premium North'' v) [''1'', ''2'', ''3'']" "sectionMatches ''Premium North'' ''all''"
  by code_simp+

lemma promoted_first: "rb_sortOption s = Relevance \<Longrightarrow> listing_le s a b \<longleftrightarrow> (el_promoted b \<longrightarrow> el_promoted a)"
  by (simp add: listing_le_def of_bool_def)

text \<open>
  Browsing shows, after any run of filter actions, exactly the listings that match, as often as they are
  listed and in the chosen order; no category or section is chosen twice; and clearing the filters leaves none
  active and shows every listing with a price between 0 and 1000, the promoted ones first, no others.
\<close>

theorem browse_exact:
  "let s = browse_run es (browse_mounted ls); shown = filteredListings time_of next_day s;
       r = browse_event ResetAll s; cleared = filteredListings time_of next_day r
   in mset shown = mset (filter (matches_listing time_of next_day s) ls)
    \<and> sorted_wrt (listing_le s) shown
    \<and> distinct (rb_selectedCategories s) \<and> distinct (rb_selectedSections s)
    \<and> activeFilterCount r = 0
    \<and> mset cleared = mset (filter (\<lambda>l. 0 \<le> el_price l \<and> el_price l \<le> 1000) ls)
    \<and> sorted_wrt (\<lambda>a b. el_promoted a \<or> (el_promoted b = False)) cleared"
proof -
  define s where "s = browse_run es (browse_mounted ls)"
  define r where "r = browse_event ResetAll s"
  have inv: "distinct (rb_selectedCategories s) \<and> distinct (rb_selectedSections s) \<and> rb_listings s = ls"
    unfolding s_def by (rule browse_distinct) (simp add: browse_mounted_def)
  have r: "activeFilterCount r = 0" "rb_listings r = ls" "rb_minPrice r = 0" "rb_maxPrice r = 1000" "rb_sortOption r = Relevance"
    using inv by (simp_all add: r_def reset_inactive del: browse_event.simps) (simp_all add: resetFilters_def)
  have keep: "matches_listing time_of next_day r = (\<lambda>l. 0 \<le> el_price l \<and> el_price l \<le> 1000)"
    by (rule ext) (simp only: no_filter_active [OF r(1)] r)
  have ord: "listing_le r = (\<lambda>a b. el_promoted a \<or> (el_promoted b = False))"
    by (intro ext) (auto simp: promoted_first [OF r(5)])
  note shown = market.shown_mset [of time_of next_day s] market.shown_sorted [of s time_of next_day]
    and cleared = market.shown_mset [of time_of next_day r] market.shown_sorted [of r time_of next_day]
  have "mset (filteredListings time_of next_day s) = mset (filter (matches_listing time_of next_day s) ls)"
    using shown(1) inv by (simp only:)
  moreover have "mset (filteredListings time_of next_day r) = mset (filter (\<lambda>l. 0 \<le> el_price l \<and> el_price l \<le> 1000) ls)"
    using cleared(1) by (simp only: keep r)
  moreover have "sorted_wrt (\<lambda>a b. el_promoted a \<or> (el_promoted b = False)) (filteredListings time_of next_day r)"
    using cleared(2) by (simp only: ord)
  ultimately show ?thesis
    using inv shown(2) r(1) unfolding Let_def s_def [symmetric] r_def [symmetric] by (intro conjI) blast+
qed

section \<open>The pages of offers\<close>

definition offers_ok :: "(string \<Rightarrow> int option) \<Rightarrow> offers_view \<Rightarrow> bool" where
  "offers_ok time_of s \<longleftrightarrow> ov_pageSize s \<in> {5, 10, 20} \<and> 1 \<le> ov_currentPage s
     \<and> ov_currentPage s \<le> max 1 (offer_pages time_of s)"

lemma refiltered_ok:
  "offers_ok time_of s \<Longrightarrow> ov_pageSize t \<in> {5, 10, 20} \<Longrightarrow> offers_ok time_of (refiltered s t)"
  by (auto simp: offers_ok_def refiltered_def)

lemma refiltered_offers [simp]: "ov_offers t = ov_offers s \<Longrightarrow> ov_offers (refiltered s t) = ov_offers s"
  by (simp add: refiltered_def)

lemma same_matches: "matches_offer time_of (s\<lparr>ov_currentPage := p\<rparr>) = matches_offer time_of s"
  by (simp add: fun_eq_iff matches_offer_def Let_def)

lemma same_pages:
  "offer_pages time_of (s\<lparr>ov_currentPage := p\<rparr>) = offer_pages time_of s"
  "filtered_offers time_of (s\<lparr>ov_currentPage := p\<rparr>) = filtered_offers time_of s"
  by (simp_all add: offer_pages_def filtered_offers_def same_matches)

definition no_reload :: "offers_act \<Rightarrow> bool" where
  "no_reload e = (case e of OffersLoaded os \<Rightarrow> False | _ \<Rightarrow> True)"

lemma offers_event_ok: "offers_ok time_of s \<Longrightarrow> no_reload e \<Longrightarrow> offers_ok time_of (offers_event time_of e s)"
proof (cases e)
  case (OfferSize n)
  then show "offers_ok time_of s \<Longrightarrow> ?thesis" by (auto intro: refiltered_ok)
next
  case PrevOffers
  then show "offers_ok time_of s \<Longrightarrow> ?thesis" by (auto simp: offers_ok_def same_pages)
next
  case NextOffers
  then show "offers_ok time_of s \<Longrightarrow> ?thesis" by (auto simp: offers_ok_def same_pages)
next
  case (GotoOffers n)
  then show "offers_ok time_of s \<Longrightarrow> ?thesis" by (auto simp: offers_ok_def same_pages)
qed (auto simp: no_reload_def offers_ok_def [of _ s] intro!: refiltered_ok)

lemma offers_event_offers: "no_reload e \<Longrightarrow> ov_offers (offers_event time_of e s) = ov_offers s"
  by (cases e) (simp_all add: no_reload_def)

lemma offers_run_ok:
  "list_all no_reload es \<Longrightarrow> offers_ok time_of s \<Longrightarrow>
   offers_ok time_of (offers_run time_of es s) \<and> ov_offers (offers_run time_of es s) = ov_offers s"
proof (induction es arbitrary: s)
  case (Cons e es)
  then have "offers_ok time_of (offers_run time_of es (offers_event time_of e s))
      \<and> ov_offers (offers_run time_of es (offers_event time_of e s)) = ov_offers (offers_event time_of e s)"
    by (intro Cons.IH) (simp_all add: offers_event_ok)
  then show ?case using Cons.prems by (simp add: offers_run_def offers_event_offers)
qed (simp add: offers_run_def)

lemma offer_pages_total: "max 1 (offer_pages time_of s) = totalPages (length (filtered_offers time_of s)) (ov_pageSize s)"
  by (simp add: offer_pages_def totalPages_def)

lemma pageRows_page:
  "offers_ok time_of s \<Longrightarrow> pageRows time_of s = page_rows (filtered_offers time_of s) (ov_pageSize s) (ov_currentPage s)"
  by (simp only: offers_ok_def pageRows_def page_rows_def safePage_def min_absorb1 offer_pages_total)

lemma offers_mounted_ok: "offers_ok time_of (offers_mounted offers)"
  by (simp add: offers_ok_def offers_mounted_def)

lemma offers_page_exact:
  fixes time_of :: "string \<Rightarrow> int option" and offers :: "listing_offer list" and es :: "offers_act list"
  assumes "list_all no_reload es"
  defines "s \<equiv> offers_run time_of es (offers_mounted offers)"
  shows "pageRows time_of s = page_rows (filtered_offers time_of s) (ov_pageSize s) (ov_currentPage s)"
    and "pageRows time_of s = [] \<longleftrightarrow> filtered_offers time_of s = []"
    and "concat (map (page_rows (filtered_offers time_of s) (ov_pageSize s))
           [1..<Suc (totalPages (length (filtered_offers time_of s)) (ov_pageSize s))])
         = filter (matches_offer time_of s) offers"
proof -
  have ok: "offers_ok time_of s" "ov_offers s = offers"
    using offers_run_ok [OF assms(1) offers_mounted_ok] by (simp_all add: s_def) (simp add: offers_mounted_def)
  then have sz: "1 \<le> ov_pageSize s" "1 \<le> ov_currentPage s" by (auto simp: offers_ok_def)
  show rows: "pageRows time_of s = page_rows (filtered_offers time_of s) (ov_pageSize s) (ov_currentPage s)"
    using ok(1) by (rule pageRows_page)
  show "pageRows time_of s = [] \<longleftrightarrow> filtered_offers time_of s = []"
  proof
    assume "pageRows time_of s = []"
    then show "filtered_offers time_of s = []" using page_nonempty [OF sz] by (metis rows)
  qed (simp add: rows page_rows_def page_def)
  show "concat (map (page_rows (filtered_offers time_of s) (ov_pageSize s))
      [1..<Suc (totalPages (length (filtered_offers time_of s)) (ov_pageSize s))])
    = filter (matches_offer time_of s) offers"
    using sz(1) ok(2) by (simp only: pages_concat filtered_offers_def)
qed

text \<open>
  The page is not reset when the offers themselves change: on the second page, five offers fewer leave a
  page without a row, although offers match, and no pager to leave it.
\<close>

definition sample_offer :: "int \<Rightarrow> listing_offer" where
  "sample_offer i = \<lparr>lo_id = i, lo_buyer_name = ''Ada'', lo_buyer_phone = None, lo_buyer_wallet = None,
     lo_offer_date = [], lo_bid_status = ''pending''\<rparr>"

lemma shrunk_offers_stuck:
  "let s = offers_run (\<lambda>_. None) [NextOffers, OffersLoaded (map sample_offer [1, 2, 3])]
             (offers_mounted (map sample_offer [1, 2, 3, 4, 5, 6]))
   in pageRows (\<lambda>_. None) s = [] \<and> length (filtered_offers (\<lambda>_. None) s) = 3 \<and> offer_pages (\<lambda>_. None) s = 1
    \<and> offers_event (\<lambda>_. None) PrevOffers s = s \<and> showing (\<lambda>_. None) s = (6, 5)"
  by code_simp

section \<open>The own listings, page by page\<close>

text \<open>What the server is relied on for: the page of a filter's rows, and how many there are.\<close>

definition pages_of :: "(nat \<Rightarrow> nat \<Rightarrow> json \<Rightarrow> listings_data) \<Rightarrow> (json \<Rightarrow> raw_listing list) \<Rightarrow> bool" where
  "pages_of query rows \<longleftrightarrow>
     (\<forall>limit offset w. query limit offset w = Some (page (rows w) offset limit, Some (length (rows w))))"

lemma my_data_rows:
  "pages_of query rows \<Longrightarrow> useTicketListings (my_data query s)
     = (map listing_row (page (rows (buildWhere (ml_search s))) (ml_page s * 5) 5), length (rows (buildWhere (ml_search s))))"
  by (simp add: pages_of_def my_data_def useTicketListings_def ITEMS_PER_PAGE_def)

definition my_page_ok :: "(json \<Rightarrow> raw_listing list) \<Rightarrow> my_listings \<Rightarrow> bool" where
  "my_page_ok rows s \<longleftrightarrow> ml_page s = 0 \<or> ml_page s * 5 < length (rows (buildWhere (ml_search s)))"

lemma my_event_ok: "pages_of query rows \<Longrightarrow> my_page_ok rows s \<Longrightarrow> my_page_ok rows (my_event query e s)"
  by (cases e) (auto simp: my_page_ok_def my_data_rows ITEMS_PER_PAGE_def Let_def)

lemma my_run_ok: "pages_of query rows \<Longrightarrow> my_page_ok rows s \<Longrightarrow> my_page_ok rows (my_run query es s)"
proof (induction es arbitrary: s)
  case (Cons e es)
  then have "my_page_ok rows (my_run query es (my_event query e s))" by (simp add: my_event_ok)
  then show ?case by (simp add: my_run_def)
qed (simp add: my_run_def)

text \<open>
  Whatever was typed and clicked, the page shown is empty only when nothing matches, and its rows carry the
  numbers they have among all that match.
\<close>

lemma my_listings_exact:
  fixes es :: "my_act list" and rows :: "json \<Rightarrow> raw_listing list"
  assumes "pages_of query rows"
  defines "s \<equiv> my_run query es \<lparr>ml_page = 0, ml_search = []\<rparr>"
  defines "all \<equiv> rows (buildWhere (ml_search s))"
  shows "my_rows query s = page (zip [1..<Suc (length all)] (map listing_row all)) (ml_page s * 5) 5"
    and "my_rows query s = [] \<longleftrightarrow> all = []"
proof -
  have ok: "my_page_ok rows s" unfolding s_def by (rule my_run_ok [OF assms(1)]) (simp add: my_page_ok_def)
  have n: "length (page all (ml_page s * 5) 5) = min 5 (length all - ml_page s * 5)" by (rule page_length)
  have up: "take 5 (drop k [1..<Suc m]) = [k + 1..<k + 1 + min 5 (m - k)]" for k m :: nat
    by (cases "5 \<le> m - k"; cases "k \<le> m") (simp_all add: take_upt min_def not_le del: upt_Suc)
  show rows: "my_rows query s = page (zip [1..<Suc (length all)] (map listing_row all)) (ml_page s * 5) 5"
    unfolding my_rows_def Let_def
    by (simp only: my_data_rows [OF assms(1)] all_def [symmetric] fst_conv ITEMS_PER_PAGE_def length_map n)
       (simp only: page_def drop_zip take_zip up drop_map take_map)
  have "length (my_rows query s) = min 5 (length all - ml_page s * 5)" by (simp add: rows page_length)
  then have "my_rows query s = [] \<longleftrightarrow> length all \<le> ml_page s * 5" by (simp add: min_def flip: length_0_conv) arith
  then show "my_rows query s = [] \<longleftrightarrow> all = []"
    using ok by (auto simp: my_page_ok_def all_def [symmetric])
qed

section \<open>What a new listing is, and what the backend hears of it\<close>

lemma or_number_not_NaN: "d \<noteq> NaN \<Longrightarrow> or_number x d \<noteq> NaN"
  by (simp add: or_number_def)

lemma quantity_positive: "js_le (Fin 1) (parsedQuantity f)"
  by (simp add: parsedQuantity_def Let_def)

lemma new_listing_sound:
  "let o' = new_listing_object userId f
   in js_le (Fin 1) (nl_ticket_quantity o') \<and> nl_price o' \<noteq> NaN \<and> nl_promotion_percent o' \<noteq> NaN
    \<and> (nl_promoted o' = js_lt (Fin 0) (nl_promotion_percent o'))
    \<and> (nl_ticket_quantity o' = Fin 1 \<longrightarrow> nl_bundle_price o' = None \<and> \<not> nl_allow_partial_purchase o')"
  by (simp add: new_listing_object_def Let_def quantity_positive or_number_not_NaN isBundle_def js_lt_def)

lemma created_accepted:
  "create_listing_schema (created_body i name price (Some status)) =
     (if i = [] \<or> name = [] \<or> \<not> (\<exists>r. price = Fin r \<and> 0 \<le> r) then None
      else Some \<lparr>sn_id = i, sn_eventName = name, sn_price = price, sn_section = None, sn_status = Some status\<rparr>)"
  by (cases i; cases name; cases price)
     (simp_all add: create_listing_schema_def created_body_def opt_field_def number_field_def json_number_def
        nonnegative_def)

lemma show_int_not_empty: "show_int n \<noteq> []"
proof -
  have "show_nat m \<noteq> []" for m by (subst show_nat.simps) simp
  then show ?thesis by (simp add: show_int_def)
qed

text \<open>Of a search and of a watched listing: the router takes what the client sends, unless a price is none.\<close>

lemma search_accepted:
  "search_schema is_email (saved_search_body name maxPrice sect) =
     (if name = [] \<or> (\<exists>p. maxPrice = Some p \<and> \<not> (\<exists>r. p = Fin r \<and> 0 < r)) then None
      else Some \<lparr>si_eventName = name, si_maxPrice = maxPrice, si_section = sect, si_email = None, si_pushToken = None\<rparr>)"
  by (cases name; cases maxPrice; cases sect; cases "the maxPrice")
     (auto simp: search_schema_def saved_search_body_def opt_field_def optional_number_def number_field_def json_number_def
        positive_def js_lt_def optional_email_def)

lemma watch_accepted:
  "watch_schema is_email (watch_body i name price) =
     (if i = [] \<or> \<not> (\<exists>r. price = Fin r \<and> 0 \<le> r) then None
      else Some \<lparr>wi_listingId = i, wi_eventName = Some name, wi_price = Some price, wi_email = None, wi_pushToken = None\<rparr>)"
  by (cases i; cases price)
     (auto simp: watch_schema_def watch_body_def optional_number_def number_field_def json_number_def nonnegative_def optional_email_def)

text \<open>
  C35: Submitting the listing form inserts one listing with a price that is a number, a whole quantity of at least one
  and a bundle price and partial purchase for bundles only; the user is told of success whenever the insert
  answers, whatever becomes of the alert; at most one report is made, for a signed-in user, and when the
  server echoes the row the backend accepts the report exactly when the listing has a name and a price that is
  finite and not negative.
\<close>

theorem new_listing_announced:
  "let o' = new_listing_object userId f;
       out = (\<lambda>answer. submit_listing url tok (\<lambda>_. answer) userId f);
       echo = Inserted (Some (i, nl_name o', Inl (nl_price o'), status))
   in js_le (Fin 1) (nl_ticket_quantity o') \<and> (nl_price o' = NaN) = False
    \<and> (if nl_ticket_quantity o' = Fin 1 then nl_bundle_price o' = None \<and> nl_allow_partial_purchase o' = False else True)
    \<and> out InsertFails = (''Failed to create listing. Please try again.'', None, [])
    \<and> fst (out (Inserted r)) = ''Listing created'' \<and> fst (snd (out (Inserted r))) = Some ''/dashboard/listings''
    \<and> map ar_authorization (snd (snd (out echo))) = (if truthy tok then [Some (''Bearer '' @ the tok)] else [])
    \<and> list_all (\<lambda>q. ar_method q = ''POST'' \<and> ar_url q = url @ ''/api/listings''
        \<and> (create_listing_schema (the (ar_body q)) = None)
          = (nf_name f = [] \<or> (case nl_price o' of Fin p \<Rightarrow> p < 0 | _ \<Rightarrow> True))) (snd (snd (out echo)))"
proof -
  define o' where "o' = new_listing_object userId f"
  have o': "js_le (Fin 1) (nl_ticket_quantity o')" "nl_price o' \<noteq> NaN"
      "nl_ticket_quantity o' = Fin 1 \<longrightarrow> nl_bundle_price o' = None \<and> \<not> nl_allow_partial_purchase o'"
    using new_listing_sound [of userId f] by (simp_all add: Let_def o'_def)
  have name: "nl_name o' = nf_name f" by (simp add: o'_def new_listing_object_def Let_def)
  have schema: "(create_listing_schema (created_body (show_int i) (nl_name o') (nl_price o') (Some status)) = None)
      = (nf_name f = [] \<or> (case nl_price o' of Fin p \<Rightarrow> p < 0 | _ \<Rightarrow> True))"
    by (cases "nl_price o'") (simp_all add: created_accepted show_int_not_empty name not_le)
  show ?thesis
    unfolding Let_def o'_def [symmetric]
    using o' schema by (auto simp: submit_listing_def notifyListingCreated_def send_alert_def price_number_def truthy_def)
qed

text \<open>A negative price passes the form, so the backend never hears of such a listing.\<close>

lemma negative_price_inserted:
  "let f = \<lparr>nf_name = ''Show'', nf_location = ''Hall'', nf_amount = ''-5'', nf_promotion = ''0'', nf_details = [],
        nf_rooms = ''1'', nf_baths = ''1'', nf_petFriendly = False, nf_ticketQuantity = ''1'',
        nf_allowPartialPurchase = False, nf_bundlePrice = []\<rparr>
   in nl_price (new_listing_object None f) = Fin (- 5)"
  by (simp add: new_listing_object_def parseFloat_def signed_rest_def js_string_defs span_digits_def is_digit_def
      digit_val_def exp_prefix_def pow10_def to_double_def or_number_def Let_def neg_num_def)
end
