(* ===== verification/Live_Updates.thy ===== *)
theory Live_Updates
  imports Escrow_Status App_Error
begin

text \<open>
  How the frontend keeps itself up to date: the links of \<open>config/apollo.ts\<close>, the live connection in
  \<open>hooks/useConnectionStatus.ts\<close> and \<open>components/notifications/ConnectionStatus.tsx\<close>, the subscriptions
  \<open>useEscrowSubscription.ts\<close> and \<open>usePaymentSubscription.ts\<close> with the pages they feed
  (\<open>RealTimeEscrowStatus.tsx\<close>, \<open>app/rent/[id]/escrow/[escrowId]/page.tsx\<close>), the metrics of
  \<open>hooks/use-dispute-metrics.ts\<close>, and the shared favourites of \<open>hooks/useFavorites.ts\<close>. The retrying link of
  Apollo is a parameter with the laws it documents; the clock comes with each event.
\<close>

section \<open>The links of the GraphQL client\<close>

definition toWsUrl :: "string option \<Rightarrow> string" where
  "toWsUrl httpUrl = (if \<not> truthy httpUrl then []
     else if startsWith (the httpUrl) ''https://'' then ''wss://'' @ drop 8 (the httpUrl)
     else if startsWith (the httpUrl) ''http://'' then ''ws://'' @ drop 7 (the httpUrl)
     else the httpUrl)"

text \<open>The token is the one Firebase gives for the signed-in user.\<close>

definition bearer_header :: "string option \<Rightarrow> (string \<times> string) list" where
  "bearer_header token = (if truthy token then [(''Authorization'', ''Bearer '' @ the token)] else [])"

definition connectionParams :: "string option \<Rightarrow> (string \<times> string) list option" where
  "connectionParams token = (if truthy token then Some (bearer_header token) else None)"

definition buildAuthHeaders :: "string option \<Rightarrow> (string \<rightharpoonup> string) \<Rightarrow> (string \<rightharpoonup> string)" where
  "buildAuthHeaders token headers = headers ++ map_of (bearer_header token)"

record gql_error =
  ge_message :: string
  ge_code :: "string option"
  ge_path :: "string list option"

datatype link_effect = ForceRefresh | LogGraphQL gql_error | LogNetwork string

definition AUTH_ERROR_CODES :: "string list" where
  "AUTH_ERROR_CODES = [''UNAUTHENTICATED'', ''FORBIDDEN'']"

definition isAuthError :: "gql_error \<Rightarrow> bool" where
  "isAuthError err = (case ge_code err of
       Some code \<Rightarrow> code \<in> set AUTH_ERROR_CODES
     | None \<Rightarrow> list_ex (str_includes (toLowerCase (ge_message err))) [''jwt'', ''unauthenticated'', ''forbidden''])"

text \<open>The handler of the error link; a refresh is asked of a signed-in user only.\<close>

definition errorLink :: "bool \<Rightarrow> gql_error list option \<Rightarrow> string option \<Rightarrow> link_effect list" where
  "errorLink signed_in graphQLErrors networkError =
     concat (map (\<lambda>err. if isAuthError err then (if signed_in then [ForceRefresh] else []) else [LogGraphQL err])
              (case graphQLErrors of None \<Rightarrow> [] | Some es \<Rightarrow> es))
     @ (case networkError of None \<Rightarrow> [] | Some e \<Rightarrow> [LogNetwork e])"

text \<open>What a refresh leads to: a refused one opens the login page.\<close>

definition after_refresh :: "bool \<Rightarrow> string option" where
  "after_refresh refreshed = (if refreshed then None else Some ''/login'')"

datatype operation = GqlQuery | GqlMutation | GqlSubscription

definition retryIf :: "string option \<Rightarrow> operation \<Rightarrow> bool" where
  "retryIf err op = (if op = GqlMutation then False else err \<noteq> None)"

definition RETRY_MAX :: nat where
  "RETRY_MAX = 3"

datatype transport = WebSocket | Http

definition splitLink :: "operation \<Rightarrow> transport" where
  "splitLink op = (if op = GqlSubscription then WebSocket else Http)"

text \<open>
  \<open>sends max again answers\<close> is how often Apollo's retrying link makes a request whose \<open>n\<close>-th answer has the
  error \<open>answers n\<close>: at least once, at most \<open>max\<close> times, and once more only after an answer that says so.
\<close>

definition retry_law :: "(nat \<Rightarrow> (string option \<Rightarrow> bool) \<Rightarrow> (nat \<Rightarrow> string option) \<Rightarrow> nat) \<Rightarrow> bool" where
  "retry_law sends \<longleftrightarrow> (\<forall>m again answers. 1 \<le> m \<longrightarrow>
     1 \<le> sends m again answers \<and> sends m again answers \<le> m
     \<and> (\<forall>i. i + 1 < sends m again answers \<longrightarrow> answers i \<noteq> None \<and> again (answers i)))"

definition requests_made ::
    "(nat \<Rightarrow> (string option \<Rightarrow> bool) \<Rightarrow> (nat \<Rightarrow> string option) \<Rightarrow> nat) \<Rightarrow> operation \<Rightarrow> (nat \<Rightarrow> string option) \<Rightarrow> nat" where
  "requests_made sends op answers = (case splitLink op of
       WebSocket \<Rightarrow> 1 | Http \<Rightarrow> sends RETRY_MAX (\<lambda>e. retryIf e op) answers)"

section \<open>The live connection\<close>

datatype conn_state = Connected | Disconnected | Reconnecting

text \<open>One user of the hook: rendered first, listening once its effect has run.\<close>

record conn_hook =
  ch_connection :: conn_state
  ch_online :: bool
  ch_visible :: bool
  ch_listening :: bool

record conn_world =
  cw_global :: conn_state
  cw_online :: bool
  cw_visible :: bool
  cw_hooks :: "(nat \<times> conn_hook) list"

definition conn_start :: "bool \<Rightarrow> bool \<Rightarrow> conn_world" where
  "conn_start online visible =
     \<lparr>cw_global = Disconnected, cw_online = online, cw_visible = visible, cw_hooks = []\<rparr>"

definition at_listening :: "(conn_hook \<Rightarrow> conn_hook) \<Rightarrow> nat \<times> conn_hook \<Rightarrow> nat \<times> conn_hook" where
  "at_listening f h = (if ch_listening (snd h) then (fst h, f (snd h)) else h)"

definition updateGlobalConnectionState :: "conn_state \<Rightarrow> conn_world \<Rightarrow> conn_world" where
  "updateGlobalConnectionState c w = w\<lparr>cw_global := c,
     cw_hooks := map (at_listening (\<lambda>h. h\<lparr>ch_connection := c\<rparr>)) (cw_hooks w)\<rparr>"

datatype conn_act = Render nat | Effect nat | Unmount nat | WsConnected | WsConnecting | WsClosed
  | GoesOnline | GoesOffline | Visibility bool

fun conn_event :: "conn_act \<Rightarrow> conn_world \<Rightarrow> conn_world" where
  "conn_event (Render i) w = w\<lparr>cw_hooks := (i, \<lparr>ch_connection = cw_global w, ch_online = cw_online w,
     ch_visible = True, ch_listening = False\<rparr>) # filter (\<lambda>h. fst h \<noteq> i) (cw_hooks w)\<rparr>"
| "conn_event (Effect i) w = w\<lparr>cw_hooks := map (\<lambda>h. if fst h = i
     then (i, (snd h)\<lparr>ch_connection := cw_global w, ch_listening := True\<rparr>) else h) (cw_hooks w)\<rparr>"
| "conn_event (Unmount i) w = w\<lparr>cw_hooks := filter (\<lambda>h. fst h \<noteq> i) (cw_hooks w)\<rparr>"
| "conn_event WsConnected w = updateGlobalConnectionState Connected w"
| "conn_event WsConnecting w = updateGlobalConnectionState Reconnecting w"
| "conn_event WsClosed w = updateGlobalConnectionState Disconnected w"
| "conn_event GoesOnline w = w\<lparr>cw_online := True,
     cw_hooks := map (at_listening (\<lambda>h. h\<lparr>ch_online := True\<rparr>)) (cw_hooks w)\<rparr>"
| "conn_event GoesOffline w = w\<lparr>cw_online := False,
     cw_hooks := map (at_listening (\<lambda>h. h\<lparr>ch_online := False\<rparr>)) (cw_hooks w)\<rparr>"
| "conn_event (Visibility b) w = w\<lparr>cw_visible := b,
     cw_hooks := map (at_listening (\<lambda>h. h\<lparr>ch_visible := b\<rparr>)) (cw_hooks w)\<rparr>"

definition conn_run :: "conn_act list \<Rightarrow> conn_world \<Rightarrow> conn_world" where
  "conn_run es w = foldl (\<lambda>w e. conn_event e w) w es"

definition conn_status :: "conn_hook \<Rightarrow> string" where
  "conn_status h = (if \<not> ch_online h \<or> ch_connection h = Disconnected then ''offline''
     else if ch_connection h = Reconnecting then ''reconnecting''
     else if \<not> ch_visible h then ''background'' else ''connected'')"

definition isConnected :: "conn_hook \<Rightarrow> bool" where
  "isConnected h \<longleftrightarrow> ch_connection h = Connected"

definition connection_badge :: "conn_hook \<Rightarrow> string option" where
  "connection_badge h = (let st = (if \<not> ch_online h then Disconnected else ch_connection h)
     in if st = Connected then None
        else Some (if \<not> ch_online h then ''Offline''
                   else (case st of Reconnecting \<Rightarrow> ''Reconnecting...'' | _ \<Rightarrow> ''Disconnected'')))"

section \<open>Subscriptions\<close>

text \<open>
  A subscription hook, of an escrow or of a payment: what arrives is the row (here its status and the funding
  states of its users) or its absence, with the time; an error comes with the row that the library leaves.
\<close>

record live_row =
  li_status :: string
  li_funding :: "string list"

datatype 'r sub_act = SubData int "'r option" | SubError "'r option"

record 'r subscription =
  su_lastToastTime :: int
  su_row :: "'r option"
  su_loading :: bool
  su_error :: bool
  su_toasts :: "(int \<times> string) list"
  su_lost :: nat

definition TOAST_DEBOUNCE_MS :: int where
  "TOAST_DEBOUNCE_MS = 3000"

definition sub_skip :: "bool option \<Rightarrow> string \<Rightarrow> bool" where
  "sub_skip skip ident \<longleftrightarrow> skip = Some True \<or> ident = []"

definition sub_started :: "bool \<Rightarrow> 'r subscription" where
  "sub_started skip = \<lparr>su_lastToastTime = 0, su_row = None, su_loading = \<not> skip, su_error = False,
     su_toasts = [], su_lost = 0\<rparr>"

fun sub_event :: "('r \<Rightarrow> string) \<Rightarrow> 'r sub_act \<Rightarrow> 'r subscription \<Rightarrow> 'r subscription" where
  "sub_event text (SubData now r) s =
     (let s' = s\<lparr>su_row := r, su_loading := False, su_error := False\<rparr>
      in (case r of None \<Rightarrow> s'
          | Some row \<Rightarrow>
              if now - su_lastToastTime s < TOAST_DEBOUNCE_MS then s'
              else s'\<lparr>su_lastToastTime := now, su_toasts := su_toasts s @ [(now, text row)]\<rparr>))"
| "sub_event text (SubError r) s = s\<lparr>su_row := r, su_loading := False, su_error := True, su_lost := su_lost s + 1\<rparr>"

definition sub_run :: "('r \<Rightarrow> string) \<Rightarrow> 'r sub_act list \<Rightarrow> 'r subscription \<Rightarrow> 'r subscription" where
  "sub_run text es s = foldl (\<lambda>s e. sub_event text e s) s es"

definition escrow_text :: "live_row \<Rightarrow> string" where
  "escrow_text r = ''Escrow status: '' @ li_status r"

definition payment_text :: "string \<Rightarrow> string" where
  "payment_text funding_status = ''Payment: '' @ funding_status"

definition escrow_sub :: "live_row sub_act list \<Rightarrow> live_row subscription" where
  "escrow_sub es = sub_run escrow_text es (sub_started False)"

text \<open>What \<open>RealTimeEscrowStatus\<close> shows: the status, the class of its badge, and who has paid of how many.\<close>

definition STATUS_BADGES :: "(string \<times> string) list" where
  "STATUS_BADGES = [(''pending'', ''bg-yellow-100 text-yellow-800''), (''funded'', ''bg-blue-100 text-blue-800''),
     (''active'', ''bg-indigo-100 text-indigo-800''), (''completed'', ''bg-green-100 text-green-800''),
     (''released'', ''bg-green-100 text-green-800''), (''disputed'', ''bg-red-100 text-red-800'')]"

definition badgeClass :: "string \<Rightarrow> string" where
  "badgeClass st = (case map_of STATUS_BADGES st of None \<Rightarrow> ''bg-gray-100 text-gray-800'' | Some c \<Rightarrow> c)"

definition fundedCount :: "live_row \<Rightarrow> nat" where
  "fundedCount r = length (filter (\<lambda>f. f = ''funded'') (li_funding r))"

datatype live_view = LiveLoading | LiveError | LiveNothing | LiveShown string string nat nat

definition RealTimeEscrowStatus :: "live_row subscription \<Rightarrow> live_view" where
  "RealTimeEscrowStatus s =
     (if su_loading s then LiveLoading else if su_error s then LiveError
      else (case su_row s of None \<Rightarrow> LiveNothing
            | Some r \<Rightarrow> LiveShown (li_status r) (badgeClass (li_status r)) (fundedCount r) (length (li_funding r))))"








section \<open>The dispute metrics\<close>

text \<open>
  A fetch aborts the one before, whose answer is then an abort; \<open>mh_current\<close> is the request that is awaited.
\<close>

record 'm metrics_hook =
  mh_metrics :: "'m option"
  mh_isLoading :: bool
  mh_error :: "string option"
  mh_current :: "nat option"
  mh_sent :: nat

datatype 'm metrics_act = Refetch | MetricsAnswer nat 'm | MetricsFailed nat | LeavePage

definition metrics_fetch :: "'m metrics_hook \<Rightarrow> 'm metrics_hook" where
  "metrics_fetch h = h\<lparr>mh_isLoading := True, mh_error := None, mh_current := Some (mh_sent h), mh_sent := mh_sent h + 1\<rparr>"

definition metrics_mounted :: "'m metrics_hook" where
  "metrics_mounted = metrics_fetch \<lparr>mh_metrics = None, mh_isLoading = True, mh_error = None, mh_current = None, mh_sent = 0\<rparr>"

fun metrics_event :: "'m metrics_act \<Rightarrow> 'm metrics_hook \<Rightarrow> 'm metrics_hook" where
  "metrics_event Refetch h = metrics_fetch h"
| "metrics_event (MetricsAnswer n m) h = (if mh_current h = Some n
     then h\<lparr>mh_metrics := Some m, mh_isLoading := False, mh_current := None\<rparr> else h)"
| "metrics_event (MetricsFailed n) h = (if mh_current h = Some n
     then h\<lparr>mh_error := Some ''Dispute metrics are unavailable right now.'', mh_isLoading := False, mh_current := None\<rparr>
     else h)"
| "metrics_event LeavePage h = h\<lparr>mh_current := None\<rparr>"

section \<open>The shared favourites\<close>

text \<open>
  \<open>localStorage\<close> by key, a text that is no JSON as the value \<open>null\<close>, and whether the browser lets the page read it;
  the module's cache, which starts without a key; and how many components use the hook and what they show.
\<close>

record favs =
  fv_store :: "string \<rightharpoonup> json"
  fv_readable :: bool
  fv_uid :: "string option"
  fv_cachedKey :: "string option"
  fv_cachedIds :: "string list"
  fv_users :: nat
  fv_shown :: "string list"

definition storageKey :: "favs \<Rightarrow> string" where
  "storageKey w = ''truestub:favorites:'' @ (case fv_uid w of None \<Rightarrow> ''guest'' | Some u \<Rightarrow> u)"

definition text_items :: "json list \<Rightarrow> string list" where
  "text_items js = concat (map (\<lambda>j. case j of JStr s \<Rightarrow> [s] | _ \<Rightarrow> []) js)"

definition stored_ids :: "(string \<rightharpoonup> json) \<Rightarrow> string \<Rightarrow> string list" where
  "stored_ids st k = (case st k of Some (JArr js) \<Rightarrow> text_items js | _ \<Rightarrow> [])"

text \<open>What a read of the storage gives; blocked storage throws and counts as no favourites.\<close>

definition on_disk :: "favs \<Rightarrow> string list" where
  "on_disk w = (if fv_readable w then stored_ids (fv_store w) (storageKey w) else [])"

definition readIds :: "favs \<Rightarrow> string list \<times> favs" where
  "readIds w = (let key = storageKey w
     in if fv_cachedKey w = Some key then (fv_cachedIds w, w)
        else (let ids = on_disk w in (ids, w\<lparr>fv_cachedKey := Some key, fv_cachedIds := ids\<rparr>)))"

definition rerender :: "favs \<Rightarrow> favs" where
  "rerender w = (if fv_users w = 0 then w else (let (ids, w') = readIds w in w'\<lparr>fv_shown := ids\<rparr>))"

text \<open>\<open>accepted\<close>: this call of \<open>setItem\<close> does not throw, which it does when the quota is used up.\<close>

definition writeIds :: "bool \<Rightarrow> string list \<Rightarrow> favs \<Rightarrow> favs" where
  "writeIds accepted ids w = rerender (w\<lparr>fv_cachedKey := Some (storageKey w), fv_cachedIds := ids,
     fv_store := (if accepted \<and> fv_readable w then (fv_store w)(storageKey w \<mapsto> JArr (map JStr ids)) else fv_store w)\<rparr>)"

definition toggleFavorite :: "bool \<Rightarrow> string \<Rightarrow> favs \<Rightarrow> favs" where
  "toggleFavorite accepted i w = (let (cur, w') = readIds w
     in writeIds accepted (if i \<in> set cur then filter (\<lambda>x. x \<noteq> i) cur else cur @ [i]) w')"

text \<open>
  Another tab writes or removes a key, or clears the whole storage, which is one event with a null key; only a
  component that uses the hook hears of it, and only an event for the key of the signed-in user is acted on.
\<close>

datatype fav_act = UseHook | LeaveHook | ToggleFav bool string | AuthChange "string option"
  | OtherTab string "json option" | OtherTabClears

definition onStorage :: "string option \<Rightarrow> favs \<Rightarrow> favs" where
  "onStorage key w = (if fv_users w = 0 \<or> key \<noteq> Some (storageKey w) then w else rerender (w\<lparr>fv_cachedKey := None\<rparr>))"

fun fav_event :: "fav_act \<Rightarrow> favs \<Rightarrow> favs" where
  "fav_event UseHook w = rerender (w\<lparr>fv_users := fv_users w + 1\<rparr>)"
| "fav_event LeaveHook w = w\<lparr>fv_users := fv_users w - 1\<rparr>"
| "fav_event (ToggleFav accepted i) w = (if fv_users w = 0 then w else toggleFavorite accepted i w)"
| "fav_event (AuthChange u) w = rerender (w\<lparr>fv_uid := u\<rparr>)"
| "fav_event (OtherTab k j) w = onStorage (Some k) (w\<lparr>fv_store := (fv_store w)(k := j)\<rparr>)"
| "fav_event OtherTabClears w = onStorage None (w\<lparr>fv_store := Map.empty\<rparr>)"

definition fav_run :: "fav_act list \<Rightarrow> favs \<Rightarrow> favs" where
  "fav_run es w = foldl (\<lambda>w e. fav_event e w) w es"

definition fav_start :: "bool \<Rightarrow> (string \<rightharpoonup> json) \<Rightarrow> string option \<Rightarrow> favs" where
  "fav_start readable st u = \<lparr>fv_store = st, fv_readable = readable, fv_uid = u, fv_cachedKey = None, fv_cachedIds = [],
     fv_users = 0, fv_shown = []\<rparr>"

definition isFavorite :: "favs \<Rightarrow> string \<Rightarrow> bool" where
  "isFavorite w i \<longleftrightarrow> i \<in> set (fv_shown w)"

section \<open>Mutations are sent once\<close>

lemma socket_or_http: "splitLink op = WebSocket \<longleftrightarrow> op = GqlSubscription"
  by (simp add: splitLink_def)

lemma ws_scheme:
  "toWsUrl (Some (''https://'' @ rest)) = ''wss://'' @ rest" "toWsUrl (Some (''http://'' @ rest)) = ''ws://'' @ rest"
  by (simp_all add: toWsUrl_def truthy_def startsWith_def)

lemma auth_header: "buildAuthHeaders token headers ''Authorization'' =
    (if truthy token then Some (''Bearer '' @ the token) else headers ''Authorization'')"
  "k \<noteq> ''Authorization'' \<Longrightarrow> buildAuthHeaders token headers k = headers k"
  by (simp_all add: buildAuthHeaders_def bearer_header_def map_add_def)

lemma refresh_asked: "ForceRefresh \<in> set (errorLink signed_in (Some es) ne) \<longleftrightarrow> signed_in \<and> list_ex isAuthError es"
  by (auto simp: errorLink_def list_ex_iff split: option.splits if_splits)

text \<open>
  Hasura answers an expired token with the code \<open>invalid-jwt\<close>; as there is a code, the message is not looked
  at and the error is only logged. And without the two fields nothing is done at all.
\<close>

lemma expired_token_missed:
  "errorLink True (Some [\<lparr>ge_message = ''Could not verify JWT: JWTExpired'', ge_code = Some ''invalid-jwt'', ge_path = None\<rparr>]) None
   = [LogGraphQL \<lparr>ge_message = ''Could not verify JWT: JWTExpired'', ge_code = Some ''invalid-jwt'', ge_path = None\<rparr>]"
  "errorLink signed_in None None = []"
  by (simp_all add: errorLink_def isAuthError_def AUTH_ERROR_CODES_def)

text \<open>
  C27: Over a retrying link that re-sends only after an answer its condition accepts, a mutation goes out exactly
  once whatever the server answers, a query at most three times and again only after an error, and a query or
  mutation that carries a token says so in its header and nowhere else.
\<close>

theorem mutation_sent_once:
  assumes "retry_law sends"
  shows "requests_made sends GqlMutation answers = 1
    \<and> 1 \<le> requests_made sends GqlQuery answers \<and> requests_made sends GqlQuery answers \<le> 3
    \<and> list_all (\<lambda>i. answers i \<noteq> None) [0..<requests_made sends GqlQuery answers - 1]
    \<and> buildAuthHeaders token headers = headers ++ (if truthy token then [''Authorization'' \<mapsto> ''Bearer '' @ the token] else Map.empty)"
proof -
  have law: "1 \<le> sends RETRY_MAX again answers \<and> sends RETRY_MAX again answers \<le> 3
      \<and> (\<forall>i. i + 1 < sends RETRY_MAX again answers \<longrightarrow> answers i \<noteq> None \<and> again (answers i))" for again
    using assms [unfolded retry_law_def, THEN spec, of RETRY_MAX, THEN spec, of again, THEN spec, of answers]
    by (simp add: RETRY_MAX_def)
  have m: "sends RETRY_MAX (\<lambda>e. retryIf e GqlMutation) answers = 1"
  proof (rule ccontr)
    assume "sends RETRY_MAX (\<lambda>e. retryIf e GqlMutation) answers \<noteq> 1"
    with law [of "\<lambda>e. retryIf e GqlMutation"] have "0 + 1 < sends RETRY_MAX (\<lambda>e. retryIf e GqlMutation) answers" by linarith
    with law [of "\<lambda>e. retryIf e GqlMutation"] have "retryIf (answers 0) GqlMutation" by blast
    then show False by (simp add: retryIf_def)
  qed
  have "list_all (\<lambda>i. answers i \<noteq> None) [0..<sends RETRY_MAX (\<lambda>e. retryIf e GqlQuery) answers - 1]"
    using law [of "\<lambda>e. retryIf e GqlQuery"] by (auto simp: list_all_iff)
  then show ?thesis
    using m law [of "\<lambda>e. retryIf e GqlQuery"]
    by (simp add: requests_made_def splitLink_def buildAuthHeaders_def bearer_header_def)
qed

text \<open>A link that tries as long as it may.\<close>

fun keen_link :: "nat \<Rightarrow> (string option \<Rightarrow> bool) \<Rightarrow> (nat \<Rightarrow> string option) \<Rightarrow> nat" where
  "keen_link 0 again answers = 0"
| "keen_link (Suc m) again answers =
     (if m = 0 \<or> answers 0 = None \<or> \<not> again (answers 0) then 1 else 1 + keen_link m again (\<lambda>i. answers (Suc i)))"

lemma keen_law: "1 \<le> m \<Longrightarrow> 1 \<le> keen_link m again answers \<and> keen_link m again answers \<le> m
     \<and> (\<forall>i. i + 1 < keen_link m again answers \<longrightarrow> answers i \<noteq> None \<and> again (answers i))"
proof (induction m arbitrary: answers)
  case (Suc m)
  show ?case
  proof (cases "m = 0 \<or> answers 0 = None \<or> \<not> again (answers 0)")
    case False
    then have go: "keen_link (Suc m) again answers = 1 + keen_link m again (\<lambda>i. answers (Suc i))"
      by (simp only: keen_link.simps if_False)
    have IH: "1 \<le> keen_link m again (\<lambda>i. answers (Suc i)) \<and> keen_link m again (\<lambda>i. answers (Suc i)) \<le> m
        \<and> (\<forall>i. i + 1 < keen_link m again (\<lambda>i. answers (Suc i)) \<longrightarrow> answers (Suc i) \<noteq> None \<and> again (answers (Suc i)))"
      using False by (intro Suc.IH) simp
    have "answers i \<noteq> None \<and> again (answers i)" if "i + 1 < keen_link (Suc m) again answers" for i
      using that IH False by (cases i) (simp_all only: go, simp_all)
    then show ?thesis using IH by (simp only: go) simp
  qed auto
qed simp

lemma keen_retry_law: "retry_law keen_link"
  unfolding retry_law_def using keen_law by blast

theorem mutation_sent_once_witness:
  "requests_made keen_link GqlMutation (\<lambda>_. Some ''down'') = 1 \<and> requests_made keen_link GqlQuery (\<lambda>_. Some ''down'') = 3"
proof -
  have "requests_made keen_link GqlMutation (\<lambda>_. Some ''down'') = 1"
    using mutation_sent_once [OF keen_retry_law, of "\<lambda>_. Some ''down''" None Map.empty] by blast
  moreover have "requests_made keen_link GqlQuery (\<lambda>_. Some ''down'') = 3"
    by (simp add: requests_made_def splitLink_def RETRY_MAX_def numeral_3_eq_3 retryIf_def)
  ultimately show ?thesis by blast
qed

section \<open>Every listener shows the connection there is\<close>

definition hooks_ok :: "conn_world \<Rightarrow> bool" where
  "hooks_ok w = list_all (\<lambda>h. ch_listening (snd h) \<longrightarrow> ch_connection (snd h) = cw_global w) (cw_hooks w)"

lemma conn_event_ok: "hooks_ok w \<Longrightarrow> hooks_ok (conn_event e w)"
  by (cases e) (auto simp: hooks_ok_def list_all_iff at_listening_def updateGlobalConnectionState_def split: if_splits)

lemma conn_run_ok: "hooks_ok w \<Longrightarrow> hooks_ok (conn_run es w)"
proof (induction es arbitrary: w)
  case (Cons e es)
  then have "hooks_ok (conn_run es (conn_event e w))" by (simp add: conn_event_ok)
  then show ?case by (simp add: conn_run_def)
qed (simp add: conn_run_def)

text \<open>
  An event between rendering and effect is lost for the browser's state: the effect reads only the connection
  again. And before the first subscription opens the socket everything counts as disconnected.
\<close>

lemma missed_offline:
  "let w = conn_run [WsConnected, Render 0, GoesOffline, Effect 0] (conn_start True True)
   in map (\<lambda>h. (ch_online (snd h), conn_status (snd h))) (cw_hooks w) = [(True, ''connected'')] \<and> cw_online w = False"
  by code_simp

lemma hidden_at_mount: "map (conn_status \<circ> snd) (cw_hooks (conn_run [WsConnected, Render 0, Effect 0] (conn_start True False))) = [''connected'']"
  by code_simp

lemma idle_is_disconnected: "map (connection_badge \<circ> snd) (cw_hooks (conn_run [Render 0, Effect 0] (conn_start True True))) = [Some ''Disconnected'']"
  by code_simp

section \<open>Toasts, rows and the page they open\<close>









text \<open>A status that arrives within three seconds of a toast is never announced.\<close>

lemma final_status_unannounced:
  "let s = escrow_sub [SubData 5000 (Some \<lparr>li_status = ''funded'', li_funding = []\<rparr>),
                       SubData 6000 (Some \<lparr>li_status = ''disputed'', li_funding = []\<rparr>)]
   in su_toasts s = [(5000, ''Escrow status: funded'')] \<and> map_option li_status (su_row s) = Some ''disputed''"
  by code_simp

lemma funded_bound: "RealTimeEscrowStatus s = LiveShown st c n m \<Longrightarrow> n \<le> m"
  by (auto simp: RealTimeEscrowStatus_def fundedCount_def split: if_splits option.splits)





section \<open>Metrics show the latest request\<close>

definition metrics_ok :: "'m metrics_hook \<Rightarrow> bool" where
  "metrics_ok h \<longleftrightarrow> (case mh_current h of None \<Rightarrow> True | Some n \<Rightarrow> n + 1 = mh_sent h \<and> mh_isLoading h \<and> mh_error h = None)"

lemma metrics_event_ok: "metrics_ok h \<Longrightarrow> metrics_ok (metrics_event e h)"
  by (cases e) (auto simp: metrics_ok_def metrics_fetch_def)

lemma metrics_mounted_ok: "metrics_ok metrics_mounted"
  by (simp add: metrics_ok_def metrics_mounted_def metrics_fetch_def)

lemma old_metrics_ignored: "metrics_ok h \<Longrightarrow> n + 1 < mh_sent h \<Longrightarrow> metrics_event (MetricsAnswer n m) h = h"
  by (auto simp: metrics_ok_def)

section \<open>Favourites agree with the storage while the hook is in use\<close>

text \<open>What is shown is the cache, and the cache is for the key of the signed-in user.\<close>

definition fav_ok :: "favs \<Rightarrow> bool" where
  "fav_ok w \<longleftrightarrow> 1 \<le> fv_users w \<and> fv_cachedKey w = Some (storageKey w) \<and> fv_shown w = fv_cachedIds w"

definition stays :: "fav_act \<Rightarrow> bool" where
  "stays e = (case e of LeaveHook \<Rightarrow> False | _ \<Rightarrow> True)"

text \<open>The two events after which the screen and the storage may differ.\<close>

definition drifts :: "fav_act \<Rightarrow> bool" where
  "drifts e = (case e of ToggleFav accepted i \<Rightarrow> \<not> accepted | OtherTabClears \<Rightarrow> True | _ \<Rightarrow> False)"

lemma text_items_str [simp]: "text_items (map JStr ids) = ids"
  by (induction ids) (simp_all add: text_items_def)

lemma key_frame [simp]:
  "storageKey (w\<lparr>fv_users := n\<rparr>) = storageKey w" "storageKey (w\<lparr>fv_store := st\<rparr>) = storageKey w"
  "storageKey (w\<lparr>fv_cachedKey := k\<rparr>) = storageKey w" "storageKey (w\<lparr>fv_cachedIds := ids\<rparr>) = storageKey w"
  "storageKey (w\<lparr>fv_shown := ids\<rparr>) = storageKey w"
  by (simp_all add: storageKey_def)

lemma disk_frame [simp]:
  "on_disk (w\<lparr>fv_users := n\<rparr>) = on_disk w" "on_disk (w\<lparr>fv_cachedKey := k\<rparr>) = on_disk w"
  "on_disk (w\<lparr>fv_cachedIds := ids\<rparr>) = on_disk w" "on_disk (w\<lparr>fv_shown := ids\<rparr>) = on_disk w"
  by (simp_all add: on_disk_def)

lemma rerender_ok: "1 \<le> fv_users w \<Longrightarrow> fav_ok (rerender w)"
  by (auto simp: rerender_def readIds_def fav_ok_def Let_def)

lemma rerender_frame [simp]: "fv_store (rerender w) = fv_store w" "fv_uid (rerender w) = fv_uid w"
  "fv_users (rerender w) = fv_users w" "fv_readable (rerender w) = fv_readable w"
  by (auto simp: rerender_def readIds_def Let_def)

lemma rerender_disk [simp]: "on_disk (rerender w) = on_disk w" "storageKey (rerender w) = storageKey w"
  by (simp_all add: on_disk_def storageKey_def)

lemma rerender_shown: "1 \<le> fv_users w \<Longrightarrow>
    fv_shown (rerender w) = (if fv_cachedKey w = Some (storageKey w) then fv_cachedIds w else on_disk w)"
  by (auto simp: rerender_def readIds_def Let_def)

definition toggled :: "string \<Rightarrow> string list \<Rightarrow> string list" where
  "toggled i ids = (if i \<in> set ids then filter (\<lambda>x. x \<noteq> i) ids else ids @ [i])"

lemma toggle_known: "fav_ok w \<Longrightarrow> toggleFavorite b i w = writeIds b (toggled i (fv_shown w)) w"
  by (simp add: toggleFavorite_def readIds_def fav_ok_def Let_def toggled_def)

lemma toggle_event:
  assumes "fav_ok w"
  shows "fav_event (ToggleFav b i) w = rerender (w\<lparr>fv_cachedKey := Some (storageKey w),
     fv_cachedIds := toggled i (fv_shown w), fv_store := (if b \<and> fv_readable w
       then (fv_store w)(storageKey w \<mapsto> JArr (map JStr (toggled i (fv_shown w)))) else fv_store w)\<rparr>)"
  using assms toggle_known [OF assms] by (simp add: writeIds_def fav_ok_def)

text \<open>What each event does to the screen, and that it keeps the invariant.\<close>

lemma fav_event_shown:
  assumes "fav_ok w" and "stays e"
  shows "fav_ok (fav_event e w) \<and> fv_shown (fav_event e w) = (case e of
      ToggleFav b i \<Rightarrow> toggled i (fv_shown w)
    | OtherTab k j \<Rightarrow> if k = storageKey w then on_disk (fav_event e w) else fv_shown w
    | AuthChange u \<Rightarrow> if storageKey (fav_event e w) = storageKey w then fv_shown w else on_disk (fav_event e w)
    | _ \<Rightarrow> fv_shown w)"
proof (cases e)
  case UseHook
  then show ?thesis using assms(1) by (simp add: rerender_ok rerender_shown) (simp add: fav_ok_def)
next
  case LeaveHook
  then show ?thesis using assms(2) by (simp add: stays_def)
next
  case (ToggleFav b i)
  have "1 \<le> fv_users w" using assms(1) by (simp add: fav_ok_def)
  then show ?thesis unfolding ToggleFav toggle_event [OF assms(1)] by (simp add: rerender_ok rerender_shown)
next
  case (AuthChange u)
  have u: "1 \<le> fv_users (w\<lparr>fv_uid := u\<rparr>)" using assms(1) by (simp add: fav_ok_def)
  have c: "fv_cachedKey w = Some (storageKey w)" "fv_cachedIds w = fv_shown w"
    using assms(1) by (simp_all add: fav_ok_def)
  show ?thesis using rerender_ok [OF u] rerender_shown [OF u] c by (auto simp: AuthChange)
next
  case (OtherTab k j)
  let ?w = "w\<lparr>fv_store := (fv_store w)(k := j)\<rparr>"
  have u: "1 \<le> fv_users (?w\<lparr>fv_cachedKey := None\<rparr>)" using assms(1) by (simp add: fav_ok_def)
  have e: "fav_event e w = (if k = storageKey w then rerender (?w\<lparr>fv_cachedKey := None\<rparr>) else ?w)"
    using assms(1) by (simp add: OtherTab onStorage_def fav_ok_def)
  show ?thesis
  proof (cases "k = storageKey w")
    case True
    then show ?thesis using rerender_ok [OF u] rerender_shown [OF u] unfolding e by (simp add: OtherTab)
  next
    case False
    then show ?thesis using assms(1) unfolding e by (simp add: OtherTab fav_ok_def)
  qed
next
  case OtherTabClears
  then show ?thesis using assms(1) by (simp add: onStorage_def fav_ok_def)
qed

lemma fav_event_readable: "fv_readable (fav_event e w) = fv_readable w"
  by (cases e) (auto simp: onStorage_def toggleFavorite_def readIds_def writeIds_def Let_def)

lemma fav_event_disk:
  assumes "fav_ok w" and "stays e" and "\<not> drifts e" and "fv_readable w" and "fv_shown w = on_disk w"
  shows "fv_shown (fav_event e w) = on_disk (fav_event e w)"
proof (cases e)
  case (ToggleFav b i)
  then have b: "b" using assms(3) by (simp add: drifts_def)
  have "on_disk (fav_event e w) = toggled i (fv_shown w)"
    using b assms(4) unfolding ToggleFav toggle_event [OF assms(1)] by (simp add: on_disk_def stored_ids_def)
  then show ?thesis using fav_event_shown [OF assms(1,2)] ToggleFav by simp
next
  case (AuthChange u)
  have "storageKey (fav_event e w) = storageKey w \<Longrightarrow> on_disk (fav_event e w) = on_disk w"
    by (simp add: AuthChange on_disk_def)
  then show ?thesis using fav_event_shown [OF assms(1,2)] AuthChange assms(5) by (auto split: if_splits)
next
  case (OtherTab k j)
  have "k \<noteq> storageKey w \<Longrightarrow> on_disk (fav_event e w) = on_disk w"
    by (simp add: OtherTab onStorage_def on_disk_def stored_ids_def)
  then show ?thesis using fav_event_shown [OF assms(1,2)] OtherTab assms(5) by (auto split: if_splits)
qed (use assms fav_event_shown [OF assms(1,2)] in \<open>simp_all add: stays_def drifts_def\<close>)

lemma fav_run_ok:
  "fav_ok w \<Longrightarrow> list_all stays es \<Longrightarrow> fav_ok (fav_run es w) \<and> fv_readable (fav_run es w) = fv_readable w
    \<and> (list_all (\<lambda>e. \<not> drifts e) es \<longrightarrow> fv_readable w \<longrightarrow> fv_shown w = on_disk w \<longrightarrow>
        fv_shown (fav_run es w) = on_disk (fav_run es w))"
proof (induction es arbitrary: w)
  case (Cons e es)
  then have "fav_ok (fav_event e w)" using fav_event_shown by simp
  with Cons.IH [of "fav_event e w"] Cons.prems show ?case
    using fav_event_disk [of w e] by (auto simp: fav_run_def fav_event_readable)
qed (simp add: fav_run_def)

lemma first_use:
  "fav_ok (fav_event UseHook (fav_start readable st u))
   \<and> fv_readable (fav_event UseHook (fav_start readable st u)) = readable
   \<and> fv_shown (fav_event UseHook (fav_start readable st u)) = on_disk (fav_event UseHook (fav_start readable st u))"
  by (simp add: fav_start_def rerender_ok rerender_shown)

text \<open>
  C37: From the first component that uses the favourites and as long as one does: if the browser lets the page
  read its storage, no write was refused and no other tab cleared the storage as a whole, then what is shown is
  what is stored for the signed-in user, across toggles, sign-ins and writes of other tabs. In any case a toggle
  changes the shown list by one listing; it is stored at once under the key of that user and no other, or, when the
  storage refuses it, shown in this session only. A change by another tab to the user's key and a sign-in under
  another key show what is stored then, which ends any difference; a change to another key shows nothing new, and a
  clearing by another tab empties the storage and is not noticed: the old list stays on the screen.
\<close>

theorem favourites_coherent:
  assumes "list_all stays es"
  shows "let w = fav_run es (fav_event UseHook (fav_start readable st u)); key = storageKey w;
      new = (if isFavorite w i then filter (\<lambda>x. x \<noteq> i) (fv_shown w) else fv_shown w @ [i])
    in (if readable \<and> list_all (\<lambda>e. \<not> drifts e) es then fv_shown w = stored_ids (fv_store w) key else True)
     \<and> (\<forall>accepted. fv_shown (fav_event (ToggleFav accepted i) w) = new
          \<and> fv_store (fav_event (ToggleFav accepted i) w) =
              (if accepted \<and> readable then (fv_store w)(key \<mapsto> JArr (map JStr new)) else fv_store w))
     \<and> (if readable then fv_shown (fav_event (OtherTab key j) w) = stored_ids (fv_store (fav_event (OtherTab key j) w)) key
        else fv_shown (fav_event (OtherTab key j) w) = [])
     \<and> (if k = key then True else fv_shown (fav_event (OtherTab k j) w) = fv_shown w)
     \<and> fv_shown (fav_event OtherTabClears w) = fv_shown w
     \<and> stored_ids (fv_store (fav_event OtherTabClears w)) key = []
     \<and> (let v = fav_event (AuthChange u') w
        in if storageKey v = key then fv_shown v = fv_shown w
           else fv_shown v = (if readable then stored_ids (fv_store w) (storageKey v) else []))"
proof -
  define w where "w = fav_run es (fav_event UseHook (fav_start readable st u))"
  have ok: "fav_ok w" and rd: "fv_readable w = readable"
    and sync: "readable \<Longrightarrow> list_all (\<lambda>e. \<not> drifts e) es \<Longrightarrow> fv_shown w = on_disk w"
    using fav_run_ok [of "fav_event UseHook (fav_start readable st u)" es] assms first_use [of readable st u]
    unfolding w_def by blast+
  note shown = fav_event_shown [OF ok, THEN conjunct2]
  have toggle: "fv_shown (fav_event (ToggleFav b i) w) = toggled i (fv_shown w)
      \<and> fv_store (fav_event (ToggleFav b i) w) = (if b \<and> readable
          then (fv_store w)(storageKey w \<mapsto> JArr (map JStr (toggled i (fv_shown w)))) else fv_store w)" for b
    using shown [of "ToggleFav b i"] by (simp add: stays_def rd toggle_event [OF ok] del: fav_event.simps)
  have other: "fv_shown (fav_event (OtherTab k j) w) = (if k = storageKey w
      then on_disk (fav_event (OtherTab k j) w) else fv_shown w)" for k
    using shown [of "OtherTab k j"] by (simp add: stays_def del: fav_event.simps)
  have same: "storageKey (fav_event (OtherTab k j) w) = storageKey w" for k
    by (simp add: onStorage_def)
  have clear: "fv_shown (fav_event OtherTabClears w) = fv_shown w"
    "stored_ids (fv_store (fav_event OtherTabClears w)) (storageKey w) = []"
    by (simp_all add: onStorage_def stored_ids_def)
  let ?v = "fav_event (AuthChange u') w"
  have auth: "if storageKey ?v = storageKey w then fv_shown ?v = fv_shown w
      else fv_shown ?v = (if readable then stored_ids (fv_store w) (storageKey ?v) else [])"
    using shown [of "AuthChange u'"] rd by (auto simp: stays_def on_disk_def split: if_splits)
  show ?thesis
    unfolding Let_def w_def [symmetric]
    using sync toggle auth clear other [of "storageKey w"] other [of k] same [of "storageKey w"] rd
    by (auto simp: on_disk_def toggled_def isFavorite_def fav_event_readable simp del: fav_event.simps)
qed

theorem favourites_coherent_witness:
  "let w = fav_run [ToggleFav True ''a'', AuthChange (Some ''u''), ToggleFav True ''b''] (fav_event UseHook (fav_start True Map.empty None))
   in fv_shown w = stored_ids (fv_store w) ''truestub:favorites:u''
    \<and> fv_shown (fav_event (ToggleFav False ''c'') w) = fv_shown w @ [''c'']"
proof -
  have "list_all stays [ToggleFav True ''a'', AuthChange (Some ''u''), ToggleFav True ''b'']" by (simp add: stays_def)
  from favourites_coherent [OF this, of True Map.empty None "''c''"] show ?thesis
    by (simp add: drifts_def isFavorite_def fav_run_def fav_start_def Let_def rerender_def readIds_def storageKey_def
        on_disk_def stored_ids_def text_items_def toggleFavorite_def writeIds_def)
qed

text \<open>
  With no component in use nobody hears of the other tab: the cached list is shown again, and the next toggle
  writes it over what the other tab stored.
\<close>

lemma favourite_of_other_tab_lost:
  "let key = ''truestub:favorites:guest'';
       w = fav_run [UseHook, LeaveHook, OtherTab key (Some (JArr [JStr ''a''])), UseHook] (fav_start True Map.empty None);
       t = fav_event (ToggleFav True ''b'') w
   in fv_shown w = [] \<and> stored_ids (fv_store w) key = [''a''] \<and> stored_ids (fv_store t) key = [''b'']"
  by (simp add: fav_run_def fav_start_def Let_def rerender_def readIds_def storageKey_def stored_ids_def text_items_def
      on_disk_def onStorage_def toggleFavorite_def writeIds_def)
end
