(* ===== verification/App_Pipeline.thy ===== *)
theory App_Pipeline
  imports App_Error Env_Config Balance_Monitor Account_Routes
begin

text \<open>
  The backend application as a whole: \<open>index.ts\<close> with the layers it mounts (\<open>middleware/security.ts\<close>,
  \<open>rateLimiter.ts\<close>, \<open>requestLogger.ts\<close>, \<open>rawBody.ts\<close>), the health routes, Firebase Admin
  (\<open>lib/firebase-admin.ts\<close>, \<open>config/firebase.ts\<close>) and error tracking (\<open>lib/sentry.ts\<close>, the fields of
  \<open>lib/logger.ts\<close>). Parameters: how Express matches a path with a mount, what a router does with a request,
  whether a rate limiter has had enough of a client, how \<open>express.json\<close> reads a body, Firebase. Express calls
  the layers in order; an error passes over those that are left to the error handler. The recovery-code
  router, which \<open>index.ts\<close> mounts without importing it, is taken as if it were there.
\<close>

section \<open>Cross-origin requests, request ids, limits\<close>

definition allowedOrigins :: "string \<Rightarrow> string list" where
  "allowedOrigins cors_origins = filter (\<lambda>o'. o' \<noteq> []) (map trim (split_on (CHR '','') cors_origins))"

definition cors_origin :: "string \<Rightarrow> string option \<Rightarrow> thrown option" where
  "cors_origin cors_origins origin =
     (if \<not> truthy origin \<or> the origin \<in> set (allowedOrigins cors_origins) then None
      else Some (ThrownError (''CORS: origin '' @ [CHR 0x27] @ the origin @ [CHR 0x27] @ '' is not allowed'')
             None False False))"

definition genReqId :: "string option \<Rightarrow> string \<Rightarrow> string" where
  "genReqId header uuid = (case header of None \<Rightarrow> uuid | Some h \<Rightarrow> h)"

definition customLogLevel :: "nat \<Rightarrow> bool \<Rightarrow> string" where
  "customLogLevel st err = (if err \<or> 500 \<le> st then ''error'' else if 400 \<le> st then ''warn'' else ''info'')"

definition redacted_headers :: "string list" where
  "redacted_headers = [''authorization'', ''cookie'', ''x-webhook-secret'']"

definition logged_headers :: "(string \<times> string) list \<Rightarrow> (string \<times> string) list" where
  "logged_headers hs = map (\<lambda>(k, v). (k, if k \<in> set redacted_headers then ''[REDACTED]'' else v)) hs"

definition auth_limiter_skips :: "string \<Rightarrow> bool" where
  "auth_limiter_skips node_env \<longleftrightarrow> node_env = ''test''"

definition write_limiter_skips :: "string \<Rightarrow> string \<Rightarrow> bool" where
  "write_limiter_skips node_env meth \<longleftrightarrow> node_env = ''test'' \<or> meth \<in> READ_METHODS"

text \<open>The id of a request is its own, else the one in force, else a new one.\<close>

definition correlationContext :: "string option \<Rightarrow> string option \<Rightarrow> string \<Rightarrow> string" where
  "correlationContext req_id current uuid = (case req_id of Some i \<Rightarrow> i | None \<Rightarrow> (case current of Some i \<Rightarrow> i | None \<Rightarrow> uuid))"

section \<open>The application\<close>

datatype layer = Helmet | Cors | RequestLogger | CorrelationContext | JsonBody | AuthLimiter | WriteLimiter
  | RequireAuth | RequireAuthForWrites | Mounted string

definition createApp :: "(string \<times> layer list) list" where
  "createApp =
     [([], [Helmet]), ([], [Cors]), ([], [RequestLogger]), ([], [JsonBody]),
      (''/api/auth'', [AuthLimiter]),
      (''/api/auth/recovery-codes'', [Mounted ''recoveryCodes'']),
      (''/health'', [Mounted ''health'']),
      (''/api/listings'', [WriteLimiter, RequireAuthForWrites, Mounted ''listings'']),
      (''/api/saved-searches'', [WriteLimiter, RequireAuth, Mounted ''savedSearches'']),
      (''/api/watchlist'', [WriteLimiter, RequireAuth, Mounted ''watchlist'']),
      (''/webhooks'', [Mounted ''webhook'']),
      (''/api/refunds'', [WriteLimiter, RequireAuth, Mounted ''refunds'']),
      (''/api/transfers'', [WriteLimiter, RequireAuth, Mounted ''transfers'']),
      (''/api/changelog'', [RequireAuth, Mounted ''changelog'']),
      (''/api/disputes'', [WriteLimiter, RequireAuth, Mounted ''disputes'']),
      (''/api/users'', [WriteLimiter, Mounted ''users''])]"

record http_req =
  hr_method :: string
  hr_path :: string
  hr_origin :: "string option"
  hr_authorization :: "string option"
  hr_request_id :: "string option"

text \<open>\<open>res.locals.user\<close>, \<open>req.id\<close> and the id in the asynchronous context.\<close>

record req_state =
  rs_user :: "token option"
  rs_id :: "string option"
  rs_correlation :: "string option"

datatype routed = FallsThrough | Replies nat | Raises thrown

record app =
  ap_node_env :: string
  ap_cors_origins :: string
  ap_under :: "string \<Rightarrow> string \<Rightarrow> bool"
  ap_limited :: "layer \<Rightarrow> http_req \<Rightarrow> bool"
  ap_body :: "http_req \<Rightarrow> thrown option"
  ap_verify :: verifier
  ap_router :: "string \<Rightarrow> http_req \<Rightarrow> req_state \<Rightarrow> routed"
  ap_uuid :: string

datatype app_step = Logged string | Entered string req_state

datatype app_answer = AnswerStatus nat | AnswerError handled | AnswerNotFound

datatype passed = Go req_state | Stop app_answer

text \<open>One layer; \<open>cors\<close> itself answers the preflight requests it allows.\<close>

fun layer_step :: "app \<Rightarrow> http_req \<Rightarrow> layer \<Rightarrow> req_state \<Rightarrow> app_step list \<times> passed" where
  "layer_step a q Helmet s = ([], Go s)"
| "layer_step a q Cors s = (case cors_origin (ap_cors_origins a) (hr_origin q) of
       Some e \<Rightarrow> ([], Stop (AnswerError (errorHandler (ap_node_env a) e)))
     | None \<Rightarrow> ([], if hr_method q = ''OPTIONS'' then Stop (AnswerStatus 204) else Go s))"
| "layer_step a q RequestLogger s =
     (let i = genReqId (hr_request_id q) (ap_uuid a) in ([Logged i], Go (s\<lparr>rs_id := Some i\<rparr>)))"
| "layer_step a q CorrelationContext s =
     ([], Go (s\<lparr>rs_correlation := Some (correlationContext (rs_id s) (rs_correlation s) (ap_uuid a))\<rparr>))"
| "layer_step a q JsonBody s = (case ap_body a q of
       Some e \<Rightarrow> ([], Stop (AnswerError (errorHandler (ap_node_env a) e))) | None \<Rightarrow> ([], Go s))"
| "layer_step a q AuthLimiter s =
     ([], if \<not> auth_limiter_skips (ap_node_env a) \<and> ap_limited a AuthLimiter q then Stop (AnswerStatus 429) else Go s)"
| "layer_step a q WriteLimiter s =
     ([], if \<not> write_limiter_skips (ap_node_env a) (hr_method q) \<and> ap_limited a WriteLimiter q
          then Stop (AnswerStatus 429) else Go s)"
| "layer_step a q RequireAuth s = (case requireAuth (ap_verify a) (hr_authorization q) of
       Inl r \<Rightarrow> ([], Stop (AnswerStatus (r_status r))) | Inr t \<Rightarrow> ([], Go (s\<lparr>rs_user := Some t\<rparr>)))"
| "layer_step a q RequireAuthForWrites s = (case requireAuthForWrites (ap_verify a) (hr_method q) (hr_authorization q) of
       Inl r \<Rightarrow> ([], Stop (AnswerStatus (r_status r)))
     | Inr None \<Rightarrow> ([], Go s) | Inr (Some t) \<Rightarrow> ([], Go (s\<lparr>rs_user := Some t\<rparr>)))"
| "layer_step a q (Mounted n) s = ([Entered n s], (case ap_router a n q s of
       FallsThrough \<Rightarrow> Go s | Replies st \<Rightarrow> Stop (AnswerStatus st)
     | Raises e \<Rightarrow> Stop (AnswerError (errorHandler (ap_node_env a) e))))"

fun run_layers :: "app \<Rightarrow> http_req \<Rightarrow> layer list \<Rightarrow> req_state \<Rightarrow> app_step list \<times> passed" where
  "run_layers a q [] s = ([], Go s)"
| "run_layers a q (l # ls) s = (case layer_step a q l s of
       (tr, Stop x) \<Rightarrow> (tr, Stop x)
     | (tr, Go s') \<Rightarrow> (let (tr', r) = run_layers a q ls s' in (tr @ tr', r)))"

fun run_app :: "app \<Rightarrow> http_req \<Rightarrow> (string \<times> layer list) list \<Rightarrow> req_state \<Rightarrow> app_step list \<times> app_answer" where
  "run_app a q [] s = ([], AnswerNotFound)"
| "run_app a q ((p, ls) # gs) s =
     (if p = [] \<or> ap_under a p (hr_path q)
      then (case run_layers a q ls s of
              (tr, Stop x) \<Rightarrow> (tr, x)
            | (tr, Go s') \<Rightarrow> (let (tr', x) = run_app a q gs s' in (tr @ tr', x)))
      else run_app a q gs s)"

definition handle :: "app \<Rightarrow> http_req \<Rightarrow> app_step list \<times> app_answer" where
  "handle a q = run_app a q createApp \<lparr>rs_user = None, rs_id = None, rs_correlation = None\<rparr>"

section \<open>Starting up\<close>

text \<open>The text of a private key has its escaped line ends put back.\<close>

fun unescape_newlines :: "string \<Rightarrow> string" where
  "unescape_newlines [] = []"
| "unescape_newlines [c] = [c]"
| "unescape_newlines (c # d # r) =
     (if c = CHR 0x5C \<and> d = CHR ''n'' then CHR 0x0A # unescape_newlines r else c # unescape_newlines (d # r))"

definition normalizedPrivateKey :: "string \<Rightarrow> string" where
  "normalizedPrivateKey key = trim (unescape_newlines key)"

definition shouldInitializeFirebase :: "string \<Rightarrow> string \<Rightarrow> bool" where
  "shouldInitializeFirebase node_env key \<longleftrightarrow> node_env \<noteq> ''test'' \<and> str_includes (normalizedPrivateKey key) ''BEGIN ''
     \<and> str_includes (normalizedPrivateKey key) ''PRIVATE KEY''"

text \<open>Without a key every token is refused.\<close>

definition firebase_verifier :: "string \<Rightarrow> string \<Rightarrow> verifier \<Rightarrow> verifier" where
  "firebase_verifier node_env key getAuth = (if shouldInitializeFirebase node_env key then getAuth else (\<lambda>_. None))"

text \<open>The second \<open>requireAuth\<close>, of \<open>lib/firebase-admin.ts\<close>: the reply, or the user's id.\<close>

definition fb_requireAuth :: "verifier \<Rightarrow> string option \<Rightarrow> auth_body reply + string" where
  "fb_requireAuth verify header =
     (let tok = (case header of None \<Rightarrow> None | Some h \<Rightarrow> if startsWith h ''Bearer '' then Some (trim (drop 7 h)) else None)
      in if \<not> truthy tok then Inl (Reply 401 (AuthError ''Missing authentication token''))
         else (case verify (the tok) of
                 None \<Rightarrow> Inl (Reply 401 (AuthError ''Invalid authentication token'')) | Some t \<Rightarrow> Inr (tk_uid t)))"

text \<open>\<open>main\<close>: the network check is a parameter that may throw; then whether the balance monitor starts.\<close>

definition start_server :: "(unit \<Rightarrow> thrown option) \<Rightarrow> env \<Rightarrow> thrown + bool" where
  "start_server assertNetworkConfigMatches e = (case assertNetworkConfigMatches () of
       Some x \<Rightarrow> Inl x | None \<Rightarrow> Inr (truthy (env_get e ''DISPUTE_RESOLVER_WALLET_ADDRESS'')))"

section \<open>Health\<close>

datatype health_body = HealthOk | HealthBalance string "jsnum option" "jsnum option" | HealthFailed string

definition health_root :: "health_body reply" where
  "health_root = Reply 200 HealthOk"

definition health_balance :: "thrown + balance_check \<Rightarrow> health_body reply" where
  "health_balance result = (case result of
       Inr r \<Rightarrow> Reply 200 (HealthBalance (if bc_low r then ''low'' else ''ok'') (bc_balance r) (bc_threshold r))
     | Inl err \<Rightarrow> Reply 500 (HealthFailed (case err of
           ThrownApp e \<Rightarrow> err_message e | ThrownError m _ _ _ \<Rightarrow> m | ThrownValue _ \<Rightarrow> ''unknown error'')))"

section \<open>Error tracking\<close>

record 'c sentry_event =
  se_message :: string
  se_level :: string
  se_tags :: "(string \<times> string) list"
  se_context :: 'c
  se_requestId :: "string option"

datatype 'c tracked = LogErrorLine string "string option" | ToSentry "'c sentry_event" | ToWebhook string string "string option"

record sentry =
  sn_initialized :: bool
  sn_inits :: "(string \<times> string \<times> rat) list"

definition initSentry :: "string option \<Rightarrow> string \<Rightarrow> sentry \<Rightarrow> sentry" where
  "initSentry dsn node_env s =
     (if sn_initialized s \<or> \<not> truthy dsn then s
      else \<lparr>sn_initialized = True,
            sn_inits = sn_inits s @ [(the dsn, node_env, if node_env = ''production'' then 1 / 10 else 0)]\<rparr>)"

definition request_tag :: "string option \<Rightarrow> (string \<times> string) list" where
  "request_tag requestId = (if truthy requestId then [(''requestId'', the requestId)] else [])"

definition beforeSend :: "string option \<Rightarrow> 'c sentry_event \<Rightarrow> 'c sentry_event" where
  "beforeSend requestId e = (if truthy requestId
     then e\<lparr>se_tags := filter (\<lambda>t. fst t \<noteq> ''requestId'') (se_tags e) @ request_tag requestId, se_requestId := requestId\<rparr>
     else e)"

text \<open>
  The two alerts: what is logged, sent to Sentry and posted, given the id in force, the configured webhook
  and whether posting fails. The payload of the post is here its text and the request id.
\<close>

definition post_alert :: "string option \<Rightarrow> bool \<Rightarrow> string \<Rightarrow> string \<Rightarrow> string option \<Rightarrow> 'c tracked list" where
  "post_alert webhookUrl fails line note requestId =
     (if \<not> truthy webhookUrl then []
      else ToWebhook (the webhookUrl) line requestId # (if fails then [LogErrorLine note requestId] else []))"

definition alertCriticalFailure ::
    "string option \<Rightarrow> string option \<Rightarrow> bool \<Rightarrow> string \<Rightarrow> string \<Rightarrow> 'c \<Rightarrow> 'c tracked list" where
  "alertCriticalFailure requestId webhookUrl fails kind message context =
     (let line = ''[CRITICAL_ALERT] '' @ kind @ '' failure: '' @ message; i = (if truthy requestId then requestId else None)
      in [LogErrorLine line i,
          ToSentry \<lparr>se_message = line, se_level = ''fatal'',
                    se_tags = [(''alert'', ''critical''), (''kind'', kind)] @ request_tag requestId,
                    se_context = context, se_requestId = i\<rparr>]
         @ post_alert webhookUrl fails ('':rotating_light: CRITICAL '' @ kind @ '' failure: '' @ message)
             ''[CRITICAL_ALERT] failed to deliver alert'' i)"

definition alertNotificationDeliveryFailure ::
    "string option \<Rightarrow> bool \<Rightarrow> string \<Rightarrow> string \<Rightarrow> string \<Rightarrow> 'c \<Rightarrow> 'c tracked list" where
  "alertNotificationDeliveryFailure webhookUrl fails notificationType reason message context =
     (let line = ''[NOTIFICATION_DELIVERY_FAILURE] '' @ notificationType @ '' ('' @ reason @ ''): '' @ message
      in [LogErrorLine line None,
          ToSentry \<lparr>se_message = line, se_level = ''error'',
                    se_tags = [(''alert'', ''notification_delivery_failure''), (''notificationType'', notificationType),
                               (''reason'', reason)],
                    se_context = context, se_requestId = None\<rparr>]
         @ post_alert webhookUrl fails
             ('':warning: NOTIFICATION DELIVERY FAILURE '' @ notificationType @ '' ('' @ reason @ ''): '' @ message)
             ''[NOTIFICATION_DELIVERY_FAILURE] failed to deliver alert'' None)"

definition low_balance_event :: "(jsnum \<Rightarrow> string) \<Rightarrow> low_balance_alert \<Rightarrow> low_balance_alert sentry_event" where
  "low_balance_event show_num d =
     \<lparr>se_message = ''[LOW_BALANCE] Dispute-resolver wallet balance '' @ show_num (lb_balance d) @ '' is below threshold ''
                     @ show_num (lb_threshold d),
      se_level = ''warning'', se_tags = [(''alert'', ''dispute_resolver_low_balance'')], se_context = d,
      se_requestId = None\<rparr>"

definition captureMessage :: "string option \<Rightarrow> string \<Rightarrow> 'c \<Rightarrow> 'c sentry_event" where
  "captureMessage requestId message context =
     \<lparr>se_message = message, se_level = ''info'', se_tags = request_tag requestId, se_context = context,
      se_requestId = (if truthy requestId then requestId else None)\<rparr>"

text \<open>The fields every log line gets.\<close>

definition log_mixin :: "string option \<Rightarrow> (string \<times> string) list" where
  "log_mixin requestId = request_tag requestId"

section \<open>What a request passes before a router sees it\<close>

text \<open>A step of the application is a step of one of its mounts, in some state.\<close>

lemma run_app_step:
  "x \<in> set (fst (run_app a q gs s)) \<Longrightarrow> \<exists>(p, ls) \<in> set gs. \<exists>s'. x \<in> set (fst (run_layers a q ls s'))"
proof (induction gs arbitrary: s)
  case (Cons g gs)
  obtain p ls where g: "g = (p, ls)" by (cases g)
  show ?case
  proof (cases "p = [] \<or> ap_under a p (hr_path q)")
    case True
    obtain tr r where r: "run_layers a q ls s = (tr, r)" by (cases "run_layers a q ls s")
    show ?thesis
    proof (cases r)
      case (Go s')
      with Cons.prems True r g have "x \<in> set tr \<or> x \<in> set (fst (run_app a q gs s'))" by (auto split: prod.splits)
      then show ?thesis
      proof
        assume "x \<in> set tr"
        with r have "x \<in> set (fst (run_layers a q ls s))" by simp
        with g show ?thesis by auto
      next
        assume "x \<in> set (fst (run_app a q gs s'))"
        from Cons.IH [OF this] show ?thesis by auto
      qed
    next
      case (Stop y)
      with Cons.prems True r g have "x \<in> set (fst (run_layers a q ls s))" by auto
      with g show ?thesis by auto
    qed
  next
    case False
    with Cons.prems g have "x \<in> set (fst (run_app a q gs s))" by simp
    from Cons.IH [OF this] show ?thesis by auto
  qed
qed simp

text \<open>No layer but the correlation one sets the id in force.\<close>

lemma layer_correlation: "l \<noteq> CorrelationContext \<Longrightarrow> layer_step a q l s = (tr, Go s') \<Longrightarrow> rs_correlation s' = rs_correlation s"
  by (cases l) (auto simp: Let_def split: option.splits sum.splits if_splits routed.splits)

definition uncorrelated :: "app_step \<Rightarrow> bool" where
  "uncorrelated x = (case x of Logged i \<Rightarrow> True | Entered n s \<Rightarrow> rs_correlation s = None)"

lemma layer_uncorrelated: "rs_correlation s = None \<Longrightarrow> list_all uncorrelated (fst (layer_step a q l s))"
  by (cases l) (auto simp: uncorrelated_def Let_def split: option.splits sum.splits)

lemma layers_uncorrelated:
  "CorrelationContext \<notin> set ls \<Longrightarrow> rs_correlation s = None \<Longrightarrow> run_layers a q ls s = (tr, r) \<Longrightarrow>
   list_all uncorrelated tr \<and> (case r of Go s' \<Rightarrow> rs_correlation s' = None | Stop y \<Rightarrow> True)"
proof (induction ls arbitrary: s tr r)
  case (Cons l ls)
  obtain tr1 r1 where l: "layer_step a q l s = (tr1, r1)" by (cases "layer_step a q l s")
  have tr1: "list_all uncorrelated tr1" using layer_uncorrelated [OF Cons.prems(2), of a q l] by (simp add: l)
  show ?case
  proof (cases r1)
    case (Go s1)
    have s1: "rs_correlation s1 = None" using layer_correlation [of l a q s tr1 s1] Cons.prems l Go by auto
    obtain tr2 r2 where ls: "run_layers a q ls s1 = (tr2, r2)" by (cases "run_layers a q ls s1")
    have "list_all uncorrelated tr2 \<and> (case r2 of Go s' \<Rightarrow> rs_correlation s' = None | Stop y \<Rightarrow> True)"
      using Cons.prems(1) by (intro Cons.IH [OF _ s1 ls]) simp
    then show ?thesis using tr1 Cons.prems(3) l Go ls by auto
  next
    case (Stop y)
    then show ?thesis using tr1 Cons.prems(3) l by auto
  qed
qed auto

lemma app_uncorrelated:
  "list_all (\<lambda>(p, ls). CorrelationContext \<notin> set ls) gs \<Longrightarrow> rs_correlation s = None \<Longrightarrow>
   list_all uncorrelated (fst (run_app a q gs s))"
proof (induction gs arbitrary: s)
  case (Cons g gs)
  obtain p ls where g: "g = (p, ls)" by (cases g)
  obtain tr r where r: "run_layers a q ls s = (tr, r)" by (cases "run_layers a q ls s")
  have ok: "list_all uncorrelated tr \<and> (case r of Go s' \<Rightarrow> rs_correlation s' = None | Stop y \<Rightarrow> True)"
    using Cons.prems g by (intro layers_uncorrelated [OF _ _ r]) simp_all
  have gs: "list_all (\<lambda>(p, ls). CorrelationContext \<notin> set ls) gs" using Cons.prems by simp
  show ?case
  proof (cases r)
    case (Go s')
    then have "list_all uncorrelated (fst (run_app a q gs s'))" using ok by (intro Cons.IH [OF gs]) simp
    then show ?thesis using Cons.IH [OF gs Cons.prems(2)] ok r Go g by (auto split: prod.splits)
  next
    case (Stop y)
    then show ?thesis using Cons.IH [OF gs Cons.prems(2)] ok r g by auto
  qed
qed simp

text \<open>
  What has been established when a router is entered: the verified user of the header, except for the open
  ones and the reads of listings, and that the write limit is not reached.
\<close>

definition authenticated :: "app \<Rightarrow> http_req \<Rightarrow> req_state \<Rightarrow> bool" where
  "authenticated a q s \<longleftrightarrow> (case rs_user s of None \<Rightarrow> False | Some t \<Rightarrow> requireAuth (ap_verify a) (hr_authorization q) = Inr t)"

definition within_limit :: "app \<Rightarrow> http_req \<Rightarrow> bool" where
  "within_limit a q \<longleftrightarrow> write_limiter_skips (ap_node_env a) (hr_method q) \<or> \<not> ap_limited a WriteLimiter q"

definition entry_ok :: "app \<Rightarrow> http_req \<Rightarrow> string \<Rightarrow> req_state \<Rightarrow> bool" where
  "entry_ok a q n s \<longleftrightarrow>
     (if n \<in> set [''savedSearches'', ''watchlist'', ''refunds'', ''transfers'', ''disputes''] then authenticated a q s \<and> within_limit a q
      else if n = ''changelog'' then authenticated a q s
      else if n = ''listings'' then within_limit a q \<and> (hr_method q \<in> READ_METHODS \<or> authenticated a q s)
      else if n = ''users'' then within_limit a q
      else n \<in> set [''recoveryCodes'', ''health'', ''webhook''])"

definition step_ok :: "app \<Rightarrow> http_req \<Rightarrow> app_step \<Rightarrow> bool" where
  "step_ok a q x = (case x of Logged i \<Rightarrow> True | Entered n s \<Rightarrow> entry_ok a q n s)"

lemma open_group:
  "n \<in> set [''recoveryCodes'', ''health'', ''webhook''] \<Longrightarrow> list_all (step_ok a q) (fst (run_layers a q [Mounted n] s))"
  by (auto simp: step_ok_def entry_ok_def split: routed.splits)

lemma guarded_group:
  assumes "n \<in> set [''savedSearches'', ''watchlist'', ''refunds'', ''transfers'', ''disputes'']"
  shows "list_all (step_ok a q) (fst (run_layers a q [WriteLimiter, RequireAuth, Mounted n] s))"
proof -
  have "authenticated a q s \<Longrightarrow> within_limit a q \<Longrightarrow> entry_ok a q n s" for s using assms by (simp add: entry_ok_def)
  then show ?thesis
    by (auto simp: step_ok_def authenticated_def within_limit_def split: sum.splits routed.splits if_splits)
qed

lemma listing_group: "list_all (step_ok a q) (fst (run_layers a q [WriteLimiter, RequireAuthForWrites, Mounted ''listings''] s))"
proof (cases "hr_method q \<in> READ_METHODS")
  case False
  then show ?thesis
    by (auto simp: step_ok_def entry_ok_def authenticated_def within_limit_def requireAuthForWrites_def
        split: sum.splits routed.splits if_splits)
qed (auto simp: step_ok_def entry_ok_def within_limit_def requireAuthForWrites_def
        split: sum.splits routed.splits if_splits)

lemma changelog_group: "list_all (step_ok a q) (fst (run_layers a q [RequireAuth, Mounted ''changelog''] s))"
  by (auto simp: step_ok_def entry_ok_def authenticated_def split: sum.splits routed.splits)

lemma users_group: "list_all (step_ok a q) (fst (run_layers a q [WriteLimiter, Mounted ''users''] s))"
  by (auto simp: step_ok_def entry_ok_def within_limit_def split: routed.splits if_splits)

lemma global_group: "l \<in> {Helmet, Cors, RequestLogger, JsonBody, AuthLimiter} \<Longrightarrow> list_all (step_ok a q) (fst (run_layers a q [l] s))"
  by (auto simp: step_ok_def Let_def split: option.splits if_splits)

lemma groups_ok: "(p, ls) \<in> set createApp \<Longrightarrow> list_all (step_ok a q) (fst (run_layers a q ls s))"
  by (auto simp del: run_layers.simps
        simp: createApp_def global_group open_group guarded_group listing_group changelog_group users_group)

lemma app_steps_ok: "list_all (step_ok a q) (fst (handle a q))"
proof -
  have "step_ok a q x" if "x \<in> set (fst (handle a q))" for x
  proof -
    from run_app_step [OF that [unfolded handle_def]]
    obtain p ls s where "(p, ls) \<in> set createApp" "x \<in> set (fst (run_layers a q ls s))" by auto
    then show ?thesis using groups_ok [of p ls a q s] by (simp add: list_all_iff)
  qed
  then show ?thesis by (simp add: list_all_iff)
qed

lemma cors_stops:
  "cors_origin (ap_cors_origins a) (hr_origin q) = Some e \<Longrightarrow>
   handle a q = ([], AnswerError (errorHandler (ap_node_env a) e))"
  by (simp add: handle_def createApp_def)

lemma cors_error_forbidden:
  "cors_origin o1 o2 = Some e \<Longrightarrow> hd_reply (errorHandler env e) = Reply 403 \<lparr>eb_code = ''CORS_FORBIDDEN'',
     eb_message = ''Cross-origin request blocked.'', eb_stack = None\<rparr>"
  by (auto simp: cors_origin_def errorHandler_def isCorsError_def startsWith_def split: if_splits)

text \<open>A client over the limit of \<open>/api/auth\<close> reaches no router.\<close>

lemma auth_limit_stops:
  assumes "ap_under a ''/api/auth'' (hr_path q)" and "\<not> auth_limiter_skips (ap_node_env a)" and "ap_limited a AuthLimiter q"
  shows "list_all (\<lambda>x. case x of Logged i \<Rightarrow> True | Entered n s \<Rightarrow> False) (fst (handle a q))"
  using assms by (simp add: handle_def createApp_def Let_def split: option.splits)

text \<open>The handlers of the two routers that are mounted without \<open>requireAuth\<close> and act for a user ask for the token themselves.\<close>

lemma own_check:
  assumes "authenticate verify header = Inl r"
  shows "\<exists>m. delete_me_route verify server deleteUser port env amb now header (clog, w) = (Reply 401 (AbError m), (clog, w), [])"
    and "\<exists>m. create_review_route verify server env amb header body w = (Reply 401 (AbError m), w)"
    and "\<exists>m. new_codes_route verify sha256 random_hex server env amb header w = (Reply 401 (AbError m), w)"
proof -
  obtain st m where r: "r = Reply st (AuthError m)" by (metis auth_body.exhaust reply.exhaust)
  moreover have "st = 401" using authenticate_Inl_401 [OF assms] r by simp
  ultimately have "signed_in verify header = Inl (Reply 401 (AbError m))" using assms by (simp add: signed_in_def)
  then show "\<exists>m. delete_me_route verify server deleteUser port env amb now header (clog, w) = (Reply 401 (AbError m), (clog, w), [])"
    and "\<exists>m. create_review_route verify server env amb header body w = (Reply 401 (AbError m), w)"
    and "\<exists>m. new_codes_route verify sha256 random_hex server env amb header w = (Reply 401 (AbError m), w)"
    by (simp_all add: delete_me_route_def create_review_route_def new_codes_route_def)
qed

text \<open>
  C28: What stands between a request and a router, whatever Express matches and the routers answer. Saved
  searches, the watchlist, refunds, transfers and disputes are entered only with the verified user of the
  header's token and within the write limit; the changelog with that user, but with no write limit; listings
  within the write limit, and for a write with that user. The users' router is entered within the write limit
  and without a look at the token: its two handlers, and the one that makes recovery codes, verify it
  themselves, and answer 401 and leave everything untouched without it. The recovery codes, health and
  webhooks are mounted with no check; a client over the limit of \<open>/api/auth\<close> reaches no router. A request
  from a foreign origin gets the fixed 403, is not logged and reaches no router either; and no router ever
  sees a correlation id, as the layer that sets it is not mounted.
\<close>

theorem app_guarded:
  "list_all (\<lambda>x. case x of Logged i \<Rightarrow> True | Entered n s \<Rightarrow>
       rs_correlation s = None
     \<and> (if n \<in> set [''savedSearches'', ''watchlist'', ''refunds'', ''transfers'', ''disputes'']
        then authenticated a q s \<and> within_limit a q
        else if n = ''changelog'' then authenticated a q s
        else if n = ''listings'' then within_limit a q \<and> (hr_method q \<in> READ_METHODS \<or> authenticated a q s)
        else if n = ''users'' then within_limit a q
        else n \<in> set [''recoveryCodes'', ''health'', ''webhook''])) (fst (handle a q))
   \<and> (case authenticate (ap_verify a) (hr_authorization q) of Inr t \<Rightarrow> True | Inl r \<Rightarrow>
        (\<exists>m. delete_me_route (ap_verify a) server deleteUser port env amb now (hr_authorization q) (clog, w)
               = (Reply 401 (AbError m), (clog, w), []))
      \<and> (\<exists>m. create_review_route (ap_verify a) server env amb (hr_authorization q) body w = (Reply 401 (AbError m), w))
      \<and> (\<exists>m. new_codes_route (ap_verify a) sha256 random_hex server env amb (hr_authorization q) w
               = (Reply 401 (AbError m), w)))
   \<and> (if ap_under a ''/api/auth'' (hr_path q) \<and> \<not> auth_limiter_skips (ap_node_env a) \<and> ap_limited a AuthLimiter q
      then list_all (\<lambda>x. case x of Logged i \<Rightarrow> True | Entered n s \<Rightarrow> False) (fst (handle a q)) else True)
   \<and> (case cors_origin (ap_cors_origins a) (hr_origin q) of None \<Rightarrow> True
      | Some e \<Rightarrow> fst (handle a q) = [] \<and> (case snd (handle a q) of AnswerError h \<Rightarrow> r_status (hd_reply h) = 403 | _ \<Rightarrow> False))"
proof -
  have u: "list_all uncorrelated (fst (handle a q))"
    unfolding handle_def by (rule app_uncorrelated) (simp_all add: createApp_def)
  have "list_all (\<lambda>x. uncorrelated x \<and> step_ok a q x) (fst (handle a q))"
    using u app_steps_ok [of a q] by (simp add: list_all_iff)
  then have steps: "list_all (\<lambda>x. case x of Logged i \<Rightarrow> True
      | Entered n s \<Rightarrow> rs_correlation s = None \<and> entry_ok a q n s) (fst (handle a q))"
    by (rule list.pred_mono_strong) (auto simp: uncorrelated_def step_ok_def split: app_step.splits)
  have cors: "case cors_origin (ap_cors_origins a) (hr_origin q) of None \<Rightarrow> True
      | Some e \<Rightarrow> fst (handle a q) = [] \<and> (case snd (handle a q) of AnswerError h \<Rightarrow> r_status (hd_reply h) = 403 | _ \<Rightarrow> False)"
    by (auto simp: cors_stops cors_error_forbidden split: option.splits)
  have own: "case authenticate (ap_verify a) (hr_authorization q) of Inr t \<Rightarrow> True | Inl r \<Rightarrow>
        (\<exists>m. delete_me_route (ap_verify a) server deleteUser port env amb now (hr_authorization q) (clog, w)
               = (Reply 401 (AbError m), (clog, w), []))
      \<and> (\<exists>m. create_review_route (ap_verify a) server env amb (hr_authorization q) body w = (Reply 401 (AbError m), w))
      \<and> (\<exists>m. new_codes_route (ap_verify a) sha256 random_hex server env amb (hr_authorization q) w
               = (Reply 401 (AbError m), w))"
    using own_check by (auto split: sum.split)
  show ?thesis
    by (intro conjI if_thenI; (rule steps [unfolded entry_ok_def] own cors | (elim conjE, rule auth_limit_stops; assumption)))
qed

text \<open>With the layer mounted behind the logger, every router would see the request's own id.\<close>

lemma mounted_correlation:
  "run_layers a q [RequestLogger, CorrelationContext, Mounted n] s =
     (let i = genReqId (hr_request_id q) (ap_uuid a); s' = s\<lparr>rs_id := Some i, rs_correlation := Some i\<rparr>
      in ([Logged i, Entered n s'], snd (layer_step a q (Mounted n) s')))"
  by (simp add: Let_def correlationContext_def split: routed.splits)

section \<open>Start-up, health and alerts\<close>

text \<open>The address of the wallet is no key of the validated environment, so the monitor never starts.\<close>

lemma monitor_never_starts:
  assumes "validateEnv parse raw = Some e"
  shows "start_server chk e \<noteq> Inr True"
proof -
  have "env_get e ''DISPUTE_RESOLVER_WALLET_ADDRESS'' = None"
    using validateEnv_keys [OF assms, of "''DISPUTE_RESOLVER_WALLET_ADDRESS''"]
    by (cases "env_get e ''DISPUTE_RESOLVER_WALLET_ADDRESS''") (simp_all add: envSchema_def)
  then show ?thesis by (simp add: start_server_def truthy_def split: option.splits)
qed

text \<open>And the health route calls the wallet healthy when its balance cannot be read.\<close>

lemma unreadable_is_ok:
  "bc_error r \<noteq> None \<Longrightarrow> (r, as) = checkDisputeResolverBalance query penv \<Longrightarrow>
   \<exists>t. health_balance (Inr r) = Reply 200 (HealthBalance ''ok'' None t)"
  by (auto simp: checkDisputeResolverBalance_def health_balance_def Let_def split: if_splits sum.splits option.splits)

lemma init_step:
  "length (sn_inits s) \<le> of_bool (sn_initialized s) \<Longrightarrow>
   length (sn_inits (initSentry dsn node_env s)) \<le> of_bool (sn_initialized (initSentry dsn node_env s))"
  by (cases "sn_initialized s") (simp_all add: initSentry_def)

lemma sentry_once:
  "length (sn_inits s) \<le> of_bool (sn_initialized s) \<Longrightarrow> length (sn_inits (foldl (\<lambda>s c. initSentry (fst c) (snd c) s) s cs)) \<le> 1"
proof (induction cs arbitrary: s)
  case Nil
  then show ?case by (cases "sn_initialized s") simp_all
next
  case (Cons c cs)
  show ?case using Cons.IH [OF init_step [OF Cons.prems, of "fst c" "snd c"]] by simp
qed

lemma before_send_tag: "truthy i \<Longrightarrow> (''requestId'', the i) \<in> set (se_tags (beforeSend i e)) \<and> se_requestId (beforeSend i e) = i"
  by (simp add: beforeSend_def request_tag_def)

lemma alert_always_logged:
  "\<exists>e rest. alertCriticalFailure i url fails kind msg ctx
     = LogErrorLine (''[CRITICAL_ALERT] '' @ kind @ '' failure: '' @ msg) (if truthy i then i else None) # ToSentry e # rest
   \<and> se_level e = ''fatal'' \<and> se_context e = ctx \<and> (rest = [] \<longleftrightarrow> \<not> truthy url)"
  by (simp add: alertCriticalFailure_def post_alert_def Let_def)

text \<open>The two guards agree on every token without blanks around it.\<close>

lemma guards_agree:
  assumes "tok \<noteq> []" and "trim tok = tok"
  shows "fb_requireAuth verify (Some (''Bearer '' @ tok)) = Inr i \<longleftrightarrow>
    (\<exists>t. requireAuth verify (Some (''Bearer '' @ tok)) = Inr t \<and> tk_uid t = i)"
  using assms by (auto simp: fb_requireAuth_def requireAuth_def authenticate_def startsWith_def truthy_def Let_def split: option.splits)

lemma test_mode_refuses: "firebase_verifier ''test'' key getAuth tok = None"
  by (simp add: firebase_verifier_def shouldInitializeFirebase_def)

lemma unescape_plain: "CHR 0x5C \<notin> set s \<Longrightarrow> unescape_newlines s = s"
  by (induction s rule: unescape_newlines.induct) auto
end
