(* ===== verification/Ticket_Transfer.thy ===== *)
theory Ticket_Transfer
  imports Escrow_Mutations
begin

text \<open>
  Handing over a ticket on the escrow dashboard: which action \<open>components/events/EventMilestoneActions.tsx\<close>
  offers, the form of \<open>TicketTransferApproval.tsx\<close> and the one of \<open>TicketTransferCompletion.tsx\<close> with the
  blocks they embed, and \<open>lib/booking-escrow-api.ts\<close>, which reads from Hasura what an escrow is created for
  and records it. The wallet SDK is that of \<open>Escrow_Mutations\<close>; Hasura, the text of the evidence
  (\<open>JSON.stringify\<close>) and what the user answers to a confirmation are parameters. The calls to services that the
  two forms have commented out are no part of the program.
\<close>

section \<open>The purchase and the action offered\<close>

record transfer_meta =
  tm_purchaseId :: string
  tm_eventName :: string
  tm_transferDate :: string
  tm_eventDate :: string
  tm_guestName :: "string option"
  tm_guestEmail :: "string option"
  tm_seatNumber :: "string option"

record transfer_escrow =
  te_id :: string
  te_contractId :: string
  te_status :: string
  te_nextMilestone :: "string option"
  te_metadata :: "transfer_meta option"

record ticket_purchase =
  tp_id :: string
  tp_guestName :: string
  tp_guestEmail :: string
  tp_transferDate :: string
  tp_eventDate :: string
  tp_seatNumber :: "string option"
  tp_status :: string

text \<open>\<open>x || d\<close> on an optional text.\<close>

definition or_text :: "string option \<Rightarrow> string \<Rightarrow> string" where
  "or_text x d = (if truthy x then the x else d)"

definition purchase_status :: "string \<Rightarrow> string" where
  "purchase_status st = (if st = ''funded'' then ''pending''
     else if st = ''transfer_confirmed'' then ''transfer_confirmed''
     else if st = ''transfer_finalized'' \<or> st = ''completed'' then ''transfer_finalized''
     else if st = ''cancelled'' then ''cancelled'' else ''pending'')"

definition to_purchase :: "transfer_escrow \<Rightarrow> ticket_purchase" where
  "to_purchase e = (let m = te_metadata e; field = (\<lambda>f. map_option f m) in
     \<lparr>tp_id = or_text (field tm_purchaseId) (te_id e),
      tp_guestName = or_text (Option.bind m tm_guestName) ''Guest'',
      tp_guestEmail = or_text (Option.bind m tm_guestEmail) [],
      tp_transferDate = or_text (field tm_transferDate) [], tp_eventDate = or_text (field tm_eventDate) [],
      tp_seatNumber = Option.bind m tm_seatNumber, tp_status = purchase_status (te_status e)\<rparr>)"

definition showTransfer :: "string \<Rightarrow> transfer_escrow \<Rightarrow> bool" where
  "showTransfer userRole e \<longleftrightarrow> userRole = ''event'' \<and> te_status e = ''funded'' \<and> te_nextMilestone e = Some ''transfer_initiated''"

definition showCompletion :: "string \<Rightarrow> transfer_escrow \<Rightarrow> bool" where
  "showCompletion userRole e \<longleftrightarrow> (userRole = ''event'' \<or> userRole = ''admin'') \<and> te_status e = ''transfer_confirmed''
     \<and> te_nextMilestone e = Some ''transfer_completed''"

section \<open>The two forms\<close>

record approval_form =
  af_seatNumber :: string
  af_wifiPassword :: string
  af_signature :: string

definition isFormValid :: "approval_form \<Rightarrow> bool" where
  "isFormValid f \<longleftrightarrow> 0 < length (trim (af_seatNumber f))"

datatype ticket_condition = Excellent | Good | Fair | Poor

record completion_form =
  cf_hasIssue :: bool
  cf_condition :: ticket_condition
  cf_description :: string

definition completion_initial :: completion_form where
  "completion_initial = \<lparr>cf_hasIssue = False, cf_condition = Good, cf_description = []\<rparr>"

definition completion_status :: "completion_form \<Rightarrow> string" where
  "completion_status f = (if cf_hasIssue f then ''disputed'' else ''completed'')"

text \<open>The evidence of an issue; the metadata keeps a description that was typed before the box was cleared.\<close>

definition completion_evidence :: "(completion_form \<Rightarrow> string) \<Rightarrow> completion_form \<Rightarrow> string option" where
  "completion_evidence stringify f = (if cf_hasIssue f then Some (stringify f) else None)"

definition completion_metadata :: "completion_form \<Rightarrow> bool \<times> string" where
  "completion_metadata f = (cf_hasIssue f, cf_description f)"

text \<open>
  The two wallets a form knows: that of the wallet context and the address of the authentication store. The
  completion prefers the wallet of the platform, if one is configured.
\<close>

record form_wallets =
  fw_walletAddress :: "string option"
  fw_address :: "string option"
  fw_platform :: "string option"

definition approverWallet :: "form_wallets \<Rightarrow> string" where
  "approverWallet w = or_text (fw_walletAddress w) (or_text (fw_address w) [])"

definition platformWallet :: "form_wallets \<Rightarrow> string" where
  "platformWallet w = or_text (fw_platform w) (approverWallet w)"

record transfer_page =
  ta_transferOpen :: bool
  ta_completionOpen :: bool
  ta_completed :: nat
  ta_block :: block_state

definition succeeded :: "(thrown + string option) \<times> tx_event list \<Rightarrow> bool" where
  "succeeded r \<longleftrightarrow> (case fst r of Inl e \<Rightarrow> False | Inr c \<Rightarrow> True)"

text \<open>
  A click on the button of the approval, which is there for a valid form in the open dialog, and what
  \<open>onSuccess\<close> does; likewise for the completion. The milestones are the first and the second.
\<close>

definition confirm_transfer ::
    "sdk \<Rightarrow> form_wallets \<Rightarrow> string \<Rightarrow> transfer_escrow \<Rightarrow> approval_form \<Rightarrow> bool \<Rightarrow> transfer_page \<Rightarrow> transfer_page" where
  "confirm_transfer k w userRole e f confirmed s =
     (if \<not> showTransfer userRole e \<or> \<not> ta_transferOpen s \<or> \<not> isFormValid f then s
      else (let wallet = or_text (fw_walletAddress w) [];
                who = (if approverWallet w \<noteq> [] then approverWallet w else wallet);
                b = approve_contract k wallet (te_contractId e) ''0'' (approverWallet w) (Some confirmed) (ta_block s);
                ok = confirmed \<and> succeeded (approveMilestone k (PayApprove (te_contractId e) ''0'' who) MultiRelease who
                       (bs_history (ta_block s)))
            in if ok then s\<lparr>ta_block := b, ta_transferOpen := False, ta_completed := ta_completed s + 1\<rparr>
               else s\<lparr>ta_block := b\<rparr>))"

definition complete_transfer ::
    "sdk \<Rightarrow> (completion_form \<Rightarrow> string) \<Rightarrow> form_wallets \<Rightarrow> string \<Rightarrow> transfer_escrow \<Rightarrow> completion_form \<Rightarrow> bool
     \<Rightarrow> transfer_page \<Rightarrow> transfer_page" where
  "complete_transfer k stringify w userRole e f confirmed s =
     (if \<not> showCompletion userRole e \<or> \<not> ta_completionOpen s then s
      else (let who = platformWallet w; ev = completion_evidence stringify f;
                b = change_contract k who (te_contractId e) ''1'' (completion_status f) ev (Some confirmed) (ta_block s);
                ok = confirmed \<and> succeeded (changeMilestoneStatus k
                       (PayChangeStatus (te_contractId e) ''1'' (completion_status f) (if truthy ev then ev else None) who)
                       MultiRelease who (bs_history (ta_block s)))
            in if ok then s\<lparr>ta_block := b, ta_completionOpen := False, ta_completed := ta_completed s + 1\<rparr>
               else s\<lparr>ta_block := b\<rparr>))"

section \<open>What an escrow is created for\<close>

record booked_address =
  ba_street :: "string option"
  ba_neighborhood :: "string option"
  ba_city :: "string option"
  ba_country :: "string option"

record booked_listing =
  bl_id :: string
  bl_name :: string
  bl_price :: rat
  bl_image_urls :: "string list option"
  bl_address :: "booked_address option"
  bl_owner_wallets :: "string list option"

record bid_request =
  br_id :: string
  br_proposed_price :: "rat option"
  br_move_in :: string
  br_move_out :: "string option"
  br_tenant :: "(string \<times> string option \<times> string option) option"
  br_apartment :: booked_listing

record booking_context =
  bx_id :: string
  bx_roomId :: string
  bx_totalAmount :: rat
  bx_checkIn :: string
  bx_checkOut :: string
  bx_guestEmail :: string
  bx_guestName :: "string option"
  bx_eventName :: string
  bx_walletAddress :: string
  bx_location :: "string option"
  bx_imageUrl :: "string option"
  bx_pricePerNight :: rat

definition present_texts :: "string option list \<Rightarrow> string list" where
  "present_texts xs = concat (map (\<lambda>x. if truthy x then [the x] else []) xs)"

definition formatListingAddress :: "booked_address option \<Rightarrow> string" where
  "formatListingAddress a = (case a of None \<Rightarrow> []
     | Some x \<Rightarrow> join '', '' (present_texts [ba_street x, ba_neighborhood x, ba_city x, ba_country x]))"

definition non_empty_text :: "string \<Rightarrow> string option" where
  "non_empty_text s = (if s = [] then None else Some s)"

definition first_item :: "'a list option \<Rightarrow> 'a option" where
  "first_item xs = (case xs of Some (x # _) \<Rightarrow> Some x | _ \<Rightarrow> None)"

definition NO_WALLET :: string where
  "NO_WALLET = ''The seller has not connected a payout wallet yet, so an escrow cannot be created.''"

definition fetchBookingEscrowContext :: "(string \<Rightarrow> thrown + bid_request option) \<Rightarrow> string \<Rightarrow> thrown + booking_context" where
  "fetchBookingEscrowContext query bookingId = (case query bookingId of
       Inl e \<Rightarrow> Inl e
     | Inr None \<Rightarrow> Inl (plain_error (''Booking '' @ bookingId @ '' was not found.''))
     | Inr (Some bid) \<Rightarrow>
         (let listing = br_apartment bid; sellerWallet = first_item (bl_owner_wallets listing);
              guestName = join '' '' (present_texts (case br_tenant bid of None \<Rightarrow> [] | Some (_, f, l) \<Rightarrow> [f, l]))
          in if \<not> truthy sellerWallet then Inl (plain_error NO_WALLET)
             else Inr \<lparr>bx_id = br_id bid, bx_roomId = bl_id listing,
               bx_totalAmount = (case br_proposed_price bid of None \<Rightarrow> bl_price listing | Some p \<Rightarrow> p),
               bx_checkIn = br_move_in bid, bx_checkOut = (case br_move_out bid of None \<Rightarrow> br_move_in bid | Some d \<Rightarrow> d),
               bx_guestEmail = (case br_tenant bid of None \<Rightarrow> [] | Some (m, _, _) \<Rightarrow> m),
               bx_guestName = non_empty_text guestName, bx_eventName = bl_name listing,
               bx_walletAddress = the sellerWallet, bx_location = non_empty_text (formatListingAddress (bl_address listing)),
               bx_imageUrl = first_item (bl_image_urls listing), bx_pricePerNight = bl_price listing\<rparr>))"

record escrow_record =
  es_bid_request_id :: string
  es_contract_id :: string
  es_status :: string
  es_amount :: rat
  es_transaction_type :: string
  es_response_payload :: "string option"

definition recordBookingEscrow ::
    "(escrow_record \<Rightarrow> thrown option) \<Rightarrow> string \<Rightarrow> string \<Rightarrow> string \<Rightarrow> rat \<Rightarrow> string option \<Rightarrow> thrown + escrow_record" where
  "recordBookingEscrow mutate bookingId contractId escrowStatus amount unsignedXDR =
     (let r = \<lparr>es_bid_request_id = bookingId, es_contract_id = contractId, es_status = escrowStatus, es_amount = amount,
               es_transaction_type = ''create_escrow'', es_response_payload = (if truthy unsignedXDR then unsignedXDR else None)\<rparr>
      in (case mutate r of Some e \<Rightarrow> Inl e | None \<Rightarrow> Inr r))"

section \<open>What the two actions send\<close>

definition not_prepared :: "tx_event \<Rightarrow> bool" where
  "not_prepared e = (case e of Prepared op p t \<Rightarrow> False | _ \<Rightarrow> True)"

lemma mutation_history:
  "\<exists>rest. snd (signed_mutation k op payload typ address h) = h @ Prepared op payload typ # rest
      \<and> list_all not_prepared rest \<and> (succeeded (signed_mutation k op payload typ address h) \<longleftrightarrow> Invalidated \<in> set rest)"
  by (cases rule: mutation_cases [of k op payload "typ" h address]) (simp_all add: not_prepared_def succeeded_def)

lemma settle_history: "bs_history (settle r f st) = snd r" if "\<And>s. bs_history (f s) = bs_history s"
  using that by (cases r; cases "fst r") (simp_all add: settle_def toast_thrown_def toast_def)

lemma toast_history [simp]: "bs_history (toast t s) = bs_history s"
  by (simp add: toast_def)

text \<open>A click adds nothing, or the preparation of the one transaction followed by its signature and submission.\<close>

definition one_transaction :: "escrow_op \<Rightarrow> tx_payload \<Rightarrow> tx_event list \<Rightarrow> bool \<Rightarrow> bool" where
  "one_transaction op p tr ok \<longleftrightarrow> (case tr of [] \<Rightarrow> \<not> ok
     | e # rest \<Rightarrow> e = Prepared op p MultiRelease \<and> list_all not_prepared rest \<and> (ok = (Invalidated \<in> set rest)))"

lemma settled_transaction:
  assumes "succeeded (signed_mutation k op p MultiRelease who h) = ok"
  shows "\<exists>tr. snd (signed_mutation k op p MultiRelease who h) = h @ tr \<and> one_transaction op p tr ok"
  using mutation_history [of k op p MultiRelease who h] assms by (auto simp: one_transaction_def)

lemma approval_click:
  "\<exists>tr. bs_history (ta_block (confirm_transfer k w r e f confirmed s)) = bs_history (ta_block s) @ tr
      \<and> one_transaction ApproveMilestone (PayApprove (te_contractId e) ''0'' (approverWallet w)) tr
          (ta_completed (confirm_transfer k w r e f confirmed s) \<noteq> ta_completed s)"
proof (cases "showTransfer r e \<and> ta_transferOpen s \<and> isFormValid f \<and> confirmed")
  case True
  let ?h = "bs_history (ta_block s)"
  have who: "(if approverWallet w \<noteq> [] then approverWallet w else or_text (fw_walletAddress w) []) = approverWallet w"
    by (auto simp: approverWallet_def or_text_def truthy_def split: option.splits)
  let ?m = "signed_mutation k ApproveMilestone (PayApprove (te_contractId e) ''0'' (approverWallet w)) MultiRelease (approverWallet w) ?h"
  have "bs_history (ta_block (confirm_transfer k w r e f confirmed s)) = snd ?m"
    using True by (simp add: confirm_transfer_def Let_def approve_contract_def who settle_history mutation_defs)
  moreover have "(ta_completed (confirm_transfer k w r e f confirmed s) \<noteq> ta_completed s) = succeeded ?m"
    using True by (simp add: confirm_transfer_def Let_def who mutation_defs)
  ultimately show ?thesis using settled_transaction [of k ApproveMilestone _ "approverWallet w" ?h] by simp
next
  case False
  then have "bs_history (ta_block (confirm_transfer k w r e f confirmed s)) = bs_history (ta_block s)
      \<and> ta_completed (confirm_transfer k w r e f confirmed s) = ta_completed s"
    by (auto simp: confirm_transfer_def Let_def approve_contract_def)
  then show ?thesis by (intro exI [of _ "[]"]) (simp add: one_transaction_def)
qed

lemma completion_click:
  "\<exists>tr. bs_history (ta_block (complete_transfer k j w r e f confirmed s)) = bs_history (ta_block s) @ tr
      \<and> one_transaction ChangeMilestoneStatus (PayChangeStatus (te_contractId e) ''1'' (completion_status f)
            (if truthy (completion_evidence j f) then completion_evidence j f else None) (platformWallet w)) tr
          (ta_completed (complete_transfer k j w r e f confirmed s) \<noteq> ta_completed s)"
proof (cases "showCompletion r e \<and> ta_completionOpen s \<and> confirmed")
  case True
  let ?h = "bs_history (ta_block s)"
  let ?p = "PayChangeStatus (te_contractId e) ''1'' (completion_status f)
     (if truthy (completion_evidence j f) then completion_evidence j f else None) (platformWallet w)"
  let ?m = "signed_mutation k ChangeMilestoneStatus ?p MultiRelease (platformWallet w) ?h"
  have st: "completion_status f \<noteq> []" "trim (completion_status f) \<noteq> []"
    by (simp_all add: completion_status_def trim_def trim_start_def is_ws_def)
  have "bs_history (ta_block (complete_transfer k j w r e f confirmed s)) = snd ?m"
    using True st by (simp add: complete_transfer_def Let_def change_contract_def settle_history mutation_defs)
  moreover have "(ta_completed (complete_transfer k j w r e f confirmed s) \<noteq> ta_completed s) = succeeded ?m"
    using True by (simp add: complete_transfer_def Let_def mutation_defs)
  ultimately show ?thesis using settled_transaction [of k ChangeMilestoneStatus _ "platformWallet w" ?h] by simp
next
  case False
  have st: "completion_status f \<noteq> []" "trim (completion_status f) \<noteq> []"
    by (simp_all add: completion_status_def trim_def trim_start_def is_ws_def)
  then have "bs_history (ta_block (complete_transfer k j w r e f confirmed s)) = bs_history (ta_block s)
      \<and> ta_completed (complete_transfer k j w r e f confirmed s) = ta_completed s"
    using False by (auto simp: complete_transfer_def Let_def change_contract_def)
  then show ?thesis by (intro exI [of _ "[]"]) (simp add: one_transaction_def)
qed

text \<open>
  On the dashboard the transfer is offered to the event only and its completion to the event and administrators, never
  both, never to a guest. A click that was not confirmed, or on a form without a seat, sends nothing; else
  it prepares exactly one transaction, the approval of the first milestone or the new status of the second,
  and the page goes on exactly when that one was accepted. Nothing releases money, and an issue opens no dispute:
  it is only the text of the status.
\<close>

theorem transfer_actions_exact:
  "let s1 = confirm_transfer k w r e f confirmed s; s2 = complete_transfer k j w r e g confirmed s;
       new = (\<lambda>t. drop (length (bs_history (ta_block s))) (bs_history (ta_block t)))
   in \<not> (showTransfer r e \<and> showCompletion r e)
    \<and> (if r \<in> set [''event'', ''admin''] then True else s1 = s \<and> s2 = s)
    \<and> (if confirmed \<and> isFormValid f then True else new s1 = [])
    \<and> (if confirmed then True else new s2 = [])
    \<and> one_transaction ApproveMilestone (PayApprove (te_contractId e) ''0'' (approverWallet w)) (new s1)
        (ta_completed s1 = ta_completed s + 1)
    \<and> one_transaction ChangeMilestoneStatus (PayChangeStatus (te_contractId e) ''1''
          (if cf_hasIssue g then ''disputed'' else ''completed'')
          (if truthy (completion_evidence j g) then completion_evidence j g else None) (platformWallet w)) (new s2)
        (ta_completed s2 = ta_completed s + 1)"
proof -
  let ?s1 = "confirm_transfer k w r e f confirmed s" and ?s2 = "complete_transfer k j w r e g confirmed s"
  obtain t1 where t1: "bs_history (ta_block ?s1) = bs_history (ta_block s) @ t1"
      "one_transaction ApproveMilestone (PayApprove (te_contractId e) ''0'' (approverWallet w)) t1 (ta_completed ?s1 \<noteq> ta_completed s)"
    using approval_click [of k w r e f confirmed s] by blast
  obtain t2 where t2: "bs_history (ta_block ?s2) = bs_history (ta_block s) @ t2"
      "one_transaction ChangeMilestoneStatus (PayChangeStatus (te_contractId e) ''1'' (completion_status g)
            (if truthy (completion_evidence j g) then completion_evidence j g else None) (platformWallet w)) t2
        (ta_completed ?s2 \<noteq> ta_completed s)"
    using completion_click [of k j w r e g confirmed s] by blast
  have "ta_completed ?s1 = ta_completed s \<or> ta_completed ?s1 = ta_completed s + 1"
    "ta_completed ?s2 = ta_completed s \<or> ta_completed ?s2 = ta_completed s + 1"
    by (auto simp: confirm_transfer_def complete_transfer_def Let_def)
  then have n: "(ta_completed ?s1 \<noteq> ta_completed s) = (ta_completed ?s1 = ta_completed s + 1)"
    "(ta_completed ?s2 \<noteq> ta_completed s) = (ta_completed ?s2 = ta_completed s + 1)"
    by auto
  have "\<not> (showTransfer r e \<and> showCompletion r e)" by (auto simp: showTransfer_def showCompletion_def)
  moreover have "if r \<in> set [''event'', ''admin''] then True else ?s1 = s \<and> ?s2 = s"
    by (auto simp: confirm_transfer_def complete_transfer_def showTransfer_def showCompletion_def)
  moreover have "if confirmed \<and> isFormValid f then True else t1 = []"
    using t1(1) by (auto simp: confirm_transfer_def Let_def approve_contract_def split: if_splits)
  moreover have "if confirmed then True else t2 = []"
    using t2(1) by (auto simp: complete_transfer_def Let_def change_contract_def completion_status_def trim_def trim_start_def
        is_ws_def split: if_splits)
  moreover have "drop (length (bs_history (ta_block s))) (bs_history (ta_block ?s1)) = t1"
    "drop (length (bs_history (ta_block s))) (bs_history (ta_block ?s2)) = t2"
    by (simp_all add: t1(1) t2(1))
  ultimately show ?thesis
    using t1(2) t2(2) unfolding Let_def n completion_status_def by (intro conjI) (simp_all only: not_False_eq_True)
qed

text \<open>An issue without a word about it is accepted, although the field is marked as required.\<close>

lemma silent_issue:
  "showCompletion r e \<Longrightarrow> ta_completionOpen s \<Longrightarrow>
   f = \<lparr>cf_hasIssue = True, cf_condition = c, cf_description = []\<rparr> \<Longrightarrow>
   bs_history (ta_block (complete_transfer k j w r e f True s)) \<noteq> bs_history (ta_block s)"
proof -
  assume a: "showCompletion r e" "ta_completionOpen s" and f: "f = \<lparr>cf_hasIssue = True, cf_condition = c, cf_description = []\<rparr>"
  let ?p = "PayChangeStatus (te_contractId e) ''1'' (completion_status f)
     (if truthy (completion_evidence j f) then completion_evidence j f else None) (platformWallet w)"
  have st: "completion_status f \<noteq> []" "trim (completion_status f) \<noteq> []"
    by (simp_all add: completion_status_def trim_def trim_start_def is_ws_def)
  have "bs_history (ta_block (complete_transfer k j w r e f True s))
      = snd (signed_mutation k ChangeMilestoneStatus ?p MultiRelease (platformWallet w) (bs_history (ta_block s)))"
    using a st by (simp add: complete_transfer_def Let_def change_contract_def settle_history mutation_defs)
  then show ?thesis using mutation_history [of k ChangeMilestoneStatus ?p MultiRelease "platformWallet w" "bs_history (ta_block s)"]
    by auto
qed

text \<open>The platform's wallet is asked to sign whenever it is configured, whichever wallet is connected.\<close>

lemma platform_signs: "truthy (fw_platform w) \<Longrightarrow> platformWallet w = the (fw_platform w)"
  by (simp add: platformWallet_def or_text_def)

lemma stale_description:
  "completion_metadata \<lparr>cf_hasIssue = False, cf_condition = c, cf_description = d\<rparr> = (False, d)"
  by (simp add: completion_metadata_def)

lemma booking_context_exact:
  "fetchBookingEscrowContext query i = Inr c \<Longrightarrow>
   \<exists>bid w ws. query i = Inr (Some bid) \<and> bl_owner_wallets (br_apartment bid) = Some (w # ws) \<and> w \<noteq> []
     \<and> bx_walletAddress c = w \<and> bx_id c = br_id bid
     \<and> bx_totalAmount c = (case br_proposed_price bid of None \<Rightarrow> bl_price (br_apartment bid) | Some p \<Rightarrow> p)
     \<and> bx_guestName c \<noteq> Some [] \<and> bx_location c \<noteq> Some []"
  by (auto simp: fetchBookingEscrowContext_def Let_def first_item_def truthy_def non_empty_text_def
      split: sum.splits option.splits list.splits if_splits)

lemma record_exact:
  "recordBookingEscrow mutate b c st a x = Inr r \<Longrightarrow> mutate r = None \<and> es_bid_request_id r = b \<and> es_contract_id r = c
     \<and> es_amount r = a \<and> es_transaction_type r = ''create_escrow''"
  by (auto simp: recordBookingEscrow_def Let_def split: option.splits)
end
