(* ===== verification/Guest_Pages.thy ===== *)
theory Guest_Pages
  imports Review_Filter Listing_Browse
begin

text \<open>
  Pages of buyers: the review dialog \<open>components/ratings/RatingReviewModal.tsx\<close> with \<open>StarRating.tsx\<close>, the
  notification settings \<open>components/dashboard/profile/NotificationPreferences.tsx\<close>, the guest dashboard
  \<open>components/dashboard/guest/GuestDashboard.tsx\<close>, the suggestions \<open>app/guest/suggestions/page.tsx\<close>, the image
  slots of \<open>components/dashboard/listings/ImageUploader.tsx\<close>, and the role guessed by \<open>utils/role-utils.ts\<close>. What the
  servers answer and when is given with the events; markup is left out.
\<close>

section \<open>Stars and reviews\<close>

datatype star = StarFull | StarHalf | StarEmpty

definition displayedRating :: "nat option \<Rightarrow> rat \<Rightarrow> rat" where
  "displayedRating hover r = (case hover of None \<Rightarrow> r | Some h \<Rightarrow> of_nat h)"

definition star_at :: "bool \<Rightarrow> rat \<Rightarrow> nat \<Rightarrow> star" where
  "star_at interactive d starValue =
     (if of_nat starValue \<le> d then StarFull
      else if \<not> interactive \<and> of_nat starValue - 1 / 2 \<le> d then StarHalf else StarEmpty)"

definition StarRating :: "bool \<Rightarrow> nat \<Rightarrow> nat option \<Rightarrow> rat \<Rightarrow> star list" where
  "StarRating interactive maxRating hover r = map (\<lambda>i. star_at interactive (displayedRating hover r) (i + 1)) [0..<maxRating]"

record review_data =
  rd_rating :: nat
  rd_comment :: string
  rd_moderation_status :: string

record review_dialog =
  rv_open :: bool
  rv_rating :: nat
  rv_comment :: string
  rv_isSubmitting :: bool
  rv_isSubmitted :: bool
  rv_notice :: "string option"
  rv_sent :: "review_data list"

definition review_closed :: review_dialog where
  "review_closed = \<lparr>rv_open = False, rv_rating = 5, rv_comment = [], rv_isSubmitting = False, rv_isSubmitted = False,
     rv_notice = None, rv_sent = []\<rparr>"

definition HELD_NOTICE :: string where
  "HELD_NOTICE = ''Your review contains language that needs moderation review and has been held for review. Please revise your review before submitting.''"

definition review_moderation :: "string \<Rightarrow> moderation_status option" where
  "review_moderation comment = (if trim comment \<noteq> [] then Some (fr_status (filterReviewContent comment)) else None)"

text \<open>
  The events: the dialog is opened or closed, a star or the text is set (at most 500 characters), the form is
  submitted (its button is off while a submission runs), the submission ends, and 1.5 seconds later the
  dialog closes itself. The first argument says whether the page passes \<open>onSubmitReview\<close>.
\<close>

datatype review_act = OpenReview bool | Star nat | Comment string | SubmitReview | ReviewSent bool | ReviewTimer

fun review_event :: "bool \<Rightarrow> review_act \<Rightarrow> review_dialog \<Rightarrow> review_dialog" where
  "review_event cb (OpenReview b) s = s\<lparr>rv_open := b\<rparr>"
| "review_event cb (Star n) s = (if 1 \<le> n \<and> n \<le> 5 then s\<lparr>rv_rating := n\<rparr> else s)"
| "review_event cb (Comment c) s = (if length c \<le> 500 then s\<lparr>rv_comment := c\<rparr> else s)"
| "review_event cb SubmitReview s =
     (if \<not> rv_open s \<or> rv_isSubmitting s \<or> rv_isSubmitted s \<or> rv_rating s < 1 then s
      else if review_moderation (rv_comment s) = Some Rejected then s\<lparr>rv_notice := Some HELD_NOTICE\<rparr>
      else if \<not> cb then s\<lparr>rv_notice := None, rv_isSubmitted := True\<rparr>
      else s\<lparr>rv_notice := None, rv_isSubmitting := True,
             rv_sent := rv_sent s @ [\<lparr>rd_rating = rv_rating s, rd_comment = rv_comment s,
               rd_moderation_status = (if review_moderation (rv_comment s) = Some Held then ''pending'' else ''published'')\<rparr>]\<rparr>)"
| "review_event cb (ReviewSent ok) s =
     (if rv_isSubmitting s then s\<lparr>rv_isSubmitting := False, rv_isSubmitted := ok \<or> rv_isSubmitted s\<rparr> else s)"
| "review_event cb ReviewTimer s =
     (if rv_isSubmitted s then s\<lparr>rv_isSubmitted := False, rv_open := False, rv_comment := [], rv_notice := None\<rparr> else s)"

definition review_run :: "bool \<Rightarrow> review_act list \<Rightarrow> review_dialog \<Rightarrow> review_dialog" where
  "review_run cb es s = foldl (\<lambda>s e. review_event cb e s) s es"

section \<open>Notification settings\<close>

datatype pref_key = Offers | EscrowUpdates | SavedListingPriceDrops | EventReminders

type_synonym prefs = "pref_key \<Rightarrow> bool"

fun DEFAULT_PREFERENCES :: prefs where
  "DEFAULT_PREFERENCES SavedListingPriceDrops = False"
| "DEFAULT_PREFERENCES Offers = True"
| "DEFAULT_PREFERENCES EscrowUpdates = True"
| "DEFAULT_PREFERENCES EventReminders = True"

definition stored_prefs :: "(pref_key \<Rightarrow> bool option) \<Rightarrow> prefs" where
  "stored_prefs stored k = (case stored k of None \<Rightarrow> DEFAULT_PREFERENCES k | Some b \<Rightarrow> b)"

record pref_page =
  np_preferences :: prefs
  np_isSaving :: bool
  np_saved :: "prefs list"
  np_mounted :: bool

definition prefs_mounted :: pref_page where
  "prefs_mounted = \<lparr>np_preferences = DEFAULT_PREFERENCES, np_isSaving = False, np_saved = [], np_mounted = True\<rparr>"

text \<open>\<open>PrefsLoaded None\<close> is a failed request, a reply that is not ok or one without stored settings.\<close>

datatype pref_act = PrefsLoaded "(pref_key \<Rightarrow> bool option) option" | TogglePref pref_key bool | SavePrefs | PrefsSaved bool | LeavePrefs

fun pref_event :: "pref_act \<Rightarrow> pref_page \<Rightarrow> pref_page" where
  "pref_event (PrefsLoaded r) s = (case r of
       None \<Rightarrow> s | Some stored \<Rightarrow> if np_mounted s then s\<lparr>np_preferences := stored_prefs stored\<rparr> else s)"
| "pref_event (TogglePref k b) s = s\<lparr>np_preferences := (np_preferences s)(k := b)\<rparr>"
| "pref_event SavePrefs s = (if np_isSaving s then s
     else s\<lparr>np_isSaving := True, np_saved := np_saved s @ [np_preferences s]\<rparr>)"
| "pref_event (PrefsSaved ok) s = s\<lparr>np_isSaving := False\<rparr>"
| "pref_event LeavePrefs s = s\<lparr>np_mounted := False\<rparr>"

definition pref_run :: "pref_act list \<Rightarrow> pref_page \<Rightarrow> pref_page" where
  "pref_run es s = foldl (\<lambda>s e. pref_event e s) s es"

section \<open>The guest dashboard\<close>

record guest_listing = event_listing +
  gl_location :: string
  gl_seatCount :: nat

record guest_dashboard =
  gd_listings :: "guest_listing list"
  gd_selectedCategories :: "string list"
  gd_selectedLocations :: "string list"
  gd_selectedSection :: string
  gd_minPrice :: rat
  gd_maxPrice :: rat

text \<open>\<open>Math.min\<close> and \<open>Math.max\<close> of the prices; the sample listings are not empty.\<close>

definition guest_mounted :: "guest_listing list \<Rightarrow> guest_dashboard" where
  "guest_mounted ls = \<lparr>gd_listings = ls, gd_selectedCategories = [], gd_selectedLocations = [], gd_selectedSection = ''all'',
     gd_minPrice = Min (el_price ` set ls), gd_maxPrice = Max (el_price ` set ls)\<rparr>"

definition in_section :: "string \<Rightarrow> nat \<Rightarrow> bool" where
  "in_section sect seats = (if sect = ''all'' then True
     else if sect = ''3'' then 3 \<le> seats else js_Number sect = Fin (of_nat seats))"

definition matches_guest :: "guest_dashboard \<Rightarrow> guest_listing \<Rightarrow> bool" where
  "matches_guest s l \<longleftrightarrow>
     \<not> (gd_selectedCategories s \<noteq> [] \<and> el_category l \<notin> set (gd_selectedCategories s))
     \<and> \<not> (gd_selectedLocations s \<noteq> [] \<and> gl_location l \<notin> set (gd_selectedLocations s))
     \<and> in_section (gd_selectedSection s) (gl_seatCount l)
     \<and> \<not> (el_price l < gd_minPrice s \<or> gd_maxPrice s < el_price l)"

definition guest_filtered :: "guest_dashboard \<Rightarrow> guest_listing list" where
  "guest_filtered s = filter (matches_guest s) (gd_listings s)"

datatype guest_act = GuestCategory string | GuestLocation string | GuestSection string | GuestMin rat | GuestMax rat

fun guest_event :: "guest_act \<Rightarrow> guest_dashboard \<Rightarrow> guest_dashboard" where
  "guest_event (GuestCategory c) s = s\<lparr>gd_selectedCategories := toggleValue (gd_selectedCategories s) c\<rparr>"
| "guest_event (GuestLocation c) s = s\<lparr>gd_selectedLocations := toggleValue (gd_selectedLocations s) c\<rparr>"
| "guest_event (GuestSection c) s = s\<lparr>gd_selectedSection := c\<rparr>"
| "guest_event (GuestMin p) s = s\<lparr>gd_minPrice := p\<rparr>"
| "guest_event (GuestMax p) s = s\<lparr>gd_maxPrice := p\<rparr>"

section \<open>Suggestions, image slots, roles\<close>

text \<open>The selected suggestion, by id: the first listing when none is selected or it is gone.\<close>

definition selected_suggestion :: "('a \<Rightarrow> string) \<Rightarrow> 'a list \<Rightarrow> string option \<Rightarrow> 'a option" where
  "selected_suggestion ident ls sel =
     (case (case sel of None \<Rightarrow> None | Some i \<Rightarrow> find (\<lambda>l. ident l = i) ls) of
        Some l \<Rightarrow> Some l | None \<Rightarrow> (case ls of [] \<Rightarrow> None | l # _ \<Rightarrow> Some l))"

definition listingImages :: "string list option \<Rightarrow> string list" where
  "listingImages urls = (case urls of Some (u # us) \<Rightarrow> u # us | _ \<Rightarrow> [''/img/room1.png''])"

definition normalizedFiles :: "'f option list \<Rightarrow> 'f option list" where
  "normalizedFiles files = map (\<lambda>i. if i < length files then files ! i else None) [0..<4]"

definition handleFileSelect :: "nat \<Rightarrow> 'f option \<Rightarrow> 'f option list \<Rightarrow> 'f option list" where
  "handleFileSelect i file files = (case file of None \<Rightarrow> files | Some f \<Rightarrow> (normalizedFiles files)[i := Some f])"

text \<open>
  The stored wallet: \<open>None\<close> when there is none; the JSON of a text that parses. A text that does not parse gives no role.
\<close>

datatype user_role = AdminRole | EventRole | GuestRole

definition stored_address :: "json \<Rightarrow> json option" where
  "stored_address parsed = (case parsed of JStr s \<Rightarrow> Some (JStr s) | j \<Rightarrow> json_prop j ''address'')"

definition getUserRole :: "json option option \<Rightarrow> user_role option" where
  "getUserRole stored = (case stored of
       None \<Rightarrow> None | Some None \<Rightarrow> None
     | Some (Some parsed) \<Rightarrow> (case stored_address parsed of
           Some (JStr a) \<Rightarrow>
             if a = [] then None
             else if startsWith a ''0xadmin'' \<or> str_includes a ''admin'' then Some AdminRole
             else if startsWith a ''0xevent'' \<or> str_includes a ''event'' then Some EventRole
             else Some GuestRole
         | _ \<Rightarrow> None))"

section \<open>What the pages promise\<close>

definition review_ok :: "review_data \<Rightarrow> bool" where
  "review_ok r \<longleftrightarrow> 1 \<le> rd_rating r \<and> rd_rating r \<le> 5 \<and> length (rd_comment r) \<le> 500
     \<and> review_moderation (rd_comment r) \<noteq> Some Rejected
     \<and> rd_moderation_status r = (if review_moderation (rd_comment r) = Some Held then ''pending'' else ''published'')"

definition dialog_ok :: "bool \<Rightarrow> review_dialog \<Rightarrow> bool" where
  "dialog_ok cb s \<longleftrightarrow> 1 \<le> rv_rating s \<and> rv_rating s \<le> 5 \<and> length (rv_comment s) \<le> 500 \<and> list_all review_ok (rv_sent s)
     \<and> \<not> (rv_isSubmitting s \<and> \<not> cb) \<and> \<not> (rv_sent s \<noteq> [] \<and> \<not> cb)"

lemma review_event_ok: "dialog_ok cb s \<Longrightarrow> dialog_ok cb (review_event cb e s)"
  by (cases e) (auto simp: dialog_ok_def review_ok_def)

lemma review_run_ok: "dialog_ok cb s \<Longrightarrow> dialog_ok cb (review_run cb es s)"
  unfolding review_run_def by (induction es arbitrary: s) (simp_all add: review_event_ok)

text \<open>
  Whatever is done in the review dialog, every review it hands on has one to five stars and at most 500
  characters, was not refused by the filter, and waits for moderation exactly when the filter holds it; and a
  page that passes no callback, as both pages do, hands on nothing at all.
\<close>

theorem review_dialog_exact:
  "(let s = review_run cb es review_closed
    in list_all (\<lambda>r. 1 \<le> rd_rating r \<and> rd_rating r \<le> 5 \<and> length (rd_comment r) \<le> 500
          \<and> review_moderation (rd_comment r) \<noteq> Some Rejected
          \<and> rd_moderation_status r = (if review_moderation (rd_comment r) = Some Held then ''pending'' else ''published''))
        (rv_sent s)
     \<and> (if cb then True else rv_sent s = []))"
proof -
  have "dialog_ok cb review_closed" by (simp add: dialog_ok_def review_closed_def)
  from review_run_ok [OF this, of es] show ?thesis by (auto simp: dialog_ok_def review_ok_def Let_def list_all_iff)
qed

text \<open>Without a callback the buyer is thanked although nothing was sent; both pages that show the dialog pass none.\<close>

lemma thanked_for_nothing:
  "rv_isSubmitted (review_run False [OpenReview True, SubmitReview] review_closed)"
  "rv_sent (review_run False [OpenReview True, SubmitReview] review_closed) = []"
  by (simp_all add: review_run_def review_closed_def review_moderation_def trim_def trim_start_def)

text \<open>A review without a single letter is refused as if it were offensive, although the text is optional.\<close>

lemma dots_refused:
  "rv_notice (review_run cb [OpenReview True, Comment ''...'', SubmitReview] review_closed) = Some HELD_NOTICE"
proof -
  have "review_moderation ''...'' = Some Rejected" by code_simp
  then show ?thesis by (simp add: review_run_def review_closed_def)
qed

text \<open>The stars are not reset with the text: the next review starts from those of the last.\<close>

lemma stars_kept: "rv_rating (review_event cb ReviewTimer s) = rv_rating s"
  by simp

lemma star_exact:
  "star_at False d k = (if int k \<le> \<lfloor>d\<rfloor> then StarFull
     else if int k = \<lfloor>d\<rfloor> + 1 \<and> 1 / 2 \<le> frac d then StarHalf else StarEmpty)"
proof -
  have f: "of_nat k \<le> d \<longleftrightarrow> int k \<le> \<lfloor>d\<rfloor>" by (simp add: le_floor_iff)
  have "of_nat k - 1 / 2 \<le> d \<longleftrightarrow> int k = \<lfloor>d\<rfloor> + 1 \<and> 1 / 2 \<le> frac d" if "\<not> int k \<le> \<lfloor>d\<rfloor>"
  proof (cases "int k = \<lfloor>d\<rfloor> + 1")
    case True
    then have "(of_nat k :: rat) = of_int \<lfloor>d\<rfloor> + 1" by (metis of_int_1 of_int_add of_int_of_nat_eq)
    with True show ?thesis by (auto simp: frac_def)
  next
    case False
    with that have "\<lfloor>d\<rfloor> + 2 \<le> int k" by simp
    then have "of_int (\<lfloor>d\<rfloor> + 2) \<le> (of_int (int k) :: rat)" by (simp only: of_int_le_iff)
    then have "of_int \<lfloor>d\<rfloor> + 2 \<le> (of_nat k :: rat)" by simp
    moreover have "d < of_int \<lfloor>d\<rfloor> + 1" by linarith
    ultimately have "\<not> of_nat k - 1 / 2 \<le> d" by linarith
    with False show ?thesis by simp
  qed
  with f show ?thesis by (auto simp: star_at_def)
qed

lemma stars_length: "length (StarRating interactive m h r) = m"
  by (simp add: StarRating_def)

section \<open>Settings\<close>

lemma toggles_exact:
  "np_preferences (pref_run (map (\<lambda>(k, b). TogglePref k b) ts) s) k
     = (case map_of (rev ts) k of None \<Rightarrow> np_preferences s k | Some b \<Rightarrow> b)"
proof (induction ts rule: rev_induct)
  case (snoc t ts)
  then show ?case by (cases t) (simp add: pref_run_def)
qed (simp add: pref_run_def)

lemma saved_is_shown:
  "np_isSaving s = False \<Longrightarrow> last (np_saved (pref_event SavePrefs s)) = np_preferences s"
  by simp

text \<open>An answer that comes late undoes what was set in between, and a save that failed looks like one that worked.\<close>

lemma late_settings_win:
  "np_mounted s \<Longrightarrow> np_preferences (pref_run [TogglePref k b, PrefsLoaded (Some stored)] s) = stored_prefs stored"
  by (simp add: pref_run_def)

lemma failed_save_silent: "pref_event (PrefsSaved False) s = pref_event (PrefsSaved True) s"
  by simp

section \<open>The dashboard and its lists\<close>

interpretation guest_table: table_view gd_listings matches_guest guest_filtered
  by unfold_locales (simp add: guest_filtered_def)

lemma guest_unfiltered: "guest_filtered (guest_mounted ls) = ls"
proof -
  have "Min (el_price ` set ls) \<le> el_price l \<and> el_price l \<le> Max (el_price ` set ls)" if "l \<in> set ls" for l
    using that by simp
  then show ?thesis
    by (force simp: guest_filtered_def guest_mounted_def matches_guest_def in_section_def filter_id_conv not_less)
qed

lemma guest_sound:
  "l \<in> set (guest_filtered s) \<Longrightarrow> gd_minPrice s \<le> el_price l \<and> el_price l \<le> gd_maxPrice s
     \<and> (gd_selectedLocations s = [] \<or> gl_location l \<in> set (gd_selectedLocations s))"
  using guest_table.shown_iff [of l s] by (auto simp: matches_guest_def)

text \<open>The tabs of the sections compare the number of seats: with tickets for one seat two of them are always empty.\<close>

lemma bowls_are_empty:
  "list_all (\<lambda>l. gl_seatCount l = 1) (gd_listings s) \<Longrightarrow> gd_selectedSection s \<in> {''2'', ''3''} \<Longrightarrow> guest_filtered s = []"
proof -
  assume a: "list_all (\<lambda>l. gl_seatCount l = 1) (gd_listings s)" "gd_selectedSection s \<in> {''2'', ''3''}"
  have "to_double 2 = Fin 2" by (rule to_double_normal) simp_all
  then have n: "js_Number ''2'' = Fin 2"
    by (simp add: js_Number_def radix_defs js_string_defs unsigned_number_def parse_decimal_def span_digits_def is_digit_def
        parse_exp_def pow10_def digit_val_def)
  have "\<not> in_section t 1" if "t \<in> {''2'', ''3''}" for t using that n by (auto simp: in_section_def)
  then have "\<not> in_section (gd_selectedSection s) 1" using a(2) by blast
  then have "\<not> matches_guest s l" if "l \<in> set (gd_listings s)" for l
    using a(1) that by (simp add: matches_guest_def list_all_iff)
  then show ?thesis by (simp add: guest_filtered_def filter_empty_conv)
qed

lemma selected_is_listed:
  "(case selected_suggestion ident ls sel of None \<Rightarrow> ls = [] | Some l \<Rightarrow> l \<in> set ls)"
proof (cases "case sel of None \<Rightarrow> None | Some i \<Rightarrow> find (\<lambda>l. ident l = i) ls")
  case None
  then show ?thesis by (auto simp: selected_suggestion_def split: list.splits)
next
  case (Some l)
  then have "l \<in> set ls" by (auto simp: find_Some_iff in_set_conv_nth split: option.splits)
  with Some show ?thesis by (simp add: selected_suggestion_def)
qed

lemma selected_by_id:
  "distinct (map ident ls) \<Longrightarrow> l \<in> set ls \<Longrightarrow> selected_suggestion ident ls (Some (ident l)) = Some l"
proof -
  assume a: "distinct (map ident ls)" "l \<in> set ls"
  then have "find (\<lambda>x. ident x = ident l) ls = Some l"
    by (induction ls) (auto simp: rev_image_eqI)
  then show ?thesis by (simp add: selected_suggestion_def)
qed

lemma images_not_empty: "listingImages urls \<noteq> []"
  by (simp add: listingImages_def split: option.splits list.splits)

lemma slots_frame:
  "j < 4 \<Longrightarrow> handleFileSelect i (Some f) files ! j
     = (if j = i then Some f else if j < length files then files ! j else None)"
  "length (handleFileSelect i (Some f) files) = 4"
  by (simp_all add: handleFileSelect_def normalizedFiles_def nth_list_update)

text \<open>The address of a Stellar account has capital letters and digits only: with a real wallet nobody is an administrator.\<close>

definition capital_char :: "char \<Rightarrow> bool" where
  "capital_char c \<longleftrightarrow> c \<in> set ''ABCDEFGHIJKLMNOPQRSTUVWXYZ0123456789''"

lemma includes_set: "str_includes s p \<Longrightarrow> set p \<subseteq> set s"
  by (auto simp: includes_iff)

lemma starts_set: "startsWith s p \<Longrightarrow> set p \<subseteq> set s"
  using set_take_subset [of "length p" s] by (simp add: startsWith_def)

lemma stellar_is_guest:
  assumes "a \<noteq> []" "list_all capital_char a"
  shows "getUserRole (Some (Some (JStr a))) = Some GuestRole"
proof -
  have no_small: "\<not> capital_char (CHR ''d'')" "\<not> capital_char (CHR ''v'')" "\<not> capital_char (CHR ''x'')"
    by code_simp+
  have lower: "CHR ''d'' \<notin> set a" "CHR ''v'' \<notin> set a" "CHR ''x'' \<notin> set a"
    using assms(2) no_small by (auto simp: list_all_iff)
  then have "\<not> str_includes a ''admin''" "\<not> str_includes a ''event''"
    using includes_set [of a "''admin''"] includes_set [of a "''event''"] by auto
  moreover have "\<not> startsWith a ''0xadmin''" "\<not> startsWith a ''0xevent''"
    using lower(3) starts_set [of a "''0xadmin''"] starts_set [of a "''0xevent''"] by auto
  ultimately show ?thesis using assms(1) by (simp add: getUserRole_def stored_address_def)
qed
end
