(* ===== verification/Site_Shell.thy ===== *)
theory Site_Shell
  imports Live_Updates
begin

text \<open>
  What surrounds the pages: the headers, image hosts and redirects of \<open>next.config.ts\<close>, the language of
  \<open>i18n/config.ts\<close>, and the guard of \<open>app/dashboard/layout.tsx\<close>. The browser applies the policy and Next.js the
  redirects; the translation library tells when the language changed.
\<close>

section \<open>Image hosts and the content security policy\<close>

text \<open>\<open>replace(/^https?:\/\//, r)\<close>, and \<open>replace(/\/.*$/, '')\<close>, whose dot matches no line break.\<close>

definition replace_scheme :: "string \<Rightarrow> string \<Rightarrow> string" where
  "replace_scheme r s = (if startsWith s ''https://'' then r @ drop 8 s
     else if startsWith s ''http://'' then r @ drop 7 s else s)"

definition line_break :: "char \<Rightarrow> bool" where
  "line_break c \<longleftrightarrow> c = CHR 0x0A \<or> c = CHR 0x0D"

fun cut_path :: "string \<Rightarrow> string" where
  "cut_path [] = []"
| "cut_path (c # cs) = (if c = CHR ''/'' \<and> \<not> list_ex line_break cs then [] else c # cut_path cs)"

definition LISTING_IMAGES_HOST :: "string option \<Rightarrow> string" where
  "LISTING_IMAGES_HOST env = trim (cut_path (replace_scheme [] (case env of None \<Rightarrow> [] | Some v \<Rightarrow> v)))"

definition LISTING_IMAGE_ORIGINS :: "string option \<Rightarrow> string list" where
  "LISTING_IMAGE_ORIGINS env = [''https://firebasestorage.googleapis.com'', ''https://storage.googleapis.com'']
     @ (if LISTING_IMAGES_HOST env \<noteq> [] then [''https://'' @ LISTING_IMAGES_HOST env] else [])"

definition self_source :: string where
  "self_source = [CHR 0x27] @ ''self'' @ [CHR 0x27]"

definition img_sources :: "string option \<Rightarrow> string list" where
  "img_sources env = [self_source, ''data:'', ''blob:'', ''https://stellar.creit.tech'', ''https://api.qrserver.com'']
     @ LISTING_IMAGE_ORIGINS env"

definition connect_sources :: "string option \<Rightarrow> string list" where
  "connect_sources hasura = (let h = (case hasura of None \<Rightarrow> [] | Some u \<Rightarrow> u) in
     [self_source, ''https://*.firebaseio.com'', ''https://*.firebaseapp.com'', ''https://*.googleapis.com'',
      ''https://identitytoolkit.googleapis.com'', h, replace_scheme ''wss://'' h,
      ''https://api.trustlesswork.com'', ''https://dev.api.trustlesswork.com'',
      ''https://horizon-testnet.stellar.org'', ''https://horizon.stellar.org'', ''https://relay.walletconnect.com'',
      ''wss://relay.walletconnect.com'', ''https://verify.walletconnect.com'', ''https://explorer-api.walletconnect.com''])"

definition quoted :: "string \<Rightarrow> string" where
  "quoted w = [CHR 0x27] @ w @ [CHR 0x27]"

definition CSP :: "string option \<Rightarrow> string option \<Rightarrow> string" where
  "CSP images hasura = trim (join ''; ''
     [''default-src '' @ self_source,
      join '' '' [''script-src'', self_source, quoted ''unsafe-inline'', quoted ''unsafe-eval'', ''https://apis.google.com''],
      join '' '' [''style-src'', self_source, quoted ''unsafe-inline''],
      join '' '' (''img-src'' # img_sources images),
      ''font-src '' @ self_source,
      join '' '' (''connect-src'' # connect_sources hasura),
      ''frame-ancestors '' @ quoted ''none'',
      join '' '' [''worker-src'', self_source, ''blob:''],
      ''object-src '' @ quoted ''none'', ''base-uri '' @ self_source, ''form-action '' @ self_source])"

definition securityHeaders :: "string option \<Rightarrow> string option \<Rightarrow> (string \<times> string) list" where
  "securityHeaders images hasura =
     [(''Content-Security-Policy'', CSP images hasura), (''X-Frame-Options'', ''DENY''),
      (''X-Content-Type-Options'', ''nosniff''), (''Referrer-Policy'', ''strict-origin-when-cross-origin''),
      (''Strict-Transport-Security'', ''max-age=31536000; includeSubDomains''),
      (''Cross-Origin-Opener-Policy'', ''same-origin-allow-popups''),
      (''Permissions-Policy'', ''camera=(), microphone=(), geolocation=(self), payment=()'')]"

record image_pattern =
  ip_protocol :: string
  ip_hostname :: string
  ip_pathname :: string

definition remotePatterns :: "string option \<Rightarrow> image_pattern list" where
  "remotePatterns env =
     [\<lparr>ip_protocol = ''https'', ip_hostname = ''stellar.creit.tech'', ip_pathname = ''/wallet-icons/**''\<rparr>,
      \<lparr>ip_protocol = ''https'', ip_hostname = ''firebasestorage.googleapis.com'', ip_pathname = ''/v0/b/**''\<rparr>,
      \<lparr>ip_protocol = ''https'', ip_hostname = ''storage.googleapis.com'', ip_pathname = ''/**''\<rparr>]
     @ (if LISTING_IMAGES_HOST env \<noteq> []
        then [\<lparr>ip_protocol = ''https'', ip_hostname = LISTING_IMAGES_HOST env, ip_pathname = ''/**''\<rparr>] else [])"

section \<open>Redirects\<close>

text \<open>A path has no trailing slash; \<open>:path*\<close> is any number of segments, none included.\<close>

definition below :: "string \<Rightarrow> string \<Rightarrow> bool" where
  "below prefix p \<longleftrightarrow> p = prefix \<or> startsWith p (prefix @ ''/'')"

definition redirects :: "string \<Rightarrow> string option" where
  "redirects p = (if below ''/rent'' p then Some (''/listing'' @ drop 5 p)
     else if below ''/guest'' p then Some (''/dashboard/guest'' @ drop 6 p) else None)"

section \<open>The language\<close>

definition DEFAULT_LANGUAGE :: string where
  "DEFAULT_LANGUAGE = ''en''"

definition SUPPORTED_LANGUAGES :: "string list" where
  "SUPPORTED_LANGUAGES = [''en'', ''es'']"

definition toSupportedLanguage :: "string option \<Rightarrow> string option" where
  "toSupportedLanguage tag = (if \<not> truthy tag then None
     else (let base = takeWhile (\<lambda>c. c \<noteq> CHR ''-'' \<and> c \<noteq> CHR ''_'') (toLowerCase (the tag)) in
           if base \<in> set SUPPORTED_LANGUAGES then Some base else None))"

text \<open>\<open>navigator.languages\<close>, if there are any, else the one \<open>navigator.language\<close>.\<close>

definition browserLanguages :: "string list option \<Rightarrow> string option \<Rightarrow> string option list" where
  "browserLanguages ls l = (case ls of Some (x # xs) \<Rightarrow> map Some (x # xs) | _ \<Rightarrow> [l])"

fun first_supported :: "string option list \<Rightarrow> string" where
  "first_supported [] = DEFAULT_LANGUAGE"
| "first_supported (t # ts) = (case toSupportedLanguage t of Some l \<Rightarrow> l | None \<Rightarrow> first_supported ts)"

definition detectLanguage :: "string option \<Rightarrow> string list option \<Rightarrow> string option \<Rightarrow> string" where
  "detectLanguage stored ls l = (case toSupportedLanguage stored of
       Some x \<Rightarrow> x | None \<Rightarrow> first_supported (browserLanguages ls l))"

record lang_state =
  lg_language :: string
  lg_stored :: "string option"
  lg_html :: string
  lg_applying :: bool

definition lang_initial :: "string option \<Rightarrow> lang_state" where
  "lang_initial stored = \<lparr>lg_language = DEFAULT_LANGUAGE, lg_stored = stored, lg_html = DEFAULT_LANGUAGE, lg_applying = False\<rparr>"

text \<open>
  The events: the detected language is applied, the library announces a language, the application of the
  detected language ends. Storage that cannot be written keeps what it has.
\<close>

datatype lang_act = ApplyDetected "string list option" "string option" | LanguageChanged string bool | Applied

fun lang_event :: "lang_act \<Rightarrow> lang_state \<Rightarrow> lang_state" where
  "lang_event (ApplyDetected ls l) s =
     (if toSupportedLanguage (Some (lg_language s)) = Some (detectLanguage (lg_stored s) ls l) then s
      else s\<lparr>lg_applying := True\<rparr>)"
| "lang_event (LanguageChanged lng writable) s =
     (case toSupportedLanguage (Some lng) of
        None \<Rightarrow> s\<lparr>lg_language := lng\<rparr>
      | Some l \<Rightarrow> s\<lparr>lg_language := lng, lg_html := l,
          lg_stored := (if \<not> lg_applying s \<and> writable then Some l else lg_stored s)\<rparr>)"
| "lang_event Applied s = s\<lparr>lg_applying := False\<rparr>"

definition lang_run :: "lang_act list \<Rightarrow> lang_state \<Rightarrow> lang_state" where
  "lang_run es s = foldl (\<lambda>s e. lang_event e s) s es"

section \<open>The guard of the dashboard\<close>

definition PUBLIC_ROUTES :: "string list" where
  "PUBLIC_ROUTES = [''/dashboard/event'', ''/dashboard/event/payment'', ''/dashboard/event/details'',
     ''/dashboard/event/search'', ''/dashboard/event/escrow'', ''/dashboard/event/create-escrow'']"

text \<open>\<open>/^\/dashboard\/event\/booking\/.+\/escrow$/\<close>\<close>

definition matchesPublicPattern :: "string \<Rightarrow> bool" where
  "matchesPublicPattern p = (let a = ''/dashboard/event/booking/''; b = ''/escrow'';
       n = length p - length a - length b; mid = take n (drop (length a) p)
     in p = a @ mid @ b \<and> mid \<noteq> [] \<and> \<not> list_ex line_break mid)"

definition isPublic :: "string \<Rightarrow> bool" where
  "isPublic p \<longleftrightarrow> p \<in> set PUBLIC_ROUTES \<or> matchesPublicPattern p"

record dashboard_shell =
  dl_isLoading :: bool
  dl_isAuthError :: bool

datatype shell_view = ShellLoading | ShellNothing | ShellChildren

text \<open>The check runs after the first rendering; the storage may refuse to be read.\<close>

definition checkAuth :: "(string \<Rightarrow> thrown + string option) \<Rightarrow> dashboard_shell \<Rightarrow> dashboard_shell" where
  "checkAuth getItem s = (case getItem ''walletAddress'' of
       Inl e \<Rightarrow> s\<lparr>dl_isAuthError := True, dl_isLoading := False\<rparr>
     | Inr v \<Rightarrow> if truthy v then s\<lparr>dl_isLoading := False\<rparr>
         else (case getItem ''address-wallet'' of
             Inl e \<Rightarrow> s\<lparr>dl_isAuthError := True, dl_isLoading := False\<rparr>
           | Inr w \<Rightarrow> s\<lparr>dl_isLoading := False\<rparr>))"

definition dashboard_view :: "string \<Rightarrow> dashboard_shell \<Rightarrow> shell_view" where
  "dashboard_view pathname s = (if dl_isLoading s then ShellLoading
     else if dl_isAuthError s \<and> \<not> isPublic pathname then ShellNothing else ShellChildren)"

section \<open>What holds of them\<close>

lemma cut_path_no_slash: "\<not> list_ex line_break s \<Longrightarrow> CHR ''/'' \<notin> set (cut_path s)"
  by (induction s) auto

lemma set_cut_path: "set (cut_path s) \<subseteq> set s"
  by (induction s) auto

text \<open>Images the optimiser may fetch are images the policy lets the page show.\<close>

lemma patterns_in_policy:
  "list_all (\<lambda>p. (ip_protocol p @ ''://'' @ ip_hostname p) \<in> set (img_sources env)) (remotePatterns env)"
  by (simp add: remotePatterns_def img_sources_def LISTING_IMAGE_ORIGINS_def)

lemma image_host_plain:
  "v = None \<or> (\<exists>u. v = Some u \<and> \<not> list_ex line_break u) \<Longrightarrow> CHR ''/'' \<notin> set (LISTING_IMAGES_HOST v)"
proof -
  assume a: "v = None \<or> (\<exists>u. v = Some u \<and> \<not> list_ex line_break u)"
  let ?u = "replace_scheme [] (case v of None \<Rightarrow> [] | Some v \<Rightarrow> v)"
  have sub: "set (replace_scheme [] u) \<subseteq> set u" for u
    by (auto simp: replace_scheme_def dest: in_set_dropD)
  have "\<not> list_ex line_break ?u"
  proof (cases v)
    case None
    then show ?thesis by (simp add: replace_scheme_def startsWith_def)
  next
    case (Some u)
    then show ?thesis using a sub [of u] by (auto simp: list_ex_iff)
  qed
  then have "CHR ''/'' \<notin> set (cut_path ?u)" by (rule cut_path_no_slash)
  then show ?thesis using set_trim [of "cut_path ?u"] by (auto simp: LISTING_IMAGES_HOST_def)
qed

text \<open>The scheme is looked for before the blanks are removed: a padded host becomes a scheme.\<close>

lemma padded_host: "LISTING_IMAGES_HOST (Some '' https://cdn.example'') = ''https:''"
  by code_simp

text \<open>
  The policy names no origin of the backend: unless it is the page's own or that of Hasura, a request
  to it is not among the sources; and for a Hasura without TLS it names a socket the client does not open.
\<close>

lemma backend_not_in_policy:
  "hasura = None \<or> (\<exists>u. hasura = Some (''https://'' @ u)) \<Longrightarrow> ''http://localhost:4000'' \<notin> set (connect_sources hasura)"
  by (auto simp: connect_sources_def Let_def self_source_def replace_scheme_def startsWith_def)

lemma socket_not_in_policy:
  "toWsUrl (Some (''http://'' @ h)) \<notin> set (connect_sources (Some (''http://'' @ h)))"
  by (simp add: connect_sources_def Let_def self_source_def replace_scheme_def startsWith_def toWsUrl_def truthy_def)

lemma socket_in_policy:
  "toWsUrl (Some (''https://'' @ h)) \<in> set (connect_sources (Some (''https://'' @ h)))"
  by (simp add: connect_sources_def Let_def replace_scheme_def startsWith_def toWsUrl_def truthy_def)

text \<open>A redirect leads to a path that is redirected no further, and every page below \<open>/rent\<close> and \<open>/guest\<close> is shadowed.\<close>

lemma redirect_once: "redirects p = Some q \<Longrightarrow> redirects q = None"
  by (auto simp: redirects_def below_def startsWith_def split: if_splits)

lemma legacy_pages_shadowed:
  "redirects (''/rent/'' @ i @ ''/escrow/'' @ e) = Some (''/listing/'' @ i @ ''/escrow/'' @ e)"
  "redirects ''/rent'' = Some ''/listing''"
  "redirects ''/guest/suggestions'' = Some ''/dashboard/guest/suggestions''"
  by (simp_all add: redirects_def below_def startsWith_def)

lemma supported_known: "toSupportedLanguage t = Some l \<Longrightarrow> l \<in> set SUPPORTED_LANGUAGES"
  by (auto simp: toSupportedLanguage_def Let_def split: if_splits)

lemma first_supported_known: "first_supported ts \<in> set SUPPORTED_LANGUAGES"
proof (induction ts)
  case Nil
  then show ?case by (simp add: DEFAULT_LANGUAGE_def SUPPORTED_LANGUAGES_def)
next
  case (Cons t ts)
  then show ?case using supported_known [of t] by (cases "toSupportedLanguage t") simp_all
qed

lemma detected_known: "detectLanguage stored ls l \<in> set SUPPORTED_LANGUAGES"
  using supported_known [of stored] first_supported_known by (auto simp: detectLanguage_def split: option.splits)

lemma supported_again: "l \<in> set SUPPORTED_LANGUAGES \<Longrightarrow> toSupportedLanguage (Some l) = Some l"
proof -
  have "list_all (\<lambda>l. toSupportedLanguage (Some l) = Some l) SUPPORTED_LANGUAGES" by code_simp
  then show "l \<in> set SUPPORTED_LANGUAGES \<Longrightarrow> toSupportedLanguage (Some l) = Some l" by (simp add: list_all_iff)
qed

text \<open>A stored choice wins over the browser, and is detected as it was stored.\<close>

lemma choice_wins: "l \<in> set SUPPORTED_LANGUAGES \<Longrightarrow> detectLanguage (Some l) ls b = l"
  by (simp add: detectLanguage_def supported_again)

definition lang_ok :: "string option \<Rightarrow> lang_state \<Rightarrow> bool" where
  "lang_ok before s \<longleftrightarrow> lg_html s \<in> set SUPPORTED_LANGUAGES
     \<and> \<not> (lg_stored s \<noteq> before \<and> (\<forall>l \<in> set SUPPORTED_LANGUAGES. lg_stored s \<noteq> Some l))"

lemma lang_event_ok: "lang_ok before s \<Longrightarrow> lang_ok before (lang_event e s)"
  by (cases e) (auto simp: lang_ok_def dest: supported_known split: option.splits)

text \<open>
  Whatever languages the library announces, the language of the document is one the site has texts for,
  and the storage holds what it held at first or such a language; what is detected afterwards is supported too,
  and is the stored choice whenever that is supported.
\<close>

theorem language_supported:
  "(let s = lang_run es (lang_initial before); d = detectLanguage (lg_stored s) ls b
    in lg_html s \<in> set SUPPORTED_LANGUAGES \<and> d \<in> set SUPPORTED_LANGUAGES
     \<and> (if lg_stored s = before then True else lg_stored s = Some d))"
proof -
  let ?s = "lang_run es (lang_initial before)"
  have run: "lang_ok before (lang_run es s)" if "lang_ok before s" for s
    using that unfolding lang_run_def by (induction es arbitrary: s) (simp_all add: lang_event_ok)
  have "lang_ok before (lang_initial before)"
    by (simp add: lang_ok_def lang_initial_def DEFAULT_LANGUAGE_def SUPPORTED_LANGUAGES_def)
  from run [OF this] have ok: "lang_ok before ?s" .
  have "lg_stored ?s = Some (detectLanguage (lg_stored ?s) ls b)" if ne: "lg_stored ?s \<noteq> before"
  proof -
    from ok ne obtain l where l: "l \<in> set SUPPORTED_LANGUAGES" "lg_stored ?s = Some l" by (auto simp: lang_ok_def)
    then show ?thesis by (simp add: choice_wins)
  qed
  then show ?thesis using ok detected_known by (simp add: lang_ok_def Let_def)
qed

text \<open>A visitor who chooses while the detected language is being applied is not remembered.\<close>

lemma choice_while_detecting_lost:
  "lg_applying s \<Longrightarrow> lg_stored (lang_event (LanguageChanged l w) s) = lg_stored s"
  by (simp split: option.splits)

lemma detection_not_stored:
  "lg_applying s \<Longrightarrow> lg_stored (lang_run [LanguageChanged l w, Applied] s) = lg_stored s"
  by (simp add: lang_run_def split: option.splits)

text \<open>Storage that can be read lets everybody in, whether or not it holds a wallet.\<close>

lemma dashboard_open:
  assumes "\<And>k. \<exists>v. getItem k = Inr v"
  shows "dashboard_view p (checkAuth getItem \<lparr>dl_isLoading = True, dl_isAuthError = False\<rparr>) = ShellChildren"
proof -
  obtain v w where "getItem ''walletAddress'' = Inr v" "getItem ''address-wallet'' = Inr w" using assms by meson
  then show ?thesis by (simp add: dashboard_view_def checkAuth_def)
qed

lemma booking_escrow_public: "mid \<noteq> [] \<Longrightarrow> \<not> list_ex line_break mid \<Longrightarrow> isPublic (''/dashboard/event/booking/'' @ mid @ ''/escrow'')"
  by (simp add: isPublic_def matchesPublicPattern_def Let_def)
end
