(* ===== verification/Small_Pages.thy ===== *)
theory Small_Pages
  imports "HOL-Library.Multiset" Review_Filter Purchase_Flow
begin

text \<open>
  Pages with little state of their own: the date range of the analytics (\<open>DateRangePicker.tsx\<close>), the moderation
  queue, the list of reviews and the reputation, the notifications page and its settings, the listing menu, the
  profile form, the form for a new event, the list of escrows, and the escrow of a purchase
  (\<open>components/events/TicketEscrowIntegration.tsx\<close> with \<open>EventEscrowForm.tsx\<close>). Hasura and Firebase are what they
  answer; texts shown in toasts are kept, markup is left out.
\<close>

section \<open>The date range\<close>

record date_range =
  dr_start :: int
  dr_end :: int

text \<open>
  A calendar day without a date leaves the range alone. The type gives every range an end, so the case in
  which a second day completes the range (\<open>value.start && !value.end\<close>) cannot arise.
\<close>

datatype picker_act = CustomDay "int option" | PresetDays int int | ClearRange

fun picker_event :: "picker_act \<Rightarrow> date_range option \<Rightarrow> date_range option" where
  "picker_event (CustomDay d) v = (case d of None \<Rightarrow> v | Some t \<Rightarrow> Some \<lparr>dr_start = t, dr_end = t\<rparr>)"
| "picker_event (PresetDays now start) v = Some \<lparr>dr_start = start, dr_end = now\<rparr>"
| "picker_event ClearRange v = None"

definition picker_run :: "picker_act list \<Rightarrow> date_range option \<Rightarrow> date_range option" where
  "picker_run es v = foldl (\<lambda>v e. picker_event e v) v es"

section \<open>The moderation queue\<close>

definition pending_flags :: "flagged_listing list \<Rightarrow> flagged_listing list" where
  "pending_flags fs = filter (\<lambda>f. fl_status f = FlagPending) fs"

definition resolved_flags :: "flagged_listing list \<Rightarrow> flagged_listing list" where
  "resolved_flags fs = filter (\<lambda>f. fl_status f \<noteq> FlagPending) fs"

text \<open>A click on a row of the pending table; the toast names the event.\<close>

definition act_on_flag :: "flagged_listing \<Rightarrow> bool \<Rightarrow> flagged_listing list \<Rightarrow> flagged_listing list \<times> string" where
  "act_on_flag flag approve fs =
     (resolveFlag fs (fl_id flag) (if approve then FlagApproved else FlagRemoved),
      (if approve then ''Approved '' else ''Removed '') @ [CHR 0x22] @ fl_eventName flag @ [CHR 0x22])"

section \<open>Reviews and reputation\<close>

text \<open>The reviews passed, or the sample ones; what is visible and whether there is more.\<close>

definition review_items :: "'r list \<Rightarrow> 'r list option \<Rightarrow> 'r list" where
  "review_items stub reviews = (case reviews of Some (r # rs) \<Rightarrow> r # rs | _ \<Rightarrow> stub)"

definition visible_items :: "'r list \<Rightarrow> nat \<Rightarrow> 'r list" where
  "visible_items items visibleCount = take visibleCount items"

definition load_more :: "nat \<Rightarrow> 'r list \<Rightarrow> nat \<Rightarrow> nat" where
  "load_more pageSize items visibleCount =
     (if visibleCount < length items then visibleCount + pageSize else visibleCount)"

record reputation =
  rp_total_reviews :: nat
  rp_average_rating :: "rat option"
  rp_counts :: "nat list"
  rp_positive_percentage :: rat

text \<open>The counts are those of five stars down to one; an average that is no finite number is None.\<close>

definition no_reputation :: reputation where
  "no_reputation = \<lparr>rp_total_reviews = 0, rp_average_rating = Some 0, rp_counts = [0, 0, 0, 0, 0], rp_positive_percentage = 0\<rparr>"

definition hasReviews :: "reputation option \<Rightarrow> bool" where
  "hasReviews r = (let rep = (case r of None \<Rightarrow> no_reputation | Some x \<Rightarrow> x) in
     0 < rp_total_reviews rep \<and> rp_average_rating rep \<noteq> None)"

definition star_bars :: "reputation \<Rightarrow> rat list" where
  "star_bars r = map (\<lambda>c. if 0 < rp_total_reviews r then of_nat c / of_nat (rp_total_reviews r) * 100 else 0) (rp_counts r)"

section \<open>Notifications\<close>

record notification_row =
  nr_id :: string
  nr_type :: string
  nr_read :: bool

datatype display_type = DispSuccess | DispInfo | DispWarning

definition toDisplayType :: "string \<Rightarrow> display_type" where
  "toDisplayType t =
     (if t \<in> set [''success'', ''funded'', ''completed'', ''released'', ''resolved''] then DispSuccess
      else if t \<in> set [''warning'', ''disputed'', ''cancelled'', ''action_required'', ''about_to_sell''] then DispWarning
      else DispInfo)"

definition unreadCount :: "notification_row list \<Rightarrow> nat" where
  "unreadCount ns = length (filter (\<lambda>n. \<not> nr_read n) ns)"

text \<open>
  The user is not known yet, signed out or signed in. What the page shows: the notice that it loads, an error,
  that there is nothing, and the rows, which are shown whenever there are any.
\<close>

datatype current_user = Resolving | SignedOut | SignedIn string

record notifications_view =
  nv_loading :: bool
  nv_error :: bool
  nv_empty :: bool
  nv_rows :: "notification_row list"
  nv_mark_all :: bool

definition notifications_page :: "current_user \<Rightarrow> bool \<Rightarrow> bool \<Rightarrow> notification_row list \<Rightarrow> notifications_view" where
  "notifications_page u loading error ns = (let isLoading = (u = Resolving \<or> loading) in
     \<lparr>nv_loading = isLoading, nv_error = (\<not> isLoading \<and> error), nv_empty = (\<not> isLoading \<and> \<not> error \<and> ns = []),
      nv_rows = ns, nv_mark_all = (0 < unreadCount ns)\<rparr>)"

datatype notification_request = MarkRead string | MarkAllRead string

definition markAllRead :: "current_user \<Rightarrow> notification_request list" where
  "markAllRead u = (case u of SignedIn i \<Rightarrow> if i = [] then [] else [MarkAllRead i] | _ \<Rightarrow> [])"

definition row_clicked :: "notification_row \<Rightarrow> notification_request list" where
  "row_clicked n = (if nr_read n then [] else [MarkRead (nr_id n)])"

text \<open>The settings above the list: seven switches, and a save that only says so.\<close>

record switch_page =
  sw_on :: "string \<Rightarrow> bool"
  sw_isSaved :: bool
  sw_toasts :: "string list"
  sw_requests :: "string list"

definition switches_initial :: switch_page where
  "switches_initial = \<lparr>sw_on = (\<lambda>k. k \<noteq> ''smsDisputesOnly''), sw_isSaved = False, sw_toasts = [], sw_requests = []\<rparr>"

datatype switch_act = ToggleSwitch string | SaveSwitches | SavedTimer

fun switch_event :: "switch_act \<Rightarrow> switch_page \<Rightarrow> switch_page" where
  "switch_event (ToggleSwitch k) s = s\<lparr>sw_on := (sw_on s)(k := \<not> sw_on s k), sw_isSaved := False\<rparr>"
| "switch_event SaveSwitches s = s\<lparr>sw_isSaved := True,
     sw_toasts := sw_toasts s @ [''Notification preferences saved successfully!'']\<rparr>"
| "switch_event SavedTimer s = s\<lparr>sw_isSaved := False\<rparr>"

section \<open>Deleting a listing, editing the profile, creating an event\<close>

datatype page_toast = ToastSuccess string | ToastError string

text \<open>Hasura fails, answers with no row, or with the deleted one; the callback hears of the last only.\<close>

record delete_menu =
  dm_open :: bool
  dm_toasts :: "page_toast list"
  dm_confirmed :: "nat list"

definition handleConfirmDelete :: "(nat \<Rightarrow> string + nat option) \<Rightarrow> (nat \<Rightarrow> string) \<Rightarrow> nat \<Rightarrow> delete_menu \<Rightarrow> delete_menu" where
  "handleConfirmDelete mutate digits i s = (case mutate i of
       Inl e \<Rightarrow> s\<lparr>dm_toasts := dm_toasts s @ [ToastError ''Failed to delete listing. Please try again.'']\<rparr>
     | Inr None \<Rightarrow> s\<lparr>dm_toasts := dm_toasts s @ [ToastError ''Listing could not be deleted.'']\<rparr>
     | Inr (Some r) \<Rightarrow> s\<lparr>dm_toasts := dm_toasts s @ [ToastSuccess (''Listing '' @ digits i @ '' deleted'')],
         dm_confirmed := dm_confirmed s @ [i], dm_open := False\<rparr>)"

record profile_form =
  pf_firstName :: string
  pf_surnames :: string
  pf_phone :: string
  pf_countryCode :: string
  pf_location :: string
  pf_summary :: string
  pf_avatar :: "string option"

definition STUB_PROFILE :: profile_form where
  "STUB_PROFILE = \<lparr>pf_firstName = ''Randall'', pf_surnames = ''Valenciano'', pf_phone = ''6498 6325'', pf_countryCode = ''+506'',
     pf_location = ''Costa Rica, San Jos'' @ [CHR 0xE9], pf_summary = [], pf_avatar = None\<rparr>"

record profile_update =
  pu_id :: string
  pu_firstName :: string
  pu_lastName :: string
  pu_phoneNumber :: string
  pu_countryCode :: string
  pu_location :: string
  pu_summary :: string

definition profile_variables :: "string \<Rightarrow> profile_form \<Rightarrow> profile_update" where
  "profile_variables userId f = \<lparr>pu_id = userId, pu_firstName = pf_firstName f, pu_lastName = pf_surnames f,
     pu_phoneNumber = pf_phone f, pu_countryCode = pf_countryCode f, pu_location = pf_location f, pu_summary = pf_summary f\<rparr>"

definition profile_submit ::
    "(profile_update \<Rightarrow> string option) \<Rightarrow> string option \<Rightarrow> profile_form \<Rightarrow> profile_update list \<times> page_toast" where
  "profile_submit mutate userId f =
     (if \<not> truthy userId then ([], ToastError ''You must be signed in to update your profile.'')
      else (let u = profile_variables (the userId) f in
            ([u], case mutate u of None \<Rightarrow> ToastSuccess ''Profile saved.''
                  | Some e \<Rightarrow> ToastError ''Couldn't save your profile. Please try again.'')))"

text \<open>
  The form for a new event. The browser asks for a name and an address and bounds the lengths. The handler
  reads the names \<open>latitude\<close> and \<open>longitude\<close>, which are declared nowhere (the form has fields of that name), so
  making the argument of the mutation throws a \<open>ReferenceError\<close>.
\<close>

record event_form =
  ef_name :: string
  ef_description :: string
  ef_address :: string
  ef_location_area :: string
  ef_latitude :: string
  ef_longitude :: string

definition EMPTY_FORM :: event_form where
  "EMPTY_FORM = \<lparr>ef_name = [], ef_description = [], ef_address = [], ef_location_area = [],
     ef_latitude = ''9.9281'', ef_longitude = ''-84.0907''\<rparr>"

definition event_form_complete :: "event_form \<Rightarrow> bool" where
  "event_form_complete f \<longleftrightarrow> ef_name f \<noteq> [] \<and> length (ef_name f) \<le> 20 \<and> ef_address f \<noteq> [] \<and> length (ef_address f) \<le> 50
     \<and> length (ef_location_area f) \<le> 20 \<and> length (ef_description f) \<le> 50"

record event_object =
  eo_name :: string
  eo_description :: "string option"
  eo_address :: string
  eo_location_area :: "string option"
  eo_owner_id :: current_user
  eo_coordinates :: "(rat \<times> rat) option"

definition event_coordinates :: "string + (rat \<times> rat) option" where
  "event_coordinates = Inl ''latitude is not defined''"

definition event_object_of :: "current_user \<Rightarrow> event_form \<Rightarrow> string + event_object" where
  "event_object_of u f = (case event_coordinates of Inl e \<Rightarrow> Inl e
     | Inr c \<Rightarrow> Inr \<lparr>eo_name = ef_name f, eo_description = (if ef_description f = [] then None else Some (ef_description f)),
         eo_address = ef_address f, eo_location_area = (if ef_location_area f = [] then None else Some (ef_location_area f)),
         eo_owner_id = u, eo_coordinates = c\<rparr>)"

record event_page =
  ep_inserted :: "event_object list"
  ep_toasts :: "page_toast list"
  ep_route :: "string option"

definition event_submit :: "(event_object \<Rightarrow> string option) \<Rightarrow> current_user \<Rightarrow> event_form \<Rightarrow> event_page \<Rightarrow> event_page" where
  "event_submit mutate u f s = (if \<not> event_form_complete f then s
     else (let failed = (\<lambda>s. s\<lparr>ep_toasts := ep_toasts s @ [ToastError ''Failed to create event. Please try again.'']\<rparr>) in
       (case event_object_of u f of
          Inl e \<Rightarrow> failed s
        | Inr ob \<Rightarrow> (case mutate ob of
              Some e \<Rightarrow> failed s
            | None \<Rightarrow> s\<lparr>ep_inserted := ep_inserted s @ [ob], ep_toasts := ep_toasts s @ [ToastSuccess ''Event created''],
                ep_route := Some ''/dashboard/events''\<rparr>))))"

section \<open>The list of escrows\<close>

definition FILTER_TABS :: "string list" where
  "FILTER_TABS = [''All'', ''Pending'', ''Active'', ''Completed'', ''Disputed'']"

text \<open>The tabs and the states are words of ASCII letters.\<close>

definition filteredEscrows :: "('e \<Rightarrow> string) \<Rightarrow> string \<Rightarrow> 'e list \<Rightarrow> 'e list" where
  "filteredEscrows status tab es = filter (\<lambda>e. tab = ''All'' \<or> toUpperCase (status e) = toUpperCase tab) es"

section \<open>The escrow of a purchase\<close>

text \<open>
  The page loads the purchase, then its event and its ticket; the escrow form it shows needs a wallet. An
  escrow that was created is shown even when the purchase could not be updated with it.
\<close>

record integration =
  ig_isLoading :: bool
  ig_booking :: "ticket_purchase option"
  ig_event :: "event_data option"
  ig_escrowData :: "escrow_response option"
  ig_updates :: "escrow_response list"

definition integration_mounted :: integration where
  "integration_mounted = \<lparr>ig_isLoading = True, ig_booking = None, ig_event = None, ig_escrowData = None, ig_updates = []\<rparr>"

datatype integration_act = BookingLoaded ticket_purchase | DetailsLoaded event_data | LoadFailed | EscrowCreated escrow_response bool

fun integration_event :: "integration_act \<Rightarrow> integration \<Rightarrow> integration" where
  "integration_event (BookingLoaded p) s = s\<lparr>ig_booking := Some p\<rparr>"
| "integration_event (DetailsLoaded e) s = s\<lparr>ig_event := Some e, ig_isLoading := False\<rparr>"
| "integration_event LoadFailed s = s\<lparr>ig_isLoading := False\<rparr>"
| "integration_event (EscrowCreated r updated) s =
     s\<lparr>ig_updates := ig_updates s @ [r], ig_escrowData := Some r\<rparr>"

datatype escrow_screen =
    ScrSpinner
  | ScrFailed
  | ScrConfirmation escrow_response
  | ScrConnectWallet
  | ScrSingle "string option"
  | ScrMulti "milestone list" "string option"

text \<open>The forms are shown whether or not the purchase is valid; only the first error is named.\<close>

definition EventEscrowForm :: "(string \<Rightarrow> int option) \<Rightarrow> string \<Rightarrow> ticket_purchase \<Rightarrow> event_data \<Rightarrow> escrow_type \<Rightarrow> escrow_screen" where
  "EventEscrowForm parse_date wallet p e typ =
     (if wallet = [] then ScrConnectWallet
      else (let errs = validationErrors parse_date p e wallet;
                shown = (case errs of [] \<Rightarrow> None | x # _ \<Rightarrow> Some x)
            in (case typ of SingleRelease \<Rightarrow> ScrSingle shown
                | MultiRelease \<Rightarrow> ScrMulti (calculateMilestoneAmounts typ p (tp_totalAmount p)) shown)))"

definition integration_screen :: "(string \<Rightarrow> int option) \<Rightarrow> string \<Rightarrow> integration \<Rightarrow> escrow_screen" where
  "integration_screen parse_date wallet s =
     (if ig_isLoading s then ScrSpinner
      else (case (ig_booking s, ig_event s) of
          (Some p, Some e) \<Rightarrow> (case ig_escrowData s of
              Some r \<Rightarrow> ScrConfirmation r
            | None \<Rightarrow> EventEscrowForm parse_date wallet p e (escrow_type_of (Some p)))
        | _ \<Rightarrow> ScrFailed))"

definition cancel_target :: "integration \<Rightarrow> string" where
  "cancel_target s = ''/dashboard/event/details?id='' @ (case ig_booking s of None \<Rightarrow> [] | Some p \<Rightarrow> tp_eventId p)"

section \<open>What the pages promise\<close>

text \<open>Picking days on the calendar never gives more than one: a range of several days needs a preset.\<close>

lemma custom_days_single:
  "list_all (\<lambda>e. case e of PresetDays now start \<Rightarrow> False | _ \<Rightarrow> True) es \<Longrightarrow>
   v = None \<or> (\<exists>t. v = Some \<lparr>dr_start = t, dr_end = t\<rparr>) \<Longrightarrow>
   picker_run es v = None \<or> (\<exists>t. picker_run es v = Some \<lparr>dr_start = t, dr_end = t\<rparr>)"
proof (induction es arbitrary: v)
  case (Cons e es)
  have "picker_event e v = None \<or> (\<exists>t. picker_event e v = Some \<lparr>dr_start = t, dr_end = t\<rparr>)"
    using Cons.prems by (cases e) (auto split: option.splits)
  with Cons show ?case by (simp add: picker_run_def)
qed (simp add: picker_run_def)

text \<open>
  A decision moves the flag from the pending ones to the resolved ones and touches no flag with another id;
  the two tables together always show every flag once.
\<close>

lemma queue_partition: "mset (pending_flags fs) + mset (resolved_flags fs) = mset fs"
  by (induction fs) (simp_all add: pending_flags_def resolved_flags_def)

lemma decided_leaves_pending:
  "fl_id flag \<notin> fl_id ` set (pending_flags (fst (act_on_flag flag b fs)))"
  by (auto simp: act_on_flag_def pending_flags_def resolveFlag_def)

lemma others_untouched:
  "fl_id f \<noteq> fl_id flag \<Longrightarrow> f \<in> set (fst (act_on_flag flag b fs)) \<longleftrightarrow> f \<in> set fs"
  by (force simp: act_on_flag_def resolveFlag_def)

text \<open>A user without reviews is shown those of others, the sample ones.\<close>

lemma no_reviews_shows_samples: "review_items stub (Some []) = stub"
  by (simp add: review_items_def)

text \<open>Loading more with a positive page size shows everything after finitely many clicks, in order and without repetition.\<close>

lemma load_more_grows:
  "1 \<le> pageSize \<Longrightarrow> n + k * pageSize \<le> (load_more pageSize items ^^ k) n \<or> length items \<le> (load_more pageSize items ^^ k) n"
  by (induction k) (auto simp: load_more_def)

lemma all_items_reachable:
  "1 \<le> pageSize \<Longrightarrow> visible_items items ((load_more pageSize items ^^ length items) n) = items"
proof -
  assume a: "1 \<le> pageSize"
  then have "length items \<le> length items * pageSize" by simp
  then have "length items \<le> n + length items * pageSize" by linarith
  then have "length items \<le> (load_more pageSize items ^^ length items) n"
    using load_more_grows [OF a, of n "length items" items] by linarith
  then show ?thesis by (simp add: visible_items_def)
qed

lemma bars_sum:
  "0 < rp_total_reviews r \<Longrightarrow> sum_list (rp_counts r) = rp_total_reviews r \<Longrightarrow> sum_list (star_bars r) = 100"
proof -
  assume a: "0 < rp_total_reviews r" "sum_list (rp_counts r) = rp_total_reviews r"
  have "sum_list (map (\<lambda>c. of_nat c / of_nat n * 100) cs) = of_nat (sum_list cs) / of_nat n * (100 :: rat)" for cs n
    by (induction cs) (simp_all add: add_divide_distrib distrib_right)
  with a show ?thesis by (simp add: star_bars_def)
qed

lemma rows_hidden_by_nothing: "nv_rows (notifications_page u loading True ns) = ns"
  by (simp add: notifications_page_def Let_def)

lemma one_notice:
  "(nv_loading v \<longrightarrow> \<not> nv_error v \<and> \<not> nv_empty v) \<and> (nv_error v \<longrightarrow> \<not> nv_empty v)"
  if "v = notifications_page u loading error ns"
  using that by (auto simp: notifications_page_def Let_def)

lemma signed_out_marks_nothing: "markAllRead SignedOut = []" "markAllRead Resolving = []"
  by (simp_all add: markAllRead_def)

lemma read_row_quiet: "nr_read n \<Longrightarrow> row_clicked n = []"
  by (simp add: row_clicked_def)

text \<open>The save of the switches is announced and sends nothing.\<close>

lemma switches_send_nothing: "sw_requests (foldl (\<lambda>s e. switch_event e s) s es) = sw_requests s"
proof (induction es arbitrary: s)
  case (Cons e es)
  then show ?case by (cases e) simp_all
qed simp

text \<open>The callback of the menu hears of exactly the listings Hasura confirmed as deleted.\<close>

lemma delete_confirmed_exact:
  "(dm_confirmed (handleConfirmDelete mutate digits i s) \<noteq> dm_confirmed s) = (\<exists>r. mutate i = Inr (Some r))"
  by (auto simp: handleConfirmDelete_def split: sum.splits option.splits)

text \<open>
  The profile form starts from sample data: saving it untouched writes the sample person over the user. A
  chosen picture is in no request.
\<close>

lemma untouched_profile_saved:
  "fst (profile_submit mutate (Some ''u'') STUB_PROFILE) = [profile_variables ''u'' STUB_PROFILE]"
  "pu_firstName (profile_variables ''u'' STUB_PROFILE) = ''Randall''"
  by (simp_all add: profile_submit_def truthy_def Let_def profile_variables_def STUB_PROFILE_def)

lemma avatar_never_sent: "profile_submit mutate u (f\<lparr>pf_avatar := a\<rparr>) = profile_submit mutate u f"
  by (simp add: profile_submit_def profile_variables_def)

text \<open>No event is ever created from the form: the mutation is not even called.\<close>

lemma event_never_created:
  "ep_inserted (event_submit mutate u f s) = ep_inserted s" "ep_route (event_submit mutate u f s) = ep_route s"
  by (simp_all add: event_submit_def event_object_of_def event_coordinates_def Let_def)

text \<open>Every state named by a tab is found under it and under no other of the four.\<close>

lemma tabs_partition:
  "toUpperCase (status e) \<in> set (map toUpperCase (tl FILTER_TABS)) \<Longrightarrow>
   length (filter (\<lambda>t. filteredEscrows status t [e] = [e]) (tl FILTER_TABS)) = 1"
proof -
  have u: "map toUpperCase (tl FILTER_TABS) = [''PENDING'', ''ACTIVE'', ''COMPLETED'', ''DISPUTED'']" by code_simp
  have t: "tl FILTER_TABS = [''Pending'', ''Active'', ''Completed'', ''Disputed'']" by (simp add: FILTER_TABS_def)
  have v: "toUpperCase ''Pending'' = ''PENDING''" "toUpperCase ''Active'' = ''ACTIVE''"
    "toUpperCase ''Completed'' = ''COMPLETED''" "toUpperCase ''Disputed'' = ''DISPUTED''"
    using u by (simp_all add: t)
  assume "toUpperCase (status e) \<in> set (map toUpperCase (tl FILTER_TABS))"
  then show ?thesis unfolding u by (auto simp: t filteredEscrows_def v)
qed

text \<open>The escrow form is offered for an invalid purchase too, and a failed update of the purchase changes nothing shown.\<close>

lemma invalid_form_offered:
  "wallet \<noteq> [] \<Longrightarrow> EventEscrowForm pd wallet p e SingleRelease
     = ScrSingle (case validationErrors pd p e wallet of [] \<Rightarrow> None | x # _ \<Rightarrow> Some x)"
  by (simp add: EventEscrowForm_def Let_def)

lemma update_failure_unseen:
  "integration_event (EscrowCreated r False) s = integration_event (EscrowCreated r True) s"
  by simp

lemma confirmation_needs_escrow:
  "integration_screen pd w s = ScrConfirmation r \<Longrightarrow> ig_escrowData s = Some r"
  by (auto simp: integration_screen_def EventEscrowForm_def Let_def
      split: if_splits option.splits escrow_type.splits)
end
