(* ===== verification/Support_Tools.thy ===== *)
theory Support_Tools
  imports Listing_Browse Site_Shell Js_Map
begin

text \<open>
  Tools beside the pages: the command-line test of the refunds (\<open>scripts/refund-smoke-test.ts\<close> of the backend), the
  timings of \<open>utils/performance-monitor.ts\<close>, the texts of \<open>tw-blocks/helpers/format.helper.ts\<close>, the escrow queries
  under \<open>tw-blocks/tanstack\<close>, the client of \<open>core/config/axios/http.ts\<close>, the metadata for crawlers
  (\<open>app/sitemap.ts\<close>, \<open>app/robots.ts\<close>, \<open>lib/metadata\<close>) and the error filter of \<open>sentry.client.config.ts\<close>. The clock, the
  environment, \<open>JSON.stringify\<close> and what a service answers are parameters.
\<close>

section \<open>The refund smoke test\<close>

record smoke_config =
  sk_apiKey :: string
  sk_disputeResolverSecret :: string
  sk_baseUrl :: string
  sk_escrowId :: string
  sk_refundAmount :: string
  sk_refundReceiver :: "string option"
  sk_timeoutMs :: rat

definition smoke_required :: "string list" where
  "smoke_required = [''TRUSTLESS_WORK_API_KEY'', ''TRUSTLESS_WORK_DISPUTE_RESOLVER_SECRET'', ''TRUSTLESS_WORK_BASE_URL'',
     ''TRUSTLESS_WORK_TESTNET_ESCROW_ID'']"

definition smoke_missing :: "(string \<Rightarrow> string option) \<Rightarrow> string list" where
  "smoke_missing env = filter (\<lambda>n. case env n of None \<Rightarrow> True | Some v \<Rightarrow> trim v = []) smoke_required"

definition smoke_timeout :: "string option \<Rightarrow> jsnum" where
  "smoke_timeout raw = (if truthy raw then parseInt (the raw) else Fin 60000)"

text \<open>The text of the error names the value as \<open>String\<close> prints it; an unset one never gets there.\<close>

definition readConfig :: "(string \<Rightarrow> string option) \<Rightarrow> string + smoke_config" where
  "readConfig env =
     (if smoke_missing env \<noteq> [] then Inl (''Missing required environment variable(s): '' @ join '', '' (smoke_missing env))
      else (case smoke_timeout (env ''REFUND_SMOKE_TIMEOUT_MS'') of
          Fin t \<Rightarrow> if t \<le> 0 then Inl (''Invalid REFUND_SMOKE_TIMEOUT_MS value: '' @ (case env ''REFUND_SMOKE_TIMEOUT_MS'' of None \<Rightarrow> ''undefined'' | Some v \<Rightarrow> v))
            else Inr \<lparr>sk_apiKey = the (env ''TRUSTLESS_WORK_API_KEY''),
              sk_disputeResolverSecret = the (env ''TRUSTLESS_WORK_DISPUTE_RESOLVER_SECRET''),
              sk_baseUrl = the (env ''TRUSTLESS_WORK_BASE_URL''), sk_escrowId = the (env ''TRUSTLESS_WORK_TESTNET_ESCROW_ID''),
              sk_refundAmount = (case env ''TRUSTLESS_WORK_TESTNET_REFUND_AMOUNT'' of None \<Rightarrow> ''1'' | Some a \<Rightarrow> a),
              sk_refundReceiver = env ''TRUSTLESS_WORK_TESTNET_REFUND_RECEIVER'', sk_timeoutMs = t\<rparr>
        | _ \<Rightarrow> Inl (''Invalid REFUND_SMOKE_TIMEOUT_MS value: '' @ (case env ''REFUND_SMOKE_TIMEOUT_MS'' of None \<Rightarrow> ''undefined'' | Some v \<Rightarrow> v))))"

text \<open>A promise and a timer: the first to report settles the result, whatever reports later changes nothing.\<close>

datatype 'a race_event = PromiseResolved 'a | PromiseRejected string | TimerFired

fun withTimeout :: "string \<Rightarrow> 'a race_event list \<Rightarrow> (string + 'a) option" where
  "withTimeout ms [] = None"
| "withTimeout ms (PromiseResolved v # es) = Some (Inr v)"
| "withTimeout ms (PromiseRejected e # es) = Some (Inl e)"
| "withTimeout ms (TimerFired # es) = Some (Inl (''Refund smoke test timed out after '' @ ms @ ''ms''))"

definition type_of :: "json \<Rightarrow> string" where
  "type_of j = (case j of JBool b \<Rightarrow> ''boolean'' | JNum n \<Rightarrow> ''number'' | JStr s \<Rightarrow> ''string'' | _ \<Rightarrow> ''object'')"

definition success_words :: "string list" where
  "success_words = [''success'', ''succeeded'', ''ok'', ''completed'']"

definition assertSuccessfulRefund :: "(json \<Rightarrow> string) \<Rightarrow> json option \<Rightarrow> string + unit" where
  "assertSuccessfulRefund stringify result = (case result of
       None \<Rightarrow> Inl ''Refund returned an empty response''
     | Some r \<Rightarrow>
         if r = JNull then Inl ''Refund returned an empty response''
         else if type_of r \<noteq> ''object'' then Inl (''Refund returned an unexpected response type: '' @ type_of r)
         else if json_prop r ''success'' = Some (JBool False) then Inl (''Refund reported failure: '' @ stringify r)
         else if nullish (json_prop r ''error'') \<noteq> None
           then Inl (''Refund returned an error: '' @ stringify (the (json_prop r ''error'')))
         else (case json_prop r ''status'' of
             Some (JStr s) \<Rightarrow> if toLowerCase s \<in> set success_words then Inr ()
               else Inl (''Refund returned non-success status: '' @ s)
           | _ \<Rightarrow> if json_prop r ''success'' = Some (JBool True) then Inr ()
               else Inl (''Refund response did not indicate success: '' @ stringify r)))"

text \<open>
  The run over the modules it imports: whether the client exists and has a \<open>configure\<close>, and which of the two
  methods the service has (each a function from the configuration to how its promise and the timer report).
\<close>

record smoke_modules =
  sm_client :: bool
  sm_executeRefund :: "(smoke_config \<Rightarrow> json option race_event list) option"
  sm_refund :: "(smoke_config \<Rightarrow> json option race_event list) option"

definition smoke_run :: "(json \<Rightarrow> string) \<Rightarrow> (rat \<Rightarrow> string) \<Rightarrow> smoke_modules \<Rightarrow> (string \<Rightarrow> string option) \<Rightarrow> (string + unit) option" where
  "smoke_run stringify digits ms env = (case readConfig env of
       Inl e \<Rightarrow> Some (Inl e)
     | Inr c \<Rightarrow>
         if \<not> sm_client ms then Some (Inl ''Cannot read properties of undefined'')
         else (case (case sm_executeRefund ms of Some f \<Rightarrow> Some f | None \<Rightarrow> sm_refund ms) of
             None \<Rightarrow> Some (Inl ''refundService does not expose an executeRefund/refund method'')
           | Some f \<Rightarrow> (case withTimeout (digits (sk_timeoutMs c)) (f c) of
                 None \<Rightarrow> None
               | Some (Inl e) \<Rightarrow> Some (Inl e)
               | Some (Inr r) \<Rightarrow> Some (assertSuccessfulRefund stringify r))))"

text \<open>
  The modules as they are: the client exports \<open>trustlessWorkClient\<close>, no \<open>trustlessWork\<close>, and the methods of the
  service are \<open>claimRefund\<close>, \<open>getClaimStatus\<close> and \<open>cleanup\<close>.
\<close>

definition repository_modules :: smoke_modules where
  "repository_modules = \<lparr>sm_client = False, sm_executeRefund = None, sm_refund = None\<rparr>"

definition exit_code :: "(string + unit) option \<Rightarrow> nat option" where
  "exit_code r = (case r of None \<Rightarrow> None | Some (Inr u) \<Rightarrow> Some 0 | Some (Inl e) \<Rightarrow> Some 1)"

section \<open>Timings\<close>

type_synonym metrics = "(string, rat list) jmap"

definition logMetric :: "string \<Rightarrow> rat \<Rightarrow> metrics \<Rightarrow> metrics" where
  "logMetric label d m = (let current = (case jm_get m label of None \<Rightarrow> [] | Some v \<Rightarrow> v) @ [d] in
     jm_set m label (if 50 < length current then drop 1 current else current))"

definition getAverage :: "metrics \<Rightarrow> string \<Rightarrow> rat" where
  "getAverage m label = (let values = (case jm_get m label of None \<Rightarrow> [] | Some v \<Rightarrow> v) in
     if length values = 0 then 0 else fold (\<lambda>b a. a + b) values 0 / of_nat (length values))"

definition getAllMetrics :: "metrics \<Rightarrow> (string \<times> rat) list" where
  "getAllMetrics m = map (\<lambda>(label, _). (label, getAverage m label)) m"

section \<open>Texts\<close>

text \<open>\<open>slice(0, n)\<close> and \<open>slice(-n)\<close>.\<close>

definition short_address :: "string \<Rightarrow> string" where
  "short_address a = take 10 a @ ''...'' @ drop (length a - 4) a"

definition ascii_capital :: "char \<Rightarrow> bool" where
  "ascii_capital c = (let n = (of_char c :: nat) in 65 \<le> n \<and> n \<le> 90)"

definition upper_first :: "string \<Rightarrow> string" where
  "upper_first s = toUpperCase (take 1 s) @ drop 1 s"

text \<open>Each capital gets a blank in front; \<open>^.\<close> does not match a line break, and trimming comes last.\<close>

definition formatRole :: "string \<Rightarrow> string" where
  "formatRole role = (let s = concat (map (\<lambda>c. if ascii_capital c then [CHR '' '', c] else [c]) role) in
     trim (case s of [] \<Rightarrow> [] | c # r \<Rightarrow> if line_break c then s else upper_first s))"

definition formatText :: "string \<Rightarrow> string" where
  "formatText t = upper_first t"

section \<open>The escrow queries\<close>

text \<open>The parameters beside the one a query is for; unset ones are None.\<close>

record escrow_filter =
  xf_isActive :: "bool option"
  xf_page :: "nat option"
  xf_orderDirection :: "string option"
  xf_orderBy :: "string option"
  xf_startDate :: "string option"
  xf_endDate :: "string option"
  xf_maxAmount :: "rat option"
  xf_minAmount :: "rat option"
  xf_title :: "string option"
  xf_engagementId :: "string option"
  xf_status :: "string option"
  xf_type :: "string option"
  xf_validateOnChain :: bool

datatype key_part = KText "string option" | KBool "bool option" | KNum "rat option"

definition filter_key :: "escrow_filter \<Rightarrow> key_part list" where
  "filter_key f = [KBool (xf_isActive f), KNum (map_option of_nat (xf_page f)), KText (xf_orderDirection f), KText (xf_orderBy f),
     KText (xf_startDate f), KText (xf_endDate f), KNum (xf_maxAmount f), KNum (xf_minAmount f), KText (xf_title f),
     KText (xf_engagementId f), KText (xf_status f), KText (xf_type f), KBool (Some (xf_validateOnChain f))]"

record role_query =
  rq_role :: "string option"
  rq_roleAddress :: string
  rq_filter :: escrow_filter
  rq_enabled :: "bool option"

definition role_key :: "role_query \<Rightarrow> key_part list" where
  "role_key q = [KText (Some ''escrows''), KText (Some (rq_roleAddress q)), KText (rq_role q)] @ filter_key (rq_filter q)"

definition role_enabled :: "role_query \<Rightarrow> bool" where
  "role_enabled q \<longleftrightarrow> (case rq_enabled q of None \<Rightarrow> True | Some b \<Rightarrow> b) \<and> rq_roleAddress q \<noteq> [] \<and> truthy (rq_role q)"

definition escrows_by_role ::
    "(string \<Rightarrow> string \<Rightarrow> escrow_filter \<Rightarrow> string + 'e list option) \<Rightarrow> role_query \<Rightarrow> string + 'e list" where
  "escrows_by_role indexer q =
     (if \<not> truthy (rq_role q) then Inl ''Role is required to fetch escrows by role''
      else (case indexer (the (rq_role q)) (rq_roleAddress q) (rq_filter q) of
          Inl e \<Rightarrow> Inl e | Inr None \<Rightarrow> Inl ''Failed to fetch escrows'' | Inr (Some es) \<Rightarrow> Inr es))"

definition signer_key :: "string \<Rightarrow> escrow_filter \<Rightarrow> key_part list" where
  "signer_key signer f = [KText (Some ''escrows''), KText (Some signer)] @ filter_key f"

definition escrows_by_signer ::
    "(string \<Rightarrow> escrow_filter \<Rightarrow> string + 'e list option) \<Rightarrow> string \<Rightarrow> escrow_filter \<Rightarrow> string + 'e list" where
  "escrows_by_signer indexer signer f = (case indexer signer f of
       Inl e \<Rightarrow> Inl e | Inr None \<Rightarrow> Inl ''Failed to fetch escrows'' | Inr (Some es) \<Rightarrow> Inr es)"

section \<open>The platform's client, crawlers, the error filter\<close>

definition tw_base_url :: "(string \<Rightarrow> string option) \<Rightarrow> string" where
  "tw_base_url env = (if env ''NODE_ENV'' = Some ''development''
     then (case env ''NEXT_PUBLIC_TRUSTLESS_API_URL_DEV'' of None \<Rightarrow> ''https://dev.api.trustlesswork.com'' | Some u \<Rightarrow> u)
     else (case env ''NEXT_PUBLIC_TRUSTLESS_API_URL'' of None \<Rightarrow> ''https://api.trustlesswork.com'' | Some u \<Rightarrow> u))"

definition tw_headers :: "(string \<Rightarrow> string option) \<Rightarrow> (string \<times> string) list" where
  "tw_headers env = [(''Content-Type'', ''application/json''),
     (''Authorization'', ''Bearer '' @ (case env ''NEXT_PUBLIC_API_KEY'' of None \<Rightarrow> [] | Some k \<Rightarrow> k))]"

definition site_base :: "(string \<Rightarrow> string option) \<Rightarrow> string" where
  "site_base env = (case env ''NEXT_PUBLIC_APP_URL'' of None \<Rightarrow> ''http://localhost:3000'' | Some u \<Rightarrow> u)"

text \<open>The paths of the sitemap, each behind the origin of the site.\<close>

definition sitemap_paths :: "string list \<Rightarrow> string list" where
  "sitemap_paths ids = [[], ''/rent''] @ map (\<lambda>i. ''/rent/'' @ i) ids"

definition sitemap :: "(string \<Rightarrow> string option) \<Rightarrow> string list \<Rightarrow> string list" where
  "sitemap env ids = map (\<lambda>p. site_base env @ p) (sitemap_paths ids)"

definition robots_allow :: "string list" where
  "robots_allow = [''/'', ''/rent'', ''/listing'']"

definition robots_disallow :: "string list" where
  "robots_disallow = [''/dashboard/'', ''/api/'']"

text \<open>\<open>JSON.stringify\<close> with every \<open><\<close> written as an escape.\<close>

definition serializeJsonLd :: "string \<Rightarrow> string" where
  "serializeJsonLd s = concat (map (\<lambda>c. if c = CHR ''<'' then [CHR 0x5C] @ ''u003c'' else [c]) s)"

text \<open>\<open>hint.originalException\<close> is an \<open>Error\<close> with a message, or something else.\<close>

definition client_beforeSend :: "string option \<Rightarrow> 'ev \<Rightarrow> 'ev option" where
  "client_beforeSend err event = (case err of
       Some m \<Rightarrow> if startsWith m ''[Reown] AppKit initialized'' \<or> startsWith m ''[reown/appkit]'' then None else Some event
     | None \<Rightarrow> Some event)"

section \<open>What they promise\<close>

lemma exit_simps: "exit_code (Some (Inl e)) = Some 1" "exit_code (Some (Inr ())) = Some 0" "exit_code None = None"
  by (simp_all add: exit_code_def)

text \<open>
  The smoke test can only fail: with the modules the repository has it ends with status 1 in every
  environment, since the client it configures and the method it calls do not exist. Over a service that has the
  method it passes exactly for a complete environment and an answer, in time, that says success in no uncertain terms.
\<close>

theorem smoke_test_exact:
  "exit_code (smoke_run stringify digits repository_modules env) = Some 1
   \<and> (exit_code (smoke_run stringify digits \<lparr>sm_client = True, sm_executeRefund = Some f, sm_refund = g\<rparr> env) = Some 0)
     = (case readConfig env of Inl e \<Rightarrow> False
        | Inr c \<Rightarrow> (case f c of PromiseResolved (Some r) # _ \<Rightarrow>
              type_of r = ''object'' \<and> r \<noteq> JNull \<and> json_prop r ''success'' \<noteq> Some (JBool False) \<and> nullish (json_prop r ''error'') = None
              \<and> (case json_prop r ''status'' of Some (JStr s) \<Rightarrow> toLowerCase s \<in> set success_words
                 | _ \<Rightarrow> json_prop r ''success'' = Some (JBool True))
            | _ \<Rightarrow> False))"
proof -
  have first: "exit_code (smoke_run stringify digits repository_modules env) = Some 1"
    by (simp add: smoke_run_def repository_modules_def exit_code_def split: sum.splits)
  have verdict: "exit_code (Some (assertSuccessfulRefund stringify v)) = Some 0
      \<longleftrightarrow> (case v of None \<Rightarrow> False | Some r \<Rightarrow> type_of r = ''object'' \<and> r \<noteq> JNull
        \<and> json_prop r ''success'' \<noteq> Some (JBool False) \<and> nullish (json_prop r ''error'') = None
        \<and> (case json_prop r ''status'' of Some (JStr s) \<Rightarrow> toLowerCase s \<in> set success_words
           | _ \<Rightarrow> json_prop r ''success'' = Some (JBool True)))" for v
  proof (cases v)
    case None
    then show ?thesis by (simp add: assertSuccessfulRefund_def exit_simps)
  next
    case v: (Some r)
    show ?thesis
    proof (cases "json_prop r ''status''")
      case None
      then show ?thesis by (simp add: v assertSuccessfulRefund_def exit_simps)
    next
      case (Some s)
      then show ?thesis by (cases s) (simp_all add: v assertSuccessfulRefund_def exit_simps)
    qed
  qed
  show ?thesis
  proof (cases "readConfig env")
    case (Inl e)
    then show ?thesis using first by (simp add: smoke_run_def exit_code_def)
  next
    case (Inr c)
    have run: "smoke_run stringify digits \<lparr>sm_client = True, sm_executeRefund = Some f, sm_refund = g\<rparr> env
       = (case withTimeout (digits (sk_timeoutMs c)) (f c) of None \<Rightarrow> None | Some (Inl e) \<Rightarrow> Some (Inl e)
          | Some (Inr r) \<Rightarrow> Some (assertSuccessfulRefund stringify r))"
      by (simp add: smoke_run_def Inr)
    show ?thesis
    proof (cases "withTimeout (digits (sk_timeoutMs c)) (f c)")
      case None
      then have "f c = []" by (cases "(digits (sk_timeoutMs c), f c)" rule: withTimeout.cases) auto
      then show ?thesis using first by (simp add: run Inr exit_code_def)
    next
      case (Some o1)
      then show ?thesis using first verdict
        by (cases "(digits (sk_timeoutMs c), f c)" rule: withTimeout.cases) (auto simp: run Inr exit_code_def split: option.splits)
    qed
  qed
qed

lemma settled_once: "es \<noteq> [] \<Longrightarrow> withTimeout ms (es @ later) = withTimeout ms es"
  by (cases "(ms, es)" rule: withTimeout.cases) auto

text \<open>The monitor keeps the last fifty timings of each label, in order, and forgets no label.\<close>

definition last_n :: "nat \<Rightarrow> 'a list \<Rightarrow> 'a list" where
  "last_n n xs = drop (length xs - n) xs"

lemma last_n_snoc: "last_n 50 (xs @ [d]) = (let c = last_n 50 xs @ [d] in if 50 < length c then drop 1 c else c)"
proof -
  have "length xs - 49 = Suc (length xs - 50)" if "50 \<le> length xs" using that by simp
  then show ?thesis by (cases "50 \<le> length xs") (simp_all add: last_n_def Let_def)
qed

lemma get_logMetric:
  "jm_get (logMetric l d m) k = (if k = l
     then Some (let c = (case jm_get m l of None \<Rightarrow> [] | Some v \<Rightarrow> v) @ [d] in if 50 < length c then drop 1 c else c)
     else jm_get m k)"
  by (simp add: logMetric_def Let_def)

lemma timings_exact:
  "jm_get (fold (\<lambda>(l, d). logMetric l d) ts []) label =
     (let ds = map snd (filter (\<lambda>(l, d). l = label) ts) in if ds = [] then None else Some (last_n 50 ds))"
proof (induction ts rule: rev_induct)
  case Nil
  then show ?case by simp
next
  case (snoc t ts)
  obtain l d where t: "t = (l, d)" by (cases t)
  show ?case
  proof (cases "l = label")
    case False
    then show ?thesis using snoc by (simp add: t get_logMetric)
  next
    case True
    let ?ds = "map snd (filter (\<lambda>(l, d). l = label) ts)"
    have "(case jm_get (fold (\<lambda>(l, d). logMetric l d) ts []) label of None \<Rightarrow> [] | Some v \<Rightarrow> v) = last_n 50 ?ds"
      using snoc by (simp add: Let_def last_n_def)
    then show ?thesis using True by (simp add: t get_logMetric last_n_snoc)
  qed
qed

lemma average_bounds:
  "vs \<noteq> [] \<Longrightarrow> jm_get m label = Some vs \<Longrightarrow> Min (set vs) \<le> getAverage m label \<and> getAverage m label \<le> Max (set vs)"
proof -
  assume a: "vs \<noteq> []" "jm_get m label = Some vs"
  have s: "fold (\<lambda>b a. a + b) xs z = z + sum_list xs" for xs and z :: rat
    by (induction xs arbitrary: z) simp_all
  have s': "fold (+) xs z = z + sum_list xs" for xs and z :: rat
    by (induction xs arbitrary: z) (simp_all add: add_ac)
  have "of_nat (length xs) * lo \<le> sum_list xs \<and> sum_list xs \<le> of_nat (length xs) * hi"
    if "\<And>x. x \<in> set xs \<Longrightarrow> lo \<le> x \<and> x \<le> hi" for xs and lo hi :: rat
    using that
  proof (induction xs)
    case (Cons x xs)
    have "lo \<le> x" "x \<le> hi" using Cons.prems [of x] by simp_all
    moreover have "of_nat (length xs) * lo \<le> sum_list xs \<and> sum_list xs \<le> of_nat (length xs) * hi"
      using Cons.IH Cons.prems by simp
    ultimately show ?case by (simp add: distrib_right)
  qed simp
  from this [of vs "Min (set vs)" "Max (set vs)"] have
    "of_nat (length vs) * Min (set vs) \<le> sum_list vs" "sum_list vs \<le> of_nat (length vs) * Max (set vs)" by simp_all
  then show ?thesis using a by (simp add: getAverage_def s s' field_simps)
qed

text \<open>Two queries with the same cache key ask the indexer the same, so no answer is shown for another question.\<close>

lemma filter_key_inj: "filter_key f = filter_key g \<longleftrightarrow> f = g"
proof -
  have "inj (map_option (of_nat :: nat \<Rightarrow> rat))" by (intro option.inj_map inj_of_nat)
  then have "map_option (of_nat :: nat \<Rightarrow> rat) x = map_option of_nat y \<longleftrightarrow> x = y" for x y by (auto dest: injD)
  then show ?thesis by (cases f; cases g) (auto simp: filter_key_def)
qed

lemma role_key_inj:
  "role_key p = role_key q \<Longrightarrow> escrows_by_role indexer p = escrows_by_role indexer q"
  by (simp add: role_key_def filter_key_inj escrows_by_role_def)

lemma signer_key_inj: "signer_key s f = signer_key t g \<longleftrightarrow> s = t \<and> f = g"
  by (auto simp: signer_key_def filter_key_inj)

lemma serialized_is_inert: "CHR ''<'' \<notin> set (serializeJsonLd s)"
  by (auto simp: serializeJsonLd_def split: if_splits)

lemma serialized_plain: "CHR ''<'' \<notin> set s \<Longrightarrow> serializeJsonLd s = s"
  by (induction s) (auto simp: serializeJsonLd_def)

text \<open>No page of the sitemap is closed to crawlers, but every one but the first is redirected.\<close>

lemma sitemap_open: "list_all (\<lambda>p. list_all (\<lambda>d. \<not> startsWith p d) robots_disallow) (sitemap_paths ids)"
  by (simp add: sitemap_paths_def robots_disallow_def startsWith_def list_all_iff)

lemma sitemap_redirected: "list_all (\<lambda>p. redirects p \<noteq> None) (tl (sitemap_paths ids))"
  by (simp add: sitemap_paths_def redirects_def below_def startsWith_def list_all_iff)

lemma role_query_guarded: "role_enabled q \<Longrightarrow> escrows_by_role indexer q \<noteq> Inl ''Role is required to fetch escrows by role''
    \<or> (\<exists>e. indexer (the (rq_role q)) (rq_roleAddress q) (rq_filter q) = Inl e)"
  by (auto simp: role_enabled_def escrows_by_role_def split: sum.splits option.splits)
end
