(* ===== verification/Spec2Isabelle.thy ===== *)
theory Spec2Isabelle
  imports Dispute_Reports Dispute_Routes Refund_Routes Ownership_Properties Transfer_Routes
    Changelog_Routes Webhook_Properties Listing_Fraud Account_Routes Client_Dispute Client_Escrow
    Edge_Middleware Migration_Audit Csv_Export Analytics Review_Filter Client_Changelog
    Listing_Routes Balance_Monitor Client_Helpers Purchase_Escrow Wallet_Session
    Env_Types Escrow_Forms Escrow_Status Analytics_View
    Webhook_Relay Server_Api User_Admin Escrow_Dashboard Account_Security
    Purchase_Flow Wallet_Connect Dispute_Pages Booking Listing_Browse Live_Updates App_Pipeline
    Ticket_Transfer Guest_Pages Site_Shell Small_Pages Support_Tools
begin

text \<open>
  TrueStub: escrowed resale of tickets on Stellar
  ===============================================

  The program.  TrueStub is a marketplace where a ticket is paid into an escrow contract that the Trustless
  Work platform runs on the Stellar network. Its backend (\<open>apps/backend/src\<close>, an Express server) takes
  refund claims, disputes, ownership transfers, listings, account requests and the signed webhooks of the
  platform, keeps its working state in memory, and stores the rest in Hasura. Its frontend
  (\<open>apps/frontend/src\<close>, a Next.js application) has an edge middleware, server-side API routes that proxy
  the backend, session stores of its own, and pages that sign transactions with a wallet. This development
  translates the logic of both into HOL functions and states what makes each part correct.

  How the parts meet.  A request passes \<open>App_Error\<close> (authentication, error handler), a router, a service and
  ends in a store (\<open>Js_Map\<close>), in Hasura (\<open>Hasura_Service\<close>) or on chain (\<open>Trustless_Work\<close>). Services that
  move money or state leave entries in the changelog (\<open>Changelog_Service\<close>). The platform reports back over
  the webhook (\<open>Webhook\<close>), which notifies users (\<open>Notification_Service\<close>); deliveries may go through the
  frontend (\<open>Webhook_Relay\<close>). In the browser a visitor signs in (\<open>Sign_In\<close>), the middleware lets the
  request through (\<open>Edge_Middleware\<close>), and the pages deploy, fund and approve escrows through the wallet
  (\<open>Escrow_Forms\<close>, \<open>Escrow_Funding\<close>, \<open>Escrow_Mutations\<close>) and show them (\<open>Escrow_Dashboard\<close>).

  Which theory models what
  ------------------------
  Foundations.
    \<open>Js_Base\<close>, \<open>Js_Map\<close>, \<open>Js_Date\<close>   strings, truthiness, numbers, stable sort; \<open>Map\<close> with its
      insertion order and the locales \<open>key_store\<close>, \<open>insert_store\<close>, \<open>erase_store\<close>; dates
    \<open>Contracts\<close>   the locales \<open>life_cycle\<close> (a state machine with final states) and \<open>paged_query\<close>
    \<open>Paged_Table\<close>   the locales \<open>table_view\<close> and \<open>ordered_table\<close> (filter, sort, page)
    \<open>Http_Input\<close>   JSON values, zod field schemas
  Backend services and routers.
    \<open>App_Error\<close>   \<open>middleware/errorHandler.ts\<close>, \<open>middleware/auth.ts\<close>
    \<open>App_Pipeline\<close>   \<open>index.ts\<close>: the layers in front of the routers and, for the account routers that have
      none, their own checks; start-up, health, error tracking
    \<open>Changelog_Service\<close>, \<open>Changelog_Properties\<close>, \<open>Changelog_Routes\<close>   the audit log
    \<open>Trustless_Work\<close>, \<open>Refund_Service\<close>, \<open>Refund_Properties\<close>, \<open>Refund_Safety\<close>, \<open>Refund_Routes\<close>   refunds, from
      the HTTP request to the two requests that move the money
    \<open>Dispute_Service\<close>, \<open>Dispute_Properties\<close>, \<open>Dispute_Reports\<close>, \<open>Dispute_Routes\<close>   disputes
    \<open>Ownership_Transfer\<close>, \<open>Ownership_Properties\<close>, \<open>Transfer_Routes\<close>   transfers under a per-transfer lock
    \<open>Env_Config\<close>, \<open>Env_Types\<close>   \<open>config/env.ts\<close>
    \<open>Hasura_Service\<close>, \<open>Notification_Service\<close>, \<open>Webhook\<close>, \<open>Webhook_Properties\<close>   GraphQL, delivery, webhook
    \<open>Account_Routes\<close>, \<open>Migration_Audit\<close>, \<open>Listing_Fraud\<close>, \<open>Listing_Routes\<close>, \<open>Analytics\<close>, \<open>Balance_Monitor\<close>
  Frontend.
    \<open>Edge_Middleware\<close>   \<open>middleware.ts\<close>, \<open>lib/rate-limit.ts\<close>
    \<open>Utf8_Relay\<close>, \<open>Webhook_Relay\<close>   \<open>app/webhooks/escrow-status/route.ts\<close>, \<open>scripts/simulate-webhook.ts\<close>
    \<open>Server_Api\<close>   the routes under \<open>app/api\<close>, \<open>lib/server\<close>
    \<open>Client_Dispute\<close>, \<open>Client_Escrow\<close>, \<open>Client_Changelog\<close>, \<open>Client_Helpers\<close>, \<open>Review_Filter\<close>, \<open>Csv_Export\<close>
      the libraries under \<open>lib\<close>
    \<open>Wallet_Checks\<close>, \<open>Wallet_Session\<close>   address and trustline checks, the connected wallets
    \<open>Purchase_Escrow\<close>, \<open>Purchase_Flow\<close>   the escrow of a purchase and the pages around it
    \<open>Escrow_Mutations\<close>, \<open>Escrow_Funding\<close>, \<open>Escrow_Forms\<close>, \<open>Escrow_Status\<close>   \<open>components/tw-blocks\<close>,
      \<open>components/escrow/hook\<close>
    \<open>Sign_In\<close>, \<open>Account_Security\<close>   \<open>components/auth\<close>, \<open>lib/authTokenRefresh.ts\<close>
    \<open>Wallet_Connect\<close>   the wallet hooks under \<open>components/auth/wallet\<close>, \<open>XDRSigningFlow.tsx\<close>
    \<open>Dispute_Pages\<close>   \<open>components/dispute\<close> against the backend's history, \<open>lib/dispute-history-api.ts\<close>
    \<open>Booking\<close>   the booking blocks of \<open>components/ticket-listing\<close>, \<open>app/listing/page.tsx\<close>
    \<open>Listing_Browse\<close>   \<open>app/rent/page.tsx\<close>, \<open>components/dashboard/listings\<close>, \<open>lib/listing-alerts-api.ts\<close>
    \<open>Live_Updates\<close>   \<open>config/apollo.ts\<close>, the connection, the subscriptions, \<open>hooks/useFavorites.ts\<close>
    \<open>Ticket_Transfer\<close>   handing over a ticket (\<open>components/events\<close>), \<open>lib/booking-escrow-api.ts\<close>
    \<open>Guest_Pages\<close>   reviews, notification settings, the guest dashboard, suggestions, roles
    \<open>User_Admin\<close>, \<open>Escrow_Dashboard\<close>, \<open>Analytics_View\<close>, \<open>Small_Pages\<close>   the dashboard pages
    \<open>Support_Tools\<close>   the refund smoke test, timings, escrow queries, metadata for crawlers
    \<open>Site_Shell\<close>   \<open>next.config.ts\<close>, \<open>i18n/config.ts\<close>, \<open>app/dashboard/layout.tsx\<close>
\<close>

text \<open>
  How code becomes HOL
  --------------------
  An interface or object is a record whose fields carry a prefix, an enumeration a datatype, a \<open>Map\<close> a
  \<open>jmap\<close> (distinct keys in insertion order), \<open>undefined\<close> and \<open>null\<close> the value None, a thrown error the left
  side of a sum. A service operation is a function from its arguments and the state to an outcome and the
  new state; a handler gives a reply with a status and a body. A React component is the record of its
  state, a datatype of the events that reach it and a function that runs a list of them. Where handlers
  suspend at an await, the interleaving of several is an inductive step relation (\<open>refund_step\<close>,
  \<open>transfer_step\<close>) or a handler cut into its parts (\<open>webhook_admit\<close> and \<open>webhook_finish\<close>).

  Strings hold Latin-1 code units, times are milliseconds, and doubles are exact rationals with the
  special values named where the code can meet them. What is outside the repository is a parameter:
  Firebase, Hasura, fetch, the Stellar and Trustless Work SDKs, the wallet kit, Horizon, HMAC, the clock,
  randomness, JSON parsing, the e-mail and URL formats of zod, the collation of \<open>localeCompare\<close>, the
  password strength estimate, and the ambient request id (\<open>getRequestId\<close>, which three services import
  from \<open>middleware/requestLogger.ts\<close>, where it does not exist: there the call throws).

  Loops and bounds
  ----------------
  Paged reads of a history run on fuel, and enough fuel is one more than the number of rows. The reader of
  an exported file runs on the length of its text. Delivery attempts (five) and submission attempts (three)
  are counted down as the code counts them. The analytics loops follow the server, which may page for ever:
  they are partial functions, and \<open>analytics_route_answers\<close> shows that they return for a server that pages a
  fixed table.

  What the lemmas show
  --------------------
  Money: a refund is executed at most once per id under every interleaving, not again while its claim is on
  record, and pays exactly its claim; a funding is asked for only with a valid amount and sent exactly when it
  was signed; a deploy form sends its payload at most three
  times. State machines: disputes follow the documented diagram, client and backend agree, a transfer is
  finalised once and the lock never deadlocks. Records: the changelog is write-once and its events rebuild
  it. Trust: a webhook takes effect only with a valid signature and only once, the relay in front of it
  changes nothing, the server routes forward only what they validated, sessions come from issued tokens.
  Reports: analytics, audits, exports and tables are exactly what their inputs say. And the errors: a
  failed refund is not retried before the retention sweep frees its id, an account deletion can end without
  its audit line, a dead letter can be lost, the dispute form shows success whatever the chain answers,
  signing out leaves the cookies, concurrent approvals overwrite one another on the page, the confirmation
  of a purchase is never reached, a review goes nowhere, the pages below /rent are shadowed by a redirect,
  and the refund smoke test can only fail.

  Not modelled
  ------------
  Markup and styling of the components, and those that only render what they are given; translations, sample
  data, GraphQL documents and caches; hooks that pass their arguments on; the inside of the third-party
  layers of the server (cors, helmet, pino, the rate limiter, the Sentry clients), of which only the order and
  what they let through is modelled; and the sample contract in Rust. The listing
  alert service and \<open>EscrowTable.tsx\<close> do not parse, so there is nothing to translate; the alert service is a
  parameter of its routes. Modules the sources import and the repository lacks (the escrow service of the
  listing routes, the Postgres client, the network check of the server) are parameters or are left out, and
  the theories say where.
\<close>

end
